(* ===== verification/Prelude.thy ===== *)
theory Prelude
  imports Complex_Main
begin

section \<open>Shared vocabulary of the development\<close>

text \<open>
  Type synonyms for the identifiers and instants of the control plane, the collections of
  rewrite rules the component theories share, the table operations that stand for the SQL
  statements of the stores (a table is the list of its rows, in insertion order), and the
  string primitives of JavaScript that the domain package and the validators use.
\<close>

type_synonym uuid = string
type_synonym millis = int

named_theorems table_simps "lookups, inserts and updates on tables"
named_theorems step_defs "definitions unfolded to run one step of a component"

subsection \<open>Results: the error on the left, the value on the right\<close>

definition res_bind :: "'e + 'a \<Rightarrow> ('a \<Rightarrow> 'e + 'b) \<Rightarrow> 'e + 'b" where
  "res_bind r f = (case r of Inl e \<Rightarrow> Inl e | Inr a \<Rightarrow> f a)"

lemma res_bind_simps [simp]:
  "res_bind (Inl e) f = Inl e"
  "res_bind (Inr a) f = f a"
  by (simp_all add: res_bind_def)

lemma res_bind_Inr_iff: "res_bind r f = Inr b \<longleftrightarrow> (\<exists>a. r = Inr a \<and> f a = Inr b)"
  by (cases r) auto

lemma res_bind_Inl_iff:
  "res_bind r f = Inl e \<longleftrightarrow> r = Inl e \<or> (\<exists>a. r = Inr a \<and> f a = Inl e)"
  by (cases r) auto

lemma res_bind_InrE [elim!]:
  assumes "res_bind r f = Inr b"
  obtains a where "r = Inr a" and "f a = Inr b"
  using assms by (auto simp: res_bind_Inr_iff)

text \<open>A guard of the source: throw the error when the condition holds.\<close>

definition throw_if :: "bool \<Rightarrow> 'e \<Rightarrow> 'e + unit" where
  "throw_if c e = (if c then Inl e else Inr ())"

lemma throw_if_Inr [simp]: "throw_if c e = Inr u \<longleftrightarrow> \<not> c"
  by (simp add: throw_if_def)

lemma throw_if_Inl [simp]: "throw_if c e = Inl e' \<longleftrightarrow> c \<and> e' = e"
  by (auto simp: throw_if_def)

lemma throw_if_bind [simp]:
  "res_bind (throw_if c e) f = (if c then Inl e else f ())"
  by (simp add: throw_if_def)

text \<open>A nullable value of the source, with the error a missing one raises.\<close>

definition require :: "'e \<Rightarrow> 'a option \<Rightarrow> 'e + 'a" where
  "require e x = (case x of None \<Rightarrow> Inl e | Some a \<Rightarrow> Inr a)"

lemma require_simps [simp]:
  "require e None = Inl e"
  "require e (Some a) = Inr a"
  by (simp_all add: require_def)

lemma require_Inr [simp]: "require e x = Inr a \<longleftrightarrow> x = Some a"
  by (cases x) auto

lemma require_Inl [simp]: "require e x = Inl e' \<longleftrightarrow> x = None \<and> e' = e"
  by (cases x) auto

subsection \<open>Tables\<close>

text \<open>
  \<open>lookup_by key k rows\<close> is a \<^verbatim>\<open>SELECT\<close> by a unique column, \<open>update_where P f rows\<close> an
  \<^verbatim>\<open>UPDATE ... WHERE\<close>, \<open>insert_unique key r rows\<close> an \<^verbatim>\<open>INSERT\<close> guarded by a unique
  constraint (\<open>None\<close> when the constraint is violated).
\<close>

definition lookup_by :: "('r \<Rightarrow> 'k) \<Rightarrow> 'k \<Rightarrow> 'r list \<Rightarrow> 'r option" where
  "lookup_by key k rows = find (\<lambda>r. key r = k) rows"

definition update_where :: "('r \<Rightarrow> bool) \<Rightarrow> ('r \<Rightarrow> 'r) \<Rightarrow> 'r list \<Rightarrow> 'r list" where
  "update_where P f rows = map (\<lambda>r. if P r then f r else r) rows"

definition insert_unique :: "('r \<Rightarrow> 'k) \<Rightarrow> 'r \<Rightarrow> 'r list \<Rightarrow> 'r list option" where
  "insert_unique key r rows =
     (if key r \<in> set (map key rows) then None else Some (rows @ [r]))"

definition unique_keys :: "('r \<Rightarrow> 'k) \<Rightarrow> 'r list \<Rightarrow> bool" where
  "unique_keys key rows \<longleftrightarrow> distinct (map key rows)"

lemma lookup_by_Nil [simp]: "lookup_by key k [] = None"
  by (simp add: lookup_by_def)

lemma lookup_by_Cons [simp]:
  "lookup_by key k (r # rows) = (if key r = k then Some r else lookup_by key k rows)"
  by (simp add: lookup_by_def)

lemma lookup_by_SomeD: "lookup_by key k rows = Some r \<Longrightarrow> r \<in> set rows \<and> key r = k"
  by (induction rows) (auto split: if_splits)

lemma lookup_by_None_iff: "lookup_by key k rows = None \<longleftrightarrow> k \<notin> set (map key rows)"
  by (induction rows) (auto split: if_splits)

lemma lookup_by_append [table_simps]:
  "lookup_by key k (xs @ ys) =
     (case lookup_by key k xs of None \<Rightarrow> lookup_by key k ys | Some r \<Rightarrow> Some r)"
  by (induction xs) auto

lemma lookup_by_unique:
  "unique_keys key rows \<Longrightarrow> r \<in> set rows \<Longrightarrow> lookup_by key (key r) rows = Some r"
  by (induction rows) (auto simp: unique_keys_def rev_image_eqI)

lemma update_where_simps [simp]:
  "update_where P f [] = []"
  "update_where P f (r # rows) = (if P r then f r else r) # update_where P f rows"
  by (simp_all add: update_where_def)

lemma length_update_where [simp]: "length (update_where P f rows) = length rows"
  by (simp add: update_where_def)

lemma set_update_where: "set (update_where P f rows) = (\<lambda>r. if P r then f r else r) ` set rows"
  by (simp add: update_where_def)

lemma lookup_by_update_where [table_simps]:
  assumes "\<And>r. key (f r) = key r"
  shows "lookup_by key k (update_where P f rows) =
           map_option (\<lambda>r. if P r then f r else r) (lookup_by key k rows)"
  by (induction rows) (auto simp: assms)

lemma lookup_by_update_same:
  assumes "\<And>r. key (f r) = key r"
  shows "lookup_by key k (update_where (\<lambda>r. key r = k) f rows) = map_option f (lookup_by key k rows)"
  by (induction rows) (auto simp: assms)

lemma lookup_by_update_other:
  assumes "\<And>r. key (f r) = key r" and "k \<noteq> k'"
  shows "lookup_by key k (update_where (\<lambda>r. key r = k') f rows) = lookup_by key k rows"
  using assms(2) by (induction rows) (auto simp: assms(1))

lemma map_update_where_key:
  assumes "\<And>r. g (f r) = g r"
  shows "map g (update_where P f rows) = map g rows"
  by (induction rows) (auto simp: assms)

lemma unique_keys_update_where [table_simps]:
  "(\<And>r. key (f r) = key r) \<Longrightarrow> unique_keys key (update_where P f rows) = unique_keys key rows"
  by (simp add: unique_keys_def map_update_where_key)

lemma insert_unique_Some_iff [simp]:
  "insert_unique key r rows = Some rows' \<longleftrightarrow>
     lookup_by key (key r) rows = None \<and> rows' = rows @ [r]"
  by (auto simp: insert_unique_def lookup_by_None_iff)

lemma insert_unique_None_iff [simp]:
  "insert_unique key r rows = None \<longleftrightarrow> lookup_by key (key r) rows \<noteq> None"
  by (auto simp: insert_unique_def lookup_by_None_iff)

lemma unique_keys_insert [table_simps]:
  "unique_keys key (rows @ [r]) \<longleftrightarrow> unique_keys key rows \<and> lookup_by key (key r) rows = None"
  by (auto simp: unique_keys_def lookup_by_None_iff)

end
