(* ===== verification/Js_Encoding.thy ===== *)
theory Js_Encoding
  imports Js
begin

section \<open>Number conversion and base64 of the JavaScript runtime\<close>

text \<open>
  The two conversions of the language's standard library whose corner cases the domain package
  depends on: \<^verbatim>\<open>Number(text)\<close>, which \<^verbatim>\<open>allocateIpv4\<close> applies to the prefix length, and \<^verbatim>\<open>atob\<close>, which
  decodes the body of an SSH public key. \<open>btoa\<close> is the encoder of the same alphabet; it only
  serves to state the round trip.
\<close>

subsection \<open>\<open>Number(text)\<close>\<close>

definition radix_digit :: "char \<Rightarrow> nat" where
  "radix_digit c =
     (if is_digit c then code_unit c - 48
      else if is_lower c then code_unit c - 87
      else if is_upper c then code_unit c - 55
      else 36)"

definition radix_number :: "nat \<Rightarrow> string \<Rightarrow> rat option" where
  "radix_number b s =
     (if s \<noteq> [] \<and> list_all (\<lambda>c. radix_digit c < b) s
      then Some (of_nat (foldl (\<lambda>n c. b * n + radix_digit c) 0 s)) else None)"

definition exponent_part :: "string \<Rightarrow> int option" where
  "exponent_part s =
     (case s of
        [] \<Rightarrow> Some 0
      | c # r \<Rightarrow>
          if c \<noteq> CHR ''e'' \<and> c \<noteq> CHR ''E'' then None
          else let neg = (r \<noteq> [] \<and> hd r = CHR ''-'');
                   ds = (if r \<noteq> [] \<and> (hd r = CHR ''-'' \<or> hd r = CHR ''+'') then tl r else r)
               in if ds \<noteq> [] \<and> list_all is_digit ds
                  then Some (if neg then - int (dec_value ds) else int (dec_value ds)) else None)"

definition scale_by_ten :: "rat \<Rightarrow> int \<Rightarrow> rat" where
  "scale_by_ten q e = (if e < 0 then q / 10 ^ nat (- e) else q * 10 ^ nat e)"

definition decimal_number :: "string \<Rightarrow> rat option" where
  "decimal_number s =
     (let ip = takeWhile is_digit s;
          r1 = dropWhile is_digit s;
          dot = (r1 \<noteq> [] \<and> hd r1 = CHR ''.'');
          fp = (if dot then takeWhile is_digit (tl r1) else []);
          r2 = (if dot then dropWhile is_digit (tl r1) else r1)
      in if ip = [] \<and> fp = [] then None
         else map_option (\<lambda>e. scale_by_ten (of_nat (dec_value (ip @ fp))) (e - int (length fp)))
                (exponent_part r2))"

definition js_number :: "string \<Rightarrow> rat option" where
  "js_number text =
     (let s = js_trim text in
      if s = [] then Some 0
      else if take 2 s = ''0x'' \<or> take 2 s = ''0X'' then radix_number 16 (drop 2 s)
      else if take 2 s = ''0o'' \<or> take 2 s = ''0O'' then radix_number 8 (drop 2 s)
      else if take 2 s = ''0b'' \<or> take 2 s = ''0B'' then radix_number 2 (drop 2 s)
      else if hd s = CHR ''-'' then map_option uminus (decimal_number (tl s))
      else if hd s = CHR ''+'' then decimal_number (tl s)
      else decimal_number s)"

text \<open>\<^verbatim>\<open>Number.isInteger\<close>, with the integer it holds.\<close>

definition js_integer :: "rat option \<Rightarrow> int option" where
  "js_integer q =
     (case q of None \<Rightarrow> None
      | Some r \<Rightarrow> if of_int \<lfloor>r\<rfloor> = r then Some \<lfloor>r\<rfloor> else None)"

lemma js_trim_no_space: "\<forall>c \<in> set s. \<not> is_space c \<Longrightarrow> js_trim s = s"
proof -
  have keep: "dropWhile is_space t = t" if "\<forall>c \<in> set t. \<not> is_space c" for t
    using that by (cases t) auto
  assume "\<forall>c \<in> set s. \<not> is_space c"
  then show ?thesis by (simp add: js_trim_def keep)
qed

lemma digit_not_space: "is_digit c \<Longrightarrow> \<not> is_space c"
  by (simp add: is_digit_def is_space_def)

lemma takeWhile_all: "\<forall>c \<in> set s. P c \<Longrightarrow> takeWhile P s = s \<and> dropWhile P s = []"
  by (simp add: dropWhile_eq_Nil_conv takeWhile_eq_all_conv)

lemma decimal_number_digits:
  "s \<noteq> [] \<Longrightarrow> \<forall>c \<in> set s. is_digit c \<Longrightarrow> decimal_number s = Some (of_nat (dec_value s))"
  by (simp add: decimal_number_def takeWhile_all exponent_part_def scale_by_ten_def)

lemma show_nat_nonempty [simp]: "show_nat n \<noteq> []"
  by (simp add: show_nat.simps [of n])

lemma js_number_show_nat [simp]: "js_number (show_nat n) = Some (of_nat n)"
proof -
  let ?s = "show_nat n"
  have dig: "\<forall>c \<in> set ?s. is_digit c" by (rule show_nat_digits)
  then have trim: "js_trim ?s = ?s" by (simp add: js_trim_no_space digit_not_space)
  have hd_dig: "is_digit (hd ?s)" using dig by simp
  have second: "take 2 ?s \<noteq> [a, b]" if "\<not> is_digit b" for a b
  proof
    assume "take 2 ?s = [a, b]"
    then have "b \<in> set (take 2 ?s)" by simp
    then have "b \<in> set ?s" by (rule in_set_takeD)
    with dig that show False by blast
  qed
  have sign: "hd ?s \<noteq> CHR ''-''" "hd ?s \<noteq> CHR ''+''"
    using hd_dig by (auto simp: is_digit_def code_unit_def)
  show ?thesis
    using sign decimal_number_digits [OF show_nat_nonempty dig]
    by (simp add: js_number_def trim second is_digit_def code_unit_def)
qed

lemma js_integer_of_nat [simp]: "js_integer (Some (of_nat n)) = Some (int n)"
  by (simp add: js_integer_def)

subsection \<open>\<open>atob\<close>\<close>

definition sextet :: "char \<Rightarrow> nat option" where
  "sextet c =
     (if is_upper c then Some (code_unit c - 65)
      else if is_lower c then Some (code_unit c - 71)
      else if is_digit c then Some (code_unit c + 4)
      else if c = CHR ''+'' then Some 62
      else if c = CHR ''/'' then Some 63 else None)"

definition sextet_char :: "nat \<Rightarrow> char" where
  "sextet_char n =
     (if n < 26 then char_of (n + 65)
      else if n < 52 then char_of (n + 71)
      else if n < 62 then char_of (n - 4)
      else if n = 62 then CHR ''+'' else CHR ''/'')"

fun decode_sextets :: "nat list \<Rightarrow> string option" where
  "decode_sextets [] = Some []"
| "decode_sextets [a] = None"
| "decode_sextets [a, b] = Some [char_of (a * 4 + b div 16)]"
| "decode_sextets [a, b, c] =
     Some [char_of (a * 4 + b div 16), char_of ((b mod 16) * 16 + c div 4)]"
| "decode_sextets (a # b # c # d # rest) =
     map_option (\<lambda>t. char_of (a * 4 + b div 16) # char_of ((b mod 16) * 16 + c div 4) #
                     char_of ((c mod 4) * 64 + d) # t)
       (decode_sextets rest)"

definition strip_padding :: "string \<Rightarrow> string" where
  "strip_padding s =
     (if length s mod 4 \<noteq> 0 then s
      else if drop (length s - 2) s = ''=='' then take (length s - 2) s
      else if drop (length s - 1) s = ''='' then take (length s - 1) s else s)"

definition atob :: "string \<Rightarrow> string option" where
  "atob text =
     (let s = strip_padding (filter (\<lambda>c. \<not> (is_space c \<and> code_unit c \<noteq> 11 \<and> code_unit c \<noteq> 160)) text)
      in if list_all (\<lambda>c. sextet c \<noteq> None) s
         then decode_sextets (map (\<lambda>c. the (sextet c)) s) else None)"

text \<open>The encoder, and the grammar its output has.\<close>

fun encode_sextets :: "string \<Rightarrow> nat list" where
  "encode_sextets [] = []"
| "encode_sextets [x] = [code_unit x div 4, (code_unit x mod 4) * 16]"
| "encode_sextets [x, y] =
     [code_unit x div 4, (code_unit x mod 4) * 16 + code_unit y div 16, (code_unit y mod 16) * 4]"
| "encode_sextets (x # y # z # rest) =
     (code_unit x div 4) # ((code_unit x mod 4) * 16 + code_unit y div 16) #
     ((code_unit y mod 16) * 4 + code_unit z div 64) # (code_unit z mod 64) # encode_sextets rest"

definition btoa :: "string \<Rightarrow> string" where
  "btoa s = map sextet_char (encode_sextets s) @
     replicate ((3 - length s mod 3) mod 3) (CHR ''='')"

lemma code_unit_less: "code_unit c < 256"
  by (simp add: code_unit_def)

lemma char_of_code_unit [simp]: "char_of (code_unit c) = c"
  by (simp add: code_unit_def)

lemma encode_sextets_bound: "\<forall>n \<in> set (encode_sextets s). n < 64"
proof (induction s rule: encode_sextets.induct)
  case (2 x)
  show ?case using code_unit_less [of x] by auto
next
  case (3 x y)
  show ?case using code_unit_less [of x] code_unit_less [of y] by auto
next
  case (4 x y z rest)
  then show ?case
    using code_unit_less [of x] code_unit_less [of y] code_unit_less [of z] by auto
qed simp

lemma code_unit_parts [simp]:
  "code_unit c div 16 div 16 = 0"
  "code_unit c div 16 mod 16 = code_unit c div 16"
  "code_unit c div 64 div 4 = 0"
  "code_unit c div 64 mod 4 = code_unit c div 64"
proof -
  have "code_unit c div 16 < 16" "code_unit c div 64 < 4"
    using code_unit_less [of c] by (simp_all add: less_mult_imp_div_less)
  then show "code_unit c div 16 div 16 = 0" "code_unit c div 16 mod 16 = code_unit c div 16"
    "code_unit c div 64 div 4 = 0" "code_unit c div 64 mod 4 = code_unit c div 64"
    by simp_all
qed

lemma decode_encode_sextets [simp]: "decode_sextets (encode_sextets s) = Some s"
  by (induction s rule: encode_sextets.induct) simp_all

lemma length_encode_sextets:
  "length (encode_sextets s) = length s + length s div 3 + (if length s mod 3 = 0 then 0 else 1)"
  by (induction s rule: encode_sextets.induct) (auto simp: mod_Suc div_Suc)

lemma sextet_char_ok: "n < 64 \<Longrightarrow> sextet (sextet_char n) = Some n"
  by (auto simp: sextet_char_def sextet_def is_upper_def is_lower_def is_digit_def code_unit_def)

lemma sextet_char_props:
  assumes "n < 64"
  shows "\<not> is_space (sextet_char n)" "sextet_char n \<noteq> CHR ''=''"
    "is_alnum (sextet_char n) \<or> sextet_char n = CHR ''+'' \<or> sextet_char n = CHR ''/''"
  using sextet_char_ok [OF assms]
  by (auto simp: sextet_def char_class_defs split: if_splits)

lemma strip_padding_replicate:
  assumes "CHR ''='' \<notin> set w" and "(length w + k) mod 4 = 0" and "k \<le> 2"
  shows "strip_padding (w @ replicate k (CHR ''='')) = w"
proof -
  have nodrop: "drop n w \<noteq> ''=''" "drop n w \<noteq> ''==''" for n
    using assms(1) by (metis in_set_dropD list.set_intros(1))+
  consider "k = 0" | "k = 1" | "k = 2" using assms(3) by linarith
  then show ?thesis
  proof cases
    case 1
    then show ?thesis by (simp add: strip_padding_def nodrop)
  next
    case 2
    have "w @ [c] = v @ [c] \<longleftrightarrow> w = v" for v w :: string and c by simp
    then have "drop (length w - Suc 0) w @ ''='' \<noteq> ''==''"
      using nodrop(1) [of "length w - Suc 0"] by (metis append_Cons append_Nil)
    moreover have "drop (Suc (length w) - 2) (w @ ''='') = drop (length w - Suc 0) w @ ''=''"
      by (simp add: numeral_2_eq_2)
    ultimately show ?thesis using 2 assms(2) by (simp add: strip_padding_def)
  next
    case 3
    then show ?thesis using assms(2) by (simp add: strip_padding_def numeral_2_eq_2)
  qed
qed

lemma length_btoa: "length (btoa s) mod 4 = 0"
proof -
  define q where "q = length s div 3"
  have n: "length s = 3 * q + length s mod 3" by (simp add: q_def)
  have "length s mod 3 = 0 \<or> length s mod 3 = 1 \<or> length s mod 3 = 2" by presburger
  then have "length (btoa s) = 4 * q \<or> length (btoa s) = 4 * Suc q"
    using n by (auto simp: btoa_def length_encode_sextets simp flip: q_def)
  then show ?thesis by auto
qed

lemma sextet_chars:
  "\<forall>c \<in> set (map sextet_char (encode_sextets s)).
     \<not> is_space c \<and> c \<noteq> CHR ''='' \<and> (is_alnum c \<or> c = CHR ''+'' \<or> c = CHR ''/'')"
  using encode_sextets_bound [of s] sextet_char_props by auto

lemma atob_btoa [simp]: "atob (btoa s) = Some s"
proof -
  let ?es = "map sextet_char (encode_sextets s)"
  let ?k = "(3 - length s mod 3) mod 3"
  have keep: "filter (\<lambda>c. \<not> (is_space c \<and> code_unit c \<noteq> 11 \<and> code_unit c \<noteq> 160)) (btoa s) = btoa s"
    using sextet_chars [of s] by (auto simp: btoa_def filter_id_conv is_space_def code_unit_def)
  have strip: "strip_padding (btoa s) = ?es"
    unfolding btoa_def
    by (rule strip_padding_replicate)
      (use sextet_chars [of s] length_btoa [of s] in \<open>auto simp: btoa_def\<close>)
  have valid: "list_all (\<lambda>c. sextet c \<noteq> None) ?es"
    using encode_sextets_bound [of s] by (auto simp: list_all_iff sextet_char_ok)
  have "map (\<lambda>c. the (sextet c)) ?es = encode_sextets s"
    using encode_sextets_bound [of s] by (auto simp: map_idI sextet_char_ok)
  with valid show ?thesis unfolding atob_def keep strip Let_def by simp
qed

end
