(* ===== verification/Json.thy ===== *)
theory Json
  imports Js_Encoding
begin

section \<open>JSON values and conversions of the JavaScript runtime\<close>

text \<open>
  The values \<^verbatim>\<open>JSON.stringify\<close> and the message validators work on, their serialisation, and the
  conversions \<^verbatim>\<open>String(value)\<close> and \<^verbatim>\<open>Date.prototype.toISOString\<close> the source applies to them.
\<close>

text \<open>
  Values as \<^verbatim>\<open>JSON.stringify\<close> sees them. An object is the list of its own enumerable entries in
  enumeration order. Numbers are integers: every number that reaches a hash is one.
\<close>

datatype json =
    JNull
  | JUndefined
  | JBool bool
  | JNum int
  | JStr string
  | JArr "json list"
  | JObj "(string \<times> json) list"

definition is_defined :: "json \<Rightarrow> bool" where
  "is_defined v \<longleftrightarrow> v \<noteq> JUndefined"

definition hex_digit :: "nat \<Rightarrow> char" where
  "hex_digit n = (if n < 10 then char_of (48 + n) else char_of (87 + n))"

definition escape_char :: "char \<Rightarrow> string" where
  "escape_char c =
     (if c = CHR 0x22 then [CHR 0x5C, CHR 0x22]
      else if c = CHR 0x5C then [CHR 0x5C, CHR 0x5C]
      else if code_unit c = 8 then [CHR 0x5C, CHR ''b'']
      else if code_unit c = 12 then [CHR 0x5C, CHR ''f'']
      else if code_unit c = 10 then [CHR 0x5C, CHR ''n'']
      else if code_unit c = 13 then [CHR 0x5C, CHR ''r'']
      else if code_unit c = 9 then [CHR 0x5C, CHR ''t'']
      else if code_unit c < 32 then
        [CHR 0x5C, CHR ''u'', CHR ''0'', CHR ''0'',
         hex_digit (code_unit c div 16), hex_digit (code_unit c mod 16)]
      else [c])"

definition quote_string :: "string \<Rightarrow> string" where
  "quote_string s = CHR 0x22 # concat (map escape_char s) @ [CHR 0x22]"

definition show_int :: "int \<Rightarrow> string" where
  "show_int i = (if i < 0 then CHR ''-'' # show_nat (nat (- i)) else show_nat (nat i))"

fun stringify :: "json \<Rightarrow> string" where
  "stringify JNull = ''null''"
| "stringify JUndefined = ''null''"
| "stringify (JBool b) = (if b then ''true'' else ''false'')"
| "stringify (JNum i) = show_int i"
| "stringify (JStr s) = quote_string s"
| "stringify (JArr items) = CHR ''['' # join_with (CHR '','') (map stringify items) @ '']''"
| "stringify (JObj kvs) =
     CHR ''{'' # join_with (CHR '','')
       (map (\<lambda>(k, item). quote_string k @ CHR '':'' # stringify item)
         (filter (\<lambda>(k, item). is_defined item) kvs)) @ ''}''"

subsection \<open>Conversions of the runtime\<close>

text \<open>\<^verbatim>\<open>String(value)\<close>: an array is the comma-separated list of its elements.\<close>

fun js_string :: "json \<Rightarrow> string" where
  "js_string JNull = ''null''"
| "js_string JUndefined = ''undefined''"
| "js_string (JBool b) = (if b then ''true'' else ''false'')"
| "js_string (JNum i) = show_int i"
| "js_string (JStr s) = s"
| "js_string (JArr items) =
     join_with (CHR '','')
       (map (\<lambda>v. if v = JNull \<or> v = JUndefined then [] else js_string v) items)"
| "js_string (JObj kvs) = ''[object Object]''"

text \<open>\<^verbatim>\<open>value.key\<close> on an object of the model.\<close>

definition get_field :: "(string \<times> json) list \<Rightarrow> string \<Rightarrow> json" where
  "get_field kvs k = (case map_of kvs k of None \<Rightarrow> JUndefined | Some v \<Rightarrow> v)"

lemma get_field_simps [simp]:
  "get_field [] k = JUndefined"
  "get_field ((k', v) # kvs) k = (if k = k' then v else get_field kvs k)"
  by (simp_all add: get_field_def)

text \<open>
  \<^verbatim>\<open>new Date(t).toISOString()\<close> for an instant in milliseconds: the civil date of the day count
  since 1970-01-01 in the proleptic Gregorian calendar, then the time of day.
\<close>

definition pad :: "nat \<Rightarrow> int \<Rightarrow> string" where
  "pad n i = (let s = show_nat (nat i) in replicate (n - length s) (CHR ''0'') @ s)"

definition civil_of_days :: "int \<Rightarrow> int \<times> int \<times> int" where
  "civil_of_days days =
     (let z = days + 719468;
          era = z div 146097;
          doe = z mod 146097;
          yoe = (doe - doe div 1460 + doe div 36524 - doe div 146096) div 365;
          doy = doe - (365 * yoe + yoe div 4 - yoe div 100);
          mp = (5 * doy + 2) div 153;
          d = doy - (153 * mp + 2) div 5 + 1;
          m = (if mp < 10 then mp + 3 else mp - 9);
          y = yoe + era * 400 + (if m \<le> 2 then 1 else 0)
      in (y, m, d))"

definition show_year :: "int \<Rightarrow> string" where
  "show_year y =
     (if 0 \<le> y \<and> y \<le> 9999 then pad 4 y
      else (if y < 0 then ''-'' else ''+'') @ pad 6 (abs y))"

definition toISOString :: "millis \<Rightarrow> string" where
  "toISOString t =
     (let days = t div 86400000;
          ms = t mod 86400000;
          (y, m, d) = civil_of_days days
      in show_year y @ ''-'' @ pad 2 m @ ''-'' @ pad 2 d @ ''T'' @
         pad 2 (ms div 3600000) @ '':'' @ pad 2 (ms div 60000 mod 60) @ '':'' @
         pad 2 (ms div 1000 mod 60) @ ''.'' @ pad 3 (ms mod 1000) @ ''Z'')"

text \<open>The truthiness of a nullable string: present and not empty.\<close>

definition truthy :: "string option \<Rightarrow> bool" where
  "truthy s \<longleftrightarrow> s \<noteq> None \<and> s \<noteq> Some []"

lemma truthy_simps [simp]:
  "\<not> truthy None"
  "truthy (Some s) \<longleftrightarrow> s \<noteq> []"
  by (simp_all add: truthy_def)

end
