(* ===== verification/Canonical_Json.thy ===== *)
theory Canonical_Json
  imports Json "HOL-Library.Sorting_Algorithms" "HOL-Library.Multiset"
begin

section \<open>Canonical JSON and its hash\<close>

text \<open>
  Model of the hashing part of \<^verbatim>\<open>packages/domain/src/index.ts\<close>. Sha-256 and the collation of \<^verbatim>\<open>localeCompare\<close> are parameters.
\<close>

text \<open>Enumeration order of an object built from entries: array-index keys first, ascending.\<close>

definition is_index_key :: "string \<Rightarrow> bool" where
  "is_index_key k \<longleftrightarrow> k \<noteq> [] \<and> list_all is_digit k \<and> (k = ''0'' \<or> hd k \<noteq> CHR ''0'') \<and>
     dec_value k < 2 ^ 32 - 1"

definition from_entries :: "(string \<times> json) list \<Rightarrow> (string \<times> json) list" where
  "from_entries kvs =
     sort_key (\<lambda>kv. dec_value (fst kv)) (filter (\<lambda>kv. is_index_key (fst kv)) kvs) @
     filter (\<lambda>kv. \<not> is_index_key (fst kv)) kvs"

text \<open>Sorting the recursive images instead of the entries gives the same list, since only keys are compared.\<close>

fun canonicalValue :: "string comparator \<Rightarrow> json \<Rightarrow> json" where
  "canonicalValue cmp (JArr items) = JArr (map (canonicalValue cmp) items)"
| "canonicalValue cmp (JObj kvs) =
     JObj (from_entries (Sorting_Algorithms.sort (Comparator.key fst cmp)
       (map (\<lambda>(k, item). (k, canonicalValue cmp item))
         (filter (\<lambda>(k, item). is_defined item) kvs))))"
| "canonicalValue cmp v = v"

definition canonicalJson :: "string comparator \<Rightarrow> json \<Rightarrow> string" where
  "canonicalJson cmp v = stringify (canonicalValue cmp v)"

definition canonicalSha256 :: "string comparator \<Rightarrow> (string \<Rightarrow> string) \<Rightarrow> json \<Rightarrow> string" where
  "canonicalSha256 cmp sha256 v = sha256 (canonicalJson cmp v)"

text \<open>Two values that differ only in the order of object entries and in undefined entries.\<close>

inductive same_request :: "json \<Rightarrow> json \<Rightarrow> bool" where
  same_atom: "same_request v v"
| same_arr: "list_all2 same_request xs ys \<Longrightarrow> same_request (JArr xs) (JArr ys)"
| same_obj: "list_all2 (\<lambda>x y. fst x = fst y \<and> same_request (snd x) (snd y))
       (filter (\<lambda>(k, v). is_defined v) kvs) zs \<Longrightarrow>
     mset zs = mset (filter (\<lambda>(k, v). is_defined v) kvs') \<Longrightarrow>
     distinct (map fst zs) \<Longrightarrow>
     same_request (JObj kvs) (JObj kvs')"

text \<open>The keys of the defined entries at any depth, and a collation that tells each two of them apart.\<close>

fun json_keys :: "json \<Rightarrow> string list" where
  "json_keys (JArr items) = concat (map json_keys items)"
| "json_keys (JObj kvs) =
     concat (map (\<lambda>(k, item). k # json_keys item) (filter (\<lambda>(k, item). is_defined item) kvs))"
| "json_keys v = []"

definition tells_apart :: "string comparator \<Rightarrow> string list \<Rightarrow> bool" where
  "tells_apart cmp ks \<longleftrightarrow> (\<forall>a \<in> set ks. \<forall>b \<in> set ks. compare cmp a b = Equiv \<longrightarrow> a = b)"

lemma tells_apart_mono: "tells_apart cmp ks \<Longrightarrow> set ks' \<subseteq> set ks \<Longrightarrow> tells_apart cmp ks'"
  unfolding tells_apart_def by blast

lemma sort_by_distinct_keys:
  assumes "mset xs = mset ys" and "distinct (map fst xs)"
    and "tells_apart cmp (map fst xs)"
  shows "Sorting_Algorithms.sort (Comparator.key fst cmp) xs =
         Sorting_Algorithms.sort (Comparator.key fst cmp) ys"
proof (rule sort_eqI)
  let ?c = "Comparator.key fst cmp"
  show "mset xs = mset (Sorting_Algorithms.sort ?c ys)" by (simp add: assms(1))
  show "Sorting_Algorithms.sorted ?c (Sorting_Algorithms.sort ?c ys)" by simp
  fix l assume l: "l \<in> set xs"
  have "distinct xs" using assms(2) by (simp add: distinct_map)
  then have dys: "distinct ys" using assms(1) by (metis mset_eq_imp_distinct_iff)
  have eq: "compare ?c l x = Equiv \<longleftrightarrow> x = l" if "x \<in> set xs" for x
    using that l assms(2,3) by (auto simp: compare_key_apply distinct_map inj_on_def tells_apart_def)
  have set_eq: "set ys = set xs" using assms(1) by (metis mset_eq_setD)
  have one: "filter (\<lambda>x. x = l) zs = [l]" if "distinct zs" "l \<in> set zs" for zs
    using that by (induction zs) (auto simp: filter_empty_conv)
  have "stable_segment ?c l xs = [l]"
    using one [OF \<open>distinct xs\<close> l] eq by (simp cong: filter_cong)
  moreover have "filter (\<lambda>x. compare ?c l x = Equiv) ys = filter (\<lambda>x. x = l) ys"
    using eq set_eq by (intro filter_cong) auto
  then have "stable_segment ?c l ys = [l]"
    using one [OF dys] l set_eq by simp
  ultimately show "stable_segment ?c l xs = stable_segment ?c l (Sorting_Algorithms.sort ?c ys)"
    by (simp only: stable_sort)
qed

lemma canonicalValue_same:
  assumes "same_request v w" and "tells_apart cmp (json_keys v)"
  shows "canonicalValue cmp v = canonicalValue cmp w"
  using assms
proof (induction rule: same_request.induct)
  case (same_arr xs ys)
  have "tells_apart cmp (json_keys x)" if "x \<in> set xs" for x
    by (rule tells_apart_mono [OF same_arr.prems]) (use that in auto)
  with same_arr.IH show ?case by (auto simp: list_all2_conv_all_nth intro: nth_equalityI)
next
  case (same_obj kvs zs kvs')
  let ?f = "\<lambda>(k, item). (k, canonicalValue cmp item)" and ?xs = "filter (\<lambda>(k, v). is_defined v) kvs"
  have inner: "tells_apart cmp (json_keys (snd x))" if "x \<in> set ?xs" for x
    by (rule tells_apart_mono [OF same_obj.prems]) (use that in force)
  have outer: "tells_apart cmp (map fst ?xs)"
    by (rule tells_apart_mono [OF same_obj.prems]) force
  have "map fst zs = map fst ?xs"
    using same_obj.IH by (auto simp: list_all2_conv_all_nth intro!: nth_equalityI)
  then have keys: "map fst (map ?f zs) = map fst ?xs" by (simp add: comp_def case_prod_unfold)
  have "?f (?xs ! i) = ?f (zs ! i)" if "i < length zs" for i
    using same_obj.IH that inner [OF nth_mem, of i] by (auto simp: list_all2_conv_all_nth case_prod_unfold)
  then have "map ?f ?xs = map ?f zs"
    using list_all2_lengthD [OF same_obj.IH] by (auto intro!: nth_equalityI)
  moreover have "mset (map ?f zs) = mset (map ?f (filter (\<lambda>(k, v). is_defined v) kvs'))"
    using same_obj.hyps by simp
  moreover have "distinct (map fst (map ?f zs))"
    using same_obj.hyps by (simp add: comp_def case_prod_unfold)
  moreover have apart: "tells_apart cmp (map fst (map ?f zs))" unfolding keys by (rule outer)
  ultimately show ?case
    using sort_by_distinct_keys [OF _ _ apart, of "map ?f (filter (\<lambda>(k, v). is_defined v) kvs')"]
    by simp
qed simp

text \<open>
  C30. The content hash of a request does not depend on the order of its object keys at any depth nor on
  undefined fields, for every collation that tells the keys of that request apart. A collation such as
  that of \<^verbatim>\<open>localeCompare\<close> may identify other strings, for instance canonically equivalent ones; the
  keys of the requests are fixed ASCII names.
\<close>

theorem canonicalSha256_order_independent:
  assumes "same_request v w" and "tells_apart cmp (json_keys v)"
  shows "canonicalSha256 cmp sha256 v = canonicalSha256 cmp sha256 w"
  using canonicalValue_same [OF assms] by (simp add: canonicalSha256_def canonicalJson_def)

text \<open>A collation for the witness that identifies all strings but one.\<close>

abbreviation coarse_collation :: "string comparator" where
  "coarse_collation \<equiv> Comparator.key (\<lambda>s. s \<noteq> ''cpuCount'') default"

theorem canonicalSha256_order_independent_witness:
  "canonicalSha256 coarse_collation rev
     (JObj [(''hostname'', JStr ''web''), (''cpuCount'', JNum 2), (''keys'', JUndefined)]) =
   canonicalSha256 coarse_collation rev
     (JObj [(''cpuCount'', JNum 2), (''hostname'', JStr ''web'')])"
proof (rule canonicalSha256_order_independent)
  show "same_request
      (JObj [(''hostname'', JStr ''web''), (''cpuCount'', JNum 2), (''keys'', JUndefined)])
      (JObj [(''cpuCount'', JNum 2), (''hostname'', JStr ''web'')])"
    by (rule same_obj [where zs = "[(''hostname'', JStr ''web''), (''cpuCount'', JNum 2)]"])
      (auto simp: is_defined_def intro: same_atom)
next
  show "tells_apart coarse_collation
      (json_keys (JObj [(''hostname'', JStr ''web''), (''cpuCount'', JNum 2), (''keys'', JUndefined)]))"
    by (simp add: tells_apart_def is_defined_def compare_key_apply compare_default_eq_Equiv_iff)
qed

end
