(* ===== verification/Domain.thy ===== *)
theory Domain
  imports Js_Encoding
begin

unbundle bit_operations_syntax

section \<open>The domain package\<close>

text \<open>
  Model of \<^verbatim>\<open>packages/domain/src/index.ts\<close>, the innermost layer: the error codes, the IPv4
  allocator, the validators of the create, power, resize and snapshot requests, and the drift
  classifier of the reconciliation. Addresses are 32-bit words, as the source's bit operations
  make them. Canonical JSON and its hash are in the theory \<open>Canonical_Json\<close>.
\<close>

subsection \<open>Errors\<close>

datatype domain_error_code =
    ADMIN_REQUIRED | DEAD_LETTER_NOT_FOUND | DISK_SHRINK_FORBIDDEN | IDEMPOTENCY_CONFLICT
  | INSTANCE_BUSY | INSTANCE_NOT_FOUND | OPERATION_NOT_FOUND | PROFILE_DISABLED
  | PROJECT_ACCESS_DENIED | PROJECT_NOT_FOUND | QUOTA_EXCEEDED | REPLAY_NOT_ALLOWED
  | SNAPSHOT_NOT_FOUND | SNAPSHOT_OWNERSHIP_MISMATCH | VALIDATION_FAILED

datatype domain_error = DomainError (error_code: domain_error_code) (error_message: string)

subsection \<open>IPv4 allocation\<close>

record ipv4_pool =
  cidr :: string
  gateway :: string
  exclusions :: "string list"

text \<open>The pattern \<^verbatim>\<open>0|[1-9][0-9]{0,2}\<close>, anchored at both ends.\<close>

definition octet_pattern :: "string \<Rightarrow> bool" where
  "octet_pattern s \<longleftrightarrow>
     s = ''0'' \<or> (s \<noteq> [] \<and> length s \<le> 3 \<and> list_all is_digit s \<and> hd s \<noteq> CHR ''0'')"

fun strict_octets :: "32 word \<Rightarrow> string list \<Rightarrow> 32 word option" where
  "strict_octets result [] = Some result"
| "strict_octets result (octet # octets) =
     (if \<not> octet_pattern octet then None
      else if dec_value octet > 255 then None
      else strict_octets (push_bit 8 result OR of_nat (dec_value octet)) octets)"

definition strictIpv4 :: "string \<Rightarrow> 32 word option" where
  "strictIpv4 value =
     (let octets = split_on (CHR ''.'') value in
      if length octets \<noteq> 4 then None else strict_octets 0 octets)"

definition octet :: "nat \<Rightarrow> 32 word \<Rightarrow> nat" where
  "octet shift n = unat (drop_bit shift n AND 255)"

definition dotted :: "32 word \<Rightarrow> string" where
  "dotted n = join_with (CHR ''.'') (map (\<lambda>shift. show_nat (octet shift n)) [24, 16, 8, 0])"

text \<open>The loop of \<^verbatim>\<open>allocateIpv4\<close>, from \<open>offset\<close> up to but excluding the broadcast address.\<close>

function allocate_from :: "(string \<Rightarrow> bool) \<Rightarrow> 32 word \<Rightarrow> nat \<Rightarrow> nat \<Rightarrow> string option" where
  "allocate_from taken network hostCount offset =
     (if offset < hostCount - 1 then
        let candidate = dotted (network + of_nat offset) in
        if \<not> taken candidate then Some candidate
        else allocate_from taken network hostCount (offset + 1)
      else None)"
  by pat_completeness auto
termination
  by (relation "measure (\<lambda>(_, _, hostCount, offset). hostCount - offset)") auto

declare allocate_from.simps [simp del]

text \<open>The checks on the pool: the network word and the prefix length.\<close>

definition prefix_length :: "string list \<Rightarrow> int option" where
  "prefix_length parts =
     (case parts of _ # text # _ \<Rightarrow> js_integer (js_number text) | _ \<Rightarrow> None)"

definition parse_pool :: "ipv4_pool \<Rightarrow> domain_error + 32 word \<times> nat" where
  "parse_pool pool =
     (let parts = split_on (CHR ''/'') (cidr pool) in
      case prefix_length parts of
        None \<Rightarrow> Inl (DomainError VALIDATION_FAILED ''The configured IPv4 pool is invalid.'')
      | Some prefixLength \<Rightarrow>
          if hd parts = [] \<or> prefixLength < 1 \<or> prefixLength > 30
          then Inl (DomainError VALIDATION_FAILED ''The configured IPv4 pool is invalid.'')
          else case (strictIpv4 (hd parts), strictIpv4 (gateway pool)) of
            (Some network, Some _) \<Rightarrow>
              if network AND of_nat (2 ^ (32 - nat prefixLength) - 1) \<noteq> 0
              then Inl (DomainError VALIDATION_FAILED
                     ''The configured IPv4 pool must name a network address.'')
              else Inr (network, nat prefixLength)
          | _ \<Rightarrow> Inl (DomainError VALIDATION_FAILED ''The configured network must use IPv4.''))"

definition allocateIpv4 :: "ipv4_pool \<Rightarrow> string set \<Rightarrow> domain_error + string" where
  "allocateIpv4 pool leased =
     res_bind (parse_pool pool) (\<lambda>(network, prefixLength).
       let excluded = set (exclusions pool @ [gateway pool]) in
       case allocate_from (\<lambda>c. c \<in> excluded \<or> c \<in> leased) network (2 ^ (32 - prefixLength)) 1 of
         Some candidate \<Rightarrow> Inr candidate
       | None \<Rightarrow> Inl (DomainError QUOTA_EXCEEDED
                  ''No IPv4 address is available in the selected network.''))"

lemma allocate_from_Some_iff:
  "allocate_from taken network hostCount offset = Some a \<longleftrightarrow>
     (\<exists>k \<ge> offset. k < hostCount - 1 \<and> a = dotted (network + of_nat k) \<and> \<not> taken a \<and>
        (\<forall>j. offset \<le> j \<and> j < k \<longrightarrow> taken (dotted (network + of_nat j))))"
proof (induction taken network hostCount offset rule: allocate_from.induct)
  case (1 taken network hostCount offset)
  show ?case (is "_ \<longleftrightarrow> ?P offset")
  proof (cases "offset < hostCount - 1 \<and> taken (dotted (network + of_nat offset))")
    case True
    then have "?P offset \<longleftrightarrow> ?P (offset + 1)"
      by (metis Suc_eq_plus1 Suc_leI le_eq_less_or_eq less_Suc_eq_le not_less_eq_eq)
    with True 1 show ?thesis by (subst allocate_from.simps) (simp add: Let_def)
  next
    case False
    then show ?thesis
      by (subst allocate_from.simps) (auto simp: Let_def dest: le_neq_implies_less)
  qed
qed

lemma allocate_from_None_iff:
  "allocate_from taken network hostCount offset = None \<longleftrightarrow>
     (\<forall>k. offset \<le> k \<and> k < hostCount - 1 \<longrightarrow> taken (dotted (network + of_nat k)))"
proof (induction taken network hostCount offset rule: allocate_from.induct)
  case (1 taken network hostCount offset)
  then show ?case
    by (subst allocate_from.simps)
      (auto simp: Let_def le_less_Suc_eq Suc_le_eq elim: le_neq_implies_less dest: le_neq_implies_less)
qed

lemma show_nat_octet_pattern: "n \<le> 255 \<Longrightarrow> octet_pattern (show_nat n)"
proof -
  assume n: "n \<le> 255"
  have first: "digit_char d \<noteq> CHR ''0''" if "0 < d" "d < 10" for d
    using that by (auto simp: digit_char_def dest!: arg_cong [where f = "of_char :: char \<Rightarrow> nat"])
  have zero: "digit_char 0 = CHR ''0''" by code_simp
  consider "n = 0" | "0 < n" "n < 10" | "10 \<le> n" "n < 100" | "100 \<le> n" by linarith
  then show ?thesis
  proof cases
    case 1
    then show ?thesis by (simp add: show_nat.simps zero octet_pattern_def)
  next
    case 2
    then show ?thesis by (simp add: show_nat.simps octet_pattern_def first)
  next
    case 3
    then have "0 < n div 10" "n div 10 < 10" by (simp_all add: div_greater_zero_iff)
    with 3 show ?thesis
      by (simp add: show_nat.simps [of n] show_nat.simps [of "n div 10"] octet_pattern_def first)
  next
    case 4
    then have "0 < n div 100" "n div 100 < 10" "n div 10 \<ge> 10" "n div 10 div 10 = n div 100"
      using n by (simp_all add: div_greater_zero_iff div_mult2_eq [symmetric] less_mult_imp_div_less
          div_le_mono [of 100 n 10, simplified])
    with 4 show ?thesis
      by (simp add: show_nat.simps [of n] show_nat.simps [of "n div 10"]
          show_nat.simps [of "n div 100"] octet_pattern_def first)
  qed
qed

lemma octet_less: "octet shift n \<le> 255"
proof -
  have "drop_bit shift n AND 255 \<le> 255" by (rule word_and_le1)
  then show ?thesis by (simp add: octet_def word_le_nat_alt)
qed

lemma of_nat_octet [simp]: "of_nat (octet shift n) = drop_bit shift n AND 255"
  by (simp add: octet_def)

lemma octets_word:
  "push_bit 8 (push_bit 8 (push_bit 8 (drop_bit 24 n AND 255) OR (drop_bit 16 n AND 255))
     OR (drop_bit 8 n AND 255)) OR (n AND 255) = (n :: 32 word)"
proof -
  have m: "(255 :: 32 word) = mask 8" by (simp add: mask_eq_exp_minus_1)
  show ?thesis unfolding m
  proof (rule bit_word_eqI)
    fix k :: nat
    assume "k < LENGTH(32)"
    then consider "k < 8" | "8 \<le> k" "k < 16" | "16 \<le> k" "k < 24" | "24 \<le> k" "k < 32"
      by fastforce
    then show "bit (push_bit 8 (push_bit 8 (push_bit 8 (drop_bit 24 n AND mask 8)
        OR drop_bit 16 n AND mask 8) OR drop_bit 8 n AND mask 8) OR n AND mask 8) k = bit n k"
      by cases (auto simp: bit_simps)
  qed
qed

lemma split_dotted:
  "split_on (CHR ''.'') (dotted n) = map (\<lambda>shift. show_nat (octet shift n)) [24, 16, 8, 0]"
proof -
  have "CHR ''.'' \<notin> set (show_nat m)" for m
    using show_nat_digits [of m] by (auto simp: is_digit_def code_unit_def)
  then show ?thesis unfolding dotted_def by (intro split_on_join_with) auto
qed

lemma strictIpv4_dotted [simp]: "strictIpv4 (dotted n) = Some n"
  using octets_word [of n]
  by (simp add: strictIpv4_def split_dotted show_nat_octet_pattern octet_less not_less)

lemma dotted_inj: "dotted m = dotted n \<longleftrightarrow> m = n"
  by (metis option.inject strictIpv4_dotted)

lemma parse_pool_InrD:
  assumes "parse_pool pool = Inr (network, p)"
  shows "1 \<le> p" "p \<le> 30" "network AND mask (32 - p) = 0"
proof -
  from assms obtain i where "prefix_length (split_on (CHR ''/'') (cidr pool)) = Some i"
    by (auto simp: parse_pool_def Let_def split: option.splits)
  with assms have i: "1 \<le> i" "i \<le> 30" "p = nat i"
      "network AND of_nat (2 ^ (32 - nat i) - 1) = 0"
    by (auto simp: parse_pool_def Let_def split: option.splits if_splits)
  then show "1 \<le> p" "p \<le> 30" by auto
  have "(of_nat (2 ^ (32 - nat i) - 1) :: 32 word) = mask (32 - nat i)"
    by (simp add: mask_eq_exp_minus_1 of_nat_diff)
  with i show "network AND mask (32 - p) = 0" by simp
qed

text \<open>
  What the allocator promises, in terms of addresses: the hosts of a network are the words with
  the network's prefix other than the network and the broadcast address.
\<close>

definition host_address :: "32 word \<Rightarrow> nat \<Rightarrow> 32 word \<Rightarrow> bool" where
  "host_address network p w \<longleftrightarrow>
     drop_bit (32 - p) w = drop_bit (32 - p) network \<and> w \<noteq> network \<and> w \<noteq> network OR mask (32 - p)"

definition reserved_or_leased :: "ipv4_pool \<Rightarrow> string set \<Rightarrow> string \<Rightarrow> bool" where
  "reserved_or_leased pool leased a \<longleftrightarrow>
     a \<in> leased \<or> a = gateway pool \<or> a \<in> set (exclusions pool)"

lemma unat_network_plus:
  fixes network :: "32 word"
  assumes "network AND mask m = 0" and "m \<le> 32" and "k < 2 ^ m"
  shows "unat (network + of_nat k) = unat network + k"
proof -
  have "take_bit m network = 0" using assms(1) by (simp add: take_bit_eq_mask)
  then have "2 ^ m dvd unat network"
    by (metis mod_0_imp_dvd take_bit_eq_mod unsigned_take_bit_eq unsigned_0)
  moreover have "(2 :: nat) ^ m dvd 2 ^ 32" using assms(2) by (rule le_imp_power_dvd)
  moreover have "unat network < 2 ^ 32" using unsigned_less [of network] by simp
  ultimately have "unat network + 2 ^ m \<le> 2 ^ 32"
    by (metis dvd_add_triv_right_iff dvd_imp_le dvd_minus_self less_imp_add_positive
        add_le_cancel_left dvd_add_right_iff)
  with assms(3) have "unat network + k < 2 ^ 32" by linarith
  then show ?thesis by (simp add: unat_word_ariths take_bit_eq_mod unat_of_nat)
qed

lemma host_address_offset:
  fixes network :: "32 word"
  assumes net: "network AND mask m = 0" and m: "m = 32 - p" "m \<le> 31"
  shows "host_address network p w \<longleftrightarrow>
    (\<exists>k. 0 < k \<and> k < 2 ^ m - 1 \<and> w = network + of_nat k)"
proof
  assume host: "host_address network p w"
  let ?k = "unat (take_bit m w)"
  have low: "take_bit m network = 0" using net by (simp add: take_bit_eq_mask)
  have "w = push_bit m (drop_bit m w) + take_bit m w" by (simp add: bits_ident)
  also have "push_bit m (drop_bit m w) = network"
    using host low bits_ident [of m network] by (simp add: host_address_def m)
  finally have w: "w = network + of_nat ?k" by simp
  have "?k < 2 ^ m" by (simp add: unsigned_take_bit_eq)
  moreover have "?k \<noteq> 0"
  proof
    assume "?k = 0"
    then have "network + of_nat ?k = network" by simp
    then have "w = network" by (rule trans [OF w])
    then show False using host by (simp add: host_address_def)
  qed
  moreover have "?k \<noteq> 2 ^ m - 1"
  proof
    assume "?k = 2 ^ m - 1"
    then have "of_nat ?k = (mask m :: 32 word)"
      by (simp only: mask_eq_exp_minus_1) (simp add: of_nat_diff)
    then have "network + of_nat ?k = network + mask m" by (simp only:)
    then have "w = network + mask m" by (rule trans [OF w])
    then show False using host net by (simp add: host_address_def m disjunctive_add_eq_or)
  qed
  ultimately show "\<exists>k. 0 < k \<and> k < 2 ^ m - 1 \<and> w = network + of_nat k" using w by fastforce
next
  assume "\<exists>k. 0 < k \<and> k < 2 ^ m - 1 \<and> w = network + of_nat k"
  then obtain k where k: "0 < k" "k < 2 ^ m - 1" "w = network + of_nat k" by blast
  have "k < 2 ^ m" using k(2) by linarith
  then have tk: "take_bit m (of_nat k :: 32 word) = of_nat k"
    by (simp add: take_bit_of_nat take_bit_nat_eq_self)
  have "network AND of_nat k = 0"
    using arg_cong [OF net, of "\<lambda>x. x AND of_nat k"] tk
    by (simp add: take_bit_eq_mask ac_simps)
  then have w: "w = network OR of_nat k" using k(3) by (simp add: disjunctive_add_eq_or)
  have "drop_bit m (of_nat k :: 32 word) = 0"
    using arg_cong [OF tk, of "drop_bit m"] by (simp add: drop_bit_take_bit)
  then have "drop_bit m w = drop_bit m network" using w by simp
  moreover have un: "unat w = unat network + k"
    using unat_network_plus [OF net] m \<open>k < 2 ^ m\<close> k(3) by simp
  moreover have "unat (network OR mask m) = unat network + (2 ^ m - 1)"
    using unat_network_plus [OF net, of "2 ^ m - 1"] m net
    by (simp add: disjunctive_add_eq_or [symmetric] mask_eq_exp_minus_1 of_nat_diff)
  ultimately show "host_address network p w"
    using k m(1) by (auto simp: host_address_def)
qed

lemma allocateIpv4_Inr_iff:
  "allocateIpv4 pool leased = Inr a \<longleftrightarrow>
     (\<exists>network p k. parse_pool pool = Inr (network, p) \<and> 0 < k \<and> k < 2 ^ (32 - p) - 1 \<and>
        a = dotted (network + of_nat k) \<and> \<not> reserved_or_leased pool leased a \<and>
        (\<forall>j. 0 < j \<and> j < k \<longrightarrow> reserved_or_leased pool leased (dotted (network + of_nat j))))"
proof -
  have taken: "(\<lambda>c. c \<in> set (exclusions pool @ [gateway pool]) \<or> c \<in> leased) =
      reserved_or_leased pool leased"
    by (auto simp: reserved_or_leased_def fun_eq_iff)
  show ?thesis
  proof (cases "parse_pool pool")
    case (Inr np)
    obtain network p where np: "np = (network, p)" by (cases np)
    have "allocateIpv4 pool leased = Inr a \<longleftrightarrow>
        allocate_from (reserved_or_leased pool leased) network (2 ^ (32 - p)) 1 = Some a"
      unfolding allocateIpv4_def taken Let_def using Inr np by (simp split: option.split)
    then show ?thesis using Inr np by (simp add: allocate_from_Some_iff Suc_le_eq)
  qed (simp add: allocateIpv4_def)
qed

lemma allocateIpv4_exhausted_iff:
  "allocateIpv4 pool leased = Inl (DomainError QUOTA_EXCEEDED msg) \<longleftrightarrow>
     msg = ''No IPv4 address is available in the selected network.'' \<and>
     (\<exists>network p. parse_pool pool = Inr (network, p) \<and>
        (\<forall>k. 0 < k \<and> k < 2 ^ (32 - p) - 1 \<longrightarrow>
           reserved_or_leased pool leased (dotted (network + of_nat k))))"
proof -
  have taken: "(\<lambda>c. c \<in> set (exclusions pool @ [gateway pool]) \<or> c \<in> leased) =
      reserved_or_leased pool leased"
    by (auto simp: reserved_or_leased_def fun_eq_iff)
  have "parse_pool pool \<noteq> Inl (DomainError QUOTA_EXCEEDED msg)"
    by (auto simp: parse_pool_def Let_def split: option.splits)
  then show ?thesis
    unfolding allocateIpv4_def taken Let_def
    by (auto simp: res_bind_Inl_iff allocate_from_None_iff Suc_le_eq split: option.splits)
qed

text \<open>
  The address \<^verbatim>\<open>allocateIpv4\<close> returns is the lowest host address of the configured network that
  is neither leased nor reserved: it parses back, it has the network's prefix, it is neither the
  network nor the broadcast address, and every host address below it is taken.
\<close>

theorem allocateIpv4_lowest_free:
  assumes "allocateIpv4 pool leased = Inr a"
  shows "\<exists>network p w. parse_pool pool = Inr (network, p) \<and> strictIpv4 a = Some w \<and>
    host_address network p w \<and> \<not> reserved_or_leased pool leased a \<and>
    (\<forall>v. host_address network p v \<and> v < w \<longrightarrow> reserved_or_leased pool leased (dotted v))"
proof -
  from assms obtain network p k where pool: "parse_pool pool = Inr (network, p)"
    and k: "0 < k" "k < 2 ^ (32 - p) - 1" and a: "a = dotted (network + of_nat k)"
    and free: "\<not> reserved_or_leased pool leased a"
    and below: "\<And>j. 0 < j \<Longrightarrow> j < k \<Longrightarrow> reserved_or_leased pool leased (dotted (network + of_nat j))"
    unfolding allocateIpv4_Inr_iff by blast
  note net = parse_pool_InrD [OF pool]
  note offset = host_address_offset [OF net(3) refl]
  have un: "unat (network + of_nat j) = unat network + j" if "j < 2 ^ (32 - p) - 1" for j
    using that by (intro unat_network_plus [OF net(3)]) auto
  have host: "host_address network p (network + of_nat k)"
    using offset k net(1) by auto
  have "reserved_or_leased pool leased (dotted v)"
    if v: "host_address network p v" "v < network + of_nat k" for v
  proof -
    from v(1) offset net(1) obtain j where j: "0 < j" "j < 2 ^ (32 - p) - 1" "v = network + of_nat j"
      by auto
    have "j < k" using v(2) un [OF j(2)] un [OF k(2)] unfolding j(3) word_less_nat_alt by simp
    then show ?thesis using below j by simp
  qed
  then show ?thesis using pool host free by (auto simp: a)
qed

theorem allocateIpv4_lowest_free_witness:
  "allocateIpv4 \<lparr>cidr = ''10.20.0.0/24'', gateway = ''10.20.0.1'', exclusions = []\<rparr>
     {''10.20.0.2''} = Inr ''10.20.0.3'' \<and>
   (\<exists>network p w. strictIpv4 ''10.20.0.3'' = Some w \<and> host_address network p w)"
proof -
  let ?pool = "\<lparr>cidr = ''10.20.0.0/24'', gateway = ''10.20.0.1'', exclusions = []\<rparr>"
  have run: "allocateIpv4 ?pool {''10.20.0.2''} = Inr ''10.20.0.3''" by code_simp
  show ?thesis using allocateIpv4_lowest_free [OF run] run by blast
qed

text \<open>
  \<^verbatim>\<open>allocateIpv4\<close> reports exhaustion exactly when the pool is well formed and every host
  address of its network is leased or reserved, so no free address is ever left unused.
\<close>

theorem allocateIpv4_exhausted:
  "allocateIpv4 pool leased = Inl (DomainError QUOTA_EXCEEDED
       ''No IPv4 address is available in the selected network.'') \<longleftrightarrow>
     (\<exists>network p. parse_pool pool = Inr (network, p) \<and>
        (\<forall>w. host_address network p w \<longrightarrow> reserved_or_leased pool leased (dotted w)))"
proof -
  have "(\<forall>k. 0 < k \<and> k < 2 ^ (32 - p) - 1 \<longrightarrow>
           reserved_or_leased pool leased (dotted (network + of_nat k))) \<longleftrightarrow>
        (\<forall>w. host_address network p w \<longrightarrow> reserved_or_leased pool leased (dotted w))"
    if "parse_pool pool = Inr (network, p)" for network p
    using host_address_offset [OF parse_pool_InrD(3) [OF that] refl] parse_pool_InrD(1) [OF that]
    by auto
  then show ?thesis by (auto simp: allocateIpv4_exhausted_iff)
qed

theorem allocateIpv4_exhausted_witness:
  "\<exists>network p. parse_pool \<lparr>cidr = ''192.0.2.0/30'', gateway = ''192.0.2.1'', exclusions = []\<rparr> = Inr (network, p) \<and>
     (\<forall>w. host_address network p w \<longrightarrow> reserved_or_leased
        \<lparr>cidr = ''192.0.2.0/30'', gateway = ''192.0.2.1'', exclusions = []\<rparr> {''192.0.2.2''} (dotted w))"
proof -
  let ?pool = "\<lparr>cidr = ''192.0.2.0/30'', gateway = ''192.0.2.1'', exclusions = []\<rparr>"
  have run: "allocateIpv4 ?pool {''192.0.2.2''} = Inl (DomainError QUOTA_EXCEEDED
      ''No IPv4 address is available in the selected network.'')" by code_simp
  show ?thesis using allocateIpv4_exhausted [of ?pool "{''192.0.2.2''}"] run by simp
qed

subsection \<open>Validation of a create request\<close>

record create_instance_values =
  imageId :: string
  flavorId :: string
  networkId :: string
  hostname :: string
  sshPublicKeys :: "string list option"

definition slug_char :: "char \<Rightarrow> bool" where
  "slug_char c \<longleftrightarrow> is_lower c \<or> is_digit c"

definition slugPattern :: "string \<Rightarrow> bool" where
  "slugPattern s \<longleftrightarrow>
     2 \<le> length s \<and> length s \<le> 63 \<and> slug_char (hd s) \<and>
     list_all (\<lambda>c. slug_char c \<or> c = CHR ''-'') (tl s)"

definition hostnamePattern :: "string \<Rightarrow> bool" where
  "hostnamePattern s \<longleftrightarrow>
     s \<noteq> [] \<and> length s \<le> 63 \<and> is_alnum (hd s) \<and> is_alnum (last s) \<and>
     list_all (\<lambda>c. is_alnum c \<or> c = CHR ''-'') s"

definition SSH_KEY_TYPES :: "string list" where
  "SSH_KEY_TYPES =
     [''ecdsa-sha2-nistp256'', ''ecdsa-sha2-nistp384'', ''ecdsa-sha2-nistp521'',
      ''sk-ecdsa-sha2-nistp256@openssh.com'', ''sk-ssh-ed25519@openssh.com'',
      ''ssh-ed25519'', ''ssh-rsa'']"

text \<open>The pattern \<^verbatim>\<open>[A-Za-z0-9+/]+={0,2}\<close>, anchored at both ends.\<close>

definition base64_char :: "char \<Rightarrow> bool" where
  "base64_char c \<longleftrightarrow> is_alnum c \<or> c = CHR ''+'' \<or> c = CHR ''/''"

definition base64_pattern :: "string \<Rightarrow> bool" where
  "base64_pattern s \<longleftrightarrow>
     takeWhile base64_char s \<noteq> [] \<and>
     dropWhile base64_char s \<in> {[], ''='', ''==''}"

definition byte_at :: "string \<Rightarrow> nat \<Rightarrow> 32 word" where
  "byte_at decoded i = (if i < length decoded then of_nat (code_unit (decoded ! i)) else 0)"

definition name_length :: "string \<Rightarrow> int" where
  "name_length decoded =
     sint (((push_bit 24 (byte_at decoded 0) OR push_bit 16 (byte_at decoded 1)) OR
       push_bit 8 (byte_at decoded 2)) OR byte_at decoded 3)"

definition isStructurallyValidSshPublicKey :: "string \<Rightarrow> bool" where
  "isStructurallyValidSshPublicKey key =
     (case split_spaces (js_trim key) of
        type # body # _ \<Rightarrow>
          if type = [] \<or> body = [] \<or> \<not> List.member SSH_KEY_TYPES type then False
          else if \<not> base64_pattern body then False
          else (case atob body of
              None \<Rightarrow> False
            | Some decoded \<Rightarrow>
                if length decoded < 4 then False
                else let nameLength = name_length decoded in
                  if nameLength \<le> 0 \<or> nameLength > 64 \<or> int (length decoded) < 4 + nameLength
                  then False
                  else take (nat nameLength) (drop 4 decoded) = type)
      | _ \<Rightarrow> False)"

definition ssh_key_control_char :: "char \<Rightarrow> bool" where
  "ssh_key_control_char c \<longleftrightarrow> code_unit c = 13 \<or> code_unit c = 10 \<or> code_unit c = 0"

fun validate_ssh_keys :: "string list \<Rightarrow> domain_error + unit" where
  "validate_ssh_keys [] = Inr ()"
| "validate_ssh_keys (key # keys) =
     (if length key < 32 \<or> length key > 8192 \<or> list_ex ssh_key_control_char key
      then Inl (DomainError VALIDATION_FAILED ''An SSH public key is invalid.'')
      else if \<not> isStructurallyValidSshPublicKey key
      then Inl (DomainError VALIDATION_FAILED ''An SSH public key is not a well-formed key.'')
      else validate_ssh_keys keys)"

definition validateCreateInstance :: "create_instance_values \<Rightarrow> domain_error + unit" where
  "validateCreateInstance values =
     (let keys = (case sshPublicKeys values of None \<Rightarrow> [] | Some ks \<Rightarrow> ks) in
      if \<not> list_all slugPattern [imageId values, flavorId values, networkId values]
      then Inl (DomainError VALIDATION_FAILED ''Catalog identifiers are invalid.'')
      else if \<not> hostnamePattern (hostname values)
      then Inl (DomainError VALIDATION_FAILED ''Hostname is invalid.'')
      else if length keys > 5
      then Inl (DomainError VALIDATION_FAILED ''At most five SSH public keys are accepted.'')
      else if length (remdups keys) \<noteq> length keys
      then Inl (DomainError VALIDATION_FAILED ''SSH public keys must be unique.'')
      else validate_ssh_keys keys)"

text \<open>A key as OpenSSH writes it: the type, then the blob that starts with the length-prefixed type.\<close>

definition be32 :: "nat \<Rightarrow> string" where
  "be32 n = map char_of [n div 16777216 mod 256, n div 65536 mod 256, n div 256 mod 256, n mod 256]"

definition encode_ssh_key :: "string \<Rightarrow> string \<Rightarrow> string" where
  "encode_ssh_key type payload =
     type @ '' '' @ btoa (be32 (length type) @ type @ payload)"

lemma js_trim_ends: "s \<noteq> [] \<Longrightarrow> \<not> is_space (hd s) \<Longrightarrow> \<not> is_space (last s) \<Longrightarrow> js_trim s = s"
proof -
  have keep: "dropWhile is_space t = t" if "t \<noteq> []" "\<not> is_space (hd t)" for t
    using that by (cases t) auto
  assume "s \<noteq> []" "\<not> is_space (hd s)" "\<not> is_space (last s)"
  then show ?thesis by (simp add: js_trim_def keep hd_rev)
qed

lemma split_spaces_nonempty [simp]: "split_spaces s \<noteq> []"
  by (induction s rule: split_spaces.induct) (auto split: list.splits)

lemma split_spaces_word: "\<forall>c \<in> set w. \<not> is_space c \<Longrightarrow> split_spaces w = [w]"
  by (induction w) auto

lemma split_spaces_two:
  assumes "\<forall>c \<in> set w. \<not> is_space c" and "\<forall>c \<in> set v. \<not> is_space c" and "v \<noteq> []"
    and "is_space sp"
  shows "split_spaces (w @ sp # v) = [w, v]"
  using assms(1)
proof (induction w)
  case Nil
  have "\<not> is_space (hd v)" using assms(2,3) by simp
  then show ?case using assms(4) by (simp add: split_spaces_word [OF assms(2)])
qed simp

lemma byte_at_be32:
  "n < 256 \<Longrightarrow> name_length (be32 n @ rest) = int n"
proof -
  assume n: "n < 256"
  have "n div 16777216 = 0" "n div 65536 = 0" "n div 256 = 0" using n by simp_all
  then have b: "be32 n = [char_of (0 :: nat), char_of (0 :: nat), char_of (0 :: nat), char_of n]"
    using n by (simp add: be32_def)
  have "sint (of_nat n :: 32 word) = int n"
    using n by (simp add: signed_of_nat signed_take_bit_int_eq_self)
  then show ?thesis
    using n by (simp add: name_length_def byte_at_def b code_unit_def)
qed

lemma ssh_key_type_facts:
  assumes "type \<in> set SSH_KEY_TYPES"
  shows "type \<noteq> []" "length type \<le> 64" "\<forall>c \<in> set type. \<not> is_space c"
  using assms by (auto simp: SSH_KEY_TYPES_def is_space_def code_unit_def)

lemma btoa_chars: "\<forall>c \<in> set (btoa s). \<not> is_space c"
  using sextet_chars [of s] by (auto simp: btoa_def is_space_def code_unit_def)

lemma btoa_nonempty: "s \<noteq> [] \<Longrightarrow> btoa s \<noteq> []"
  by (metis atob_btoa decode_sextets.simps(1) atob_def list.map(1) option.inject btoa_def
      encode_sextets.simps(1) append_is_Nil_conv map_is_Nil_conv decode_encode_sextets)

lemma base64_pattern_btoa: "s \<noteq> [] \<Longrightarrow> base64_pattern (btoa s)"
proof -
  assume s: "s \<noteq> []"
  let ?es = "map sextet_char (encode_sextets s)"
  have ok: "\<forall>c \<in> set ?es. base64_char c" using sextet_chars [of s] by (auto simp: base64_char_def)
  have eq: "\<not> base64_char (CHR ''='')" by (simp add: base64_char_def char_class_defs)
  have ne: "?es \<noteq> []" using s by (cases s rule: encode_sextets.cases) auto
  have k: "(3 - length s mod 3) mod 3 \<in> {0, 1, 2}"
    using mod_less_divisor [of 3 "3 - length s mod 3"] by auto
  have rest: "takeWhile base64_char (?es @ r) = ?es \<and> dropWhile base64_char (?es @ r) = r"
    if "r = replicate n (CHR ''='')" for r n
    using ok eq that by (cases n) (auto simp: takeWhile_append dropWhile_append)
  show ?thesis
    unfolding base64_pattern_def btoa_def using rest [OF refl] ne k
    by (auto simp: numeral_2_eq_2)
qed

text \<open>
  A key written the way OpenSSH writes it, for each of the seven accepted types and any key
  material, passes the structural check: the base64 body decodes, its length prefix is read back
  and the embedded algorithm name agrees with the declared type.
\<close>

theorem encoded_ssh_key_accepted:
  assumes "type \<in> set SSH_KEY_TYPES"
  shows "isStructurallyValidSshPublicKey (encode_ssh_key type payload)"
proof -
  let ?blob = "be32 (length type) @ type @ payload"
  note t = ssh_key_type_facts [OF assms]
  have blob: "?blob \<noteq> []" "length (be32 (length type)) = 4" by (simp_all add: be32_def)
  have b: "btoa ?blob \<noteq> []" by (rule btoa_nonempty [OF blob(1)])
  have sp: "is_space (CHR '' '')" by (simp add: is_space_def code_unit_def)
  have "js_trim (encode_ssh_key type payload) = encode_ssh_key type payload"
    using t b btoa_chars [of ?blob] by (intro js_trim_ends) (auto simp: encode_ssh_key_def)
  moreover have "split_spaces (encode_ssh_key type payload) = [type, btoa ?blob]"
    unfolding encode_ssh_key_def
    using split_spaces_two [OF t(3) btoa_chars b sp] by simp
  moreover have "name_length ?blob = int (length type)"
    using byte_at_be32 t(2) by simp
  ultimately show ?thesis
    using t assms b base64_pattern_btoa [OF blob(1)] blob(2)
    by (simp add: isStructurallyValidSshPublicKey_def)
qed

theorem encoded_ssh_key_accepted_witness:
  "''ssh-ed25519'' \<in> set SSH_KEY_TYPES \<and>
   isStructurallyValidSshPublicKey (encode_ssh_key ''ssh-ed25519'' ''0123456789abcdef'')"
proof -
  have t: "''ssh-ed25519'' \<in> set SSH_KEY_TYPES" by (simp add: SSH_KEY_TYPES_def)
  show ?thesis using encoded_ssh_key_accepted [OF t] t by blast
qed

subsection \<open>Power, resize and snapshot requests\<close>

datatype power_action = Start | Shutdown | Stop | Reboot

definition validatePowerAction :: "string \<Rightarrow> domain_error + power_action" where
  "validatePowerAction action =
     (if action = ''start'' then Inr Start
      else if action = ''shutdown'' then Inr Shutdown
      else if action = ''stop'' then Inr Stop
      else if action = ''reboot'' then Inr Reboot
      else Inl (DomainError VALIDATION_FAILED ''The requested power action is not supported.''))"

record sizing =
  cpuCount :: int
  memoryMiB :: int
  diskGiB :: int

record resize_request =
  current :: sizing
  target :: sizing

definition validateResize :: "resize_request \<Rightarrow> domain_error + unit" where
  "validateResize request =
     (if diskGiB (target request) < diskGiB (current request)
      then Inl (DomainError DISK_SHRINK_FORBIDDEN ''Disk size can grow but never shrink.'')
      else if cpuCount (target request) = cpuCount (current request) \<and>
              memoryMiB (target request) = memoryMiB (current request) \<and>
              diskGiB (target request) = diskGiB (current request)
      then Inl (DomainError VALIDATION_FAILED ''The requested sizing matches the current sizing.'')
      else Inr ())"

definition snapshotNamePattern :: "string \<Rightarrow> bool" where
  "snapshotNamePattern s \<longleftrightarrow>
     s \<noteq> [] \<and> length s \<le> 63 \<and> is_alnum (hd s) \<and>
     list_all (\<lambda>c. is_alnum c \<or> c = CHR ''_'' \<or> c = CHR ''.'' \<or> c = CHR ''-'') (tl s)"

text \<open>\<^verbatim>\<open>toLowerCase\<close> on the letters the pattern admits.\<close>

definition to_lower :: "char \<Rightarrow> char" where
  "to_lower c = (if is_upper c then char_of (code_unit c + 32) else c)"

definition validateSnapshotName :: "string \<Rightarrow> domain_error + unit" where
  "validateSnapshotName name =
     (if \<not> snapshotNamePattern name
      then Inl (DomainError VALIDATION_FAILED
        ''Snapshot name must be 1 to 63 characters of letters, digits, dot, dash, or underscore.'')
      else if map to_lower name = ''current''
      then Inl (DomainError VALIDATION_FAILED (''The snapshot name '' @ CHR 0x22 # ''current'' @ CHR 0x22 # '' is reserved.''))
      else Inr ())"

subsection \<open>Drift classification\<close>

datatype desired_power = DesiredRunning | DesiredStopped | DesiredUnchanged

datatype observed_power = ObservedRunning | ObservedStopped | ObservedSuspended | ObservedUnknown

record desired_snapshot =
  desiredLifecycleState :: string
  desiredPowerState :: desired_power
  desiredSizing :: sizing

record observed_snapshot =
  exists :: bool
  observedPowerState :: observed_power
  markerMatch :: bool
  observedCpuCount :: "int option"
  observedMemoryMiB :: "int option"
  observedDiskGiB :: "int option"

datatype drift_classification =
    DriftNone | MissingResource | IdentityMismatch | StaleTask | LateSuccess | PowerDrift
  | NetworkDrift | Ambiguous

datatype drift_finding = DriftFinding (classification: drift_classification) (dangerous: bool)

definition power_differs :: "desired_power \<Rightarrow> observed_power \<Rightarrow> bool" where
  "power_differs desired observed =
     (case desired of
        DesiredUnchanged \<Rightarrow> False
      | DesiredRunning \<Rightarrow> observed \<noteq> ObservedRunning
      | DesiredStopped \<Rightarrow> observed \<noteq> ObservedStopped)"

definition differs :: "int option \<Rightarrow> int \<Rightarrow> bool" where
  "differs observed desired = (case observed of None \<Rightarrow> False | Some n \<Rightarrow> n \<noteq> desired)"

definition classifyDrift :: "desired_snapshot \<Rightarrow> observed_snapshot \<Rightarrow> drift_finding" where
  "classifyDrift desired observed =
     (if exists observed \<and> \<not> markerMatch observed then DriftFinding IdentityMismatch True
      else if \<not> exists observed then
        (if desiredLifecycleState desired = ''purged'' then DriftFinding DriftNone False
         else DriftFinding MissingResource True)
      else if observedPowerState observed = ObservedUnknown then DriftFinding Ambiguous True
      else if power_differs (desiredPowerState desired) (observedPowerState observed)
      then DriftFinding PowerDrift False
      else if differs (observedCpuCount observed) (cpuCount (desiredSizing desired)) \<or>
              differs (observedMemoryMiB observed) (memoryMiB (desiredSizing desired))
      then DriftFinding NetworkDrift False
      else if (case observedDiskGiB observed of None \<Rightarrow> False
               | Some disk \<Rightarrow> disk < diskGiB (desiredSizing desired))
      then DriftFinding NetworkDrift False
      else DriftFinding DriftNone False)"

lemma differs_iff: "\<not> differs observed desired \<longleftrightarrow> (\<forall>n. observed = Some n \<longrightarrow> n = desired)"
  by (cases observed) (auto simp: differs_def)

text \<open>
  The drift classifier never offers an automatic correction for a machine that is absent,
  carries foreign markers or has no known power state: a finding other than "no drift" that is
  marked safe is about a present, owned machine in a known power state, and "no drift" on a
  present machine means its power, CPU and memory agree and its disk is not smaller.
\<close>

theorem classifyDrift_safe_findings:
  assumes "\<not> dangerous (classifyDrift desired observed)"
  shows "(exists observed \<longrightarrow> markerMatch observed \<and> observedPowerState observed \<noteq> ObservedUnknown) \<and>
    (\<not> exists observed \<longrightarrow>
       desiredLifecycleState desired = ''purged'' \<and>
       classification (classifyDrift desired observed) = DriftNone) \<and>
    (exists observed \<and> classification (classifyDrift desired observed) = DriftNone \<longrightarrow>
       \<not> power_differs (desiredPowerState desired) (observedPowerState observed) \<and>
       (\<forall>n. observedCpuCount observed = Some n \<longrightarrow> n = cpuCount (desiredSizing desired)) \<and>
       (\<forall>n. observedMemoryMiB observed = Some n \<longrightarrow> n = memoryMiB (desiredSizing desired)) \<and>
       (\<forall>n. observedDiskGiB observed = Some n \<longrightarrow> n \<ge> diskGiB (desiredSizing desired)))"
  using assms
  by (auto simp: classifyDrift_def differs_iff split: if_splits option.splits)

theorem classifyDrift_safe_findings_witness:
  "classifyDrift
     \<lparr>desiredLifecycleState = ''active'', desiredPowerState = DesiredRunning,
       desiredSizing = \<lparr>cpuCount = 2, memoryMiB = 2048, diskGiB = 20\<rparr>\<rparr>
     \<lparr>exists = True, observedPowerState = ObservedStopped, markerMatch = True,
       observedCpuCount = Some 2, observedMemoryMiB = None, observedDiskGiB = Some 40\<rparr>
   = DriftFinding PowerDrift False \<and> ObservedStopped \<noteq> ObservedUnknown"
proof -
  let ?d = "\<lparr>desiredLifecycleState = ''active'', desiredPowerState = DesiredRunning,
    desiredSizing = \<lparr>cpuCount = 2, memoryMiB = 2048, diskGiB = 20\<rparr>\<rparr>"
  let ?o = "\<lparr>exists = True, observedPowerState = ObservedStopped, markerMatch = True,
    observedCpuCount = Some 2, observedMemoryMiB = None, observedDiskGiB = Some 40\<rparr>"
  have run: "classifyDrift ?d ?o = DriftFinding PowerDrift False"
    by (simp add: classifyDrift_def power_differs_def)
  then have "\<not> dangerous (classifyDrift ?d ?o)" by simp
  from classifyDrift_safe_findings [OF this] run show ?thesis by simp
qed

end
