(* ===== verification/Workflow_Stage.thy ===== *)
theory Workflow_Stage
  imports Prelude
begin

section \<open>Workflow stages and actions\<close>

text \<open>
  Model of \<^verbatim>\<open>packages/application/src/workflow-stage.ts\<close>: the closed sets of stages and actions, the
  names under which they are persisted, the parsers that reject an unknown name, and the progress
  shown for each stage.
\<close>

datatype workflow_stage =
    Accepted
  | SubmittingCreate | PollingCreate | Configuring | PollingConfiguration
  | Starting | PollingStart | Observing
  | SubmittingPower | PollingPower | ObservingPower
  | SubmittingResize | PollingResize | ObservingResize
  | SubmittingSnapshot | PollingSnapshot | ObservingSnapshot
  | SubmittingRetention | PollingRetention | ObservingRetention
  | VerifyingPurge | SubmittingPurge | PollingPurge | ObservingPurge

datatype terminal_stage = StageCompleted | StageFailed | StageManualReview

datatype persisted_stage = Live workflow_stage | Terminal terminal_stage

definition WORKFLOW_STAGES :: "workflow_stage list" where
  "WORKFLOW_STAGES =
     [Accepted, SubmittingCreate, PollingCreate, Configuring, PollingConfiguration,
      Starting, PollingStart, Observing, SubmittingPower, PollingPower, ObservingPower,
      SubmittingResize, PollingResize, ObservingResize,
      SubmittingSnapshot, PollingSnapshot, ObservingSnapshot,
      SubmittingRetention, PollingRetention, ObservingRetention,
      VerifyingPurge, SubmittingPurge, PollingPurge, ObservingPurge]"

fun stage_name :: "workflow_stage \<Rightarrow> string" where
  "stage_name Accepted = ''accepted''"
| "stage_name SubmittingCreate = ''submitting_create''"
| "stage_name PollingCreate = ''polling_create''"
| "stage_name Configuring = ''configuring''"
| "stage_name PollingConfiguration = ''polling_configuration''"
| "stage_name Starting = ''starting''"
| "stage_name PollingStart = ''polling_start''"
| "stage_name Observing = ''observing''"
| "stage_name SubmittingPower = ''submitting_power''"
| "stage_name PollingPower = ''polling_power''"
| "stage_name ObservingPower = ''observing_power''"
| "stage_name SubmittingResize = ''submitting_resize''"
| "stage_name PollingResize = ''polling_resize''"
| "stage_name ObservingResize = ''observing_resize''"
| "stage_name SubmittingSnapshot = ''submitting_snapshot''"
| "stage_name PollingSnapshot = ''polling_snapshot''"
| "stage_name ObservingSnapshot = ''observing_snapshot''"
| "stage_name SubmittingRetention = ''submitting_retention''"
| "stage_name PollingRetention = ''polling_retention''"
| "stage_name ObservingRetention = ''observing_retention''"
| "stage_name VerifyingPurge = ''verifying_purge''"
| "stage_name SubmittingPurge = ''submitting_purge''"
| "stage_name PollingPurge = ''polling_purge''"
| "stage_name ObservingPurge = ''observing_purge''"

fun terminal_name :: "terminal_stage \<Rightarrow> string" where
  "terminal_name StageCompleted = ''completed''"
| "terminal_name StageFailed = ''failed''"
| "terminal_name StageManualReview = ''manual_review''"

fun persisted_name :: "persisted_stage \<Rightarrow> string" where
  "persisted_name (Live s) = stage_name s"
| "persisted_name (Terminal t) = terminal_name t"

fun STAGE_PROGRESS_PERCENT :: "persisted_stage \<Rightarrow> int" where
  "STAGE_PROGRESS_PERCENT (Live Accepted) = 0"
| "STAGE_PROGRESS_PERCENT (Live SubmittingCreate) = 10"
| "STAGE_PROGRESS_PERCENT (Live PollingCreate) = 25"
| "STAGE_PROGRESS_PERCENT (Live Configuring) = 40"
| "STAGE_PROGRESS_PERCENT (Live PollingConfiguration) = 55"
| "STAGE_PROGRESS_PERCENT (Live Starting) = 70"
| "STAGE_PROGRESS_PERCENT (Live PollingStart) = 82"
| "STAGE_PROGRESS_PERCENT (Live Observing) = 92"
| "STAGE_PROGRESS_PERCENT (Live SubmittingPower) = 20"
| "STAGE_PROGRESS_PERCENT (Live PollingPower) = 55"
| "STAGE_PROGRESS_PERCENT (Live ObservingPower) = 85"
| "STAGE_PROGRESS_PERCENT (Live SubmittingResize) = 20"
| "STAGE_PROGRESS_PERCENT (Live PollingResize) = 55"
| "STAGE_PROGRESS_PERCENT (Live ObservingResize) = 85"
| "STAGE_PROGRESS_PERCENT (Live SubmittingSnapshot) = 20"
| "STAGE_PROGRESS_PERCENT (Live PollingSnapshot) = 55"
| "STAGE_PROGRESS_PERCENT (Live ObservingSnapshot) = 85"
| "STAGE_PROGRESS_PERCENT (Live SubmittingRetention) = 20"
| "STAGE_PROGRESS_PERCENT (Live PollingRetention) = 55"
| "STAGE_PROGRESS_PERCENT (Live ObservingRetention) = 85"
| "STAGE_PROGRESS_PERCENT (Live VerifyingPurge) = 15"
| "STAGE_PROGRESS_PERCENT (Live SubmittingPurge) = 40"
| "STAGE_PROGRESS_PERCENT (Live PollingPurge) = 65"
| "STAGE_PROGRESS_PERCENT (Live ObservingPurge) = 88"
| "STAGE_PROGRESS_PERCENT (Terminal t) = 100"

text \<open>The parsers throw on an unknown name; \<open>None\<close> is that error.\<close>

definition toWorkflowStage :: "string \<Rightarrow> workflow_stage option" where
  "toWorkflowStage name = find (\<lambda>s. stage_name s = name) WORKFLOW_STAGES"

datatype workflow_action =
    CreateInstance | PowerInstance | ResizeInstance | CreateSnapshot | RollbackSnapshot
  | DeleteSnapshot | RetainInstance | PurgeInstance | ReconcileInstance

definition WORKFLOW_ACTIONS :: "workflow_action list" where
  "WORKFLOW_ACTIONS =
     [CreateInstance, PowerInstance, ResizeInstance, CreateSnapshot, RollbackSnapshot,
      DeleteSnapshot, RetainInstance, PurgeInstance, ReconcileInstance]"

fun action_name :: "workflow_action \<Rightarrow> string" where
  "action_name CreateInstance = ''create_instance''"
| "action_name PowerInstance = ''power_instance''"
| "action_name ResizeInstance = ''resize_instance''"
| "action_name CreateSnapshot = ''create_snapshot''"
| "action_name RollbackSnapshot = ''rollback_snapshot''"
| "action_name DeleteSnapshot = ''delete_snapshot''"
| "action_name RetainInstance = ''retain_instance''"
| "action_name PurgeInstance = ''purge_instance''"
| "action_name ReconcileInstance = ''reconcile_instance''"

definition toWorkflowAction :: "string \<Rightarrow> workflow_action option" where
  "toWorkflowAction name = find (\<lambda>a. action_name a = name) WORKFLOW_ACTIONS"

lemma WORKFLOW_STAGES_all [simp]: "s \<in> set WORKFLOW_STAGES"
  by (cases s) (simp_all add: WORKFLOW_STAGES_def)

lemma stage_name_inj [simp]: "stage_name s = stage_name t \<longleftrightarrow> s = t"
  by (cases s; cases t) simp_all

lemma find_by_name:
  assumes "inj f" and "\<And>x. x \<in> set xs"
  shows "find (\<lambda>x. f x = y) xs = Some x \<longleftrightarrow> f x = y"
proof -
  have "\<exists>z. find (\<lambda>x. f x = y) xs = Some z \<and> f z = y" if "f x = y"
    using assms(2) [of x] that by (induction xs) auto
  moreover have "f z = y" if "find (\<lambda>x. f x = y) xs = Some z" for z
    using that by (auto simp: find_Some_iff)
  ultimately show ?thesis using assms(1) by (metis injD option.inject)
qed

lemma toWorkflowStage_iff [simp]: "toWorkflowStage name = Some s \<longleftrightarrow> stage_name s = name"
  unfolding toWorkflowStage_def by (rule find_by_name) (simp_all add: inj_def)

lemma WORKFLOW_ACTIONS_all [simp]: "a \<in> set WORKFLOW_ACTIONS"
  by (cases a) (simp_all add: WORKFLOW_ACTIONS_def)

lemma action_name_inj [simp]: "action_name a = action_name b \<longleftrightarrow> a = b"
  by (cases a; cases b) simp_all

lemma toWorkflowAction_iff [simp]: "toWorkflowAction name = Some a \<longleftrightarrow> action_name a = name"
  unfolding toWorkflowAction_def by (rule find_by_name) (simp_all add: inj_def)

lemma to_of_name [simp]:
  "toWorkflowStage (stage_name s) = Some s"
  "toWorkflowAction (action_name a) = Some a"
  by simp_all

lemma stage_progress_bounds:
  "0 \<le> STAGE_PROGRESS_PERCENT s \<and> STAGE_PROGRESS_PERCENT s \<le> 100 \<and>
   (STAGE_PROGRESS_PERCENT s = 100 \<longleftrightarrow> (\<exists>t. s = Terminal t))"
  by (cases s rule: STAGE_PROGRESS_PERCENT.cases) auto

end
