(* ===== verification/Contracts.thy ===== *)
theory Contracts
  imports Json Domain Workflow_Stage
begin

section \<open>Event contracts\<close>

text \<open>
  The messages the services exchange, from the types of \<^verbatim>\<open>packages/contracts/src/generated/events.ts\<close>
  (generated from the event schema). Enumerations and instants are strings, as on the wire;
  \<open>event_json\<close> is the \<^verbatim>\<open>data\<close> member as the validators see it. \<open>OtherData\<close> is a payload that has no
  typed reading. A number that came out of \<^verbatim>\<open>Number(text)\<close> is \<open>None\<close> when it is not an integer; it is
  then serialised as null, as NaN is.
\<close>

record trace_context =
  traceparent :: string
  tracestate :: "string option"

record ipv4_configuration =
  ipAddress :: string
  ipPrefixLength :: int
  ipGateway :: string
  dnsServers :: "string list"

record create_data =
  dataImageId :: string
  dataFlavorId :: string
  dataNetworkId :: string
  dataProviderProfileId :: string
  dataHostname :: string
  dataResources :: sizing
  dataIpv4 :: ipv4_configuration
  dataSshPublicKeys :: "string list option"

record routing =
  providerProfileId :: string
  createOperationId :: uuid

record failure =
  category :: string
  code :: string
  safeMessage :: string
  retryAfterMilliseconds :: "int option option"

record measured_resources =
  measuredCpuCount :: int
  measuredMemoryMiB :: "int option"
  measuredDiskGiB :: "int option"

record observed_state =
  obsExists :: bool
  obsPowerState :: string
  obsResources :: "measured_resources option"
  obsMarkerMatch :: bool
  obsObservedAt :: string

record progress_data =
  progStage :: string
  progAttempt :: int
  progOperationState :: string
  progTaskReference :: "string option"
  progNextActionAt :: "string option"

record completed_data =
  complAction :: string
  complLifecycleState :: string
  complProviderResourceId :: "string option"
  complEvidenceId :: uuid
  complObserved :: "observed_state option"

record failed_data =
  failAction :: string
  failFailure :: failure
  failCompensationState :: string

record replay_resolved_data =
  resReplayRequestId :: uuid
  resOriginalEventId :: uuid
  resOutcome :: string
  resReplayGeneration :: int
  resResolvedAt :: string

record dead_lettered_data =
  dlOriginalEventId :: uuid
  dlOriginalSchemaName :: string
  dlOriginalSchemaVersion :: int
  dlFailure :: failure
  dlAttempts :: int
  dlReplayAllowed :: bool
  dlDeadLetteredAt :: string

record audit_data =
  auActorId :: string
  auActorRole :: string
  auAction :: string
  auTargetType :: string
  auTargetId :: string
  auOutcome :: string
  auReasonReference :: "string option"

datatype event_data =
    CreateRequested create_data
  | PowerRequested string routing
  | ResizeRequested string sizing routing
  | SnapshotCreateRequested uuid string "string option" routing
  | SnapshotRollbackRequested uuid string routing
  | SnapshotDeleteRequested uuid string routing
  | RetentionRequested string string routing
  | PurgeRequested uuid string uuid routing
  | ReplayRequested uuid uuid string
  | Progressed progress_data
  | Completed completed_data
  | Failed failed_data
  | ReplayResolved replay_resolved_data
  | DriftDetected string bool uuid
  | DeadLettered dead_lettered_data
  | AuditRecorded audit_data
  | OtherData json

record event =
  eventId :: uuid
  schemaName :: string
  schemaVersion :: int
  aggregateType :: string
  aggregateId :: uuid
  projectId :: uuid
  operationId :: uuid
  correlationId :: string
  causationId :: string
  occurredAt :: string
  traceContext :: trace_context
  partitionKey :: string
  data :: event_data

subsection \<open>The payload as the validators see it\<close>

definition optional_field :: "string \<Rightarrow> json option \<Rightarrow> (string \<times> json) list" where
  "optional_field k v = (case v of None \<Rightarrow> [] | Some j \<Rightarrow> [(k, j)])"

definition sizing_json :: "sizing \<Rightarrow> json" where
  "sizing_json r = JObj [(''cpuCount'', JNum (cpuCount r)), (''memoryMiB'', JNum (memoryMiB r)),
     (''diskGiB'', JNum (diskGiB r))]"

definition number_json :: "int option \<Rightarrow> json" where
  "number_json n = (case n of None \<Rightarrow> JNull | Some i \<Rightarrow> JNum i)"

definition measured_json :: "measured_resources \<Rightarrow> json" where
  "measured_json r = JObj [(''cpuCount'', JNum (measuredCpuCount r)),
     (''memoryMiB'', number_json (measuredMemoryMiB r)), (''diskGiB'', number_json (measuredDiskGiB r))]"

definition routing_fields :: "routing \<Rightarrow> (string \<times> json) list" where
  "routing_fields r = [(''providerProfileId'', JStr (providerProfileId r)),
     (''createOperationId'', JStr (createOperationId r))]"

definition failure_json :: "failure \<Rightarrow> json" where
  "failure_json f = JObj ([(''category'', JStr (category f)), (''code'', JStr (code f)),
     (''safeMessage'', JStr (safeMessage f))] @
     optional_field ''retryAfterMilliseconds'' (map_option number_json (retryAfterMilliseconds f)))"

definition observed_json :: "observed_state \<Rightarrow> json" where
  "observed_json obs = JObj ([(''exists'', JBool (obsExists obs)), (''powerState'', JStr (obsPowerState obs))] @
     optional_field ''resources'' (map_option measured_json (obsResources obs)) @
     [(''markerMatch'', JBool (obsMarkerMatch obs)), (''observedAt'', JStr (obsObservedAt obs))])"

definition ipv4_json :: "ipv4_configuration \<Rightarrow> json" where
  "ipv4_json i = JObj [(''address'', JStr (ipAddress i)), (''prefixLength'', JNum (ipPrefixLength i)),
     (''gateway'', JStr (ipGateway i)), (''dnsServers'', JArr (map JStr (dnsServers i)))]"

definition create_json :: "create_data \<Rightarrow> json" where
  "create_json d = JObj ([(''imageId'', JStr (dataImageId d)), (''flavorId'', JStr (dataFlavorId d)),
     (''networkId'', JStr (dataNetworkId d)), (''providerProfileId'', JStr (dataProviderProfileId d)),
     (''hostname'', JStr (dataHostname d)), (''resources'', sizing_json (dataResources d)),
     (''ipv4'', ipv4_json (dataIpv4 d))] @
     optional_field ''sshPublicKeys'' (map_option (\<lambda>ks. JArr (map JStr ks)) (dataSshPublicKeys d)))"

fun event_json :: "event_data \<Rightarrow> json" where
  "event_json (CreateRequested d) = create_json d"
| "event_json (PowerRequested a r) = JObj ((''action'', JStr a) # routing_fields r)"
| "event_json (ResizeRequested fl t r) =
     JObj ((''flavorId'', JStr fl) # (''targetResources'', sizing_json t) # routing_fields r)"
| "event_json (SnapshotCreateRequested sid n d r) =
     JObj ([(''snapshotId'', JStr sid), (''name'', JStr n)] @
       optional_field ''description'' (map_option JStr d) @ routing_fields r)"
| "event_json (SnapshotRollbackRequested sid ref r) =
     JObj ((''snapshotId'', JStr sid) # (''providerSnapshotReference'', JStr ref) # routing_fields r)"
| "event_json (SnapshotDeleteRequested sid ref r) =
     JObj ((''snapshotId'', JStr sid) # (''providerSnapshotReference'', JStr ref) # routing_fields r)"
| "event_json (RetentionRequested dl m r) =
     JObj ((''retentionDeadline'', JStr dl) # (''leaseReleaseMode'', JStr m) # routing_fields r)"
| "event_json (PurgeRequested a dl rr r) =
     JObj ((''purgeAuthorizationId'', JStr a) # (''retentionDeadline'', JStr dl) #
       (''reasonReference'', JStr rr) # routing_fields r)"
| "event_json (ReplayRequested rid oid t) =
     JObj [(''replayRequestId'', JStr rid), (''originalEventId'', JStr oid), (''requestedAt'', JStr t)]"
| "event_json (Progressed p) =
     JObj ([(''stage'', JStr (progStage p)), (''attempt'', JNum (progAttempt p)),
       (''operationState'', JStr (progOperationState p))] @
       optional_field ''providerTaskReference'' (map_option JStr (progTaskReference p)) @
       optional_field ''nextActionAt'' (map_option JStr (progNextActionAt p)))"
| "event_json (Completed c) =
     JObj ([(''action'', JStr (complAction c)), (''lifecycleState'', JStr (complLifecycleState c))] @
       optional_field ''providerResourceId'' (map_option JStr (complProviderResourceId c)) @
       [(''evidenceId'', JStr (complEvidenceId c))] @
       optional_field ''observed'' (map_option observed_json (complObserved c)))"
| "event_json (Failed f) =
     JObj [(''action'', JStr (failAction f)), (''failure'', failure_json (failFailure f)),
       (''compensationState'', JStr (failCompensationState f))]"
| "event_json (ReplayResolved r) =
     JObj [(''replayRequestId'', JStr (resReplayRequestId r)),
       (''originalEventId'', JStr (resOriginalEventId r)), (''outcome'', JStr (resOutcome r)),
       (''replayGeneration'', JNum (resReplayGeneration r)), (''resolvedAt'', JStr (resResolvedAt r))]"
| "event_json (DriftDetected c d e) =
     JObj [(''classification'', JStr c), (''dangerous'', JBool d), (''evidenceId'', JStr e)]"
| "event_json (DeadLettered d) =
     JObj [(''originalEventId'', JStr (dlOriginalEventId d)),
       (''originalSchemaName'', JStr (dlOriginalSchemaName d)),
       (''originalSchemaVersion'', JNum (dlOriginalSchemaVersion d)),
       (''failure'', failure_json (dlFailure d)), (''attempts'', JNum (dlAttempts d)),
       (''replayAllowed'', JBool (dlReplayAllowed d)),
       (''deadLetteredAt'', JStr (dlDeadLetteredAt d))]"
| "event_json (AuditRecorded a) =
     JObj ([(''actorId'', JStr (auActorId a)), (''actorRole'', JStr (auActorRole a)),
       (''action'', JStr (auAction a)), (''targetType'', JStr (auTargetType a)),
       (''targetId'', JStr (auTargetId a)), (''outcome'', JStr (auOutcome a))] @
       optional_field ''reasonReference'' (map_option JStr (auReasonReference a)))"
| "event_json (OtherData j) = j"

text \<open>The whole message, as it is hashed.\<close>

definition trace_json :: "trace_context \<Rightarrow> json" where
  "trace_json t = JObj ((''traceparent'', JStr (traceparent t)) #
     optional_field ''tracestate'' (map_option JStr (tracestate t)))"

definition message_json :: "event \<Rightarrow> json" where
  "message_json e = JObj
     [(''eventId'', JStr (eventId e)), (''schemaName'', JStr (schemaName e)),
      (''schemaVersion'', JNum (schemaVersion e)), (''aggregateType'', JStr (aggregateType e)),
      (''aggregateId'', JStr (aggregateId e)), (''projectId'', JStr (projectId e)),
      (''operationId'', JStr (operationId e)), (''correlationId'', JStr (correlationId e)),
      (''causationId'', JStr (causationId e)), (''occurredAt'', JStr (occurredAt e)),
      (''traceContext'', trace_json (traceContext e)), (''partitionKey'', JStr (partitionKey e)),
      (''data'', event_json (data e))]"

subsection \<open>Environment of one operation\<close>

text \<open>
  What a process reads from its surroundings while it handles one request: its clock and the
  database's, the n-th \<^verbatim>\<open>randomUUID()\<close>, the random source of the retry jitter (\<open>None\<close> when it is
  not finite), the telemetry's view of the current trace, the date parser of the runtime and the
  content hash \<^verbatim>\<open>canonicalSha256\<close>.
\<close>

record env =
  now :: millis
  dbNow :: millis
  uuidAt :: "nat \<Rightarrow> uuid"
  random :: "rat option"
  currentTraceContext :: "trace_context \<Rightarrow> trace_context"
  dateParses :: "string \<Rightarrow> bool"
  hashJson :: "json \<Rightarrow> string"

end
