(* ===== verification/Event_Validation.thy ===== *)
theory Event_Validation
  imports Contracts
begin

section \<open>Validation of the messages\<close>

text \<open>
  Model of \<^verbatim>\<open>packages/application/src/event-validation.ts\<close>. Each validator decides on the envelope's
  schema fields and on the untyped payload. \<^verbatim>\<open>Date.parse\<close> is the environment's.
\<close>

subsection \<open>Shape predicates\<close>

definition uuid_char :: "char \<Rightarrow> bool" where
  "uuid_char c \<longleftrightarrow> is_hex c \<or> (65 \<le> code_unit c \<and> code_unit c \<le> 70)"

definition uuidPattern :: "string \<Rightarrow> bool" where
  "uuidPattern s =
     (let groups = split_on (CHR ''-'') s in
      map length groups = [8, 4, 4, 4, 12] \<and> list_all (list_all uuid_char) groups)"

fun objectValue :: "json \<Rightarrow> bool" where
  "objectValue (JObj _) = True"
| "objectValue _ = False"

fun object_fields :: "json \<Rightarrow> (string \<times> json) list" where
  "object_fields (JObj kvs) = kvs"
| "object_fields _ = []"

fun stringInRange :: "json \<Rightarrow> nat \<Rightarrow> nat \<Rightarrow> bool" where
  "stringInRange (JStr s) lo hi = (lo \<le> length s \<and> length s \<le> hi)"
| "stringInRange _ lo hi = False"

definition optional :: "json \<Rightarrow> (json \<Rightarrow> bool) \<Rightarrow> bool" where
  "optional v P \<longleftrightarrow> v = JUndefined \<or> P v"

definition onlyKeys :: "(string \<times> json) list \<Rightarrow> string list \<Rightarrow> bool" where
  "onlyKeys kvs allowed \<longleftrightarrow> list_all (\<lambda>kv. List.member allowed (fst kv)) kvs"

fun dateTime :: "env \<Rightarrow> json \<Rightarrow> bool" where
  "dateTime E (JStr s) = dateParses E s"
| "dateTime E _ = False"

fun ipv4Address :: "json \<Rightarrow> bool" where
  "ipv4Address (JStr s) =
     (let octets = split_on (CHR ''.'') s in
      length octets = 4 \<and> list_all (\<lambda>o1. octet_pattern o1 \<and> dec_value o1 \<le> 255) octets)"
| "ipv4Address _ = False"

definition MAX_SAFE_INTEGER :: int where
  "MAX_SAFE_INTEGER = 2 ^ 53 - 1"

fun integerInRange :: "json \<Rightarrow> int \<Rightarrow> int \<Rightarrow> bool" where
  "integerInRange (JNum i) lo hi = (abs i \<le> MAX_SAFE_INTEGER \<and> lo \<le> i \<and> i \<le> hi)"
| "integerInRange _ lo hi = False"

fun positiveInteger :: "json \<Rightarrow> bool" where
  "positiveInteger (JNum i) = (abs i \<le> MAX_SAFE_INTEGER \<and> 0 < i)"
| "positiveInteger _ = False"

fun uuidValue :: "json \<Rightarrow> bool" where
  "uuidValue (JStr s) = uuidPattern s"
| "uuidValue _ = False"

fun isBoolean :: "json \<Rightarrow> bool" where
  "isBoolean (JBool _) = True"
| "isBoolean _ = False"

text \<open>\<^verbatim>\<open>names.includes(String(value))\<close>.\<close>

definition enumerated :: "json \<Rightarrow> string list \<Rightarrow> bool" where
  "enumerated v names = List.member names (js_string v)"

definition failureValue :: "json \<Rightarrow> bool" where
  "failureValue v =
     (objectValue v \<and>
      (let d = object_fields v in
       onlyKeys d [''category'', ''code'', ''safeMessage'', ''retryAfterMilliseconds''] \<and>
       enumerated (get_field d ''category'')
         [''validation'', ''authorization'', ''conflict'', ''transient'', ''permanent'',
          ''unknown_outcome'', ''compensation_failure'', ''manual_review''] \<and>
       stringInRange (get_field d ''code'') 1 80 \<and>
       stringInRange (get_field d ''safeMessage'') 0 512 \<and>
       optional (get_field d ''retryAfterMilliseconds'') (\<lambda>c. integerInRange c 1 86400000)))"

definition resourcesValue :: "json \<Rightarrow> bool" where
  "resourcesValue v =
     (objectValue v \<and>
      (let d = object_fields v in
       onlyKeys d [''cpuCount'', ''memoryMiB'', ''diskGiB''] \<and>
       integerInRange (get_field d ''cpuCount'') 1 64 \<and>
       integerInRange (get_field d ''memoryMiB'') 512 262144 \<and>
       integerInRange (get_field d ''diskGiB'') 8 2048))"

definition INSTANCE_LIFECYCLE_STATES :: "string list" where
  "INSTANCE_LIFECYCLE_STATES =
     [''pending'', ''provisioning'', ''active'', ''updating'', ''failed'', ''unknown_outcome'',
      ''retained'', ''purge_pending'', ''purged'', ''manual_review'']"

fun isWorkflowAction :: "json \<Rightarrow> bool" where
  "isWorkflowAction (JStr s) = List.member (map action_name WORKFLOW_ACTIONS) s"
| "isWorkflowAction _ = False"

fun isInstanceLifecycleState :: "json \<Rightarrow> bool" where
  "isInstanceLifecycleState (JStr s) = List.member INSTANCE_LIFECYCLE_STATES s"
| "isInstanceLifecycleState _ = False"

definition isObservedState :: "env \<Rightarrow> json \<Rightarrow> bool" where
  "isObservedState E v =
     (objectValue v \<and>
      (let d = object_fields v in
       onlyKeys d [''exists'', ''powerState'', ''resources'', ''markerMatch'', ''observedAt''] \<and>
       isBoolean (get_field d ''exists'') \<and>
       enumerated (get_field d ''powerState'') [''running'', ''stopped'', ''suspended'', ''unknown''] \<and>
       isBoolean (get_field d ''markerMatch'') \<and>
       dateTime E (get_field d ''observedAt'') \<and>
       optional (get_field d ''resources'') resourcesValue))"

definition snapshotRouting :: "(string \<times> json) list \<Rightarrow> bool" where
  "snapshotRouting d \<longleftrightarrow>
     stringInRange (get_field d ''providerProfileId'') 1 64 \<and>
     uuidValue (get_field d ''createOperationId'')"

subsection \<open>Commands\<close>

text \<open>The envelope fields every validator compares.\<close>

definition schema_is :: "event \<Rightarrow> string \<Rightarrow> bool" where
  "schema_is e name \<longleftrightarrow> schemaName e = name \<and> schemaVersion e = 1"

definition instance_schema_is :: "event \<Rightarrow> string \<Rightarrow> bool" where
  "instance_schema_is e name \<longleftrightarrow> schema_is e name \<and> aggregateType e = ''instance''"

definition payload :: "event \<Rightarrow> json" where
  "payload e = event_json (data e)"

definition ipv4Value :: "json \<Rightarrow> bool" where
  "ipv4Value v =
     (objectValue v \<and>
      (let d = object_fields v in
       onlyKeys d [''address'', ''prefixLength'', ''gateway'', ''dnsServers''] \<and>
       ipv4Address (get_field d ''address'') \<and>
       integerInRange (get_field d ''prefixLength'') 1 32 \<and>
       ipv4Address (get_field d ''gateway'') \<and>
       (case get_field d ''dnsServers'' of
          JArr items \<Rightarrow> 1 \<le> length items \<and> length items \<le> 4 \<and> list_all ipv4Address items \<and> distinct items
        | _ \<Rightarrow> False)))"

definition sshKeysValue :: "json \<Rightarrow> bool" where
  "sshKeysValue v =
     (case v of
        JUndefined \<Rightarrow> True
      | JArr items \<Rightarrow> length items \<le> 5 \<and> list_all (\<lambda>k. stringInRange k 32 8192) items \<and> distinct items
      | _ \<Rightarrow> False)"

definition isInstanceCreateRequestedV1 :: "event \<Rightarrow> bool" where
  "isInstanceCreateRequestedV1 e =
     (let d = object_fields (payload e) in
      instance_schema_is e ''instance.create.requested'' \<and> objectValue (payload e) \<and>
      onlyKeys d [''imageId'', ''flavorId'', ''networkId'', ''providerProfileId'', ''hostname'',
        ''resources'', ''ipv4'', ''sshPublicKeys''] \<and>
      stringInRange (get_field d ''imageId'') 1 63 \<and> stringInRange (get_field d ''flavorId'') 1 63 \<and>
      stringInRange (get_field d ''networkId'') 1 63 \<and>
      stringInRange (get_field d ''providerProfileId'') 1 63 \<and>
      stringInRange (get_field d ''hostname'') 1 63 \<and>
      resourcesValue (get_field d ''resources'') \<and> ipv4Value (get_field d ''ipv4'') \<and>
      sshKeysValue (get_field d ''sshPublicKeys''))"

definition isInstancePowerRequestedV1 :: "event \<Rightarrow> bool" where
  "isInstancePowerRequestedV1 e =
     (let d = object_fields (payload e) in
      instance_schema_is e ''instance.power.requested'' \<and> objectValue (payload e) \<and>
      onlyKeys d [''action'', ''providerProfileId'', ''createOperationId''] \<and>
      enumerated (get_field d ''action'') [''start'', ''shutdown'', ''stop'', ''reboot''] \<and>
      snapshotRouting d)"

definition isInstanceResizeRequestedV1 :: "event \<Rightarrow> bool" where
  "isInstanceResizeRequestedV1 e =
     (let d = object_fields (payload e) in
      objectValue (payload e) \<and> instance_schema_is e ''instance.resize.requested'' \<and>
      onlyKeys d [''flavorId'', ''targetResources'', ''providerProfileId'', ''createOperationId''] \<and>
      stringInRange (get_field d ''flavorId'') 1 63 \<and>
      stringInRange (get_field d ''providerProfileId'') 1 64 \<and>
      uuidValue (get_field d ''createOperationId'') \<and>
      resourcesValue (get_field d ''targetResources''))"

definition isSnapshotCreateRequestedV1 :: "event \<Rightarrow> bool" where
  "isSnapshotCreateRequestedV1 e =
     (let d = object_fields (payload e) in
      schema_is e ''snapshot.create.requested'' \<and> objectValue (payload e) \<and>
      onlyKeys d [''snapshotId'', ''name'', ''description'', ''providerProfileId'', ''createOperationId''] \<and>
      uuidValue (get_field d ''snapshotId'') \<and> stringInRange (get_field d ''name'') 1 63 \<and>
      optional (get_field d ''description'') (\<lambda>c. stringInRange c 0 256) \<and> snapshotRouting d)"

definition isSnapshotActionRequestedV1 :: "event \<Rightarrow> string \<Rightarrow> bool" where
  "isSnapshotActionRequestedV1 e name =
     (let d = object_fields (payload e) in
      schema_is e name \<and> objectValue (payload e) \<and>
      onlyKeys d [''snapshotId'', ''providerSnapshotReference'', ''providerProfileId'', ''createOperationId''] \<and>
      uuidValue (get_field d ''snapshotId'') \<and>
      stringInRange (get_field d ''providerSnapshotReference'') 1 128 \<and> snapshotRouting d)"

definition isInstanceRetentionRequestedV1 :: "env \<Rightarrow> event \<Rightarrow> bool" where
  "isInstanceRetentionRequestedV1 E e =
     (let d = object_fields (payload e) in
      instance_schema_is e ''instance.retention.requested'' \<and> objectValue (payload e) \<and>
      onlyKeys d [''retentionDeadline'', ''leaseReleaseMode'', ''providerProfileId'', ''createOperationId''] \<and>
      dateTime E (get_field d ''retentionDeadline'') \<and>
      enumerated (get_field d ''leaseReleaseMode'') [''quarantine_until_purge'', ''release_on_retain''] \<and>
      snapshotRouting d)"

definition isInstancePurgeRequestedV1 :: "env \<Rightarrow> event \<Rightarrow> bool" where
  "isInstancePurgeRequestedV1 E e =
     (let d = object_fields (payload e) in
      instance_schema_is e ''instance.purge.requested'' \<and> objectValue (payload e) \<and>
      onlyKeys d [''purgeAuthorizationId'', ''retentionDeadline'', ''reasonReference'',
        ''providerProfileId'', ''createOperationId''] \<and>
      uuidValue (get_field d ''purgeAuthorizationId'') \<and>
      dateTime E (get_field d ''retentionDeadline'') \<and>
      uuidValue (get_field d ''reasonReference'') \<and> snapshotRouting d)"

subsection \<open>Replay and workflow events\<close>

definition isProvisioningReplayRequestedV1 :: "env \<Rightarrow> event \<Rightarrow> bool" where
  "isProvisioningReplayRequestedV1 E e =
     (let d = object_fields (payload e) in
      instance_schema_is e ''provisioning.replay.requested'' \<and> objectValue (payload e) \<and>
      onlyKeys d [''replayRequestId'', ''originalEventId'', ''requestedAt''] \<and>
      uuidValue (get_field d ''replayRequestId'') \<and> uuidValue (get_field d ''originalEventId'') \<and>
      dateTime E (get_field d ''requestedAt''))"

definition isProvisioningReplayResolvedV1 :: "env \<Rightarrow> event \<Rightarrow> bool" where
  "isProvisioningReplayResolvedV1 E e =
     (let d = object_fields (payload e) in
      instance_schema_is e ''provisioning.replay.resolved'' \<and> objectValue (payload e) \<and>
      onlyKeys d [''replayRequestId'', ''originalEventId'', ''outcome'', ''replayGeneration'', ''resolvedAt''] \<and>
      uuidValue (get_field d ''replayRequestId'') \<and> uuidValue (get_field d ''originalEventId'') \<and>
      (get_field d ''outcome'' = JStr ''completed'' \<or> get_field d ''outcome'' = JStr ''rejected'') \<and>
      integerInRange (get_field d ''replayGeneration'') 0 MAX_SAFE_INTEGER \<and>
      dateTime E (get_field d ''resolvedAt''))"

definition isWorkflowProgressedV1 :: "env \<Rightarrow> event \<Rightarrow> bool" where
  "isWorkflowProgressedV1 E e =
     (let d = object_fields (payload e) in
      instance_schema_is e ''workflow.progressed'' \<and> objectValue (payload e) \<and>
      onlyKeys d [''stage'', ''attempt'', ''operationState'', ''providerTaskReference'', ''nextActionAt''] \<and>
      stringInRange (get_field d ''stage'') 1 80 \<and> positiveInteger (get_field d ''attempt'') \<and>
      enumerated (get_field d ''operationState'')
        [''running'', ''retry_wait'', ''compensating'', ''unknown_outcome''] \<and>
      optional (get_field d ''providerTaskReference'') (\<lambda>c. stringInRange c 0 256) \<and>
      optional (get_field d ''nextActionAt'') (dateTime E))"

definition isInstanceMutationCompletedV1 :: "env \<Rightarrow> event \<Rightarrow> bool" where
  "isInstanceMutationCompletedV1 E e =
     (let d = object_fields (payload e) in
      instance_schema_is e ''instance.mutation.completed'' \<and> objectValue (payload e) \<and>
      onlyKeys d [''action'', ''lifecycleState'', ''providerResourceId'', ''evidenceId'', ''observed''] \<and>
      isWorkflowAction (get_field d ''action'') \<and>
      isInstanceLifecycleState (get_field d ''lifecycleState'') \<and>
      optional (get_field d ''providerResourceId'') (\<lambda>c. stringInRange c 1 128) \<and>
      uuidValue (get_field d ''evidenceId'') \<and>
      optional (get_field d ''observed'') (isObservedState E))"

definition isInstanceMutationFailedV1 :: "event \<Rightarrow> bool" where
  "isInstanceMutationFailedV1 e =
     (let d = object_fields (payload e) in
      instance_schema_is e ''instance.mutation.failed'' \<and> objectValue (payload e) \<and>
      onlyKeys d [''action'', ''failure'', ''compensationState''] \<and>
      isWorkflowAction (get_field d ''action'') \<and> failureValue (get_field d ''failure'') \<and>
      enumerated (get_field d ''compensationState'')
        [''not_required'', ''pending'', ''succeeded'', ''failed'', ''unsafe''])"

definition isProvisioningDeadLetteredV1 :: "env \<Rightarrow> event \<Rightarrow> bool" where
  "isProvisioningDeadLetteredV1 E e =
     (let d = object_fields (payload e) in
      instance_schema_is e ''provisioning.dead_lettered'' \<and> objectValue (payload e) \<and>
      onlyKeys d [''originalEventId'', ''originalSchemaName'', ''originalSchemaVersion'', ''failure'',
        ''attempts'', ''replayAllowed'', ''deadLetteredAt''] \<and>
      uuidValue (get_field d ''originalEventId'') \<and>
      stringInRange (get_field d ''originalSchemaName'') 1 120 \<and>
      positiveInteger (get_field d ''originalSchemaVersion'') \<and> failureValue (get_field d ''failure'') \<and>
      positiveInteger (get_field d ''attempts'') \<and> isBoolean (get_field d ''replayAllowed'') \<and>
      dateTime E (get_field d ''deadLetteredAt''))"

end
