(* ===== verification/Workflow_Store.thy ===== *)
theory Workflow_Store
  imports Event_Validation
begin

section \<open>The workflow store\<close>

text \<open>
  Model of \<^verbatim>\<open>packages/postgres-adapter/src/workflow-store.ts\<close> (with \<^verbatim>\<open>audit-event.ts\<close>): the tables of
  the \<^verbatim>\<open>workflow\<close> schema, the inbox that admits commands and authorised replays, the claim with
  its lease and fencing token, and the three fenced writes that end a step.

  A method is one transaction: from the tables to an error, which leaves them unchanged, or to
  a result and the new tables. An \<^verbatim>\<open>INSERT\<close> that violates a unique constraint raises. An \<^verbatim>\<open>UPDATE\<close>
  without \<^verbatim>\<open>RETURNING\<close> yields an update result whatever it matched, so \<^verbatim>\<open>executeTakeFirstOrThrow\<close>
  on it does not raise. Row locks only serialise transactions and have no counterpart.
\<close>

subsection \<open>Tables\<close>

record workflow_row =
  wfOperationId :: uuid
  wfEventId :: uuid
  wfProjectId :: uuid
  wfInstanceId :: uuid
  wfAction :: string
  wfCommand :: event
  wfStatus :: string
  wfStage :: string
  wfAttempt :: int
  wfStageAttempt :: int
  wfRetryStartedAt :: "millis option"
  wfReplayGeneration :: int
  wfTraceContext :: trace_context
  wfFencingToken :: int
  wfProviderResourceId :: "string option"
  wfProviderTaskReference :: "string option"
  wfNextAttemptAt :: millis
  wfFailure :: "(string \<times> string \<times> string) option"
  wfLastError :: "(string \<times> string) option"
  wfCreatedAt :: millis
  wfUpdatedAt :: millis
  wfCompletedAt :: "millis option"

record instance_lease =
  leInstanceId :: uuid
  leOwnerId :: string
  leFencingToken :: int
  leLeasedUntil :: millis
  leUpdatedAt :: millis

record command_receipt =
  rcEventId :: uuid
  rcConsumerName :: string
  rcReplayGeneration :: int
  rcSourceTopic :: string
  rcSourcePartition :: int
  rcSourceOffset :: string
  rcPayloadHash :: string
  rcReceivedAt :: millis
  rcCompletedAt :: "millis option"

record dead_letter =
  dlrOriginalEventId :: uuid
  dlrDeadLetterEventId :: uuid
  dlrOriginal :: event
  dlrOriginalSchemaName :: string
  dlrFailureCategory :: string
  dlrFailureCode :: string
  dlrSafeMessage :: string
  dlrAttempts :: int
  dlrReplayAllowed :: bool
  dlrReplayGeneration :: int
  dlrStatus :: string
  dlrDeadLetteredAt :: millis
  dlrLastReplayAt :: "millis option"

record replay_request =
  rrReplayRequestId :: uuid
  rrRequestEventId :: uuid
  rrOriginalEventId :: uuid
  rrReplayGeneration :: "int option"
  rrStatus :: string
  rrRequestPayload :: event
  rrAuthorizedCommandHash :: "string option"
  rrAuthorizedOutboxId :: "uuid option"
  rrDecidedAt :: millis
  rrCompletedAt :: "millis option"

record poison_record =
  poId :: uuid
  poConsumerName :: string
  poSourceTopic :: string
  poSourcePartition :: int
  poSourceOffset :: string
  poPayloadHash :: string
  poFailureCode :: string
  poSafeMessage :: string
  poQuarantinedAt :: millis

text \<open>
  An outbox row: the columns that copy fields of the payload are read from the payload.
\<close>

record outbox_row =
  obOutboxId :: uuid
  obTopic :: string
  obPayload :: event
  obReplayGeneration :: int
  obOccurredAt :: string

record audit_entry =
  aeId :: uuid
  aeProjectId :: uuid
  aeActorId :: string
  aeActorRole :: string
  aeAction :: string
  aeTargetType :: string
  aeTargetId :: string
  aeOutcome :: string
  aeOperationId :: uuid
  aeOccurredAt :: millis

record workflow_db =
  workflows :: "workflow_row list"
  instance_leases :: "instance_lease list"
  command_receipts :: "command_receipt list"
  dead_letters :: "dead_letter list"
  replay_requests :: "replay_request list"
  poison_records :: "poison_record list"
  wf_outbox :: "outbox_row list"
  audit_entries :: "audit_entry list"

datatype store_error =
    FencingTokenStale
  | LeaseMissingExpiredOrFenced
  | NoResult
  | UniqueViolation string
  | InvalidClaim
  | UnsupportedAction
  | UnsupportedStage
  | UnsupportedCommand
  | InvalidReplayAuthorization
  | UnregisteredSchema

record delivery_identity =
  topic :: string
  partition :: int
  offset :: string
  replayGeneration :: int
  outboxId :: "uuid option"

definition CONSUMER_NAME :: string where
  "CONSUMER_NAME = ''provisioning-orchestrator.v1''"

definition MINIMUM_LEASE_SECONDS :: int where
  "MINIMUM_LEASE_SECONDS = 5"

definition MAXIMUM_LEASE_SECONDS :: int where
  "MAXIMUM_LEASE_SECONDS = 300"

subsection \<open>Actions and stored commands\<close>

definition workflowActionForSchema :: "string \<Rightarrow> workflow_action option" where
  "workflowActionForSchema name =
     (if name = ''instance.create.requested'' then Some CreateInstance
      else if name = ''instance.power.requested'' then Some PowerInstance
      else if name = ''instance.resize.requested'' then Some ResizeInstance
      else if name = ''snapshot.create.requested'' then Some CreateSnapshot
      else if name = ''snapshot.rollback.requested'' then Some RollbackSnapshot
      else if name = ''snapshot.delete.requested'' then Some DeleteSnapshot
      else if name = ''instance.retention.requested'' then Some RetainInstance
      else if name = ''instance.purge.requested'' then Some PurgeInstance
      else None)"

definition workflowActionOf :: "event \<Rightarrow> store_error + workflow_action" where
  "workflowActionOf command = require UnregisteredSchema (workflowActionForSchema (schemaName command))"

fun COMMAND_VALIDATORS :: "env \<Rightarrow> workflow_action \<Rightarrow> event \<Rightarrow> bool" where
  "COMMAND_VALIDATORS E CreateInstance c = isInstanceCreateRequestedV1 c"
| "COMMAND_VALIDATORS E PowerInstance c = isInstancePowerRequestedV1 c"
| "COMMAND_VALIDATORS E ResizeInstance c = isInstanceResizeRequestedV1 c"
| "COMMAND_VALIDATORS E CreateSnapshot c = isSnapshotCreateRequestedV1 c"
| "COMMAND_VALIDATORS E RollbackSnapshot c = isSnapshotActionRequestedV1 c ''snapshot.rollback.requested''"
| "COMMAND_VALIDATORS E DeleteSnapshot c = isSnapshotActionRequestedV1 c ''snapshot.delete.requested''"
| "COMMAND_VALIDATORS E RetainInstance c = isInstanceRetentionRequestedV1 E c"
| "COMMAND_VALIDATORS E PurgeInstance c = isInstancePurgeRequestedV1 E c"
| "COMMAND_VALIDATORS E ReconcileInstance c = False"

definition lifecycleCommand :: "env \<Rightarrow> event \<Rightarrow> workflow_action \<Rightarrow> event option" where
  "lifecycleCommand E stored action = (if COMMAND_VALIDATORS E action stored then Some stored else None)"

definition storedReplayRequest :: "env \<Rightarrow> event \<Rightarrow> event option" where
  "storedReplayRequest E stored = (if isProvisioningReplayRequestedV1 E stored then Some stored else None)"

subsection \<open>Outbox and audit\<close>

definition writeWorkflowOutbox ::
  "uuid \<Rightarrow> event \<Rightarrow> string \<Rightarrow> string \<Rightarrow> int \<Rightarrow> 'z workflow_db_scheme \<Rightarrow> store_error + 'z workflow_db_scheme" where
  "writeWorkflowOutbox outbox_id e topic_name occurred generation db =
     (let row = \<lparr>obOutboxId = outbox_id, obTopic = topic_name, obPayload = e,
                 obReplayGeneration = generation, obOccurredAt = occurred\<rparr> in
      if outbox_id \<in> set (map obOutboxId (wf_outbox db)) \<or>
         (eventId e, generation) \<in> set (map (\<lambda>r. (eventId (obPayload r), obReplayGeneration r)) (wf_outbox db))
      then Inl (UniqueViolation ''workflow.outbox'')
      else Inr (db\<lparr>wf_outbox := wf_outbox db @ [row]\<rparr>))"

definition writeEvent ::
  "uuid \<Rightarrow> event \<Rightarrow> 'z workflow_db_scheme \<Rightarrow> store_error + 'z workflow_db_scheme" where
  "writeEvent outbox_id e db = writeWorkflowOutbox outbox_id e ''provisioning.events.v1'' (occurredAt e) 0 db"

definition auditRecordedEvent ::
  "uuid \<Rightarrow> event \<Rightarrow> millis \<Rightarrow> audit_data \<Rightarrow> event" where
  "auditRecordedEvent eid cause occurred a =
     \<lparr>eventId = eid, schemaName = ''audit.recorded'', schemaVersion = 1, aggregateType = ''audit'',
      aggregateId = eid, projectId = projectId cause, operationId = operationId cause,
      correlationId = correlationId cause, causationId = eventId cause,
      occurredAt = toISOString occurred, traceContext = traceContext cause,
      partitionKey = projectId cause, data = AuditRecorded a\<rparr>"

definition audit_entry_of :: "event \<Rightarrow> audit_data \<Rightarrow> millis \<Rightarrow> audit_entry" where
  "audit_entry_of e a occurred =
     \<lparr>aeId = eventId e, aeProjectId = projectId e, aeActorId = auActorId a, aeActorRole = auActorRole a,
      aeAction = auAction a, aeTargetType = auTargetType a, aeTargetId = auTargetId a,
      aeOutcome = auOutcome a, aeOperationId = operationId e, aeOccurredAt = occurred\<rparr>"

definition writeServiceAudit ::
  "uuid \<Rightarrow> uuid \<Rightarrow> event \<Rightarrow> string \<Rightarrow> string \<Rightarrow> millis \<Rightarrow> string option \<Rightarrow>
   'z workflow_db_scheme \<Rightarrow> store_error + 'z workflow_db_scheme" where
  "writeServiceAudit audit_id outbox_id cause action outcome occurred reason db =
     (let a = \<lparr>auActorId = ''provisioning-orchestrator'', auActorRole = ''service'', auAction = action,
               auTargetType = aggregateType cause, auTargetId = aggregateId cause, auOutcome = outcome,
               auReasonReference = (if truthy reason then reason else None)\<rparr>;
          e = auditRecordedEvent audit_id cause occurred a in
      case insert_unique aeId (audit_entry_of e a occurred) (audit_entries db) of
        None \<Rightarrow> Inl (UniqueViolation ''audit.entries'')
      | Some entries \<Rightarrow>
          writeWorkflowOutbox outbox_id e ''audit.events.v1'' (toISOString occurred) 0
            (db\<lparr>audit_entries := entries\<rparr>))"

subsection \<open>Receipts, dead letters and replay authority\<close>

definition receipt_key :: "command_receipt \<Rightarrow> string \<times> uuid \<times> int" where
  "receipt_key r = (rcConsumerName r, rcEventId r, rcReplayGeneration r)"

definition receipt_source :: "command_receipt \<Rightarrow> string \<times> string \<times> int \<times> string" where
  "receipt_source r = (rcConsumerName r, rcSourceTopic r, rcSourcePartition r, rcSourceOffset r)"

definition insertCommandReceipt ::
  "env \<Rightarrow> event \<Rightarrow> delivery_identity \<Rightarrow> millis option \<Rightarrow> 'z workflow_db_scheme \<Rightarrow>
   store_error + bool \<times> 'z workflow_db_scheme" where
  "insertCommandReceipt E e delivery completed db =
     (let row = \<lparr>rcEventId = eventId e, rcConsumerName = CONSUMER_NAME,
                 rcReplayGeneration = replayGeneration delivery, rcSourceTopic = topic delivery,
                 rcSourcePartition = partition delivery, rcSourceOffset = offset delivery,
                 rcPayloadHash = hashJson E (message_json e), rcReceivedAt = now E,
                 rcCompletedAt = completed\<rparr> in
      if receipt_key row \<in> set (map receipt_key (command_receipts db)) then Inr (False, db)
      else if receipt_source row \<in> set (map receipt_source (command_receipts db))
      then Inl (UniqueViolation ''workflow.command_receipts'')
      else Inr (True, db\<lparr>command_receipts := command_receipts db @ [row]\<rparr>))"

definition poison_source :: "poison_record \<Rightarrow> string \<times> string \<times> int \<times> string" where
  "poison_source r = (poConsumerName r, poSourceTopic r, poSourcePartition r, poSourceOffset r)"

definition insertPoisonRecord ::
  "env \<Rightarrow> uuid \<Rightarrow> delivery_identity \<Rightarrow> string \<Rightarrow> string \<Rightarrow> string \<Rightarrow> 'z workflow_db_scheme \<Rightarrow>
   bool \<times> 'z workflow_db_scheme" where
  "insertPoisonRecord E record_id delivery payload_hash failure_code safe_message db =
     (let row = \<lparr>poId = record_id, poConsumerName = CONSUMER_NAME, poSourceTopic = topic delivery,
                 poSourcePartition = partition delivery, poSourceOffset = offset delivery,
                 poPayloadHash = payload_hash, poFailureCode = failure_code,
                 poSafeMessage = safe_message, poQuarantinedAt = now E\<rparr> in
      case insert_unique poison_source row (poison_records db) of
        None \<Rightarrow> (False, db)
      | Some rows \<Rightarrow> (True, db\<lparr>poison_records := rows\<rparr>))"

datatype rejection_code =
    REPLAY_COMMAND_IDENTITY_CONFLICT | REPLAY_COMMAND_UNAUTHORIZED | REPLAY_COMMAND_STATE_CONFLICT

fun rejection_name :: "rejection_code \<Rightarrow> string" where
  "rejection_name REPLAY_COMMAND_IDENTITY_CONFLICT = ''REPLAY_COMMAND_IDENTITY_CONFLICT''"
| "rejection_name REPLAY_COMMAND_UNAUTHORIZED = ''REPLAY_COMMAND_UNAUTHORIZED''"
| "rejection_name REPLAY_COMMAND_STATE_CONFLICT = ''REPLAY_COMMAND_STATE_CONFLICT''"

fun REPLAY_REJECTION_MESSAGES :: "rejection_code \<Rightarrow> string" where
  "REPLAY_REJECTION_MESSAGES REPLAY_COMMAND_IDENTITY_CONFLICT =
     ''A receipt for this replay generation already exists with a different canonical payload.''"
| "REPLAY_REJECTION_MESSAGES REPLAY_COMMAND_UNAUTHORIZED =
     ''The replay command did not match a durable replay authorization.''"
| "REPLAY_REJECTION_MESSAGES REPLAY_COMMAND_STATE_CONFLICT =
     ''The replay was authorized, but its target workflow is no longer in a reopenable state.''"

datatype command_admission = AdmissionAccepted | AdmissionDuplicate | AdmissionRejected rejection_code

definition rejectReplayCommand ::
  "env \<Rightarrow> delivery_identity \<Rightarrow> string \<Rightarrow> rejection_code \<Rightarrow> 'z workflow_db_scheme \<Rightarrow>
   command_admission \<times> 'z workflow_db_scheme" where
  "rejectReplayCommand E delivery payload_hash rejection db =
     (AdmissionRejected rejection,
      snd (insertPoisonRecord E (uuidAt E 2) delivery payload_hash (rejection_name rejection)
        (REPLAY_REJECTION_MESSAGES rejection) db))"

definition writeReplayResolution ::
  "uuid \<Rightarrow> uuid \<Rightarrow> event \<Rightarrow> uuid \<times> uuid \<Rightarrow> string \<Rightarrow> int \<Rightarrow> millis \<Rightarrow> 'z workflow_db_scheme \<Rightarrow>
   store_error + 'z workflow_db_scheme" where
  "writeReplayResolution event_id outbox_id request ids outcome generation resolved db =
     writeEvent outbox_id
       \<lparr>eventId = event_id, schemaName = ''provisioning.replay.resolved'', schemaVersion = 1,
        aggregateType = ''instance'', aggregateId = aggregateId request, projectId = projectId request,
        operationId = operationId request, correlationId = correlationId request,
        causationId = eventId request, occurredAt = toISOString resolved,
        traceContext = traceContext request, partitionKey = partitionKey request,
        data = ReplayResolved \<lparr>resReplayRequestId = fst ids, resOriginalEventId = snd ids,
          resOutcome = outcome, resReplayGeneration = generation,
          resResolvedAt = toISOString resolved\<rparr>\<rparr> db"

text \<open>The replay and original ids of a replay request, as \<^verbatim>\<open>request.data\<close> carries them.\<close>

fun replay_ids :: "event_data \<Rightarrow> uuid \<times> uuid" where
  "replay_ids (ReplayRequested rid oid t) = (rid, oid)"
| "replay_ids _ = ([], [])"

definition persistReplayRequest ::
  "event \<Rightarrow> string \<Rightarrow> millis \<Rightarrow> (int \<times> string \<times> uuid) option \<Rightarrow> 'z workflow_db_scheme \<Rightarrow>
   store_error + 'z workflow_db_scheme" where
  "persistReplayRequest request status decided authorization db =
     (let ids = replay_ids (data request);
          row = \<lparr>rrReplayRequestId = fst ids, rrRequestEventId = eventId request,
                 rrOriginalEventId = snd ids, rrReplayGeneration = map_option fst authorization,
                 rrStatus = status, rrRequestPayload = request,
                 rrAuthorizedCommandHash = map_option (fst \<circ> snd) authorization,
                 rrAuthorizedOutboxId = map_option (snd \<circ> snd) authorization,
                 rrDecidedAt = decided,
                 rrCompletedAt = (if status = ''rejected'' then Some decided else None)\<rparr> in
      if rrReplayRequestId row \<in> set (map rrReplayRequestId (replay_requests db)) \<or>
         rrRequestEventId row \<in> set (map rrRequestEventId (replay_requests db)) \<or>
         (rrReplayGeneration row \<noteq> None \<and>
          (rrOriginalEventId row, rrReplayGeneration row)
            \<in> set (map (\<lambda>r. (rrOriginalEventId r, rrReplayGeneration r)) (replay_requests db)))
      then Inl (UniqueViolation ''workflow.replay_requests'')
      else Inr (db\<lparr>replay_requests := replay_requests db @ [row]\<rparr>))"

record dead_letter_input =
  dliOriginal :: event
  dliTraceContext :: trace_context
  dliFailureCategory :: string
  dliFailureCode :: string
  dliSafeMessage :: string
  dliAttempts :: int
  dliReplayAllowed :: bool
  dliReplayGeneration :: int

definition dead_letter_event :: "uuid \<Rightarrow> dead_letter_input \<Rightarrow> millis \<Rightarrow> event" where
  "dead_letter_event event_id i t =
     (let o1 = dliOriginal i in
      \<lparr>eventId = event_id, schemaName = ''provisioning.dead_lettered'', schemaVersion = 1,
       aggregateType = ''instance'', aggregateId = aggregateId o1, projectId = projectId o1,
       operationId = operationId o1, correlationId = correlationId o1, causationId = eventId o1,
       occurredAt = toISOString t, traceContext = dliTraceContext i, partitionKey = partitionKey o1,
       data = DeadLettered \<lparr>dlOriginalEventId = eventId o1, dlOriginalSchemaName = schemaName o1,
         dlOriginalSchemaVersion = schemaVersion o1,
         dlFailure = \<lparr>category = dliFailureCategory i, code = dliFailureCode i,
           safeMessage = dliSafeMessage i, retryAfterMilliseconds = None\<rparr>,
         dlAttempts = dliAttempts i, dlReplayAllowed = dliReplayAllowed i,
         dlDeadLetteredAt = toISOString t\<rparr>\<rparr>)"

definition upsert_dead_letter ::
  "uuid \<Rightarrow> dead_letter_input \<Rightarrow> millis \<Rightarrow> dead_letter list \<Rightarrow> dead_letter list" where
  "upsert_dead_letter event_id i t rows =
     (let o1 = dliOriginal i in
      if eventId o1 \<in> set (map dlrOriginalEventId rows) then
        update_where (\<lambda>r. dlrOriginalEventId r = eventId o1)
          (\<lambda>r. r\<lparr>dlrDeadLetterEventId := event_id, dlrFailureCategory := dliFailureCategory i,
             dlrFailureCode := dliFailureCode i, dlrSafeMessage := dliSafeMessage i,
             dlrAttempts := dliAttempts i, dlrReplayAllowed := dliReplayAllowed i,
             dlrReplayGeneration := dliReplayGeneration i, dlrStatus := ''open'',
             dlrDeadLetteredAt := t\<rparr>) rows
      else rows @ [\<lparr>dlrOriginalEventId = eventId o1, dlrDeadLetterEventId = event_id,
             dlrOriginal = o1, dlrOriginalSchemaName = schemaName o1,
             dlrFailureCategory = dliFailureCategory i, dlrFailureCode = dliFailureCode i,
             dlrSafeMessage = dliSafeMessage i, dlrAttempts = dliAttempts i,
             dlrReplayAllowed = dliReplayAllowed i, dlrReplayGeneration = dliReplayGeneration i,
             dlrStatus = ''open'', dlrDeadLetteredAt = t, dlrLastReplayAt = None\<rparr>])"

definition writeDeadLetter ::
  "uuid \<Rightarrow> uuid \<Rightarrow> dead_letter_input \<Rightarrow> millis \<Rightarrow> 'z workflow_db_scheme \<Rightarrow>
   store_error + 'z workflow_db_scheme" where
  "writeDeadLetter event_id outbox_id i t db =
     writeWorkflowOutbox outbox_id (dead_letter_event event_id i t) ''provisioning.dlq.v1''
       (toISOString t) 0 (db\<lparr>dead_letters := upsert_dead_letter event_id i t (dead_letters db)\<rparr>)"

subsection \<open>Admission\<close>

text \<open>A fresh workflow row for an admitted command.\<close>

definition new_workflow ::
  "event \<Rightarrow> workflow_action \<Rightarrow> delivery_identity \<Rightarrow> string option \<Rightarrow> millis \<Rightarrow> workflow_row" where
  "new_workflow command action delivery resource t =
     \<lparr>wfOperationId = operationId command, wfEventId = eventId command,
      wfProjectId = projectId command, wfInstanceId = aggregateId command,
      wfAction = action_name action, wfCommand = command, wfStatus = ''running'',
      wfStage = ''accepted'', wfAttempt = 0, wfStageAttempt = 0, wfRetryStartedAt = None,
      wfReplayGeneration = replayGeneration delivery, wfTraceContext = traceContext command,
      wfFencingToken = 0, wfProviderResourceId = resource, wfProviderTaskReference = None,
      wfNextAttemptAt = t, wfFailure = None, wfLastError = None, wfCreatedAt = t,
      wfUpdatedAt = t, wfCompletedAt = None\<rparr>"

text \<open>Both unique constraints of \<^verbatim>\<open>workflow.workflows\<close>: the operation and the event.\<close>

definition insertWorkflow ::
  "workflow_row \<Rightarrow> 'z workflow_db_scheme \<Rightarrow> store_error + 'z workflow_db_scheme" where
  "insertWorkflow row db =
     (if wfOperationId row \<in> set (map wfOperationId (workflows db)) \<or>
         wfEventId row \<in> set (map wfEventId (workflows db))
      then Inl (UniqueViolation ''workflow.workflows'')
      else Inr (db\<lparr>workflows := workflows db @ [row]\<rparr>))"

text \<open>The first row with the least key: \<^verbatim>\<open>ORDER BY ... LIMIT 1\<close>.\<close>

fun first_least :: "('r \<Rightarrow> 'r \<Rightarrow> bool) \<Rightarrow> 'r list \<Rightarrow> 'r option" where
  "first_least before [] = None"
| "first_least before (r # rows) =
     (case first_least before rows of
        None \<Rightarrow> Some r
      | Some best \<Rightarrow> if before best r then Some best else Some r)"

definition inherited_resource :: "uuid \<Rightarrow> workflow_row list \<Rightarrow> string option" where
  "inherited_resource instance_id rows =
     (case first_least (\<lambda>a b. wfCreatedAt a < wfCreatedAt b)
        (filter (\<lambda>r. wfInstanceId r = instance_id \<and> wfProviderResourceId r \<noteq> None) rows) of
        None \<Rightarrow> None
      | Some r \<Rightarrow> wfProviderResourceId r)"

definition admitOriginalDelivery ::
  "env \<Rightarrow> event \<Rightarrow> delivery_identity \<Rightarrow> 'z workflow_db_scheme \<Rightarrow>
   store_error + command_admission \<times> 'z workflow_db_scheme" where
  "admitOriginalDelivery E command delivery db =
     (if lookup_by wfOperationId (operationId command) (workflows db) \<noteq> None then
        res_bind (insertCommandReceipt E command delivery (Some (now E)) db)
          (\<lambda>(_, db1). Inr (AdmissionDuplicate, db1))
      else
        res_bind (insertCommandReceipt E command delivery None db) (\<lambda>(fresh, db1).
          if \<not> fresh then Inr (AdmissionDuplicate, db1)
          else res_bind (workflowActionOf command) (\<lambda>action.
            let resource = (if action = CreateInstance then None
                            else inherited_resource (aggregateId command) (workflows db1)) in
            res_bind (insertWorkflow (new_workflow command action delivery resource (now E)) db1)
              (\<lambda>db2. Inr (AdmissionAccepted, db2)))))"

definition reopened :: "event \<Rightarrow> delivery_identity \<Rightarrow> millis \<Rightarrow> workflow_row \<Rightarrow> workflow_row" where
  "reopened command delivery t r =
     r\<lparr>wfCommand := command, wfStatus := ''running'', wfStage := ''accepted'', wfAttempt := 0,
       wfStageAttempt := 0, wfRetryStartedAt := None, wfReplayGeneration := replayGeneration delivery,
       wfTraceContext := traceContext command, wfProviderResourceId := None,
       wfProviderTaskReference := None, wfNextAttemptAt := t, wfFailure := None, wfLastError := None,
       wfUpdatedAt := t, wfCompletedAt := None\<rparr>"

definition reopen_or_insert ::
  "env \<Rightarrow> event \<Rightarrow> delivery_identity \<Rightarrow> workflow_row option \<Rightarrow> 'z workflow_db_scheme \<Rightarrow>
   store_error + 'z workflow_db_scheme" where
  "reopen_or_insert E command delivery existing db =
     (case existing of
        Some _ \<Rightarrow> Inr (db\<lparr>workflows := update_where (\<lambda>r. wfOperationId r = operationId command)
                      (reopened command delivery (now E)) (workflows db)\<rparr>)
      | None \<Rightarrow> res_bind (workflowActionOf command) (\<lambda>action.
                  insertWorkflow (new_workflow command action delivery None (now E)) db))"

definition authorization_for :: "event \<Rightarrow> delivery_identity \<Rightarrow> 'z workflow_db_scheme \<Rightarrow> replay_request option" where
  "authorization_for command delivery db =
     find (\<lambda>r. rrOriginalEventId r = eventId command \<and>
               rrReplayGeneration r = Some (replayGeneration delivery)) (replay_requests db)"

definition is_authorized :: "string \<Rightarrow> delivery_identity \<Rightarrow> replay_request \<Rightarrow> bool" where
  "is_authorized payload_hash delivery r \<longleftrightarrow>
     rrStatus r = ''authorized'' \<and> rrAuthorizedCommandHash r = Some payload_hash \<and>
     rrAuthorizedOutboxId r \<noteq> None \<and> rrAuthorizedOutboxId r = outboxId delivery"

definition not_reopenable :: "event \<Rightarrow> delivery_identity \<Rightarrow> workflow_row \<Rightarrow> bool" where
  "not_reopenable command delivery w \<longleftrightarrow>
     wfEventId w \<noteq> eventId command \<or> wfStatus w \<noteq> ''failed'' \<or>
     replayGeneration delivery \<noteq> wfReplayGeneration w + 1"

definition consume_authority ::
  "env \<Rightarrow> event \<Rightarrow> delivery_identity \<Rightarrow> replay_request \<Rightarrow> 'z workflow_db_scheme \<Rightarrow> 'z workflow_db_scheme" where
  "consume_authority E command delivery auth db =
     db\<lparr>dead_letters := update_where (\<lambda>r. dlrOriginalEventId r = eventId command \<and>
            dlrStatus r = ''replay_requested'' \<and> dlrReplayGeneration r = replayGeneration delivery)
          (\<lambda>r. r\<lparr>dlrStatus := ''replayed'', dlrLastReplayAt := Some (now E)\<rparr>) (dead_letters db),
        replay_requests := update_where (\<lambda>r. rrReplayRequestId r = rrReplayRequestId auth \<and>
            rrStatus r = ''authorized'')
          (\<lambda>r. r\<lparr>rrStatus := ''completed'', rrCompletedAt := Some (now E)\<rparr>) (replay_requests db)\<rparr>"

definition admitAuthorizedReplayCommand ::
  "env \<Rightarrow> event \<Rightarrow> delivery_identity \<Rightarrow> 'z workflow_db_scheme \<Rightarrow>
   store_error + command_admission \<times> 'z workflow_db_scheme" where
  "admitAuthorizedReplayCommand E command delivery db =
     (let payload_hash = hashJson E (message_json command) in
      case lookup_by receipt_key (CONSUMER_NAME, eventId command, replayGeneration delivery)
             (command_receipts db) of
        Some receipt \<Rightarrow>
          if rcPayloadHash receipt = payload_hash then Inr (AdmissionDuplicate, db)
          else Inr (rejectReplayCommand E delivery payload_hash REPLAY_COMMAND_IDENTITY_CONFLICT db)
      | None \<Rightarrow>
          (case authorization_for command delivery db of
             None \<Rightarrow> Inr (rejectReplayCommand E delivery payload_hash REPLAY_COMMAND_UNAUTHORIZED db)
           | Some auth \<Rightarrow>
               if \<not> is_authorized payload_hash delivery auth
               then Inr (rejectReplayCommand E delivery payload_hash REPLAY_COMMAND_UNAUTHORIZED db)
               else res_bind (require InvalidReplayAuthorization
                                (storedReplayRequest E (rrRequestPayload auth))) (\<lambda>request.
                 let existing = lookup_by wfOperationId (operationId command) (workflows db) in
                 if (case existing of None \<Rightarrow> False | Some w \<Rightarrow> not_reopenable command delivery w)
                 then Inr (rejectReplayCommand E delivery payload_hash REPLAY_COMMAND_STATE_CONFLICT db)
                 else res_bind (insertCommandReceipt E command delivery None db) (\<lambda>(fresh, db1).
                   if \<not> fresh then Inr (AdmissionDuplicate, db1)
                   else res_bind (reopen_or_insert E command delivery existing db1) (\<lambda>db2.
                     res_bind (writeReplayResolution (uuidAt E 2) (uuidAt E 3) request
                         (replay_ids (data request)) ''completed'' (replayGeneration delivery) (now E)
                         (consume_authority E command delivery auth db2))
                       (\<lambda>db3. Inr (AdmissionAccepted, db3)))))))"

definition admitCommand ::
  "env \<Rightarrow> event \<Rightarrow> delivery_identity \<Rightarrow> 'z workflow_db_scheme \<Rightarrow>
   store_error + command_admission \<times> 'z workflow_db_scheme" where
  "admitCommand E command delivery db =
     (if replayGeneration delivery = 0 then admitOriginalDelivery E command delivery db
      else admitAuthorizedReplayCommand E command delivery db)"

datatype replay_decision = ReplayAccepted | ReplayDuplicate | ReplayRejected

text \<open>The quarantined command a replay request may re-admit, if it may.\<close>

definition replayable ::
  "env \<Rightarrow> dead_letter option \<Rightarrow> (dead_letter \<times> event) option" where
  "replayable E dead =
     (case dead of
        None \<Rightarrow> None
      | Some d \<Rightarrow>
          (case workflowActionForSchema (dlrOriginalSchemaName d) of
             None \<Rightarrow> None
           | Some action \<Rightarrow>
               (case lifecycleCommand E (dlrOriginal d) action of
                  None \<Rightarrow> None
                | Some original \<Rightarrow>
                    if dlrReplayAllowed d \<and> dlrStatus d = ''open'' then Some (d, original) else None)))"

definition replayed_command :: "env \<Rightarrow> event \<Rightarrow> event \<Rightarrow> event" where
  "replayed_command E request original =
     original\<lparr>correlationId := correlationId request, causationId := eventId request,
       occurredAt := toISOString (now E), traceContext := traceContext request\<rparr>"

definition rejectReplayRequest ::
  "env \<Rightarrow> event \<Rightarrow> dead_letter option \<Rightarrow> 'z workflow_db_scheme \<Rightarrow>
   store_error + replay_decision \<times> 'z workflow_db_scheme" where
  "rejectReplayRequest E request dead db =
     res_bind (persistReplayRequest request ''rejected'' (now E) None db) (\<lambda>db1.
     res_bind (writeReplayResolution (uuidAt E 2) (uuidAt E 3) request (replay_ids (data request))
         ''rejected'' (case dead of None \<Rightarrow> 0 | Some d \<Rightarrow> dlrReplayGeneration d) (now E) db1) (\<lambda>db2.
     res_bind (writeServiceAudit (uuidAt E 4) (uuidAt E 5) request ''replay_dead_letter'' ''rejected''
         (now E) (Some (fst (replay_ids (data request)))) db2) (\<lambda>db3.
     Inr (ReplayRejected, db3))))"

definition admitReplayRequest ::
  "env \<Rightarrow> event \<Rightarrow> delivery_identity \<Rightarrow> 'z workflow_db_scheme \<Rightarrow>
   store_error + replay_decision \<times> 'z workflow_db_scheme" where
  "admitReplayRequest E request delivery db =
     res_bind (insertCommandReceipt E request delivery (Some (now E)) db) (\<lambda>(fresh, db1).
       if \<not> fresh then Inr (ReplayDuplicate, db1)
       else
         let dead = lookup_by dlrOriginalEventId (snd (replay_ids (data request))) (dead_letters db1) in
         case replayable E dead of
           None \<Rightarrow> rejectReplayRequest E request dead db1
         | Some (d, original) \<Rightarrow>
             let generation = dlrReplayGeneration d + 1;
                 replayed = replayed_command E request original;
                 outbox = uuidAt E 2 in
             res_bind (persistReplayRequest request ''authorized'' (now E)
                 (Some (generation, hashJson E (message_json replayed), outbox)) db1) (\<lambda>db2.
             res_bind (writeWorkflowOutbox outbox replayed ''provisioning.commands.v1''
                 (toISOString (now E)) generation db2) (\<lambda>db3.
             let db4 = db3\<lparr>dead_letters := update_where
                 (\<lambda>r. dlrOriginalEventId r = eventId original \<and> dlrStatus r = ''open'')
                 (\<lambda>r. r\<lparr>dlrReplayGeneration := generation, dlrStatus := ''replay_requested'',
                    dlrLastReplayAt := Some (now E)\<rparr>) (dead_letters db3)\<rparr> in
             res_bind (writeServiceAudit (uuidAt E 3) (uuidAt E 4) request ''replay_dead_letter''
                 ''accepted'' (now E) (Some (fst (replay_ids (data request)))) db4) (\<lambda>db5.
             Inr (ReplayAccepted, db5)))))"

definition quarantineRecord ::
  "env \<Rightarrow> delivery_identity \<Rightarrow> string \<Rightarrow> string \<Rightarrow> string \<Rightarrow> 'z workflow_db_scheme \<Rightarrow>
   bool \<times> 'z workflow_db_scheme" where
  "quarantineRecord E delivery payload_hash failure_code safe_message db =
     insertPoisonRecord E (uuidAt E 2) delivery payload_hash failure_code safe_message db"

definition deadLetterCommand ::
  "env \<Rightarrow> event \<Rightarrow> delivery_identity \<Rightarrow> int \<Rightarrow> string \<Rightarrow> string \<Rightarrow> bool \<Rightarrow> 'z workflow_db_scheme \<Rightarrow>
   store_error + bool \<times> 'z workflow_db_scheme" where
  "deadLetterCommand E e delivery attempts failure_code safe_message replay_allowed db =
     res_bind (insertCommandReceipt E e delivery (Some (now E)) db) (\<lambda>(fresh, db1).
       if \<not> fresh then Inr (False, db1)
       else
         res_bind (writeDeadLetter (uuidAt E 2) (uuidAt E 3)
             \<lparr>dliOriginal = e, dliTraceContext = traceContext e, dliFailureCategory = ''permanent'',
              dliFailureCode = failure_code, dliSafeMessage = safe_message, dliAttempts = attempts,
              dliReplayAllowed = replay_allowed, dliReplayGeneration = replayGeneration delivery\<rparr>
             (now E) db1) (\<lambda>db2.
         res_bind (writeServiceAudit (uuidAt E 4) (uuidAt E 5) e ''dead_letter_command'' ''failed''
             (now E) None db2) (\<lambda>db3.
         Inr (True, db3))))"

subsection \<open>Claiming\<close>

record claimed_workflow =
  cwAction :: workflow_action
  cwCommand :: event
  cwTraceContext :: trace_context
  cwStage :: workflow_stage
  cwAttempt :: int
  cwStageAttempt :: int
  cwRetryStartedAt :: "millis option"
  cwFencingToken :: int
  cwProviderResourceId :: "string option"
  cwProviderTaskReference :: "string option"

definition lease_available :: "env \<Rightarrow> string \<Rightarrow> instance_lease option \<Rightarrow> bool" where
  "lease_available E worker lease =
     (case lease of None \<Rightarrow> True
      | Some l \<Rightarrow> leLeasedUntil l \<le> dbNow E \<or> leOwnerId l = worker)"

definition is_ready :: "env \<Rightarrow> string \<Rightarrow> workflow_action \<Rightarrow> 'z workflow_db_scheme \<Rightarrow> workflow_row \<Rightarrow> bool" where
  "is_ready E worker action db w \<longleftrightarrow>
     wfAction w = action_name action \<and> (wfStatus w = ''running'' \<or> wfStatus w = ''retry_wait'') \<and>
     wfNextAttemptAt w \<le> dbNow E \<and>
     lease_available E worker (lookup_by leInstanceId (wfInstanceId w) (instance_leases db))"

definition due_before :: "workflow_row \<Rightarrow> workflow_row \<Rightarrow> bool" where
  "due_before a b \<longleftrightarrow> wfNextAttemptAt a < wfNextAttemptAt b \<or>
     (wfNextAttemptAt a = wfNextAttemptAt b \<and> wfCreatedAt a < wfCreatedAt b)"

definition readyWorkflow ::
  "env \<Rightarrow> string \<Rightarrow> workflow_action \<Rightarrow> 'z workflow_db_scheme \<Rightarrow> workflow_row option" where
  "readyWorkflow E worker action db = first_least due_before (filter (is_ready E worker action db) (workflows db))"

text \<open>The lease upsert: the new token, or \<open>None\<close> when another worker's lease is live.\<close>

definition takeLease ::
  "env \<Rightarrow> string \<Rightarrow> int \<Rightarrow> uuid \<Rightarrow> instance_lease list \<Rightarrow> (int \<times> instance_lease list) option" where
  "takeLease E worker lease_seconds instance_id leases =
     (let until = dbNow E + lease_seconds * 1000 in
      case lookup_by leInstanceId instance_id leases of
        None \<Rightarrow> Some (1, leases @ [\<lparr>leInstanceId = instance_id, leOwnerId = worker,
                  leFencingToken = 1, leLeasedUntil = until, leUpdatedAt = dbNow E\<rparr>])
      | Some l \<Rightarrow>
          if lease_available E worker (Some l) then
            Some (leFencingToken l + 1,
              update_where (\<lambda>r. leInstanceId r = instance_id)
                (\<lambda>r. r\<lparr>leOwnerId := worker, leFencingToken := leFencingToken r + 1,
                   leLeasedUntil := until, leUpdatedAt := dbNow E\<rparr>) leases)
          else None)"

definition claimed_row :: "env \<Rightarrow> int \<Rightarrow> workflow_row \<Rightarrow> workflow_row" where
  "claimed_row E token r =
     r\<lparr>wfStatus := ''running'', wfAttempt := wfAttempt r + 1, wfFencingToken := token, wfUpdatedAt := now E\<rparr>"

definition truthy_value :: "string option \<Rightarrow> string option" where
  "truthy_value s = (if truthy s then s else None)"

definition claim_of :: "workflow_row \<Rightarrow> workflow_action \<Rightarrow> event \<Rightarrow> workflow_stage \<Rightarrow> claimed_workflow" where
  "claim_of r action command stage =
     \<lparr>cwAction = action, cwCommand = command, cwTraceContext = wfTraceContext r, cwStage = stage,
      cwAttempt = wfAttempt r, cwStageAttempt = wfStageAttempt r,
      cwRetryStartedAt = wfRetryStartedAt r, cwFencingToken = wfFencingToken r,
      cwProviderResourceId = truthy_value (wfProviderResourceId r),
      cwProviderTaskReference = truthy_value (wfProviderTaskReference r)\<rparr>"

definition claimNext ::
  "env \<Rightarrow> string \<Rightarrow> int \<Rightarrow> workflow_action \<Rightarrow> 'z workflow_db_scheme \<Rightarrow>
   store_error + claimed_workflow option \<times> 'z workflow_db_scheme" where
  "claimNext E worker lease_seconds action db =
     (if worker = [] \<or> lease_seconds < MINIMUM_LEASE_SECONDS \<or> lease_seconds > MAXIMUM_LEASE_SECONDS
      then Inl InvalidClaim
      else case readyWorkflow E worker action db of
        None \<Rightarrow> Inr (None, db)
      | Some w \<Rightarrow>
          (case takeLease E worker lease_seconds (wfInstanceId w) (instance_leases db) of
             None \<Rightarrow> Inr (None, db)
           | Some (token, leases) \<Rightarrow>
               let rows = update_where (\<lambda>r. wfOperationId r = wfOperationId w) (claimed_row E token)
                            (workflows db) in
               res_bind (require NoResult (lookup_by wfOperationId (wfOperationId w) rows)) (\<lambda>claimed.
               res_bind (require UnsupportedAction (toWorkflowAction (wfAction claimed))) (\<lambda>claimed_action.
               res_bind (require UnsupportedCommand
                           (lifecycleCommand E (wfCommand claimed) claimed_action)) (\<lambda>command.
               res_bind (require UnsupportedStage (toWorkflowStage (wfStage claimed))) (\<lambda>stage.
               Inr (Some (claim_of claimed claimed_action command stage),
                    db\<lparr>instance_leases := leases, workflows := rows\<rparr>)))))))"

subsection \<open>Fenced writes\<close>

text \<open>What every write of a worker presents: operation, worker and token.\<close>

record fence =
  fnOperationId :: uuid
  fnWorkerId :: string
  fnFencingToken :: int

definition assertLease ::
  "env \<Rightarrow> fence \<Rightarrow> 'z workflow_db_scheme \<Rightarrow> store_error + workflow_row" where
  "assertLease E f db =
     (case lookup_by wfOperationId (fnOperationId f) (workflows db) of
        None \<Rightarrow> Inl FencingTokenStale
      | Some w \<Rightarrow>
          if wfFencingToken w \<noteq> fnFencingToken f then Inl FencingTokenStale
          else (case lookup_by leInstanceId (wfInstanceId w) (instance_leases db) of
              None \<Rightarrow> Inl LeaseMissingExpiredOrFenced
            | Some l \<Rightarrow>
                if leOwnerId l \<noteq> fnWorkerId f \<or> leFencingToken l \<noteq> fnFencingToken f \<or>
                   leLeasedUntil l \<le> now E
                then Inl LeaseMissingExpiredOrFenced
                else Inr w))"

definition releaseLease :: "env \<Rightarrow> uuid \<Rightarrow> fence \<Rightarrow> 'z workflow_db_scheme \<Rightarrow> 'z workflow_db_scheme" where
  "releaseLease E instance_id f db =
     db\<lparr>instance_leases := update_where
          (\<lambda>r. leInstanceId r = instance_id \<and> leOwnerId r = fnWorkerId f \<and> leFencingToken r = fnFencingToken f)
          (\<lambda>r. r\<lparr>leLeasedUntil := now E, leUpdatedAt := now E\<rparr>) (instance_leases db)\<rparr>"

definition update_workflow ::
  "fence \<Rightarrow> (workflow_row \<Rightarrow> workflow_row) \<Rightarrow> 'z workflow_db_scheme \<Rightarrow> 'z workflow_db_scheme" where
  "update_workflow f change db =
     db\<lparr>workflows := update_where
          (\<lambda>r. wfOperationId r = fnOperationId f \<and> wfFencingToken r = fnFencingToken f) change (workflows db)\<rparr>"

definition complete_receipt ::
  "env \<Rightarrow> workflow_row \<Rightarrow> 'z workflow_db_scheme \<Rightarrow> 'z workflow_db_scheme" where
  "complete_receipt E w db =
     db\<lparr>command_receipts := update_where
          (\<lambda>r. receipt_key r = (CONSUMER_NAME, wfEventId w, wfReplayGeneration w))
          (\<lambda>r. r\<lparr>rcCompletedAt := Some (now E)\<rparr>) (command_receipts db)\<rparr>"

record retry_info =
  riAttempt :: int
  riStartedAt :: millis
  riErrorCategory :: string
  riErrorCode :: string

text \<open>
  \<^verbatim>\<open>ciTaskReference\<close>: \<open>None\<close> when the caller omits the key, \<open>Some None\<close> for an explicit null.
\<close>

record checkpoint_input =
  ciFence :: fence
  ciStage :: workflow_stage
  ciProviderResourceId :: "string option"
  ciTaskReference :: "string option option"
  ciNextAttemptAt :: "millis option"
  ciRetry :: "retry_info option"
  ciEvent :: event

definition checkpointed :: "env \<Rightarrow> checkpoint_input \<Rightarrow> workflow_row \<Rightarrow> workflow_row" where
  "checkpointed E i r =
     r\<lparr>wfStatus := (if ciNextAttemptAt i \<noteq> None then ''retry_wait'' else ''running''),
       wfStage := stage_name (ciStage i),
       wfProviderResourceId := (if truthy (ciProviderResourceId i) then ciProviderResourceId i
                                else wfProviderResourceId r),
       wfProviderTaskReference := (case ciTaskReference i of None \<Rightarrow> wfProviderTaskReference r
                                   | Some ref \<Rightarrow> ref),
       wfNextAttemptAt := (case ciNextAttemptAt i of None \<Rightarrow> now E | Some t \<Rightarrow> t),
       wfStageAttempt := (case ciRetry i of None \<Rightarrow> 0 | Some retry \<Rightarrow> riAttempt retry),
       wfRetryStartedAt := map_option riStartedAt (ciRetry i),
       wfLastError := map_option (\<lambda>retry. (riErrorCategory retry, riErrorCode retry)) (ciRetry i),
       wfTraceContext := traceContext (ciEvent i), wfUpdatedAt := now E\<rparr>"

definition checkpoint ::
  "env \<Rightarrow> checkpoint_input \<Rightarrow> 'z workflow_db_scheme \<Rightarrow> store_error + 'z workflow_db_scheme" where
  "checkpoint E i db =
     res_bind (assertLease E (ciFence i) db) (\<lambda>w.
     res_bind (writeEvent (uuidAt E 2) (ciEvent i) (update_workflow (ciFence i) (checkpointed E i) db)) (\<lambda>db1.
     Inr (releaseLease E (wfInstanceId w) (ciFence i) db1)))"

record dead_letter_workflow_input =
  dwFence :: fence
  dwAttempts :: int
  dwFailureCode :: string
  dwSafeMessage :: string
  dwLastErrorCategory :: string
  dwLastErrorCode :: string
  dwFailure :: failure
  dwEvent :: event

definition dead_lettered_row ::
  "env \<Rightarrow> dead_letter_workflow_input \<Rightarrow> workflow_row \<Rightarrow> workflow_row" where
  "dead_lettered_row E i r =
     r\<lparr>wfStatus := ''failed'', wfStage := ''failed'', wfStageAttempt := dwAttempts i,
       wfNextAttemptAt := now E,
       wfFailure := Some (category (dwFailure i), code (dwFailure i), safeMessage (dwFailure i)),
       wfLastError := Some (dwLastErrorCategory i, dwLastErrorCode i),
       wfTraceContext := traceContext (dwEvent i), wfCompletedAt := Some (now E), wfUpdatedAt := now E\<rparr>"

definition deadLetterWorkflow ::
  "env \<Rightarrow> dead_letter_workflow_input \<Rightarrow> 'z workflow_db_scheme \<Rightarrow> store_error + 'z workflow_db_scheme" where
  "deadLetterWorkflow E i db =
     res_bind (assertLease E (dwFence i) db) (\<lambda>w.
     res_bind (require UnsupportedAction (toWorkflowAction (wfAction w))) (\<lambda>action.
     res_bind (require UnsupportedCommand (lifecycleCommand E (wfCommand w) action)) (\<lambda>command.
     res_bind (writeEvent (uuidAt E 2) (dwEvent i)
         (complete_receipt E w (update_workflow (dwFence i) (dead_lettered_row E i) db))) (\<lambda>db1.
     res_bind (writeDeadLetter (uuidAt E 3) (uuidAt E 4)
         \<lparr>dliOriginal = command, dliTraceContext = traceContext (dwEvent i),
          dliFailureCategory = category (dwFailure i), dliFailureCode = dwFailureCode i,
          dliSafeMessage = dwSafeMessage i, dliAttempts = dwAttempts i, dliReplayAllowed = True,
          dliReplayGeneration = wfReplayGeneration w\<rparr> (now E) db1) (\<lambda>db2.
     res_bind (writeServiceAudit (uuidAt E 5) (uuidAt E 6) (dwEvent i) ''provisioning_retry_exhausted''
         ''failed'' (now E) None db2) (\<lambda>db3.
     Inr (releaseLease E (wfInstanceId w) (dwFence i) db3)))))))"

datatype completion_status = Succeeded | CompletionFailed | ManualReview

fun completion_name :: "completion_status \<Rightarrow> string" where
  "completion_name Succeeded = ''succeeded''"
| "completion_name CompletionFailed = ''failed''"
| "completion_name ManualReview = ''manual_review''"

definition failure_of :: "event \<Rightarrow> failure option" where
  "failure_of e =
     (if schemaName e = ''instance.mutation.failed''
      then (case data e of Failed f \<Rightarrow> Some (failFailure f) | _ \<Rightarrow> None) else None)"

definition completed_row ::
  "env \<Rightarrow> completion_status \<Rightarrow> event \<Rightarrow> workflow_row \<Rightarrow> workflow_row" where
  "completed_row E status e r =
     r\<lparr>wfStatus := completion_name status,
       wfStage := (if status = Succeeded then ''completed'' else completion_name status),
       wfNextAttemptAt := now E,
       wfFailure := map_option (\<lambda>f. (category f, code f, safeMessage f)) (failure_of e),
       wfTraceContext := traceContext e, wfCompletedAt := Some (now E), wfUpdatedAt := now E\<rparr>"

definition complete ::
  "env \<Rightarrow> fence \<Rightarrow> completion_status \<Rightarrow> event \<Rightarrow> 'z workflow_db_scheme \<Rightarrow>
   store_error + 'z workflow_db_scheme" where
  "complete E f status e db =
     res_bind (assertLease E f db) (\<lambda>w.
     res_bind (writeEvent (uuidAt E 2) e
         (complete_receipt E w (update_workflow f (completed_row E status e) db))) (\<lambda>db1.
     res_bind (writeServiceAudit (uuidAt E 3) (uuidAt E 4) e (wfAction w)
         (if status = Succeeded then ''succeeded'' else ''failed'') (now E) None db1) (\<lambda>db2.
     Inr (releaseLease E (wfInstanceId w) f db2))))"

end
