(* ===== verification/Provider_Port.thy ===== *)
theory Provider_Port
  imports Workflow_Store
begin

section \<open>The provider port and the effects of a workflow step\<close>

text \<open>
  The provider is outside the sources of the workflows: it is a parameter, with its own state.
  This theory has the requests and answers of the port (\<^verbatim>\<open>packages/contracts\<close>, generated from
  \<^verbatim>\<open>provider.proto\<close>), the transport error of \<^verbatim>\<open>packages/provider-sdk/src/provider-errors.ts\<close>, and
  the computations of a workflow step: they may call the provider, write to the store, and throw.
  A throw keeps what was done before it. Response fields the workflows do not read are left out.
\<close>

datatype transport_code = Aborted | DeadlineExceeded | ProtocolError | Unavailable

datatype transport_error = ProviderTransportError (transportCode: transport_code) (transportRetryable: bool)

text \<open>The constructor, with the default of the \<^verbatim>\<open>retryable\<close> option.\<close>

definition transport_error_of :: "transport_code \<Rightarrow> bool option \<Rightarrow> transport_error" where
  "transport_error_of c retryable =
     ProviderTransportError c (case retryable of None \<Rightarrow> c \<noteq> ProtocolError | Some r \<Rightarrow> r)"

fun transport_name :: "transport_code \<Rightarrow> string" where
  "transport_name Aborted = ''aborted''"
| "transport_name DeadlineExceeded = ''deadline_exceeded''"
| "transport_name ProtocolError = ''protocol_error''"
| "transport_name Unavailable = ''unavailable''"

fun transport_upper :: "transport_code \<Rightarrow> string" where
  "transport_upper Aborted = ''ABORTED''"
| "transport_upper DeadlineExceeded = ''DEADLINE_EXCEEDED''"
| "transport_upper ProtocolError = ''PROTOCOL_ERROR''"
| "transport_upper Unavailable = ''UNAVAILABLE''"

record call_context =
  ccRequestId :: string
  ccOperationId :: uuid
  ccCorrelationId :: string
  ccProjectId :: uuid
  ccInstanceId :: uuid
  ccProviderProfileId :: string
  ccAttempt :: int
  ccFencingToken :: string

record ownership_markers =
  managedBy :: string
  environment :: string
  omProjectId :: uuid
  omInstanceId :: uuid
  omCreateOperationId :: uuid

record requested_resources =
  rqCpuCount :: int
  rqMemoryMib :: string
  rqDiskGib :: string

record requested_network =
  rnNetworkId :: string
  rnIpv4Address :: string
  rnIpv4PrefixLength :: int
  rnIpv4Gateway :: string
  rnDnsServers :: "string list"

record instance_request =
  irContext :: call_context
  irProviderResourceId :: string
  irOwnershipMarkers :: ownership_markers

record build_request =
  brHostname :: string
  brResources :: requested_resources
  brNetwork :: requested_network
  brSshPublicKeys :: "string list"

text \<open>The calls that change something at the provider.\<close>

datatype mutation_call =
    SubmitCreateInstance call_context string string build_request ownership_markers
  | ApplyInstanceConfiguration instance_request build_request
  | StartInstance instance_request
  | ShutdownInstance instance_request
  | StopInstance instance_request
  | RebootInstance instance_request
  | ResizeInstanceCall instance_request requested_resources
  | CreateSnapshotCall instance_request string string "string option"
  | RollbackSnapshotCall instance_request string string
  | DeleteSnapshotCall instance_request string string
  | MarkInstanceRetained instance_request string
  | PurgeInstanceCall instance_request string string

datatype result_state =
    ResultUnspecified | ResultAccepted | ResultSucceeded | ResultRejected | ResultUnknown | ResultUnrecognized

datatype failure_category =
    FailureUnspecified | FailureValidation | FailureAuthentication | FailureAuthorization | FailureNotFound
  | FailureQuota | FailureConflict | FailureTransient | FailurePermanent | FailureUnknownOutcome
  | FailureCompensation | FailureManualReview | FailureInternal | FailureUnrecognized

record provider_failure =
  pfCategory :: "failure_category option"
  pfCode :: "string option"
  pfSafeMessage :: "string option"
  pfRetryAfterMilliseconds :: "string option"

record mutation_result =
  mrState :: "result_state option"
  mrProviderTaskReference :: "string option"
  mrProviderResourceId :: "string option"
  mrFailure :: "provider_failure option"

datatype task_state =
    TaskUnspecified | TaskQueued | TaskRunning | TaskSucceeded | TaskFailed | TaskUnknown | TaskUnrecognized

record task_response =
  trState :: "task_state option"
  trFailure :: "provider_failure option"

record observed_resources =
  orCpuCount :: "int option"
  orMemoryMib :: "string option"
  orDiskGib :: "string option"

record observed_ownership =
  ooComplete :: "bool option"
  ooMatch :: "bool option"

record observation =
  onExists :: "bool option"
  onPowerState :: "observed_power option"
  onResources :: "observed_resources option"
  onOwnership :: "observed_ownership option"
  onObservedAt :: "string option"

text \<open>The provider: each call answers or fails in transport, and moves the provider's state.\<close>

record 'p provider =
  pvMutate :: "mutation_call \<Rightarrow> 'p \<Rightarrow> (transport_error + mutation_result option) \<times> 'p"
  pvGetTask :: "call_context \<Rightarrow> string \<Rightarrow> 'p \<Rightarrow> (transport_error + task_response) \<times> 'p"
  pvObserve :: "instance_request \<Rightarrow> 'p \<Rightarrow> (transport_error + observation option) \<times> 'p"
  pvListSnapshots :: "instance_request \<Rightarrow> 'p \<Rightarrow> (transport_error + string option list) \<times> 'p"

subsection \<open>Computations\<close>

datatype exn =
    Transport transport_error
  | StoreFailure store_error
  | InvalidRandomSource
  | WrongCapability

type_synonym 'p world = "'p \<times> workflow_db"
type_synonym ('p, 'a) io = "'p world \<Rightarrow> (exn + 'a) \<times> 'p world"

definition io_return :: "'a \<Rightarrow> ('p, 'a) io" where
  "io_return a w = (Inr a, w)"

definition io_throw :: "exn \<Rightarrow> ('p, 'a) io" where
  "io_throw e w = (Inl e, w)"

definition io_bind :: "('p, 'a) io \<Rightarrow> ('a \<Rightarrow> ('p, 'b) io) \<Rightarrow> ('p, 'b) io" where
  "io_bind m f w = (case m w of (Inl e, w1) \<Rightarrow> (Inl e, w1) | (Inr a, w1) \<Rightarrow> f a w1)"

definition io_call :: "('p \<Rightarrow> (transport_error + 'a) \<times> 'p) \<Rightarrow> ('p, 'a) io" where
  "io_call call w =
     (case call (fst w) of
        (Inl e, p) \<Rightarrow> (Inl (Transport e), (p, snd w))
      | (Inr a, p) \<Rightarrow> (Inr a, (p, snd w)))"

definition io_write :: "(workflow_db \<Rightarrow> store_error + workflow_db) \<Rightarrow> ('p, unit) io" where
  "io_write f w = (case f (snd w) of Inl e \<Rightarrow> (Inl (StoreFailure e), w) | Inr db \<Rightarrow> (Inr (), (fst w, db)))"

text \<open>\<^verbatim>\<open>try ... catch\<close> of the transport errors; every other error is rethrown.\<close>

definition io_catch_transport :: "('p, 'a) io \<Rightarrow> (transport_error \<Rightarrow> ('p, 'a) io) \<Rightarrow> ('p, 'a) io" where
  "io_catch_transport m handler w =
     (case m w of (Inl (Transport e), w1) \<Rightarrow> handler e w1 | r \<Rightarrow> r)"

lemma io_simps [simp]:
  "io_bind (io_return a) f = f a"
  "io_bind (io_throw e) f = io_throw e"
  by (simp_all add: fun_eq_iff io_bind_def io_return_def io_throw_def)

end
