(* ===== verification/Lifecycle_Workflow.thy ===== *)
theory Lifecycle_Workflow
  imports Provider_Port
begin

section \<open>The base of every lifecycle workflow\<close>

text \<open>
  Model of the abstract class of \<^verbatim>\<open>packages/application/src/lifecycle-workflow.ts\<close>: the envelope of
  the events, the provider call context and ownership markers, the interpretation of provider
  results and tasks, and what a step does with a transport failure. A capability (create, power,
  resize, snapshot, retention, purge) supplies its action, its mutation stages and how a command
  names its provider profile and the create operation. Telemetry has no effect on the state and
  is left out, apart from the trace context it supplies for events.
\<close>

definition TASK_POLL_DELAY_MS :: int where "TASK_POLL_DELAY_MS = 500"
definition MAXIMUM_RETRY_ATTEMPTS :: int where "MAXIMUM_RETRY_ATTEMPTS = 8"
definition RETRY_BUDGET_MS :: int where "RETRY_BUDGET_MS = 15 * 60 * 1000"
definition RETRY_BACKOFF_BASE_MS :: int where "RETRY_BACKOFF_BASE_MS = 500"
definition RETRY_BACKOFF_CEILING_MS :: int where "RETRY_BACKOFF_CEILING_MS = 30000"
definition DEFAULT_LEASE_SECONDS :: int where "DEFAULT_LEASE_SECONDS = 30"

subsection \<open>Command payloads\<close>

text \<open>
  A member of \<^verbatim>\<open>command.data\<close>, as a string, an integer or a list of strings. The claim has
  validated the payload, so a member of another shape does not reach these readers.
\<close>

definition data_field :: "event \<Rightarrow> string \<Rightarrow> json" where
  "data_field c k = get_field (object_fields (payload c)) k"

definition text_of :: "json \<Rightarrow> string" where
  "text_of v = js_string v"

fun int_of_json :: "json \<Rightarrow> int" where
  "int_of_json (JNum i) = i"
| "int_of_json _ = 0"

fun texts_of :: "json \<Rightarrow> string list" where
  "texts_of (JArr items) = map js_string items"
| "texts_of _ = []"

subsection \<open>Capabilities and their surroundings\<close>

record capability =
  capAction :: workflow_action
  capMutationStages :: "workflow_stage list"
  capCreateOperationId :: "event \<Rightarrow> uuid"

text \<open>Every capability reads the provider profile from its command.\<close>

definition capProviderProfileId :: "event \<Rightarrow> string" where
  "capProviderProfileId c = text_of (data_field c ''providerProfileId'')"

record 'p ctx =
  cxEnv :: env
  cxWorkerId :: string
  cxProvider :: "'p provider"

fun providerFailureCategory :: "failure_category option \<Rightarrow> string" where
  "providerFailureCategory (Some FailureValidation) = ''validation''"
| "providerFailureCategory (Some FailureQuota) = ''validation''"
| "providerFailureCategory (Some FailureAuthentication) = ''authorization''"
| "providerFailureCategory (Some FailureAuthorization) = ''authorization''"
| "providerFailureCategory (Some FailureConflict) = ''conflict''"
| "providerFailureCategory (Some FailureTransient) = ''transient''"
| "providerFailureCategory (Some FailureUnknownOutcome) = ''unknown_outcome''"
| "providerFailureCategory (Some FailureCompensation) = ''compensation_failure''"
| "providerFailureCategory (Some FailureManualReview) = ''manual_review''"
| "providerFailureCategory _ = ''permanent''"

text \<open>A failure with no retry hint.\<close>

definition plain_failure :: "string \<Rightarrow> string \<Rightarrow> string \<Rightarrow> failure" where
  "plain_failure cat c m = \<lparr>category = cat, code = c, safeMessage = m, retryAfterMilliseconds = None\<rparr>"

definition failure_value :: "provider_failure option \<Rightarrow> string \<Rightarrow> failure" where
  "failure_value pf default_code =
     \<lparr>category = providerFailureCategory (Option.bind pf pfCategory),
      code = (case Option.bind pf pfCode of None \<Rightarrow> default_code | Some c \<Rightarrow> c),
      safeMessage = (case Option.bind pf pfSafeMessage of None \<Rightarrow> ''The provider operation failed.'' | Some m \<Rightarrow> m),
      retryAfterMilliseconds =
        (let ms = Option.bind pf pfRetryAfterMilliseconds in
         if truthy ms then Some (js_integer (js_number (the ms))) else None)\<rparr>"

subsection \<open>Envelope, call context and ownership\<close>

definition envelope :: "env \<Rightarrow> claimed_workflow \<Rightarrow> string \<Rightarrow> event_data \<Rightarrow> event" where
  "envelope E w schema d =
     (let c = cwCommand w in
      \<lparr>eventId = uuidAt E 0, schemaName = schema, schemaVersion = 1, aggregateType = ''instance'',
       aggregateId = aggregateId c, projectId = projectId c, operationId = operationId c,
       correlationId = correlationId c, causationId = eventId c, occurredAt = toISOString (now E),
       traceContext = currentTraceContext E (cwTraceContext w), partitionKey = partitionKey c, data = d\<rparr>)"

definition call_context_of :: "claimed_workflow \<Rightarrow> string \<Rightarrow> call_context" where
  "call_context_of w step =
     (let c = cwCommand w in
      \<lparr>ccRequestId = operationId c @ '':'' @ step, ccOperationId = operationId c,
       ccCorrelationId = correlationId c, ccProjectId = projectId c, ccInstanceId = aggregateId c,
       ccProviderProfileId = capProviderProfileId c, ccAttempt = 1,
       ccFencingToken = show_int (cwFencingToken w)\<rparr>)"

definition ownership :: "capability \<Rightarrow> claimed_workflow \<Rightarrow> ownership_markers" where
  "ownership cap w =
     \<lparr>managedBy = ''private-cloud-control-plane'', environment = ''lab'',
      omProjectId = projectId (cwCommand w), omInstanceId = aggregateId (cwCommand w),
      omCreateOperationId = capCreateOperationId cap (cwCommand w)\<rparr>"

definition fence_of :: "'p ctx \<Rightarrow> claimed_workflow \<Rightarrow> fence" where
  "fence_of X w = \<lparr>fnOperationId = operationId (cwCommand w), fnWorkerId = cxWorkerId X,
     fnFencingToken = cwFencingToken w\<rparr>"

definition requiredResource :: "claimed_workflow \<Rightarrow> ('p, string) io" where
  "requiredResource w =
     (if \<not> truthy (cwProviderResourceId w)
      then io_throw (Transport (transport_error_of ProtocolError (Some False)))
      else io_return (the (cwProviderResourceId w)))"

text \<open>The request every call on an existing instance carries.\<close>

definition instance_request_of ::
  "capability \<Rightarrow> claimed_workflow \<Rightarrow> string \<Rightarrow> (instance_request \<Rightarrow> ('p, 'a) io) \<Rightarrow> ('p, 'a) io" where
  "instance_request_of cap w step k =
     io_bind (requiredResource w) (\<lambda>rid.
       k \<lparr>irContext = call_context_of w step, irProviderResourceId = rid, irOwnershipMarkers = ownership cap w\<rparr>)"

subsection \<open>Settling a step\<close>

record progress_options =
  poProviderResourceId :: "string option"
  poTaskReference :: "string option option"
  poNextAttemptAt :: "millis option"
  poOperationState :: string
  poRetry :: "retry_info option"

definition no_options :: progress_options where
  "no_options = \<lparr>poProviderResourceId = None, poTaskReference = None, poNextAttemptAt = None,
     poOperationState = ''running'', poRetry = None\<rparr>"

definition progress_event :: "env \<Rightarrow> claimed_workflow \<Rightarrow> workflow_stage \<Rightarrow> progress_options \<Rightarrow> event" where
  "progress_event E w stage opts =
     envelope E w ''workflow.progressed''
       (Progressed \<lparr>progStage = stage_name stage, progAttempt = cwAttempt w,
          progOperationState = poOperationState opts,
          progTaskReference = (case poTaskReference opts of Some (Some r) \<Rightarrow> Some r | _ \<Rightarrow> None),
          progNextActionAt = map_option toISOString (poNextAttemptAt opts)\<rparr>)"

definition progress ::
  "'p ctx \<Rightarrow> claimed_workflow \<Rightarrow> workflow_stage \<Rightarrow> progress_options \<Rightarrow> ('p, unit) io" where
  "progress X w stage opts =
     io_write (checkpoint (cxEnv X)
       \<lparr>ciFence = fence_of X w, ciStage = stage,
        ciProviderResourceId = (if truthy (poProviderResourceId opts) then poProviderResourceId opts
                                else if truthy (cwProviderResourceId w) then cwProviderResourceId w
                                else None),
        ciTaskReference = poTaskReference opts, ciNextAttemptAt = poNextAttemptAt opts,
        ciRetry = poRetry opts, ciEvent = progress_event (cxEnv X) w stage opts\<rparr>)"

definition failed_event :: "capability \<Rightarrow> env \<Rightarrow> claimed_workflow \<Rightarrow> failure \<Rightarrow> string \<Rightarrow> event" where
  "failed_event cap E w f compensation =
     envelope E w ''instance.mutation.failed''
       (Failed \<lparr>failAction = action_name (capAction cap), failFailure = f,
          failCompensationState = compensation\<rparr>)"

definition finishFailure ::
  "capability \<Rightarrow> 'p ctx \<Rightarrow> claimed_workflow \<Rightarrow> failure \<Rightarrow> completion_status \<Rightarrow> ('p, unit) io" where
  "finishFailure cap X w f status =
     io_write (complete (cxEnv X) (fence_of X w) status
       (failed_event cap (cxEnv X) w f (if status = ManualReview then ''unsafe'' else ''not_required'')))"

definition fail :: "capability \<Rightarrow> 'p ctx \<Rightarrow> claimed_workflow \<Rightarrow> failure \<Rightarrow> ('p, unit) io" where
  "fail cap X w f = finishFailure cap X w f CompletionFailed"

definition manualReview :: "capability \<Rightarrow> 'p ctx \<Rightarrow> claimed_workflow \<Rightarrow> failure \<Rightarrow> ('p, unit) io" where
  "manualReview cap X w f = finishFailure cap X w f ManualReview"

text \<open>A successful completion, as every observing stage writes it.\<close>

definition succeed ::
  "capability \<Rightarrow> 'p ctx \<Rightarrow> claimed_workflow \<Rightarrow> string \<Rightarrow> observed_state option \<Rightarrow> ('p, unit) io" where
  "succeed cap X w lifecycle observed =
     io_bind (requiredResource w) (\<lambda>rid.
       io_write (complete (cxEnv X) (fence_of X w) Succeeded
         (envelope (cxEnv X) w ''instance.mutation.completed''
           (Completed \<lparr>complAction = action_name (capAction cap), complLifecycleState = lifecycle,
              complProviderResourceId = Some rid, complEvidenceId = uuidAt (cxEnv X) 1,
              complObserved = observed\<rparr>))))"

subsection \<open>Provider results and tasks\<close>

definition handleMutationResult ::
  "capability \<Rightarrow> 'p ctx \<Rightarrow> claimed_workflow \<Rightarrow> mutation_result option \<Rightarrow> workflow_stage \<Rightarrow> workflow_stage \<Rightarrow>
   ('p, unit) io" where
  "handleMutationResult cap X w res acceptedStage synchronousStage =
     (case res of
        None \<Rightarrow> fail cap X w (plain_failure ''permanent'' ''PROVIDER_RESULT_MISSING''
                  ''The provider response omitted its result.'')
      | Some r \<Rightarrow>
          if mrState r = Some ResultUnknown
          then manualReview cap X w (failure_value (mrFailure r) ''PROVIDER_UNKNOWN'')
          else if mrState r = Some ResultRejected
          then fail cap X w (failure_value (mrFailure r) ''PROVIDER_REJECTED'')
          else
            let resource = (case mrProviderResourceId r of None \<Rightarrow> cwProviderResourceId w | Some x \<Rightarrow> Some x) in
            if \<not> truthy resource
            then fail cap X w (plain_failure ''permanent'' ''PROVIDER_RESOURCE_ID_MISSING''
                   ''The provider response omitted the resource identifier.'')
            else if mrState r = Some ResultAccepted then
              (if \<not> truthy (mrProviderTaskReference r)
               then fail cap X w (plain_failure ''permanent'' ''PROVIDER_TASK_REFERENCE_MISSING''
                      ''The asynchronous provider response omitted its task reference.'')
               else progress X w acceptedStage (no_options\<lparr>poProviderResourceId := resource,
                      poTaskReference := Some (mrProviderTaskReference r)\<rparr>))
            else if mrState r = Some ResultSucceeded
            then progress X w synchronousStage (no_options\<lparr>poProviderResourceId := resource\<rparr>)
            else fail cap X w (plain_failure ''permanent'' ''PROVIDER_RESULT_STATE_INVALID''
                   ''The provider returned an unsupported result state.''))"

definition handleTaskResult ::
  "capability \<Rightarrow> 'p ctx \<Rightarrow> claimed_workflow \<Rightarrow> task_response \<Rightarrow> workflow_stage \<Rightarrow> string \<Rightarrow> ('p, unit) io" where
  "handleTaskResult cap X w response successStage taskReference =
     (if trState response = Some TaskQueued \<or> trState response = Some TaskRunning
      then progress X w (cwStage w) (no_options\<lparr>poTaskReference := Some (Some taskReference),
             poNextAttemptAt := Some (now (cxEnv X) + TASK_POLL_DELAY_MS)\<rparr>)
      else if trState response = Some TaskSucceeded
      then progress X w successStage (no_options\<lparr>poTaskReference := Some None\<rparr>)
      else if trState response = Some TaskUnknown
      then manualReview cap X w (plain_failure ''unknown_outcome'' ''PROVIDER_TASK_UNKNOWN''
             ''The provider no longer has an authoritative task result.'')
      else fail cap X w (failure_value (trFailure response) ''PROVIDER_TASK_FAILED''))"

definition pollTask ::
  "capability \<Rightarrow> 'p ctx \<Rightarrow> claimed_workflow \<Rightarrow> workflow_stage \<Rightarrow> ('p, unit) io" where
  "pollTask cap X w successStage =
     (if \<not> truthy (cwProviderTaskReference w)
      then fail cap X w (plain_failure ''permanent'' ''PROVIDER_TASK_REFERENCE_MISSING''
             ''The provider task reference was not persisted.'')
      else
        let ref = the (cwProviderTaskReference w) in
        io_bind (io_call (pvGetTask (cxProvider X) (call_context_of w (''poll-'' @ stage_name (cwStage w))) ref))
          (\<lambda>response. handleTaskResult cap X w response successStage ref))"

text \<open>One mutating call, then the interpretation of its result.\<close>

definition mutate ::
  "capability \<Rightarrow> 'p ctx \<Rightarrow> claimed_workflow \<Rightarrow> mutation_call \<Rightarrow> workflow_stage \<Rightarrow> workflow_stage \<Rightarrow>
   ('p, unit) io" where
  "mutate cap X w call acceptedStage synchronousStage =
     io_bind (io_call (pvMutate (cxProvider X) call))
       (\<lambda>res. handleMutationResult cap X w res acceptedStage synchronousStage)"

subsection \<open>Transport failures and retries\<close>

definition retry_delay :: "rat \<Rightarrow> int \<Rightarrow> int \<Rightarrow> int" where
  "retry_delay r stageAttempt remaining =
     min \<lfloor>r * of_int (min RETRY_BACKOFF_CEILING_MS (RETRY_BACKOFF_BASE_MS * 2 ^ nat (stageAttempt - 1)))\<rfloor>
       remaining"

definition retryOrDeadLetter ::
  "capability \<Rightarrow> 'p ctx \<Rightarrow> claimed_workflow \<Rightarrow> transport_error \<Rightarrow> ('p, unit) io" where
  "retryOrDeadLetter cap X w err =
     (let E = cxEnv X;
          started = (case cwRetryStartedAt w of None \<Rightarrow> now E | Some t \<Rightarrow> t);
          stageAttempt = cwStageAttempt w + 1;
          remaining = started + RETRY_BUDGET_MS - now E in
      if stageAttempt \<ge> MAXIMUM_RETRY_ATTEMPTS \<or> remaining \<le> 0 then
        let f = plain_failure ''transient'' ''WORKFLOW_RETRY_EXHAUSTED''
                  ''The provider remained unavailable until the workflow retry policy expired.'' in
        io_write (deadLetterWorkflow E
          \<lparr>dwFence = fence_of X w, dwAttempts = stageAttempt, dwFailureCode = code f,
           dwSafeMessage = safeMessage f, dwLastErrorCategory = ''provider_transport'',
           dwLastErrorCode = transport_name (transportCode err), dwFailure = f,
           dwEvent = failed_event cap E w f ''not_required''\<rparr>)
      else
        case random E of
          None \<Rightarrow> io_throw InvalidRandomSource
        | Some r \<Rightarrow>
            if r < 0 \<or> r \<ge> 1 then io_throw InvalidRandomSource
            else progress X w (cwStage w)
              (no_options\<lparr>poNextAttemptAt := Some (now E + retry_delay r stageAttempt remaining),
                 poOperationState := ''retry_wait'',
                 poRetry := Some \<lparr>riAttempt = stageAttempt, riStartedAt = started,
                   riErrorCategory = ''provider_transport'',
                   riErrorCode = transport_name (transportCode err)\<rparr>\<rparr>))"

definition handleProviderError ::
  "capability \<Rightarrow> 'p ctx \<Rightarrow> claimed_workflow \<Rightarrow> transport_error \<Rightarrow> ('p, unit) io" where
  "handleProviderError cap X w err =
     (if List.member (capMutationStages cap) (cwStage w) \<and> transportCode err \<noteq> ProtocolError
      then manualReview cap X w (plain_failure ''unknown_outcome''
             (''PROVIDER_'' @ transport_upper (transportCode err))
             ''The mutation transport failed and its provider outcome is unknown.'')
      else if transportRetryable err then retryOrDeadLetter cap X w err
      else fail cap X w (plain_failure ''permanent'' ''PROVIDER_PROTOCOL_ERROR''
             ''The create workflow could not continue safely.''))"

text \<open>The body of \<^verbatim>\<open>runOne\<close> after the claim: execute the stage, classify a transport failure.\<close>

definition run_claimed ::
  "capability \<Rightarrow> ('p ctx \<Rightarrow> claimed_workflow \<Rightarrow> ('p, unit) io) \<Rightarrow> 'p ctx \<Rightarrow> claimed_workflow \<Rightarrow> ('p, unit) io" where
  "run_claimed cap execute X w =
     io_catch_transport (execute X w) (handleProviderError cap X w)"

text \<open>
  \<^verbatim>\<open>runOne\<close>: the claim happens in one environment, the execution in a later one.
\<close>

definition runOne ::
  "capability \<Rightarrow> ('p ctx \<Rightarrow> claimed_workflow \<Rightarrow> ('p, unit) io) \<Rightarrow> env \<Rightarrow> 'p ctx \<Rightarrow> int \<Rightarrow> ('p, bool) io" where
  "runOne cap execute Ec X leaseSeconds world =
     (case claimNext Ec (cxWorkerId X) leaseSeconds (capAction cap) (snd world) of
        Inl e \<Rightarrow> (Inl (StoreFailure e), world)
      | Inr (None, db) \<Rightarrow> (Inr False, (fst world, db))
      | Inr (Some w, db) \<Rightarrow>
          if cwAction w \<noteq> capAction cap then (Inl WrongCapability, (fst world, db))
          else io_bind (run_claimed cap execute X w) (\<lambda>_. io_return True) (fst world, db))"

end
