(* ===== verification/Capabilities.thy ===== *)
theory Capabilities
  imports Lifecycle_Workflow
begin

section \<open>The capabilities\<close>

text \<open>
  Models of the concrete workflows: \<^verbatim>\<open>CreateInstanceWorkflow\<close> (\<^verbatim>\<open>lifecycle-workflow.ts\<close>),
  \<^verbatim>\<open>power-instance-workflow.ts\<close>, \<^verbatim>\<open>resize-instance-workflow.ts\<close>, \<^verbatim>\<open>snapshot-workflow.ts\<close>,
  \<^verbatim>\<open>retain-instance-workflow.ts\<close> and \<^verbatim>\<open>purge-instance-workflow.ts\<close>. Each \<^verbatim>\<open>execute\<close> is one stage of
  the workflow: at most one provider call and one settling write.
\<close>

text \<open>The create operation of a command that carries its routing.\<close>

definition routed_create_operation :: "event \<Rightarrow> uuid" where
  "routed_create_operation c = text_of (data_field c ''createOperationId'')"

definition stage_invalid :: "string \<Rightarrow> failure" where
  "stage_invalid m = plain_failure ''permanent'' ''WORKFLOW_STAGE_INVALID'' m"

definition UNSUPPORTED_STAGE :: string where
  "UNSUPPORTED_STAGE = ''The persisted workflow stage is not supported by this capability.''"

text \<open>\<^verbatim>\<open>Boolean(value)\<close> of an optional flag.\<close>

definition is_true :: "bool option \<Rightarrow> bool" where
  "is_true b \<longleftrightarrow> b = Some True"

definition obs_exists :: "observation option \<Rightarrow> bool" where
  "obs_exists ob = (case ob of None \<Rightarrow> False | Some v \<Rightarrow> is_true (onExists v))"

definition obs_owned :: "observation option \<Rightarrow> bool" where
  "obs_owned ob =
     (case Option.bind ob onOwnership of None \<Rightarrow> False
      | Some oo \<Rightarrow> is_true (ooComplete oo) \<and> is_true (ooMatch oo))"

definition obs_power :: "observation option \<Rightarrow> observed_power option" where
  "obs_power ob = Option.bind ob onPowerState"

fun observed_power_name :: "observed_power option \<Rightarrow> string" where
  "observed_power_name (Some ObservedRunning) = ''running''"
| "observed_power_name (Some ObservedStopped) = ''stopped''"
| "observed_power_name (Some ObservedSuspended) = ''suspended''"
| "observed_power_name _ = ''unknown''"

definition number_of :: "string option \<Rightarrow> int option" where
  "number_of s = (case s of None \<Rightarrow> None | Some t \<Rightarrow> js_integer (js_number t))"

definition measured_of :: "observed_resources option \<Rightarrow> measured_resources option" where
  "measured_of res =
     (case res of None \<Rightarrow> None
      | Some r \<Rightarrow> map_option (\<lambda>cpu. \<lparr>measuredCpuCount = cpu, measuredMemoryMiB = number_of (orMemoryMib r),
                    measuredDiskGiB = number_of (orDiskGib r)\<rparr>) (orCpuCount r))"

definition observed_at :: "env \<Rightarrow> observation option \<Rightarrow> string" where
  "observed_at E ob = (case Option.bind ob onObservedAt of None \<Rightarrow> toISOString (now E) | Some t \<Rightarrow> t)"

definition observedState :: "env \<Rightarrow> observation option \<Rightarrow> observed_state" where
  "observedState E ob =
     \<lparr>obsExists = obs_exists ob, obsPowerState = observed_power_name (obs_power ob),
      obsResources = measured_of (Option.bind ob onResources),
      obsMarkerMatch = (case Option.bind ob onOwnership of None \<Rightarrow> False | Some oo \<Rightarrow> is_true (ooMatch oo)),
      obsObservedAt = observed_at E ob\<rparr>"

text \<open>An observation of the instance, then the continuation on it.\<close>

definition observe_instance ::
  "capability \<Rightarrow> 'p ctx \<Rightarrow> claimed_workflow \<Rightarrow> string \<Rightarrow> (observation option \<Rightarrow> ('p, unit) io) \<Rightarrow> ('p, unit) io" where
  "observe_instance cap X w step k =
     instance_request_of cap w step (\<lambda>req. io_bind (io_call (pvObserve (cxProvider X) req)) k)"

subsection \<open>Create\<close>

definition CREATE_MUTATION_STAGES :: "workflow_stage list" where
  "CREATE_MUTATION_STAGES = [SubmittingCreate, Configuring, Starting]"

definition create_capability :: capability where
  "create_capability = \<lparr>capAction = CreateInstance, capMutationStages = CREATE_MUTATION_STAGES,
     capCreateOperationId = operationId\<rparr>"

definition create_resources :: "event \<Rightarrow> requested_resources" where
  "create_resources c =
     (let r = object_fields (data_field c ''resources'') in
      \<lparr>rqCpuCount = int_of_json (get_field r ''cpuCount''),
       rqMemoryMib = js_string (get_field r ''memoryMiB''), rqDiskGib = js_string (get_field r ''diskGiB'')\<rparr>)"

definition create_network :: "event \<Rightarrow> requested_network" where
  "create_network c =
     (let i = object_fields (data_field c ''ipv4'') in
      \<lparr>rnNetworkId = text_of (data_field c ''networkId''), rnIpv4Address = text_of (get_field i ''address''),
       rnIpv4PrefixLength = int_of_json (get_field i ''prefixLength''),
       rnIpv4Gateway = text_of (get_field i ''gateway''), rnDnsServers = texts_of (get_field i ''dnsServers'')\<rparr>)"

definition build_request_of :: "event \<Rightarrow> build_request" where
  "build_request_of c =
     \<lparr>brHostname = text_of (data_field c ''hostname''), brResources = create_resources c,
      brNetwork = create_network c, brSshPublicKeys = texts_of (data_field c ''sshPublicKeys'')\<rparr>"

definition submitCreate :: "'p ctx \<Rightarrow> claimed_workflow \<Rightarrow> ('p, unit) io" where
  "submitCreate X w =
     mutate create_capability X w
       (SubmitCreateInstance (call_context_of w ''create'') (text_of (data_field (cwCommand w) ''imageId''))
         (text_of (data_field (cwCommand w) ''flavorId'')) (build_request_of (cwCommand w))
         (ownership create_capability w))
       PollingCreate Configuring"

definition configure :: "'p ctx \<Rightarrow> claimed_workflow \<Rightarrow> ('p, unit) io" where
  "configure X w =
     instance_request_of create_capability w ''configure'' (\<lambda>req.
       mutate create_capability X w (ApplyInstanceConfiguration req (build_request_of (cwCommand w)))
         PollingConfiguration Starting)"

definition start :: "'p ctx \<Rightarrow> claimed_workflow \<Rightarrow> ('p, unit) io" where
  "start X w =
     instance_request_of create_capability w ''start'' (\<lambda>req.
       mutate create_capability X w (StartInstance req) PollingStart Observing)"

definition observe :: "'p ctx \<Rightarrow> claimed_workflow \<Rightarrow> ('p, unit) io" where
  "observe X w =
     observe_instance create_capability X w ''observe'' (\<lambda>ob.
       if \<not> obs_exists ob \<or> \<not> obs_owned ob \<or> obs_power ob \<noteq> Some ObservedRunning
       then manualReview create_capability X w (plain_failure ''manual_review'' ''CREATE_OBSERVATION_AMBIGUOUS''
              ''Provider observation did not prove an owned running instance.'')
       else succeed create_capability X w ''active'' (Some (observedState (cxEnv X) ob)))"

definition execute_create :: "'p ctx \<Rightarrow> claimed_workflow \<Rightarrow> ('p, unit) io" where
  "execute_create X w =
     (case cwStage w of
        Accepted \<Rightarrow> progress X w SubmittingCreate no_options
      | SubmittingCreate \<Rightarrow> submitCreate X w
      | PollingCreate \<Rightarrow> pollTask create_capability X w Configuring
      | Configuring \<Rightarrow> configure X w
      | PollingConfiguration \<Rightarrow> pollTask create_capability X w Starting
      | Starting \<Rightarrow> start X w
      | PollingStart \<Rightarrow> pollTask create_capability X w Observing
      | Observing \<Rightarrow> observe X w
      | _ \<Rightarrow> fail create_capability X w (stage_invalid ''The persisted workflow stage is not supported.''))"

subsection \<open>Power\<close>

definition power_capability :: capability where
  "power_capability = \<lparr>capAction = PowerInstance, capMutationStages = [SubmittingPower],
     capCreateOperationId = routed_create_operation\<rparr>"

definition EXPECTED_POWER_STATE :: "string \<Rightarrow> observed_power option" where
  "EXPECTED_POWER_STATE a =
     (if a = ''start'' \<or> a = ''reboot'' then Some ObservedRunning
      else if a = ''shutdown'' \<or> a = ''stop'' then Some ObservedStopped else None)"

definition requestedAction :: "event \<Rightarrow> json" where
  "requestedAction c = data_field c ''action''"

definition submitPower :: "'p ctx \<Rightarrow> claimed_workflow \<Rightarrow> ('p, unit) io" where
  "submitPower X w =
     (let action = requestedAction (cwCommand w) in
      instance_request_of power_capability w (''power-'' @ js_string action) (\<lambda>req.
        mutate power_capability X w
          (if action = JStr ''start'' then StartInstance req
           else if action = JStr ''shutdown'' then ShutdownInstance req
           else if action = JStr ''stop'' then StopInstance req
           else RebootInstance req)
          PollingPower ObservingPower))"

definition observePower :: "'p ctx \<Rightarrow> claimed_workflow \<Rightarrow> ('p, unit) io" where
  "observePower X w =
     (let expected = EXPECTED_POWER_STATE (js_string (requestedAction (cwCommand w))) in
      observe_instance power_capability X w ''observe-power'' (\<lambda>ob.
        if \<not> obs_exists ob \<or> \<not> obs_owned ob
        then manualReview power_capability X w (plain_failure ''manual_review'' ''POWER_OBSERVATION_AMBIGUOUS''
               ''Provider observation did not prove an owned instance after the transition.'')
        else if obs_power ob \<noteq> expected
        then manualReview power_capability X w (plain_failure ''manual_review'' ''POWER_STATE_NOT_REACHED''
               ''The instance did not reach the requested power state.'')
        else succeed power_capability X w ''active''
          (Some \<lparr>obsExists = True,
             obsPowerState = (if expected = Some ObservedRunning then ''running'' else ''stopped''),
             obsResources = None, obsMarkerMatch = True, obsObservedAt = observed_at (cxEnv X) ob\<rparr>)))"

definition execute_power :: "'p ctx \<Rightarrow> claimed_workflow \<Rightarrow> ('p, unit) io" where
  "execute_power X w =
     (case cwStage w of
        Accepted \<Rightarrow> progress X w SubmittingPower no_options
      | SubmittingPower \<Rightarrow> submitPower X w
      | PollingPower \<Rightarrow> pollTask power_capability X w ObservingPower
      | ObservingPower \<Rightarrow> observePower X w
      | _ \<Rightarrow> fail power_capability X w (stage_invalid UNSUPPORTED_STAGE))"

subsection \<open>Resize\<close>

definition resize_capability :: capability where
  "resize_capability = \<lparr>capAction = ResizeInstance, capMutationStages = [SubmittingResize],
     capCreateOperationId = routed_create_operation\<rparr>"

definition target_resources :: "event \<Rightarrow> sizing" where
  "target_resources c =
     (let r = object_fields (data_field c ''targetResources'') in
      \<lparr>cpuCount = int_of_json (get_field r ''cpuCount''), memoryMiB = int_of_json (get_field r ''memoryMiB''),
       diskGiB = int_of_json (get_field r ''diskGiB'')\<rparr>)"

definition submitResize :: "'p ctx \<Rightarrow> claimed_workflow \<Rightarrow> ('p, unit) io" where
  "submitResize X w =
     (let t = target_resources (cwCommand w) in
      instance_request_of resize_capability w ''resize'' (\<lambda>req.
        mutate resize_capability X w
          (ResizeInstanceCall req \<lparr>rqCpuCount = cpuCount t, rqMemoryMib = show_int (memoryMiB t),
             rqDiskGib = show_int (diskGiB t)\<rparr>)
          PollingResize ObservingResize))"

definition disagrees :: "sizing \<Rightarrow> observed_resources option \<Rightarrow> bool" where
  "disagrees t measured =
     (case measured of None \<Rightarrow> False
      | Some r \<Rightarrow>
          (case orCpuCount r of None \<Rightarrow> False
           | Some cpu \<Rightarrow> cpu \<noteq> cpuCount t \<or>
               Option.bind (orMemoryMib r) js_number \<noteq> Some (of_int (memoryMiB t)) \<or>
               Option.bind (orDiskGib r) js_number \<noteq> Some (of_int (diskGiB t))))"

definition observeResize :: "'p ctx \<Rightarrow> claimed_workflow \<Rightarrow> ('p, unit) io" where
  "observeResize X w =
     observe_instance resize_capability X w ''observe-resize'' (\<lambda>ob.
       if \<not> obs_exists ob \<or> \<not> obs_owned ob
       then manualReview resize_capability X w (plain_failure ''manual_review'' ''RESIZE_OBSERVATION_AMBIGUOUS''
              ''Provider observation did not prove an owned instance after the resize.'')
       else if disagrees (target_resources (cwCommand w)) (Option.bind ob onResources)
       then manualReview resize_capability X w (plain_failure ''manual_review'' ''RESIZE_NOT_APPLIED''
              ''The instance did not reach the requested sizing.'')
       else succeed resize_capability X w ''active''
         (Some \<lparr>obsExists = True, obsPowerState = ''unknown'',
            obsResources = measured_of (Option.bind ob onResources), obsMarkerMatch = True,
            obsObservedAt = observed_at (cxEnv X) ob\<rparr>))"

definition execute_resize :: "'p ctx \<Rightarrow> claimed_workflow \<Rightarrow> ('p, unit) io" where
  "execute_resize X w =
     (case cwStage w of
        Accepted \<Rightarrow> progress X w SubmittingResize no_options
      | SubmittingResize \<Rightarrow> submitResize X w
      | PollingResize \<Rightarrow> pollTask resize_capability X w ObservingResize
      | ObservingResize \<Rightarrow> observeResize X w
      | _ \<Rightarrow> fail resize_capability X w (stage_invalid UNSUPPORTED_STAGE))"

subsection \<open>Snapshots\<close>

datatype snapshot_action = SnapCreate | SnapRollback | SnapDelete

fun snapshot_workflow_action :: "snapshot_action \<Rightarrow> workflow_action" where
  "snapshot_workflow_action SnapCreate = CreateSnapshot"
| "snapshot_workflow_action SnapRollback = RollbackSnapshot"
| "snapshot_workflow_action SnapDelete = DeleteSnapshot"

definition snapshot_capability :: "snapshot_action \<Rightarrow> capability" where
  "snapshot_capability a = \<lparr>capAction = snapshot_workflow_action a, capMutationStages = [SubmittingSnapshot],
     capCreateOperationId = routed_create_operation\<rparr>"

definition submitSnapshot :: "snapshot_action \<Rightarrow> 'p ctx \<Rightarrow> claimed_workflow \<Rightarrow> ('p, unit) io" where
  "submitSnapshot a X w =
     (let c = cwCommand w; cap = snapshot_capability a;
          description = data_field c ''description'' in
      instance_request_of cap w (action_name (capAction cap)) (\<lambda>req.
        mutate cap X w
          (case a of
             SnapCreate \<Rightarrow> CreateSnapshotCall req (text_of (data_field c ''snapshotId''))
               (text_of (data_field c ''name''))
               (case description of JStr d \<Rightarrow> if d = [] then None else Some d | _ \<Rightarrow> None)
           | SnapRollback \<Rightarrow> RollbackSnapshotCall req (text_of (data_field c ''snapshotId''))
               (text_of (data_field c ''providerSnapshotReference''))
           | SnapDelete \<Rightarrow> DeleteSnapshotCall req (text_of (data_field c ''snapshotId''))
               (text_of (data_field c ''providerSnapshotReference'')))
          PollingSnapshot ObservingSnapshot))"

definition expectedName :: "snapshot_action \<Rightarrow> event \<Rightarrow> string" where
  "expectedName a c =
     (if a = SnapCreate then text_of (data_field c ''name'')
      else text_of (data_field c ''providerSnapshotReference''))"

definition snapshot_satisfied :: "snapshot_action \<Rightarrow> event \<Rightarrow> string option list \<Rightarrow> bool" where
  "snapshot_satisfied a c names =
     (let present = List.member names (Some (expectedName a c)) in
      case a of SnapRollback \<Rightarrow> True | SnapCreate \<Rightarrow> present | SnapDelete \<Rightarrow> \<not> present)"

definition observeSnapshot :: "snapshot_action \<Rightarrow> 'p ctx \<Rightarrow> claimed_workflow \<Rightarrow> ('p, unit) io" where
  "observeSnapshot a X w =
     (let cap = snapshot_capability a in
      instance_request_of cap w (action_name (capAction cap) @ ''-observe'') (\<lambda>req.
        io_bind (io_call (pvListSnapshots (cxProvider X) req)) (\<lambda>names.
          if \<not> snapshot_satisfied a (cwCommand w) names
          then manualReview cap X w (plain_failure ''manual_review'' ''SNAPSHOT_STATE_NOT_REACHED''
                 ''The provider snapshot listing does not reflect the requested change.'')
          else succeed cap X w ''active'' None)))"

definition execute_snapshot :: "snapshot_action \<Rightarrow> 'p ctx \<Rightarrow> claimed_workflow \<Rightarrow> ('p, unit) io" where
  "execute_snapshot a X w =
     (case cwStage w of
        Accepted \<Rightarrow> progress X w SubmittingSnapshot no_options
      | SubmittingSnapshot \<Rightarrow> submitSnapshot a X w
      | PollingSnapshot \<Rightarrow> pollTask (snapshot_capability a) X w ObservingSnapshot
      | ObservingSnapshot \<Rightarrow> observeSnapshot a X w
      | _ \<Rightarrow> fail (snapshot_capability a) X w (stage_invalid UNSUPPORTED_STAGE))"

subsection \<open>Retention\<close>

definition retain_capability :: capability where
  "retain_capability = \<lparr>capAction = RetainInstance, capMutationStages = [SubmittingRetention],
     capCreateOperationId = routed_create_operation\<rparr>"

definition submitRetention :: "'p ctx \<Rightarrow> claimed_workflow \<Rightarrow> ('p, unit) io" where
  "submitRetention X w =
     instance_request_of retain_capability w ''retain'' (\<lambda>req.
       mutate retain_capability X w
         (MarkInstanceRetained req (text_of (data_field (cwCommand w) ''retentionDeadline'')))
         PollingRetention ObservingRetention)"

definition observeRetention :: "'p ctx \<Rightarrow> claimed_workflow \<Rightarrow> ('p, unit) io" where
  "observeRetention X w =
     observe_instance retain_capability X w ''observe-retention'' (\<lambda>ob.
       if \<not> obs_exists ob \<or> \<not> obs_owned ob
       then manualReview retain_capability X w (plain_failure ''manual_review'' ''RETENTION_OBSERVATION_AMBIGUOUS''
              ''The retained instance could not be observed as present and owned.'')
       else succeed retain_capability X w ''retained''
         (Some \<lparr>obsExists = True,
            obsPowerState = (if obs_power ob = Some ObservedStopped then ''stopped''
                             else if obs_power ob = Some ObservedRunning then ''running'' else ''unknown''),
            obsResources = None, obsMarkerMatch = True, obsObservedAt = observed_at (cxEnv X) ob\<rparr>))"

definition execute_retain :: "'p ctx \<Rightarrow> claimed_workflow \<Rightarrow> ('p, unit) io" where
  "execute_retain X w =
     (case cwStage w of
        Accepted \<Rightarrow> progress X w SubmittingRetention no_options
      | SubmittingRetention \<Rightarrow> submitRetention X w
      | PollingRetention \<Rightarrow> pollTask retain_capability X w ObservingRetention
      | ObservingRetention \<Rightarrow> observeRetention X w
      | _ \<Rightarrow> fail retain_capability X w (stage_invalid UNSUPPORTED_STAGE))"

subsection \<open>Purge\<close>

definition purge_capability :: capability where
  "purge_capability = \<lparr>capAction = PurgeInstance, capMutationStages = [SubmittingPurge],
     capCreateOperationId = routed_create_operation\<rparr>"

definition completePurge :: "'p ctx \<Rightarrow> claimed_workflow \<Rightarrow> ('p, unit) io" where
  "completePurge X w =
     succeed purge_capability X w ''purged''
       (Some \<lparr>obsExists = False, obsPowerState = ''unknown'', obsResources = None, obsMarkerMatch = False,
          obsObservedAt = toISOString (now (cxEnv X))\<rparr>)"

definition verifyOwnership :: "'p ctx \<Rightarrow> claimed_workflow \<Rightarrow> ('p, unit) io" where
  "verifyOwnership X w =
     observe_instance purge_capability X w ''verify-purge'' (\<lambda>ob.
       if \<not> obs_exists ob then completePurge X w
       else if \<not> obs_owned ob
       then manualReview purge_capability X w (plain_failure ''manual_review'' ''PURGE_OWNERSHIP_NOT_PROVEN''
              ''Live provider ownership could not be proven; the purge was not attempted.'')
       else progress X w SubmittingPurge no_options)"

definition submitPurge :: "'p ctx \<Rightarrow> claimed_workflow \<Rightarrow> ('p, unit) io" where
  "submitPurge X w =
     instance_request_of purge_capability w ''purge'' (\<lambda>req.
       mutate purge_capability X w
         (PurgeInstanceCall req (text_of (data_field (cwCommand w) ''purgeAuthorizationId''))
           (text_of (data_field (cwCommand w) ''retentionDeadline'')))
         PollingPurge ObservingPurge)"

definition observeAbsence :: "'p ctx \<Rightarrow> claimed_workflow \<Rightarrow> ('p, unit) io" where
  "observeAbsence X w =
     observe_instance purge_capability X w ''observe-purge'' (\<lambda>ob.
       if obs_exists ob
       then manualReview purge_capability X w (plain_failure ''manual_review'' ''PURGE_NOT_CONFIRMED''
              ''The instance is still present after the purge was submitted.'')
       else completePurge X w)"

definition execute_purge :: "'p ctx \<Rightarrow> claimed_workflow \<Rightarrow> ('p, unit) io" where
  "execute_purge X w =
     (case cwStage w of
        Accepted \<Rightarrow> progress X w VerifyingPurge no_options
      | VerifyingPurge \<Rightarrow> verifyOwnership X w
      | SubmittingPurge \<Rightarrow> submitPurge X w
      | PollingPurge \<Rightarrow> pollTask purge_capability X w ObservingPurge
      | ObservingPurge \<Rightarrow> observeAbsence X w
      | _ \<Rightarrow> fail purge_capability X w (stage_invalid UNSUPPORTED_STAGE))"

subsection \<open>The registry\<close>

text \<open>
  The executors of \<^verbatim>\<open>workflow-registry.ts\<close>: an action with its \<^verbatim>\<open>runOne\<close>. The registry starts at the
  cursor and stops at the first executor that advances a workflow, which moves the cursor past it.
\<close>

record 'w executor =
  exAction :: workflow_action
  exRunOne :: "'w \<Rightarrow> (exn + bool) \<times> 'w"

definition make_registry :: "'w executor list \<Rightarrow> 'w executor list option" where
  "make_registry executors = (if distinct (map exAction executors) then Some executors else None)"

fun registry_scan ::
  "'w executor list \<Rightarrow> nat \<Rightarrow> nat \<Rightarrow> nat \<Rightarrow> 'w \<Rightarrow> (exn + bool) \<times> nat \<times> 'w" where
  "registry_scan executors cursor attempt 0 w = (Inr False, cursor, w)"
| "registry_scan executors cursor attempt (Suc left) w =
     (let n = length executors in
      case exRunOne (executors ! ((cursor + attempt) mod n)) w of
        (Inl e, w1) \<Rightarrow> (Inl e, cursor, w1)
      | (Inr True, w1) \<Rightarrow> (Inr True, (cursor + attempt + 1) mod n, w1)
      | (Inr False, w1) \<Rightarrow> registry_scan executors cursor (attempt + 1) left w1)"

definition registry_runOne ::
  "'w executor list \<Rightarrow> nat \<Rightarrow> 'w \<Rightarrow> (exn + bool) \<times> nat \<times> 'w" where
  "registry_runOne executors cursor w = registry_scan executors cursor 0 (length executors) w"

text \<open>The capabilities the provisioning worker registers, in its order (\<^verbatim>\<open>provisioning-worker.ts\<close>).\<close>

definition workflow_executors ::
  "(capability \<times> ('p ctx \<Rightarrow> claimed_workflow \<Rightarrow> ('p, unit) io)) list" where
  "workflow_executors =
     [(create_capability, execute_create), (power_capability, execute_power),
      (resize_capability, execute_resize),
      (snapshot_capability SnapCreate, execute_snapshot SnapCreate),
      (snapshot_capability SnapRollback, execute_snapshot SnapRollback),
      (snapshot_capability SnapDelete, execute_snapshot SnapDelete),
      (retain_capability, execute_retain), (purge_capability, execute_purge)]"

definition worker_registry :: "env \<Rightarrow> 'p ctx \<Rightarrow> int \<Rightarrow> 'p world executor list" where
  "worker_registry Ec X leaseSeconds =
     map (\<lambda>(cap, execute). \<lparr>exAction = capAction cap, exRunOne = runOne cap execute Ec X leaseSeconds\<rparr>)
       workflow_executors"

end
