(* ===== verification/Samples.thy ===== *)
theory Samples
  imports Workflow_Store
begin

section \<open>Concrete inputs\<close>

text \<open>
  One environment, one create command and its delivery, used to run the model on concrete inputs.
  The hash is a constant, the date parser accepts any non-empty text.
\<close>

definition sample_uuid :: "nat \<Rightarrow> uuid" where
  "sample_uuid n = ''00000000-0000-4000-8000-0000000000'' @ pad 2 (int n)"

definition sample_trace :: trace_context where
  "sample_trace = \<lparr>traceparent = ''00-4bf92f3577b34da6a3ce929d0e0e4736-00f067aa0ba902b7-01'', tracestate = None\<rparr>"

definition sample_env_at :: "nat \<Rightarrow> millis \<Rightarrow> env" where
  "sample_env_at k t = \<lparr>now = t, dbNow = t, uuidAt = (\<lambda>n. sample_uuid (k + n)), random = Some (1 / 2),
     currentTraceContext = (\<lambda>c. c), dateParses = (\<lambda>s. s \<noteq> []), hashJson = (\<lambda>j. ''digest'')\<rparr>"

definition sample_instance :: uuid where "sample_instance = sample_uuid 1"
definition sample_project :: uuid where "sample_project = sample_uuid 2"
definition sample_operation :: uuid where "sample_operation = sample_uuid 3"

definition sample_create_data :: create_data where
  "sample_create_data = \<lparr>dataImageId = ''ubuntu-24'', dataFlavorId = ''small'', dataNetworkId = ''lab-net'',
     dataProviderProfileId = ''fake'', dataHostname = ''web-1'',
     dataResources = \<lparr>cpuCount = 2, memoryMiB = 2048, diskGiB = 20\<rparr>,
     dataIpv4 = \<lparr>ipAddress = ''10.20.0.3'', ipPrefixLength = 24, ipGateway = ''10.20.0.1'',
       dnsServers = [''10.20.0.1'']\<rparr>, dataSshPublicKeys = None\<rparr>"

definition sample_command :: event where
  "sample_command = \<lparr>eventId = sample_uuid 4, schemaName = ''instance.create.requested'', schemaVersion = 1,
     aggregateType = ''instance'', aggregateId = sample_instance, projectId = sample_project,
     operationId = sample_operation, correlationId = sample_uuid 5, causationId = sample_uuid 5,
     occurredAt = toISOString 0, traceContext = sample_trace, partitionKey = sample_instance,
     data = CreateRequested sample_create_data\<rparr>"

definition sample_delivery :: delivery_identity where
  "sample_delivery = \<lparr>topic = ''provisioning.commands.v1'', partition = 0, offset = ''7'',
     replayGeneration = 0, outboxId = Some (sample_uuid 6)\<rparr>"

definition sample_fence :: fence where
  "sample_fence = \<lparr>fnOperationId = sample_operation, fnWorkerId = ''worker-a'', fnFencingToken = 1\<rparr>"

definition sample_completed :: event where
  "sample_completed = \<lparr>eventId = sample_uuid 30, schemaName = ''instance.mutation.completed'', schemaVersion = 1,
     aggregateType = ''instance'', aggregateId = sample_instance, projectId = sample_project,
     operationId = sample_operation, correlationId = sample_uuid 5, causationId = sample_uuid 4,
     occurredAt = toISOString 3000, traceContext = sample_trace, partitionKey = sample_instance,
     data = Completed \<lparr>complAction = ''create_instance'', complLifecycleState = ''active'',
       complProviderResourceId = Some ''vm-100'', complEvidenceId = sample_uuid 31, complObserved = None\<rparr>\<rparr>"

definition no_tables :: workflow_db where
  "no_tables = \<lparr>workflows = [], instance_leases = [], command_receipts = [], dead_letters = [],
     replay_requests = [], poison_records = [], wf_outbox = [], audit_entries = []\<rparr>"

text \<open>The tables after admitting, then claiming, then completing the sample command.\<close>

definition sample_admitted :: workflow_db where
  "sample_admitted = (case admitCommand (sample_env_at 40 1000) sample_command sample_delivery no_tables of
     Inr (_, db) \<Rightarrow> db | Inl _ \<Rightarrow> no_tables)"

definition sample_claimed :: workflow_db where
  "sample_claimed = (case claimNext (sample_env_at 50 2000) ''worker-a'' 30 CreateInstance sample_admitted of
     Inr (_, db) \<Rightarrow> db | Inl _ \<Rightarrow> no_tables)"

definition sample_completed_db :: workflow_db where
  "sample_completed_db = (case complete (sample_env_at 60 3000) sample_fence Succeeded sample_completed sample_claimed of
     Inr db \<Rightarrow> db | Inl _ \<Rightarrow> no_tables)"

text \<open>A failed workflow with an open replay authorization, and the replayed delivery.\<close>

definition sample_replay_request :: event where
  "sample_replay_request = sample_command\<lparr>eventId := sample_uuid 71, schemaName := ''provisioning.replay.requested'',
     data := ReplayRequested (sample_uuid 70) (sample_uuid 4) (toISOString 0)\<rparr>"

definition sample_authorization :: replay_request where
  "sample_authorization = \<lparr>rrReplayRequestId = sample_uuid 70, rrRequestEventId = sample_uuid 71,
     rrOriginalEventId = sample_uuid 4, rrReplayGeneration = Some 1, rrStatus = ''authorized'',
     rrRequestPayload = sample_replay_request, rrAuthorizedCommandHash = Some ''digest'',
     rrAuthorizedOutboxId = Some (sample_uuid 6), rrDecidedAt = 0, rrCompletedAt = None\<rparr>"

definition sample_failed_row :: workflow_row where
  "sample_failed_row = (new_workflow sample_command CreateInstance sample_delivery None 1000)
     \<lparr>wfStatus := ''failed'', wfStage := ''failed''\<rparr>"

definition sample_replay_db :: workflow_db where
  "sample_replay_db = no_tables\<lparr>workflows := [sample_failed_row], replay_requests := [sample_authorization]\<rparr>"

definition sample_replay_delivery :: delivery_identity where
  "sample_replay_delivery = sample_delivery\<lparr>replayGeneration := 1, offset := ''8''\<rparr>"

lemma sample_admits:
  "admitCommand (sample_env_at 40 1000) sample_command sample_delivery no_tables = Inr (AdmissionAccepted, sample_admitted)"
  unfolding sample_admitted_def
  by (simp add: admitCommand_def admitOriginalDelivery_def insertCommandReceipt_def no_tables_def
      sample_delivery_def sample_command_def workflowActionOf_def workflowActionForSchema_def insertWorkflow_def
      lookup_by_def)

lemma sample_admitted_tables:
  "workflows sample_admitted = [new_workflow sample_command CreateInstance sample_delivery None 1000]"
  "instance_leases sample_admitted = []"
  unfolding sample_admitted_def
  by (simp_all add: admitCommand_def admitOriginalDelivery_def insertCommandReceipt_def no_tables_def
      sample_delivery_def sample_command_def workflowActionOf_def workflowActionForSchema_def insertWorkflow_def
      lookup_by_def sample_env_at_def)

lemma sample_command_valid: "isInstanceCreateRequestedV1 sample_command"
  by code_simp

lemma sample_command_fields [simp]:
  "operationId sample_command = sample_operation"
  "aggregateId sample_command = sample_instance"
  "eventId sample_command = sample_uuid 4"
  by (simp_all add: sample_command_def)

lemma sample_admitted_outbox: "wf_outbox sample_admitted = []" "audit_entries sample_admitted = []"
  unfolding sample_admitted_def
  by (simp_all add: admitCommand_def admitOriginalDelivery_def insertCommandReceipt_def no_tables_def
      sample_delivery_def sample_command_def workflowActionOf_def workflowActionForSchema_def insertWorkflow_def
      lookup_by_def)

lemma sample_uuids_differ:
  "sample_uuid 64 \<noteq> sample_uuid 62" "sample_uuid 63 \<noteq> sample_uuid 30"
  by code_simp+

lemma accepted_stage: "toWorkflowStage ''accepted'' = Some Accepted"
  by simp

lemma create_action: "toWorkflowAction ''create_instance'' = Some CreateInstance"
  by simp

lemma sample_claims:
  "\<exists>cw. claimNext (sample_env_at 50 2000) ''worker-a'' 30 CreateInstance sample_admitted =
     Inr (Some cw, sample_claimed) \<and> cwFencingToken cw = 1"
  unfolding sample_claimed_def
  by (simp add: claimNext_def MINIMUM_LEASE_SECONDS_def MAXIMUM_LEASE_SECONDS_def readyWorkflow_def is_ready_def
      sample_admitted_tables new_workflow_def lease_available_def sample_env_at_def takeLease_def claimed_row_def
      lifecycleCommand_def sample_command_valid accepted_stage create_action
      claim_of_def)

lemma sample_claimed_tables:
  "workflows sample_claimed =
     [claimed_row (sample_env_at 50 2000) 1 (new_workflow sample_command CreateInstance sample_delivery None 1000)]"
  "instance_leases sample_claimed = [\<lparr>leInstanceId = sample_instance, leOwnerId = ''worker-a'',
     leFencingToken = 1, leLeasedUntil = 32000, leUpdatedAt = 2000\<rparr>]"
  "wf_outbox sample_claimed = []" "audit_entries sample_claimed = []"
  unfolding sample_claimed_def
  by (simp_all add: claimNext_def MINIMUM_LEASE_SECONDS_def MAXIMUM_LEASE_SECONDS_def readyWorkflow_def is_ready_def
      sample_admitted_tables new_workflow_def lease_available_def sample_env_at_def takeLease_def claimed_row_def
      lifecycleCommand_def sample_command_valid accepted_stage create_action
      claim_of_def sample_admitted_outbox)

lemma sample_completes:
  "complete (sample_env_at 60 3000) sample_fence Succeeded sample_completed sample_claimed = Inr sample_completed_db"
  unfolding sample_completed_db_def
  by (simp add: complete_def assertLease_def sample_claimed_tables sample_fence_def claimed_row_def new_workflow_def
      sample_env_at_def writeEvent_def writeWorkflowOutbox_def writeServiceAudit_def Let_def
      auditRecordedEvent_def update_workflow_def complete_receipt_def insert_unique_def sample_completed_def
      sample_uuids_differ)

end
