(* ===== verification/Workflow_Fencing.thy ===== *)
theory Workflow_Fencing
  imports Samples
begin

section \<open>Fencing, exactly-once settlement and the inbox\<close>

text \<open>
  What the workflow store promises over whole histories. \<open>store_step\<close> is any method of the store
  run at some instant not before the last one; the process clocks and the database clock agree.
  The invariant of the reachable states and the frame lemmas of the methods give: fencing tokens
  never decrease, a superseded worker can never write again, a settled workflow stays settled
  unless an authorised replay reopens a failed one, and an admitted command is a duplicate
  forever after.
\<close>

subsection \<open>Frames of the helper statements\<close>

lemma writeWorkflowOutbox_frame:
  assumes "writeWorkflowOutbox oid e tp oc g db = Inr db'"
  shows "workflows db' = workflows db \<and> instance_leases db' = instance_leases db \<and>
    command_receipts db' = command_receipts db \<and> dead_letters db' = dead_letters db \<and>
    replay_requests db' = replay_requests db"
  using assms by (auto simp: writeWorkflowOutbox_def Let_def split: if_splits)

lemma writeEvent_frame:
  assumes "writeEvent oid e db = Inr db'"
  shows "workflows db' = workflows db \<and> instance_leases db' = instance_leases db \<and>
    command_receipts db' = command_receipts db \<and> dead_letters db' = dead_letters db \<and>
    replay_requests db' = replay_requests db"
  using assms unfolding writeEvent_def by (rule writeWorkflowOutbox_frame)

lemma writeReplayResolution_frame:
  assumes "writeReplayResolution eid oid r ids oc g t db = Inr db'"
  shows "workflows db' = workflows db \<and> instance_leases db' = instance_leases db \<and>
    command_receipts db' = command_receipts db \<and> dead_letters db' = dead_letters db \<and>
    replay_requests db' = replay_requests db"
  using assms unfolding writeReplayResolution_def by (rule writeEvent_frame)

lemma writeServiceAudit_frame:
  assumes "writeServiceAudit aid oid c a oc t rs db = Inr db'"
  shows "workflows db' = workflows db \<and> instance_leases db' = instance_leases db \<and>
    command_receipts db' = command_receipts db \<and> dead_letters db' = dead_letters db \<and>
    replay_requests db' = replay_requests db"
  using assms
  by (auto simp: writeServiceAudit_def Let_def dest: writeWorkflowOutbox_frame split: option.splits)

lemma writeDeadLetter_frame:
  assumes "writeDeadLetter eid oid i t db = Inr db'"
  shows "workflows db' = workflows db \<and> instance_leases db' = instance_leases db \<and>
    command_receipts db' = command_receipts db \<and> replay_requests db' = replay_requests db"
  using assms by (auto simp: writeDeadLetter_def dest: writeWorkflowOutbox_frame)

lemma insertCommandReceipt_frame:
  assumes "insertCommandReceipt E e d c db = Inr (fresh, db')"
  shows "workflows db' = workflows db \<and> instance_leases db' = instance_leases db \<and>
    (\<exists>rows. command_receipts db' = command_receipts db @ rows) \<and> (\<not> fresh \<longrightarrow> db' = db)"
  using assms by (auto simp: insertCommandReceipt_def Let_def split: if_splits)

lemma insertCommandReceipt_stale:
  "insertCommandReceipt E e d c db = Inr (False, db') \<Longrightarrow> db' = db"
  by (auto simp: insertCommandReceipt_def Let_def split: if_splits)

lemma insertPoisonRecord_frame:
  assumes "insertPoisonRecord E i d h c m db = (b, db')"
  shows "workflows db' = workflows db \<and> instance_leases db' = instance_leases db \<and>
    command_receipts db' = command_receipts db"
  using assms by (auto simp: insertPoisonRecord_def Let_def split: option.splits)

lemma persistReplayRequest_frame:
  assumes "persistReplayRequest r s t a db = Inr db'"
  shows "workflows db' = workflows db \<and> instance_leases db' = instance_leases db \<and>
    command_receipts db' = command_receipts db"
  using assms by (auto simp: persistReplayRequest_def Let_def split: if_splits)

lemma rejectReplayCommand_frame:
  assumes "rejectReplayCommand E d h c db = (a, db')"
  shows "workflows db' = workflows db \<and> instance_leases db' = instance_leases db \<and>
    command_receipts db' = command_receipts db \<and> a = AdmissionRejected c"
  using assms by (auto simp: rejectReplayCommand_def insertPoisonRecord_frame [OF surjective_pairing])

lemmas frames =
  writeWorkflowOutbox_frame writeEvent_frame writeReplayResolution_frame writeServiceAudit_frame
  writeDeadLetter_frame insertCommandReceipt_frame insertPoisonRecord_frame
  persistReplayRequest_frame rejectReplayCommand_frame

subsection \<open>Effect of the methods on workflows, leases and receipts\<close>

text \<open>The changes an admission may make to the workflows.\<close>

definition admits :: "event \<Rightarrow> delivery_identity \<Rightarrow> workflow_row list \<Rightarrow> workflow_row list \<Rightarrow> bool" where
  "admits command delivery rows rows' \<longleftrightarrow>
     rows' = rows \<or>
     (\<exists>action resource t. lookup_by wfOperationId (operationId command) rows = None \<and>
        rows' = rows @ [new_workflow command action delivery resource t]) \<or>
     (\<exists>w t. replayGeneration delivery \<noteq> 0 \<and>
        lookup_by wfOperationId (operationId command) rows = Some w \<and> wfStatus w = ''failed'' \<and>
        rows' = update_where (\<lambda>r. wfOperationId r = operationId command) (reopened command delivery t) rows)"

lemma insertWorkflow_Inr:
  assumes "insertWorkflow row db = Inr db'"
  shows "lookup_by wfOperationId (wfOperationId row) (workflows db) = None \<and>
    db' = db\<lparr>workflows := workflows db @ [row]\<rparr>"
  using assms by (auto simp: insertWorkflow_def lookup_by_None_iff split: if_splits)

lemma admitOriginalDelivery_effect:
  assumes "admitOriginalDelivery E c d db = Inr (a, db')"
  shows "admits c d (workflows db) (workflows db') \<and> instance_leases db' = instance_leases db \<and>
    (\<exists>rows. command_receipts db' = command_receipts db @ rows)"
  using assms unfolding admitOriginalDelivery_def
  by (auto simp: admits_def Let_def new_workflow_def dest!: insertCommandReceipt_frame insertWorkflow_Inr
      split: if_splits)

lemma reopen_or_insert_effect:
  assumes "reopen_or_insert E c d (lookup_by wfOperationId (operationId c) (workflows db0)) db = Inr db'"
    and "workflows db0 = workflows db" and "replayGeneration d \<noteq> 0"
    and "\<And>w. lookup_by wfOperationId (operationId c) (workflows db0) = Some w \<Longrightarrow> wfStatus w = ''failed''"
  shows "admits c d (workflows db) (workflows db') \<and> instance_leases db' = instance_leases db \<and>
    command_receipts db' = command_receipts db"
  using assms unfolding reopen_or_insert_def
  by (auto simp: admits_def new_workflow_def dest!: insertWorkflow_Inr split: option.splits)

lemma admitAuthorizedReplayCommand_effect:
  assumes "admitAuthorizedReplayCommand E c d db = Inr (a, db')" and "replayGeneration d \<noteq> 0"
  shows "admits c d (workflows db) (workflows db') \<and> instance_leases db' = instance_leases db \<and>
    (\<exists>rows. command_receipts db' = command_receipts db @ rows)"
proof -
  have same: "admits c d rows rows" for rows by (simp add: admits_def)
  consider "workflows db' = workflows db" "instance_leases db' = instance_leases db"
      "command_receipts db' = command_receipts db"
    | auth request db1 db2 where
      "\<And>w. lookup_by wfOperationId (operationId c) (workflows db) = Some w \<Longrightarrow> \<not> not_reopenable c d w"
      "insertCommandReceipt E c d None db = Inr (True, db1)"
      "reopen_or_insert E c d (lookup_by wfOperationId (operationId c) (workflows db)) db1 = Inr db2"
      "writeReplayResolution (uuidAt E 2) (uuidAt E 3) request (replay_ids (data request)) ''completed''
         (replayGeneration d) (now E) (consume_authority E c d auth db2) = Inr db'"
    using assms(1) unfolding admitAuthorizedReplayCommand_def Let_def
    by (auto split: option.splits if_splits dest!: rejectReplayCommand_frame insertCommandReceipt_stale)
  then show ?thesis
  proof cases
    case 1
    then show ?thesis by (simp add: same)
  next
    case 2
    have f1: "workflows db1 = workflows db" "instance_leases db1 = instance_leases db"
        "\<exists>rows. command_receipts db1 = command_receipts db @ rows"
      using insertCommandReceipt_frame [OF 2(2)] by auto
    have "admits c d (workflows db1) (workflows db2) \<and> instance_leases db2 = instance_leases db1 \<and>
        command_receipts db2 = command_receipts db1"
      using 2(1) assms(2) f1(1)
      by (intro reopen_or_insert_effect [OF 2(3)]) (auto simp: not_reopenable_def)
    then show ?thesis using writeReplayResolution_frame [OF 2(4)] f1 by (simp add: consume_authority_def)
  qed
qed

lemma admitCommand_effect:
  assumes "admitCommand E c d db = Inr (a, db')"
  shows "admits c d (workflows db) (workflows db') \<and> instance_leases db' = instance_leases db \<and>
    (\<exists>rows. command_receipts db' = command_receipts db @ rows)"
proof (cases "replayGeneration d = 0")
  case True
  with assms have "admitOriginalDelivery E c d db = Inr (a, db')" by (simp add: admitCommand_def)
  then show ?thesis by (rule admitOriginalDelivery_effect)
next
  case False
  with assms have "admitAuthorizedReplayCommand E c d db = Inr (a, db')" by (simp add: admitCommand_def)
  then show ?thesis using False by (rule admitAuthorizedReplayCommand_effect)
qed

text \<open>A replay request, a quarantine and a command dead letter leave workflows and leases alone.\<close>

lemma admitReplayRequest_effect:
  assumes "admitReplayRequest E r d db = Inr (a, db')"
  shows "workflows db' = workflows db \<and> instance_leases db' = instance_leases db \<and>
    (\<exists>rows. command_receipts db' = command_receipts db @ rows)"
  using assms unfolding admitReplayRequest_def rejectReplayRequest_def Let_def
  by (auto dest!: frames split: if_splits option.splits)

lemma quarantineRecord_effect:
  assumes "quarantineRecord E d h c m db = (b, db')"
  shows "workflows db' = workflows db \<and> instance_leases db' = instance_leases db \<and>
    command_receipts db' = command_receipts db"
  using assms unfolding quarantineRecord_def by (rule insertPoisonRecord_frame)

lemma deadLetterCommand_effect:
  assumes "deadLetterCommand E e d n c m ra db = Inr (b, db')"
  shows "workflows db' = workflows db \<and> instance_leases db' = instance_leases db \<and>
    (\<exists>rows. command_receipts db' = command_receipts db @ rows)"
  using assms unfolding deadLetterCommand_def
  by (auto dest!: frames split: if_splits)

text \<open>A claim: the ready row and the lease it takes.\<close>

lemma first_least_SomeD: "first_least before rows = Some r \<Longrightarrow> r \<in> set rows"
  by (induction rows arbitrary: r) (auto split: option.splits if_splits)

lemma claimed_row_fields [simp]:
  "wfOperationId (claimed_row E token r) = wfOperationId r"
  "wfInstanceId (claimed_row E token r) = wfInstanceId r"
  "wfAction (claimed_row E token r) = wfAction r"
  "wfStage (claimed_row E token r) = wfStage r"
  "wfCommand (claimed_row E token r) = wfCommand r"
  "wfStatus (claimed_row E token r) = ''running''"
  "wfFencingToken (claimed_row E token r) = token"
  by (simp_all add: claimed_row_def)

lemma claimNext_effect:
  assumes "claimNext E worker s action db = Inr (Some cw, db')"
  obtains w token leases where "w \<in> set (workflows db)" "is_ready E worker action db w"
    "takeLease E worker s (wfInstanceId w) (instance_leases db) = Some (token, leases)"
    "db' = db\<lparr>instance_leases := leases,
       workflows := update_where (\<lambda>r. wfOperationId r = wfOperationId w) (claimed_row E token) (workflows db)\<rparr>"
    "\<exists>w'. lookup_by wfOperationId (wfOperationId w) (workflows db) = Some w' \<and>
       cw = claim_of (claimed_row E token w') (cwAction cw) (wfCommand w') (cwStage cw) \<and>
       action_name (cwAction cw) = wfAction w' \<and> stage_name (cwStage cw) = wfStage w' \<and>
       COMMAND_VALIDATORS E (cwAction cw) (wfCommand w')"
proof -
  from assms obtain w where w: "readyWorkflow E worker action db = Some w"
    by (auto simp: claimNext_def split: if_splits option.splits)
  from assms w obtain token leases where
      lease: "takeLease E worker s (wfInstanceId w) (instance_leases db) = Some (token, leases)"
    by (auto simp: claimNext_def split: if_splits option.splits)
  have ready: "w \<in> set (workflows db)" "is_ready E worker action db w"
    using first_least_SomeD [OF w [unfolded readyWorkflow_def]] by auto
  from assms w lease show thesis
    by (intro that [OF ready lease])
      (auto simp: claimNext_def Let_def lookup_by_update_same lifecycleCommand_def claim_of_def
        split: if_splits)
qed

text \<open>A fenced write: the row it settles and the lease it releases.\<close>

lemma assertLease_Inr:
  assumes "assertLease E f db = Inr w"
  obtains l where "lookup_by wfOperationId (fnOperationId f) (workflows db) = Some w"
    "wfFencingToken w = fnFencingToken f"
    "lookup_by leInstanceId (wfInstanceId w) (instance_leases db) = Some l"
    "leOwnerId l = fnWorkerId f" "leFencingToken l = fnFencingToken f" "now E < leLeasedUntil l"
  using assms by (auto simp: assertLease_def split: option.splits if_splits)

text \<open>What a receipt proves: the delivery key and the hash of what was delivered.\<close>

definition receipt_identity :: "command_receipt \<Rightarrow> (string \<times> uuid \<times> int) \<times> string" where
  "receipt_identity r = (receipt_key r, rcPayloadHash r)"

text \<open>The part of the store a fenced write changes, for a given change of the row.\<close>

definition fenced_write ::
  "env \<Rightarrow> fence \<Rightarrow> (workflow_row \<Rightarrow> workflow_row) \<Rightarrow> 'z workflow_db_scheme \<Rightarrow> 'z workflow_db_scheme \<Rightarrow> bool" where
  "fenced_write E f change db db' \<longleftrightarrow>
     (\<exists>w. assertLease E f db = Inr w \<and>
        workflows db' = update_where (\<lambda>r. wfOperationId r = fnOperationId f \<and>
          wfFencingToken r = fnFencingToken f) change (workflows db) \<and>
        instance_leases db' = instance_leases (releaseLease E (wfInstanceId w) f db) \<and>
        map receipt_identity (command_receipts db') = map receipt_identity (command_receipts db))"

lemma checkpoint_effect:
  assumes "checkpoint E i db = Inr db'"
  shows "fenced_write E (ciFence i) (checkpointed E i) db db'"
  using assms unfolding checkpoint_def fenced_write_def
  by (auto dest!: writeEvent_frame simp: update_workflow_def releaseLease_def)

lemma deadLetterWorkflow_effect:
  assumes "deadLetterWorkflow E i db = Inr db'"
  shows "fenced_write E (dwFence i) (dead_lettered_row E i) db db'"
  using assms unfolding deadLetterWorkflow_def fenced_write_def
  by (auto dest!: writeEvent_frame writeDeadLetter_frame writeServiceAudit_frame
      simp: update_workflow_def releaseLease_def complete_receipt_def map_update_where_key
        receipt_identity_def receipt_key_def)

lemma complete_effect:
  assumes "complete E f st e db = Inr db'"
  shows "fenced_write E f (completed_row E st e) db db'"
  using assms unfolding complete_def fenced_write_def
  by (auto dest!: writeEvent_frame writeServiceAudit_frame
      simp: update_workflow_def releaseLease_def complete_receipt_def map_update_where_key
        receipt_identity_def receipt_key_def)

subsection \<open>Histories\<close>

inductive store_step :: "millis \<times> workflow_db \<Rightarrow> millis \<times> workflow_db \<Rightarrow> bool" where
  step_admit: "t \<le> now E \<Longrightarrow> dbNow E = now E \<Longrightarrow> admitCommand E c d db = Inr (a, db') \<Longrightarrow>
    store_step (t, db) (now E, db')"
| step_replay: "t \<le> now E \<Longrightarrow> dbNow E = now E \<Longrightarrow> admitReplayRequest E r d db = Inr (b, db') \<Longrightarrow>
    store_step (t, db) (now E, db')"
| step_quarantine: "t \<le> now E \<Longrightarrow> dbNow E = now E \<Longrightarrow> quarantineRecord E d h c m db = (q, db') \<Longrightarrow>
    store_step (t, db) (now E, db')"
| step_dead_letter: "t \<le> now E \<Longrightarrow> dbNow E = now E \<Longrightarrow>
    deadLetterCommand E e d n c m ra db = Inr (q, db') \<Longrightarrow> store_step (t, db) (now E, db')"
| step_claim: "t \<le> now E \<Longrightarrow> dbNow E = now E \<Longrightarrow>
    claimNext E worker s action db = Inr (Some cw, db') \<Longrightarrow> store_step (t, db) (now E, db')"
| step_checkpoint: "t \<le> now E \<Longrightarrow> dbNow E = now E \<Longrightarrow> checkpoint E ci db = Inr db' \<Longrightarrow>
    store_step (t, db) (now E, db')"
| step_exhausted: "t \<le> now E \<Longrightarrow> dbNow E = now E \<Longrightarrow> deadLetterWorkflow E di db = Inr db' \<Longrightarrow>
    store_step (t, db) (now E, db')"
| step_complete: "t \<le> now E \<Longrightarrow> dbNow E = now E \<Longrightarrow> complete E f st e db = Inr db' \<Longrightarrow>
    store_step (t, db) (now E, db')"

definition reachable_store :: "millis \<times> workflow_db \<Rightarrow> bool" where
  "reachable_store s \<longleftrightarrow> (\<exists>t. store_step\<^sup>*\<^sup>* (t, no_tables) s)"

definition lease_token :: "'z workflow_db_scheme \<Rightarrow> uuid \<Rightarrow> int" where
  "lease_token db i = (case lookup_by leInstanceId i (instance_leases db) of None \<Rightarrow> 0 | Some l \<Rightarrow> leFencingToken l)"

definition settled :: "workflow_row \<Rightarrow> bool" where
  "settled r \<longleftrightarrow> wfStatus r \<in> {''succeeded'', ''failed'', ''manual_review''}"

text \<open>Every step changes workflows and leases in one of four ways.\<close>

lemma store_step_cases:
  assumes "store_step (t, db) (t', db')"
  obtains "t \<le> t'" "workflows db' = workflows db" "instance_leases db' = instance_leases db"
  | c d where "t \<le> t'" "admits c d (workflows db) (workflows db')" "instance_leases db' = instance_leases db"
  | E worker s action w token leases where "t \<le> t'" "now E = t'" "dbNow E = t'" "w \<in> set (workflows db)"
      "is_ready E worker action db w"
      "takeLease E worker s (wfInstanceId w) (instance_leases db) = Some (token, leases)"
      "instance_leases db' = leases"
      "workflows db' = update_where (\<lambda>r. wfOperationId r = wfOperationId w) (claimed_row E token) (workflows db)"
  | E f change where "t \<le> t'" "now E = t'" "fenced_write E f change db db'"
      "\<And>r. wfOperationId (change r) = wfOperationId r \<and> wfFencingToken (change r) = wfFencingToken r \<and>
        wfInstanceId (change r) = wfInstanceId r"
  using assms
proof (cases rule: store_step.cases)
  case (step_admit E c d a)
  then show ?thesis using admitCommand_effect that(2) by metis
next
  case (step_replay E r d b)
  then show ?thesis using admitReplayRequest_effect that(1) by metis
next
  case (step_quarantine E d h c m q)
  then show ?thesis using quarantineRecord_effect that(1) by metis
next
  case (step_dead_letter E e d n c m ra q)
  then show ?thesis using deadLetterCommand_effect that(1) by metis
next
  case (step_claim E worker s action cw)
  then show ?thesis by (elim claimNext_effect) (rule that(3) [of E], auto)
next
  case (step_checkpoint E ci)
  then show ?thesis using checkpoint_effect
    by (intro that(4) [of E "ciFence ci" "checkpointed E ci"]) (auto simp: checkpointed_def)
next
  case (step_exhausted E di)
  then show ?thesis using deadLetterWorkflow_effect
    by (intro that(4) [of E "dwFence di" "dead_lettered_row E di"]) (auto simp: dead_lettered_row_def)
next
  case (step_complete E f st e)
  then show ?thesis using complete_effect
    by (intro that(4) [of E f "completed_row E st e"]) (auto simp: completed_row_def)
qed

subsection \<open>The contract of a fenced store\<close>

text \<open>
  A store hands out increasing tokens per key; a write is admitted only to the holder of the
  current token. A holder whose token was superseded is then locked out for good, and two holders
  of the same key are the same worker with the same token.
\<close>

locale fenced_store =
  fixes step :: "'s \<Rightarrow> 's \<Rightarrow> bool"
    and current_token :: "'s \<Rightarrow> 'k \<Rightarrow> int"
    and may_write :: "'s \<Rightarrow> 'k \<Rightarrow> 'w \<Rightarrow> int \<Rightarrow> bool"
  assumes token_monotone: "step s s' \<Longrightarrow> current_token s k \<le> current_token s' k"
    and writer_has_token: "may_write s k w token \<Longrightarrow> token = current_token s k"
    and writer_unique: "may_write s k w token \<Longrightarrow> may_write s k w' token' \<Longrightarrow> w = w'"
begin

lemma tokens_never_decrease: "step\<^sup>*\<^sup>* s s' \<Longrightarrow> current_token s k \<le> current_token s' k"
  by (induction rule: rtranclp_induct) (auto dest: token_monotone [where k = k])

lemma superseded_never_writes:
  "token < current_token s k \<Longrightarrow> step\<^sup>*\<^sup>* s s' \<Longrightarrow> \<not> may_write s' k w token"
  using tokens_never_decrease [of s s' k] writer_has_token [of s' k w token] by auto

lemma one_writer:
  "may_write s k w token \<Longrightarrow> may_write s k w' token' \<Longrightarrow> w = w' \<and> token = token'"
  using writer_has_token writer_unique by metis

end

lemma takeLease_lookup:
  assumes "takeLease E worker s i leases = Some (token, leases')"
  shows "lookup_by leInstanceId j leases' =
      (if j = i then Some \<lparr>leInstanceId = i, leOwnerId = worker, leFencingToken = token,
         leLeasedUntil = dbNow E + s * 1000, leUpdatedAt = dbNow E\<rparr>
       else lookup_by leInstanceId j leases)"
    and "token = (case lookup_by leInstanceId i leases of None \<Rightarrow> 0 | Some l \<Rightarrow> leFencingToken l) + 1"
    and "lease_available E worker (lookup_by leInstanceId i leases)"
proof -
  have "lookup_by leInstanceId j leases' = (if j = i then Some \<lparr>leInstanceId = i, leOwnerId = worker,
      leFencingToken = token, leLeasedUntil = dbNow E + s * 1000, leUpdatedAt = dbNow E\<rparr>
      else lookup_by leInstanceId j leases)"
  proof (cases "lookup_by leInstanceId i leases")
    case None
    then show ?thesis using assms
      by (auto simp: takeLease_def Let_def lookup_by_append split: option.splits)
  next
    case (Some l)
    have "leInstanceId l = i" using lookup_by_SomeD [OF Some] by simp
    then show ?thesis using assms Some
      by (cases "j = i")
        (auto simp: takeLease_def Let_def lookup_by_update_same lookup_by_update_other split: if_splits)
  qed
  then show "lookup_by leInstanceId j leases' = (if j = i then Some \<lparr>leInstanceId = i,
      leOwnerId = worker, leFencingToken = token, leLeasedUntil = dbNow E + s * 1000,
      leUpdatedAt = dbNow E\<rparr> else lookup_by leInstanceId j leases)" .
  show "token = (case lookup_by leInstanceId i leases of None \<Rightarrow> 0 | Some l \<Rightarrow> leFencingToken l) + 1"
    "lease_available E worker (lookup_by leInstanceId i leases)"
    using assms by (auto simp: takeLease_def Let_def lease_available_def split: option.splits if_splits)
qed

lemma releaseLease_lookup:
  "lookup_by leInstanceId j (instance_leases (releaseLease E i f db)) =
     map_option (\<lambda>l. if leInstanceId l = i \<and> leOwnerId l = fnWorkerId f \<and> leFencingToken l = fnFencingToken f
       then l\<lparr>leLeasedUntil := now E, leUpdatedAt := now E\<rparr> else l)
     (lookup_by leInstanceId j (instance_leases db))"
  by (simp add: releaseLease_def lookup_by_update_where)

lemma lease_token_release [simp]: "lease_token (releaseLease E i f db) j = lease_token db j"
  unfolding lease_token_def releaseLease_lookup by (simp split: option.split)

lemma lease_token_cong:
  "instance_leases db' = instance_leases db \<Longrightarrow> lease_token db' = lease_token db"
  by (simp add: lease_token_def fun_eq_iff)

lemma takeLease_lease_token:
  assumes "takeLease E worker s i (instance_leases db) = Some (token, instance_leases db')"
  shows "lease_token db' j = (if j = i then lease_token db i + 1 else lease_token db j)" "token = lease_token db i + 1"
  using takeLease_lookup [OF assms] by (auto simp: lease_token_def)

lemma store_step_token: "store_step (t, db) (t', db') \<Longrightarrow> lease_token db i \<le> lease_token db' i"
proof (erule store_step_cases)
  fix E worker s action w token leases
  assume "takeLease E worker s (wfInstanceId w) (instance_leases db) = Some (token, leases)"
    "instance_leases db' = leases"
  then show ?thesis using takeLease_lease_token(1) [of E worker s "wfInstanceId w" db token db' i] by simp
next
  fix E f change
  assume "fenced_write E f change db db'"
  then obtain w :: workflow_row where "instance_leases db' = instance_leases (releaseLease E (wfInstanceId w) f db)"
    unfolding fenced_write_def by blast
  then show ?thesis using lease_token_cong lease_token_release by (metis order_refl)
qed (drule lease_token_cong, simp)+

text \<open>The write permission of a worker on an instance, as \<^verbatim>\<open>assertLease\<close> checks it on the lease row.\<close>

definition lease_holder :: "millis \<times> workflow_db \<Rightarrow> uuid \<Rightarrow> string \<Rightarrow> int \<Rightarrow> bool" where
  "lease_holder s i worker token \<longleftrightarrow>
     (\<exists>l. lookup_by leInstanceId i (instance_leases (snd s)) = Some l \<and>
        leOwnerId l = worker \<and> leFencingToken l = token)"

interpretation workflow_fencing: fenced_store store_step "\<lambda>s. lease_token (snd s)" lease_holder
proof
  fix s s' :: "millis \<times> workflow_db" and k
  assume "store_step s s'"
  then show "lease_token (snd s) k \<le> lease_token (snd s') k"
    using store_step_token by (metis prod.collapse)
qed (auto simp: lease_holder_def lease_token_def)

lemma fenced_write_holder:
  assumes "assertLease E f db = Inr w"
  shows "lease_holder (t, db) (wfInstanceId w) (fnWorkerId f) (fnFencingToken f)"
  using assms by (elim assertLease_Inr) (auto simp: lease_holder_def)

subsection \<open>Invariant of the reachable stores\<close>

definition store_inv :: "millis \<Rightarrow> workflow_db \<Rightarrow> bool" where
  "store_inv t db \<longleftrightarrow>
     unique_keys wfOperationId (workflows db) \<and>
     (\<forall>r \<in> set (workflows db). wfFencingToken r \<le> lease_token db (wfInstanceId r)) \<and>
     (\<forall>i. 0 \<le> lease_token db i) \<and>
     (\<forall>r \<in> set (workflows db). settled r \<longrightarrow>
        (\<forall>l. lookup_by leInstanceId (wfInstanceId r) (instance_leases db) = Some l \<longrightarrow>
           leFencingToken l = wfFencingToken r \<longrightarrow> leLeasedUntil l \<le> t))"

lemma store_inv_empty: "store_inv t no_tables"
  by (simp add: store_inv_def no_tables_def unique_keys_def lease_token_def)

lemma store_inv_admits:
  assumes inv: "store_inv t db" and "t \<le> t'" and adm: "admits c d (workflows db) (workflows db')"
    and leases: "instance_leases db' = instance_leases db"
  shows "store_inv t' db'"
proof -
  note tok = lease_token_cong [OF leases]
  have later: "store_inv t' db" using inv \<open>t \<le> t'\<close> by (force simp: store_inv_def)
  from adm consider "workflows db' = workflows db"
    | action resource u where "lookup_by wfOperationId (operationId c) (workflows db) = None"
        "workflows db' = workflows db @ [new_workflow c action d resource u]"
    | u where "workflows db' = update_where (\<lambda>r. wfOperationId r = operationId c) (reopened c d u) (workflows db)"
    unfolding admits_def by blast
  then show ?thesis
  proof cases
    case 1
    then show ?thesis using later leases tok by (simp add: store_inv_def)
  next
    case 2
    then show ?thesis using later leases tok
      by (auto simp: store_inv_def unique_keys_insert new_workflow_def settled_def)
  next
    case 3
    have "\<not> settled (reopened c d u r)" "wfFencingToken (reopened c d u r) = wfFencingToken r"
        "wfInstanceId (reopened c d u r) = wfInstanceId r" "wfOperationId (reopened c d u r) = wfOperationId r" for r
      by (simp_all add: reopened_def settled_def)
    then show ?thesis using later leases tok 3
      by (auto simp: store_inv_def unique_keys_update_where set_update_where)
  qed
qed

lemma store_inv_claim:
  assumes inv: "store_inv t db" and "t \<le> t'"
    and lease: "takeLease E worker s (wfInstanceId w) (instance_leases db) = Some (token, instance_leases db')"
    and w: "w \<in> set (workflows db)"
    and rows: "workflows db' =
      update_where (\<lambda>r. wfOperationId r = wfOperationId w) (claimed_row E token) (workflows db)"
  shows "store_inv t' db'"
proof -
  let ?i = "wfInstanceId w"
  note tok = takeLease_lease_token [OF lease]
  have uniq: "unique_keys wfOperationId (workflows db)" using inv by (simp add: store_inv_def)
  have same_row: "r = w" if "r \<in> set (workflows db)" "wfOperationId r = wfOperationId w" for r
    using lookup_by_unique [OF uniq that(1)] lookup_by_unique [OF uniq w] that(2) by (metis option.inject)
  have old: "wfFencingToken r \<le> lease_token db (wfInstanceId r)" if "r \<in> set (workflows db)" for r
    using inv that by (simp add: store_inv_def)
  have row: "wfFencingToken r' \<le> lease_token db' (wfInstanceId r') \<and>
      (settled r' \<longrightarrow> (\<forall>l. lookup_by leInstanceId (wfInstanceId r') (instance_leases db') = Some l \<longrightarrow>
         leFencingToken l = wfFencingToken r' \<longrightarrow> leLeasedUntil l \<le> t'))"
    if "r' \<in> set (workflows db')" for r'
  proof -
    from that rows obtain r where r: "r \<in> set (workflows db)"
      "r' = (if wfOperationId r = wfOperationId w then claimed_row E token r else r)"
      by (auto simp: set_update_where)
    show ?thesis
    proof (cases "wfOperationId r = wfOperationId w")
      case True
      with same_row r have "r' = claimed_row E token w" by auto
      then show ?thesis using tok by (simp add: settled_def)
    next
      case False
      with r have r': "r' = r" by simp
      have bound: "wfFencingToken r \<le> lease_token db' (wfInstanceId r)"
        using old [OF r(1)] tok(1) [of "wfInstanceId r"] by auto
      have "leLeasedUntil l \<le> t'" if "settled r"
        "lookup_by leInstanceId (wfInstanceId r) (instance_leases db') = Some l"
        "leFencingToken l = wfFencingToken r" for l
      proof (cases "wfInstanceId r = ?i")
        case True
        then have "leFencingToken l = lease_token db ?i + 1"
          using that(2) takeLease_lookup(1) [OF lease, of ?i] tok(2) by auto
        then show ?thesis using old [OF r(1)] that(3) True by simp
      next
        case False
        then have "lookup_by leInstanceId (wfInstanceId r) (instance_leases db) = Some l"
          using that(2) takeLease_lookup(1) [OF lease, of "wfInstanceId r"] by simp
        then show ?thesis using inv r(1) that \<open>t \<le> t'\<close> unfolding store_inv_def by fastforce
      qed
      then show ?thesis using bound r' by blast
    qed
  qed
  have "0 \<le> lease_token db' i" for i using inv tok(1) [of i] by (auto simp: store_inv_def)
  moreover have "unique_keys wfOperationId (workflows db')"
    using uniq rows by (simp add: unique_keys_update_where)
  ultimately show ?thesis unfolding store_inv_def using row by blast
qed

lemma store_inv_fenced:
  assumes inv: "store_inv t db" and "t \<le> now E" and wr: "fenced_write E f change db db'"
    and keeps: "\<And>r. wfOperationId (change r) = wfOperationId r \<and> wfFencingToken (change r) = wfFencingToken r \<and>
        wfInstanceId (change r) = wfInstanceId r"
  shows "store_inv (now E) db'"
proof -
  from wr obtain w :: workflow_row where w: "assertLease E f db = Inr w"
    and rows: "workflows db' = update_where (\<lambda>r. wfOperationId r = fnOperationId f \<and>
      wfFencingToken r = fnFencingToken f) change (workflows db)"
    and leases: "instance_leases db' = instance_leases (releaseLease E (wfInstanceId w) f db)"
    unfolding fenced_write_def by blast
  have uniq: "unique_keys wfOperationId (workflows db)" using inv by (simp add: store_inv_def)
  obtain l where l: "lookup_by wfOperationId (fnOperationId f) (workflows db) = Some w"
    "lookup_by leInstanceId (wfInstanceId w) (instance_leases db) = Some l"
    "leOwnerId l = fnWorkerId f" "leFencingToken l = fnFencingToken f"
    using assertLease_Inr [OF w] by metis
  have tok: "lease_token db' = lease_token db"
    using lease_token_cong [OF leases] by (simp add: fun_eq_iff)
  have lookup': "lookup_by leInstanceId j (instance_leases db') =
      map_option (\<lambda>l. if leInstanceId l = wfInstanceId w \<and> leOwnerId l = fnWorkerId f \<and>
        leFencingToken l = fnFencingToken f then l\<lparr>leLeasedUntil := now E, leUpdatedAt := now E\<rparr> else l)
      (lookup_by leInstanceId j (instance_leases db))" for j
    by (simp only: leases releaseLease_lookup)
  have released: "leLeasedUntil l' \<le> now E" if "lookup_by leInstanceId (wfInstanceId w) (instance_leases db') = Some l'" for l'
    using that l lookup_by_SomeD [OF l(2)] by (auto simp: lookup')
  have row: "wfFencingToken r' \<le> lease_token db' (wfInstanceId r') \<and>
      (settled r' \<longrightarrow> (\<forall>l. lookup_by leInstanceId (wfInstanceId r') (instance_leases db') = Some l \<longrightarrow>
         leFencingToken l = wfFencingToken r' \<longrightarrow> leLeasedUntil l \<le> now E))"
    if "r' \<in> set (workflows db')" for r'
  proof -
    from that rows obtain r where r: "r \<in> set (workflows db)"
      "r' = (if wfOperationId r = fnOperationId f \<and> wfFencingToken r = fnFencingToken f then change r else r)"
      by (auto simp: set_update_where)
    have same: "wfFencingToken r' = wfFencingToken r" "wfInstanceId r' = wfInstanceId r"
      using r(2) keeps by auto
    have "leLeasedUntil l' \<le> now E" if "settled r'" and l': "lookup_by leInstanceId (wfInstanceId r) (instance_leases db') = Some l'"
      "leFencingToken l' = wfFencingToken r" for l'
    proof (cases "wfInstanceId r = wfInstanceId w")
      case True
      with released l'(1) show ?thesis by simp
    next
      case other: False
      have "wfOperationId r \<noteq> fnOperationId f"
        using l(1) other lookup_by_unique [OF uniq r(1)] by auto
      then have "r' = r" using r(2) by simp
      have "lookup_by leInstanceId (wfInstanceId r) (instance_leases db) = Some l'"
        using l'(1) other by (auto simp: lookup' dest!: lookup_by_SomeD split: if_splits)
      then show ?thesis using inv r(1) \<open>settled r'\<close> \<open>r' = r\<close> l'(2) \<open>t \<le> now E\<close>
        unfolding store_inv_def by fastforce
    qed
    then show ?thesis using inv r(1) same tok unfolding store_inv_def by auto
  qed
  moreover have "unique_keys wfOperationId (workflows db')"
    using uniq rows keeps by (simp add: unique_keys_update_where)
  ultimately show ?thesis using inv tok unfolding store_inv_def by auto
qed

lemma store_inv_step: "store_step (t, db) (t', db') \<Longrightarrow> store_inv t db \<Longrightarrow> store_inv t' db'"
proof (erule store_step_cases)
  assume "store_inv t db" "t \<le> t'" "workflows db' = workflows db" "instance_leases db' = instance_leases db"
  then show ?thesis using store_inv_admits [of t db t' undefined undefined db'] by (simp add: admits_def)
next
  fix c d
  assume "store_inv t db" "t \<le> t'" "admits c d (workflows db) (workflows db')" "instance_leases db' = instance_leases db"
  then show ?thesis by (rule store_inv_admits)
next
  fix E worker s action w token leases
  assume a: "store_inv t db" "t \<le> t'" "w \<in> set (workflows db)"
    "takeLease E worker s (wfInstanceId w) (instance_leases db) = Some (token, leases)"
    "instance_leases db' = leases"
    "workflows db' = update_where (\<lambda>r. wfOperationId r = wfOperationId w) (claimed_row E token) (workflows db)"
  show ?thesis using store_inv_claim [OF a(1,2) _ a(3,6)] a(4,5) by simp
next
  fix E f change
  assume a: "store_inv t db" "t \<le> t'" "now E = t'" "fenced_write E f change db db'"
    "\<And>r. wfOperationId (change r) = wfOperationId r \<and> wfFencingToken (change r) = wfFencingToken r \<and>
        wfInstanceId (change r) = wfInstanceId r"
  have "t \<le> now E" using a(2,3) by simp
  from store_inv_fenced [OF a(1) this a(4,5)] show ?thesis unfolding a(3) .
qed

lemma store_inv_steps: "store_step\<^sup>*\<^sup>* s s' \<Longrightarrow> store_inv (fst s) (snd s) \<Longrightarrow> store_inv (fst s') (snd s')"
  by (induction rule: rtranclp_induct) (auto dest: store_inv_step)

lemma store_inv_reachable: "reachable_store s \<Longrightarrow> store_inv (fst s) (snd s)"
  using store_inv_steps store_inv_empty by (fastforce simp: reachable_store_def)

subsection \<open>Properties of the store\<close>

lemma assertLease_superseded:
  assumes "lookup_by wfOperationId (fnOperationId f) (workflows db) = Some w"
    and "fnFencingToken f < lease_token db (wfInstanceId w)"
  shows "\<exists>e. assertLease E f db = Inl e"
  using assms by (auto simp: assertLease_def lease_token_def split: option.splits)

lemma fenced_methods_Inl:
  assumes "assertLease E f db = Inl e"
  shows "ciFence i = f \<Longrightarrow> checkpoint E i db = Inl e"
    and "dwFence j = f \<Longrightarrow> deadLetterWorkflow E j db = Inl e"
    and "complete E f st ev db = Inl e"
  using assms by (auto simp: checkpoint_def deadLetterWorkflow_def complete_def)

lemma settled_row_step:
  assumes "store_step (t, db) (t', db')" and inv: "store_inv t db"
    and w: "lookup_by wfOperationId op (workflows db) = Some w"
    and st: "wfStatus w \<in> {''succeeded'', ''manual_review''}"
  shows "lookup_by wfOperationId op (workflows db') = Some w"
  using assms(1)
proof (cases rule: store_step_cases)
  case 1
  then show ?thesis using w by simp
next
  case (2 c d)
  then consider "workflows db' = workflows db"
    | row where "workflows db' = workflows db @ [row]"
    | w' u where "lookup_by wfOperationId (operationId c) (workflows db) = Some w'" "wfStatus w' = ''failed''"
        "workflows db' = update_where (\<lambda>r. wfOperationId r = operationId c) (reopened c d u) (workflows db)"
    unfolding admits_def by blast
  then show ?thesis
  proof cases
    case 3
    then have "op \<noteq> operationId c" using w st by auto
    then show ?thesis using 3 w by (simp add: reopened_def lookup_by_update_other)
  qed (use w in \<open>auto simp: lookup_by_append\<close>)
next
  case (3 E worker s action w' token leases)
  have "wfOperationId w' \<noteq> op"
  proof
    assume "wfOperationId w' = op"
    then have "w' = w" using lookup_by_unique [of wfOperationId "workflows db" w'] inv 3(4) w
      by (simp add: store_inv_def)
    then show False using 3(5) st by (auto simp: is_ready_def)
  qed
  then show ?thesis using 3(8) w by (simp add: lookup_by_update_other)
next
  case (4 E f change)
  from 4(3) obtain w' :: workflow_row where w': "assertLease E f db = Inr w'"
    and rows: "workflows db' = update_where (\<lambda>r. wfOperationId r = fnOperationId f \<and>
      wfFencingToken r = fnFencingToken f) change (workflows db)"
    unfolding fenced_write_def by blast
  have "\<not> (wfOperationId w = fnOperationId f \<and> wfFencingToken w = fnFencingToken f)"
  proof
    assume hit: "wfOperationId w = fnOperationId f \<and> wfFencingToken w = fnFencingToken f"
    obtain l where l: "lookup_by wfOperationId (fnOperationId f) (workflows db) = Some w'"
      "lookup_by leInstanceId (wfInstanceId w') (instance_leases db) = Some l"
      "leFencingToken l = fnFencingToken f" "now E < leLeasedUntil l"
      using assertLease_Inr [OF w'] by metis
    have "w' = w" using l(1) w hit lookup_by_SomeD [OF w] by auto
    then have "leLeasedUntil l \<le> t"
      using inv l hit st lookup_by_SomeD [OF w] by (auto simp: store_inv_def settled_def)
    then show False using l(4) 4(1,2) by simp
  qed
  then show ?thesis using w rows 4(4) by (auto simp: lookup_by_update_where)
qed

text \<open>
  C26. Fencing: once a token of an instance has been superseded, no later state of the store
  accepts a write that presents it: checkpoint, completion and retry exhaustion of any workflow
  of that instance are refused, so the tables are left as they are.
\<close>

theorem superseded_token_never_writes:
  assumes "store_step\<^sup>*\<^sup>* (t, db) (t', db')"
    and "lookup_by wfOperationId (fnOperationId f) (workflows db') = Some w"
    and "fnFencingToken f < lease_token db (wfInstanceId w)"
  shows "\<exists>e. checkpoint E (ci\<lparr>ciFence := f\<rparr>) db' = Inl e \<and>
    deadLetterWorkflow E (di\<lparr>dwFence := f\<rparr>) db' = Inl e \<and> complete E f st ev db' = Inl e"
proof -
  have "lease_token db (wfInstanceId w) \<le> lease_token db' (wfInstanceId w)"
    using workflow_fencing.tokens_never_decrease [OF assms(1)] by simp
  then obtain e where "assertLease E f db' = Inl e"
    using assertLease_superseded [OF assms(2)] assms(3) by fastforce
  then show ?thesis using fenced_methods_Inl by fastforce
qed

theorem superseded_token_never_writes_witness:
  "\<exists>e. complete (sample_env_at 60 3000) (sample_fence\<lparr>fnFencingToken := 0\<rparr>) Succeeded sample_completed
     sample_claimed = Inl e"
proof -
  let ?f = "sample_fence\<lparr>fnFencingToken := 0\<rparr>"
  obtain w where w: "lookup_by wfOperationId (fnOperationId ?f) (workflows sample_claimed) = Some w"
    "wfInstanceId w = sample_instance"
    by (auto simp: sample_claimed_tables sample_fence_def new_workflow_def)
  have "fnFencingToken ?f < lease_token sample_claimed (wfInstanceId w)"
    using w(2) by (simp add: lease_token_def sample_claimed_tables)
  from superseded_token_never_writes [OF rtranclp.rtrancl_refl w(1) this] show ?thesis by blast
qed

text \<open>
  C27. Exactly-once settlement: in every history of the store, a workflow that ended as succeeded
  or in manual review keeps its row unchanged, whatever workers, redeliveries or replays do next.
\<close>

theorem settled_workflow_is_final:
  assumes "reachable_store s" and "store_step\<^sup>*\<^sup>* s s'"
    and "lookup_by wfOperationId op (workflows (snd s)) = Some w"
    and "wfStatus w \<in> {''succeeded'', ''manual_review''}"
  shows "lookup_by wfOperationId op (workflows (snd s')) = Some w"
  using assms(2)
proof (induction rule: rtranclp_induct)
  case base
  show ?case by (rule assms(3))
next
  case (step s1 s2)
  obtain t1 db1 t2 db2 where s: "s1 = (t1, db1)" "s2 = (t2, db2)" by (metis surj_pair)
  have inv: "store_inv t1 db1"
    using store_inv_steps [OF step.hyps(1)] store_inv_reachable [OF assms(1)] s by simp
  have w: "lookup_by wfOperationId op (workflows db1) = Some w" using step.IH s by simp
  show ?case using settled_row_step [OF _ inv w assms(4)] step.hyps(2) s by simp
qed

lemma sample_history:
  "store_step (0, no_tables) (1000, sample_admitted)"
  "store_step (1000, sample_admitted) (2000, sample_claimed)"
  "store_step (2000, sample_claimed) (3000, sample_completed_db)"
proof -
  have t: "now (sample_env_at k t) = t" "dbNow (sample_env_at k t) = t" for k t
    by (simp_all add: sample_env_at_def)
  show "store_step (0, no_tables) (1000, sample_admitted)"
    using step_admit [OF _ _ sample_admits, of 0] by (simp add: t)
  obtain cw where "claimNext (sample_env_at 50 2000) ''worker-a'' 30 CreateInstance sample_admitted =
      Inr (Some cw, sample_claimed)" using sample_claims by blast
  then show "store_step (1000, sample_admitted) (2000, sample_claimed)"
    using step_claim [of 1000 "sample_env_at 50 2000"] by (simp add: t)
  show "store_step (2000, sample_claimed) (3000, sample_completed_db)"
    using step_complete [OF _ _ sample_completes, of 2000] by (simp add: t)
qed

lemma sample_reachable: "reachable_store (1000, sample_admitted)" "reachable_store (3000, sample_completed_db)"
proof -
  note one = r_into_rtranclp [of store_step, OF sample_history(1)]
  note three = rtranclp.rtrancl_into_rtrancl [OF rtranclp.rtrancl_into_rtrancl [OF one sample_history(2)]
    sample_history(3)]
  show "reachable_store (1000, sample_admitted)" "reachable_store (3000, sample_completed_db)"
    unfolding reachable_store_def using one three by blast+
qed

lemma sample_completed_row:
  "\<exists>w. lookup_by wfOperationId sample_operation (workflows sample_completed_db) = Some w \<and> wfStatus w = ''succeeded''"
proof -
  have "workflows sample_completed_db = update_where (\<lambda>r. wfOperationId r = fnOperationId sample_fence \<and>
      wfFencingToken r = fnFencingToken sample_fence) (completed_row (sample_env_at 60 3000) Succeeded sample_completed)
      (workflows sample_claimed)"
    using complete_effect [OF sample_completes] by (auto simp: fenced_write_def)
  then show ?thesis
    by (simp add: sample_claimed_tables sample_fence_def new_workflow_def completed_row_def)
qed

theorem settled_workflow_is_final_witness:
  "\<exists>w. lookup_by wfOperationId sample_operation (workflows (snd (3000 :: millis, sample_completed_db))) = Some w \<and>
     wfStatus w = ''succeeded''"
proof -
  obtain w where w: "lookup_by wfOperationId sample_operation (workflows (snd (3000 :: millis, sample_completed_db))) = Some w"
      "wfStatus w = ''succeeded''"
    using sample_completed_row by auto
  from settled_workflow_is_final [OF sample_reachable(2) rtranclp.rtrancl_refl w(1)] w(2) show ?thesis by blast
qed

subsection \<open>The inbox\<close>

text \<open>
  The contract of an inbox: what it has seen under a key it has seen for good, with the same
  content.
\<close>

locale inbox =
  fixes step :: "'s \<Rightarrow> 's \<Rightarrow> bool" and seen :: "'s \<Rightarrow> 'k \<Rightarrow> 'h option"
  assumes seen_step: "step s s' \<Longrightarrow> seen s k = Some h \<Longrightarrow> seen s' k = Some h"
begin

lemma seen_forever: "step\<^sup>*\<^sup>* s s' \<Longrightarrow> seen s k = Some h \<Longrightarrow> seen s' k = Some h"
  by (induction rule: rtranclp_induct) (auto dest: seen_step)

end

lemma store_step_grows:
  assumes "store_step (t, db) (t', db')"
  shows "\<exists>ops ids. map wfOperationId (workflows db') = map wfOperationId (workflows db) @ ops \<and>
    map receipt_identity (command_receipts db') = map receipt_identity (command_receipts db) @ ids"
proof -
  have admitted: "\<exists>ops. map wfOperationId rows' = map wfOperationId rows @ ops" if "admits c d rows rows'" for c d rows rows'
    using that by (auto simp: admits_def map_update_where_key reopened_def)
  have fenced: ?thesis if "fenced_write E f change db db'" "\<And>r. wfOperationId (change r) = wfOperationId r" for E f change
    using that by (auto simp: fenced_write_def map_update_where_key)
  from assms show ?thesis
  proof (cases rule: store_step.cases)
    case (step_admit E c d a)
    then show ?thesis using admitCommand_effect [OF step_admit(4)] admitted by fastforce
  next
    case (step_replay E r d b)
    then show ?thesis using admitReplayRequest_effect [OF step_replay(4)] by auto
  next
    case (step_quarantine E d h c m q)
    then show ?thesis using quarantineRecord_effect [OF step_quarantine(4)] by auto
  next
    case (step_dead_letter E e d n c m ra q)
    then show ?thesis using deadLetterCommand_effect [OF step_dead_letter(4)] by auto
  next
    case (step_claim E worker s action cw)
    then show ?thesis by (elim claimNext_effect) (simp add: map_update_where_key)
  next
    case (step_checkpoint E ci)
    then show ?thesis using fenced [OF checkpoint_effect [OF step_checkpoint(4)]] by (simp add: checkpointed_def)
  next
    case (step_exhausted E di)
    then show ?thesis using fenced [OF deadLetterWorkflow_effect [OF step_exhausted(4)]] by (simp add: dead_lettered_row_def)
  next
    case (step_complete E f st e)
    then show ?thesis using fenced [OF complete_effect [OF step_complete(4)]] by (simp add: completed_row_def)
  qed
qed

definition receipt_hash :: "'z workflow_db_scheme \<Rightarrow> string \<times> uuid \<times> int \<Rightarrow> string option" where
  "receipt_hash db k = map_option rcPayloadHash (lookup_by receipt_key k (command_receipts db))"

lemma receipt_hash_map_of: "receipt_hash db k = map_of (map receipt_identity (command_receipts db)) k"
proof -
  have "map_option rcPayloadHash (lookup_by receipt_key k rows) = map_of (map receipt_identity rows) k" for rows
    by (induction rows) (auto simp: receipt_identity_def)
  then show ?thesis by (simp add: receipt_hash_def)
qed

lemma receipt_hash_step:
  "store_step (t, db) (t', db') \<Longrightarrow> receipt_hash db k = Some h \<Longrightarrow> receipt_hash db' k = Some h"
  by (drule store_step_grows) (auto simp: receipt_hash_map_of map_add_Some_iff)

interpretation command_inbox: inbox store_step "\<lambda>s. receipt_hash (snd s)"
  by unfold_locales (metis prod.collapse receipt_hash_step)

interpretation workflow_registry_rows: inbox store_step
  "\<lambda>s op. if op \<in> set (map wfOperationId (workflows (snd s))) then Some () else None"
proof
  fix s s' :: "millis \<times> workflow_db" and k h
  assume "store_step s s'" "(if k \<in> set (map wfOperationId (workflows (snd s))) then Some () else None) = Some h"
  then show "(if k \<in> set (map wfOperationId (workflows (snd s'))) then Some () else None) = Some h"
    using store_step_grows [of "fst s" "snd s" "fst s'" "snd s'"] by (auto split: if_splits simp del: set_map)
qed

lemma insertCommandReceipt_seen:
  "receipt_hash db (CONSUMER_NAME, eventId e, replayGeneration d) = Some h \<Longrightarrow>
     insertCommandReceipt E e d c db = Inr (False, db)"
  by (force simp: receipt_hash_def insertCommandReceipt_def Let_def receipt_key_def
      dest!: lookup_by_SomeD)

lemma insertCommandReceipt_fresh:
  "insertCommandReceipt E e d c db = Inr (True, db') \<Longrightarrow>
     receipt_hash db' (CONSUMER_NAME, eventId e, replayGeneration d) = Some (hashJson E (message_json e))"
proof -
  have "lookup_by receipt_key k rows = None" if "k \<notin> receipt_key ` set rows" for k rows
    using that by (simp add: lookup_by_None_iff)
  then show "insertCommandReceipt E e d c db = Inr (True, db') \<Longrightarrow> ?thesis"
    by (auto simp: receipt_hash_def insertCommandReceipt_def Let_def lookup_by_append receipt_key_def
        split: if_splits)
qed

lemma receipt_hash_cong:
  "command_receipts db' = command_receipts db \<Longrightarrow> receipt_hash db' k = receipt_hash db k"
  by (simp add: receipt_hash_def)

lemma admitOriginal_accepted:
  assumes "admitOriginalDelivery E c d db = Inr (AdmissionAccepted, db')"
  shows "receipt_hash db' (CONSUMER_NAME, eventId c, replayGeneration d) = Some (hashJson E (message_json c)) \<and>
    operationId c \<in> set (map wfOperationId (workflows db'))"
  using assms unfolding admitOriginalDelivery_def
  by (auto simp: Let_def new_workflow_def receipt_hash_def [of "_\<lparr>workflows := _\<rparr>"]
      simp flip: receipt_hash_def dest!: insertWorkflow_Inr insertCommandReceipt_fresh split: if_splits)

lemma reopen_or_insert_op:
  assumes "reopen_or_insert E c d existing db = Inr db'" and "existing = lookup_by wfOperationId (operationId c) (workflows db)"
  shows "operationId c \<in> set (map wfOperationId (workflows db')) \<and> command_receipts db' = command_receipts db"
proof (cases existing)
  case None
  then show ?thesis using assms(1)
    by (auto simp: reopen_or_insert_def new_workflow_def dest!: insertWorkflow_Inr)
next
  case (Some w)
  then have "operationId c \<in> set (map wfOperationId (workflows db))"
    using assms(2) by (metis lookup_by_None_iff option.distinct(1))
  then show ?thesis using assms(1) Some
    by (auto simp: reopen_or_insert_def map_update_where_key reopened_def simp del: set_map)
qed

lemma admitReplay_accepted:
  assumes "admitAuthorizedReplayCommand E c d db = Inr (AdmissionAccepted, db')"
  obtains auth where "authorization_for c d db = Some auth"
    "is_authorized (hashJson E (message_json c)) d auth"
    "\<And>w. lookup_by wfOperationId (operationId c) (workflows db) = Some w \<Longrightarrow> \<not> not_reopenable c d w"
    "receipt_hash db' (CONSUMER_NAME, eventId c, replayGeneration d) = Some (hashJson E (message_json c))"
    "operationId c \<in> set (map wfOperationId (workflows db'))"
    "\<forall>r \<in> set (replay_requests db'). rrReplayRequestId r = rrReplayRequestId auth \<longrightarrow> rrStatus r \<noteq> ''authorized''"
proof -
  from assms obtain auth request db1 db2 where auth: "authorization_for c d db = Some auth"
      "is_authorized (hashJson E (message_json c)) d auth"
      "\<And>w. lookup_by wfOperationId (operationId c) (workflows db) = Some w \<Longrightarrow> \<not> not_reopenable c d w"
    and receipt: "insertCommandReceipt E c d None db = Inr (True, db1)"
    and reopen: "reopen_or_insert E c d (lookup_by wfOperationId (operationId c) (workflows db)) db1 = Inr db2"
    and res: "writeReplayResolution (uuidAt E 2) (uuidAt E 3) request (replay_ids (data request)) ''completed''
         (replayGeneration d) (now E) (consume_authority E c d auth db2) = Inr db'"
    unfolding admitAuthorizedReplayCommand_def Let_def
    by (auto split: option.splits if_splits dest!: rejectReplayCommand_frame)
  have db1: "workflows db1 = workflows db"
    using receipt by (auto simp: insertCommandReceipt_def Let_def split: if_splits)
  have op: "operationId c \<in> set (map wfOperationId (workflows db2))" "command_receipts db2 = command_receipts db1"
    using reopen_or_insert_op [OF reopen] db1 by auto
  note frame = writeReplayResolution_frame [OF res]
  have ca: "workflows (consume_authority E c d auth db2) = workflows db2"
      "command_receipts (consume_authority E c d auth db2) = command_receipts db1"
    using op(2) by (simp_all add: consume_authority_def)
  have "receipt_hash db' (CONSUMER_NAME, eventId c, replayGeneration d) = Some (hashJson E (message_json c))"
    using insertCommandReceipt_fresh [OF receipt] receipt_hash_cong [of db' db1] frame ca by simp
  moreover have "\<forall>r \<in> set (replay_requests db'). rrReplayRequestId r = rrReplayRequestId auth \<longrightarrow> rrStatus r \<noteq> ''authorized''"
    using frame by (auto simp: consume_authority_def set_update_where split: if_splits)
  moreover have "operationId c \<in> set (map wfOperationId (workflows db'))"
    using op frame ca by simp
  ultimately show thesis using that [OF auth] by simp
qed

text \<open>
  C28. Inbox: once a command has been admitted, every later delivery of it for the same replay
  generation, from any topic position and after any history of the store, is answered as a
  duplicate and changes nothing.
\<close>

theorem admitted_command_is_duplicate:
  assumes "admitCommand E c d db = Inr (AdmissionAccepted, db1)"
    and "store_step\<^sup>*\<^sup>* (t1, db1) (t2, db2)"
    and "replayGeneration d' = replayGeneration d"
    and "hashJson E' (message_json c) = hashJson E (message_json c)"
  shows "admitCommand E' c d' db2 = Inr (AdmissionDuplicate, db2)"
proof -
  have acc: "receipt_hash db1 (CONSUMER_NAME, eventId c, replayGeneration d') = Some (hashJson E (message_json c)) \<and>
      operationId c \<in> set (map wfOperationId (workflows db1))"
    using assms(1,3) admitOriginal_accepted [of E c d db db1]
    by (auto simp: admitCommand_def split: if_splits elim!: admitReplay_accepted simp del: set_map)
  then have seen: "receipt_hash db2 (CONSUMER_NAME, eventId c, replayGeneration d') = Some (hashJson E (message_json c))"
    using command_inbox.seen_forever [OF assms(2)] by simp
  have "operationId c \<in> set (map wfOperationId (workflows db2))"
    using workflow_registry_rows.seen_forever [OF assms(2), of "operationId c" "()"] acc
    by (simp split: if_splits)
  then have op: "lookup_by wfOperationId (operationId c) (workflows db2) \<noteq> None"
    by (simp add: lookup_by_None_iff)
  show ?thesis
  proof (cases "replayGeneration d' = 0")
    case True
    then show ?thesis using op insertCommandReceipt_seen [OF seen]
      by (simp add: admitCommand_def admitOriginalDelivery_def)
  next
    case False
    then show ?thesis using seen assms(4)
      by (auto simp: admitCommand_def admitAuthorizedReplayCommand_def receipt_hash_def)
  qed
qed

theorem admitted_command_is_duplicate_witness:
  "admitCommand (sample_env_at 80 9000) sample_command (sample_delivery\<lparr>offset := ''99''\<rparr>) sample_admitted =
     Inr (AdmissionDuplicate, sample_admitted)"
  by (rule admitted_command_is_duplicate [OF sample_admits rtranclp.rtrancl_refl])
    (simp_all add: sample_env_at_def sample_delivery_def)

text \<open>
  C29. Governed replay: a redelivered command changes an existing workflow only under a durable
  authorization for this very event, generation, content and outbox row, only when that workflow
  failed in the generation before, and the authorization is spent by the admission.
\<close>

theorem replay_needs_authority:
  assumes "admitCommand E c d db = Inr (a, db')"
    and "lookup_by wfOperationId (operationId c) (workflows db) = Some w"
    and "workflows db' \<noteq> workflows db"
  shows "\<exists>auth. auth \<in> set (replay_requests db) \<and> rrOriginalEventId auth = eventId c \<and>
    rrReplayGeneration auth = Some (wfReplayGeneration w + 1) \<and> rrStatus auth = ''authorized'' \<and>
    rrAuthorizedCommandHash auth = Some (hashJson E (message_json c)) \<and>
    rrAuthorizedOutboxId auth = outboxId d \<and> wfStatus w = ''failed'' \<and> wfEventId w = eventId c \<and>
    (\<forall>r \<in> set (replay_requests db'). rrReplayRequestId r = rrReplayRequestId auth \<longrightarrow> rrStatus r \<noteq> ''authorized'')"
proof -
  have gen: "replayGeneration d \<noteq> 0"
    using assms by (auto simp: admitCommand_def admitOriginalDelivery_def dest!: insertCommandReceipt_frame)
  then have run: "admitAuthorizedReplayCommand E c d db = Inr (a, db')"
    using assms(1) by (simp add: admitCommand_def)
  have "a = AdmissionAccepted"
    using run assms(3) unfolding admitAuthorizedReplayCommand_def Let_def
    by (auto split: option.splits if_splits dest!: rejectReplayCommand_frame insertCommandReceipt_stale)
  with run have "admitAuthorizedReplayCommand E c d db = Inr (AdmissionAccepted, db')" by simp
  from admitReplay_accepted [OF this] assms(2) obtain auth where auth: "authorization_for c d db = Some auth"
      "is_authorized (hashJson E (message_json c)) d auth" "\<not> not_reopenable c d w"
      "\<forall>r \<in> set (replay_requests db'). rrReplayRequestId r = rrReplayRequestId auth \<longrightarrow> rrStatus r \<noteq> ''authorized''"
    by metis
  then show ?thesis
    by (intro exI [of _ auth])
      (auto simp: authorization_for_def is_authorized_def not_reopenable_def find_Some_iff in_set_conv_nth)
qed

lemma sample_replay_request_valid: "isProvisioningReplayRequestedV1 (sample_env_at 90 5000) sample_replay_request"
  by code_simp

lemma sample_replay_admits:
  "\<exists>db'. admitCommand (sample_env_at 90 5000) sample_command sample_replay_delivery sample_replay_db =
     Inr (AdmissionAccepted, db') \<and> workflows db' \<noteq> workflows sample_replay_db"
  by (simp add: admitCommand_def admitAuthorizedReplayCommand_def sample_replay_db_def sample_replay_delivery_def
      sample_delivery_def no_tables_def authorization_for_def sample_authorization_def is_authorized_def
      storedReplayRequest_def sample_replay_request_valid not_reopenable_def sample_failed_row_def new_workflow_def
      insertCommandReceipt_def reopen_or_insert_def writeReplayResolution_def writeEvent_def writeWorkflowOutbox_def
      Let_def consume_authority_def reopened_def sample_env_at_def [of 90 5000, THEN arg_cong, of hashJson])

theorem replay_needs_authority_witness:
  "\<exists>auth. auth \<in> set (replay_requests sample_replay_db) \<and> rrStatus auth = ''authorized'' \<and>
     rrAuthorizedOutboxId auth = Some (sample_uuid 6)"
proof -
  obtain db' where run: "admitCommand (sample_env_at 90 5000) sample_command sample_replay_delivery sample_replay_db =
      Inr (AdmissionAccepted, db')" "workflows db' \<noteq> workflows sample_replay_db"
    using sample_replay_admits by blast
  have w: "lookup_by wfOperationId (operationId sample_command) (workflows sample_replay_db) = Some sample_failed_row"
    by (simp add: sample_replay_db_def sample_failed_row_def new_workflow_def)
  from replay_needs_authority [OF run(1) w run(2)] show ?thesis
    by (auto simp: sample_replay_delivery_def sample_delivery_def)
qed

text \<open>
  A claim is usable: the worker that claimed a workflow can write with the returned token
  until the lease it was given runs out, the token exceeds every earlier token of the instance,
  and the claimed workflow was due and of the requested action.
\<close>

theorem claim_grants_fenced_write:
  assumes "store_inv t db" and "claimNext E worker s action db = Inr (Some cw, db')"
    and "now E' < dbNow E + s * 1000"
  shows "\<exists>w. w \<in> set (workflows db) \<and> is_ready E worker action db w \<and> wfCommand w = cwCommand cw \<and>
    cwAction cw = action \<and> cwFencingToken cw = lease_token db (wfInstanceId w) + 1 \<and>
    (\<exists>w'. assertLease E' \<lparr>fnOperationId = wfOperationId w, fnWorkerId = worker,
       fnFencingToken = cwFencingToken cw\<rparr> db' = Inr w')"
  using assms(2)
proof (rule claimNext_effect)
  fix w token leases
  assume w: "w \<in> set (workflows db)" and ready: "is_ready E worker action db w"
    and lease: "takeLease E worker s (wfInstanceId w) (instance_leases db) = Some (token, leases)"
    and db': "db' = db\<lparr>instance_leases := leases,
       workflows := update_where (\<lambda>r. wfOperationId r = wfOperationId w) (claimed_row E token) (workflows db)\<rparr>"
    and "\<exists>w'. lookup_by wfOperationId (wfOperationId w) (workflows db) = Some w' \<and>
       cw = claim_of (claimed_row E token w') (cwAction cw) (wfCommand w') (cwStage cw) \<and>
       action_name (cwAction cw) = wfAction w' \<and> stage_name (cwStage cw) = wfStage w' \<and>
       COMMAND_VALIDATORS E (cwAction cw) (wfCommand w')"
  then obtain w' where w': "lookup_by wfOperationId (wfOperationId w) (workflows db) = Some w'"
      "cw = claim_of (claimed_row E token w') (cwAction cw) (wfCommand w') (cwStage cw)"
      "action_name (cwAction cw) = wfAction w'"
    by blast
  have lw: "lookup_by wfOperationId (wfOperationId w) (workflows db) = Some w"
    using lookup_by_unique [OF _ w, of wfOperationId] assms(1) by (simp add: store_inv_def)
  with w'(1) have "w' = w" by simp
  have fields: "cwFencingToken cw = token" "cwCommand cw = wfCommand w"
    by (subst w'(2), simp add: claim_of_def \<open>w' = w\<close>)+
  have "cwAction cw = action"
    using w'(3) ready \<open>w' = w\<close> by (simp add: is_ready_def)
  moreover have "token = lease_token db (wfInstanceId w) + 1"
    using takeLease_lookup(2) [OF lease] by (simp add: lease_token_def)
  moreover have "assertLease E' \<lparr>fnOperationId = wfOperationId w, fnWorkerId = worker, fnFencingToken = token\<rparr> db'
      = Inr (claimed_row E token w)"
    using takeLease_lookup(1) [OF lease, of "wfInstanceId w"] assms(3) lw
    by (simp add: assertLease_def db' lookup_by_update_same)
  ultimately show ?thesis using w ready fields by auto
qed

theorem claim_grants_fenced_write_witness:
  "\<exists>cw w'. cwFencingToken cw = 1 \<and>
     claimNext (sample_env_at 50 2000) ''worker-a'' 30 CreateInstance sample_admitted = Inr (Some cw, sample_claimed) \<and>
     assertLease (sample_env_at 60 3000) \<lparr>fnOperationId = sample_operation, fnWorkerId = ''worker-a'',
       fnFencingToken = 1\<rparr> sample_claimed = Inr w'"
proof -
  obtain cw where cw: "claimNext (sample_env_at 50 2000) ''worker-a'' 30 CreateInstance sample_admitted =
      Inr (Some cw, sample_claimed)" "cwFencingToken cw = 1"
    using sample_claims by blast
  have "store_inv 1000 sample_admitted" using store_inv_reachable [OF sample_reachable(1)] by simp
  from claim_grants_fenced_write [OF this cw(1), of "sample_env_at 60 3000"] cw show ?thesis
    by (auto simp: sample_env_at_def sample_admitted_tables new_workflow_def)
qed

end
