(* ===== verification/Workflow_Safety.thy ===== *)
theory Workflow_Safety
  imports Capabilities Workflow_Fencing
begin

section \<open>Safety of one workflow step\<close>

text \<open>
  What holds of every capability: a step makes at most one mutating provider call, and only in a
  mutation stage; it ends in at most one settling write under the claim's fence; a transport
  failure of a mutation is never retried. The shape of the computations is an inductive
  predicate; the contract of a capability is a locale, interpreted for all eight executors.
\<close>

subsection \<open>Shape of a step\<close>

text \<open>The writes that settle a step under the fence of the claim.\<close>

inductive settling :: "'p ctx \<Rightarrow> claimed_workflow \<Rightarrow> (workflow_db \<Rightarrow> store_error + workflow_db) \<Rightarrow> bool" where
  settling_checkpoint: "ciFence i = fence_of X w \<Longrightarrow> settling X w (checkpoint (cxEnv X) i)"
| settling_complete: "settling X w (complete (cxEnv X) (fence_of X w) st e)"
| settling_exhausted: "dwFence i = fence_of X w \<Longrightarrow> settling X w (deadLetterWorkflow (cxEnv X) i)"

fun call_context :: "mutation_call \<Rightarrow> call_context" where
  "call_context (SubmitCreateInstance c _ _ _ _) = c"
| "call_context (ApplyInstanceConfiguration r _) = irContext r"
| "call_context (StartInstance r) = irContext r"
| "call_context (ShutdownInstance r) = irContext r"
| "call_context (StopInstance r) = irContext r"
| "call_context (RebootInstance r) = irContext r"
| "call_context (ResizeInstanceCall r _) = irContext r"
| "call_context (CreateSnapshotCall r _ _ _) = irContext r"
| "call_context (RollbackSnapshotCall r _ _) = irContext r"
| "call_context (DeleteSnapshotCall r _ _) = irContext r"
| "call_context (MarkInstanceRetained r _) = irContext r"
| "call_context (PurgeInstanceCall r _ _) = irContext r"

fun call_markers :: "mutation_call \<Rightarrow> ownership_markers" where
  "call_markers (SubmitCreateInstance _ _ _ _ m) = m"
| "call_markers (ApplyInstanceConfiguration r _) = irOwnershipMarkers r"
| "call_markers (StartInstance r) = irOwnershipMarkers r"
| "call_markers (ShutdownInstance r) = irOwnershipMarkers r"
| "call_markers (StopInstance r) = irOwnershipMarkers r"
| "call_markers (RebootInstance r) = irOwnershipMarkers r"
| "call_markers (ResizeInstanceCall r _) = irOwnershipMarkers r"
| "call_markers (CreateSnapshotCall r _ _ _) = irOwnershipMarkers r"
| "call_markers (RollbackSnapshotCall r _ _) = irOwnershipMarkers r"
| "call_markers (DeleteSnapshotCall r _ _) = irOwnershipMarkers r"
| "call_markers (MarkInstanceRetained r _) = irOwnershipMarkers r"
| "call_markers (PurgeInstanceCall r _ _) = irOwnershipMarkers r"

text \<open>The step a mutation stage names in its request id: a function of the stage and the command.\<close>

definition mutation_step :: "capability \<Rightarrow> workflow_stage \<Rightarrow> event \<Rightarrow> string" where
  "mutation_step cap stage c =
     (case stage of
        SubmittingCreate \<Rightarrow> ''create''
      | Configuring \<Rightarrow> ''configure''
      | Starting \<Rightarrow> ''start''
      | SubmittingPower \<Rightarrow> ''power-'' @ js_string (requestedAction c)
      | SubmittingResize \<Rightarrow> ''resize''
      | SubmittingSnapshot \<Rightarrow> action_name (capAction cap)
      | SubmittingRetention \<Rightarrow> ''retain''
      | SubmittingPurge \<Rightarrow> ''purge''
      | _ \<Rightarrow> [])"

text \<open>The calls an action may make.\<close>

definition permitted_call :: "workflow_action \<Rightarrow> mutation_call \<Rightarrow> bool" where
  "permitted_call a call =
     (case call of
        SubmitCreateInstance _ _ _ _ _ \<Rightarrow> a = CreateInstance
      | ApplyInstanceConfiguration _ _ \<Rightarrow> a = CreateInstance
      | StartInstance _ \<Rightarrow> a = CreateInstance \<or> a = PowerInstance
      | ShutdownInstance _ \<Rightarrow> a = PowerInstance
      | StopInstance _ \<Rightarrow> a = PowerInstance
      | RebootInstance _ \<Rightarrow> a = PowerInstance
      | ResizeInstanceCall _ _ \<Rightarrow> a = ResizeInstance
      | CreateSnapshotCall _ _ _ _ \<Rightarrow> a = CreateSnapshot
      | RollbackSnapshotCall _ _ _ \<Rightarrow> a = RollbackSnapshot
      | DeleteSnapshotCall _ _ _ \<Rightarrow> a = DeleteSnapshot
      | MarkInstanceRetained _ _ \<Rightarrow> a = RetainInstance
      | PurgeInstanceCall _ _ _ \<Rightarrow> a = PurgeInstance)"

text \<open>
  A call made for this claim: permitted to its action, with the context of the claim under the
  step of its stage, and with the markers the claim expects the instance to carry.
\<close>

definition call_for :: "capability \<Rightarrow> claimed_workflow \<Rightarrow> mutation_call \<Rightarrow> bool" where
  "call_for cap w call \<longleftrightarrow>
     permitted_call (capAction cap) call \<and>
     call_context call = call_context_of w (mutation_step cap (cwStage w) (cwCommand w)) \<and>
     call_markers call = ownership cap w"

text \<open>After the provider was called: only a settling write, or an error before it.\<close>

inductive settles :: "'p ctx \<Rightarrow> claimed_workflow \<Rightarrow> ('p, unit) io \<Rightarrow> bool" where
  settles_write: "settling X w f \<Longrightarrow> settles X w (io_write f)"
| settles_missing: "e = transport_error_of ProtocolError (Some False) \<Longrightarrow> settles X w (io_throw (Transport e))"
| settles_random: "settles X w (io_throw InvalidRandomSource)"

inductive stage_shape :: "capability \<Rightarrow> 'p ctx \<Rightarrow> claimed_workflow \<Rightarrow> ('p, unit) io \<Rightarrow> bool" where
  shape_settles: "settles X w m \<Longrightarrow> stage_shape cap X w m"
| shape_task: "(\<And>r. settles X w (k r)) \<Longrightarrow>
    stage_shape cap X w (io_bind (io_call (pvGetTask (cxProvider X) c ref)) k)"
| shape_observe: "(\<And>r. settles X w (k r)) \<Longrightarrow>
    stage_shape cap X w (io_bind (io_call (pvObserve (cxProvider X) req)) k)"
| shape_list: "(\<And>r. settles X w (k r)) \<Longrightarrow>
    stage_shape cap X w (io_bind (io_call (pvListSnapshots (cxProvider X) req)) k)"
| shape_mutate: "cwStage w \<in> set (capMutationStages cap) \<Longrightarrow> call_for cap w call \<Longrightarrow> (\<And>r. settles X w (k r)) \<Longrightarrow>
    stage_shape cap X w (io_bind (io_call (pvMutate (cxProvider X) call)) k)"

lemma settles_progress [intro]: "settles X w (progress X w stage opts)"
  unfolding progress_def by (intro settles_write settling_checkpoint) simp

lemma settles_finishFailure [intro]: "settles X w (finishFailure cap X w f st)"
  unfolding finishFailure_def by (intro settles_write settling_complete)

lemma settles_fail [intro]: "settles X w (fail cap X w f)"
  unfolding fail_def by (rule settles_finishFailure)

lemma settles_manualReview [intro]: "settles X w (manualReview cap X w f)"
  unfolding manualReview_def by (rule settles_finishFailure)

lemma settles_succeed [intro]: "settles X w (succeed cap X w l ob)"
  unfolding succeed_def requiredResource_def
  by (auto intro: settles_missing settles_write settling_complete)

lemma settles_handleMutationResult [intro]: "settles X w (handleMutationResult cap X w r a s)"
  unfolding handleMutationResult_def Let_def by (auto split: option.split)

lemma settles_handleTaskResult [intro]: "settles X w (handleTaskResult cap X w r s ref)"
  unfolding handleTaskResult_def by auto

lemma settles_retryOrDeadLetter [intro]: "settles X w (retryOrDeadLetter cap X w e)"
  unfolding retryOrDeadLetter_def Let_def
  by (auto split: option.split intro!: settles_random settles_write settling_exhausted)

lemma settles_handleProviderError [intro]: "settles X w (handleProviderError cap X w e)"
  unfolding handleProviderError_def by auto

lemma shape_pollTask [intro]: "stage_shape cap X w (pollTask cap X w s)"
  unfolding pollTask_def Let_def by (auto intro: shape_task shape_settles)

lemma shape_instance_request:
  assumes "\<And>rid. stage_shape cap X w (k \<lparr>irContext = call_context_of w step, irProviderResourceId = rid,
      irOwnershipMarkers = ownership cap w\<rparr>)"
  shows "stage_shape cap X w (instance_request_of cap w step k)"
  unfolding instance_request_of_def requiredResource_def
  using assms by (auto intro: shape_settles settles_missing)

lemma shape_observe_instance:
  assumes "\<And>ob. settles X w (k ob)"
  shows "stage_shape cap X w (observe_instance cap X w step k)"
  unfolding observe_instance_def using assms by (intro shape_instance_request shape_observe)

lemma shape_mutate_call:
  assumes "cwStage w \<in> set (capMutationStages cap)" and "call_for cap w call"
  shows "stage_shape cap X w (mutate cap X w call a s)"
  unfolding mutate_def using assms by (intro shape_mutate) auto

subsection \<open>What the shapes give\<close>

lemma settles_run:
  assumes "settles X w m" and "m (p, db) = (r, (p', db'))"
  shows "p' = p \<and> (r = Inr () \<longrightarrow> (\<exists>f. settling X w f \<and> f db = Inr db')) \<and> (\<forall>e. r = Inl e \<longrightarrow> db' = db)"
  using assms by (induction rule: settles.induct) (auto simp: io_write_def io_throw_def split: sum.splits)

lemma io_call_bind_cases:
  assumes "io_bind (io_call call) k (p, db) = (r, (p', db'))"
  obtains e where "call p = (Inl e, p')" "r = Inl (Transport e)" "db' = db"
  | a p1 where "call p = (Inr a, p1)" "k a (p1, db) = (r, (p', db'))"
  using assms by (auto simp: io_bind_def io_call_def split: sum.splits prod.splits)

lemma call_run:
  assumes "\<And>r. settles X w (k r)" and "io_bind (io_call call) k (p, db) = (r, (p', db'))"
  shows "snd (call p) = p' \<and> (r = Inr () \<longrightarrow> (\<exists>f. settling X w f \<and> f db = Inr db')) \<and>
    (\<forall>e. r = Inl e \<longrightarrow> db' = db)"
  using assms(2)
proof (rule io_call_bind_cases)
  fix e
  assume "call p = (Inl e, p')" "r = Inl (Transport e)" "db' = db"
  then show ?thesis by simp
next
  fix a p1
  assume "call p = (Inr a, p1)" and "k a (p1, db) = (r, (p', db'))"
  then show ?thesis using settles_run [OF assms(1) \<open>k a (p1, db) = _\<close>] by simp
qed

lemma shape_run:
  assumes "stage_shape cap X w m" and "m (p, db) = (r, (p', db'))"
  shows "(r = Inr () \<longrightarrow> (\<exists>f. settling X w f \<and> f db = Inr db')) \<and> (\<forall>e. r = Inl e \<longrightarrow> db' = db)"
  using assms
proof (induction rule: stage_shape.induct)
  case (shape_settles X w m)
  then show ?case using settles_run [OF shape_settles(1)] by simp
qed (drule (1) call_run, simp)+

text \<open>A provider state with a log of the mutating calls it received.\<close>

definition logs_calls :: "('p \<Rightarrow> mutation_call list) \<Rightarrow> 'p provider \<Rightarrow> bool" where
  "logs_calls sent P \<longleftrightarrow>
     (\<forall>c p. sent (snd (pvMutate P c p)) = sent p @ [c]) \<and>
     (\<forall>c ref p. sent (snd (pvGetTask P c ref p)) = sent p) \<and>
     (\<forall>req p. sent (snd (pvObserve P req p)) = sent p) \<and>
     (\<forall>req p. sent (snd (pvListSnapshots P req p)) = sent p)"

lemma shape_log:
  assumes "stage_shape cap X w m" and "logs_calls sent (cxProvider X)" and "m (p, db) = (r, (p', db'))"
  shows "sent p' = sent p \<or>
    (\<exists>c. sent p' = sent p @ [c] \<and> cwStage w \<in> set (capMutationStages cap) \<and> call_for cap w c)"
  using assms
proof (induction rule: stage_shape.induct)
  case (shape_settles X w m)
  then show ?case using settles_run [OF shape_settles(1,3)] by simp
next
  case (shape_mutate w cap call X k)
  then have "sent p' = sent p @ [call]"
    using call_run [OF shape_mutate(3,5)] unfolding logs_calls_def by metis
  then show ?case using shape_mutate by blast
qed (drule (1) call_run, metis logs_calls_def)+

subsection \<open>The contract of a capability\<close>

locale lifecycle_capability =
  fixes cap :: capability and execute :: "'p ctx \<Rightarrow> claimed_workflow \<Rightarrow> ('p, unit) io"
  assumes execute_shape: "stage_shape cap X w (execute X w)"
begin

text \<open>The two outcomes of a step: the stage itself, or the classification of its transport error.\<close>

lemma run_cases:
  assumes "run_claimed cap execute X w (p, db) = (r, (p', db'))"
  obtains "execute X w (p, db) = (r, (p', db'))" "\<And>e. r \<noteq> Inl (Transport e)"
  | e p1 where "execute X w (p, db) = (Inl (Transport e), (p1, db))"
      "handleProviderError cap X w e (p1, db) = (r, (p', db'))" "p' = p1"
proof -
  obtain r1 p1 db1 where ex: "execute X w (p, db) = (r1, (p1, db1))" by (metis surj_pair)
  show ?thesis
  proof (cases "\<exists>e. r1 = Inl (Transport e)")
    case True
    then obtain e where e: "r1 = Inl (Transport e)" by blast
    have db1: "db1 = db" using shape_run [OF execute_shape ex] e by simp
    from e have handled: "handleProviderError cap X w e (p1, db) = (r, (p', db'))"
      using assms ex db1 by (simp add: run_claimed_def io_catch_transport_def)
    have "p' = p1" using settles_run [OF settles_handleProviderError handled] by simp
    then show ?thesis using that(2) ex e db1 handled by simp
  next
    case False
    then have "run_claimed cap execute X w (p, db) = (r1, (p1, db1))"
      using ex by (auto simp: run_claimed_def io_catch_transport_def split: sum.splits exn.splits)
    then show ?thesis using that(1) assms ex False by simp
  qed
qed

text \<open>A step ends in one settling write; a step that throws leaves the store as it was.\<close>

lemma step_settles_once:
  assumes "run_claimed cap execute X w (p, db) = (r, (p', db'))"
  shows "(r = Inr () \<longrightarrow> (\<exists>f. settling X w f \<and> f db = Inr db')) \<and> (\<forall>e. r = Inl e \<longrightarrow> db' = db)"
  using assms
proof (rule run_cases)
  assume "execute X w (p, db) = (r, (p', db'))"
  then show ?thesis by (rule shape_run [OF execute_shape])
next
  fix e p1
  assume "handleProviderError cap X w e (p1, db) = (r, (p', db'))"
  from settles_run [OF settles_handleProviderError this] show ?thesis by simp
qed

text \<open>At most one mutating call per step, in a mutation stage, for this very claim.\<close>

lemma step_mutates_once:
  assumes "run_claimed cap execute X w (p, db) = (r, (p', db'))" and "logs_calls sent (cxProvider X)"
  shows "sent p' = sent p \<or>
    (\<exists>c. sent p' = sent p @ [c] \<and> cwStage w \<in> set (capMutationStages cap) \<and> call_for cap w c)"
  using assms(1)
proof (rule run_cases)
  assume "execute X w (p, db) = (r, (p', db'))"
  then show ?thesis by (rule shape_log [OF execute_shape assms(2)])
next
  fix e p1
  assume "execute X w (p, db) = (Inl (Transport e), (p1, db))" "p' = p1"
  then show ?thesis using shape_log [OF execute_shape assms(2)] by simp
qed

end

subsection \<open>The eight capabilities\<close>

lemma set_mutation_stages:
  "set (capMutationStages create_capability) = {SubmittingCreate, Configuring, Starting}"
  "set (capMutationStages power_capability) = {SubmittingPower}"
  "set (capMutationStages resize_capability) = {SubmittingResize}"
  "set (capMutationStages (snapshot_capability a)) = {SubmittingSnapshot}"
  "set (capMutationStages retain_capability) = {SubmittingRetention}"
  "set (capMutationStages purge_capability) = {SubmittingPurge}"
  by (simp_all add: create_capability_def CREATE_MUTATION_STAGES_def power_capability_def resize_capability_def
      snapshot_capability_def retain_capability_def purge_capability_def)

lemma capability_actions [simp]:
  "capAction create_capability = CreateInstance"
  "capAction power_capability = PowerInstance"
  "capAction resize_capability = ResizeInstance"
  "capAction (snapshot_capability a) = snapshot_workflow_action a"
  "capAction retain_capability = RetainInstance"
  "capAction purge_capability = PurgeInstance"
  by (simp_all add: create_capability_def power_capability_def resize_capability_def
      snapshot_capability_def retain_capability_def purge_capability_def)

lemmas call_checks = set_mutation_stages call_for_def permitted_call_def mutation_step_def

interpretation create_workflow: lifecycle_capability create_capability execute_create
proof
  fix X w
  have submit: "cwStage w = SubmittingCreate \<Longrightarrow> stage_shape create_capability X w (submitCreate X w)"
    unfolding submitCreate_def by (intro shape_mutate_call) (auto simp: call_checks)
  have configured: "cwStage w = Configuring \<Longrightarrow> stage_shape create_capability X w (configure X w)"
    unfolding configure_def by (intro shape_instance_request shape_mutate_call) (auto simp: call_checks)
  have started: "cwStage w = Starting \<Longrightarrow> stage_shape create_capability X w (start X w)"
    unfolding start_def by (intro shape_instance_request shape_mutate_call) (auto simp: call_checks)
  have observed: "stage_shape create_capability X w (observe X w)"
    unfolding observe_def by (intro shape_observe_instance) auto
  show "stage_shape create_capability X w (execute_create X w)"
    unfolding execute_create_def
    using submit configured started observed by (cases "cwStage w") (auto intro: shape_settles)
qed

interpretation power_workflow: lifecycle_capability power_capability execute_power
proof
  fix X w
  have submit: "cwStage w = SubmittingPower \<Longrightarrow> stage_shape power_capability X w (submitPower X w)"
    unfolding submitPower_def Let_def
    by (intro shape_instance_request shape_mutate_call) (auto simp: call_checks)
  have observed: "stage_shape power_capability X w (observePower X w)"
    unfolding observePower_def Let_def by (intro shape_observe_instance) auto
  show "stage_shape power_capability X w (execute_power X w)"
    unfolding execute_power_def
    using submit observed by (cases "cwStage w") (auto intro: shape_settles)
qed

interpretation resize_workflow: lifecycle_capability resize_capability execute_resize
proof
  fix X w
  have submit: "cwStage w = SubmittingResize \<Longrightarrow> stage_shape resize_capability X w (submitResize X w)"
    unfolding submitResize_def Let_def
    by (intro shape_instance_request shape_mutate_call) (auto simp: call_checks)
  have observed: "stage_shape resize_capability X w (observeResize X w)"
    unfolding observeResize_def by (intro shape_observe_instance) auto
  show "stage_shape resize_capability X w (execute_resize X w)"
    unfolding execute_resize_def
    using submit observed by (cases "cwStage w") (auto intro: shape_settles)
qed

lemma snapshot_shape: "stage_shape (snapshot_capability a) X w (execute_snapshot a X w)"
proof -
  have submit: "cwStage w = SubmittingSnapshot \<Longrightarrow> stage_shape (snapshot_capability a) X w (submitSnapshot a X w)"
    unfolding submitSnapshot_def Let_def
    by (intro shape_instance_request shape_mutate_call) (cases a; auto simp: call_checks)+
  have observed: "stage_shape (snapshot_capability a) X w (observeSnapshot a X w)"
    unfolding observeSnapshot_def Let_def by (intro shape_instance_request shape_list) auto
  show ?thesis
    unfolding execute_snapshot_def
    using submit observed by (cases "cwStage w") (auto intro: shape_settles)
qed

interpretation snapshot_workflow: lifecycle_capability "snapshot_capability a" "execute_snapshot a" for a
  by unfold_locales (rule snapshot_shape)

interpretation retain_workflow: lifecycle_capability retain_capability execute_retain
proof
  fix X w
  have submit: "cwStage w = SubmittingRetention \<Longrightarrow> stage_shape retain_capability X w (submitRetention X w)"
    unfolding submitRetention_def
    by (intro shape_instance_request shape_mutate_call) (auto simp: call_checks)
  have observed: "stage_shape retain_capability X w (observeRetention X w)"
    unfolding observeRetention_def by (intro shape_observe_instance) auto
  show "stage_shape retain_capability X w (execute_retain X w)"
    unfolding execute_retain_def
    using submit observed by (cases "cwStage w") (auto intro: shape_settles)
qed

interpretation purge_workflow: lifecycle_capability purge_capability execute_purge
proof
  fix X w
  have completes [intro]: "settles X w (completePurge X w)"
    unfolding completePurge_def by (rule settles_succeed)
  have submit: "cwStage w = SubmittingPurge \<Longrightarrow> stage_shape purge_capability X w (submitPurge X w)"
    unfolding submitPurge_def
    by (intro shape_instance_request shape_mutate_call) (auto simp: call_checks)
  have verified: "stage_shape purge_capability X w (verifyOwnership X w)"
    unfolding verifyOwnership_def by (intro shape_observe_instance) auto
  have observed: "stage_shape purge_capability X w (observeAbsence X w)"
    unfolding observeAbsence_def by (intro shape_observe_instance) auto
  show "stage_shape purge_capability X w (execute_purge X w)"
    unfolding execute_purge_def
    using submit verified observed by (cases "cwStage w") (auto intro: shape_settles)
qed

lemma executor_capability:
  "(cap, execute) \<in> set workflow_executors \<Longrightarrow> lifecycle_capability cap execute"
  unfolding workflow_executors_def
  by (auto intro: create_workflow.lifecycle_capability_axioms power_workflow.lifecycle_capability_axioms
      resize_workflow.lifecycle_capability_axioms snapshot_workflow.lifecycle_capability_axioms
      retain_workflow.lifecycle_capability_axioms purge_workflow.lifecycle_capability_axioms)

end
