(* ===== verification/Workflow_Steps.thy ===== *)
theory Workflow_Steps
  imports Workflow_Safety
begin

section \<open>The stage machine the workflows implement\<close>

text \<open>
  An abstract machine on persisted stages, one per action, and the lemmas that every step of
  the eight executors is one of its moves. \<open>row_after\<close> is the Hoare triple they are proved with: what
  holds of the workflow's row when a computation returned normally.
\<close>

subsection \<open>The abstract machine\<close>

text \<open>
  What follows a stage when nothing goes wrong. The simple actions submit once, poll when the
  provider answered with a task, and observe; create chains three submissions, purge verifies first.
\<close>

definition single_mutation ::
  "workflow_stage \<Rightarrow> workflow_stage \<Rightarrow> workflow_stage \<Rightarrow> workflow_stage \<Rightarrow> persisted_stage list" where
  "single_mutation submit poll obs s =
     (if s = Accepted then [Live submit]
      else if s = submit then [Live poll, Live obs]
      else if s = poll then [Live obs]
      else if s = obs then [Terminal StageCompleted]
      else [])"

definition stage_successors :: "workflow_action \<Rightarrow> workflow_stage \<Rightarrow> persisted_stage list" where
  "stage_successors a s =
     (case a of
        CreateInstance \<Rightarrow>
          (case s of
             Accepted \<Rightarrow> [Live SubmittingCreate]
           | SubmittingCreate \<Rightarrow> [Live PollingCreate, Live Configuring]
           | PollingCreate \<Rightarrow> [Live Configuring]
           | Configuring \<Rightarrow> [Live PollingConfiguration, Live Starting]
           | PollingConfiguration \<Rightarrow> [Live Starting]
           | Starting \<Rightarrow> [Live PollingStart, Live Observing]
           | PollingStart \<Rightarrow> [Live Observing]
           | Observing \<Rightarrow> [Terminal StageCompleted]
           | _ \<Rightarrow> [])
      | PowerInstance \<Rightarrow> single_mutation SubmittingPower PollingPower ObservingPower s
      | ResizeInstance \<Rightarrow> single_mutation SubmittingResize PollingResize ObservingResize s
      | CreateSnapshot \<Rightarrow> single_mutation SubmittingSnapshot PollingSnapshot ObservingSnapshot s
      | RollbackSnapshot \<Rightarrow> single_mutation SubmittingSnapshot PollingSnapshot ObservingSnapshot s
      | DeleteSnapshot \<Rightarrow> single_mutation SubmittingSnapshot PollingSnapshot ObservingSnapshot s
      | RetainInstance \<Rightarrow> single_mutation SubmittingRetention PollingRetention ObservingRetention s
      | PurgeInstance \<Rightarrow>
          (case s of
             Accepted \<Rightarrow> [Live VerifyingPurge]
           | VerifyingPurge \<Rightarrow> [Live SubmittingPurge, Terminal StageCompleted]
           | _ \<Rightarrow> single_mutation SubmittingPurge PollingPurge ObservingPurge s)
      | ReconcileInstance \<Rightarrow> [])"

text \<open>A move: to a successor, to a wait in the same stage, or to one of the two bad ends.\<close>

inductive stage_move :: "workflow_action \<Rightarrow> workflow_stage \<Rightarrow> persisted_stage \<Rightarrow> string \<Rightarrow> bool" where
  move_advance: "Live t \<in> set (stage_successors a s) \<Longrightarrow> stage_move a s (Live t) ''running''"
| move_wait: "stage_move a s (Live s) ''retry_wait''"
| move_complete: "Terminal StageCompleted \<in> set (stage_successors a s) \<Longrightarrow>
    stage_move a s (Terminal StageCompleted) ''succeeded''"
| move_fail: "stage_move a s (Terminal StageFailed) ''failed''"
| move_review: "stage_move a s (Terminal StageManualReview) ''manual_review''"

inductive_cases stage_moveE: "stage_move a s t status"

definition moved :: "workflow_action \<Rightarrow> workflow_stage \<Rightarrow> workflow_row \<Rightarrow> bool" where
  "moved a s r \<longleftrightarrow> (\<exists>t. wfStage r = persisted_name t \<and> stage_move a s t (wfStatus r))"

lemma advance_raises_progress:
  "t \<in> set (stage_successors a s) \<Longrightarrow> STAGE_PROGRESS_PERCENT (Live s) < STAGE_PROGRESS_PERCENT t"
  by (cases a; cases s) (auto simp: stage_successors_def single_mutation_def)

subsection \<open>What a computation leaves in the row\<close>

definition row_after ::
  "uuid \<Rightarrow> ('p, unit) io \<Rightarrow> (workflow_row \<Rightarrow> bool) \<Rightarrow> bool" where
  "row_after op m P \<longleftrightarrow>
     (\<forall>p db p' db'. m (p, db) = (Inr (), (p', db')) \<longrightarrow>
        (\<exists>r. lookup_by wfOperationId op (workflows db') = Some r \<and> P r))"

lemma row_afterD:
  "row_after op m P \<Longrightarrow> m (p, db) = (Inr (), (p', db')) \<Longrightarrow>
     \<exists>r. lookup_by wfOperationId op (workflows db') = Some r \<and> P r"
  unfolding row_after_def by blast

lemma row_after_throw [intro]: "row_after op (io_throw e) P"
  by (simp add: row_after_def io_throw_def)

lemma row_after_call:
  assumes "\<And>a. row_after op (k a) P"
  shows "row_after op (io_bind (io_call c) k) P"
  unfolding row_after_def
proof (intro allI impI)
  fix p db p' db'
  assume "io_bind (io_call c) k (p, db) = (Inr (), (p', db'))"
  then show "\<exists>r. lookup_by wfOperationId op (workflows db') = Some r \<and> P r"
  proof (rule io_call_bind_cases)
    fix a p1
    assume "k a (p1, db) = (Inr (), (p', db'))"
    then show ?thesis by (rule row_afterD [OF assms])
  qed simp
qed

text \<open>A fenced write changes the row of its operation, and only that one.\<close>

lemma fenced_write_row:
  assumes "fenced_write E f change db db'" and "\<And>r. wfOperationId (change r) = wfOperationId r"
  obtains r where "lookup_by wfOperationId (fnOperationId f) (workflows db) = Some r"
    "wfFencingToken r = fnFencingToken f"
    "lookup_by wfOperationId (fnOperationId f) (workflows db') = Some (change r)"
    "\<And>op. op \<noteq> fnOperationId f \<Longrightarrow>
       lookup_by wfOperationId op (workflows db') = lookup_by wfOperationId op (workflows db)"
proof -
  from assms(1) obtain r :: workflow_row where r: "assertLease E f db = Inr r"
    and rows: "workflows db' = update_where (\<lambda>r. wfOperationId r = fnOperationId f \<and>
      wfFencingToken r = fnFencingToken f) change (workflows db)"
    unfolding fenced_write_def by blast
  have look: "lookup_by wfOperationId (fnOperationId f) (workflows db) = Some r" "wfFencingToken r = fnFencingToken f"
    using assertLease_Inr [OF r] by metis+
  have after: "lookup_by wfOperationId op (workflows db') =
      map_option (\<lambda>r. if wfOperationId r = fnOperationId f \<and> wfFencingToken r = fnFencingToken f then change r else r)
        (lookup_by wfOperationId op (workflows db))" for op
    unfolding rows using assms(2) by (simp add: lookup_by_update_where)
  have "lookup_by wfOperationId (fnOperationId f) (workflows db') = Some (change r)"
    using after look lookup_by_SomeD [OF look(1)] by simp
  moreover have "lookup_by wfOperationId op (workflows db') = lookup_by wfOperationId op (workflows db)"
    if "op \<noteq> fnOperationId f" for op
    unfolding after using that lookup_by_SomeD [of wfOperationId op "workflows db"]
    by (cases "lookup_by wfOperationId op (workflows db)") auto
  ultimately show ?thesis using that look by blast
qed

lemma settled_fields [simp]:
  "wfOperationId (checkpointed E i r) = wfOperationId r"
  "wfOperationId (completed_row E st e r) = wfOperationId r"
  "wfOperationId (dead_lettered_row E di r) = wfOperationId r"
  by (simp_all add: checkpointed_def completed_row_def dead_lettered_row_def)

lemma fence_of_operation [simp]: "fnOperationId (fence_of X w) = operationId (cwCommand w)"
  by (simp add: fence_of_def)

lemma row_after_write:
  assumes "\<And>db db'. f db = Inr db' \<Longrightarrow> fenced_write E (fence_of X w) change db db'"
    and "\<And>r. wfOperationId (change r) = wfOperationId r" and "\<And>r. P (change r)"
  shows "row_after (operationId (cwCommand w)) (io_write f) P"
  unfolding row_after_def
proof (intro allI impI)
  fix p db p' db'
  assume "io_write f (p, db) = (Inr (), (p', db'))"
  then have "f db = Inr db'" by (auto simp: io_write_def split: sum.splits)
  from fenced_write_row [OF assms(1) [OF this] assms(2)] assms(3)
  show "\<exists>r. lookup_by wfOperationId (operationId (cwCommand w)) (workflows db') = Some r \<and> P r"
    by (metis fence_of_operation)
qed

subsection \<open>Steps are moves\<close>

abbreviation moves :: "workflow_action \<Rightarrow> workflow_stage \<Rightarrow> claimed_workflow \<Rightarrow> ('p, unit) io \<Rightarrow> bool" where
  "moves a s w m \<equiv> row_after (operationId (cwCommand w)) m (moved a s)"

lemma moves_progress:
  assumes "poNextAttemptAt opts = None" and "Live st \<in> set (stage_successors a s)"
  shows "moves a s w (progress X w st opts)"
  unfolding progress_def
proof (rule row_after_write)
  show "moved a s (checkpointed (cxEnv X) \<lparr>ciFence = fence_of X w, ciStage = st,
        ciProviderResourceId = (if truthy (poProviderResourceId opts) then poProviderResourceId opts
                                else if truthy (cwProviderResourceId w) then cwProviderResourceId w
                                else None),
        ciTaskReference = poTaskReference opts, ciNextAttemptAt = poNextAttemptAt opts,
        ciRetry = poRetry opts, ciEvent = progress_event (cxEnv X) w st opts\<rparr> r)" for r
    using assms by (auto simp: moved_def checkpointed_def intro!: exI [of _ "Live st"] move_advance)
qed (auto dest: checkpoint_effect)

lemma moves_wait:
  assumes "poNextAttemptAt opts = Some t" and "cwStage w = s"
  shows "moves a s w (progress X w (cwStage w) opts)"
  unfolding progress_def
proof (rule row_after_write)
  show "moved a s (checkpointed (cxEnv X) \<lparr>ciFence = fence_of X w, ciStage = cwStage w,
        ciProviderResourceId = (if truthy (poProviderResourceId opts) then poProviderResourceId opts
                                else if truthy (cwProviderResourceId w) then cwProviderResourceId w
                                else None),
        ciTaskReference = poTaskReference opts, ciNextAttemptAt = poNextAttemptAt opts,
        ciRetry = poRetry opts, ciEvent = progress_event (cxEnv X) w (cwStage w) opts\<rparr> r)" for r
    using assms by (auto simp: moved_def checkpointed_def intro!: exI [of _ "Live s"] move_wait)
qed (auto dest: checkpoint_effect)

lemma row_after_finishFailure:
  assumes "\<And>r. wfStatus r = completion_name st \<Longrightarrow> wfStage r = completion_name st \<Longrightarrow> P r" and "st \<noteq> Succeeded"
  shows "row_after (operationId (cwCommand w)) (finishFailure cap X w f st) P"
  unfolding finishFailure_def
  by (rule row_after_write, erule complete_effect) (use assms in \<open>auto simp: completed_row_def\<close>)

lemma moves_fail [intro]: "moves a s w (fail cap X w f)"
  unfolding fail_def
  by (rule row_after_finishFailure) (auto simp: moved_def intro!: exI [of _ "Terminal StageFailed"] move_fail)

lemma moves_manualReview [intro]: "moves a s w (manualReview cap X w f)"
  unfolding manualReview_def
  by (rule row_after_finishFailure)
    (auto simp: moved_def intro!: exI [of _ "Terminal StageManualReview"] move_review)

lemma moves_succeed:
  assumes "Terminal StageCompleted \<in> set (stage_successors a s)"
  shows "moves a s w (succeed cap X w l ob)"
proof -
  have "moves a s w (io_write (complete (cxEnv X) (fence_of X w) Succeeded e))" for e
    by (rule row_after_write, erule complete_effect)
      (use assms in \<open>auto simp: completed_row_def moved_def intro!: exI [of _ "Terminal StageCompleted"] move_complete\<close>)
  then show ?thesis unfolding succeed_def requiredResource_def by auto
qed

lemma moves_handleMutationResult:
  assumes "Live st1 \<in> set (stage_successors a s)" and "Live st2 \<in> set (stage_successors a s)"
  shows "moves a s w (handleMutationResult cap X w res st1 st2)"
  unfolding handleMutationResult_def Let_def
  using assms by (auto split: option.split intro!: moves_progress simp: no_options_def)

lemma moves_mutate:
  assumes "Live st1 \<in> set (stage_successors a s)" and "Live st2 \<in> set (stage_successors a s)"
  shows "moves a s w (mutate cap X w call st1 st2)"
  unfolding mutate_def by (intro row_after_call moves_handleMutationResult assms)

lemma moves_pollTask:
  assumes "Live st \<in> set (stage_successors a s)" and "cwStage w = s"
  shows "moves a s w (pollTask cap X w st)"
proof -
  have "moves a s w (handleTaskResult cap X w response st ref)" for response ref
    unfolding handleTaskResult_def
    using assms by (auto intro!: moves_progress moves_wait simp: no_options_def)
  then show ?thesis unfolding pollTask_def Let_def by (auto intro: row_after_call)
qed

lemma moves_exhausted:
  assumes "dwFence i = fence_of X w"
  shows "moves a s w (io_write (deadLetterWorkflow (cxEnv X) i))"
proof (rule row_after_write)
  show "deadLetterWorkflow (cxEnv X) i db = Inr db' \<Longrightarrow>
      fenced_write (cxEnv X) (fence_of X w) (dead_lettered_row (cxEnv X) i) db db'" for db db'
    using deadLetterWorkflow_effect assms by metis
qed (auto simp: dead_lettered_row_def moved_def intro!: exI [of _ "Terminal StageFailed"] move_fail)

lemma moves_retryOrDeadLetter:
  assumes "cwStage w = s"
  shows "moves a s w (retryOrDeadLetter cap X w e)"
  unfolding retryOrDeadLetter_def Let_def
  using assms by (auto split: option.split intro!: moves_wait moves_exhausted simp: no_options_def)

lemma moves_handleProviderError: "moves a (cwStage w) w (handleProviderError cap X w e)"
  unfolding handleProviderError_def by (auto intro: moves_retryOrDeadLetter)

lemma moves_instance_request:
  "(\<And>req. moves a s w (k req)) \<Longrightarrow> moves a s w (instance_request_of cap w step k)"
  unfolding instance_request_of_def requiredResource_def by auto

lemma moves_observe_instance:
  "(\<And>ob. moves a s w (k ob)) \<Longrightarrow> moves a s w (observe_instance cap X w step k)"
  unfolding observe_instance_def by (intro moves_instance_request row_after_call)

text \<open>The contract of a capability, extended by its stage machine.\<close>

locale staged_capability = lifecycle_capability cap execute
  for cap :: capability and execute :: "'p ctx \<Rightarrow> claimed_workflow \<Rightarrow> ('p, unit) io" +
  assumes execute_moves: "moves (capAction cap) (cwStage w) w (execute X w)"
begin

lemma step_moves:
  assumes "run_claimed cap execute X w (p, db) = (Inr (), (p', db'))"
  shows "\<exists>r. lookup_by wfOperationId (operationId (cwCommand w)) (workflows db') = Some r \<and>
    moved (capAction cap) (cwStage w) r"
  using assms
proof (rule run_cases)
  assume "execute X w (p, db) = (Inr (), (p', db'))"
  then show ?thesis by (rule row_afterD [OF execute_moves])
next
  fix e p1
  assume "handleProviderError cap X w e (p1, db) = (Inr (), (p', db'))"
  then show ?thesis by (rule row_afterD [OF moves_handleProviderError])
qed

end

lemmas successors = stage_successors_def single_mutation_def

interpretation create_stages: staged_capability create_capability execute_create
proof
  fix X :: "'p ctx" and w
  have "cwStage w = SubmittingCreate \<Longrightarrow> moves CreateInstance SubmittingCreate w (submitCreate X w)"
    unfolding submitCreate_def by (intro moves_mutate) (auto simp: successors)
  moreover have "cwStage w = Configuring \<Longrightarrow> moves CreateInstance Configuring w (configure X w)"
    unfolding configure_def by (intro moves_instance_request moves_mutate) (auto simp: successors)
  moreover have "cwStage w = Starting \<Longrightarrow> moves CreateInstance Starting w (start X w)"
    unfolding start_def by (intro moves_instance_request moves_mutate) (auto simp: successors)
  moreover have "cwStage w = Observing \<Longrightarrow> moves CreateInstance Observing w (observe X w)"
    unfolding observe_def by (intro moves_observe_instance) (auto simp: successors intro: moves_succeed)
  ultimately show "moves (capAction create_capability) (cwStage w) w (execute_create X w)"
    unfolding execute_create_def
    by (cases "cwStage w") (auto simp: successors no_options_def intro!: moves_progress moves_pollTask)
qed

interpretation power_stages: staged_capability power_capability execute_power
proof
  fix X :: "'p ctx" and w
  have "cwStage w = SubmittingPower \<Longrightarrow> moves PowerInstance SubmittingPower w (submitPower X w)"
    unfolding submitPower_def Let_def by (intro moves_instance_request moves_mutate) (auto simp: successors)
  moreover have "cwStage w = ObservingPower \<Longrightarrow> moves PowerInstance ObservingPower w (observePower X w)"
    unfolding observePower_def Let_def by (intro moves_observe_instance) (auto simp: successors intro!: moves_succeed)
  ultimately show "moves (capAction power_capability) (cwStage w) w (execute_power X w)"
    unfolding execute_power_def
    by (cases "cwStage w") (auto simp: successors no_options_def intro!: moves_progress moves_pollTask)
qed

interpretation resize_stages: staged_capability resize_capability execute_resize
proof
  fix X :: "'p ctx" and w
  have "cwStage w = SubmittingResize \<Longrightarrow> moves ResizeInstance SubmittingResize w (submitResize X w)"
    unfolding submitResize_def Let_def by (intro moves_instance_request moves_mutate) (auto simp: successors)
  moreover have "cwStage w = ObservingResize \<Longrightarrow> moves ResizeInstance ObservingResize w (observeResize X w)"
    unfolding observeResize_def by (intro moves_observe_instance) (auto simp: successors intro!: moves_succeed)
  ultimately show "moves (capAction resize_capability) (cwStage w) w (execute_resize X w)"
    unfolding execute_resize_def
    by (cases "cwStage w") (auto simp: successors no_options_def intro!: moves_progress moves_pollTask)
qed

lemma snapshot_moves: "moves (snapshot_workflow_action a) (cwStage w) w (execute_snapshot a X w)"
proof -
  have next_stages: "stage_successors (snapshot_workflow_action a) s =
      single_mutation SubmittingSnapshot PollingSnapshot ObservingSnapshot s" for s
    by (cases a) (simp_all add: stage_successors_def)
  have "cwStage w = SubmittingSnapshot \<Longrightarrow> moves (snapshot_workflow_action a) SubmittingSnapshot w (submitSnapshot a X w)"
    unfolding submitSnapshot_def Let_def
    by (intro moves_instance_request moves_mutate) (auto simp: next_stages single_mutation_def)
  moreover have "cwStage w = ObservingSnapshot \<Longrightarrow> moves (snapshot_workflow_action a) ObservingSnapshot w (observeSnapshot a X w)"
    unfolding observeSnapshot_def Let_def
    by (intro moves_instance_request row_after_call) (auto simp: next_stages single_mutation_def intro!: moves_succeed)
  ultimately show ?thesis
    unfolding execute_snapshot_def
    by (cases "cwStage w")
      (auto simp: next_stages single_mutation_def no_options_def intro!: moves_progress moves_pollTask)
qed

interpretation snapshot_stages: staged_capability "snapshot_capability a" "execute_snapshot a" for a
  by unfold_locales (simp add: snapshot_moves)

interpretation retain_stages: staged_capability retain_capability execute_retain
proof
  fix X :: "'p ctx" and w
  have "cwStage w = SubmittingRetention \<Longrightarrow> moves RetainInstance SubmittingRetention w (submitRetention X w)"
    unfolding submitRetention_def by (intro moves_instance_request moves_mutate) (auto simp: successors)
  moreover have "cwStage w = ObservingRetention \<Longrightarrow> moves RetainInstance ObservingRetention w (observeRetention X w)"
    unfolding observeRetention_def by (intro moves_observe_instance) (auto simp: successors intro!: moves_succeed)
  ultimately show "moves (capAction retain_capability) (cwStage w) w (execute_retain X w)"
    unfolding execute_retain_def
    by (cases "cwStage w") (auto simp: successors no_options_def intro!: moves_progress moves_pollTask)
qed

interpretation purge_stages: staged_capability purge_capability execute_purge
proof
  fix X :: "'p ctx" and w
  have "cwStage w = SubmittingPurge \<Longrightarrow> moves PurgeInstance SubmittingPurge w (submitPurge X w)"
    unfolding submitPurge_def by (intro moves_instance_request moves_mutate) (auto simp: successors)
  moreover have "cwStage w = VerifyingPurge \<Longrightarrow> moves PurgeInstance VerifyingPurge w (verifyOwnership X w)"
    unfolding verifyOwnership_def completePurge_def
    by (intro moves_observe_instance) (auto simp: successors no_options_def intro!: moves_succeed moves_progress)
  moreover have "cwStage w = ObservingPurge \<Longrightarrow> moves PurgeInstance ObservingPurge w (observeAbsence X w)"
    unfolding observeAbsence_def completePurge_def
    by (intro moves_observe_instance) (auto simp: successors intro!: moves_succeed)
  ultimately show "moves (capAction purge_capability) (cwStage w) w (execute_purge X w)"
    unfolding execute_purge_def
    by (cases "cwStage w") (auto simp: successors no_options_def intro!: moves_progress moves_pollTask)
qed

lemma executor_stages:
  "(cap, execute) \<in> set workflow_executors \<Longrightarrow> staged_capability cap execute"
  unfolding workflow_executors_def
  by (auto intro: create_stages.staged_capability_axioms power_stages.staged_capability_axioms
      resize_stages.staged_capability_axioms snapshot_stages.staged_capability_axioms
      retain_stages.staged_capability_axioms purge_stages.staged_capability_axioms)

end
