(* ===== verification/Provider_Samples.thy ===== *)
theory Provider_Samples
  imports Samples Capabilities
begin

section \<open>Concrete providers and claims\<close>

text \<open>
  A provider whose state is the list of the mutating calls it received and whose answers are
  fixed, a claim of the sample command in a chosen stage, and the lemmas that the settling writes of
  such a claim succeed on the sample tables.
\<close>

definition answering ::
  "transport_error + mutation_result option \<Rightarrow> transport_error + observation option \<Rightarrow> mutation_call list provider" where
  "answering mres ores =
     \<lparr>pvMutate = (\<lambda>c p. (mres, p @ [c])),
      pvGetTask = (\<lambda>_ _ p. (Inr \<lparr>trState = Some TaskRunning, trFailure = None\<rparr>, p)),
      pvObserve = (\<lambda>_ p. (ores, p)), pvListSnapshots = (\<lambda>_ p. (Inr [], p))\<rparr>"

definition accepted_result :: "transport_error + mutation_result option" where
  "accepted_result = Inr (Some \<lparr>mrState = Some ResultAccepted, mrProviderTaskReference = Some ''task-1'',
     mrProviderResourceId = Some ''vm-100'', mrFailure = None\<rparr>)"

definition owned_running :: "transport_error + observation option" where
  "owned_running = Inr (Some \<lparr>onExists = Some True, onPowerState = Some ObservedRunning, onResources = None,
     onOwnership = Some \<lparr>ooComplete = Some True, ooMatch = Some True\<rparr>, onObservedAt = None\<rparr>)"

definition unavailable :: "transport_error + 'a" where
  "unavailable = Inl (transport_error_of Unavailable None)"

definition sample_ctx ::
  "transport_error + mutation_result option \<Rightarrow> transport_error + observation option \<Rightarrow> mutation_call list ctx" where
  "sample_ctx mres ores = \<lparr>cxEnv = sample_env_at 60 3000, cxWorkerId = ''worker-a'', cxProvider = answering mres ores\<rparr>"

definition sample_claim :: "workflow_stage \<Rightarrow> claimed_workflow" where
  "sample_claim st = \<lparr>cwAction = CreateInstance, cwCommand = sample_command, cwTraceContext = sample_trace,
     cwStage = st, cwAttempt = 1, cwStageAttempt = 0, cwRetryStartedAt = None, cwFencingToken = 1,
     cwProviderResourceId = Some ''vm-100'', cwProviderTaskReference = None\<rparr>"

lemma sample_ctx_simps [simp]:
  "cxEnv (sample_ctx m ob) = sample_env_at 60 3000"
  "cxProvider (sample_ctx m ob) = answering m ob"
  "fence_of (sample_ctx m ob) (sample_claim st) = sample_fence"
  "now (sample_env_at k t) = t" "dbNow (sample_env_at k t) = t"
  by (simp_all add: sample_ctx_def fence_of_def sample_claim_def sample_fence_def sample_env_at_def)

lemma sample_claim_simps [simp]:
  "cwStage (sample_claim st) = st" "cwCommand (sample_claim st) = sample_command"
  "cwProviderResourceId (sample_claim st) = Some ''vm-100''"
  "cwStageAttempt (sample_claim st) = 0" "cwRetryStartedAt (sample_claim st) = None"
  by (simp_all add: sample_claim_def)

lemma answering_simps [simp]:
  "pvMutate (answering m ob) c p = (m, p @ [c])"
  "pvObserve (answering m ob) req p = (ob, p)"
  "pvListSnapshots (answering m ob) req p = (Inr [], p)"
  by (simp_all add: answering_def)

lemma sample_event_uuids: "sample_uuid 63 \<noteq> sample_uuid 60" "sample_uuid 60 \<noteq> sample_uuid 63"
  by code_simp+

lemma sample_complete_ok:
  "eventId e = sample_uuid 60 \<Longrightarrow>
     \<exists>db'. complete (sample_env_at 60 3000) sample_fence st e sample_claimed = Inr db'"
  by (simp add: complete_def assertLease_def sample_claimed_tables sample_fence_def claimed_row_def new_workflow_def
      sample_env_at_def writeEvent_def writeWorkflowOutbox_def writeServiceAudit_def Let_def
      auditRecordedEvent_def update_workflow_def complete_receipt_def insert_unique_def
      sample_uuids_differ sample_event_uuids)

lemma sample_checkpoint_ok:
  "ciFence i = sample_fence \<Longrightarrow> \<exists>db'. checkpoint (sample_env_at 60 3000) i sample_claimed = Inr db'"
  by (simp add: checkpoint_def assertLease_def sample_claimed_tables sample_fence_def claimed_row_def new_workflow_def
      sample_env_at_def writeEvent_def writeWorkflowOutbox_def Let_def update_workflow_def insert_unique_def)

lemma io_write_runs: "\<exists>db'. f db = Inr db' \<Longrightarrow> \<exists>db'. io_write f (p, db) = (Inr (), (p, db'))"
  by (auto simp: io_write_def)

lemma sample_progress_runs:
  "\<exists>db'. progress (sample_ctx m ob) (sample_claim st) stage opts (p, sample_claimed) = (Inr (), (p, db'))"
  unfolding progress_def sample_ctx_simps by (rule io_write_runs, rule sample_checkpoint_ok) simp

lemma sample_settle_runs:
  "\<exists>db'. finishFailure cap (sample_ctx m ob) (sample_claim st) f status (p, sample_claimed) = (Inr (), (p, db'))"
  "\<exists>db'. succeed cap (sample_ctx m ob) (sample_claim st) l obs (p, sample_claimed) = (Inr (), (p, db'))"
proof -
  have id: "eventId (envelope (sample_env_at 60 3000) w sn d) = sample_uuid 60" for w sn d
    by (simp add: envelope_def Let_def sample_env_at_def)
  show "\<exists>db'. finishFailure cap (sample_ctx m ob) (sample_claim st) f status (p, sample_claimed) = (Inr (), (p, db'))"
    unfolding finishFailure_def sample_ctx_simps
    by (rule io_write_runs, rule sample_complete_ok) (simp add: failed_event_def id)
  have "\<exists>db'. io_write (complete (sample_env_at 60 3000) sample_fence Succeeded
      (envelope (sample_env_at 60 3000) (sample_claim st) sn d)) (p, sample_claimed) = (Inr (), (p, db'))" for sn d
    by (rule io_write_runs, rule sample_complete_ok) (rule id)
  then show "\<exists>db'. succeed cap (sample_ctx m ob) (sample_claim st) l obs (p, sample_claimed) = (Inr (), (p, db'))"
    by (simp add: succeed_def requiredResource_def)
qed

end
