(* ===== verification/Workflow_Properties.thy ===== *)
theory Workflow_Properties
  imports Workflow_Steps Provider_Samples
begin

section \<open>Correctness of the workflow steps\<close>

text \<open>
  The properties of one step of any of the eight executors, run by \<^verbatim>\<open>runOne\<close> on a claim: what it
  writes, what it asks of the provider, when it may report success, how it retries, and how the
  registry shares its turns.
\<close>

subsection \<open>Steps in the history of the store\<close>

lemma settling_effect:
  assumes "settling X w f" and "f db = Inr db'"
  obtains change where "fenced_write (cxEnv X) (fence_of X w) change db db'"
    "\<And>r. wfOperationId (change r) = wfOperationId r"
  using assms
proof (induction rule: settling.induct)
  case (settling_checkpoint i X w)
  then show ?case using checkpoint_effect settled_fields(1) by metis
next
  case (settling_complete X w st e)
  then show ?case using complete_effect settled_fields(2) by metis
next
  case (settling_exhausted i X w)
  then show ?case using deadLetterWorkflow_effect settled_fields(3) by metis
qed

lemma settling_step:
  assumes "settling X w f" and "f db = Inr db'" and "t \<le> now (cxEnv X)" and "dbNow (cxEnv X) = now (cxEnv X)"
  shows "store_step (t, db) (now (cxEnv X), db')"
  using assms by (induction rule: settling.induct) (auto intro: step_checkpoint step_complete step_exhausted)

lemma fenced_write_lease: "fenced_write E f change db db' \<Longrightarrow> \<exists>row. assertLease E f db = Inr row"
  unfolding fenced_write_def by blast

text \<open>
  C5. A step of any workflow either throws and leaves the store as it was, or performs one method
  of the store, under a lease that is valid at that instant for the token of its claim, and
  changes no other workflow.
\<close>

theorem step_is_one_fenced_write:
  assumes "(cap, execute) \<in> set workflow_executors"
    and "run_claimed cap execute X w (p, db) = (r, (p', db'))"
    and "t \<le> now (cxEnv X)" and "dbNow (cxEnv X) = now (cxEnv X)"
  shows "(\<exists>e. r = Inl e \<and> db' = db) \<or>
    (store_step (t, db) (now (cxEnv X), db') \<and>
     (\<exists>row. assertLease (cxEnv X) (fence_of X w) db = Inr row) \<and>
     (\<forall>op. op \<noteq> operationId (cwCommand w) \<longrightarrow>
        lookup_by wfOperationId op (workflows db') = lookup_by wfOperationId op (workflows db)))"
proof (cases r)
  case (Inl e)
  then show ?thesis
    using lifecycle_capability.step_settles_once [OF executor_capability [OF assms(1)] assms(2)] by simp
next
  case (Inr u)
  then obtain f where f: "settling X w f" "f db = Inr db'"
    using lifecycle_capability.step_settles_once [OF executor_capability [OF assms(1)] assms(2)] by auto
  from settling_effect [OF f] obtain change where wr: "fenced_write (cxEnv X) (fence_of X w) change db db'"
    and keep: "\<And>r. wfOperationId (change r) = wfOperationId r" by blast
  have "lookup_by wfOperationId op (workflows db') = lookup_by wfOperationId op (workflows db)"
    if "op \<noteq> operationId (cwCommand w)" for op
    using fenced_write_row [OF wr keep] that by (metis fence_of_operation)
  then show ?thesis using settling_step [OF f assms(3,4)] fenced_write_lease [OF wr] by blast
qed

theorem step_is_one_fenced_write_witness:
  "\<exists>p' db'. run_claimed create_capability execute_create (sample_ctx accepted_result owned_running)
     (sample_claim Accepted) ([], sample_claimed) = (Inr (), (p', db')) \<and> store_step (2000, sample_claimed) (3000, db')"
proof -
  let ?X = "sample_ctx accepted_result owned_running"
  obtain db' where "progress ?X (sample_claim Accepted) SubmittingCreate no_options ([], sample_claimed) = (Inr (), ([], db'))"
    using sample_progress_runs by blast
  then have run: "run_claimed create_capability execute_create ?X (sample_claim Accepted) ([], sample_claimed) =
      (Inr (), ([], db'))"
    by (simp add: run_claimed_def io_catch_transport_def execute_create_def)
  have "(create_capability, execute_create) \<in> set workflow_executors" by (simp add: workflow_executors_def)
  from step_is_one_fenced_write [OF this run, of 2000] show ?thesis using run by auto
qed

text \<open>A submission the provider cannot answer still reaches it once.\<close>

lemma sample_submit_sent:
  assumes "cwStage w = SubmittingCreate"
    and "run_claimed create_capability execute_create (sample_ctx unavailable ob) w (p, db) = (r, (p', db'))"
  shows "p' = p @ [SubmitCreateInstance (call_context_of w ''create'') (text_of (data_field (cwCommand w) ''imageId''))
    (text_of (data_field (cwCommand w) ''flavorId'')) (build_request_of (cwCommand w)) (ownership create_capability w)]"
proof -
  have "run_claimed create_capability execute_create (sample_ctx unavailable ob) w (p, db) =
      handleProviderError create_capability (sample_ctx unavailable ob) w (transport_error_of Unavailable None)
        (p @ [SubmitCreateInstance (call_context_of w ''create'') (text_of (data_field (cwCommand w) ''imageId''))
           (text_of (data_field (cwCommand w) ''flavorId'')) (build_request_of (cwCommand w))
           (ownership create_capability w)], db)"
    using assms(1)
    by (simp add: run_claimed_def io_catch_transport_def execute_create_def submitCreate_def mutate_def
        io_bind_def io_call_def unavailable_def)
  then show ?thesis using settles_run [OF settles_handleProviderError] assms(2) by metis
qed

text \<open>
  C4. A step asks the provider for at most one change, only in a mutation stage, and the call is
  one its action permits, carries the identity and fencing token of the claim, and names the
  ownership markers the provider has to find on the instance.
\<close>

theorem mutation_submitted_at_most_once:
  assumes "(cap, execute) \<in> set workflow_executors" and "logs_calls sent (cxProvider X)"
    and "run_claimed cap execute X w (p, db) = (r, (p', db'))"
  shows "sent p' = sent p \<or>
    (\<exists>c. sent p' = sent p @ [c] \<and> cwStage w \<in> set (capMutationStages cap) \<and>
       permitted_call (capAction cap) c \<and>
       ccOperationId (call_context c) = operationId (cwCommand w) \<and>
       ccFencingToken (call_context c) = show_int (cwFencingToken w) \<and>
       call_markers c = ownership cap w)"
  using lifecycle_capability.step_mutates_once [OF executor_capability [OF assms(1)] assms(3,2)]
  by (auto simp: call_for_def call_context_of_def Let_def)

theorem mutation_submitted_at_most_once_witness:
  "\<exists>c r db'. run_claimed create_capability execute_create (sample_ctx unavailable owned_running)
     (sample_claim SubmittingCreate) ([], sample_claimed) = (r, ([c], db')) \<and>
     ccOperationId (call_context c) = sample_operation"
proof -
  let ?X = "sample_ctx unavailable owned_running"
  obtain r p' db' where run: "run_claimed create_capability execute_create ?X (sample_claim SubmittingCreate)
      ([], sample_claimed) = (r, (p', db'))" by (metis surj_pair)
  have ex: "(create_capability, execute_create) \<in> set workflow_executors" by (simp add: workflow_executors_def)
  have logs: "logs_calls (\<lambda>p. p) (cxProvider ?X)" by (simp add: logs_calls_def answering_def)
  have "p' \<noteq> []"
    using sample_submit_sent [OF _ run] by simp
  then show ?thesis using mutation_submitted_at_most_once [OF ex logs run] run by auto
qed

text \<open>
  Idempotent request ids: two steps of the same stage of the same command, whatever their
  attempts, workers and tokens, present the same request id to the provider, and that id starts
  with the operation id.
\<close>

theorem mutation_request_id_is_stable:
  assumes "(cap, execute) \<in> set workflow_executors"
    and "logs_calls sent (cxProvider X)" and "logs_calls sent (cxProvider X')"
    and "run_claimed cap execute X w (p, db) = (r, (p1, db1))" and "sent p1 = sent p @ [c]"
    and "run_claimed cap execute X' w' (p', db') = (r', (p1', db1'))" and "sent p1' = sent p' @ [c']"
    and "cwCommand w' = cwCommand w" and "cwStage w' = cwStage w"
  shows "ccRequestId (call_context c') = ccRequestId (call_context c) \<and>
    (\<exists>step. ccRequestId (call_context c) = operationId (cwCommand w) @ '':'' @ step)"
proof -
  note once = lifecycle_capability.step_mutates_once [OF executor_capability [OF assms(1)]]
  have "call_for cap w c" using once [OF assms(4,2)] assms(5) by auto
  moreover have "call_for cap w' c'" using once [OF assms(6,3)] assms(7) by auto
  ultimately show ?thesis using assms(8,9) by (simp add: call_for_def call_context_of_def Let_def)
qed

theorem mutation_request_id_is_stable_witness:
  "\<exists>c c'. ccRequestId (call_context c') = ccRequestId (call_context c) \<and>
     ccFencingToken (call_context c) = ''1'' \<and> ccFencingToken (call_context c') = ''2''"
proof -
  let ?X = "sample_ctx unavailable owned_running" and ?w = "sample_claim SubmittingCreate"
  let ?w' = "?w\<lparr>cwFencingToken := 2, cwAttempt := 3\<rparr>"
  define c where "c = SubmitCreateInstance (call_context_of ?w ''create'') (text_of (data_field (cwCommand ?w) ''imageId''))
    (text_of (data_field (cwCommand ?w) ''flavorId'')) (build_request_of (cwCommand ?w)) (ownership create_capability ?w)"
  define c' where "c' = SubmitCreateInstance (call_context_of ?w' ''create'') (text_of (data_field (cwCommand ?w') ''imageId''))
    (text_of (data_field (cwCommand ?w') ''flavorId'')) (build_request_of (cwCommand ?w')) (ownership create_capability ?w')"
  obtain r p1 db1 where run: "run_claimed create_capability execute_create ?X ?w ([], sample_claimed) = (r, (p1, db1))"
    by (metis surj_pair)
  obtain r' p1' db1' where run': "run_claimed create_capability execute_create ?X ?w' ([], sample_claimed) = (r', (p1', db1'))"
    by (metis surj_pair)
  have ex: "(create_capability, execute_create) \<in> set workflow_executors" by (simp add: workflow_executors_def)
  have logs: "logs_calls (\<lambda>p. p) (cxProvider ?X)" by (simp add: logs_calls_def answering_def)
  have sent: "p1 = [] @ [c]" "p1' = [] @ [c']"
    using sample_submit_sent [OF _ run] sample_submit_sent [OF _ run'] by (simp_all add: c_def c'_def)
  have "ccFencingToken (call_context c) = ''1''" "ccFencingToken (call_context c') = ''2''"
    unfolding c_def c'_def by (simp_all add: call_context_of_def Let_def sample_claim_def, code_simp+)
  then show ?thesis
    using mutation_request_id_is_stable [OF ex logs logs run sent(1) run' sent(2)] by auto
qed

subsection \<open>Transport failures\<close>

lemma run_transport:
  assumes "execute X w (p, db) = (Inl (Transport e), (p1, db))"
  shows "run_claimed cap execute X w (p, db) = handleProviderError cap X w e (p1, db)"
  using assms by (simp add: run_claimed_def io_catch_transport_def)

lemma settled_row_steps:
  assumes "store_step\<^sup>*\<^sup>* s s'" and "store_inv (fst s) (snd s)"
    and "lookup_by wfOperationId op (workflows (snd s)) = Some r"
    and "wfStatus r \<in> {''succeeded'', ''manual_review''}"
  shows "lookup_by wfOperationId op (workflows (snd s')) = Some r"
  using assms(1)
proof (induction rule: rtranclp_induct)
  case base
  show ?case by (rule assms(3))
next
  case (step s1 s2)
  then show ?case
    using settled_row_step [of "fst s1" "snd s1" "fst s2" "snd s2" op r] assms(4)
      store_inv_steps [OF step(1) assms(2)] by simp
qed

text \<open>The row a settling failure leaves, in full.\<close>

lemma finishFailure_row:
  assumes "finishFailure cap X w f st (p, db) = (Inr (), (p', db'))"
  shows "p' = p \<and> (\<exists>r. lookup_by wfOperationId (operationId (cwCommand w)) (workflows db') = Some r \<and>
    wfStatus r = completion_name st \<and> wfFailure r = Some (category f, code f, safeMessage f))"
proof -
  let ?e = "failed_event cap (cxEnv X) w f (if st = ManualReview then ''unsafe'' else ''not_required'')"
  have run: "complete (cxEnv X) (fence_of X w) st ?e db = Inr db'" "p' = p"
    using assms by (auto simp: finishFailure_def io_write_def split: sum.splits)
  obtain r where "lookup_by wfOperationId (operationId (cwCommand w)) (workflows db') =
      Some (completed_row (cxEnv X) st ?e r)"
    using fenced_write_row [OF complete_effect [OF run(1)]] by (metis fence_of_operation settled_fields(2))
  then show ?thesis using run(2)
    by (simp add: completed_row_def failure_of_def failed_event_def envelope_def Let_def)
qed

text \<open>
  What the settling write needs besides a valid lease: the identifiers drawn for its event, its
  audit entry and their outbox rows are new.
\<close>

definition new_identifiers :: "env \<Rightarrow> workflow_db \<Rightarrow> bool" where
  "new_identifiers E db \<longleftrightarrow> distinct [uuidAt E 0, uuidAt E 2, uuidAt E 3, uuidAt E 4] \<and>
     {uuidAt E 2, uuidAt E 4} \<inter> set (map obOutboxId (wf_outbox db)) = {} \<and>
     {uuidAt E 0, uuidAt E 3} \<inter> set (map (eventId \<circ> obPayload) (wf_outbox db)) = {} \<and>
     uuidAt E 3 \<notin> set (map aeId (audit_entries db))"

lemma complete_runs:
  assumes "assertLease E f db = Inr row" and "new_identifiers E db" and "eventId e = uuidAt E 0"
  shows "\<exists>db'. complete E f st e db = Inr db'"
  using assms
  by (auto simp: complete_def writeEvent_def writeWorkflowOutbox_def writeServiceAudit_def Let_def
      auditRecordedEvent_def audit_entry_of_def update_workflow_def complete_receipt_def new_identifiers_def
      insert_unique_def image_iff split: option.splits)

lemma complete_refused:
  assumes "assertLease E f db = Inl e"
  shows "complete E f st ev db = Inl e"
  using assms by (simp add: complete_def)

lemma finishFailure_runs:
  assumes "assertLease (cxEnv X) (fence_of X w) db = Inr row" and "new_identifiers (cxEnv X) db"
  shows "\<exists>db'. finishFailure cap X w f st (p, db) = (Inr (), (p, db'))"
proof -
  have "\<exists>db'. complete (cxEnv X) (fence_of X w) st (failed_event cap (cxEnv X) w f comp) db = Inr db'" for comp
    by (rule complete_runs [OF assms]) (simp add: failed_event_def envelope_def Let_def)
  then show ?thesis by (auto simp: finishFailure_def intro: io_write_runs)
qed


text \<open>The sample worker holds the lease of its claim, and its identifiers are new.\<close>

lemma sample_leased: "\<exists>row. assertLease (sample_env_at 60 3000) sample_fence sample_claimed = Inr row"
  by (simp add: assertLease_def sample_claimed_tables sample_fence_def claimed_row_def new_workflow_def sample_env_at_def)

lemma sample_drawn: "distinct [sample_uuid 60, sample_uuid 62, sample_uuid 63, sample_uuid 64]"
  by code_simp

lemma sample_new_identifiers: "new_identifiers (sample_env_at 60 3000) sample_claimed"
  using sample_drawn by (simp add: new_identifiers_def sample_env_at_def sample_claimed_tables)


lemma retry_delay_bounds:
  assumes "0 \<le> r" and "r < 1" and "0 < remaining"
  shows "0 \<le> retry_delay r n remaining \<and> retry_delay r n remaining \<le> remaining \<and>
    retry_delay r n remaining \<le> min RETRY_BACKOFF_CEILING_MS (RETRY_BACKOFF_BASE_MS * 2 ^ nat (n - 1))"
proof -
  define c where "c = min RETRY_BACKOFF_CEILING_MS (RETRY_BACKOFF_BASE_MS * 2 ^ nat (n - 1))"
  have "0 \<le> c" by (simp add: c_def RETRY_BACKOFF_CEILING_MS_def RETRY_BACKOFF_BASE_MS_def)
  then have "0 \<le> r * of_int c" "r * of_int c \<le> of_int c"
    using assms by (auto simp: mult_left_le_one_le)
  then have "0 \<le> \<lfloor>r * of_int c\<rfloor>" "\<lfloor>r * of_int c\<rfloor> \<le> c" by (auto simp: floor_le_iff)
  then show ?thesis using assms unfolding retry_delay_def c_def by linarith
qed

lemma progress_row:
  assumes "progress X w st opts (p, db) = (Inr (), (p', db'))"
  shows "\<exists>r. lookup_by wfOperationId (operationId (cwCommand w)) (workflows db') = Some r \<and>
    wfStage r = stage_name st \<and>
    wfStatus r = (if poNextAttemptAt opts = None then ''running'' else ''retry_wait'') \<and>
    wfNextAttemptAt r = (case poNextAttemptAt opts of None \<Rightarrow> now (cxEnv X) | Some t \<Rightarrow> t) \<and>
    wfStageAttempt r = (case poRetry opts of None \<Rightarrow> 0 | Some retry \<Rightarrow> riAttempt retry) \<and>
    wfRetryStartedAt r = map_option riStartedAt (poRetry opts)"
proof -
  define i where "i = \<lparr>ciFence = fence_of X w, ciStage = st,
        ciProviderResourceId = (if truthy (poProviderResourceId opts) then poProviderResourceId opts
                                else if truthy (cwProviderResourceId w) then cwProviderResourceId w
                                else None),
        ciTaskReference = poTaskReference opts, ciNextAttemptAt = poNextAttemptAt opts,
        ciRetry = poRetry opts, ciEvent = progress_event (cxEnv X) w st opts\<rparr>"
  have "checkpoint (cxEnv X) i db = Inr db'"
    using assms by (auto simp: progress_def io_write_def i_def split: sum.splits)
  then obtain r where "lookup_by wfOperationId (operationId (cwCommand w)) (workflows db') =
      Some (checkpointed (cxEnv X) i r)"
    using fenced_write_row [OF checkpoint_effect] by (metis (full_types) settled_fields(1) i_def
        checkpoint_input.select_convs(1) fence_of_operation)
  then show ?thesis by (simp add: checkpointed_def i_def)
qed

lemma writeWorkflowOutbox_dead_letters:
  "writeWorkflowOutbox oid e tp oc g db = Inr db' \<Longrightarrow> dead_letters db' = dead_letters db"
  by (drule writeWorkflowOutbox_frame) simp

lemma upsert_dead_letter_open:
  "\<exists>d. d \<in> set (upsert_dead_letter eid i t rows) \<and> dlrOriginalEventId d = eventId (dliOriginal i) \<and>
     dlrStatus d = ''open'' \<and> dlrReplayAllowed d = dliReplayAllowed i \<and> dlrAttempts d = dliAttempts i"
proof (cases "eventId (dliOriginal i) \<in> set (map dlrOriginalEventId rows)")
  case True
  then obtain r where "r \<in> set rows" "dlrOriginalEventId r = eventId (dliOriginal i)" by auto
  then have "r\<lparr>dlrDeadLetterEventId := eid, dlrFailureCategory := dliFailureCategory i,
      dlrFailureCode := dliFailureCode i, dlrSafeMessage := dliSafeMessage i,
      dlrAttempts := dliAttempts i, dlrReplayAllowed := dliReplayAllowed i,
      dlrReplayGeneration := dliReplayGeneration i, dlrStatus := ''open'',
      dlrDeadLetteredAt := t\<rparr> \<in> set (upsert_dead_letter eid i t rows)" (is "?d \<in> _")
    using True unfolding upsert_dead_letter_def Let_def update_where_def by (simp add: image_iff) (rule bexI [of _ r]; simp)
  then show ?thesis using \<open>dlrOriginalEventId r = _\<close> by (intro exI [of _ ?d]) simp
next
  case False
  then show ?thesis unfolding upsert_dead_letter_def Let_def
    by simp (rule exI, rule conjI, rule disjI1, rule refl, simp)
qed

lemma writeDeadLetter_open:
  assumes "writeDeadLetter eid oid i t db = Inr db'"
  shows "\<exists>d. d \<in> set (dead_letters db') \<and> dlrOriginalEventId d = eventId (dliOriginal i) \<and>
     dlrStatus d = ''open'' \<and> dlrReplayAllowed d = dliReplayAllowed i \<and> dlrAttempts d = dliAttempts i"
proof -
  have "dead_letters db' = upsert_dead_letter eid i t (dead_letters db)"
    using assms by (auto simp: writeDeadLetter_def dest!: writeWorkflowOutbox_frame)
  then show ?thesis using upsert_dead_letter_open by simp
qed

lemma deadLetterWorkflow_opens:
  assumes "deadLetterWorkflow E i db = Inr db'"
  shows "\<exists>w d. assertLease E (dwFence i) db = Inr w \<and> d \<in> set (dead_letters db') \<and>
    dlrOriginalEventId d = eventId (wfCommand w) \<and> dlrStatus d = ''open'' \<and> dlrReplayAllowed d \<and>
    dlrAttempts d = dwAttempts i"
proof -
  obtain w action command db1 db2 db3 where w: "assertLease E (dwFence i) db = Inr w"
    and c: "lifecycleCommand E (wfCommand w) action = Some command"
    and dl: "writeDeadLetter (uuidAt E 3) (uuidAt E 4)
         \<lparr>dliOriginal = command, dliTraceContext = traceContext (dwEvent i),
          dliFailureCategory = category (dwFailure i), dliFailureCode = dwFailureCode i,
          dliSafeMessage = dwSafeMessage i, dliAttempts = dwAttempts i, dliReplayAllowed = True,
          dliReplayGeneration = wfReplayGeneration w\<rparr> (now E) db1 = Inr db2"
    and audit: "writeServiceAudit (uuidAt E 5) (uuidAt E 6) (dwEvent i) ''provisioning_retry_exhausted''
         ''failed'' (now E) None db2 = Inr db3"
    and rel: "db' = releaseLease E (wfInstanceId w) (dwFence i) db3"
    using assms unfolding deadLetterWorkflow_def by auto
  have "dead_letters db' = dead_letters db2"
    using writeServiceAudit_frame [OF audit] rel by (simp add: releaseLease_def)
  moreover have "command = wfCommand w" using c by (auto simp: lifecycleCommand_def split: if_splits)
  ultimately show ?thesis using writeDeadLetter_open [OF dl] w by auto
qed

lemma retry_exhausted_write:
  assumes "cwStageAttempt w + 1 \<ge> MAXIMUM_RETRY_ATTEMPTS \<or>
    (case cwRetryStartedAt w of None \<Rightarrow> now (cxEnv X) | Some t \<Rightarrow> t) + RETRY_BUDGET_MS - now (cxEnv X) \<le> 0"
  shows "\<exists>i. retryOrDeadLetter cap X w e = io_write (deadLetterWorkflow (cxEnv X) i) \<and>
    dwFence i = fence_of X w \<and> dwAttempts i = cwStageAttempt w + 1"
  unfolding retryOrDeadLetter_def Let_def if_P [OF assms]
  by (intro exI conjI, rule refl, simp_all)

text \<open>
  C7. Bounded retries: a retryable transport failure outside a mutation either spends the policy
  (the eighth failure of the stage, or fifteen minutes since the first), and then the workflow
  fails and an open, replayable dead letter for its command exists; or the workflow waits in the
  same stage, with one more attempt on record, for at most the capped exponential backoff and
  never past the end of the budget.
\<close>

theorem retries_are_bounded:
  assumes "execute X w (p, db) = (Inl (Transport e), (p1, db))"
    and "cwStage w \<notin> set (capMutationStages cap)" and "transportRetryable e"
    and "run_claimed cap execute X w (p, db) = (Inr (), (p', db'))"
    and "n = cwStageAttempt w + 1" and "T = now (cxEnv X)"
    and "started = (case cwRetryStartedAt w of None \<Rightarrow> T | Some t \<Rightarrow> t)"
  shows "\<exists>row. lookup_by wfOperationId (operationId (cwCommand w)) (workflows db') = Some row \<and>
    (if n \<ge> 8 \<or> T \<ge> started + 15 * 60 * 1000
     then wfStatus row = ''failed'' \<and> wfStage row = ''failed'' \<and>
       (\<exists>row0 d. assertLease (cxEnv X) (fence_of X w) db = Inr row0 \<and> d \<in> set (dead_letters db') \<and>
          dlrOriginalEventId d = eventId (wfCommand row0) \<and> dlrStatus d = ''open'' \<and>
          dlrReplayAllowed d \<and> dlrAttempts d = n)
     else wfStatus row = ''retry_wait'' \<and> wfStage row = stage_name (cwStage w) \<and>
       wfStageAttempt row = n \<and> wfRetryStartedAt row = Some started \<and>
       T \<le> wfNextAttemptAt row \<and> wfNextAttemptAt row \<le> started + 15 * 60 * 1000 \<and>
       wfNextAttemptAt row \<le> T + min 30000 (500 * 2 ^ nat (n - 1)))"
proof -
  have run: "retryOrDeadLetter cap X w e (p1, db) = (Inr (), (p', db'))"
    using assms(2-4) run_transport [of execute, OF assms(1)] by (simp add: handleProviderError_def)
  show ?thesis
  proof (cases "n \<ge> 8 \<or> T \<ge> started + 15 * 60 * 1000")
    case True
    then have "cwStageAttempt w + 1 \<ge> MAXIMUM_RETRY_ATTEMPTS \<or>
        (case cwRetryStartedAt w of None \<Rightarrow> now (cxEnv X) | Some t \<Rightarrow> t) + RETRY_BUDGET_MS - now (cxEnv X) \<le> 0"
      unfolding MAXIMUM_RETRY_ATTEMPTS_def RETRY_BUDGET_MS_def using assms(5-7)
      by (auto split: option.splits)
    from retry_exhausted_write [OF this, of cap e] obtain i where
        written: "retryOrDeadLetter cap X w e = io_write (deadLetterWorkflow (cxEnv X) i)"
        and i12: "dwFence i = fence_of X w" "dwAttempts i = cwStageAttempt w + 1"
      by blast
    have i: "dwFence i = fence_of X w" "dwAttempts i = n" "deadLetterWorkflow (cxEnv X) i db = Inr db'"
      using run i12 assms(5) unfolding written by (auto simp: io_write_def split: sum.splits)
    obtain row where "lookup_by wfOperationId (operationId (cwCommand w)) (workflows db') =
        Some (dead_lettered_row (cxEnv X) i row)"
      using fenced_write_row [OF deadLetterWorkflow_effect [OF i(3)]] i(1) by (metis fence_of_operation settled_fields(3))
    then show ?thesis using True deadLetterWorkflow_opens [OF i(3)] i(1,2) by (auto simp: dead_lettered_row_def)
  next
    case False
    then have remaining: "0 < started + RETRY_BUDGET_MS - T" by (simp add: RETRY_BUDGET_MS_def)
    obtain r where r: "0 \<le> r" "r < 1"
      and prog: "progress X w (cwStage w)
        (no_options\<lparr>poNextAttemptAt := Some (T + retry_delay r n (started + RETRY_BUDGET_MS - T)),
           poOperationState := ''retry_wait'', poRetry := Some \<lparr>riAttempt = n, riStartedAt = started,
             riErrorCategory = ''provider_transport'', riErrorCode = transport_name (transportCode e)\<rparr>\<rparr>)
        (p1, db) = (Inr (), (p', db'))"
      using run False assms(5-7) unfolding retryOrDeadLetter_def Let_def MAXIMUM_RETRY_ATTEMPTS_def RETRY_BUDGET_MS_def
      by (auto simp: io_throw_def not_less not_le split: option.splits if_splits)
    show ?thesis
      using progress_row [OF prog] False retry_delay_bounds [OF r remaining, of n]
      by (auto simp: RETRY_BACKOFF_CEILING_MS_def RETRY_BACKOFF_BASE_MS_def RETRY_BUDGET_MS_def)
  qed
qed

theorem retries_are_bounded_witness:
  "\<exists>p' db' row. run_claimed create_capability execute_create (sample_ctx accepted_result unavailable)
     (sample_claim Observing) ([], sample_claimed) = (Inr (), (p', db')) \<and>
     lookup_by wfOperationId sample_operation (workflows db') = Some row \<and> wfStatus row = ''retry_wait'' \<and>
     3000 \<le> wfNextAttemptAt row \<and> wfNextAttemptAt row \<le> 3500"
proof -
  let ?X = "sample_ctx accepted_result unavailable" and ?w = "sample_claim Observing"
  let ?e = "transport_error_of Unavailable None"
  have ex: "execute_create ?X ?w ([], sample_claimed) = (Inl (Transport ?e), ([], sample_claimed))"
    by (simp add: execute_create_def observe_def observe_instance_def instance_request_of_def requiredResource_def
        io_bind_def io_return_def io_call_def unavailable_def)
  have "\<exists>opts. retryOrDeadLetter create_capability ?X ?w ?e = progress ?X ?w (cwStage ?w) opts"
    by (simp add: retryOrDeadLetter_def Let_def MAXIMUM_RETRY_ATTEMPTS_def RETRY_BUDGET_MS_def
        sample_env_at_def [of 60 3000, THEN arg_cong, of random]) blast
  then obtain db' where "retryOrDeadLetter create_capability ?X ?w ?e ([], sample_claimed) = (Inr (), ([], db'))"
    using sample_progress_runs by metis
  then have run: "run_claimed create_capability execute_create ?X ?w ([], sample_claimed) = (Inr (), ([], db'))"
    unfolding run_transport [of execute_create, OF ex]
    by (simp add: handleProviderError_def set_mutation_stages transport_error_of_def)
  have "\<exists>row. lookup_by wfOperationId sample_operation (workflows db') = Some row \<and> wfStatus row = ''retry_wait'' \<and>
      3000 \<le> wfNextAttemptAt row \<and> wfNextAttemptAt row \<le> 3500"
    using retries_are_bounded [of execute_create, OF ex _ _ run refl refl refl]
    by (auto simp: set_mutation_stages transport_error_of_def)
  then show ?thesis using run by blast
qed

subsection \<open>The stage machine\<close>

lemma stage_move_progress:
  assumes "stage_move a s t status"
  shows "STAGE_PROGRESS_PERCENT (Live s) < STAGE_PROGRESS_PERCENT t \<or> (t = Live s \<and> status = ''retry_wait'')"
proof -
  have "STAGE_PROGRESS_PERCENT (Live s) < 100" using stage_progress_bounds [of "Live s"] by auto
  with assms show ?thesis by (cases rule: stage_move.cases) (auto dest: advance_raises_progress)
qed

text \<open>
  C6. Refinement of the stage machine: every step that returns moves the persisted workflow along
  the stage graph of its action, with the status that belongs to the move; the progress shown
  for it grows with every move but a scheduled wait in the same stage.
\<close>

theorem step_refines_stage_machine:
  assumes "(cap, execute) \<in> set workflow_executors"
    and "run_claimed cap execute X w (p, db) = (Inr (), (p', db'))"
  shows "\<exists>row t. lookup_by wfOperationId (operationId (cwCommand w)) (workflows db') = Some row \<and>
    wfStage row = persisted_name t \<and> stage_move (capAction cap) (cwStage w) t (wfStatus row) \<and>
    (STAGE_PROGRESS_PERCENT (Live (cwStage w)) < STAGE_PROGRESS_PERCENT t \<or>
     (t = Live (cwStage w) \<and> wfStatus row = ''retry_wait''))"
  using staged_capability.step_moves [OF executor_stages [OF assms(1)] assms(2)] stage_move_progress
  unfolding moved_def by blast

theorem step_refines_stage_machine_witness:
  "\<exists>p' db' row t. run_claimed create_capability execute_create (sample_ctx accepted_result owned_running)
     (sample_claim Accepted) ([], sample_claimed) = (Inr (), (p', db')) \<and>
     lookup_by wfOperationId sample_operation (workflows db') = Some row \<and>
     wfStage row = persisted_name t \<and> stage_move CreateInstance Accepted t (wfStatus row)"
proof -
  let ?X = "sample_ctx accepted_result owned_running"
  obtain db' where "progress ?X (sample_claim Accepted) SubmittingCreate no_options ([], sample_claimed) = (Inr (), ([], db'))"
    using sample_progress_runs by blast
  then have run: "run_claimed create_capability execute_create ?X (sample_claim Accepted) ([], sample_claimed) =
      (Inr (), ([], db'))"
    by (simp add: run_claimed_def io_catch_transport_def execute_create_def)
  have "(create_capability, execute_create) \<in> set workflow_executors" by (simp add: workflow_executors_def)
  from step_refines_stage_machine [OF this run] show ?thesis using run by auto
qed

subsection \<open>Evidence\<close>

text \<open>The question a workflow asks the provider about its instance.\<close>

definition asked_about :: "capability \<Rightarrow> claimed_workflow \<Rightarrow> instance_request \<Rightarrow> bool" where
  "asked_about cap w req \<longleftrightarrow>
     irOwnershipMarkers req = ownership cap w \<and> Some (irProviderResourceId req) = cwProviderResourceId w"

text \<open>
  The answer an action accepts before it reports success, per action. A resize accepts an observation
  without a measured sizing; a retention asks for nothing beyond an owned instance; a purge takes
  every answer that does not report the instance as existing, an answer without an observation included;
  a rollback leaves its snapshot in place, so it accepts any listing and rests on its task.
\<close>

definition accepted_observation :: "workflow_action \<Rightarrow> event \<Rightarrow> observation option \<Rightarrow> bool" where
  "accepted_observation a c ob =
     (case a of
        CreateInstance \<Rightarrow> obs_exists ob \<and> obs_owned ob \<and> obs_power ob = Some ObservedRunning
      | PowerInstance \<Rightarrow> obs_exists ob \<and> obs_owned ob \<and>
          obs_power ob = EXPECTED_POWER_STATE (js_string (requestedAction c))
      | ResizeInstance \<Rightarrow> obs_exists ob \<and> obs_owned ob \<and>
          \<not> disagrees (target_resources c) (Option.bind ob onResources)
      | RetainInstance \<Rightarrow> obs_exists ob \<and> obs_owned ob
      | PurgeInstance \<Rightarrow> \<not> obs_exists ob
      | _ \<Rightarrow> False)"

definition accepted_listing :: "workflow_action \<Rightarrow> event \<Rightarrow> string option list \<Rightarrow> bool" where
  "accepted_listing a c names =
     (case a of
        CreateSnapshot \<Rightarrow> Some (text_of (data_field c ''name'')) \<in> set names
      | RollbackSnapshot \<Rightarrow> True
      | DeleteSnapshot \<Rightarrow> Some (text_of (data_field c ''providerSnapshotReference'')) \<notin> set names
      | _ \<Rightarrow> False)"

definition evidence :: "capability \<Rightarrow> 'p provider \<Rightarrow> claimed_workflow \<Rightarrow> 'p \<Rightarrow> bool" where
  "evidence cap P w p \<longleftrightarrow>
     (\<exists>req. asked_about cap w req \<and>
        ((\<exists>ob. fst (pvObserve P req p) = Inr ob \<and> accepted_observation (capAction cap) (cwCommand w) ob) \<or>
         (\<exists>names. fst (pvListSnapshots P req p) = Inr names \<and>
            accepted_listing (capAction cap) (cwCommand w) names)))"

lemma row_after_mono: "row_after op m P \<Longrightarrow> (\<And>r. P r \<Longrightarrow> Q r) \<Longrightarrow> row_after op m Q"
  unfolding row_after_def by blast

text \<open>A computation that only waits, fails or parks does not report success.\<close>

abbreviation unfinished :: "claimed_workflow \<Rightarrow> ('p, unit) io \<Rightarrow> bool" where
  "unfinished w m \<equiv> row_after (operationId (cwCommand w)) m (\<lambda>r. wfStatus r \<noteq> ''succeeded'')"

lemma unfinished_manualReview [intro]: "unfinished w (manualReview cap X w f)"
  unfolding manualReview_def by (rule row_after_finishFailure) auto

lemma unfinished_progress [intro]: "unfinished w (progress X w st opts)"
  unfolding row_after_def
proof (intro allI impI)
  fix p db p' db'
  assume "progress X w st opts (p, db) = (Inr (), (p', db'))"
  from progress_row [OF this]
  show "\<exists>r. lookup_by wfOperationId (operationId (cwCommand w)) (workflows db') = Some r \<and> wfStatus r \<noteq> ''succeeded''"
    by (auto split: if_splits)
qed

lemma unfinished_handleProviderError: "unfinished w (handleProviderError cap X w e)"
proof -
  have "moved ReconcileInstance s r \<Longrightarrow> wfStatus r \<noteq> ''succeeded''" for s r
    by (auto simp: moved_def stage_successors_def elim: stage_moveE)
  with moves_handleProviderError show ?thesis by (rule row_after_mono)
qed

lemma unfinishedD:
  assumes "unfinished w m" and "m (p, db) = (Inr (), (p', db'))"
    and "lookup_by wfOperationId (operationId (cwCommand w)) (workflows db') = Some r"
  shows "wfStatus r \<noteq> ''succeeded''"
  using row_afterD [OF assms(1,2)] assms(3) by auto

lemma instance_request_run:
  assumes "instance_request_of cap w step k (p, db) = (Inr (), (p', db'))"
  obtains req where "asked_about cap w req" "k req (p, db) = (Inr (), (p', db'))"
proof -
  obtain rid where rid: "cwProviderResourceId w = Some rid" "rid \<noteq> []"
    using assms unfolding instance_request_of_def requiredResource_def
    by (cases "cwProviderResourceId w") (auto simp: io_throw_def split: if_splits)
  let ?req = "\<lparr>irContext = call_context_of w step, irProviderResourceId = rid, irOwnershipMarkers = ownership cap w\<rparr>"
  have "k ?req (p, db) = (Inr (), (p', db'))"
    using assms rid by (simp add: instance_request_of_def requiredResource_def)
  then show ?thesis using that [of ?req] rid by (simp add: asked_about_def)
qed

lemma observe_instance_run:
  assumes "observe_instance cap X w step k (p, db) = (Inr (), (p', db'))"
  obtains req ob p1 where "asked_about cap w req" "pvObserve (cxProvider X) req p = (Inr ob, p1)"
    "k ob (p1, db) = (Inr (), (p', db'))"
  using assms unfolding observe_instance_def
proof (rule instance_request_run)
  fix req
  assume req: "asked_about cap w req"
    and "io_bind (io_call (pvObserve (cxProvider X) req)) k (p, db) = (Inr (), (p', db'))"
  from this(2) show thesis by (rule io_call_bind_cases) (use that req in \<open>auto\<close>)
qed

text \<open>An observing stage reports success only on an observation that its condition accepts.\<close>

lemma observe_instance_evidence:
  assumes run: "observe_instance cap X w step k (p, db) = (Inr (), (p', db'))"
    and row: "lookup_by wfOperationId (operationId (cwCommand w)) (workflows db') = Some r"
    and succ: "wfStatus r = ''succeeded''"
    and reject: "\<And>ob. \<not> accepted_observation (capAction cap) (cwCommand w) ob \<Longrightarrow> unfinished w (k ob)"
  shows "evidence cap (cxProvider X) w p"
  using run
proof (rule observe_instance_run)
  fix req ob p1
  assume a: "asked_about cap w req" "pvObserve (cxProvider X) req p = (Inr ob, p1)"
    "k ob (p1, db) = (Inr (), (p', db'))"
  have "accepted_observation (capAction cap) (cwCommand w) ob"
    using unfinishedD [OF reject a(3) row] succ by blast
  then show ?thesis using a by (auto simp: evidence_def)
qed

lemma list_snapshots_evidence:
  assumes run: "instance_request_of cap w step (\<lambda>req. io_bind (io_call (pvListSnapshots (cxProvider X) req)) k)
      (p, db) = (Inr (), (p', db'))"
    and row: "lookup_by wfOperationId (operationId (cwCommand w)) (workflows db') = Some r"
    and succ: "wfStatus r = ''succeeded''"
    and reject: "\<And>names. \<not> accepted_listing (capAction cap) (cwCommand w) names \<Longrightarrow>
      unfinished w (k names)"
  shows "evidence cap (cxProvider X) w p"
  using run
proof (rule instance_request_run)
  fix req
  assume req: "asked_about cap w req"
    and "io_bind (io_call (pvListSnapshots (cxProvider X) req)) k (p, db) = (Inr (), (p', db'))"
  from this(2) show ?thesis
  proof (rule io_call_bind_cases)
    fix names p1
    assume a: "pvListSnapshots (cxProvider X) req p = (Inr names, p1)" "k names (p1, db) = (Inr (), (p', db'))"
    have "accepted_listing (capAction cap) (cwCommand w) names"
      using unfinishedD [OF reject a(2) row] succ by blast
    then show ?thesis using a req by (auto simp: evidence_def)
  qed simp
qed

lemma observing_stages:
  "(cap, execute) \<in> set workflow_executors \<Longrightarrow>
     Terminal StageCompleted \<in> set (stage_successors (capAction cap) s) \<Longrightarrow>
     (case capAction cap of CreateInstance \<Rightarrow> s = Observing | PowerInstance \<Rightarrow> s = ObservingPower
      | ResizeInstance \<Rightarrow> s = ObservingResize | RetainInstance \<Rightarrow> s = ObservingRetention
      | PurgeInstance \<Rightarrow> s = VerifyingPurge \<or> s = ObservingPurge | _ \<Rightarrow> s = ObservingSnapshot)"
  by (cases "capAction cap"; cases s) (auto simp: stage_successors_def single_mutation_def workflow_executors_def)

lemma execute_evidence:
  assumes "(cap, execute) \<in> set workflow_executors"
    and run: "execute X w (p, db) = (Inr (), (p', db'))"
    and row: "lookup_by wfOperationId (operationId (cwCommand w)) (workflows db') = Some r"
    and succ: "wfStatus r = ''succeeded''"
    and stage: "Terminal StageCompleted \<in> set (stage_successors (capAction cap) (cwStage w))"
  shows "evidence cap (cxProvider X) w p"
proof -
  note obs = observe_instance_evidence [OF _ row succ]
  note at_stage = observing_stages [OF assms(1) stage]
  consider "cap = create_capability" "execute = execute_create" | "cap = power_capability" "execute = execute_power"
    | "cap = resize_capability" "execute = execute_resize"
    | a where "cap = snapshot_capability a" "execute = execute_snapshot a"
    | "cap = retain_capability" "execute = execute_retain" | "cap = purge_capability" "execute = execute_purge"
    using assms(1) unfolding workflow_executors_def by auto
  then show ?thesis
  proof cases
    case 1
    with run at_stage have "observe X w (p, db) = (Inr (), (p', db'))" by (simp add: execute_create_def)
    then show ?thesis unfolding observe_def 1 by (rule obs) (auto simp: accepted_observation_def)
  next
    case 2
    with run at_stage have "observePower X w (p, db) = (Inr (), (p', db'))" by (simp add: execute_power_def)
    then show ?thesis unfolding observePower_def 2 Let_def by (rule obs) (auto simp: accepted_observation_def)
  next
    case 3
    with run at_stage have "observeResize X w (p, db) = (Inr (), (p', db'))" by (simp add: execute_resize_def)
    then show ?thesis unfolding observeResize_def 3 by (rule obs) (auto simp: accepted_observation_def)
  next
    case (4 a)
    with run at_stage have "observeSnapshot a X w (p, db) = (Inr (), (p', db'))"
      by (cases a) (auto simp: execute_snapshot_def)
    then show ?thesis unfolding observeSnapshot_def 4 Let_def
      by (rule list_snapshots_evidence [OF _ row succ])
        (cases a; auto simp: accepted_listing_def snapshot_satisfied_def expectedName_def Let_def)
  next
    case 5
    with run at_stage have "observeRetention X w (p, db) = (Inr (), (p', db'))" by (simp add: execute_retain_def)
    then show ?thesis unfolding observeRetention_def 5 by (rule obs) (auto simp: accepted_observation_def)
  next
    case 6
    with run at_stage consider "verifyOwnership X w (p, db) = (Inr (), (p', db'))"
      | "observeAbsence X w (p, db) = (Inr (), (p', db'))" by (auto simp: execute_purge_def)
    then show ?thesis
    proof cases
      case 1
      then show ?thesis unfolding verifyOwnership_def 6 by (rule obs) (auto simp: accepted_observation_def)
    next
      case 2
      then show ?thesis unfolding observeAbsence_def 6 by (rule obs) (auto simp: accepted_observation_def)
    qed
  qed
qed

lemma row_after_succeed:
  "row_after (operationId (cwCommand w)) (succeed cap X w l ob) (\<lambda>r. wfStatus r = ''succeeded'')"
proof -
  have "row_after (operationId (cwCommand w)) (io_write (complete (cxEnv X) (fence_of X w) Succeeded e))
      (\<lambda>r. wfStatus r = ''succeeded'')" for e
    by (rule row_after_write, erule complete_effect) (auto simp: completed_row_def)
  then show ?thesis unfolding succeed_def requiredResource_def by auto
qed

text \<open>
  C2. A step leaves its workflow as succeeded only if it asked the provider about this very resource in
  this very step, under the markers of the operation, and the answer was one the action accepts: owned
  and running after a create; owned and in the requested power state; owned and not measured at another
  size; owned after a retention; a listing with the created or without the deleted snapshot, and any
  listing after a rollback; and for a purge an answer that does not report the instance as existing.
\<close>

theorem success_needs_evidence:
  assumes "(cap, execute) \<in> set workflow_executors"
    and "run_claimed cap execute X w (p, db) = (Inr (), (p', db'))"
    and "lookup_by wfOperationId (operationId (cwCommand w)) (workflows db') = Some r"
    and "wfStatus r = ''succeeded''"
  shows "evidence cap (cxProvider X) w p"
proof -
  have "moved (capAction cap) (cwStage w) r"
    using staged_capability.step_moves [OF executor_stages [OF assms(1)] assms(2)] assms(3) by auto
  then have stage: "Terminal StageCompleted \<in> set (stage_successors (capAction cap) (cwStage w))"
    using assms(4) by (auto simp: moved_def elim: stage_moveE)
  show ?thesis
    using assms(2)
  proof (rule lifecycle_capability.run_cases [OF executor_capability [OF assms(1)]])
    assume "execute X w (p, db) = (Inr (), (p', db'))"
    then show ?thesis by (rule execute_evidence [OF assms(1) _ assms(3,4) stage])
  next
    fix e p1
    assume "handleProviderError cap X w e (p1, db) = (Inr (), (p', db'))"
    from unfinishedD [OF unfinished_handleProviderError this assms(3)] assms(4) show ?thesis by contradiction
  qed
qed

theorem success_needs_evidence_witness:
  "evidence create_capability (cxProvider (sample_ctx accepted_result owned_running)) (sample_claim Observing) []"
proof -
  let ?X = "sample_ctx accepted_result owned_running" and ?w = "sample_claim Observing"
  obtain db' where s: "succeed create_capability ?X ?w ''active'' (Some (observedState (sample_env_at 60 3000)
      (Some \<lparr>onExists = Some True, onPowerState = Some ObservedRunning, onResources = None,
        onOwnership = Some \<lparr>ooComplete = Some True, ooMatch = Some True\<rparr>, onObservedAt = None\<rparr>)))
      ([], sample_claimed) = (Inr (), ([], db'))"
    using sample_settle_runs(2) by blast
  then have run: "run_claimed create_capability execute_create ?X ?w ([], sample_claimed) = (Inr (), ([], db'))"
    by (simp add: run_claimed_def io_catch_transport_def execute_create_def observe_def observe_instance_def
        instance_request_of_def requiredResource_def io_bind_def io_return_def io_call_def owned_running_def
        obs_exists_def obs_owned_def obs_power_def is_true_def)
  from row_afterD [OF row_after_succeed s] obtain r where
    r: "lookup_by wfOperationId (operationId (cwCommand ?w)) (workflows db') = Some r" "wfStatus r = ''succeeded''" by blast
  have "(create_capability, execute_create) \<in> set workflow_executors" by (simp add: workflow_executors_def)
  from success_needs_evidence [OF this run r] show ?thesis .
qed

text \<open>A verified owner: the observation that lets a purge proceed.\<close>

definition verified_owner :: "'p ctx \<Rightarrow> claimed_workflow \<Rightarrow> 'p \<Rightarrow> bool" where
  "verified_owner X w p \<longleftrightarrow>
     (\<exists>req ob. asked_about purge_capability w req \<and> fst (pvObserve (cxProvider X) req p) = Inr ob \<and>
        obs_exists ob \<and> obs_owned ob)"

lemma purge_executor:
  "(cap, execute) \<in> set workflow_executors \<Longrightarrow> capAction cap = PurgeInstance \<Longrightarrow>
     cap = purge_capability \<and> execute = execute_purge"
  unfolding workflow_executors_def by auto

lemma not_runningD:
  assumes "moves a s w m" and "m (p, db) = (Inr (), (p', db'))"
    and "lookup_by wfOperationId (operationId (cwCommand w)) (workflows db') = Some r"
    and "set (stage_successors a s) \<subseteq> {Terminal StageCompleted}"
  shows "wfStatus r \<noteq> ''running''"
  using row_afterD [OF assms(1,2)] assms(3,4) by (auto simp: moved_def elim!: stage_moveE)

lemma verifyOwnership_row:
  assumes "verifyOwnership X w (p, db) = (Inr (), (p', db'))"
    and "lookup_by wfOperationId (operationId (cwCommand w)) (workflows db') = Some r"
    and "wfStatus r = ''running''"
  shows "verified_owner X w p"
  using assms(1) unfolding verifyOwnership_def
proof (rule observe_instance_run)
  fix req ob p1
  assume a: "asked_about purge_capability w req" "pvObserve (cxProvider X) req p = (Inr ob, p1)"
    and k: "(if \<not> obs_exists ob then completePurge X w
      else if \<not> obs_owned ob
      then manualReview purge_capability X w (plain_failure ''manual_review'' ''PURGE_OWNERSHIP_NOT_PROVEN''
             ''Live provider ownership could not be proven; the purge was not attempted.'')
      else progress X w SubmittingPurge no_options) (p1, db) = (Inr (), (p', db'))"
  have "moves PurgeInstance ObservingPurge w (completePurge X w)"
    unfolding completePurge_def by (rule moves_succeed) (simp add: successors)
  moreover have "moves PurgeInstance ObservingPurge w (manualReview purge_capability X w f)" for f
    by (rule moves_manualReview)
  moreover have idle: "\<not> moves PurgeInstance ObservingPurge w m" if "m (p1, db) = (Inr (), (p', db'))" for m
  proof
    assume "moves PurgeInstance ObservingPurge w m"
    from not_runningD [OF this that assms(2)] assms(3) show False by (simp add: successors)
  qed
  ultimately have "obs_exists ob \<and> obs_owned ob"
    using k by (auto split: if_splits dest: idle)
  then show ?thesis using a by (auto simp: verified_owner_def)
qed

text \<open>
  C3. Purge is gated: a purge call is sent only from the submission stage of a purge workflow, and a
  workflow enters that stage only in a step that observed the instance at the provider, present
  and carrying the complete and matching ownership markers.
\<close>

theorem purge_needs_proven_ownership:
  assumes "(cap, execute) \<in> set workflow_executors"
    and "run_claimed cap execute X w (p, db) = (Inr (), (p', db'))"
    and "logs_calls sent (cxProvider X)"
    and "lookup_by wfOperationId (operationId (cwCommand w)) (workflows db') = Some r"
  shows "(\<forall>req a d. sent p' = sent p @ [PurgeInstanceCall req a d] \<longrightarrow>
      cap = purge_capability \<and> cwStage w = SubmittingPurge) \<and>
    (wfStage r = stage_name SubmittingPurge \<and> cwStage w \<noteq> SubmittingPurge \<longrightarrow>
      cap = purge_capability \<and> cwStage w = VerifyingPurge \<and>
      (\<exists>req ob. asked_about cap w req \<and> fst (pvObserve (cxProvider X) req p) = Inr ob \<and>
         obs_exists ob \<and> obs_owned ob))"
proof (intro conjI allI impI)
  fix req a d
  assume "sent p' = sent p @ [PurgeInstanceCall req a d]"
  then have call: "call_for cap w (PurgeInstanceCall req a d)" "cwStage w \<in> set (capMutationStages cap)"
    using lifecycle_capability.step_mutates_once [OF executor_capability [OF assms(1)] assms(2,3)] by auto
  show "cap = purge_capability"
    using call(1) assms(1) by (auto simp: call_for_def permitted_call_def workflow_executors_def)
  then show "cwStage w = SubmittingPurge" using call(2) by (simp add: set_mutation_stages)
next
  assume enters: "wfStage r = stage_name SubmittingPurge \<and> cwStage w \<noteq> SubmittingPurge"
  obtain t where t: "wfStage r = persisted_name t" "stage_move (capAction cap) (cwStage w) t (wfStatus r)"
    using staged_capability.step_moves [OF executor_stages [OF assms(1)] assms(2)] assms(4) by (auto simp: moved_def)
  have "terminal_name u \<noteq> ''submitting_purge''" for u by (cases u) simp_all
  then have "t = Live SubmittingPurge" using t enters by (cases t rule: STAGE_PROGRESS_PERCENT.cases) auto
  then have "Live SubmittingPurge \<in> set (stage_successors (capAction cap) (cwStage w))"
    and not_wait: "wfStatus r = ''running''"
    using t(2) enters by (auto elim: stage_moveE)
  then have here: "capAction cap = PurgeInstance \<and> cwStage w = VerifyingPurge"
    by (cases "capAction cap"; cases "cwStage w") (auto simp: successors)
  note purge = purge_executor [OF assms(1) conjunct1 [OF here]]
  show "cap = purge_capability" using purge by blast
  then have "verified_owner X w p" if "execute X w (p, db) = (Inr (), (p', db'))"
    using verifyOwnership_row [of X w p db p' db' r] that purge assms(4) here not_wait
    by (simp add: execute_purge_def)
  moreover have False if "handleProviderError cap X w e (p1, db) = (Inr (), (p', db'))" for e p1
    using not_runningD [OF moves_handleProviderError [where a = ReconcileInstance] that assms(4)] not_wait
    by (simp add: stage_successors_def)
  ultimately have "verified_owner X w p"
    using lifecycle_capability.run_cases [OF executor_capability [OF assms(1)] assms(2)] by blast
  then show "\<exists>req ob. asked_about cap w req \<and> fst (pvObserve (cxProvider X) req p) = Inr ob \<and>
      obs_exists ob \<and> obs_owned ob"
    using \<open>cap = purge_capability\<close> by (simp add: verified_owner_def)
  show "cwStage w = VerifyingPurge" using here by blast
qed

theorem purge_needs_proven_ownership_witness:
  "\<exists>p' db' r. run_claimed purge_capability execute_purge (sample_ctx accepted_result owned_running)
     (sample_claim VerifyingPurge) ([], sample_claimed) = (Inr (), (p', db')) \<and>
     lookup_by wfOperationId sample_operation (workflows db') = Some r \<and>
     wfStage r = stage_name SubmittingPurge \<and>
     (\<exists>req ob. asked_about purge_capability (sample_claim VerifyingPurge) req \<and>
        fst (pvObserve (cxProvider (sample_ctx accepted_result owned_running)) req []) = Inr ob \<and> obs_owned ob)"
proof -
  let ?X = "sample_ctx accepted_result owned_running" and ?w = "sample_claim VerifyingPurge"
  obtain db' where s: "progress ?X ?w SubmittingPurge no_options ([], sample_claimed) = (Inr (), ([], db'))"
    using sample_progress_runs by blast
  then have run: "run_claimed purge_capability execute_purge ?X ?w ([], sample_claimed) = (Inr (), ([], db'))"
    by (simp add: run_claimed_def io_catch_transport_def execute_purge_def verifyOwnership_def observe_instance_def
        instance_request_of_def requiredResource_def io_bind_def io_return_def io_call_def owned_running_def
        obs_exists_def obs_owned_def is_true_def)
  obtain r where r: "lookup_by wfOperationId (operationId (cwCommand ?w)) (workflows db') = Some r"
      "wfStage r = stage_name SubmittingPurge"
    using progress_row [OF s] by blast
  have ex: "(purge_capability, execute_purge) \<in> set workflow_executors" by (simp add: workflow_executors_def)
  have logs: "logs_calls (\<lambda>p. p) (cxProvider ?X)" by (simp add: logs_calls_def answering_def)
  from purge_needs_proven_ownership [OF ex run logs r(1)] r run show ?thesis by auto
qed

lemma complete_publishes:
  assumes "complete E f st e db = Inr db'"
  shows "e \<in> obPayload ` set (wf_outbox db')"
  using assms
  by (auto simp: complete_def writeEvent_def writeWorkflowOutbox_def writeServiceAudit_def Let_def res_bind_Inr_iff releaseLease_def
      split: if_split_asm option.split_asm)

lemma succeed_runs:
  assumes "cwProviderResourceId w = Some rid" and "rid \<noteq> []"
    and "assertLease (cxEnv X) (fence_of X w) db = Inr leased" and "new_identifiers (cxEnv X) db"
  shows "\<exists>db' e c. succeed cap X w lifecycle observed (p, db) = (Inr (), (p, db')) \<and> e \<in> obPayload ` set (wf_outbox db') \<and>
    aggregateId e = aggregateId (cwCommand w) \<and> data e = Completed c \<and> complLifecycleState c = lifecycle"
proof -
  let ?c = "\<lparr>complAction = action_name (capAction cap), complLifecycleState = lifecycle,
    complProviderResourceId = Some rid, complEvidenceId = uuidAt (cxEnv X) 1, complObserved = observed\<rparr>"
  let ?e = "envelope (cxEnv X) w ''instance.mutation.completed'' (Completed ?c)"
  obtain db' where run: "complete (cxEnv X) (fence_of X w) Succeeded ?e db = Inr db'"
    using complete_runs [OF assms(3,4), of ?e] by (auto simp: envelope_def Let_def)
  have "succeed cap X w lifecycle observed (p, db) = (Inr (), (p, db'))"
    using assms(1,2) run by (simp add: succeed_def requiredResource_def io_write_def)
  moreover have "aggregateId ?e = aggregateId (cwCommand w)" "data ?e = Completed ?c"
    by (simp_all add: envelope_def Let_def)
  ultimately show ?thesis using complete_publishes [OF run] by (intro exI [of _ db'] exI [of _ ?e] exI [of _ ?c]) simp
qed

text \<open>
  A purge needs no evidence of absence: when the provider answers an observation without saying
  anything about the instance, both the verifying and the observing stage close the workflow as
  succeeded and publish the instance as purged; in the verifying stage no purge has been sent at all.
\<close>

theorem blank_answer_completes_purge:
  assumes "cwStage w \<in> {VerifyingPurge, ObservingPurge}"
    and "cwProviderResourceId w = Some rid" and "rid \<noteq> []"
    and "\<And>req. pvObserve (cxProvider X) req p = (Inr None, p1)"
    and "assertLease (cxEnv X) (fence_of X w) db = Inr leased" and "new_identifiers (cxEnv X) db"
  shows "\<exists>db' row e c. run_claimed purge_capability execute_purge X w (p, db) = (Inr (), (p1, db')) \<and>
    lookup_by wfOperationId (operationId (cwCommand w)) (workflows db') = Some row \<and> wfStatus row = ''succeeded'' \<and>
    e \<in> obPayload ` set (wf_outbox db') \<and> aggregateId e = aggregateId (cwCommand w) \<and>
    data e = Completed c \<and> complLifecycleState c = ''purged''"
proof -
  have "execute_purge X w (p, db) = completePurge X w (p1, db)"
    using assms(1-4) by (auto simp: execute_purge_def verifyOwnership_def observeAbsence_def observe_instance_def
        instance_request_of_def requiredResource_def io_bind_def io_return_def io_call_def obs_exists_def)
  moreover obtain db' e c where closed: "completePurge X w (p1, db) = (Inr (), (p1, db'))" "e \<in> obPayload ` set (wf_outbox db')"
      "aggregateId e = aggregateId (cwCommand w)" "data e = Completed c" "complLifecycleState c = ''purged''"
    unfolding completePurge_def using succeed_runs [OF assms(2,3,5,6)] by metis
  ultimately have run: "run_claimed purge_capability execute_purge X w (p, db) = (Inr (), (p1, db'))"
    by (simp add: run_claimed_def io_catch_transport_def)
  obtain row where "lookup_by wfOperationId (operationId (cwCommand w)) (workflows db') = Some row" "wfStatus row = ''succeeded''"
    using row_afterD [OF row_after_succeed closed(1) [unfolded completePurge_def]] by blast
  with run closed(2-5) show ?thesis by blast
qed

theorem blank_answer_completes_purge_witness:
  "\<exists>db' row. run_claimed purge_capability execute_purge (sample_ctx accepted_result (Inr None)) (sample_claim VerifyingPurge)
     ([], sample_claimed) = (Inr (), ([], db')) \<and>
     lookup_by wfOperationId sample_operation (workflows db') = Some row \<and> wfStatus row = ''succeeded''"
proof -
  let ?X = "sample_ctx accepted_result (Inr None)" and ?w = "sample_claim VerifyingPurge"
  obtain leased where lease: "assertLease (cxEnv ?X) (fence_of ?X ?w) sample_claimed = Inr leased"
    using sample_leased by auto
  have new: "new_identifiers (cxEnv ?X) sample_claimed" using sample_new_identifiers by simp
  from blank_answer_completes_purge [OF _ _ _ _ lease new, of "''vm-100''" "[]" "[]"] show ?thesis by auto
qed

subsection \<open>Workflows without a provider resource\<close>

lemma missing_resource_throws:
  assumes "cwProviderResourceId w = None"
  shows "instance_request_of cap w step k = io_throw (Transport (transport_error_of ProtocolError (Some False)))"
  using assms by (simp add: instance_request_of_def requiredResource_def)

lemma execute_missing_resource:
  assumes "(cap, execute) \<in> set workflow_executors" and "capAction cap \<noteq> CreateInstance"
    and "cwProviderResourceId w = None" and "cwStage w \<in> set (capMutationStages cap)"
  shows "execute X w (p, db) = (Inl (Transport (transport_error_of ProtocolError (Some False))), (p, db))"
  using assms unfolding workflow_executors_def
  by (auto simp: set_mutation_stages execute_power_def submitPower_def execute_resize_def submitResize_def
      execute_snapshot_def submitSnapshot_def execute_retain_def submitRetention_def execute_purge_def submitPurge_def
      missing_resource_throws io_throw_def Let_def)

text \<open>
  C9. A workflow on an existing instance that has no provider resource id never reaches the
  provider with its mutation: the step fails the workflow permanently. A replay reopens every workflow
  without its resource id, so a replayed workflow other than a create ends here.
\<close>

theorem missing_resource_never_reaches_provider:
  assumes "(cap, execute) \<in> set workflow_executors" and "capAction cap \<noteq> CreateInstance"
    and "cwProviderResourceId w = None" and "cwStage w \<in> set (capMutationStages cap)"
    and "run_claimed cap execute X w (p, db) = (Inr (), (p', db'))"
  shows "wfProviderResourceId (reopened c d t r) = None \<and> p' = p \<and>
    (\<exists>row. lookup_by wfOperationId (operationId (cwCommand w)) (workflows db') = Some row \<and>
       wfStatus row = ''failed'' \<and>
       wfFailure row = Some (''permanent'', ''PROVIDER_PROTOCOL_ERROR'', ''The create workflow could not continue safely.''))"
proof -
  note ex = execute_missing_resource [OF assms(1-4), of X p db]
  have "finishFailure cap X w (plain_failure ''permanent'' ''PROVIDER_PROTOCOL_ERROR''
      ''The create workflow could not continue safely.'') CompletionFailed (p, db) = (Inr (), (p', db'))"
    using assms(5) run_transport [of execute, OF ex]
    by (simp add: handleProviderError_def transport_error_of_def fail_def)
  from finishFailure_row [OF this] show ?thesis by (auto simp: plain_failure_def reopened_def)
qed

theorem missing_resource_never_reaches_provider_witness:
  "\<exists>db' row. run_claimed power_capability execute_power (sample_ctx accepted_result owned_running)
     ((sample_claim SubmittingPower)\<lparr>cwProviderResourceId := None\<rparr>) ([], sample_claimed) = (Inr (), ([], db')) \<and>
     lookup_by wfOperationId sample_operation (workflows db') = Some row \<and> wfStatus row = ''failed''"
proof -
  let ?X = "sample_ctx accepted_result owned_running"
  let ?w = "(sample_claim SubmittingPower)\<lparr>cwProviderResourceId := None\<rparr>"
  have ex: "(power_capability, execute_power) \<in> set workflow_executors" by (simp add: workflow_executors_def)
  have same: "finishFailure power_capability ?X ?w f st = finishFailure power_capability ?X (sample_claim SubmittingPower) f st" for f st
    by (simp add: finishFailure_def failed_event_def envelope_def fence_of_def Let_def)
  obtain db' where "finishFailure power_capability ?X (sample_claim SubmittingPower) (plain_failure ''permanent'' ''PROVIDER_PROTOCOL_ERROR''
      ''The create workflow could not continue safely.'') CompletionFailed ([], sample_claimed) = (Inr (), ([], db'))"
    using sample_settle_runs(1) by blast
  then have run: "run_claimed power_capability execute_power ?X ?w ([], sample_claimed) = (Inr (), ([], db'))"
    using run_transport [of execute_power, OF execute_missing_resource [OF ex, of ?w ?X "[]" sample_claimed]]
    by (simp add: set_mutation_stages handleProviderError_def transport_error_of_def fail_def same)
  have "\<exists>row. lookup_by wfOperationId (operationId (cwCommand ?w)) (workflows db') = Some row \<and> wfStatus row = ''failed''"
    using missing_resource_never_reaches_provider [where c = sample_command and d = sample_delivery and t = 0
      and r = sample_failed_row, OF ex _ _ _ run] by (auto simp: set_mutation_stages)
  then show ?thesis using run by auto
qed

subsection \<open>The registry\<close>

text \<open>The reference: run a list of executors in order until one advances a workflow.\<close>

fun run_until :: "'w executor list \<Rightarrow> 'w \<Rightarrow> (exn + nat option) \<times> 'w" where
  "run_until [] w = (Inr None, w)"
| "run_until (x # xs) w =
     (case exRunOne x w of
        (Inl e, w1) \<Rightarrow> (Inl e, w1)
      | (Inr True, w1) \<Rightarrow> (Inr (Some 0), w1)
      | (Inr False, w1) \<Rightarrow>
          (case run_until xs w1 of
             (Inr (Some i), w2) \<Rightarrow> (Inr (Some (Suc i)), w2)
           | res \<Rightarrow> res))"

definition cursor_after :: "nat \<Rightarrow> nat \<Rightarrow> nat \<Rightarrow> (exn + nat option) \<times> 'w \<Rightarrow> (exn + bool) \<times> nat \<times> 'w" where
  "cursor_after n cursor attempt res =
     (case res of
        (Inl e, w) \<Rightarrow> (Inl e, cursor, w)
      | (Inr None, w) \<Rightarrow> (Inr False, cursor, w)
      | (Inr (Some i), w) \<Rightarrow> (Inr True, (cursor + attempt + i + 1) mod n, w))"

lemma registry_scan_run_until:
  assumes "attempt + remaining = length executors"
  shows "registry_scan executors cursor attempt remaining w =
    cursor_after (length executors) cursor attempt (run_until (drop attempt (rotate cursor executors)) w)"
  using assms
proof (induction remaining arbitrary: attempt w)
  case 0
  then show ?case by (simp add: cursor_after_def)
next
  case (Suc k)
  have first: "drop attempt (rotate cursor executors) =
      executors ! ((cursor + attempt) mod length executors) # drop (Suc attempt) (rotate cursor executors)"
    using Suc.prems by (simp add: Cons_nth_drop_Suc [symmetric] nth_rotate)
  show ?case unfolding first
    using Suc.IH [of "Suc attempt"] Suc.prems
    by (auto simp: cursor_after_def Let_def add.commute add.left_commute split: sum.splits bool.splits prod.splits option.splits)
qed

text \<open>
  The registry is a round robin: a turn runs the executors in their order from the cursor
  on, each at most once, stops at the first that advances a workflow and then leaves the cursor
  just past it; when none does, or one throws, the cursor stays.
\<close>

lemma registry_is_round_robin:
  "registry_runOne executors cursor w =
     cursor_after (length executors) cursor 0 (run_until (rotate cursor executors) w)"
  unfolding registry_runOne_def by (subst registry_scan_run_until) simp_all

text \<open>How many executors the registry passes from one position to another.\<close>

definition distance :: "nat \<Rightarrow> nat \<Rightarrow> nat \<Rightarrow> nat" where
  "distance n c j = (if c \<le> j then j - c else j + n - c)"

lemma distance_bounds: "c < n \<Longrightarrow> j < n \<Longrightarrow> distance n c j < n \<and> (c + distance n c j) mod n = j"
  by (auto simp: distance_def)

lemma distance_passed:
  assumes "i < distance n c j" and "c < n" and "j < n"
  shows "distance n ((c + i + 1) mod n) j + i + 1 = distance n c j"
proof (cases "c + i + 1 < n")
  case True
  then show ?thesis using assms by (auto simp: distance_def split: if_splits)
next
  case False
  moreover have "c + i + 1 < 2 * n" using distance_bounds [OF assms(2,3)] assms(1,2) by linarith
  ultimately have "(c + i + 1) mod n = c + i + 1 - n" by (simp add: mod_if)
  then show ?thesis using assms False by (auto simp: distance_def split: if_splits)
qed

text \<open>An executor with a workflow to claim, and an executor that claimed one and ran its stage.\<close>

type_synonym 'p stage_executor = "capability \<times> ('p ctx \<Rightarrow> claimed_workflow \<Rightarrow> ('p, unit) io)"

definition has_due :: "env \<Rightarrow> 'p ctx \<Rightarrow> int \<Rightarrow> 'p stage_executor \<Rightarrow> 'p world \<Rightarrow> bool" where
  "has_due Ec X s x world =
     (case claimNext Ec (cxWorkerId X) s (capAction (fst x)) (snd world) of Inr (Some w, db) \<Rightarrow> True | _ \<Rightarrow> False)"

definition serves :: "env \<Rightarrow> 'p ctx \<Rightarrow> int \<Rightarrow> 'p stage_executor \<Rightarrow> 'p world \<Rightarrow> 'p world \<Rightarrow> bool" where
  "serves Ec X s x before after =
     (case claimNext Ec (cxWorkerId X) s (capAction (fst x)) (snd before) of
        Inr (Some w, db) \<Rightarrow> run_claimed (fst x) (snd x) X w (fst before, db) = (Inr (), after)
      | _ \<Rightarrow> False)"

lemma claimNext_None: "claimNext E worker s action db = Inr (None, db') \<Longrightarrow> db' = db"
  unfolding claimNext_def Let_def by (auto split: if_splits option.splits)

lemma runOne_Inr:
  assumes "runOne (fst x) (snd x) Ec X s world = (Inr b, world')"
  shows "if b then serves Ec X s x world world' else \<not> has_due Ec X s x world \<and> world' = world"
  using assms claimNext_None [of Ec "cxWorkerId X" s "capAction (fst x)" "snd world"]
  by (auto simp: runOne_def serves_def has_due_def io_bind_def io_return_def
      split: sum.splits option.splits prod.splits if_splits)

lemma run_until_Inr:
  assumes "run_until (map (\<lambda>x. \<lparr>exAction = capAction (fst x), exRunOne = runOne (fst x) (snd x) Ec X s\<rparr>) xs) world =
    (Inr res, world')"
  shows "case res of
      None \<Rightarrow> world' = world \<and> (\<forall>x \<in> set xs. \<not> has_due Ec X s x world)
    | Some i \<Rightarrow> i < length xs \<and> serves Ec X s (xs ! i) world world' \<and> (\<forall>k < i. \<not> has_due Ec X s (xs ! k) world)"
  using assms
proof (induction xs arbitrary: res)
  case (Cons x xs)
  obtain r w1 where x: "runOne (fst x) (snd x) Ec X s world = (r, w1)" by (metis surj_pair)
  show ?case
  proof (cases r)
    case (Inl e)
    then show ?thesis using Cons.prems x by simp
  next
    case (Inr b)
    note first = runOne_Inr [OF x [unfolded Inr]]
    show ?thesis
    proof (cases b)
      case True
      then show ?thesis using Cons.prems x Inr first by auto
    next
      case False
      with Cons.prems x Inr first obtain res' where rest: "run_until (map (\<lambda>x. \<lparr>exAction = capAction (fst x),
          exRunOne = runOne (fst x) (snd x) Ec X s\<rparr>) xs) world = (Inr res', world')"
        and res: "res = map_option Suc res'"
        by (auto split: prod.splits sum.splits option.splits)
      show ?thesis
      proof (cases res')
        case None
        with Cons.IH [OF rest] show ?thesis using False first by (simp add: res)
      next
        case (Some i)
        with Cons.IH [OF rest] False first show ?thesis
          by (auto simp: res nth_Cons split: nat.splits)
      qed
    qed
  qed
qed simp

text \<open>
  A turn serves the first executor, counted from the cursor, that has a workflow to claim,
  and leaves the cursor just past it; when none has one, nothing changes.
\<close>

lemma worker_turn:
  assumes "registry_runOne (worker_registry Ec X s) cursor world = (Inr b, cursor', world')"
    and "cursor < length (workflow_executors :: 'p stage_executor list)"
  defines "n \<equiv> length (workflow_executors :: 'p stage_executor list)"
  shows "if b
    then \<exists>i < n. serves Ec X s (workflow_executors ! ((cursor + i) mod n)) world (world' :: 'p world) \<and>
      cursor' = (cursor + i + 1) mod n \<and> (\<forall>k < i. \<not> has_due Ec X s (workflow_executors ! ((cursor + k) mod n)) world)
    else world' = world \<and> cursor' = cursor \<and> (\<forall>x \<in> set workflow_executors. \<not> has_due Ec X s x world)"
proof -
  let ?mk = "\<lambda>x. \<lparr>exAction = capAction (fst x), exRunOne = runOne (fst x) (snd x) Ec X s\<rparr>"
  let ?xs = "rotate cursor (workflow_executors :: 'p stage_executor list)"
  have reg: "worker_registry Ec X s = map ?mk workflow_executors"
    by (simp add: worker_registry_def case_prod_beta')
  obtain res where res: "run_until (map ?mk ?xs) world = (Inr res, world')"
      "b = (res \<noteq> None)" "cursor' = (case res of None \<Rightarrow> cursor | Some i \<Rightarrow> (cursor + i + 1) mod n)"
    using assms(1) unfolding registry_is_round_robin reg
    by (auto simp: cursor_after_def rotate_map n_def split: prod.splits sum.splits option.splits)
  have nth: "?xs ! k = workflow_executors ! ((cursor + k) mod n)" if "k < n" for k
    using that by (simp add: nth_rotate n_def)
  from run_until_Inr [OF res(1)] show ?thesis
    by (cases res) (auto simp: res(2,3) nth n_def)
qed

text \<open>
  C8. No action starves: over as many turns of one worker as there are executors, none of which throws,
  an action that has a workflow to claim at the start of every turn is served in one of them. Whatever other
  workers and consumers do to the tables between the turns, and whatever the other executors do in theirs,
  does not matter.
\<close>

theorem due_action_is_served:
  fixes before after :: "nat \<Rightarrow> 'p world"
  defines "n \<equiv> length (workflow_executors :: 'p stage_executor list)"
  assumes "cursor 0 < n" and "j < n"
    and turn: "\<And>i. i < n \<Longrightarrow> registry_runOne (worker_registry (Ec i) (X i) s) (cursor i) (before i) =
      (Inr (b i), cursor (Suc i), after i)"
    and due: "\<And>i. i < n \<Longrightarrow> has_due (Ec i) (X i) s (workflow_executors ! j) (before i)"
  shows "\<exists>i < n. serves (Ec i) (X i) s (workflow_executors ! j) (before i) (after i)"
proof (rule ccontr)
  assume never: "\<not> ?thesis"
  have "cursor i < n \<and> distance n (cursor i) j + i < n" if "i \<le> n" for i
    using that
  proof (induction i)
    case 0
    then show ?case using assms(2,3) distance_bounds by simp
  next
    case (Suc i)
    then have c: "cursor i < n" "distance n (cursor i) j + i < n" and i: "i < n" by simp_all
    have at_j: "(cursor i + distance n (cursor i) j) mod n = j" using distance_bounds c(1) assms(3) by blast
    note step = worker_turn [OF turn [OF i] c(1) [unfolded n_def], folded n_def]
    have "workflow_executors ! j \<in> set (workflow_executors :: 'p stage_executor list)" using assms(3) n_def by simp
    then have "b i" using step due [OF i] by (auto split: if_splits)
    with step obtain k where k: "k < n"
      "serves (Ec i) (X i) s (workflow_executors ! ((cursor i + k) mod n)) (before i) (after i)"
      "cursor (Suc i) = (cursor i + k + 1) mod n"
      "\<forall>m < k. \<not> has_due (Ec i) (X i) s (workflow_executors ! ((cursor i + m) mod n)) (before i)"
      by auto
    have "k \<noteq> distance n (cursor i) j" using k(2) at_j never i by metis
    moreover have "\<not> distance n (cursor i) j < k" using k(4) due [OF i] at_j by metis
    ultimately have less: "k < distance n (cursor i) j" by simp
    have "distance n (cursor (Suc i)) j + k + 1 = distance n (cursor i) j"
      unfolding k(3) by (rule distance_passed [OF less c(1) assms(3)])
    moreover have "cursor (Suc i) < n" unfolding k(3) using assms(3) by simp
    ultimately show ?case using c(2) by simp
  qed
  from this [of n] show False by simp
qed

text \<open>The sample store holds one create to claim and nothing else; a turn from either cursor serves it.\<close>

lemma sample_idle:
  assumes "capAction cap \<noteq> CreateInstance"
  shows "runOne cap execute (sample_env_at 50 2000) (sample_ctx m ob) 30 ([], sample_admitted) =
    (Inr False, ([], sample_admitted))"
proof -
  have "action_name (capAction cap) \<noteq> ''create_instance''" using assms by (cases "capAction cap") simp_all
  then have "claimNext (sample_env_at 50 2000) ''worker-a'' 30 (capAction cap) sample_admitted = Inr (None, sample_admitted)"
    by (simp add: claimNext_def MINIMUM_LEASE_SECONDS_def MAXIMUM_LEASE_SECONDS_def readyWorkflow_def is_ready_def
        sample_admitted_tables new_workflow_def)
  then show ?thesis by (simp add: runOne_def sample_ctx_def)
qed

lemma sample_busy_turn:
  "\<exists>w. runOne create_capability execute_create (sample_env_at 50 2000) (sample_ctx m ob) 30 ([], sample_admitted) = (Inr True, w)"
proof -
  have "\<exists>cw. claimNext (sample_env_at 50 2000) ''worker-a'' 30 CreateInstance sample_admitted = Inr (Some cw, sample_claimed) \<and>
      cwFencingToken cw = 1 \<and> cwStage cw = Accepted \<and> cwCommand cw = sample_command \<and> cwAction cw = CreateInstance"
    unfolding sample_claimed_def
    by (simp add: claimNext_def MINIMUM_LEASE_SECONDS_def MAXIMUM_LEASE_SECONDS_def readyWorkflow_def is_ready_def
        sample_admitted_tables new_workflow_def lease_available_def sample_env_at_def takeLease_def claimed_row_def
        lifecycleCommand_def sample_command_valid accepted_stage create_action claim_of_def)
  then obtain cw where cw: "claimNext (sample_env_at 50 2000) ''worker-a'' 30 CreateInstance sample_admitted = Inr (Some cw, sample_claimed)"
      "cwFencingToken cw = 1" "cwStage cw = Accepted" "cwCommand cw = sample_command" "cwAction cw = CreateInstance" by blast
  have fence: "fence_of (sample_ctx m ob) cw = sample_fence"
    using cw by (simp add: fence_of_def sample_fence_def sample_ctx_def)
  have "\<exists>db'. progress (sample_ctx m ob) cw SubmittingCreate no_options ([], sample_claimed) = (Inr (), ([], db'))"
    unfolding progress_def sample_ctx_simps by (rule io_write_runs, rule sample_checkpoint_ok) (simp add: fence)
  then show ?thesis
    using cw by (auto simp: runOne_def sample_ctx_def create_capability_def run_claimed_def io_catch_transport_def
        execute_create_def io_bind_def io_return_def)
qed

lemma sample_turn:
  assumes "cursor \<le> 1"
  shows "\<exists>w. registry_runOne (worker_registry (sample_env_at 50 2000) (sample_ctx accepted_result owned_running) 30)
     cursor ([], sample_admitted) = (Inr True, 1, w)"
proof -
  let ?X = "sample_ctx accepted_result owned_running" and ?s0 = "([], sample_admitted)"
  obtain w where w: "runOne create_capability execute_create (sample_env_at 50 2000) ?X 30 ?s0 = (Inr True, w)"
    using sample_busy_turn by blast
  note acts = power_capability_def resize_capability_def snapshot_capability_def retain_capability_def purge_capability_def
  note idle = sample_idle [of power_capability] sample_idle [of resize_capability] sample_idle [of "snapshot_capability a" for a]
    sample_idle [of retain_capability] sample_idle [of purge_capability]
  have a: "capAction power_capability \<noteq> CreateInstance" "capAction resize_capability \<noteq> CreateInstance"
    "capAction (snapshot_capability a) \<noteq> CreateInstance" "capAction retain_capability \<noteq> CreateInstance"
    "capAction purge_capability \<noteq> CreateInstance" for a
    by (cases a; simp add: acts)+
  have "cursor = 0 \<or> cursor = 1" using assms by auto
  then show ?thesis
    unfolding registry_is_round_robin worker_registry_def workflow_executors_def
    by (auto simp: idle a w cursor_after_def)
qed

theorem due_action_is_served_witness:
  "\<exists>w. serves (sample_env_at 50 2000) (sample_ctx accepted_result owned_running) 30
     (create_capability, execute_create) ([], sample_admitted) w"
proof -
  let ?E = "sample_env_at 50 2000" and ?X = "sample_ctx accepted_result owned_running"
  obtain w0 w1 where turns:
    "registry_runOne (worker_registry ?E ?X 30) 0 ([], sample_admitted) = (Inr True, 1, w0)"
    "registry_runOne (worker_registry ?E ?X 30) 1 ([], sample_admitted) = (Inr True, 1, w1)"
    using sample_turn [of 0] sample_turn [of 1] by auto
  have due: "has_due ?E ?X 30 (workflow_executors ! 0) ([], sample_admitted)"
    using sample_claims by (auto simp: has_due_def workflow_executors_def create_capability_def sample_ctx_def)
  let ?cursor = "\<lambda>i :: nat. if i = 0 then 0 else 1 :: nat"
  have "\<exists>i < length workflow_executors. serves ?E ?X 30 (workflow_executors ! 0) ([], sample_admitted) (if i = 0 then w0 else w1)"
    using due_action_is_served [of ?cursor 0 "\<lambda>_. ?E" "\<lambda>_. ?X" 30 "\<lambda>_. ([], sample_admitted)" "\<lambda>_. True" "\<lambda>i. if i = 0 then w0 else w1"]
      turns due by (simp add: workflow_executors_def)
  then show ?thesis unfolding workflow_executors_def nth_Cons_0 by blast
qed

end
