(* ===== verification/Control_Db.thy ===== *)
theory Control_Db
  imports Workflow_Store
begin

section \<open>The tables of the control plane\<close>

text \<open>
  The rows of the \<^verbatim>\<open>control\<close>, \<^verbatim>\<open>projection\<close> and \<^verbatim>\<open>audit\<close> schemas (\<^verbatim>\<open>db/migrations\<close>) as the stores of
  \<^verbatim>\<open>packages/postgres-adapter\<close> read and write them, the commands of \<^verbatim>\<open>packages/application/src/ports.ts\<close>,
  and the per-instance guard of \<^verbatim>\<open>instance-guard.ts\<close>. The database \<open>pg\<close> extends the workflow tables, so
  that the methods of the workflow store run on it unchanged.

  A column of type \<^verbatim>\<open>bigint\<close> is an integer here; the code reads it with \<^verbatim>\<open>Number\<close>. JSON documents are
  records; \<^verbatim>\<open>null\<close> and an absent member are both \<open>None\<close>. Foreign keys are not modelled: every row the
  stores insert refers to rows they have just read or written.
\<close>

subsection \<open>Catalog\<close>

record project_row =
  pjId :: uuid
  pjName :: string
  pjEnabled :: bool

record quota_row =
  quProjectId :: uuid
  quInstances :: int
  quCpuCount :: int
  quMemoryMib :: int
  quDiskGib :: int
  quIpv4Addresses :: int
  quSnapshots :: int

record network_row =
  neId :: string
  neName :: string
  neIpv4Cidr :: string
  neGateway :: string
  neDnsServers :: "string list"
  neExclusions :: "string list"
  neEnabled :: bool
  neCreatedAt :: millis
  neUpdatedAt :: millis

record profile_row =
  ppId :: string
  ppState :: string
  ppNetworkId :: string

record image_row =
  imId :: string
  imName :: string
  imProviderProfileId :: string
  imEnabled :: bool
  imArchitecture :: string
  imCreatedAt :: millis
  imUpdatedAt :: millis

record flavor_row =
  flId :: string
  flName :: string
  flCpuCount :: int
  flMemoryMib :: int
  flMinimumDiskGib :: int
  flEnabled :: bool
  flCreatedAt :: millis
  flUpdatedAt :: millis

record retention_policy =
  rpRetentionHours :: int
  rpLeaseReleaseMode :: string

subsection \<open>Documents\<close>

record accepted_mutation =
  acOperationId :: uuid
  acTargetId :: uuid
  acAcceptedAt :: string
  acStatusUrl :: string
  acReplayed :: bool

record operation_view =
  ovId :: uuid
  ovProjectId :: uuid
  ovAction :: string
  ovTargetType :: string
  ovTargetId :: uuid
  ovState :: string
  ovStage :: string
  ovProgressPercent :: int
  ovAcceptedAt :: string
  ovStartedAt :: "string option"
  ovUpdatedAt :: string
  ovCompletedAt :: "string option"
  ovErrorCategory :: "string option"
  ovErrorCode :: "string option"
  ovErrorMessage :: "string option"
  ovManualReviewRequired :: bool

record desired_view =
  dvImageId :: string
  dvFlavorId :: string
  dvNetworkId :: string
  dvHostname :: string
  dvPowerState :: string
  dvRetentionRequested :: bool

record observed_view =
  bvExists :: bool
  bvPowerState :: string
  bvCpuCount :: "int option"
  bvMemoryMiB :: "int option"
  bvDiskGiB :: "int option"
  bvMarkerMatch :: bool
  bvObservedAt :: string

record lease_view =
  lvAddress :: string
  lvPrefixLength :: "int option"
  lvGateway :: string
  lvState :: string

record instance_view =
  ivId :: uuid
  ivProjectId :: uuid
  ivLifecycleState :: string
  ivDesired :: desired_view
  ivObserved :: "observed_view option"
  ivIpv4Lease :: lease_view
  ivActiveOperationId :: "uuid option"
  ivDrift :: string
  ivLastReconciledAt :: "string option"
  ivRetentionDeadline :: "string option"
  ivPurgeEligible :: bool
  ivCreatedAt :: string
  ivUpdatedAt :: string

record snapshot_view =
  svId :: uuid
  svInstanceId :: uuid
  svName :: string
  svDescription :: "string option"
  svState :: string
  svCreatedAt :: string
  svUpdatedAt :: string

record dead_letter_view =
  dvEventId :: uuid
  dvSchemaName :: string
  dvSchemaVersion :: int
  dvAggregateId :: uuid
  dvProjectId :: uuid
  dvOperationId :: uuid
  dvCategory :: string
  dvSafeMessage :: string
  dvAttempts :: int
  dvDeadLetteredAt :: string
  dvReplayAllowed :: bool
  dvLastReplayAt :: "string option"

subsection \<open>Rows\<close>

record instance_row =
  inId :: uuid
  inProjectId :: uuid
  inImageId :: string
  inFlavorId :: string
  inNetworkId :: string
  inProviderProfileId :: string
  inHostname :: string
  inSshPublicKeys :: "string list"
  inDesiredCpuCount :: int
  inDesiredMemoryMib :: int
  inDesiredDiskGib :: int
  inDesiredPowerState :: string
  inLifecycleState :: string
  inActiveOperationId :: "uuid option"
  inCreateOperationId :: "uuid option"
  inRetentionDeadline :: "millis option"
  inPurgeEligible :: bool
  inDrift :: string
  inLastReconciledAt :: "millis option"
  inObserved :: "observed_view option"
  inCreatedAt :: millis
  inUpdatedAt :: millis

record operation_row =
  opId :: uuid
  opProjectId :: uuid
  opAction :: string
  opTargetType :: string
  opTargetId :: uuid
  opState :: string
  opStage :: string
  opProgressPercent :: int
  opAcceptedAt :: millis
  opStartedAt :: "millis option"
  opUpdatedAt :: millis
  opCompletedAt :: "millis option"
  opError :: "(string \<times> string \<times> string) option"
  opManualReviewRequired :: bool

record ipv4_lease =
  ilId :: uuid
  ilProjectId :: uuid
  ilInstanceId :: uuid
  ilNetworkId :: string
  ilAddress :: string
  ilPrefixLength :: "int option"
  ilGateway :: string
  ilState :: string
  ilUpdatedAt :: millis

record snapshot_row =
  snId :: uuid
  snProjectId :: uuid
  snInstanceId :: uuid
  snName :: string
  snDescription :: "string option"
  snState :: string
  snProviderSnapshotName :: "string option"
  snCreatedAt :: millis
  snUpdatedAt :: millis

record idempotency_record =
  idActorId :: string
  idProjectId :: uuid
  idOperationType :: string
  idKey :: string
  idTargetId :: uuid
  idRequestHash :: string
  idOperationId :: uuid
  idResponse :: accepted_mutation
  idCreatedAt :: millis
  idExpiresAt :: millis

record control_replay_request =
  crId :: uuid
  crOriginalEventId :: uuid
  crActorId :: string
  crIdempotencyKey :: string
  crRequestHash :: string
  crReason :: string
  crCorrelationId :: string
  crTraceContext :: trace_context
  crStatus :: string
  crRequestedAt :: millis
  crUpdatedAt :: millis

record instance_document =
  idoInstanceId :: uuid
  idoProjectId :: uuid
  idoDocument :: instance_view
  idoUpdatedAt :: millis

record operation_document =
  odOperationId :: uuid
  odProjectId :: uuid
  odTargetId :: uuid
  odDocument :: operation_view
  odUpdatedAt :: millis
  odCorrelationId :: "string option"
  odCausationId :: "string option"
  odTraceId :: "string option"
  odCheckpoint :: "string option"
  odRetryCount :: int
  odTaskReference :: "string option"
  odDeadLetterEventId :: "uuid option"

record snapshot_document =
  sdSnapshotId :: uuid
  sdProjectId :: uuid
  sdInstanceId :: uuid
  sdDocument :: snapshot_view
  sdUpdatedAt :: millis

record dead_letter_document =
  ddOriginalEventId :: uuid
  ddProjectId :: uuid
  ddOperationId :: uuid
  ddAggregateId :: uuid
  ddDocument :: dead_letter_view
  ddTraceContext :: trace_context
  ddUpdatedAt :: millis

record event_receipt =
  erConsumerName :: string
  erEventId :: uuid
  erReplayGeneration :: int
  erSourceTopic :: string
  erSourcePartition :: int
  erSourceOffset :: string

record pg = workflow_db +
  project_rows :: "project_row list"
  quotas :: "quota_row list"
  networks :: "network_row list"
  provider_profiles :: "profile_row list"
  images :: "image_row list"
  flavors :: "flavor_row list"
  policy :: retention_policy
  instances :: "instance_row list"
  operations :: "operation_row list"
  ipv4_leases :: "ipv4_lease list"
  snapshots :: "snapshot_row list"
  idempotency_records :: "idempotency_record list"
  control_replays :: "control_replay_request list"
  ct_outbox :: "outbox_row list"
  instance_documents :: "instance_document list"
  operation_documents :: "operation_document list"
  snapshot_documents :: "snapshot_document list"
  dead_letter_documents :: "dead_letter_document list"
  event_receipts :: "event_receipt list"
  projection_poison :: "poison_record list"

subsection \<open>Commands\<close>

record actor =
  subject :: string
  roles :: "string list"
  projects :: "uuid list"

record mutation_command =
  mcActor :: actor
  mcIdempotencyKey :: string
  mcCorrelationId :: string
  mcTraceparent :: string
  mcTracestate :: "string option"

record project_command = mutation_command +
  mcProjectId :: uuid

record instance_command = project_command +
  mcInstanceId :: uuid

record create_command = project_command +
  ccImageId :: string
  ccFlavorId :: string
  ccNetworkId :: string
  ccHostname :: string
  ccSshPublicKeys :: "string list"

record power_command = instance_command +
  pwAction :: power_action

record resize_command = instance_command +
  rzFlavorId :: string
  rzDiskGiB :: "int option"

record snapshot_create_command = instance_command +
  scName :: string
  scDescription :: "string option"

record snapshot_action_command = instance_command +
  saSnapshotId :: uuid

record purge_command = mutation_command +
  puInstanceId :: uuid
  puReason :: string
  puConfirmInstanceId :: uuid

record replay_command = mutation_command +
  rdOriginalEventId :: uuid
  rdReason :: string

text \<open>
  Failures of the control plane store: a domain error, a violated constraint, a missing row, an event of
  another consumer, a text the database cannot cast.
\<close>

datatype control_error =
    Domain domain_error
  | ConstraintViolation string
  | MissingRow
  | UnsupportedEvent
  | InvalidText string

definition domain_fail :: "domain_error_code \<Rightarrow> string \<Rightarrow> control_error" where
  "domain_fail c m = Domain (DomainError c m)"

definition lift_domain :: "domain_error + 'a \<Rightarrow> control_error + 'a" where
  "lift_domain r = (case r of Inl e \<Rightarrow> Inl (Domain e) | Inr a \<Rightarrow> Inr a)"

lemma lift_domain_simps [simp]:
  "lift_domain (Inl e) = Inl (Domain e)"
  "lift_domain (Inr a) = Inr a"
  by (simp_all add: lift_domain_def)

lemma lift_domain_Inr [simp]: "lift_domain r = Inr a \<longleftrightarrow> r = Inr a"
  by (cases r) auto

subsection \<open>The per-instance guard\<close>

definition MUTABLE_LIFECYCLE_STATES :: "string list" where
  "MUTABLE_LIFECYCLE_STATES = [''active'', ''failed'']"

text \<open>
  \<^verbatim>\<open>lockInstanceForMutation\<close> returns the columns a caller needs; here it is the locked row itself.
\<close>

definition lockInstanceForMutation :: "uuid \<Rightarrow> uuid \<Rightarrow> pg \<Rightarrow> control_error + instance_row" where
  "lockInstanceForMutation project_id instance_id db =
     (case find (\<lambda>r. inId r = instance_id \<and> inProjectId r = project_id) (instances db) of
        None \<Rightarrow> Inl (domain_fail INSTANCE_NOT_FOUND ''The requested instance does not exist.'')
      | Some row \<Rightarrow>
          if inActiveOperationId row \<noteq> None
          then Inl (domain_fail INSTANCE_BUSY ''Another operation is already in progress for this instance.'')
          else if \<not> List.member MUTABLE_LIFECYCLE_STATES (inLifecycleState row)
          then Inl (domain_fail INSTANCE_BUSY ''The instance is not in a state that accepts this operation.'')
          else Inr row)"

end
