(* ===== verification/Control_Store.thy ===== *)
theory Control_Store
  imports Control_Db
begin

section \<open>Acceptance of requests\<close>

text \<open>
  Model of the mutating half of \<^verbatim>\<open>packages/postgres-adapter/src/control-plane-store.ts\<close>: each \<^verbatim>\<open>accept\<close>
  method is one transaction that replays a known idempotency key, checks its guards, and records
  the intent: operation, instance, read documents, idempotency record, outbox command and audit
  fact. \<^verbatim>\<open>randomUUID()\<close> is \<open>uuidAt E n\<close> for the n-th call. The advisory locks serialise transactions;
  a transaction of the model is already atomic.

  The four instance actions and the snapshot actions repeat one sequence of statements in the
  source; it is \<open>write_accepted\<close> here.
\<close>

definition IDEMPOTENCY_RECORD_TTL_MS :: int where "IDEMPOTENCY_RECORD_TTL_MS = 86400000"
definition CREATE_INSTANCE_ACTION :: string where "CREATE_INSTANCE_ACTION = ''create_instance''"
definition POWER_INSTANCE_ACTION :: string where "POWER_INSTANCE_ACTION = ''power_instance''"
definition RESIZE_INSTANCE_ACTION :: string where "RESIZE_INSTANCE_ACTION = ''resize_instance''"
definition CREATE_SNAPSHOT_ACTION :: string where "CREATE_SNAPSHOT_ACTION = ''create_snapshot''"
definition RETAIN_INSTANCE_ACTION :: string where "RETAIN_INSTANCE_ACTION = ''retain_instance''"
definition PURGE_INSTANCE_ACTION :: string where "PURGE_INSTANCE_ACTION = ''purge_instance''"

subsection \<open>Idempotency scope\<close>

type_synonym scope = "string \<times> uuid \<times> string \<times> string"

definition NO_PROJECT :: uuid where "NO_PROJECT = ''00000000-0000-0000-0000-000000000000''"

definition project_scope :: "'z project_command_scheme \<Rightarrow> string \<Rightarrow> scope" where
  "project_scope c action = (subject (mcActor c), mcProjectId c, action, mcIdempotencyKey c)"

definition adminScope :: "'z mutation_command_scheme \<Rightarrow> string \<Rightarrow> scope" where
  "adminScope c action = (subject (mcActor c), NO_PROJECT, action, mcIdempotencyKey c)"

definition scope_of :: "idempotency_record \<Rightarrow> scope" where
  "scope_of r = (idActorId r, idProjectId r, idOperationType r, idKey r)"

definition findReplayedResponse ::
  "scope \<Rightarrow> string \<Rightarrow> pg \<Rightarrow> control_error + accepted_mutation option" where
  "findReplayedResponse sc requestHash db =
     (case lookup_by scope_of sc (idempotency_records db) of
        None \<Rightarrow> Inr None
      | Some previous \<Rightarrow>
          if idRequestHash previous \<noteq> requestHash
          then Inl (domain_fail IDEMPOTENCY_CONFLICT ''The idempotency key is already bound to different input.'')
          else Inr (Some ((idResponse previous)\<lparr>acReplayed := True\<rparr>)))"

text \<open>Replay a known key, otherwise run the acceptance.\<close>

definition replay_or ::
  "scope \<Rightarrow> string \<Rightarrow> (pg \<Rightarrow> control_error + accepted_mutation \<times> pg) \<Rightarrow> pg \<Rightarrow>
   control_error + accepted_mutation \<times> pg" where
  "replay_or sc requestHash accept db =
     res_bind (findReplayedResponse sc requestHash db) (\<lambda>replayed.
       case replayed of Some response \<Rightarrow> Inr (response, db) | None \<Rightarrow> accept db)"

subsection \<open>Statements\<close>

definition insert_row ::
  "string \<Rightarrow> ('r \<Rightarrow> 'k) \<Rightarrow> 'r \<Rightarrow> 'r list \<Rightarrow> control_error + 'r list" where
  "insert_row table key r rows = require (ConstraintViolation table) (insert_unique key r rows)"

definition writeControlOutbox ::
  "uuid \<Rightarrow> event \<Rightarrow> string \<Rightarrow> millis \<Rightarrow> pg \<Rightarrow> control_error + pg" where
  "writeControlOutbox outbox_id e topic_name t db =
     (if outbox_id \<in> set (map obOutboxId (ct_outbox db)) \<or>
         (eventId e, 0) \<in> set (map (\<lambda>r. (eventId (obPayload r), obReplayGeneration r)) (ct_outbox db))
      then Inl (ConstraintViolation ''control.outbox'')
      else Inr (db\<lparr>ct_outbox := ct_outbox db @
             [\<lparr>obOutboxId = outbox_id, obTopic = topic_name, obPayload = e, obReplayGeneration = 0,
               obOccurredAt = toISOString t\<rparr>]\<rparr>))"

definition writeControlAudit ::
  "uuid \<Rightarrow> uuid \<Rightarrow> event \<Rightarrow> string \<Rightarrow> audit_data \<Rightarrow> millis \<Rightarrow> pg \<Rightarrow> control_error + pg" where
  "writeControlAudit audit_id outbox_id cause causation a t db =
     (let e = (auditRecordedEvent audit_id cause t a)\<lparr>causationId := causation\<rparr> in
      res_bind (insert_row ''audit.entries'' aeId (audit_entry_of e a t) (audit_entries db)) (\<lambda>rows.
        writeControlOutbox outbox_id e ''audit.events.v1'' t (db\<lparr>audit_entries := rows\<rparr>)))"

definition traceIdOf :: "string \<Rightarrow> string option" where
  "traceIdOf tp =
     (if length tp = 55 \<and> take 3 tp = ''00-'' \<and> list_all is_hex (take 32 (drop 3 tp)) \<and>
         tp ! 35 = CHR ''-'' \<and> list_all is_hex (take 16 (drop 36 tp)) \<and> tp ! 52 = CHR ''-'' \<and>
         list_all is_hex (drop 53 tp)
      then Some (take 32 (drop 3 tp)) else None)"

definition update_instance :: "uuid \<Rightarrow> (instance_row \<Rightarrow> instance_row) \<Rightarrow> pg \<Rightarrow> pg" where
  "update_instance i change db = db\<lparr>instances := update_where (\<lambda>r. inId r = i) change (instances db)\<rparr>"

definition markInstanceBusyInProjection :: "uuid \<Rightarrow> uuid \<Rightarrow> millis \<Rightarrow> pg \<Rightarrow> pg" where
  "markInstanceBusyInProjection i op t db =
     db\<lparr>instance_documents := update_where (\<lambda>r. idoInstanceId r = i)
          (\<lambda>r. r\<lparr>idoDocument := (idoDocument r)\<lparr>ivActiveOperationId := Some op, ivUpdatedAt := toISOString t\<rparr>,
             idoUpdatedAt := t\<rparr>) (instance_documents db)\<rparr>"

definition accepted_operation :: "uuid \<Rightarrow> uuid \<Rightarrow> string \<Rightarrow> string \<Rightarrow> uuid \<Rightarrow> millis \<Rightarrow> operation_row" where
  "accepted_operation op project action target_type target_id t =
     \<lparr>opId = op, opProjectId = project, opAction = action, opTargetType = target_type, opTargetId = target_id,
      opState = ''accepted'', opStage = ''accepted'', opProgressPercent = STAGE_PROGRESS_PERCENT (Live Accepted),
      opAcceptedAt = t, opStartedAt = None, opUpdatedAt = t, opCompletedAt = None, opError = None,
      opManualReviewRequired = False\<rparr>"

definition accepted_view :: "uuid \<Rightarrow> uuid \<Rightarrow> string \<Rightarrow> string \<Rightarrow> uuid \<Rightarrow> string \<Rightarrow> operation_view" where
  "accepted_view op project action target_type target_id occurred =
     \<lparr>ovId = op, ovProjectId = project, ovAction = action, ovTargetType = target_type, ovTargetId = target_id,
      ovState = ''accepted'', ovStage = ''accepted'', ovProgressPercent = STAGE_PROGRESS_PERCENT (Live Accepted),
      ovAcceptedAt = occurred, ovStartedAt = None, ovUpdatedAt = occurred, ovCompletedAt = None,
      ovErrorCategory = None, ovErrorCode = None, ovErrorMessage = None, ovManualReviewRequired = False\<rparr>"

definition accepted_document :: "'z mutation_command_scheme \<Rightarrow> operation_view \<Rightarrow> millis \<Rightarrow> operation_document" where
  "accepted_document c doc t =
     \<lparr>odOperationId = ovId doc, odProjectId = ovProjectId doc, odTargetId = ovTargetId doc, odDocument = doc,
      odUpdatedAt = t, odCorrelationId = Some (mcCorrelationId c), odCausationId = None,
      odTraceId = traceIdOf (mcTraceparent c), odCheckpoint = Some ''accepted'', odRetryCount = 0,
      odTaskReference = None, odDeadLetterEventId = None\<rparr>"

definition idempotency_of :: "scope \<Rightarrow> uuid \<Rightarrow> string \<Rightarrow> accepted_mutation \<Rightarrow> millis \<Rightarrow> idempotency_record" where
  "idempotency_of sc target_id requestHash accepted t =
     (case sc of (actor_id, project, action, k) \<Rightarrow>
        \<lparr>idActorId = actor_id, idProjectId = project, idOperationType = action, idKey = k, idTargetId = target_id,
         idRequestHash = requestHash, idOperationId = acOperationId accepted, idResponse = accepted,
         idCreatedAt = t, idExpiresAt = t + IDEMPOTENCY_RECORD_TTL_MS\<rparr>)"

definition status_url :: "uuid \<Rightarrow> uuid \<Rightarrow> string" where
  "status_url project op = ''/v1/projects/'' @ project @ ''/operations/'' @ op"

definition accepted_response :: "uuid \<Rightarrow> uuid \<Rightarrow> millis \<Rightarrow> string \<Rightarrow> accepted_mutation" where
  "accepted_response op target_id t url =
     \<lparr>acOperationId = op, acTargetId = target_id, acAcceptedAt = toISOString t, acStatusUrl = url, acReplayed = False\<rparr>"

definition command_trace :: "'z mutation_command_scheme \<Rightarrow> trace_context" where
  "command_trace c = \<lparr>traceparent = mcTraceparent c,
     tracestate = (if truthy (mcTracestate c) then mcTracestate c else None)\<rparr>"

text \<open>The command event every acceptance on an existing instance publishes.\<close>

definition instance_command_event ::
  "uuid \<Rightarrow> string \<Rightarrow> 'z mutation_command_scheme \<Rightarrow> instance_row \<Rightarrow> uuid \<Rightarrow> millis \<Rightarrow> event_data \<Rightarrow> event" where
  "instance_command_event event_id schema c i op t d =
     \<lparr>eventId = event_id, schemaName = schema, schemaVersion = 1, aggregateType = ''instance'',
      aggregateId = inId i, projectId = inProjectId i, operationId = op, correlationId = mcCorrelationId c,
      causationId = op, occurredAt = toISOString t, traceContext = command_trace c,
      partitionKey = inId i, data = d\<rparr>"

definition routing_of :: "instance_row \<Rightarrow> routing" where
  "routing_of i = \<lparr>providerProfileId = inProviderProfileId i,
     createOperationId = (case inCreateOperationId i of None \<Rightarrow> [] | Some op \<Rightarrow> op)\<rparr>"

record acceptance =
  axScope :: scope
  axInstance :: uuid
  axAction :: string
  axTargetType :: string
  axTargetId :: uuid
  axAccepted :: accepted_mutation
  axEvent :: event
  axChange :: "instance_row \<Rightarrow> instance_row"
  axEffects :: "pg \<Rightarrow> control_error + pg"
  axAudit :: audit_data

text \<open>
  \<open>axEffects\<close> is what an action adds: the release of the lease on retention, the snapshot document on
  the snapshot actions. The lease update cannot fail, so its place among the statements is immaterial.
\<close>

definition write_accepted ::
  "env \<Rightarrow> uuid \<times> uuid \<times> uuid \<Rightarrow> 'z mutation_command_scheme \<Rightarrow> string \<Rightarrow> acceptance \<Rightarrow> pg \<Rightarrow>
   control_error + accepted_mutation \<times> pg" where
  "write_accepted E ids c requestHash a db =
     (case ids of (outbox_id, audit_id, audit_outbox_id) \<Rightarrow>
      let t = now E; op = acOperationId (axAccepted a); e = axEvent a;
          view = accepted_view op (projectId e) (axAction a) (axTargetType a) (axTargetId a) (toISOString t) in
      res_bind (insert_row ''control.operations'' opId
          (accepted_operation op (projectId e) (axAction a) (axTargetType a) (axTargetId a) t) (operations db)) (\<lambda>ops.
      let db1 = update_instance (axInstance a) (axChange a) (db\<lparr>operations := ops\<rparr>) in
      res_bind (insert_row ''projection.operations'' odOperationId (accepted_document c view t)
          (operation_documents db1)) (\<lambda>docs.
      res_bind (axEffects a (markInstanceBusyInProjection (axInstance a) op t
          (db1\<lparr>operation_documents := docs\<rparr>))) (\<lambda>db2.
      res_bind (insert_row ''control.idempotency_records'' scope_of
          (idempotency_of (axScope a) (axTargetId a) requestHash (axAccepted a) t) (idempotency_records db2)) (\<lambda>recs.
      res_bind (writeControlOutbox outbox_id e ''provisioning.commands.v1'' t (db2\<lparr>idempotency_records := recs\<rparr>)) (\<lambda>db3.
      res_bind (writeControlAudit audit_id audit_outbox_id e (eventId e) (axAudit a) t db3) (\<lambda>db4.
      Inr (axAccepted a, db4))))))))"

definition tenant_audit :: "'z mutation_command_scheme \<Rightarrow> string \<Rightarrow> string \<Rightarrow> uuid \<Rightarrow> audit_data" where
  "tenant_audit c action target_type target_id =
     \<lparr>auActorId = subject (mcActor c), auActorRole = ''tenant_developer'', auAction = action,
      auTargetType = target_type, auTargetId = target_id, auOutcome = ''accepted'', auReasonReference = None\<rparr>"

subsection \<open>Create\<close>

record acceptance_context =
  axcProviderProfileId :: string
  axcFlavor :: flavor_row
  axcNetwork :: network_row
  axcQuota :: quota_row

definition loadAcceptanceContext :: "'z create_command_scheme \<Rightarrow> pg \<Rightarrow> control_error + acceptance_context" where
  "loadAcceptanceContext c db =
     res_bind (require (domain_fail PROJECT_NOT_FOUND ''Project was not found.'')
         (lookup_by pjId (mcProjectId c) (project_rows db))) (\<lambda>project.
     res_bind (throw_if (\<not> pjEnabled project) (domain_fail PROJECT_ACCESS_DENIED ''Project is disabled.'')) (\<lambda>_.
     let image = (case lookup_by imId (ccImageId c) (images db) of
                    None \<Rightarrow> None
                  | Some im \<Rightarrow> map_option (\<lambda>p. (im, p)) (lookup_by ppId (imProviderProfileId im) (provider_profiles db)));
         flavor = find (\<lambda>f. flId f = ccFlavorId c \<and> flEnabled f) (flavors db);
         network = find (\<lambda>n. neId n = ccNetworkId c \<and> neEnabled n) (networks db);
         quota = lookup_by quProjectId (mcProjectId c) (quotas db) in
     case (image, flavor, network, quota) of
       (Some (im, profile), Some f, Some n, Some q) \<Rightarrow>
         if \<not> imEnabled im
         then Inl (domain_fail VALIDATION_FAILED ''The selected project catalog entry is unavailable.'')
         else if ppState profile \<noteq> ''active''
         then Inl (domain_fail PROFILE_DISABLED ''Provider profile is disabled.'')
         else if ppNetworkId profile \<noteq> neId n
         then Inl (domain_fail VALIDATION_FAILED ''The selected image and network do not share a provider profile.'')
         else Inr \<lparr>axcProviderProfileId = ppId profile, axcFlavor = f, axcNetwork = n, axcQuota = q\<rparr>
     | _ \<Rightarrow> Inl (domain_fail VALIDATION_FAILED ''The selected project catalog entry is unavailable.'')))"

text \<open>The rows a usage query sums: those of the project that are not purged.\<close>

definition live_instances :: "uuid \<Rightarrow> pg \<Rightarrow> instance_row list" where
  "live_instances project db = filter (\<lambda>r. inProjectId r = project \<and> inLifecycleState r \<noteq> ''purged'') (instances db)"

definition assertQuotaHeadroom :: "uuid \<Rightarrow> acceptance_context \<Rightarrow> pg \<Rightarrow> control_error + unit" where
  "assertQuotaHeadroom project ctx db =
     (let rows = live_instances project db; f = axcFlavor ctx; q = axcQuota ctx in
      throw_if (int (length rows) + 1 > quInstances q \<or>
          sum_list (map inDesiredCpuCount rows) + flCpuCount f > quCpuCount q \<or>
          sum_list (map inDesiredMemoryMib rows) + flMemoryMib f > quMemoryMib q \<or>
          sum_list (map inDesiredDiskGib rows) + flMinimumDiskGib f > quDiskGib q)
        (domain_fail QUOTA_EXCEEDED ''The create request exceeds project quota.''))"

definition occupies :: "ipv4_lease \<Rightarrow> bool" where
  "occupies l \<longleftrightarrow> ilState l = ''active'' \<or> ilState l = ''quarantined''"

definition reserveIpv4Address :: "acceptance_context \<Rightarrow> pg \<Rightarrow> control_error + string" where
  "reserveIpv4Address ctx db =
     (let n = axcNetwork ctx;
          rows = filter (\<lambda>l. ilNetworkId l = neId n \<and> occupies l) (ipv4_leases db) in
      if int (length rows) + 1 > quIpv4Addresses (axcQuota ctx)
      then Inl (domain_fail QUOTA_EXCEEDED ''The create request exceeds IPv4 quota.'')
      else lift_domain (allocateIpv4 \<lparr>cidr = neIpv4Cidr n, gateway = neGateway n, exclusions = neExclusions n\<rparr>
             (set (map ilAddress rows))))"

definition prefixLengthOf :: "string \<Rightarrow> int option" where
  "prefixLengthOf c = prefix_length (split_on (CHR ''/'') c)"

definition dnsTuple :: "string list \<Rightarrow> control_error + string list" where
  "dnsTuple values =
     (if length values < 1 \<or> length values > 4
      then Inl (domain_fail VALIDATION_FAILED ''The configured DNS server list is invalid.'') else Inr values)"

definition sshTuple :: "string list \<Rightarrow> control_error + string list" where
  "sshTuple values =
     (if length values > 5
      then Inl (domain_fail VALIDATION_FAILED ''At most five SSH public keys are accepted.'') else Inr values)"

text \<open>
  \<^verbatim>\<open>buildAcceptanceRecords\<close>. The generated traceparent is an argument. The prefix length is a number
  whenever an address could be allocated (\<open>allocated_prefix_length\<close>), so the branch without one is
  never taken.
\<close>

record create_records =
  crInstanceId :: uuid
  crOperationId :: uuid
  crLeaseId :: uuid
  crAddress :: string
  crPrefixLength :: "int option"
  crAccepted :: accepted_mutation
  crInstance :: instance_view
  crOperation :: operation_view
  crEvent :: event

definition create_event_data ::
  "'z create_command_scheme \<Rightarrow> acceptance_context \<Rightarrow> string \<Rightarrow> control_error + create_data" where
  "create_event_data c ctx address =
     (let f = axcFlavor ctx; n = axcNetwork ctx in
      res_bind (dnsTuple (neDnsServers n)) (\<lambda>dns.
      res_bind (if ccSshPublicKeys c \<noteq> [] then map_sum id Some (sshTuple (ccSshPublicKeys c)) else Inr None) (\<lambda>keys.
      Inr \<lparr>dataImageId = ccImageId c, dataFlavorId = ccFlavorId c, dataNetworkId = ccNetworkId c,
        dataProviderProfileId = axcProviderProfileId ctx, dataHostname = ccHostname c,
        dataResources = \<lparr>cpuCount = flCpuCount f, memoryMiB = flMemoryMib f, diskGiB = flMinimumDiskGib f\<rparr>,
        dataIpv4 = \<lparr>ipAddress = address,
          ipPrefixLength = (case prefixLengthOf (neIpv4Cidr n) of Some p \<Rightarrow> p | None \<Rightarrow> 0),
          ipGateway = neGateway n, dnsServers = dns\<rparr>,
        dataSshPublicKeys = keys\<rparr>)))"

definition initial_view ::
  "'z create_command_scheme \<Rightarrow> acceptance_context \<Rightarrow> string \<Rightarrow> uuid \<Rightarrow> uuid \<Rightarrow> string \<Rightarrow> instance_view" where
  "initial_view c ctx address i op occurred =
     \<lparr>ivId = i, ivProjectId = mcProjectId c, ivLifecycleState = ''pending'',
      ivDesired = \<lparr>dvImageId = ccImageId c, dvFlavorId = ccFlavorId c, dvNetworkId = ccNetworkId c,
        dvHostname = ccHostname c, dvPowerState = ''running'', dvRetentionRequested = False\<rparr>,
      ivObserved = None,
      ivIpv4Lease = \<lparr>lvAddress = address, lvPrefixLength = prefixLengthOf (neIpv4Cidr (axcNetwork ctx)),
        lvGateway = neGateway (axcNetwork ctx), lvState = ''active''\<rparr>,
      ivActiveOperationId = Some op, ivDrift = ''none'', ivLastReconciledAt = None, ivRetentionDeadline = None,
      ivPurgeEligible = False, ivCreatedAt = occurred, ivUpdatedAt = occurred\<rparr>"

definition buildAcceptanceRecords ::
  "env \<Rightarrow> string \<Rightarrow> 'z create_command_scheme \<Rightarrow> acceptance_context \<Rightarrow> string \<Rightarrow> control_error + create_records" where
  "buildAcceptanceRecords E generated c ctx address =
     (let t = now E; occurred = toISOString t; i = uuidAt E 0; op = uuidAt E 1 in
      res_bind (create_event_data c ctx address) (\<lambda>d.
      Inr \<lparr>crInstanceId = i, crOperationId = op, crLeaseId = uuidAt E 3, crAddress = address,
        crPrefixLength = prefixLengthOf (neIpv4Cidr (axcNetwork ctx)),
        crAccepted = accepted_response op i t (status_url (mcProjectId c) op),
        crInstance = initial_view c ctx address i op occurred,
        crOperation = accepted_view op (mcProjectId c) CREATE_INSTANCE_ACTION ''instance'' i occurred,
        crEvent = \<lparr>eventId = uuidAt E 2, schemaName = ''instance.create.requested'', schemaVersion = 1,
          aggregateType = ''instance'', aggregateId = i, projectId = mcProjectId c, operationId = op,
          correlationId = mcCorrelationId c, causationId = op, occurredAt = occurred,
          traceContext = (command_trace c)\<lparr>traceparent :=
            (if mcTraceparent c = [] then generated else mcTraceparent c)\<rparr>,
          partitionKey = i, data = CreateRequested d\<rparr>\<rparr>))"

definition created_instance ::
  "env \<Rightarrow> 'z create_command_scheme \<Rightarrow> acceptance_context \<Rightarrow> create_records \<Rightarrow> instance_row" where
  "created_instance E c ctx r =
     (let f = axcFlavor ctx in
      \<lparr>inId = crInstanceId r, inProjectId = mcProjectId c, inImageId = ccImageId c, inFlavorId = ccFlavorId c,
       inNetworkId = ccNetworkId c, inProviderProfileId = axcProviderProfileId ctx, inHostname = ccHostname c,
       inSshPublicKeys = ccSshPublicKeys c, inDesiredCpuCount = flCpuCount f, inDesiredMemoryMib = flMemoryMib f,
       inDesiredDiskGib = flMinimumDiskGib f, inDesiredPowerState = ''running'', inLifecycleState = ''pending'',
       inActiveOperationId = None, inCreateOperationId = None, inRetentionDeadline = None, inPurgeEligible = False,
       inDrift = ''none'', inLastReconciledAt = None, inObserved = None, inCreatedAt = now E, inUpdatedAt = now E\<rparr>)"

text \<open>
  The lease table has two more constraints than its key: one lease per instance, and a partial
  unique index on network and address over the rows that occupy an address.
\<close>

definition insert_lease :: "ipv4_lease \<Rightarrow> pg \<Rightarrow> control_error + pg" where
  "insert_lease l db =
     (if ilId l \<in> set (map ilId (ipv4_leases db)) \<or> ilInstanceId l \<in> set (map ilInstanceId (ipv4_leases db)) \<or>
         (occupies l \<and> (ilNetworkId l, ilAddress l) \<in>
            set (map (\<lambda>r. (ilNetworkId r, ilAddress r)) (filter occupies (ipv4_leases db))))
      then Inl (ConstraintViolation ''control.ipv4_leases'')
      else Inr (db\<lparr>ipv4_leases := ipv4_leases db @ [l]\<rparr>))"

definition created_lease ::
  "env \<Rightarrow> 'z create_command_scheme \<Rightarrow> acceptance_context \<Rightarrow> create_records \<Rightarrow> ipv4_lease" where
  "created_lease E c ctx r =
     \<lparr>ilId = crLeaseId r, ilProjectId = mcProjectId c, ilInstanceId = crInstanceId r,
      ilNetworkId = neId (axcNetwork ctx), ilAddress = crAddress r, ilPrefixLength = crPrefixLength r,
      ilGateway = neGateway (axcNetwork ctx), ilState = ''active'', ilUpdatedAt = now E\<rparr>"

definition writeAcceptanceRecords ::
  "env \<Rightarrow> 'z create_command_scheme \<Rightarrow> acceptance_context \<Rightarrow> create_records \<Rightarrow> string \<Rightarrow> pg \<Rightarrow> control_error + pg" where
  "writeAcceptanceRecords E c ctx r requestHash db =
     (let t = now E; i = crInstanceId r; op = crOperationId r in
      res_bind (insert_row ''control.instances'' inId (created_instance E c ctx r) (instances db)) (\<lambda>rows.
      res_bind (insert_row ''control.operations'' opId
          (accepted_operation op (mcProjectId c) CREATE_INSTANCE_ACTION ''instance'' i t) (operations db)) (\<lambda>ops.
      res_bind (insert_lease (created_lease E c ctx r)
          (update_instance i (\<lambda>row. row\<lparr>inActiveOperationId := Some op, inCreateOperationId := Some op\<rparr>)
             (db\<lparr>instances := rows, operations := ops\<rparr>))) (\<lambda>db1.
      res_bind (insert_row ''control.idempotency_records'' scope_of
          (idempotency_of (project_scope c CREATE_INSTANCE_ACTION) i requestHash (crAccepted r) t)
          (idempotency_records db1)) (\<lambda>recs.
      res_bind (writeControlOutbox (uuidAt E 4) (crEvent r) ''provisioning.commands.v1'' t
          (db1\<lparr>idempotency_records := recs\<rparr>)) (\<lambda>db2.
      res_bind (writeControlAudit (uuidAt E 5) (uuidAt E 6) (crEvent r) op
          (tenant_audit c CREATE_INSTANCE_ACTION ''instance'' i) t db2) (\<lambda>db3.
      res_bind (insert_row ''projection.instances'' idoInstanceId
          \<lparr>idoInstanceId = i, idoProjectId = mcProjectId c, idoDocument = crInstance r, idoUpdatedAt = t\<rparr>
          (instance_documents db3)) (\<lambda>idocs.
      res_bind (insert_row ''projection.operations'' odOperationId (accepted_document c (crOperation r) t)
          (operation_documents db3)) (\<lambda>odocs.
      Inr (db3\<lparr>instance_documents := idocs, operation_documents := odocs\<rparr>))))))))))"

definition acceptCreate ::
  "env \<Rightarrow> string \<Rightarrow> 'z create_command_scheme \<Rightarrow> string \<Rightarrow> pg \<Rightarrow> control_error + accepted_mutation \<times> pg" where
  "acceptCreate E generated c requestHash =
     replay_or (project_scope c CREATE_INSTANCE_ACTION) requestHash (\<lambda>db.
       res_bind (loadAcceptanceContext c db) (\<lambda>ctx.
       res_bind (assertQuotaHeadroom (mcProjectId c) ctx db) (\<lambda>_.
       res_bind (reserveIpv4Address ctx db) (\<lambda>address.
       res_bind (buildAcceptanceRecords E generated c ctx address) (\<lambda>r.
       res_bind (writeAcceptanceRecords E c ctx r requestHash db) (\<lambda>db'.
       Inr (crAccepted r, db')))))))"

subsection \<open>Power and resize\<close>

fun power_text :: "power_action \<Rightarrow> string" where
  "power_text Start = ''start''"
| "power_text Shutdown = ''shutdown''"
| "power_text Stop = ''stop''"
| "power_text Reboot = ''reboot''"

definition acceptPowerAction ::
  "env \<Rightarrow> 'z power_command_scheme \<Rightarrow> string \<Rightarrow> pg \<Rightarrow> control_error + accepted_mutation \<times> pg" where
  "acceptPowerAction E c requestHash =
     replay_or (project_scope c POWER_INSTANCE_ACTION) requestHash (\<lambda>db.
       res_bind (lockInstanceForMutation (mcProjectId c) (mcInstanceId c) db) (\<lambda>i.
       let t = now E; op = uuidAt E 0 in
       write_accepted E (uuidAt E 2, uuidAt E 3, uuidAt E 4) c requestHash
         \<lparr>axScope = project_scope c POWER_INSTANCE_ACTION, axInstance = inId i, axAction = POWER_INSTANCE_ACTION,
          axTargetType = ''instance'', axTargetId = inId i,
          axAccepted = accepted_response op (inId i) t (status_url (mcProjectId c) op),
          axEvent = instance_command_event (uuidAt E 1) ''instance.power.requested'' c i op t
            (PowerRequested (power_text (pwAction c)) (routing_of i)),
          axChange = (\<lambda>r. r\<lparr>inActiveOperationId := Some op,
            inDesiredPowerState := (if pwAction c = Start \<or> pwAction c = Reboot then ''running'' else ''stopped''),
            inUpdatedAt := t\<rparr>),
          axEffects = Inr,
          axAudit = tenant_audit c (''power_'' @ power_text (pwAction c)) ''instance'' (inId i)\<rparr> db))"

definition sizing_of :: "instance_row \<Rightarrow> sizing" where
  "sizing_of i = \<lparr>cpuCount = inDesiredCpuCount i, memoryMiB = inDesiredMemoryMib i, diskGiB = inDesiredDiskGib i\<rparr>"

definition resize_target :: "instance_row \<Rightarrow> flavor_row \<Rightarrow> int option \<Rightarrow> sizing" where
  "resize_target i f disk =
     \<lparr>cpuCount = flCpuCount f, memoryMiB = flMemoryMib f,
      diskGiB = max (max (inDesiredDiskGib i) (flMinimumDiskGib f)) (case disk of Some d \<Rightarrow> d | None \<Rightarrow> 0)\<rparr>"

definition assertResizeQuotaHeadroom :: "uuid \<Rightarrow> sizing \<Rightarrow> sizing \<Rightarrow> pg \<Rightarrow> control_error + unit" where
  "assertResizeQuotaHeadroom project cur tgt db =
     res_bind (require (domain_fail PROJECT_NOT_FOUND ''The project does not exist.'')
         (lookup_by quProjectId project (quotas db))) (\<lambda>q.
     let rows = live_instances project db in
     throw_if (sum_list (map inDesiredCpuCount rows) - cpuCount cur + cpuCount tgt > quCpuCount q \<or>
         sum_list (map inDesiredMemoryMib rows) - memoryMiB cur + memoryMiB tgt > quMemoryMib q \<or>
         sum_list (map inDesiredDiskGib rows) - diskGiB cur + diskGiB tgt > quDiskGib q)
       (domain_fail QUOTA_EXCEEDED ''The resize request exceeds project quota.''))"

definition acceptResize ::
  "env \<Rightarrow> 'z resize_command_scheme \<Rightarrow> string \<Rightarrow> pg \<Rightarrow> control_error + accepted_mutation \<times> pg" where
  "acceptResize E c requestHash =
     replay_or (project_scope c RESIZE_INSTANCE_ACTION) requestHash (\<lambda>db.
       res_bind (lockInstanceForMutation (mcProjectId c) (mcInstanceId c) db) (\<lambda>i.
       res_bind (require (domain_fail VALIDATION_FAILED ''The requested flavor is not available.'')
           (find (\<lambda>f. flId f = rzFlavorId c \<and> flEnabled f) (flavors db))) (\<lambda>f.
       let tgt = resize_target i f (rzDiskGiB c) in
       res_bind (lift_domain (validateResize \<lparr>current = sizing_of i,
           target = tgt\<lparr>diskGiB := (case rzDiskGiB c of Some d \<Rightarrow> d | None \<Rightarrow> diskGiB tgt)\<rparr>\<rparr>)) (\<lambda>_.
       res_bind (assertResizeQuotaHeadroom (mcProjectId c) (sizing_of i) tgt db) (\<lambda>_.
       let t = now E; op = uuidAt E 0 in
       write_accepted E (uuidAt E 2, uuidAt E 3, uuidAt E 4) c requestHash
         \<lparr>axScope = project_scope c RESIZE_INSTANCE_ACTION, axInstance = inId i, axAction = RESIZE_INSTANCE_ACTION,
          axTargetType = ''instance'', axTargetId = inId i,
          axAccepted = accepted_response op (inId i) t (status_url (mcProjectId c) op),
          axEvent = instance_command_event (uuidAt E 1) ''instance.resize.requested'' c i op t
            (ResizeRequested (rzFlavorId c) tgt (routing_of i)),
          axChange = (\<lambda>r. r\<lparr>inActiveOperationId := Some op, inFlavorId := rzFlavorId c,
            inDesiredCpuCount := cpuCount tgt, inDesiredMemoryMib := memoryMiB tgt,
            inDesiredDiskGib := diskGiB tgt, inUpdatedAt := t\<rparr>),
          axEffects = Inr,
          axAudit = tenant_audit c ''resize_instance'' ''instance'' (inId i)\<rparr> db)))))"

subsection \<open>Snapshots\<close>

definition occupying_snapshot_states :: "string list" where
  "occupying_snapshot_states = [''creating'', ''available'', ''rolling_back'', ''deleting'']"

definition occupying_snapshots :: "uuid \<Rightarrow> pg \<Rightarrow> snapshot_row list" where
  "occupying_snapshots project db =
     filter (\<lambda>s. snProjectId s = project \<and> List.member occupying_snapshot_states (snState s)) (snapshots db)"

definition assertSnapshotHeadroom :: "uuid \<Rightarrow> pg \<Rightarrow> control_error + unit" where
  "assertSnapshotHeadroom project db =
     res_bind (require (domain_fail PROJECT_NOT_FOUND ''The project does not exist.'')
         (lookup_by quProjectId project (quotas db))) (\<lambda>q.
     throw_if (int (length (occupying_snapshots project db)) + 1 > quSnapshots q)
       (domain_fail QUOTA_EXCEEDED ''The snapshot request exceeds project quota.''))"

text \<open>The upsert keeps the row's other columns and replaces document and timestamp.\<close>

definition writeSnapshotProjection :: "uuid \<Rightarrow> uuid \<Rightarrow> uuid \<Rightarrow> millis \<Rightarrow> pg \<Rightarrow> control_error + pg" where
  "writeSnapshotProjection sid project i t db =
     res_bind (require MissingRow (lookup_by snId sid (snapshots db))) (\<lambda>r.
     let doc = \<lparr>svId = snId r, svInstanceId = snInstanceId r, svName = snName r, svDescription = snDescription r,
           svState = snState r, svCreatedAt = toISOString (snCreatedAt r), svUpdatedAt = toISOString (snUpdatedAt r)\<rparr> in
     Inr (db\<lparr>snapshot_documents :=
       (if sid \<in> set (map sdSnapshotId (snapshot_documents db))
        then update_where (\<lambda>d. sdSnapshotId d = sid) (\<lambda>d. d\<lparr>sdDocument := doc, sdUpdatedAt := t\<rparr>) (snapshot_documents db)
        else snapshot_documents db @ [\<lparr>sdSnapshotId = sid, sdProjectId = project, sdInstanceId = i,
               sdDocument = doc, sdUpdatedAt = t\<rparr>])\<rparr>))"

definition writeSnapshotOperation ::
  "env \<Rightarrow> uuid \<times> uuid \<times> uuid \<Rightarrow> 'z project_command_scheme \<Rightarrow> string \<Rightarrow> uuid \<Rightarrow> uuid \<Rightarrow> uuid \<Rightarrow>
   accepted_mutation \<Rightarrow> event \<Rightarrow> string \<Rightarrow> pg \<Rightarrow> control_error + accepted_mutation \<times> pg" where
  "writeSnapshotOperation E ids c action op sid i accepted e requestHash =
     write_accepted E ids c requestHash
       \<lparr>axScope = project_scope c action, axInstance = i, axAction = action, axTargetType = ''snapshot'',
        axTargetId = sid, axAccepted = accepted, axEvent = e,
        axChange = (\<lambda>r. r\<lparr>inActiveOperationId := Some op, inUpdatedAt := now E\<rparr>),
        axEffects = writeSnapshotProjection sid (mcProjectId c) i (now E),
        axAudit = tenant_audit c action ''snapshot'' sid\<rparr>"

definition insert_snapshot :: "snapshot_row \<Rightarrow> pg \<Rightarrow> control_error + pg" where
  "insert_snapshot r db =
     (if snId r \<in> set (map snId (snapshots db)) \<or>
         (snInstanceId r, snName r) \<in> set (map (\<lambda>s. (snInstanceId s, snName s)) (snapshots db))
      then Inl (ConstraintViolation ''control.snapshots'')
      else Inr (db\<lparr>snapshots := snapshots db @ [r]\<rparr>))"

definition acceptSnapshotCreate ::
  "env \<Rightarrow> 'z snapshot_create_command_scheme \<Rightarrow> string \<Rightarrow> pg \<Rightarrow> control_error + accepted_mutation \<times> pg" where
  "acceptSnapshotCreate E c requestHash =
     replay_or (project_scope c CREATE_SNAPSHOT_ACTION) requestHash (\<lambda>db.
       res_bind (lockInstanceForMutation (mcProjectId c) (mcInstanceId c) db) (\<lambda>i.
       res_bind (assertSnapshotHeadroom (mcProjectId c) db) (\<lambda>_.
       res_bind (throw_if (find (\<lambda>s. snInstanceId s = inId i \<and> snName s = scName c) (snapshots db) \<noteq> None)
           (domain_fail VALIDATION_FAILED ''A snapshot with this name already exists on the instance.'')) (\<lambda>_.
       let t = now E; op = uuidAt E 0; sid = uuidAt E 1 in
       res_bind (insert_snapshot
           \<lparr>snId = sid, snProjectId = mcProjectId c, snInstanceId = inId i, snName = scName c,
            snDescription = scDescription c, snState = ''creating'', snProviderSnapshotName = Some (scName c),
            snCreatedAt = t, snUpdatedAt = t\<rparr> db) (\<lambda>db1.
       writeSnapshotOperation E (uuidAt E 3, uuidAt E 4, uuidAt E 5) c CREATE_SNAPSHOT_ACTION op sid (inId i)
         (accepted_response op sid t (status_url (mcProjectId c) op))
         (instance_command_event (uuidAt E 2) ''snapshot.create.requested'' c i op t
            (SnapshotCreateRequested sid (scName c)
               (if truthy (scDescription c) then scDescription c else None) (routing_of i)))
         requestHash db1)))))"

datatype snapshot_action = RollbackSnapshot | DeleteSnapshot

fun snapshot_action_text :: "snapshot_action \<Rightarrow> string" where
  "snapshot_action_text RollbackSnapshot = ''rollback_snapshot''"
| "snapshot_action_text DeleteSnapshot = ''delete_snapshot''"

definition snapshot_action_data :: "snapshot_action \<Rightarrow> snapshot_row \<Rightarrow> instance_row \<Rightarrow> string \<times> event_data" where
  "snapshot_action_data a s i =
     (let reference = (case snProviderSnapshotName s of Some n \<Rightarrow> n | None \<Rightarrow> snName s) in
      if a = RollbackSnapshot
      then (''snapshot.rollback.requested'', SnapshotRollbackRequested (snId s) reference (routing_of i))
      else (''snapshot.delete.requested'', SnapshotDeleteRequested (snId s) reference (routing_of i)))"

definition acceptSnapshotAction ::
  "env \<Rightarrow> snapshot_action \<Rightarrow> 'z snapshot_action_command_scheme \<Rightarrow> string \<Rightarrow> pg \<Rightarrow>
   control_error + accepted_mutation \<times> pg" where
  "acceptSnapshotAction E a c requestHash =
     replay_or (project_scope c (snapshot_action_text a)) requestHash (\<lambda>db.
       res_bind (lockInstanceForMutation (mcProjectId c) (mcInstanceId c) db) (\<lambda>i.
       res_bind (require (domain_fail SNAPSHOT_NOT_FOUND ''The requested snapshot does not exist.'')
           (lookup_by snId (saSnapshotId c) (snapshots db))) (\<lambda>s.
       if snInstanceId s \<noteq> inId i
       then Inl (domain_fail SNAPSHOT_OWNERSHIP_MISMATCH ''The snapshot does not belong to the requested instance.'')
       else if snState s \<noteq> ''available''
       then Inl (domain_fail INSTANCE_BUSY ''The snapshot is not in a state that accepts this operation.'')
       else
         let t = now E; op = uuidAt E 0; (schema, d) = snapshot_action_data a s i;
             db1 = db\<lparr>snapshots := update_where (\<lambda>r. snId r = snId s)
               (\<lambda>r. r\<lparr>snState := (if a = RollbackSnapshot then ''rolling_back'' else ''deleting''), snUpdatedAt := t\<rparr>)
               (snapshots db)\<rparr> in
         writeSnapshotOperation E (uuidAt E 2, uuidAt E 3, uuidAt E 4) c (snapshot_action_text a) op (snId s) (inId i)
           (accepted_response op (snId s) t (status_url (mcProjectId c) op))
           (instance_command_event (uuidAt E 1) schema c i op t d) requestHash db1)))"

subsection \<open>Retention and purge\<close>

definition release_active_lease :: "uuid \<Rightarrow> string \<Rightarrow> millis \<Rightarrow> pg \<Rightarrow> pg" where
  "release_active_lease i mode t db =
     db\<lparr>ipv4_leases := update_where (\<lambda>l. ilInstanceId l = i \<and> ilState l = ''active'')
          (\<lambda>l. l\<lparr>ilState := (if mode = ''release_on_retain'' then ''released'' else ''quarantined''), ilUpdatedAt := t\<rparr>)
          (ipv4_leases db)\<rparr>"

definition acceptRetention ::
  "env \<Rightarrow> 'z instance_command_scheme \<Rightarrow> string \<Rightarrow> pg \<Rightarrow> control_error + accepted_mutation \<times> pg" where
  "acceptRetention E c requestHash =
     replay_or (project_scope c RETAIN_INSTANCE_ACTION) requestHash (\<lambda>db.
       res_bind (lockInstanceForMutation (mcProjectId c) (mcInstanceId c) db) (\<lambda>i.
       let t = now E; op = uuidAt E 0; deadline = t + rpRetentionHours (policy db) * 60 * 60 * 1000;
           mode = rpLeaseReleaseMode (policy db) in
       write_accepted E (uuidAt E 2, uuidAt E 3, uuidAt E 4) c requestHash
         \<lparr>axScope = project_scope c RETAIN_INSTANCE_ACTION, axInstance = inId i, axAction = RETAIN_INSTANCE_ACTION,
          axTargetType = ''instance'', axTargetId = inId i,
          axAccepted = accepted_response op (inId i) t (status_url (mcProjectId c) op),
          axEvent = instance_command_event (uuidAt E 1) ''instance.retention.requested'' c i op t
            (RetentionRequested (toISOString deadline) mode (routing_of i)),
          axChange = (\<lambda>r. r\<lparr>inActiveOperationId := Some op, inLifecycleState := ''deleting'',
            inRetentionDeadline := Some deadline, inPurgeEligible := False, inUpdatedAt := t\<rparr>),
          axEffects = (\<lambda>db. Inr (release_active_lease (inId i) mode t db)),
          axAudit = tenant_audit c RETAIN_INSTANCE_ACTION ''instance'' (inId i)\<rparr> db))"

definition purgeable :: "millis \<Rightarrow> uuid \<Rightarrow> pg \<Rightarrow> control_error + instance_row \<times> millis" where
  "purgeable t instance_id db =
     res_bind (require (domain_fail INSTANCE_NOT_FOUND ''The requested instance does not exist.'')
         (lookup_by inId instance_id (instances db))) (\<lambda>i.
     res_bind (throw_if (inActiveOperationId i \<noteq> None)
         (domain_fail INSTANCE_BUSY ''Another operation is already in progress for this instance.'')) (\<lambda>_.
     res_bind (throw_if (inLifecycleState i \<noteq> ''retained'')
         (domain_fail INSTANCE_BUSY ''Only a retained instance can be purged.'')) (\<lambda>_.
     case inRetentionDeadline i of
       None \<Rightarrow> Inl (domain_fail INSTANCE_BUSY ''The retention period has not expired.'')
     | Some deadline \<Rightarrow>
         if deadline > t then Inl (domain_fail INSTANCE_BUSY ''The retention period has not expired.'')
         else Inr (i, deadline))))"

definition acceptPurge ::
  "env \<Rightarrow> 'z purge_command_scheme \<Rightarrow> string \<Rightarrow> pg \<Rightarrow> control_error + accepted_mutation \<times> pg" where
  "acceptPurge E c requestHash db =
     (if puConfirmInstanceId c \<noteq> puInstanceId c
      then Inl (domain_fail VALIDATION_FAILED ''The confirmation identifier does not match the instance being purged.'')
      else replay_or (adminScope c PURGE_INSTANCE_ACTION) requestHash (\<lambda>db.
       res_bind (purgeable (now E) (puInstanceId c) db) (\<lambda>(i, deadline).
       let t = now E; op = uuidAt E 0; authorization = uuidAt E 1 in
       write_accepted E (uuidAt E 3, uuidAt E 4, uuidAt E 5) c requestHash
         \<lparr>axScope = adminScope c PURGE_INSTANCE_ACTION, axInstance = inId i, axAction = PURGE_INSTANCE_ACTION,
          axTargetType = ''instance'', axTargetId = inId i,
          axAccepted = accepted_response op (inId i) t (''/v1/admin/operations/'' @ op),
          axEvent = instance_command_event (uuidAt E 2) ''instance.purge.requested'' c i op t
            (PurgeRequested authorization (toISOString deadline) authorization (routing_of i)),
          axChange = (\<lambda>r. r\<lparr>inActiveOperationId := Some op, inLifecycleState := ''purge_pending'',
            inPurgeEligible := True, inUpdatedAt := t\<rparr>),
          axEffects = Inr,
          axAudit = \<lparr>auActorId = subject (mcActor c), auActorRole = ''platform_administrator'',
            auAction = PURGE_INSTANCE_ACTION, auTargetType = ''instance'', auTargetId = inId i,
            auOutcome = ''accepted'',
            auReasonReference = (if truthy (Some authorization) then Some authorization else None)\<rparr>\<rparr> db)) db)"

text \<open>
  \<^verbatim>\<open>releaseIpv4Lease\<close>: the result is the state the lease is left in, \<open>None\<close> for no lease. A state outside
  the three has no rank; comparing with it is false in the source, so the lease then moves.
\<close>

fun lease_rank :: "string \<Rightarrow> nat option" where
  "lease_rank s = (if s = ''active'' then Some 0 else if s = ''quarantined'' then Some 1
     else if s = ''released'' then Some 2 else None)"

definition releaseIpv4Lease :: "millis \<Rightarrow> uuid \<Rightarrow> string \<Rightarrow> pg \<Rightarrow> string option \<times> pg" where
  "releaseIpv4Lease t i mode db =
     (let tgt = (if mode = ''quarantine_until_purge'' then ''quarantined'' else ''released'') in
      case lookup_by ilInstanceId i (ipv4_leases db) of
        None \<Rightarrow> (None, db)
      | Some l \<Rightarrow>
          (case (lease_rank (ilState l), lease_rank tgt) of
             (Some a, Some b) \<Rightarrow> if b \<le> a then (if ilState l = ''active'' then None else Some (ilState l), db)
               else (Some tgt, db\<lparr>ipv4_leases := update_where (\<lambda>r. ilId r = ilId l \<and> ilState r = ilState l)
                      (\<lambda>r. r\<lparr>ilState := tgt, ilUpdatedAt := t\<rparr>) (ipv4_leases db)\<rparr>)
           | _ \<Rightarrow> (Some tgt, db\<lparr>ipv4_leases := update_where (\<lambda>r. ilId r = ilId l \<and> ilState r = ilState l)
                      (\<lambda>r. r\<lparr>ilState := tgt, ilUpdatedAt := t\<rparr>) (ipv4_leases db)\<rparr>)))"

subsection \<open>Reconciliation requests, replay of dead letters, quota\<close>

definition store_requestReconciliation :: "uuid \<Rightarrow> pg \<Rightarrow> bool \<times> pg" where
  "store_requestReconciliation i db =
     (i \<in> set (map inId (instances db)), update_instance i (\<lambda>r. r\<lparr>inLastReconciledAt := None\<rparr>) db)"

definition getDeadLetterTraceContext :: "uuid \<Rightarrow> pg \<Rightarrow> trace_context option" where
  "getDeadLetterTraceContext event_id db =
     map_option ddTraceContext (lookup_by ddOriginalEventId event_id (dead_letter_documents db))"

definition replay_response :: "dead_letter_view \<Rightarrow> millis \<Rightarrow> bool \<Rightarrow> accepted_mutation" where
  "replay_response d t replayed =
     \<lparr>acOperationId = dvOperationId d, acTargetId = dvAggregateId d, acAcceptedAt = toISOString t,
      acStatusUrl = status_url (dvProjectId d) (dvOperationId d), acReplayed = replayed\<rparr>"

definition replay_event :: "env \<Rightarrow> 'z replay_command_scheme \<Rightarrow> dead_letter_view \<Rightarrow> event" where
  "replay_event E c d =
     \<lparr>eventId = uuidAt E 1, schemaName = ''provisioning.replay.requested'', schemaVersion = 1,
      aggregateType = ''instance'', aggregateId = dvAggregateId d, projectId = dvProjectId d,
      operationId = dvOperationId d, correlationId = mcCorrelationId c, causationId = rdOriginalEventId c,
      occurredAt = toISOString (now E), traceContext = command_trace c, partitionKey = dvAggregateId d,
      data = ReplayRequested (uuidAt E 0) (rdOriginalEventId c) (toISOString (now E))\<rparr>"

definition replay_row :: "env \<Rightarrow> 'z replay_command_scheme \<Rightarrow> string \<Rightarrow> control_replay_request" where
  "replay_row E c requestHash =
     \<lparr>crId = uuidAt E 0, crOriginalEventId = rdOriginalEventId c, crActorId = subject (mcActor c),
      crIdempotencyKey = mcIdempotencyKey c, crRequestHash = requestHash, crReason = rdReason c,
      crCorrelationId = mcCorrelationId c, crTraceContext = command_trace c,
      crStatus = ''accepted'', crRequestedAt = now E, crUpdatedAt = now E\<rparr>"

definition replay_audit :: "env \<Rightarrow> 'z replay_command_scheme \<Rightarrow> audit_data" where
  "replay_audit E c =
     \<lparr>auActorId = subject (mcActor c), auActorRole = ''platform_administrator'',
      auAction = ''replay_dead_letter'', auTargetType = ''event'', auTargetId = rdOriginalEventId c,
      auOutcome = ''accepted'',
      auReasonReference = (if truthy (Some (uuidAt E 0)) then Some (uuidAt E 0) else None)\<rparr>"

definition store_requestDeadLetterReplay ::
  "env \<Rightarrow> 'z replay_command_scheme \<Rightarrow> string \<Rightarrow> pg \<Rightarrow> control_error + accepted_mutation \<times> pg" where
  "store_requestDeadLetterReplay E c requestHash db =
     res_bind (require (domain_fail DEAD_LETTER_NOT_FOUND ''The dead letter was not found.'')
         (lookup_by ddOriginalEventId (rdOriginalEventId c) (dead_letter_documents db))) (\<lambda>projected.
     let d = ddDocument projected; t = now E; e = replay_event E c d in
     case lookup_by (\<lambda>r. (crActorId r, crIdempotencyKey r)) (subject (mcActor c), mcIdempotencyKey c)
         (control_replays db) of
       Some previous \<Rightarrow>
         if crRequestHash previous \<noteq> requestHash
         then Inl (domain_fail IDEMPOTENCY_CONFLICT ''The idempotency key is already bound to different replay intent.'')
         else Inr (replay_response d (crRequestedAt previous) True, db)
     | None \<Rightarrow>
         if \<not> dvReplayAllowed d
         then Inl (domain_fail REPLAY_NOT_ALLOWED ''This dead letter is not replayable.'')
         else
           res_bind (insert_row ''control.replay_requests'' crId (replay_row E c requestHash) (control_replays db)) (\<lambda>rows.
           res_bind (writeControlOutbox (uuidAt E 2) e ''provisioning.commands.v1'' t (db\<lparr>control_replays := rows\<rparr>)) (\<lambda>db1.
           res_bind (writeControlAudit (uuidAt E 3) (uuidAt E 4) e (eventId e) (replay_audit E c) t db1) (\<lambda>db2.
           Inr (replay_response d t False, db2)))))"

record usage =
  usInstances :: int
  usCpuCount :: int
  usMemoryMiB :: int
  usDiskGiB :: int
  usIpv4Addresses :: int
  usSnapshots :: int

definition quota_usage :: "uuid \<Rightarrow> pg \<Rightarrow> usage" where
  "quota_usage project db =
     (let rows = live_instances project db in
      \<lparr>usInstances = int (length rows), usCpuCount = sum_list (map inDesiredCpuCount rows),
       usMemoryMiB = sum_list (map inDesiredMemoryMib rows), usDiskGiB = sum_list (map inDesiredDiskGib rows),
       usIpv4Addresses = int (length (filter (\<lambda>l. ilProjectId l = project \<and> occupies l) (ipv4_leases db))),
       usSnapshots = int (length (occupying_snapshots project db))\<rparr>)"

definition store_getQuota :: "uuid \<Rightarrow> pg \<Rightarrow> (quota_row \<times> usage) option" where
  "store_getQuota project db =
     map_option (\<lambda>q. (q, quota_usage project db)) (lookup_by quProjectId project (quotas db))"

end
