(* ===== verification/Control_Plane.thy ===== *)
theory Control_Plane
  imports Control_Store "HOL-Library.List_Lexorder" "HOL-Library.Char_ord"
begin

section \<open>The control plane application\<close>

text \<open>
  Model of \<^verbatim>\<open>packages/application/src/control-plane.ts\<close>: every method authorises its caller, bounds the
  idempotency key, validates the request, binds the active trace, hashes the semantic request and
  delegates to the store. The hash is \<open>hashJson E\<close> (\<^verbatim>\<open>canonicalSha256\<close>, modelled in \<open>Canonical_Json\<close>); the
  active trace is \<open>currentTraceContext E\<close>. Spans and counters have no counterpart. Inputs that have
  the members of their command are that command with the trace still unbound. The
  paged lists are in \<open>Control_Lists\<close>.
\<close>

definition IDEMPOTENCY_KEY_MINIMUM_LENGTH :: nat where "IDEMPOTENCY_KEY_MINIMUM_LENGTH = 8"
definition IDEMPOTENCY_KEY_MAXIMUM_LENGTH :: nat where "IDEMPOTENCY_KEY_MAXIMUM_LENGTH = 128"
definition DEFAULT_PAGE_LIMIT :: int where "DEFAULT_PAGE_LIMIT = 50"
definition MAXIMUM_PAGE_LIMIT :: int where "MAXIMUM_PAGE_LIMIT = 100"

record create_input = project_command +
  ciImageId :: string
  ciFlavorId :: string
  ciNetworkId :: string
  ciHostname :: string
  ciSshPublicKeys :: "string list option"

record power_input = instance_command +
  piAction :: string

subsection \<open>Guards\<close>

definition authorize :: "actor \<Rightarrow> uuid \<Rightarrow> control_error + unit" where
  "authorize a project =
     throw_if (\<not> List.member (roles a) ''tenant_developer'' \<or> \<not> List.member (projects a) project)
       (domain_fail PROJECT_ACCESS_DENIED ''Project access is denied.'')"

definition authorizeAdministrator :: "actor \<Rightarrow> control_error + unit" where
  "authorizeAdministrator a =
     throw_if (\<not> List.member (roles a) ''platform_administrator'')
       (domain_fail ADMIN_REQUIRED ''Platform administrator access is required.'')"

definition assertIdempotencyKey :: "string \<Rightarrow> control_error + unit" where
  "assertIdempotencyKey k =
     throw_if (length k < IDEMPOTENCY_KEY_MINIMUM_LENGTH \<or> length k > IDEMPOTENCY_KEY_MAXIMUM_LENGTH)
       (domain_fail VALIDATION_FAILED ''Idempotency key must contain 8 to 128 characters.'')"

text \<open>A page size that is not an integer is \<open>None\<close>.\<close>

definition page_limit :: "int option \<Rightarrow> int" where
  "page_limit v = (case v of
     Some n \<Rightarrow> if 1 \<le> n \<and> n \<le> MAXIMUM_PAGE_LIMIT then n else DEFAULT_PAGE_LIMIT
   | None \<Rightarrow> DEFAULT_PAGE_LIMIT)"

definition required :: "domain_error_code \<Rightarrow> 'a option \<Rightarrow> control_error + 'a" where
  "required c x = require (domain_fail c ''The requested resource was not found.'') x"

definition active_trace :: "env \<Rightarrow> 'z mutation_command_scheme \<Rightarrow> trace_context" where
  "active_trace E c = currentTraceContext E
     \<lparr>traceparent = mcTraceparent c, tracestate = (if truthy (mcTracestate c) then mcTracestate c else None)\<rparr>"

text \<open>Binding the trace to a command that is built member by member.\<close>

definition bind_trace :: "env \<Rightarrow> 'z mutation_command_scheme \<Rightarrow> 'z mutation_command_scheme" where
  "bind_trace E c = c\<lparr>mcTraceparent := traceparent (active_trace E c),
     mcTracestate := (if truthy (tracestate (active_trace E c)) then tracestate (active_trace E c) else None)\<rparr>"

text \<open>Binding it to a command that spreads its input keeps the input's state when there is no active one.\<close>

definition spread_trace :: "env \<Rightarrow> 'z mutation_command_scheme \<Rightarrow> 'z mutation_command_scheme" where
  "spread_trace E c = c\<lparr>mcTraceparent := traceparent (active_trace E c),
     mcTracestate := (if truthy (tracestate (active_trace E c)) then tracestate (active_trace E c) else mcTracestate c)\<rparr>"

subsection \<open>Mutations\<close>

definition create_values :: "create_input \<Rightarrow> create_instance_values" where
  "create_values c = \<lparr>imageId = ciImageId c, flavorId = ciFlavorId c, networkId = ciNetworkId c,
     hostname = ciHostname c, sshPublicKeys = ciSshPublicKeys c\<rparr>"

definition create_keys :: "create_input \<Rightarrow> string list" where
  "create_keys c = (case ciSshPublicKeys c of None \<Rightarrow> [] | Some ks \<Rightarrow> ks)"

definition create_command_of :: "env \<Rightarrow> create_input \<Rightarrow> create_command" where
  "create_command_of E c =
     (let b = spread_trace E c in
      \<lparr>mcActor = mcActor c, mcIdempotencyKey = mcIdempotencyKey c, mcCorrelationId = mcCorrelationId c,
       mcTraceparent = mcTraceparent b, mcTracestate = mcTracestate b, mcProjectId = mcProjectId c,
       ccImageId = ciImageId c, ccFlavorId = ciFlavorId c, ccNetworkId = ciNetworkId c,
       ccHostname = ciHostname c, ccSshPublicKeys = create_keys c\<rparr>)"

definition create_hash :: "env \<Rightarrow> create_input \<Rightarrow> string" where
  "create_hash E c = hashJson E (JObj
     [(''actor'', JStr (subject (mcActor c))), (''projectId'', JStr (mcProjectId c)),
      (''operation'', JStr ''create_instance''), (''imageId'', JStr (ciImageId c)),
      (''flavorId'', JStr (ciFlavorId c)), (''networkId'', JStr (ciNetworkId c)),
      (''hostname'', JStr (ciHostname c)), (''sshPublicKeys'', JArr (map JStr (sort (create_keys c))))])"

definition createInstance ::
  "env \<Rightarrow> string \<Rightarrow> create_input \<Rightarrow> pg \<Rightarrow> control_error + accepted_mutation \<times> pg" where
  "createInstance E generated c db =
     res_bind (authorize (mcActor c) (mcProjectId c)) (\<lambda>_.
     res_bind (assertIdempotencyKey (mcIdempotencyKey c)) (\<lambda>_.
     res_bind (lift_domain (validateCreateInstance (create_values c))) (\<lambda>_.
     acceptCreate E generated (create_command_of E c) (create_hash E c) db)))"

definition instance_request :: "'z instance_command_scheme \<Rightarrow> string \<Rightarrow> (string \<times> json) list" where
  "instance_request c action =
     [(''actor'', JStr (subject (mcActor c))), (''projectId'', JStr (mcProjectId c)),
      (''operation'', JStr action), (''instanceId'', JStr (mcInstanceId c))]"

definition power_command_of :: "env \<Rightarrow> power_input \<Rightarrow> power_action \<Rightarrow> power_command" where
  "power_command_of E c action =
     (let b = bind_trace E c in
      \<lparr>mcActor = mcActor c, mcIdempotencyKey = mcIdempotencyKey c, mcCorrelationId = mcCorrelationId c,
       mcTraceparent = mcTraceparent b, mcTracestate = mcTracestate b, mcProjectId = mcProjectId c,
       mcInstanceId = mcInstanceId c, pwAction = action\<rparr>)"

definition mutateInstancePower :: "env \<Rightarrow> power_input \<Rightarrow> pg \<Rightarrow> control_error + accepted_mutation \<times> pg" where
  "mutateInstancePower E c db =
     res_bind (authorize (mcActor c) (mcProjectId c)) (\<lambda>_.
     res_bind (assertIdempotencyKey (mcIdempotencyKey c)) (\<lambda>_.
     res_bind (lift_domain (validatePowerAction (piAction c))) (\<lambda>action.
     acceptPowerAction E (power_command_of E c action)
       (hashJson E (JObj (instance_request c ''power_instance'' @ [(''action'', JStr (power_text action))]))) db)))"

definition optional_number :: "int option \<Rightarrow> json" where
  "optional_number n = (case n of None \<Rightarrow> JNull | Some i \<Rightarrow> JNum i)"

definition optional_string :: "string option \<Rightarrow> json" where
  "optional_string s = (case s of None \<Rightarrow> JNull | Some t \<Rightarrow> JStr t)"

definition resizeInstance :: "env \<Rightarrow> resize_command \<Rightarrow> pg \<Rightarrow> control_error + accepted_mutation \<times> pg" where
  "resizeInstance E c db =
     res_bind (authorize (mcActor c) (mcProjectId c)) (\<lambda>_.
     res_bind (assertIdempotencyKey (mcIdempotencyKey c)) (\<lambda>_.
     acceptResize E (bind_trace E c)
       (hashJson E (JObj (instance_request c ''resize_instance'' @
          [(''flavorId'', JStr (rzFlavorId c)), (''diskGiB'', optional_number (rzDiskGiB c))]))) db))"

definition createSnapshot ::
  "env \<Rightarrow> snapshot_create_command \<Rightarrow> pg \<Rightarrow> control_error + accepted_mutation \<times> pg" where
  "createSnapshot E c db =
     res_bind (authorize (mcActor c) (mcProjectId c)) (\<lambda>_.
     res_bind (assertIdempotencyKey (mcIdempotencyKey c)) (\<lambda>_.
     res_bind (lift_domain (validateSnapshotName (scName c))) (\<lambda>_.
     acceptSnapshotCreate E
       ((bind_trace E c)\<lparr>scDescription := (if truthy (scDescription c) then scDescription c else None)\<rparr>)
       (hashJson E (JObj (instance_request c ''create_snapshot'' @
          [(''name'', JStr (scName c)), (''description'', optional_string (scDescription c))]))) db)))"

definition snapshotAction ::
  "env \<Rightarrow> snapshot_action \<Rightarrow> snapshot_action_command \<Rightarrow> pg \<Rightarrow> control_error + accepted_mutation \<times> pg" where
  "snapshotAction E a c db =
     res_bind (authorize (mcActor c) (mcProjectId c)) (\<lambda>_.
     res_bind (assertIdempotencyKey (mcIdempotencyKey c)) (\<lambda>_.
     acceptSnapshotAction E a (bind_trace E c)
       (hashJson E (JObj (instance_request c (snapshot_action_text a) @
          [(''snapshotId'', JStr (saSnapshotId c))]))) db))"

definition rollbackSnapshot where "rollbackSnapshot E = snapshotAction E RollbackSnapshot"
definition deleteSnapshot where "deleteSnapshot E = snapshotAction E DeleteSnapshot"

definition retainInstance :: "env \<Rightarrow> instance_command \<Rightarrow> pg \<Rightarrow> control_error + accepted_mutation \<times> pg" where
  "retainInstance E c db =
     res_bind (authorize (mcActor c) (mcProjectId c)) (\<lambda>_.
     res_bind (assertIdempotencyKey (mcIdempotencyKey c)) (\<lambda>_.
     acceptRetention E (bind_trace E c) (hashJson E (JObj (instance_request c ''retain_instance''))) db))"

definition purgeInstance :: "env \<Rightarrow> purge_command \<Rightarrow> pg \<Rightarrow> control_error + accepted_mutation \<times> pg" where
  "purgeInstance E c db =
     res_bind (authorizeAdministrator (mcActor c)) (\<lambda>_.
     res_bind (assertIdempotencyKey (mcIdempotencyKey c)) (\<lambda>_.
     res_bind (throw_if (length (js_trim (puReason c)) < 10)
         (domain_fail VALIDATION_FAILED ''A purge reason of at least 10 characters is required.'')) (\<lambda>_.
     acceptPurge E (bind_trace E c)
       (hashJson E (JObj [(''actor'', JStr (subject (mcActor c))), (''operation'', JStr ''purge_instance''),
          (''instanceId'', JStr (puInstanceId c))])) db)))"

definition requestReconciliation :: "actor \<Rightarrow> uuid \<Rightarrow> pg \<Rightarrow> control_error + pg" where
  "requestReconciliation a i db =
     res_bind (authorizeAdministrator a) (\<lambda>_.
     let (marked, db') = store_requestReconciliation i db in
     if \<not> marked then Inl (domain_fail INSTANCE_NOT_FOUND ''The requested instance does not exist.'')
     else Inr db')"

definition requestDeadLetterReplay :: "env \<Rightarrow> replay_command \<Rightarrow> pg \<Rightarrow> control_error + accepted_mutation \<times> pg" where
  "requestDeadLetterReplay E c db =
     res_bind (authorizeAdministrator (mcActor c)) (\<lambda>_.
     res_bind (throw_if (length (mcIdempotencyKey c) < IDEMPOTENCY_KEY_MINIMUM_LENGTH \<or>
         length (mcIdempotencyKey c) > IDEMPOTENCY_KEY_MAXIMUM_LENGTH)
         (domain_fail VALIDATION_FAILED ''Idempotency key must contain 8 to 128 characters.'')) (\<lambda>_.
     let reason = js_trim (rdReason c) in
     res_bind (throw_if (length reason < 10 \<or> length reason > 512)
         (domain_fail VALIDATION_FAILED ''Replay reason must contain 10 to 512 characters.'')) (\<lambda>_.
     store_requestDeadLetterReplay E ((spread_trace E c)\<lparr>rdReason := reason\<rparr>)
       (hashJson E (JObj [(''originalEventId'', JStr (rdOriginalEventId c)), (''reason'', JStr reason)])) db)))"

subsection \<open>Reads of one resource\<close>

definition getProject :: "actor \<Rightarrow> uuid \<Rightarrow> pg \<Rightarrow> control_error + project_row" where
  "getProject a project db =
     res_bind (authorize a project) (\<lambda>_.
     required PROJECT_NOT_FOUND (lookup_by pjId project (project_rows db)))"

definition getQuota :: "actor \<Rightarrow> uuid \<Rightarrow> pg \<Rightarrow> control_error + quota_row \<times> usage" where
  "getQuota a project db =
     res_bind (authorize a project) (\<lambda>_. required PROJECT_NOT_FOUND (store_getQuota project db))"

definition getInstance :: "actor \<Rightarrow> uuid \<Rightarrow> uuid \<Rightarrow> pg \<Rightarrow> control_error + instance_view" where
  "getInstance a project i db =
     res_bind (authorize a project) (\<lambda>_.
     required INSTANCE_NOT_FOUND (map_option idoDocument
       (find (\<lambda>r. idoProjectId r = project \<and> idoInstanceId r = i) (instance_documents db))))"

definition getOperation :: "actor \<Rightarrow> uuid \<Rightarrow> uuid \<Rightarrow> pg \<Rightarrow> control_error + operation_view" where
  "getOperation a project op db =
     res_bind (authorize a project) (\<lambda>_.
     required OPERATION_NOT_FOUND (map_option odDocument
       (find (\<lambda>r. odProjectId r = project \<and> odOperationId r = op) (operation_documents db))))"

record administrative_view =
  avOperation :: operation_view
  avCorrelationId :: "string option"
  avCausationId :: "string option"
  avTraceId :: "string option"
  avRetryCount :: int
  avCheckpoint :: string
  avDeadLetterEventId :: "uuid option"
  avTaskReference :: "string option"

definition store_getAdministrativeOperation :: "uuid \<Rightarrow> pg \<Rightarrow> administrative_view option" where
  "store_getAdministrativeOperation op db =
     map_option (\<lambda>r. \<lparr>avOperation = odDocument r,
         avCorrelationId = (if truthy (odCorrelationId r) then odCorrelationId r else None),
         avCausationId = odCausationId r, avTraceId = odTraceId r, avRetryCount = odRetryCount r,
         avCheckpoint = (case odCheckpoint r of Some s \<Rightarrow> s | None \<Rightarrow> ovStage (odDocument r)),
         avDeadLetterEventId = odDeadLetterEventId r, avTaskReference = odTaskReference r\<rparr>)
       (lookup_by odOperationId op (operation_documents db))"

definition getAdministrativeOperation :: "actor \<Rightarrow> uuid \<Rightarrow> pg \<Rightarrow> control_error + administrative_view" where
  "getAdministrativeOperation a op db =
     res_bind (authorizeAdministrator a) (\<lambda>_.
     required OPERATION_NOT_FOUND (store_getAdministrativeOperation op db))"

end
