(* ===== verification/Control_Acceptance.thy ===== *)
theory Control_Acceptance
  imports Control_Plane
begin

section \<open>What an acceptance records\<close>

text \<open>
  The abstract specification of the acceptance transactions: \<open>recorded\<close> is the part common to all of
  them, \<open>accepts\<close> the two ways an acceptance changes the instances: a create adds a busy instance and
  its lease, every other action makes an idle instance busy. The refinement lemmas at the end show
  that each method of the store, when it does not replay, takes such a step.
\<close>

subsection \<open>The writes of an acceptance, table by table\<close>

lemma insert_row_Inr [simp]:
  "insert_row table k r rows = Inr rows' \<longleftrightarrow> lookup_by k (k r) rows = None \<and> rows' = rows @ [r]"
  by (simp add: insert_row_def)

definition command_row :: "uuid \<Rightarrow> event \<Rightarrow> string \<Rightarrow> millis \<Rightarrow> outbox_row" where
  "command_row outbox_id e topic_name t =
     \<lparr>obOutboxId = outbox_id, obTopic = topic_name, obPayload = e, obReplayGeneration = 0, obOccurredAt = toISOString t\<rparr>"

lemma command_row_sel:
  "obTopic (command_row oid e topic_name t) = topic_name" "obPayload (command_row oid e topic_name t) = e"
  "obOutboxId (command_row oid e topic_name t) = oid" "obReplayGeneration (command_row oid e topic_name t) = 0"
  by (simp_all add: command_row_def)

definition outbox_key :: "outbox_row \<Rightarrow> uuid \<times> int" where
  "outbox_key r = (eventId (obPayload r), obReplayGeneration r)"

lemma writeControlOutbox_Inr:
  "writeControlOutbox oid e topic_name t db = Inr db' \<longleftrightarrow>
     oid \<notin> set (map obOutboxId (ct_outbox db)) \<and> (eventId e, 0) \<notin> set (map outbox_key (ct_outbox db)) \<and>
     db' = db\<lparr>ct_outbox := ct_outbox db @ [command_row oid e topic_name t]\<rparr>"
  by (auto simp: writeControlOutbox_def command_row_def outbox_key_def)

definition audit_event :: "uuid \<Rightarrow> event \<Rightarrow> string \<Rightarrow> audit_data \<Rightarrow> millis \<Rightarrow> event" where
  "audit_event audit_id cause causation a t = (auditRecordedEvent audit_id cause t a)\<lparr>causationId := causation\<rparr>"

lemma writeControlAudit_InrE:
  assumes "writeControlAudit aid oid cause causation a t db = Inr db'"
  obtains entry where
    "db' = db\<lparr>audit_entries := audit_entries db @ [entry],
       ct_outbox := ct_outbox db @ [command_row oid (audit_event aid cause causation a t) ''audit.events.v1'' t]\<rparr>"
    "entry = audit_entry_of (audit_event aid cause causation a t) a t"
    "oid \<notin> set (map obOutboxId (ct_outbox db))"
    "(aid, 0) \<notin> set (map outbox_key (ct_outbox db))"
proof -
  have [simp]: "eventId (audit_event aid cause causation a t) = aid"
    by (simp add: audit_event_def auditRecordedEvent_def)
  from assms show ?thesis
    by (intro that) (auto simp: writeControlAudit_def writeControlOutbox_Inr Let_def audit_event_def [symmetric])
qed

text \<open>What an action adds to the common writes stays within the leases and the snapshot documents.\<close>

definition effects_frame :: "(pg \<Rightarrow> control_error + pg) \<Rightarrow> bool" where
  "effects_frame f \<longleftrightarrow> (\<forall>d d'. f d = Inr d' \<longrightarrow>
     d' = d\<lparr>ipv4_leases := ipv4_leases d', snapshot_documents := snapshot_documents d'\<rparr>)"

lemma effects_frame_Inr [simp]: "effects_frame Inr"
  by (simp add: effects_frame_def)

lemma effects_frame_release [simp]: "effects_frame (\<lambda>d. Inr (release_active_lease i mode t d))"
  by (simp add: effects_frame_def release_active_lease_def)

lemma effects_frame_snapshot [simp]: "effects_frame (writeSnapshotProjection s p i t)"
  by (auto simp: effects_frame_def writeSnapshotProjection_def Let_def)

lemma write_accepted_InrE:
  assumes run: "write_accepted E (o1, a1, o2) c h a db = Inr (r, db')" and frame: "effects_frame (axEffects a)"
  obtains d d' entry where
    "r = axAccepted a"
    "axEffects a d = Inr d'"
    "ipv4_leases d = ipv4_leases db" "snapshots d = snapshots db" "snapshot_documents d = snapshot_documents db"
    "lookup_by opId (acOperationId r) (operations db) = None"
    "lookup_by odOperationId (acOperationId r) (operation_documents db) = None"
    "lookup_by scope_of (scope_of (idempotency_of (axScope a) (axTargetId a) h r (now E))) (idempotency_records db) = None"
    "{o1, o2} \<inter> set (map obOutboxId (ct_outbox db)) = {}"
    "{(eventId (axEvent a), 0), (a1, 0)} \<inter> set (map outbox_key (ct_outbox db)) = {}"
    "o1 \<noteq> o2" "eventId (axEvent a) \<noteq> a1"
    "entry = audit_entry_of (audit_event a1 (axEvent a) (eventId (axEvent a)) (axAudit a) (now E)) (axAudit a) (now E)"
    "db' = db\<lparr>operations := operations db @ [accepted_operation (acOperationId r) (projectId (axEvent a)) (axAction a)
           (axTargetType a) (axTargetId a) (now E)],
         instances := update_where (\<lambda>r. inId r = axInstance a) (axChange a) (instances db),
         operation_documents := operation_documents db @ [accepted_document c
           (accepted_view (acOperationId r) (projectId (axEvent a)) (axAction a) (axTargetType a) (axTargetId a)
              (toISOString (now E))) (now E)],
         instance_documents := instance_documents (markInstanceBusyInProjection (axInstance a) (acOperationId r) (now E) db),
         ipv4_leases := ipv4_leases d', snapshot_documents := snapshot_documents d',
         idempotency_records := idempotency_records db @ [idempotency_of (axScope a) (axTargetId a) h r (now E)],
         audit_entries := audit_entries db @ [entry],
         ct_outbox := ct_outbox db @ [command_row o1 (axEvent a) ''provisioning.commands.v1'' (now E),
           command_row o2 (audit_event a1 (axEvent a) (eventId (axEvent a)) (axAudit a) (now E)) ''audit.events.v1'' (now E)]\<rparr>"
proof -
  let ?r = "axAccepted a" and ?t = "now E"
  let ?rec = "idempotency_of (axScope a) (axTargetId a) h ?r ?t"
  let ?view = "accepted_view (acOperationId ?r) (projectId (axEvent a)) (axAction a) (axTargetType a) (axTargetId a)
      (toISOString ?t)"
  let ?ops = "operations db @ [accepted_operation (acOperationId ?r) (projectId (axEvent a)) (axAction a)
      (axTargetType a) (axTargetId a) ?t]"
  let ?d = "markInstanceBusyInProjection (axInstance a) (acOperationId ?r) ?t
      ((update_instance (axInstance a) (axChange a) (db\<lparr>operations := ?ops\<rparr>))
         \<lparr>operation_documents := operation_documents db @ [accepted_document c ?view ?t]\<rparr>)"
  from run obtain d' db3 where e: "axEffects a ?d = Inr d'"
      and r: "r = ?r"
      and fresh: "lookup_by opId (acOperationId ?r) (operations db) = None"
        "lookup_by odOperationId (acOperationId ?r) (operation_documents db) = None"
      and rec: "lookup_by scope_of (scope_of ?rec) (idempotency_records d') = None"
      and o1: "writeControlOutbox o1 (axEvent a) ''provisioning.commands.v1'' ?t
         (d'\<lparr>idempotency_records := idempotency_records d' @ [?rec]\<rparr>) = Inr db3"
      and aud: "writeControlAudit a1 o2 (axEvent a) (eventId (axEvent a)) (axAudit a) ?t db3 = Inr db'"
    by (auto simp: write_accepted_def Let_def update_instance_def accepted_operation_def accepted_document_def
        accepted_view_def)
  from frame e obtain L S where d': "d' = ?d\<lparr>ipv4_leases := L, snapshot_documents := S\<rparr>"
    unfolding effects_frame_def by blast
  have tables: "idempotency_records d' = idempotency_records db" "ct_outbox d' = ct_outbox db"
    by (simp_all add: d' markInstanceBusyInProjection_def update_instance_def)
  note o1' = o1 [unfolded writeControlOutbox_Inr, simplified tables]
  from aud obtain entry where db': "db' = db3\<lparr>audit_entries := audit_entries db3 @ [entry], ct_outbox := ct_outbox db3 @
        [command_row o2 (audit_event a1 (axEvent a) (eventId (axEvent a)) (axAudit a) ?t) ''audit.events.v1'' ?t]\<rparr>"
      and entry: "entry = audit_entry_of (audit_event a1 (axEvent a) (eventId (axEvent a)) (axAudit a) ?t) (axAudit a) ?t"
      and o2: "o2 \<notin> set (map obOutboxId (ct_outbox db3))" "(a1, 0) \<notin> set (map outbox_key (ct_outbox db3))"
    by (rule writeControlAudit_InrE)
  have out: "{o1, o2} \<inter> set (map obOutboxId (ct_outbox db)) = {}" "o1 \<noteq> o2" "eventId (axEvent a) \<noteq> a1"
      "{(eventId (axEvent a), 0), (a1, 0)} \<inter> set (map outbox_key (ct_outbox db)) = {}"
    using o1' o2 by (auto simp: tables command_row_def outbox_key_def)
  show thesis
    by (rule that [OF r e _ _ _ _ _ _ out(1) out(4) out(2) out(3) entry])
      (use r fresh rec tables o1' in
        \<open>simp_all add: db' d' markInstanceBusyInProjection_def update_instance_def\<close>)
qed

subsection \<open>The specification\<close>

text \<open>The tables no acceptance writes.\<close>

definition same_catalog :: "pg \<Rightarrow> pg \<Rightarrow> bool" where
  "same_catalog db db' \<longleftrightarrow>
     project_rows db' = project_rows db \<and> quotas db' = quotas db \<and> networks db' = networks db \<and>
     provider_profiles db' = provider_profiles db \<and> images db' = images db \<and> flavors db' = flavors db \<and>
     policy db' = policy db \<and> control_replays db' = control_replays db \<and>
     dead_letter_documents db' = dead_letter_documents db \<and> event_receipts db' = event_receipts db \<and>
     projection_poison db' = projection_poison db"

definition command_schemas :: "string list" where
  "command_schemas = [''instance.create.requested'', ''instance.power.requested'', ''instance.resize.requested'',
     ''snapshot.create.requested'', ''snapshot.rollback.requested'', ''snapshot.delete.requested'',
     ''instance.retention.requested'', ''instance.purge.requested'']"

text \<open>A tenant's key is scoped to the project it acts in; only a purge is scoped to no project.\<close>

definition scope_project :: "scope \<Rightarrow> uuid \<Rightarrow> bool" where
  "scope_project sc project \<longleftrightarrow> fst (snd (snd sc)) = PURGE_INSTANCE_ACTION \<or> fst (snd sc) = project"

text \<open>The read document of an operation tells of it what its row tells.\<close>

definition error_columns :: "(string \<times> string \<times> string) option \<Rightarrow> string option \<times> string option \<times> string option" where
  "error_columns x = (map_option fst x, map_option (fst \<circ> snd) x, map_option (snd \<circ> snd) x)"

definition operation_agrees :: "operation_row \<Rightarrow> operation_document \<Rightarrow> bool" where
  "operation_agrees r d \<longleftrightarrow> (let v = odDocument d in
     ovId v = odOperationId d \<and> ovTargetId v = opTargetId r \<and> ovState v = opState r \<and> ovStage v = opStage r \<and>
     ovProgressPercent v = opProgressPercent r \<and> ovManualReviewRequired v = opManualReviewRequired r \<and>
     (ovErrorCategory v, ovErrorCode v, ovErrorMessage v) = error_columns (opError r))"

lemma operation_agrees_accepted:
  "ovId v = op \<Longrightarrow> v = accepted_view op p a tt ti occ \<Longrightarrow>
   operation_agrees (accepted_operation op p' a' tt' ti t) (accepted_document c v t)"
  by (simp add: operation_agrees_def accepted_operation_def accepted_document_def accepted_view_def error_columns_def Let_def)

definition recorded :: "scope \<Rightarrow> string \<Rightarrow> accepted_mutation \<Rightarrow> event \<Rightarrow> pg \<Rightarrow> pg \<Rightarrow> bool" where
  "recorded sc h r e db db' \<longleftrightarrow>
     lookup_by scope_of sc (idempotency_records db) = None \<and>
     (\<exists>rec. scope_of rec = sc \<and> idRequestHash rec = h \<and> idResponse rec = r \<and>
        idempotency_records db' = idempotency_records db @ [rec]) \<and>
     lookup_by opId (acOperationId r) (operations db) = None \<and>
     lookup_by odOperationId (acOperationId r) (operation_documents db) = None \<and>
     (\<exists>op doc. opId op = acOperationId r \<and> opProjectId op = projectId e \<and> opTargetId op = acTargetId r \<and>
        opState op = ''accepted'' \<and> operations db' = operations db @ [op] \<and>
        odOperationId doc = acOperationId r \<and> odProjectId doc = projectId e \<and> operation_agrees op doc \<and>
        operation_documents db' = operation_documents db @ [doc]) \<and>
     (\<exists>cmd aud. obPayload cmd = e \<and> obTopic cmd = ''provisioning.commands.v1'' \<and> obTopic aud = ''audit.events.v1'' \<and>
        schemaName (obPayload aud) = ''audit.recorded'' \<and> operationId (obPayload aud) = acOperationId r \<and>
        ct_outbox db' = ct_outbox db @ [cmd, aud]) \<and>
     (\<exists>entry. aeActorId entry = fst sc \<and> aeOperationId entry = acOperationId r \<and>
        audit_entries db' = audit_entries db @ [entry]) \<and>
     operationId e = acOperationId r \<and> schemaName e \<in> set command_schemas \<and> scope_project sc (projectId e) \<and>
     \<not> acReplayed r \<and> same_catalog db db'"

text \<open>What a create takes from the pool, and what an action on an instance does to its lease and snapshots.\<close>

definition lease_added :: "instance_row \<Rightarrow> pg \<Rightarrow> pg \<Rightarrow> bool" where
  "lease_added row db db' \<longleftrightarrow>
     (\<exists>l. ilInstanceId l = inId row \<and> ilProjectId l = inProjectId row \<and> ilState l = ''active'' \<and>
        ilId l \<notin> set (map ilId (ipv4_leases db)) \<and> ilInstanceId l \<notin> set (map ilInstanceId (ipv4_leases db)) \<and>
        (ilNetworkId l, ilAddress l) \<notin> set (map (\<lambda>r. (ilNetworkId r, ilAddress r)) (filter occupies (ipv4_leases db))) \<and>
        ipv4_leases db' = ipv4_leases db @ [l])"

definition leases_kept_or_released :: "instance_row \<Rightarrow> pg \<Rightarrow> pg \<Rightarrow> bool" where
  "leases_kept_or_released row db db' \<longleftrightarrow>
     ipv4_leases db' = ipv4_leases db \<or>
     (\<exists>mode t. ipv4_leases db' = ipv4_leases (release_active_lease (inId row) mode t db))"

definition fits_snapshot :: "uuid \<Rightarrow> pg \<Rightarrow> bool" where
  "fits_snapshot project db \<longleftrightarrow> (\<exists>q. lookup_by quProjectId project (quotas db) = Some q \<and>
     int (length (occupying_snapshots project db)) + 1 \<le> quSnapshots q)"

definition snapshot_added :: "instance_row \<Rightarrow> pg \<Rightarrow> pg \<Rightarrow> bool" where
  "snapshot_added row db db' \<longleftrightarrow>
     (\<exists>s. snInstanceId s = inId row \<and> snProjectId s = inProjectId row \<and> snId s \<notin> set (map snId (snapshots db)) \<and>
        (snInstanceId s, snName s) \<notin> set (map (\<lambda>s. (snInstanceId s, snName s)) (snapshots db)) \<and>
        fits_snapshot (inProjectId row) db \<and> snapshots db' = snapshots db @ [s])"

definition snapshot_claimed :: "instance_row \<Rightarrow> pg \<Rightarrow> pg \<Rightarrow> bool" where
  "snapshot_claimed row db db' \<longleftrightarrow>
     (\<exists>s state t. lookup_by snId (snId s) (snapshots db) = Some s \<and> snInstanceId s = inId row \<and>
        snState s = ''available'' \<and> state \<in> {''rolling_back'', ''deleting''} \<and>
        snapshots db' = update_where (\<lambda>x. snId x = snId s) (\<lambda>x. x\<lparr>snState := state, snUpdatedAt := t\<rparr>) (snapshots db))"

definition fits_instance :: "uuid \<Rightarrow> sizing \<Rightarrow> pg \<Rightarrow> bool" where
  "fits_instance project sz db \<longleftrightarrow> (\<exists>q. lookup_by quProjectId project (quotas db) = Some q \<and>
     usInstances (quota_usage project db) + 1 \<le> quInstances q \<and>
     usCpuCount (quota_usage project db) + cpuCount sz \<le> quCpuCount q \<and>
     usMemoryMiB (quota_usage project db) + memoryMiB sz \<le> quMemoryMib q \<and>
     usDiskGiB (quota_usage project db) + diskGiB sz \<le> quDiskGib q)"

definition fits_resize :: "uuid \<Rightarrow> sizing \<Rightarrow> sizing \<Rightarrow> pg \<Rightarrow> bool" where
  "fits_resize project cur tgt db \<longleftrightarrow> (\<exists>q. lookup_by quProjectId project (quotas db) = Some q \<and>
     usCpuCount (quota_usage project db) - cpuCount cur + cpuCount tgt \<le> quCpuCount q \<and>
     usMemoryMiB (quota_usage project db) - memoryMiB cur + memoryMiB tgt \<le> quMemoryMib q \<and>
     usDiskGiB (quota_usage project db) - diskGiB cur + diskGiB tgt \<le> quDiskGib q)"

text \<open>How a change of an instance row may differ from the row.\<close>

definition busy_change :: "accepted_mutation \<Rightarrow> instance_row \<Rightarrow> (instance_row \<Rightarrow> instance_row) \<Rightarrow> pg \<Rightarrow> bool" where
  "busy_change r row f db \<longleftrightarrow>
     (\<forall>x. inId (f x) = inId x \<and> inProjectId (f x) = inProjectId x \<and> inCreateOperationId (f x) = inCreateOperationId x \<and>
        inActiveOperationId (f x) = Some (acOperationId r) \<and>
        inLifecycleState (f x) \<in> {inLifecycleState x, ''deleting'', ''purge_pending''}) \<and>
     ((\<forall>x. sizing_of (f x) = sizing_of x) \<or>
      (\<exists>tgt. (\<forall>x. sizing_of (f x) = tgt) \<and> fits_resize (inProjectId row) (sizing_of row) tgt db))"

inductive accepts :: "scope \<Rightarrow> string \<Rightarrow> accepted_mutation \<Rightarrow> event \<Rightarrow> pg \<Rightarrow> pg \<Rightarrow> bool" where
  created: "recorded sc h r e db db' \<Longrightarrow> aggregateId e = inId row \<Longrightarrow> projectId e = inProjectId row \<Longrightarrow>
    inActiveOperationId row = Some (acOperationId r) \<Longrightarrow> inCreateOperationId row = Some (acOperationId r) \<Longrightarrow>
    inLifecycleState row = ''pending'' \<Longrightarrow> lookup_by inId (inId row) (instances db) = None \<Longrightarrow>
    instances db' = instances db @ [row] \<Longrightarrow> fits_instance (inProjectId row) (sizing_of row) db \<Longrightarrow>
    lease_added row db db' \<Longrightarrow> snapshots db' = snapshots db \<Longrightarrow>
    lookup_by idoInstanceId (inId row) (instance_documents db) = None \<Longrightarrow>
    instance_documents db' = instance_documents db @ [doc] \<Longrightarrow>
    idoInstanceId doc = inId row \<Longrightarrow> idoProjectId doc = inProjectId row \<Longrightarrow>
    ivActiveOperationId (idoDocument doc) = Some (acOperationId r) \<Longrightarrow> ivId (idoDocument doc) = inId row \<Longrightarrow>
    accepts sc h r e db db'"
| changed: "recorded sc h r e db db' \<Longrightarrow> aggregateId e = inId row \<Longrightarrow> projectId e = inProjectId row \<Longrightarrow>
    row \<in> set (instances db) \<Longrightarrow> inActiveOperationId row = None \<Longrightarrow>
    inLifecycleState row \<in> {''active'', ''failed'', ''retained''} \<Longrightarrow>
    busy_change r row f db \<Longrightarrow> instances db' = update_where (\<lambda>x. inId x = inId row) f (instances db) \<Longrightarrow>
    leases_kept_or_released row db db' \<Longrightarrow>
    snapshots db' = snapshots db \<or> snapshot_added row db db' \<or> snapshot_claimed row db db' \<Longrightarrow>
    instance_documents db' = instance_documents (markInstanceBusyInProjection (inId row) (acOperationId r) t db) \<Longrightarrow>
    accepts sc h r e db db'"

subsection \<open>The methods meet the specification\<close>

lemma scope_of_idempotency [simp]: "scope_of (idempotency_of sc tid h r t) = sc"
  by (simp add: scope_of_def idempotency_of_def split: prod.split)

lemma idempotency_of_sel [simp]:
  "idRequestHash (idempotency_of sc tid h r t) = h" "idResponse (idempotency_of sc tid h r t) = r"
  by (simp_all add: idempotency_of_def split: prod.split)

lemma audit_event_sel [simp]:
  "eventId (audit_event aid e cause a t) = aid" "schemaName (audit_event aid e cause a t) = ''audit.recorded''"
  "operationId (audit_event aid e cause a t) = operationId e"
  by (simp_all add: audit_event_def auditRecordedEvent_def)

text \<open>
  An action described by the record \<open>acceptance\<close>, with the consistency between its members that every
  caller of \<open>write_accepted\<close> provides.
\<close>

definition consistent :: "acceptance \<Rightarrow> bool" where
  "consistent a \<longleftrightarrow> effects_frame (axEffects a) \<and> operationId (axEvent a) = acOperationId (axAccepted a) \<and>
     axTargetId a = acTargetId (axAccepted a) \<and> auActorId (axAudit a) = fst (axScope a) \<and>
     schemaName (axEvent a) \<in> set command_schemas \<and> scope_project (axScope a) (projectId (axEvent a)) \<and>
     \<not> acReplayed (axAccepted a) \<and> aggregateId (axEvent a) = axInstance a"

lemma write_accepted_recorded:
  assumes run: "write_accepted E ids c h a db = Inr (r, db')" and a: "consistent a"
  shows "recorded (axScope a) h r (axEvent a) db db' \<and> r = axAccepted a \<and>
     instances db' = update_where (\<lambda>x. inId x = axInstance a) (axChange a) (instances db) \<and>
     snapshots db' = snapshots db \<and>
     instance_documents db' = instance_documents (markInstanceBusyInProjection (axInstance a) (acOperationId r) (now E) db) \<and>
     (\<exists>d d'. axEffects a d = Inr d' \<and> ipv4_leases d = ipv4_leases db \<and> ipv4_leases db' = ipv4_leases d')"
proof -
  obtain o1 a1 o2 where ids: "ids = (o1, a1, o2)" by (cases ids)
  from a have frame: "effects_frame (axEffects a)" by (simp add: consistent_def)
  from run [unfolded ids] frame show ?thesis
  proof (rule write_accepted_InrE, goal_cases)
    case (1 d d' entry)
    with a have "aeActorId entry = fst (axScope a) \<and> aeOperationId entry = acOperationId r"
      by (simp add: audit_entry_of_def consistent_def)
    with 1 a show ?case
      by (auto simp: recorded_def same_catalog_def consistent_def command_row_def accepted_operation_def
          accepted_document_def accepted_view_def operation_agrees_def error_columns_def Let_def)
  qed
qed

lemma recorded_snapshots [simp]: "recorded sc h r e (db\<lparr>snapshots := S\<rparr>) db' = recorded sc h r e db db'"
  by (simp add: recorded_def same_catalog_def)

definition keeps_or_releases :: "instance_row \<Rightarrow> (pg \<Rightarrow> control_error + pg) \<Rightarrow> bool" where
  "keeps_or_releases row f \<longleftrightarrow> (\<forall>d d'. f d = Inr d' \<longrightarrow> leases_kept_or_released row d d')"

lemma keeps_or_releases_intros [simp]:
  "keeps_or_releases row Inr"
  "keeps_or_releases row (\<lambda>d. Inr (release_active_lease (inId row) mode t d))"
  "keeps_or_releases row (writeSnapshotProjection s p i t)"
  by (auto simp: keeps_or_releases_def leases_kept_or_released_def writeSnapshotProjection_def Let_def)

lemma release_active_lease_leases:
  "ipv4_leases d = ipv4_leases db \<Longrightarrow>
     ipv4_leases (release_active_lease i m t d) = ipv4_leases (release_active_lease i m t db)"
  by (simp add: release_active_lease_def)

lemma write_accepted_accepts:
  assumes run: "write_accepted E ids c h a (db\<lparr>snapshots := S\<rparr>) = Inr (r, db')" and a: "consistent a"
    and row: "row \<in> set (instances db)" "inActiveOperationId row = None"
      "inLifecycleState row \<in> {''active'', ''failed'', ''retained''}"
    and ev: "axInstance a = inId row" "projectId (axEvent a) = inProjectId row"
    and change: "busy_change (axAccepted a) row (axChange a) db" and eff: "keeps_or_releases row (axEffects a)"
    and snap: "S = snapshots db \<or> snapshot_added row db (db\<lparr>snapshots := S\<rparr>) \<or> snapshot_claimed row db (db\<lparr>snapshots := S\<rparr>)"
  shows "accepts (axScope a) h r (axEvent a) db db'"
proof -
  note w = write_accepted_recorded [OF run a]
  from w have r: "r = axAccepted a" and rec: "recorded (axScope a) h r (axEvent a) db db'" by auto
  from w obtain d d' where d: "axEffects a d = Inr d'" "ipv4_leases d = ipv4_leases db" "ipv4_leases db' = ipv4_leases d'"
    by auto
  show ?thesis
  proof (rule accepts.changed [where row = row and f = "axChange a" and t = "now E"])
    show "leases_kept_or_released row db db'"
      using eff d release_active_lease_leases [OF d(2)]
      unfolding keeps_or_releases_def leases_kept_or_released_def by metis
    show "snapshots db' = snapshots db \<or> snapshot_added row db db' \<or> snapshot_claimed row db db'"
      using snap w by (auto simp: snapshot_added_def snapshot_claimed_def)
    show "aggregateId (axEvent a) = inId row" using a ev by (simp add: consistent_def)
    show "instance_documents db' = instance_documents (markInstanceBusyInProjection (inId row) (acOperationId r) (now E) db)"
      using w ev by (simp add: markInstanceBusyInProjection_def)
    show "instances db' = update_where (\<lambda>x. inId x = inId row) (axChange a) (instances db)" using w ev by simp
    show "busy_change r row (axChange a) db" using change r by simp
  qed (use rec row ev in simp_all)
qed

lemma lockInstance_InrD:
  assumes "lockInstanceForMutation p i db = Inr row"
  shows "row \<in> set (instances db)" "inId row = i" "inProjectId row = p" "inActiveOperationId row = None"
    "inLifecycleState row \<in> {''active'', ''failed'', ''retained''}"
  using assms
  by (auto simp: lockInstanceForMutation_def MUTABLE_LIFECYCLE_STATES_def find_Some_iff
      split: option.splits if_splits)

definition replays :: "scope \<Rightarrow> string \<Rightarrow> accepted_mutation \<Rightarrow> pg \<Rightarrow> bool" where
  "replays sc h r db \<longleftrightarrow> (\<exists>rec. lookup_by scope_of sc (idempotency_records db) = Some rec \<and>
     idRequestHash rec = h \<and> r = (idResponse rec)\<lparr>acReplayed := True\<rparr>)"

definition accepted_or_replayed :: "scope \<Rightarrow> string \<Rightarrow> accepted_mutation \<Rightarrow> pg \<Rightarrow> pg \<Rightarrow> bool" where
  "accepted_or_replayed sc h r db db' \<longleftrightarrow> (replays sc h r db \<and> db' = db) \<or> (\<exists>e. accepts sc h r e db db')"

lemma replay_or_refines:
  assumes run: "replay_or sc h accept db = Inr (r, db')"
    and new: "accept db = Inr (r, db') \<Longrightarrow> \<exists>e. accepts sc h r e db db'"
  shows "accepted_or_replayed sc h r db db'"
  using run new
  by (auto simp: replay_or_def findReplayedResponse_def accepted_or_replayed_def replays_def
      split: option.splits if_splits)

lemmas acceptance_simps = consistent_def instance_command_event_def accepted_response_def tenant_audit_def project_scope_def
  adminScope_def busy_change_def command_schemas_def
  scope_project_def

lemma sizing_of_update [simp]:
  "sizing_of (x\<lparr>inActiveOperationId := a\<rparr>) = sizing_of x" "sizing_of (x\<lparr>inUpdatedAt := t\<rparr>) = sizing_of x"
  "sizing_of (x\<lparr>inDesiredPowerState := p\<rparr>) = sizing_of x" "sizing_of (x\<lparr>inLifecycleState := l\<rparr>) = sizing_of x"
  "sizing_of (x\<lparr>inRetentionDeadline := d\<rparr>) = sizing_of x" "sizing_of (x\<lparr>inPurgeEligible := b\<rparr>) = sizing_of x"
  by (simp_all add: sizing_of_def)

text \<open>
  Every action on an idle instance is reduced to the record it hands to \<open>write_accepted\<close>.
\<close>

lemma write_accepted_idle:
  assumes run: "write_accepted E ids c h a db = Inr (r, db')" and row: "row \<in> set (instances db)"
    and rest: "inActiveOperationId row = None" "inLifecycleState row \<in> {''active'', ''failed'', ''retained''}"
      "consistent a" "axInstance a = inId row" "projectId (axEvent a) = inProjectId row"
      "busy_change (axAccepted a) row (axChange a) db" "keeps_or_releases row (axEffects a)"
  shows "\<exists>e. accepts (axScope a) h r e db db'"
  using write_accepted_accepts [where S = "snapshots db", of E ids c h a db r db' row] assms by auto

lemma acceptPowerAction_refines:
  assumes "acceptPowerAction E c h db = Inr (r, db')"
  shows "accepted_or_replayed (project_scope c POWER_INSTANCE_ACTION) h r db db'"
proof (rule replay_or_refines [OF assms [unfolded acceptPowerAction_def]], erule res_bind_InrE, goal_cases)
  case (1 row)
  note l = lockInstance_InrD [OF 1(1)]
  from write_accepted_idle [OF 1(2) [unfolded Let_def] l(1,4,5)] show ?case
    using l(3) by (simp add: acceptance_simps)
qed

lemma acceptRetention_refines:
  assumes "acceptRetention E c h db = Inr (r, db')"
  shows "accepted_or_replayed (project_scope c RETAIN_INSTANCE_ACTION) h r db db'"
proof (rule replay_or_refines [OF assms [unfolded acceptRetention_def]], erule res_bind_InrE, goal_cases)
  case (1 row)
  note l = lockInstance_InrD [OF 1(1)]
  from write_accepted_idle [OF 1(2) [unfolded Let_def] l(1,4,5)] show ?case
    using l(3) by (simp add: acceptance_simps)
qed

lemma purgeable_InrD:
  assumes "purgeable t i db = Inr (row, deadline)"
  shows "row \<in> set (instances db)" "inId row = i" "inActiveOperationId row = None"
    "inLifecycleState row = ''retained''" "inRetentionDeadline row = Some deadline" "deadline \<le> t"
  using assms by (auto simp: purgeable_def dest: lookup_by_SomeD split: option.splits if_splits)

lemma acceptPurge_confirmed: "acceptPurge E c h db = Inr (r, db') \<Longrightarrow> puConfirmInstanceId c = puInstanceId c"
  by (simp add: acceptPurge_def split: if_splits)

lemma acceptPurge_refines:
  assumes "acceptPurge E c h db = Inr (r, db')"
  shows "accepted_or_replayed (adminScope c PURGE_INSTANCE_ACTION) h r db db'"
proof -
  from acceptPurge_confirmed [OF assms] have confirmed: "\<not> puConfirmInstanceId c \<noteq> puInstanceId c" by simp
  show ?thesis
  proof (rule replay_or_refines [OF assms [unfolded acceptPurge_def Let_def if_not_P [OF confirmed]]],
      erule res_bind_InrE, goal_cases)
    case (1 p)
    obtain row deadline where p: "p = (row, deadline)" by (cases p)
    note l = purgeable_InrD [OF 1(1) [unfolded p]]
    from write_accepted_idle [OF 1(2) [unfolded p prod.case] l(1,3)] show ?case
      using l(4) by (simp add: acceptance_simps)
  qed
qed

lemma assertResizeQuotaHeadroom_Inr:
  "assertResizeQuotaHeadroom p cur tgt db = Inr u \<longleftrightarrow> fits_resize p cur tgt db"
  by (auto simp: assertResizeQuotaHeadroom_def fits_resize_def quota_usage_def Let_def res_bind_Inr_iff not_less)

lemma acceptResize_refines:
  assumes "acceptResize E c h db = Inr (r, db')"
  shows "accepted_or_replayed (project_scope c RESIZE_INSTANCE_ACTION) h r db db'"
proof (rule replay_or_refines [OF assms [unfolded acceptResize_def Let_def]], (erule res_bind_InrE)+, goal_cases)
  case (1 row f u v)
  note l = lockInstance_InrD [OF 1(1)]
  from 1(4) have "fits_resize (inProjectId row) (sizing_of row) (resize_target row f (rzDiskGiB c)) db"
    by (simp add: assertResizeQuotaHeadroom_Inr l)
  with write_accepted_idle [OF 1(5) l(1,4,5)] show ?case
    using l(3) by (auto simp: acceptance_simps sizing_of_def resize_target_def)
qed

lemma assertSnapshotHeadroom_Inr: "assertSnapshotHeadroom p db = Inr u \<longleftrightarrow> fits_snapshot p db"
  by (auto simp: assertSnapshotHeadroom_def fits_snapshot_def res_bind_Inr_iff not_less)

lemma insert_snapshot_Inr:
  "insert_snapshot s db = Inr db' \<longleftrightarrow> snId s \<notin> set (map snId (snapshots db)) \<and>
     (snInstanceId s, snName s) \<notin> set (map (\<lambda>s. (snInstanceId s, snName s)) (snapshots db)) \<and>
     db' = db\<lparr>snapshots := snapshots db @ [s]\<rparr>"
  by (auto simp: insert_snapshot_def)

text \<open>The three snapshot actions, once the snapshot rows are \<open>S\<close>.\<close>

lemma writeSnapshotOperation_refines:
  assumes run: "writeSnapshotOperation E ids c action op sid (inId row) (accepted_response op sid (now E) url)
      (instance_command_event eid schema c row op (now E) d) h (db\<lparr>snapshots := S\<rparr>) = Inr (r, db')"
    and row: "row \<in> set (instances db)" "inActiveOperationId row = None"
      "inLifecycleState row \<in> {''active'', ''failed'', ''retained''}"
    and snap: "snapshot_added row db (db\<lparr>snapshots := S\<rparr>) \<or> snapshot_claimed row db (db\<lparr>snapshots := S\<rparr>)"
    and schema: "schema \<in> set command_schemas" and project: "inProjectId row = mcProjectId c"
  shows "\<exists>e. accepts (project_scope c action) h r e db db'"
  using write_accepted_accepts [OF run [unfolded writeSnapshotOperation_def] _ row] snap schema project
  by (auto simp: acceptance_simps)

lemma acceptSnapshotCreate_refines:
  assumes "acceptSnapshotCreate E c h db = Inr (r, db')"
  shows "accepted_or_replayed (project_scope c CREATE_SNAPSHOT_ACTION) h r db db'"
proof (rule replay_or_refines [OF assms [unfolded acceptSnapshotCreate_def Let_def]], (erule res_bind_InrE)+, goal_cases)
  case (1 row u v db1)
  note l = lockInstance_InrD [OF 1(1)]
  note s = 1(4) [unfolded insert_snapshot_Inr]
  from s obtain S where db1: "db1 = db\<lparr>snapshots := S\<rparr>" by blast
  have "snapshot_added row db (db\<lparr>snapshots := S\<rparr>)"
    unfolding snapshot_added_def by (rule exI, intro conjI) (use s 1(2) l(3) in \<open>auto simp: assertSnapshotHeadroom_Inr db1\<close>)
  with writeSnapshotOperation_refines [OF 1(5) [unfolded db1] l(1,4,5)] show ?case
    by (simp add: command_schemas_def l(3))
qed

lemma acceptSnapshotAction_refines:
  assumes "acceptSnapshotAction E a c h db = Inr (r, db')"
  shows "accepted_or_replayed (project_scope c (snapshot_action_text a)) h r db db'"
proof (rule replay_or_refines [OF assms [unfolded acceptSnapshotAction_def Let_def]], (erule res_bind_InrE)+, goal_cases)
  case (1 row s)
  note l = lockInstance_InrD [OF 1(1)]
  from 1(2) have s: "lookup_by snId (saSnapshotId c) (snapshots db) = Some s" "snId s = saSnapshotId c"
    by (auto dest: lookup_by_SomeD)
  from 1(3) have ok: "snInstanceId s = inId row" "snState s = ''available''" by (auto split: if_splits)
  obtain schema d where sd: "snapshot_action_data a s row = (schema, d)" by fastforce
  let ?S = "update_where (\<lambda>r. snId r = snId s)
    (\<lambda>r. r\<lparr>snState := (if a = RollbackSnapshot then ''rolling_back'' else ''deleting''), snUpdatedAt := now E\<rparr>) (snapshots db)"
  have "snapshot_claimed row db (db\<lparr>snapshots := ?S\<rparr>)"
    unfolding snapshot_claimed_def using s ok
    by (intro exI [of _ s] exI [of _ "if a = RollbackSnapshot then ''rolling_back'' else ''deleting''"] exI [of _ "now E"]) simp
  moreover have "writeSnapshotOperation E (uuidAt E 2, uuidAt E 3, uuidAt E 4) c (snapshot_action_text a) (uuidAt E 0) (snId s)
      (inId row) (accepted_response (uuidAt E 0) (snId s) (now E) (status_url (mcProjectId c) (uuidAt E 0)))
      (instance_command_event (uuidAt E 1) schema c row (uuidAt E 0) (now E) d) h (db\<lparr>snapshots := ?S\<rparr>) = Inr (r, db')"
    using 1(3) ok sd by simp
  moreover from sd have "schema \<in> set command_schemas"
    by (auto simp: snapshot_action_data_def command_schemas_def Let_def split: if_splits)
  ultimately show ?case using writeSnapshotOperation_refines [OF _ l(1,4,5) _ _ l(3)] by blast
qed

lemma insert_lease_Inr:
  "insert_lease l db = Inr db' \<longleftrightarrow>
     ilId l \<notin> set (map ilId (ipv4_leases db)) \<and> ilInstanceId l \<notin> set (map ilInstanceId (ipv4_leases db)) \<and>
     \<not> (occupies l \<and> (ilNetworkId l, ilAddress l) \<in>
          set (map (\<lambda>r. (ilNetworkId r, ilAddress r)) (filter occupies (ipv4_leases db)))) \<and>
     db' = db\<lparr>ipv4_leases := ipv4_leases db @ [l]\<rparr>"
  by (auto simp: insert_lease_def)

definition accepted_instance ::
  "env \<Rightarrow> 'z create_command_scheme \<Rightarrow> acceptance_context \<Rightarrow> create_records \<Rightarrow> instance_row" where
  "accepted_instance E c ctx r =
     (created_instance E c ctx r)\<lparr>inActiveOperationId := Some (crOperationId r), inCreateOperationId := Some (crOperationId r)\<rparr>"

lemma update_where_fresh:
  "lookup_by k (k r) rows = None \<Longrightarrow> update_where (\<lambda>x. k x = k r) f (rows @ [r]) = rows @ [f r]"
  by (induction rows) (auto split: if_splits)

lemma writeAcceptanceRecords_InrE:
  assumes run: "writeAcceptanceRecords E c ctx r h db = Inr db'"
  obtains entry where
    "lookup_by inId (crInstanceId r) (instances db) = None" "lookup_by opId (crOperationId r) (operations db) = None"
    "ilId (created_lease E c ctx r) \<notin> set (map ilId (ipv4_leases db))"
    "crInstanceId r \<notin> set (map ilInstanceId (ipv4_leases db))"
    "(neId (axcNetwork ctx), crAddress r) \<notin> set (map (\<lambda>r. (ilNetworkId r, ilAddress r)) (filter occupies (ipv4_leases db)))"
    "lookup_by scope_of (project_scope c CREATE_INSTANCE_ACTION) (idempotency_records db) = None"
    "lookup_by idoInstanceId (crInstanceId r) (instance_documents db) = None"
    "lookup_by odOperationId (ovId (crOperation r)) (operation_documents db) = None"
    "entry = audit_entry_of (audit_event (uuidAt E 5) (crEvent r) (crOperationId r)
        (tenant_audit c CREATE_INSTANCE_ACTION ''instance'' (crInstanceId r)) (now E))
        (tenant_audit c CREATE_INSTANCE_ACTION ''instance'' (crInstanceId r)) (now E)"
    "db' = db\<lparr>instances := instances db @ [accepted_instance E c ctx r],
       operations := operations db @ [accepted_operation (crOperationId r) (mcProjectId c) CREATE_INSTANCE_ACTION
         ''instance'' (crInstanceId r) (now E)],
       ipv4_leases := ipv4_leases db @ [created_lease E c ctx r],
       idempotency_records := idempotency_records db @ [idempotency_of (project_scope c CREATE_INSTANCE_ACTION)
         (crInstanceId r) h (crAccepted r) (now E)],
       audit_entries := audit_entries db @ [entry],
       ct_outbox := ct_outbox db @ [command_row (uuidAt E 4) (crEvent r) ''provisioning.commands.v1'' (now E),
         command_row (uuidAt E 6) (audit_event (uuidAt E 5) (crEvent r) (crOperationId r)
           (tenant_audit c CREATE_INSTANCE_ACTION ''instance'' (crInstanceId r)) (now E)) ''audit.events.v1'' (now E)],
       instance_documents := instance_documents db @ [\<lparr>idoInstanceId = crInstanceId r, idoProjectId = mcProjectId c,
         idoDocument = crInstance r, idoUpdatedAt = now E\<rparr>],
       operation_documents := operation_documents db @ [accepted_document c (crOperation r) (now E)]\<rparr>"
proof -
  let ?a = "tenant_audit c CREATE_INSTANCE_ACTION ''instance'' (crInstanceId r)" and ?t = "now E"
  have [simp]: "inId (created_instance E c ctx r) = crInstanceId r" "opId (accepted_operation i p a tt ti t) = i"
      "odOperationId (accepted_document c v t) = ovId v" "occupies (created_lease E c ctx r)"
      "ilInstanceId (created_lease E c ctx r) = crInstanceId r" "ilAddress (created_lease E c ctx r) = crAddress r"
      "ilNetworkId (created_lease E c ctx r) = neId (axcNetwork ctx)" for i p a tt ti t v
    by (simp_all add: created_instance_def accepted_operation_def accepted_document_def created_lease_def occupies_def Let_def)
  from run obtain db2 db3 where
      inst: "lookup_by inId (crInstanceId r) (instances db) = None"
      and facts: "lookup_by opId (crOperationId r) (operations db) = None"
        "ilId (created_lease E c ctx r) \<notin> set (map ilId (ipv4_leases db))"
        "crInstanceId r \<notin> set (map ilInstanceId (ipv4_leases db))"
        "(neId (axcNetwork ctx), crAddress r) \<notin> set (map (\<lambda>r. (ilNetworkId r, ilAddress r)) (filter occupies (ipv4_leases db)))"
        "lookup_by scope_of (project_scope c CREATE_INSTANCE_ACTION) (idempotency_records db) = None"
      and db2: "db2 = db\<lparr>operations := operations db @ [accepted_operation (crOperationId r) (mcProjectId c) CREATE_INSTANCE_ACTION
             ''instance'' (crInstanceId r) ?t],
           instances := update_where (\<lambda>x. inId x = crInstanceId r) (\<lambda>row. row\<lparr>inActiveOperationId :=
             Some (crOperationId r), inCreateOperationId := Some (crOperationId r)\<rparr>) (instances db @ [created_instance E c ctx r]),
           ipv4_leases := ipv4_leases db @ [created_lease E c ctx r],
           idempotency_records := idempotency_records db @ [idempotency_of (project_scope c CREATE_INSTANCE_ACTION)
             (crInstanceId r) h (crAccepted r) ?t],
           ct_outbox := ct_outbox db @ [command_row (uuidAt E 4) (crEvent r) ''provisioning.commands.v1'' ?t]\<rparr>"
      and aud: "writeControlAudit (uuidAt E 5) (uuidAt E 6) (crEvent r) (crOperationId r) ?a ?t db2 = Inr db3"
      and docs: "lookup_by idoInstanceId (crInstanceId r) (instance_documents db3) = None"
        "lookup_by odOperationId (ovId (crOperation r)) (operation_documents db3) = None"
        "db' = db3\<lparr>instance_documents := instance_documents db3 @ [\<lparr>idoInstanceId = crInstanceId r, idoProjectId = mcProjectId c,
           idoDocument = crInstance r, idoUpdatedAt = ?t\<rparr>],
         operation_documents := operation_documents db3 @ [accepted_document c (crOperation r) ?t]\<rparr>"
    by (auto simp: writeAcceptanceRecords_def Let_def update_instance_def insert_lease_Inr writeControlOutbox_Inr)
  from aud show thesis
  proof (rule writeControlAudit_InrE)
    fix entry assume "db3 = db2\<lparr>audit_entries := audit_entries db2 @ [entry], ct_outbox := ct_outbox db2 @
        [command_row (uuidAt E 6) (audit_event (uuidAt E 5) (crEvent r) (crOperationId r) ?a ?t) ''audit.events.v1'' ?t]\<rparr>"
      and "entry = audit_entry_of (audit_event (uuidAt E 5) (crEvent r) (crOperationId r) ?a ?t) ?a ?t"
    then show thesis
      using docs facts inst update_where_fresh [of inId "created_instance E c ctx r" "instances db"]
      by (intro that [of entry]) (simp_all add: db2 accepted_instance_def)
  qed
qed

lemma assertQuotaHeadroom_Inr:
  "assertQuotaHeadroom p ctx db = Inr u \<longleftrightarrow>
     usInstances (quota_usage p db) + 1 \<le> quInstances (axcQuota ctx) \<and>
     usCpuCount (quota_usage p db) + flCpuCount (axcFlavor ctx) \<le> quCpuCount (axcQuota ctx) \<and>
     usMemoryMiB (quota_usage p db) + flMemoryMib (axcFlavor ctx) \<le> quMemoryMib (axcQuota ctx) \<and>
     usDiskGiB (quota_usage p db) + flMinimumDiskGib (axcFlavor ctx) \<le> quDiskGib (axcQuota ctx)"
  by (auto simp: assertQuotaHeadroom_def quota_usage_def Let_def not_less)

lemma loadAcceptanceContext_quota:
  "loadAcceptanceContext c db = Inr ctx \<Longrightarrow> lookup_by quProjectId (mcProjectId c) (quotas db) = Some (axcQuota ctx)"
  by (auto simp: loadAcceptanceContext_def Let_def split: option.splits if_splits)

lemma buildAcceptanceRecords_sel:
  assumes "buildAcceptanceRecords E g c ctx address = Inr r"
  shows "crAccepted r = accepted_response (crOperationId r) (crInstanceId r) (now E) (status_url (mcProjectId c) (crOperationId r))"
    "crInstance r = initial_view c ctx address (crInstanceId r) (crOperationId r) (toISOString (now E))"
    "crOperation r = accepted_view (crOperationId r) (mcProjectId c) CREATE_INSTANCE_ACTION ''instance'' (crInstanceId r)
       (toISOString (now E))"
    "aggregateId (crEvent r) = crInstanceId r" "projectId (crEvent r) = mcProjectId c"
    "operationId (crEvent r) = crOperationId r" "crAddress r = address"
    "schemaName (crEvent r) = ''instance.create.requested''"
  using assms by (auto simp: buildAcceptanceRecords_def Let_def)

lemma acceptCreate_refines:
  assumes "acceptCreate E g c h db = Inr (r, db')"
  shows "accepted_or_replayed (project_scope c CREATE_INSTANCE_ACTION) h r db db'"
proof (rule replay_or_refines [OF assms [unfolded acceptCreate_def]], (erule res_bind_InrE)+, goal_cases)
  case (1 ctx u address rs d)
  then have r: "r = crAccepted rs" and w: "writeAcceptanceRecords E c ctx rs h db = Inr db'" by auto
  note b = buildAcceptanceRecords_sel [OF 1(4)]
  let ?row = "accepted_instance E c ctx rs"
  have row: "inId ?row = crInstanceId rs" "inProjectId ?row = mcProjectId c"
      "inActiveOperationId ?row = Some (crOperationId rs)" "inCreateOperationId ?row = Some (crOperationId rs)"
      "inLifecycleState ?row = ''pending''" "sizing_of ?row = \<lparr>cpuCount = flCpuCount (axcFlavor ctx),
         memoryMiB = flMemoryMib (axcFlavor ctx), diskGiB = flMinimumDiskGib (axcFlavor ctx)\<rparr>"
    by (simp_all add: accepted_instance_def created_instance_def Let_def sizing_of_def)
  have fits: "fits_instance (inProjectId ?row) (sizing_of ?row) db"
    using 1(2) loadAcceptanceContext_quota [OF 1(1)] by (simp add: fits_instance_def assertQuotaHeadroom_Inr row)
  from w show ?case
  proof (rule writeAcceptanceRecords_InrE, goal_cases)
    case w: (1 entry)
    have rec: "recorded (project_scope c CREATE_INSTANCE_ACTION) h r (crEvent rs) db db'"
      using w(1-9) by (simp add: w(10) recorded_def same_catalog_def r b accepted_response_def accepted_view_def
          accepted_operation_def accepted_document_def command_row_def audit_entry_of_def tenant_audit_def project_scope_def command_schemas_def
          scope_project_def operation_agrees_def error_columns_def Let_def)
    have lease: "lease_added ?row db db'"
      unfolding lease_added_def using w(3-5)
      by (intro exI [of _ "created_lease E c ctx rs"]) (simp add: w(10) created_lease_def row)
    show ?case
      by (rule exI, rule accepts.created [where doc = "\<lparr>idoInstanceId = crInstanceId rs,
          idoProjectId = mcProjectId c, idoDocument = crInstance rs, idoUpdatedAt = now E\<rparr>", OF rec _ _ _ _ _ _ _ fits lease])
        (use w(1-8) in \<open>simp_all add: w(10) row b r accepted_response_def initial_view_def\<close>)
  qed
qed

end
