(* ===== verification/Control_Requests.thy ===== *)
theory Control_Requests
  imports Control_Acceptance
begin

section \<open>Requests and their histories\<close>

text \<open>
  One request of the control plane as a value, the dispatch to the methods of the application, and
  histories of requests, each handled in its own environment. A refused request leaves the tables
  as they were. The invariant \<open>control_inv\<close> collects the constraints of the schema that the other
  results rest on and is kept by every request.
\<close>

datatype request =
    Create_Request create_input
  | Power_Request power_input
  | Resize_Request resize_command
  | Snapshot_Request snapshot_create_command
  | Snapshot_Action_Request snapshot_action snapshot_action_command
  | Retain_Request instance_command
  | Purge_Request purge_command
  | Replay_Request replay_command
  | Reconcile_Request actor uuid

definition answered :: "control_error + accepted_mutation \<times> pg \<Rightarrow> control_error + accepted_mutation option \<times> pg" where
  "answered r = map_sum id (map_prod Some id) r"

lemma answered_Inr [simp]:
  "answered r = Inr (a, db') \<longleftrightarrow> (\<exists>m. a = Some m \<and> r = Inr (m, db'))"
  by (cases r) (auto simp: answered_def)

lemma answered_Inl [simp]: "answered r = Inl e \<longleftrightarrow> r = Inl e"
  by (cases r) (auto simp: answered_def)

fun serve :: "env \<Rightarrow> string \<Rightarrow> request \<Rightarrow> pg \<Rightarrow> control_error + accepted_mutation option \<times> pg" where
  "serve E g (Create_Request c) db = answered (createInstance E g c db)"
| "serve E g (Power_Request c) db = answered (mutateInstancePower E c db)"
| "serve E g (Resize_Request c) db = answered (resizeInstance E c db)"
| "serve E g (Snapshot_Request c) db = answered (createSnapshot E c db)"
| "serve E g (Snapshot_Action_Request a c) db = answered (snapshotAction E a c db)"
| "serve E g (Retain_Request c) db = answered (retainInstance E c db)"
| "serve E g (Purge_Request c) db = answered (purgeInstance E c db)"
| "serve E g (Replay_Request c) db = answered (requestDeadLetterReplay E c db)"
| "serve E g (Reconcile_Request a i) db = map_sum id (\<lambda>db'. (None, db')) (requestReconciliation a i db)"

definition committed :: "pg \<Rightarrow> control_error + 'a \<times> pg \<Rightarrow> pg" where
  "committed db r = (case r of Inl _ \<Rightarrow> db | Inr (_, db') \<Rightarrow> db')"

fun serve_all :: "(env \<times> string \<times> request) list \<Rightarrow> pg \<Rightarrow> pg" where
  "serve_all [] db = db"
| "serve_all ((E, g, q) # qs) db = serve_all qs (committed db (serve E g q db))"

lemma serve_all_append: "serve_all (qs @ qs') db = serve_all qs' (serve_all qs db)"
  by (induction qs arbitrary: db) auto

subsection \<open>The requests that an idempotency record guards\<close>

text \<open>Guards that look at the request only.\<close>

fun request_guard :: "request \<Rightarrow> control_error + unit" where
  "request_guard (Create_Request c) =
     res_bind (authorize (mcActor c) (mcProjectId c)) (\<lambda>_. res_bind (assertIdempotencyKey (mcIdempotencyKey c)) (\<lambda>_.
       lift_domain (validateCreateInstance (create_values c))))"
| "request_guard (Power_Request c) =
     res_bind (authorize (mcActor c) (mcProjectId c)) (\<lambda>_. res_bind (assertIdempotencyKey (mcIdempotencyKey c)) (\<lambda>_.
       res_bind (lift_domain (validatePowerAction (piAction c))) (\<lambda>_. Inr ())))"
| "request_guard (Resize_Request c) =
     res_bind (authorize (mcActor c) (mcProjectId c)) (\<lambda>_. assertIdempotencyKey (mcIdempotencyKey c))"
| "request_guard (Snapshot_Request c) =
     res_bind (authorize (mcActor c) (mcProjectId c)) (\<lambda>_. res_bind (assertIdempotencyKey (mcIdempotencyKey c)) (\<lambda>_.
       lift_domain (validateSnapshotName (scName c))))"
| "request_guard (Snapshot_Action_Request a c) =
     res_bind (authorize (mcActor c) (mcProjectId c)) (\<lambda>_. assertIdempotencyKey (mcIdempotencyKey c))"
| "request_guard (Retain_Request c) =
     res_bind (authorize (mcActor c) (mcProjectId c)) (\<lambda>_. assertIdempotencyKey (mcIdempotencyKey c))"
| "request_guard (Purge_Request c) =
     res_bind (authorizeAdministrator (mcActor c)) (\<lambda>_. res_bind (assertIdempotencyKey (mcIdempotencyKey c)) (\<lambda>_.
       res_bind (throw_if (length (js_trim (puReason c)) < 10)
         (domain_fail VALIDATION_FAILED ''A purge reason of at least 10 characters is required.'')) (\<lambda>_.
       throw_if (puConfirmInstanceId c \<noteq> puInstanceId c)
         (domain_fail VALIDATION_FAILED ''The confirmation identifier does not match the instance being purged.''))))"
| "request_guard (Replay_Request c) = authorizeAdministrator (mcActor c)"
| "request_guard (Reconcile_Request a i) = authorizeAdministrator a"

text \<open>The idempotency scope; the two administrative requests without a record have none.\<close>

fun request_scope :: "request \<Rightarrow> scope option" where
  "request_scope (Create_Request c) = Some (project_scope c CREATE_INSTANCE_ACTION)"
| "request_scope (Power_Request c) = Some (project_scope c POWER_INSTANCE_ACTION)"
| "request_scope (Resize_Request c) = Some (project_scope c RESIZE_INSTANCE_ACTION)"
| "request_scope (Snapshot_Request c) = Some (project_scope c CREATE_SNAPSHOT_ACTION)"
| "request_scope (Snapshot_Action_Request a c) = Some (project_scope c (snapshot_action_text a))"
| "request_scope (Retain_Request c) = Some (project_scope c RETAIN_INSTANCE_ACTION)"
| "request_scope (Purge_Request c) = Some (adminScope c PURGE_INSTANCE_ACTION)"
| "request_scope (Replay_Request c) = None"
| "request_scope (Reconcile_Request a i) = None"

text \<open>The semantic request that is hashed.\<close>

fun request_json :: "request \<Rightarrow> json" where
  "request_json (Create_Request c) = JObj
     [(''actor'', JStr (subject (mcActor c))), (''projectId'', JStr (mcProjectId c)),
      (''operation'', JStr ''create_instance''), (''imageId'', JStr (ciImageId c)),
      (''flavorId'', JStr (ciFlavorId c)), (''networkId'', JStr (ciNetworkId c)),
      (''hostname'', JStr (ciHostname c)), (''sshPublicKeys'', JArr (map JStr (sort (create_keys c))))]"
| "request_json (Power_Request c) =
     JObj (instance_request c ''power_instance'' @ [(''action'', JStr (piAction c))])"
| "request_json (Resize_Request c) = JObj (instance_request c ''resize_instance'' @
     [(''flavorId'', JStr (rzFlavorId c)), (''diskGiB'', optional_number (rzDiskGiB c))])"
| "request_json (Snapshot_Request c) = JObj (instance_request c ''create_snapshot'' @
     [(''name'', JStr (scName c)), (''description'', optional_string (scDescription c))])"
| "request_json (Snapshot_Action_Request a c) =
     JObj (instance_request c (snapshot_action_text a) @ [(''snapshotId'', JStr (saSnapshotId c))])"
| "request_json (Retain_Request c) = JObj (instance_request c ''retain_instance'')"
| "request_json (Purge_Request c) = JObj [(''actor'', JStr (subject (mcActor c))),
     (''operation'', JStr ''purge_instance''), (''instanceId'', JStr (puInstanceId c))]"
| "request_json (Replay_Request c) =
     JObj [(''originalEventId'', JStr (rdOriginalEventId c)), (''reason'', JStr (js_trim (rdReason c)))]"
| "request_json (Reconcile_Request a i) = JObj []"

lemma scope_trace [simp]:
  "project_scope (bind_trace E c) a = project_scope c a"
  "adminScope (bind_trace E d) a = adminScope d a"
  by (simp_all add: project_scope_def adminScope_def bind_trace_def)

lemma bind_trace_sel [simp]:
  "mcActor (bind_trace E c) = mcActor c" "mcIdempotencyKey (bind_trace E c) = mcIdempotencyKey c"
  by (simp_all add: bind_trace_def)

lemma bind_trace_purge [simp]:
  "puInstanceId (bind_trace E c) = puInstanceId c" "puConfirmInstanceId (bind_trace E c) = puConfirmInstanceId c"
  by (simp_all add: bind_trace_def)

lemma command_scopes [simp]:
  "project_scope (create_command_of E c) a = project_scope c a"
  "project_scope (power_command_of E p w) a = project_scope p a"
  "project_scope (s\<lparr>scDescription := d\<rparr>) a = project_scope s a"
  by (simp_all add: project_scope_def create_command_of_def power_command_of_def Let_def)

lemma validatePowerAction_text: "validatePowerAction s = Inr a \<Longrightarrow> power_text a = s"
  by (auto simp: validatePowerAction_def split: if_splits)

lemma serve_refines:
  assumes "serve E g q db = Inr (a, db')" and "request_scope q = Some sc"
  shows "\<exists>r. a = Some r \<and> accepted_or_replayed sc (hashJson E (request_json q)) r db db'"
  using assms
  by (cases q)
    (auto simp: createInstance_def create_hash_def mutateInstancePower_def resizeInstance_def createSnapshot_def
      snapshotAction_def retainInstance_def purgeInstance_def
      dest!: acceptCreate_refines acceptPowerAction_refines acceptResize_refines acceptSnapshotCreate_refines
        acceptSnapshotAction_refines acceptRetention_refines acceptPurge_refines
      dest!: validatePowerAction_text split: if_splits)

subsection \<open>One step of the control plane\<close>

inductive request_step :: "pg \<Rightarrow> pg \<Rightarrow> bool" where
  step_none: "request_step db db"
| step_accept: "accepts sc h r e db db' \<Longrightarrow> request_step db db'"
| step_replay: "obTopic cmd = ''provisioning.commands.v1'' \<Longrightarrow>
    schemaName (obPayload cmd) = ''provisioning.replay.requested'' \<Longrightarrow> obTopic aud = ''audit.events.v1'' \<Longrightarrow>
    db' = db\<lparr>control_replays := control_replays db @ [rr], ct_outbox := ct_outbox db @ [cmd, aud],
      audit_entries := audit_entries db @ [entry]\<rparr> \<Longrightarrow> request_step db db'"
| step_reconcile: "db' = update_instance i (\<lambda>r. r\<lparr>inLastReconciledAt := None\<rparr>) db \<Longrightarrow> request_step db db'"

lemma store_requestDeadLetterReplay_step:
  assumes "store_requestDeadLetterReplay E c h db = Inr (r, db')"
  shows "request_step db db'"
proof -
  from assms consider "db' = db"
    | d db1 where
      "writeControlOutbox (uuidAt E 2) (replay_event E c d) ''provisioning.commands.v1'' (now E)
         (db\<lparr>control_replays := control_replays db @ [replay_row E c h]\<rparr>) = Inr db1"
      "writeControlAudit (uuidAt E 3) (uuidAt E 4) (replay_event E c d) (eventId (replay_event E c d)) (replay_audit E c)
         (now E) db1 = Inr db'"
    by (auto simp: store_requestDeadLetterReplay_def Let_def split: option.splits if_splits)
  then show ?thesis
  proof cases
    case 1 then show ?thesis by (simp add: step_none)
  next
    case (2 d db1)
    from 2(2) show ?thesis
    proof (rule writeControlAudit_InrE, goal_cases)
      case (1 entry)
      show ?case
        by (rule step_replay [where rr = "replay_row E c h" and entry = entry
              and cmd = "command_row (uuidAt E 2) (replay_event E c d) ''provisioning.commands.v1'' (now E)"
              and aud = "command_row (uuidAt E 4) (audit_event (uuidAt E 3) (replay_event E c d)
                (eventId (replay_event E c d)) (replay_audit E c) (now E)) ''audit.events.v1'' (now E)"])
          (use 1(1) 2(1) in \<open>simp_all add: writeControlOutbox_Inr command_row_def replay_event_def\<close>)
    qed
  qed
qed

lemma serve_step:
  assumes "serve E g q db = Inr (a, db')"
  shows "request_step db db'"
proof (cases "request_scope q")
  case (Some sc)
  from serve_refines [OF assms Some] show ?thesis
    by (auto simp: accepted_or_replayed_def intro: request_step.intros)
next
  case None
  with assms show ?thesis
    by (cases q) (auto simp: requestDeadLetterReplay_def requestReconciliation_def store_requestReconciliation_def Let_def
        map_sum_def split: if_splits sum.splits dest: store_requestDeadLetterReplay_step intro: step_reconcile)
qed

lemma serve_all_induct:
  assumes "P db" and "\<And>d d'. P d \<Longrightarrow> request_step d d' \<Longrightarrow> P d'"
  shows "P (serve_all qs db)"
  using assms(1)
proof (induction qs db rule: serve_all.induct)
  case (2 E g q qs db)
  have "P (committed db (serve E g q db))"
    using 2(2) assms(2) serve_step by (fastforce simp: committed_def split: sum.split)
  then show ?case using 2(1) by simp
qed simp

end
