(* ===== verification/Control_Invariant.thy ===== *)
theory Control_Invariant
  imports Control_Requests
begin

section \<open>The invariant of the control plane tables\<close>

text \<open>
  The constraints of the schema that the results on histories rest on: unique keys, no two leases on
  one address, leases, snapshots and read documents that refer to an instance of their own project,
  and a busy instance that names a recorded operation. Every request keeps them.
\<close>

subsection \<open>Definition\<close>

definition instance_ref :: "instance_row \<Rightarrow> uuid \<times> uuid" where
  "instance_ref r = (inId r, inProjectId r)"

definition instances_ok :: "pg \<Rightarrow> bool" where
  "instances_ok db \<longleftrightarrow> unique_keys inId (instances db) \<and>
     (\<forall>r \<in> set (instances db). \<forall>op. inActiveOperationId r = Some op \<longrightarrow> op \<in> set (map opId (operations db)))"

definition operations_ok :: "pg \<Rightarrow> bool" where
  "operations_ok db \<longleftrightarrow> unique_keys opId (operations db) \<and> unique_keys odOperationId (operation_documents db) \<and>
     unique_keys scope_of (idempotency_records db)"

definition leases_ok :: "pg \<Rightarrow> bool" where
  "leases_ok db \<longleftrightarrow> unique_keys ilId (ipv4_leases db) \<and> unique_keys ilInstanceId (ipv4_leases db) \<and>
     unique_keys (\<lambda>l. (ilNetworkId l, ilAddress l)) (filter occupies (ipv4_leases db)) \<and>
     (\<forall>l \<in> set (ipv4_leases db). (ilInstanceId l, ilProjectId l) \<in> set (map instance_ref (instances db)))"

definition snapshots_ok :: "pg \<Rightarrow> bool" where
  "snapshots_ok db \<longleftrightarrow> unique_keys snId (snapshots db) \<and> unique_keys (\<lambda>s. (snInstanceId s, snName s)) (snapshots db) \<and>
     (\<forall>s \<in> set (snapshots db). (snInstanceId s, snProjectId s) \<in> set (map instance_ref (instances db)))"

definition documents_ok :: "pg \<Rightarrow> bool" where
  "documents_ok db \<longleftrightarrow> unique_keys idoInstanceId (instance_documents db) \<and>
     (\<forall>d \<in> set (instance_documents db). (idoInstanceId d, idoProjectId d) \<in> set (map instance_ref (instances db)))"

definition control_inv :: "pg \<Rightarrow> bool" where
  "control_inv db \<longleftrightarrow> instances_ok db \<and> operations_ok db \<and> leases_ok db \<and> snapshots_ok db \<and> documents_ok db"

lemmas control_inv_defs = control_inv_def instances_ok_def operations_ok_def leases_ok_def snapshots_ok_def documents_ok_def

subsection \<open>Preservation\<close>

lemma unique_keys_append1:
  "unique_keys k (xs @ [x]) \<longleftrightarrow> unique_keys k xs \<and> k x \<notin> set (map k xs)"
  by (auto simp: unique_keys_def)

lemma unique_keys_filter_update:
  assumes "unique_keys k (filter P rows)" and "\<And>x. k (g x) = k x" and "\<And>x. P (g x) \<Longrightarrow> Q x \<Longrightarrow> P x"
  shows "unique_keys k (filter P (update_where Q g rows))"
proof -
  have sub: "set (map k (filter P (update_where Q g rows))) \<subseteq> set (map k (filter P rows))" for rows
    using assms(2,3) by (induction rows) auto
  from assms(1) show ?thesis
  proof (induction rows)
    case (Cons x xs)
    let ?y = "if Q x then g x else x"
    have ky: "k ?y = k x" using assms(2) by simp
    from Cons.prems have "unique_keys k (filter P xs)" by (auto simp: unique_keys_def split: if_splits)
    then have IH: "distinct (map k (filter P (update_where Q g xs)))" using Cons.IH by (simp add: unique_keys_def)
    show ?case
    proof (cases "P ?y")
      case True
      then have "P x" using assms(3) by (auto split: if_splits)
      with Cons.prems have "k x \<notin> set (map k (filter P xs))" by (simp add: unique_keys_def)
      with sub [of xs] ky IH True show ?thesis
        unfolding unique_keys_def update_where_simps filter.simps if_P [OF True] list.map distinct.simps by auto
    next
      case False
      show ?thesis unfolding unique_keys_def update_where_simps filter.simps if_not_P [OF False] by (rule IH)
    qed
  qed simp
qed

lemma recordedD:
  assumes "recorded sc h r e db db'"
  shows "lookup_by scope_of sc (idempotency_records db) = None"
    "\<exists>rec. scope_of rec = sc \<and> idRequestHash rec = h \<and> idResponse rec = r \<and>
       idempotency_records db' = idempotency_records db @ [rec]"
    "\<exists>op. opId op = acOperationId r \<and> opProjectId op = projectId e \<and> operations db' = operations db @ [op] \<and>
       opId op \<notin> set (map opId (operations db))"
    "\<exists>doc. odOperationId doc = acOperationId r \<and> odProjectId doc = projectId e \<and>
       operation_documents db' = operation_documents db @ [doc] \<and>
       odOperationId doc \<notin> set (map odOperationId (operation_documents db))"
    "quotas db' = quotas db"
  using assms by (auto simp: recorded_def same_catalog_def lookup_by_None_iff)

lemma recorded_operations_ok:
  "recorded sc h r e db db' \<Longrightarrow> operations_ok db \<Longrightarrow> operations_ok db'"
  using recordedD [of sc h r e db db']
  by (auto simp: operations_ok_def unique_keys_append1 lookup_by_None_iff)

lemma busy_change_ref [simp]:
  "busy_change r row f db \<Longrightarrow> map instance_ref (update_where P f rows) = map instance_ref rows"
  "busy_change r row f db \<Longrightarrow> unique_keys inId (update_where P f rows) = unique_keys inId rows"
  by (auto simp: busy_change_def instance_ref_def intro!: map_update_where_key unique_keys_update_where)

lemma release_leases_ok:
  assumes "leases_ok db" and "leases_kept_or_released row db db'"
    and "map instance_ref (instances db') = map instance_ref (instances db)"
  shows "leases_ok db'"
proof -
  have occ: "occupies (l\<lparr>ilState := s, ilUpdatedAt := t\<rparr>) \<Longrightarrow> ilState l = ''active'' \<Longrightarrow> occupies l" for l s t
    by (simp add: occupies_def)
  from assms(2) show ?thesis
    unfolding leases_kept_or_released_def
  proof (elim disjE exE)
    fix mode t assume "ipv4_leases db' = ipv4_leases (release_active_lease (inId row) mode t db)"
    with assms(1,3) occ show ?thesis
      by (auto simp: leases_ok_def release_active_lease_def unique_keys_update_where set_update_where
          intro!: unique_keys_filter_update)
  qed (use assms in \<open>simp add: leases_ok_def\<close>)
qed

lemma snapshots_ok_step:
  assumes "snapshots_ok db" and "row \<in> set (instances db)"
    and "snapshots db' = snapshots db \<or> snapshot_added row db db' \<or> snapshot_claimed row db db'"
    and "map instance_ref (instances db') = map instance_ref (instances db)"
  shows "snapshots_ok db'"
  using assms(3)
proof (elim disjE)
  assume "snapshot_added row db db'"
  with assms show ?thesis
    by (auto simp: snapshots_ok_def snapshot_added_def unique_keys_append1 instance_ref_def rev_image_eqI)
next
  assume "snapshot_claimed row db db'"
  with assms show ?thesis
    by (auto simp: snapshots_ok_def snapshot_claimed_def unique_keys_update_where set_update_where)
qed (use assms in \<open>simp add: snapshots_ok_def\<close>)

lemma accepts_inv:
  assumes step: "accepts sc h r e db db'" and inv: "control_inv db"
  shows "control_inv db'"
  using step
proof cases
  case (created row doc)
  note rec = recordedD [OF created(1)]
  have ops: "operations_ok db'" using recorded_operations_ok [OF created(1)] inv by (simp add: control_inv_def)
  from created(8) have refs: "set (map instance_ref (instances db')) = insert (inId row, inProjectId row) (set (map instance_ref (instances db)))"
    by (simp add: instance_ref_def)
  have "instances_ok db'" using inv rec(3) created(4,7,8)
    by (auto simp: control_inv_def instances_ok_def unique_keys_append1 lookup_by_None_iff)
  moreover have "leases_ok db'" using inv created(10) refs
    by (auto simp: control_inv_def leases_ok_def lease_added_def unique_keys_append1 occupies_def)
  moreover have "snapshots_ok db'" using inv created(11) refs by (auto simp: control_inv_def snapshots_ok_def)
  moreover have "documents_ok db'" using inv created(12-15) refs
    by (auto simp: control_inv_def documents_ok_def unique_keys_append1 lookup_by_None_iff)
  ultimately show ?thesis using ops by (simp add: control_inv_def)
next
  case (changed row f t)
  note rec = recordedD [OF changed(1)]
  have ops: "operations_ok db'" using recorded_operations_ok [OF changed(1)] inv by (simp add: control_inv_def)
  from changed(7,8) have refs: "map instance_ref (instances db') = map instance_ref (instances db)" by simp
  have "instances_ok db'" using inv rec(3) changed(7,8)
    by (auto simp: control_inv_def instances_ok_def set_update_where busy_change_def unique_keys_update_where)
  moreover have "leases_ok db'" using release_leases_ok [OF _ changed(9) refs] inv by (simp add: control_inv_def)
  moreover have "snapshots_ok db'" using snapshots_ok_step [OF _ changed(4,10) refs] inv by (simp add: control_inv_def)
  moreover have "documents_ok db'" using inv changed(11) refs
    by (auto simp: control_inv_def documents_ok_def markInstanceBusyInProjection_def unique_keys_update_where set_update_where)
  ultimately show ?thesis using ops by (simp add: control_inv_def)
qed

lemma request_step_inv: "request_step db db' \<Longrightarrow> control_inv db \<Longrightarrow> control_inv db'"
proof (induction rule: request_step.induct)
  case (step_reconcile db' i db)
  have "map instance_ref (instances db') = map instance_ref (instances db)"
    using step_reconcile(1) by (simp add: update_instance_def map_update_where_key instance_ref_def)
  with step_reconcile show ?case
    by (auto simp: control_inv_defs update_instance_def unique_keys_update_where set_update_where)
qed (auto simp: control_inv_defs dest: accepts_inv)

end
