(* ===== verification/Control_Idempotency.thy ===== *)
theory Control_Idempotency
  imports Control_Invariant
begin

section \<open>Idempotency\<close>

text \<open>
  Two contracts. \<open>idempotent_store\<close> is what the application relies on when it calls a method of the
  store: a known key is answered from its record, an unknown one is accepted as specified.
  \<open>idempotent_service\<close> is what a client of the application relies on: a retry is answered with the
  first response, a key reused for another request is refused, whatever was served in between.
\<close>

definition conflict :: control_error where
  "conflict = domain_fail IDEMPOTENCY_CONFLICT ''The idempotency key is already bound to different input.''"

definition answer_known :: "string \<Rightarrow> idempotency_record \<Rightarrow> pg \<Rightarrow> control_error + accepted_mutation \<times> pg" where
  "answer_known h rec db =
     (if idRequestHash rec \<noteq> h then Inl conflict else Inr ((idResponse rec)\<lparr>acReplayed := True\<rparr>, db))"

lemma replay_or_known:
  "lookup_by scope_of sc (idempotency_records db) = Some rec \<Longrightarrow> replay_or sc h accept db = answer_known h rec db"
  by (simp add: replay_or_def findReplayedResponse_def answer_known_def conflict_def)

text \<open>Later tables hold every record of earlier ones.\<close>

definition keeps_records :: "pg \<Rightarrow> pg \<Rightarrow> bool" where
  "keeps_records db db' \<longleftrightarrow> (\<forall>sc rec. lookup_by scope_of sc (idempotency_records db) = Some rec \<longrightarrow>
     lookup_by scope_of sc (idempotency_records db') = Some rec)"

lemma accepts_keeps_records: "accepts sc h r e db db' \<Longrightarrow> keeps_records db db'"
  by (auto elim!: accepts.cases dest!: recordedD(2) simp: keeps_records_def lookup_by_append)

lemma request_step_keeps_records: "request_step db db' \<Longrightarrow> keeps_records db db'"
  by (induction rule: request_step.induct)
    (auto simp: keeps_records_def update_instance_def dest: accepts_keeps_records)

lemma serve_all_keeps_records: "keeps_records db (serve_all qs db)"
  by (rule serve_all_induct) (auto simp: keeps_records_def dest!: request_step_keeps_records)

lemma accepted_or_replayed_record:
  assumes "accepted_or_replayed sc h r db db'" and "keeps_records db' db2"
  shows "\<exists>rec. lookup_by scope_of sc (idempotency_records db2) = Some rec \<and> idRequestHash rec = h \<and>
     (idResponse rec)\<lparr>acReplayed := True\<rparr> = r\<lparr>acReplayed := True\<rparr>"
proof -
  from assms(1) consider "replays sc h r db" "db' = db" | e where "accepts sc h r e db db'"
    unfolding accepted_or_replayed_def by blast
  then have "\<exists>rec. lookup_by scope_of sc (idempotency_records db') = Some rec \<and> idRequestHash rec = h \<and>
     (idResponse rec)\<lparr>acReplayed := True\<rparr> = r\<lparr>acReplayed := True\<rparr>"
  proof cases
    case (2 e)
    then have "recorded sc h r e db db'" by (auto elim: accepts.cases)
    from recordedD(1,2) [OF this] show ?thesis by (auto simp: lookup_by_append)
  qed (auto simp: replays_def)
  with assms(2) show ?thesis unfolding keeps_records_def by blast
qed

locale idempotent_store =
  fixes accept :: "env \<Rightarrow> 'c \<Rightarrow> string \<Rightarrow> pg \<Rightarrow> control_error + accepted_mutation \<times> pg"
    and scope :: "'c \<Rightarrow> scope"
    and admissible :: "'c \<Rightarrow> bool"
  assumes known: "admissible c \<Longrightarrow> lookup_by scope_of (scope c) (idempotency_records db) = Some rec \<Longrightarrow>
      accept E c h db = answer_known h rec db"
    and refines: "accept E c h db = Inr (r, db') \<Longrightarrow> accepted_or_replayed (scope c) h r db db'"
begin

lemma retry:
  assumes "accept E c h db = Inr (r, db1)" and "keeps_records db1 db2" and "admissible c'" and "scope c' = scope c"
  shows "accept E' c' h db2 = Inr (r\<lparr>acReplayed := True\<rparr>, db2)"
    and "h' \<noteq> h \<Longrightarrow> accept E' c' h' db2 = Inl conflict"
proof -
  from accepted_or_replayed_record [OF refines [OF assms(1)] assms(2)] assms(4) obtain rec where
    "lookup_by scope_of (scope c') (idempotency_records db2) = Some rec" "idRequestHash rec = h"
    "(idResponse rec)\<lparr>acReplayed := True\<rparr> = r\<lparr>acReplayed := True\<rparr>"
    by auto
  then show "accept E' c' h db2 = Inr (r\<lparr>acReplayed := True\<rparr>, db2)"
    and "h' \<noteq> h \<Longrightarrow> accept E' c' h' db2 = Inl conflict"
    using known [OF assms(3)] by (auto simp: answer_known_def)
qed

end

interpretation create: idempotent_store "\<lambda>E. acceptCreate E g" "\<lambda>c. project_scope c CREATE_INSTANCE_ACTION" "\<lambda>c. True"
  by unfold_locales (simp_all add: acceptCreate_def replay_or_known acceptCreate_refines [unfolded acceptCreate_def])

interpretation power: idempotent_store acceptPowerAction "\<lambda>c. project_scope c POWER_INSTANCE_ACTION" "\<lambda>c. True"
  by unfold_locales (simp_all add: acceptPowerAction_def replay_or_known acceptPowerAction_refines [unfolded acceptPowerAction_def])

interpretation resize: idempotent_store acceptResize "\<lambda>c. project_scope c RESIZE_INSTANCE_ACTION" "\<lambda>c. True"
  by unfold_locales (simp_all add: acceptResize_def replay_or_known acceptResize_refines [unfolded acceptResize_def])

interpretation snapshot: idempotent_store acceptSnapshotCreate "\<lambda>c. project_scope c CREATE_SNAPSHOT_ACTION" "\<lambda>c. True"
  by unfold_locales
    (simp_all add: acceptSnapshotCreate_def replay_or_known acceptSnapshotCreate_refines [unfolded acceptSnapshotCreate_def])

interpretation snapshot_act: idempotent_store "\<lambda>E. acceptSnapshotAction E a"
    "\<lambda>c. project_scope c (snapshot_action_text a)" "\<lambda>c. True"
  by unfold_locales
    (simp_all add: acceptSnapshotAction_def replay_or_known acceptSnapshotAction_refines [unfolded acceptSnapshotAction_def])

interpretation retention: idempotent_store acceptRetention "\<lambda>c. project_scope c RETAIN_INSTANCE_ACTION" "\<lambda>c. True"
  by unfold_locales (simp_all add: acceptRetention_def replay_or_known acceptRetention_refines [unfolded acceptRetention_def])

interpretation purge: idempotent_store acceptPurge "\<lambda>c. adminScope c PURGE_INSTANCE_ACTION"
    "\<lambda>c. puConfirmInstanceId c = puInstanceId c"
  by unfold_locales (simp_all add: acceptPurge_refines, simp add: acceptPurge_def replay_or_known)

locale idempotent_service =
  fixes handle :: "'e \<Rightarrow> 'q \<Rightarrow> pg \<Rightarrow> control_error + accepted_mutation option \<times> pg"
    and scope :: "'q \<Rightarrow> scope option"
    and hash :: "'e \<Rightarrow> 'q \<Rightarrow> string"
    and guard :: "'q \<Rightarrow> control_error + unit"
  assumes known: "scope q = Some sc \<Longrightarrow> guard q = Inr () \<Longrightarrow>
      lookup_by scope_of sc (idempotency_records db) = Some rec \<Longrightarrow>
      handle E q db = map_sum id (map_prod Some id) (answer_known (hash E q) rec db)"
    and guarded: "handle E q db = Inr (a, db') \<Longrightarrow> guard q = Inr ()"
    and refines: "handle E q db = Inr (a, db') \<Longrightarrow> scope q = Some sc \<Longrightarrow>
      \<exists>r. a = Some r \<and> accepted_or_replayed sc (hash E q) r db db'"
begin

lemma retry_is_replayed:
  assumes "handle E q db = Inr (Some r, db1)" and "scope q = Some sc" and "keeps_records db1 db2"
    and "scope q' = Some sc" "guard q' = Inr ()" "hash E' q' = hash E q"
  shows "handle E' q' db2 = Inr (Some (r\<lparr>acReplayed := True\<rparr>), db2)"
proof -
  from refines [OF assms(1,2)] accepted_or_replayed_record [OF _ assms(3)] obtain rec where
    "lookup_by scope_of sc (idempotency_records db2) = Some rec" "idRequestHash rec = hash E q"
    "(idResponse rec)\<lparr>acReplayed := True\<rparr> = r\<lparr>acReplayed := True\<rparr>"
    by blast
  then show ?thesis using known [OF assms(4,5)] assms(6) by (simp add: answer_known_def)
qed

lemma reuse_is_refused:
  assumes "handle E q db = Inr (a, db1)" and "scope q = Some sc" and "keeps_records db1 db2"
    and "scope q' = Some sc" "guard q' = Inr ()" "hash E' q' \<noteq> hash E q"
  shows "handle E' q' db2 = Inl conflict"
proof -
  from refines [OF assms(1,2)] accepted_or_replayed_record [OF _ assms(3)] obtain rec where
    "lookup_by scope_of sc (idempotency_records db2) = Some rec" "idRequestHash rec = hash E q"
    by blast
  then show ?thesis using known [OF assms(4,5)] assms(6) by (simp add: answer_known_def)
qed

end

lemma serve_guarded: "serve E g q db = Inr (a, db') \<Longrightarrow> request_guard q = Inr ()"
  by (cases q)
    (auto simp: createInstance_def mutateInstancePower_def resizeInstance_def createSnapshot_def snapshotAction_def
      retainInstance_def purgeInstance_def requestDeadLetterReplay_def requestReconciliation_def res_bind_Inr_iff map_sum_def
      dest: acceptPurge_confirmed split: if_splits sum.splits)

lemma serve_known:
  assumes "request_scope q = Some sc" and "request_guard q = Inr ()"
    and "lookup_by scope_of sc (idempotency_records db) = Some rec"
  shows "serve E g q db = answered (answer_known (hashJson E (request_json q)) rec db)"
  using assms
  by (cases q)
    (auto simp: createInstance_def create_hash_def mutateInstancePower_def resizeInstance_def createSnapshot_def
      snapshotAction_def retainInstance_def purgeInstance_def create.known power.known resize.known snapshot.known
      snapshot_act.known retention.known purge.known dest!: validatePowerAction_text split: if_splits)

interpretation control: idempotent_service "\<lambda>(E, g). serve E g" request_scope
    "\<lambda>(E, g) q. hashJson E (request_json q)" request_guard
  by unfold_locales (use serve_known serve_guarded serve_refines in \<open>auto simp: answered_def split: prod.splits\<close>)

end
