(* ===== verification/Control_Quota.thy ===== *)
theory Control_Quota
  imports Control_Idempotency
begin

section \<open>Quota, in-flight operations and isolation over histories\<close>

text \<open>
  Lemmas about one step of the control plane: what it does to the measured usage of a project, to the
  commands published for an instance and to the rows of other projects.
\<close>

lemma unique_keys_eq: "unique_keys k rows \<Longrightarrow> x \<in> set rows \<Longrightarrow> y \<in> set rows \<Longrightarrow> k x = k y \<Longrightarrow> x = y"
  by (auto simp: unique_keys_def distinct_map inj_on_def)

subsection \<open>Usage\<close>

definition within_quota :: "uuid \<Rightarrow> pg \<Rightarrow> bool" where
  "within_quota project db \<longleftrightarrow> (\<exists>q. lookup_by quProjectId project (quotas db) = Some q \<and>
     usInstances (quota_usage project db) \<le> quInstances q \<and> usCpuCount (quota_usage project db) \<le> quCpuCount q \<and>
     usMemoryMiB (quota_usage project db) \<le> quMemoryMib q \<and> usDiskGiB (quota_usage project db) \<le> quDiskGib q \<and>
     usSnapshots (quota_usage project db) \<le> quSnapshots q)"

text \<open>The sum of a column over the selected rows after one row is replaced.\<close>

lemma sum_update_unique:
  fixes g :: "'r \<Rightarrow> int"
  assumes "unique_keys k rows" and "row \<in> set rows"
  shows "sum_list (map g (filter P (update_where (\<lambda>x. k x = k row) f rows))) =
     sum_list (map g (filter P rows)) - (if P row then g row else 0) + (if P (f row) then g (f row) else 0)"
  using assms
proof (induction rows)
  case (Cons x xs)
  show ?case
  proof (cases "x = row")
    case True
    have "update_where (\<lambda>y. k y = k row) f xs = xs"
      using Cons.prems(1) True by (induction xs) (auto simp: unique_keys_def)
    with True show ?thesis by simp
  next
    case False
    with Cons.prems have "row \<in> set xs" "k x \<noteq> k row" "unique_keys k xs"
      by (auto simp: unique_keys_def rev_image_eqI)
    with Cons.IH show ?thesis by simp
  qed
qed simp

lemma length_as_sum: "int (length xs) = sum_list (map (\<lambda>_. 1) xs)"
  by (induction xs) auto

lemma map_filter_update_where:
  assumes "\<And>x. P (f x) = P x" and "\<And>x. g (f x) = g x"
  shows "map g (filter P (update_where Q f rows)) = map g (filter P rows)"
  by (induction rows) (auto simp: assms)

definition is_live :: "uuid \<Rightarrow> instance_row \<Rightarrow> bool" where
  "is_live project r \<longleftrightarrow> inProjectId r = project \<and> inLifecycleState r \<noteq> ''purged''"

lemma live_instances_alt: "live_instances project db = filter (is_live project) (instances db)"
  by (simp add: live_instances_def is_live_def [abs_def])

definition is_occupying :: "uuid \<Rightarrow> snapshot_row \<Rightarrow> bool" where
  "is_occupying project s \<longleftrightarrow> snProjectId s = project \<and> List.member occupying_snapshot_states (snState s)"

lemma occupying_snapshots_alt: "occupying_snapshots project db = filter (is_occupying project) (snapshots db)"
  by (simp add: occupying_snapshots_def is_occupying_def [abs_def])

lemmas usage_simps = quota_usage_def Let_def live_instances_alt occupying_snapshots_alt

lemma claimed_snapshot_count:
  assumes "snapshot_claimed row db db'" and "snapshots_ok db"
  shows "length (occupying_snapshots project db') = length (occupying_snapshots project db)"
proof -
  from assms(1) obtain s state t where s: "lookup_by snId (snId s) (snapshots db) = Some s" "snState s = ''available''"
      "state \<in> {''rolling_back'', ''deleting''}" and
      db': "snapshots db' = update_where (\<lambda>x. snId x = snId s) (\<lambda>x. x\<lparr>snState := state, snUpdatedAt := t\<rparr>) (snapshots db)"
    by (auto simp: snapshot_claimed_def)
  have "s \<in> set (snapshots db)" "unique_keys snId (snapshots db)"
    using lookup_by_SomeD [OF s(1)] assms(2) by (auto simp: snapshots_ok_def)
  from sum_update_unique [OF this(2,1), of "\<lambda>_. 1" "is_occupying project"] s
  have "int (length (occupying_snapshots project db')) = int (length (occupying_snapshots project db))"
    unfolding occupying_snapshots_alt length_as_sum db'
    by (auto simp: is_occupying_def occupying_snapshot_states_def)
  then show ?thesis by simp
qed

lemma accepts_within_quota:
  assumes step: "accepts sc h r e db db'" and inv: "control_inv db" and q: "within_quota project db"
  shows "within_quota project db'"
  using step
proof cases
  case (created row doc)
  note q' = recordedD(5) [OF created(1)]
  have live: "is_live project row \<longleftrightarrow> inProjectId row = project" using created(6) by (simp add: is_live_def)
  from q created(9) q' show ?thesis
    by (cases "inProjectId row = project")
      (auto simp: within_quota_def fits_instance_def usage_simps created(8,11) live sizing_of_def)
next
  case (changed row f t)
  note q' = recordedD(5) [OF changed(1)]
  have u: "unique_keys inId (instances db)" and sok: "snapshots_ok db" using inv by (auto simp: control_inv_defs)
  have fr: "inProjectId (f row) = inProjectId row"
      "inLifecycleState (f row) \<in> {inLifecycleState row, ''deleting'', ''purge_pending''}"
    using changed(7) unfolding busy_change_def by blast+
  have live: "is_live project (f row) \<longleftrightarrow> is_live project row" "is_live project row \<longleftrightarrow> inProjectId row = project"
    using changed(6) fr by (auto simp: is_live_def)
  have sum: "sum_list (map g (live_instances project db')) = sum_list (map g (live_instances project db)) +
      (if inProjectId row = project then g (f row) - g row else 0)" for g :: "instance_row \<Rightarrow> int"
    unfolding live_instances_alt changed(8) sum_update_unique [OF u changed(4), of g] by (simp add: live)
  have count: "length (live_instances project db') = length (live_instances project db)"
    using sum [of "\<lambda>_. 1"] by (simp flip: length_as_sum split: if_split_asm)
  have snaps: "int (length (occupying_snapshots project db')) \<le> int (length (occupying_snapshots project db)) +
      (if snapshot_added row db db' \<and> inProjectId row = project then 1 else 0)"
    using changed(10)
  proof (elim disjE)
    assume "snapshot_added row db db'"
    then show ?thesis by (auto simp: snapshot_added_def occupying_snapshots_alt is_occupying_def)
  next
    assume "snapshot_claimed row db db'"
    from claimed_snapshot_count [OF this sok] show ?thesis by simp
  qed (simp add: occupying_snapshots_alt)
  have fit: "snapshot_added row db db' \<Longrightarrow> fits_snapshot (inProjectId row) db" by (auto simp: snapshot_added_def)
  have sizing: "(\<forall>x. sizing_of (f x) = sizing_of x) \<or> fits_resize (inProjectId row) (sizing_of row) (sizing_of (f row)) db"
    using changed(7) unfolding busy_change_def by metis
  show ?thesis
    using q sizing fit snaps
    unfolding within_quota_def quota_usage_def Let_def sum count q' fits_resize_def fits_snapshot_def
    by (auto simp: sizing_of_def split: if_split_asm)
qed

lemma request_step_within_quota:
  "request_step db db' \<Longrightarrow> control_inv db \<Longrightarrow> within_quota project db \<Longrightarrow> within_quota project db'"
proof (induction rule: request_step.induct)
  case (step_reconcile db' i db)
  have keep: "map g (live_instances project db') = map g (live_instances project db)"
    if "\<And>x. g (x\<lparr>inLastReconciledAt := None\<rparr>) = g x" for g :: "instance_row \<Rightarrow> int"
    unfolding live_instances_alt step_reconcile(1) update_instance_def
    using that by (simp add: map_filter_update_where is_live_def)
  have same: "map inDesiredCpuCount (live_instances project db') = map inDesiredCpuCount (live_instances project db)"
      "map inDesiredMemoryMib (live_instances project db') = map inDesiredMemoryMib (live_instances project db)"
      "map inDesiredDiskGib (live_instances project db') = map inDesiredDiskGib (live_instances project db)"
    by (simp_all add: keep)
  have count: "length (live_instances project db') = length (live_instances project db)"
    using arg_cong [OF keep [of "\<lambda>_. 1"], of length] by simp
  have "quotas db' = quotas db" "snapshots db' = snapshots db" by (simp_all add: step_reconcile(1) update_instance_def)
  with same count step_reconcile(3) show ?case
    by (simp add: within_quota_def quota_usage_def Let_def occupying_snapshots_alt)
next
  case (step_accept sc h r e db db')
  then show ?case by (rule accepts_within_quota)
qed (simp_all add: within_quota_def usage_simps)

subsection \<open>Commands in flight\<close>

definition busy :: "uuid \<Rightarrow> pg \<Rightarrow> bool" where
  "busy i db \<longleftrightarrow> (\<exists>r \<in> set (instances db). inId r = i \<and> inActiveOperationId r \<noteq> None)"

text \<open>
  The commands published for an instance. Those of the eight lifecycle actions are what an instance carries
  out; a request to replay a dead letter travels on the same topic and asks the orchestrator to publish
  one of them again.
\<close>

definition commands_for :: "uuid \<Rightarrow> pg \<Rightarrow> outbox_row list" where
  "commands_for i db = filter (\<lambda>c. obTopic c = ''provisioning.commands.v1'' \<and> aggregateId (obPayload c) = i) (ct_outbox db)"

definition replay_requests_for :: "uuid \<Rightarrow> pg \<Rightarrow> outbox_row list" where
  "replay_requests_for i db = filter (\<lambda>c. obTopic c = ''provisioning.commands.v1'' \<and> aggregateId (obPayload c) = i \<and>
     schemaName (obPayload c) = ''provisioning.replay.requested'') (ct_outbox db)"

definition lifecycle_commands_for :: "uuid \<Rightarrow> pg \<Rightarrow> outbox_row list" where
  "lifecycle_commands_for i db = filter (\<lambda>c. obTopic c = ''provisioning.commands.v1'' \<and> aggregateId (obPayload c) = i \<and>
     schemaName (obPayload c) \<noteq> ''provisioning.replay.requested'') (ct_outbox db)"

lemma commands_for_split:
  "length (commands_for i db) = length (lifecycle_commands_for i db) + length (replay_requests_for i db)"
proof -
  have "length (filter (\<lambda>c. P c \<and> Q c) xs) = length (filter (\<lambda>c. P c \<and> Q c \<and> \<not> R c) xs) + length (filter (\<lambda>c. P c \<and> Q c \<and> R c) xs)"
    for P Q R and xs :: "outbox_row list"
    by (induction xs) auto
  then show ?thesis by (simp add: commands_for_def lifecycle_commands_for_def replay_requests_for_def)
qed

definition in_flight_bound :: "uuid \<Rightarrow> pg \<Rightarrow> nat" where
  "in_flight_bound i db = length (lifecycle_commands_for i db) + (if busy i db then 0 else 1)"

lemma bex_update_where: "(\<exists>r \<in> set (update_where P f rows). Q r) \<longleftrightarrow> (\<exists>r \<in> set rows. Q (if P r then f r else r))"
  by (induction rows) auto

lemma recorded_commands:
  assumes "recorded sc h r e db db'"
  shows "\<exists>cmd. lifecycle_commands_for i db' = lifecycle_commands_for i db @ (if aggregateId e = i then [cmd] else [])"
  using assms by (fastforce simp: recorded_def lifecycle_commands_for_def command_schemas_def)

lemma accepts_busy:
  assumes "accepts sc h r e db db'" and "control_inv db"
  shows "\<not> busy (aggregateId e) db" "busy (aggregateId e) db'" "i \<noteq> aggregateId e \<Longrightarrow> busy i db' = busy i db"
proof -
  have "\<not> busy (aggregateId e) db \<and> busy (aggregateId e) db' \<and> (i \<noteq> aggregateId e \<longrightarrow> busy i db' = busy i db)"
    using assms(1)
  proof cases
    case (created row doc)
    then show ?thesis by (auto simp: busy_def lookup_by_None_iff image_iff)
  next
    case (changed row f t)
    have u: "unique_keys inId (instances db)" using assms(2) by (simp add: control_inv_defs)
    have idle: "\<not> busy (inId row) db" unfolding busy_def
    proof clarify
      fix x op assume "x \<in> set (instances db)" "inId x = inId row" "inActiveOperationId x = Some op"
      moreover have "x = row" by (rule unique_keys_eq [OF u]) (use changed(4) calculation in simp_all)
      ultimately show False using changed(5) by simp
    qed
    have f: "inId (f x) = inId x" "inActiveOperationId (f x) \<noteq> None" for x
      using changed(7) by (simp_all add: busy_change_def)
    have "busy (inId row) db'" unfolding busy_def changed(8) bex_update_where using f changed(4) by force
    moreover have "busy i db' = busy i db" if "i \<noteq> inId row"
      unfolding busy_def changed(8) bex_update_where using f(1) that by (intro bex_cong) auto
    ultimately show ?thesis using idle changed(2) by simp
  qed
  then show "\<not> busy (aggregateId e) db" "busy (aggregateId e) db'" "i \<noteq> aggregateId e \<Longrightarrow> busy i db' = busy i db"
    by auto
qed

lemma request_step_in_flight:
  "request_step db db' \<Longrightarrow> control_inv db \<Longrightarrow> in_flight_bound i db' = in_flight_bound i db"
proof (induction rule: request_step.induct)
  case (step_accept sc h r e db db')
  have "recorded sc h r e db db'" using step_accept(1) by (auto elim: accepts.cases)
  from recorded_commands [OF this, of i] obtain cmd where
    "lifecycle_commands_for i db' = lifecycle_commands_for i db @ (if aggregateId e = i then [cmd] else [])" by blast
  with accepts_busy(1,2) [OF step_accept] accepts_busy(3) [OF step_accept, of i] show ?case
    by (cases "i = aggregateId e") (simp_all add: in_flight_bound_def)
next
  case (step_replay cmd aud db' db rr entry)
  then show ?case by (simp add: in_flight_bound_def lifecycle_commands_for_def busy_def)
next
  case (step_reconcile db' i' db)
  have "busy i db' = busy i db"
    unfolding busy_def step_reconcile(1) update_instance_def by (simp add: bex_update_where if_distrib cong: if_cong)
  then show ?case by (simp add: in_flight_bound_def lifecycle_commands_for_def step_reconcile(1) update_instance_def)
qed simp

text \<open>A request publishes at most one request for a replay, and a lifecycle request none.\<close>

lemma request_step_replays:
  "request_step db db' \<Longrightarrow> length (replay_requests_for i db') \<le> length (replay_requests_for i db) + 1"
proof (induction rule: request_step.induct)
  case (step_accept sc h r e db db')
  have "recorded sc h r e db db'" using step_accept by (auto elim: accepts.cases)
  then show ?case by (auto simp: recorded_def replay_requests_for_def)
qed (simp_all add: replay_requests_for_def update_instance_def)

lemma recorded_replays: "recorded sc h r e db db' \<Longrightarrow> replay_requests_for i db' = replay_requests_for i db"
  by (auto simp: recorded_def replay_requests_for_def command_schemas_def)

subsection \<open>Rows of a project\<close>

record project_view =
  pvInstances :: "instance_row list"
  pvOperations :: "operation_row list"
  pvLeases :: "ipv4_lease list"
  pvSnapshots :: "snapshot_row list"
  pvInstanceDocuments :: "instance_document list"
  pvOperationDocuments :: "operation_document list"

definition project_view :: "uuid \<Rightarrow> pg \<Rightarrow> project_view" where
  "project_view p db =
     \<lparr>pvInstances = filter (\<lambda>r. inProjectId r = p) (instances db),
      pvOperations = filter (\<lambda>r. opProjectId r = p) (operations db),
      pvLeases = filter (\<lambda>r. ilProjectId r = p) (ipv4_leases db),
      pvSnapshots = filter (\<lambda>r. snProjectId r = p) (snapshots db),
      pvInstanceDocuments = filter (\<lambda>r. idoProjectId r = p) (instance_documents db),
      pvOperationDocuments = filter (\<lambda>r. odProjectId r = p) (operation_documents db)\<rparr>"

lemma filter_update_other:
  assumes "\<And>x. x \<in> set rows \<Longrightarrow> Q x \<Longrightarrow> \<not> P x \<and> \<not> P (f x)"
  shows "filter P (update_where Q f rows) = filter P rows"
  using assms by (induction rows) auto

lemma instance_ref_project:
  assumes "control_inv db" and "row \<in> set (instances db)" and "(inId row, p) \<in> set (map instance_ref (instances db))"
  shows "p = inProjectId row"
proof -
  have u: "unique_keys inId (instances db)" using assms(1) by (simp add: control_inv_defs)
  from assms(3) obtain x where x: "x \<in> set (instances db)" "inId x = inId row" "inProjectId x = p"
    by (auto simp: instance_ref_def)
  from unique_keys_eq [OF u x(1) assms(2) x(2)] x(3) show ?thesis by simp
qed

lemma accepts_isolated:
  assumes step: "accepts sc h r e db db'" and inv: "control_inv db" and p: "p \<noteq> projectId e"
  shows "project_view p db' = project_view p db"
  using step
proof cases
  case (created row doc)
  from recordedD(3,4) [OF created(1)] created(3,8,10,11,13,15) p show ?thesis
    by (auto simp: project_view_def lease_added_def)
next
  case (changed row f t)
  have q: "p \<noteq> inProjectId row" using changed(3) p by simp
  note ref = instance_ref_project [OF inv changed(4)]
  have f: "inProjectId (f x) = inProjectId x" for x using changed(7) by (simp add: busy_change_def)
  have self: "x \<in> set (instances db) \<Longrightarrow> inId x = inId row \<Longrightarrow> inProjectId x = inProjectId row" for x
    using unique_keys_eq [of inId "instances db" x row] changed(4) inv by (simp add: control_inv_defs)
  have inst: "filter (\<lambda>r. inProjectId r = p) (instances db') = filter (\<lambda>r. inProjectId r = p) (instances db)"
    unfolding changed(8) using self q f by (intro filter_update_other) auto
  have lease: "ilProjectId l = inProjectId row" if "l \<in> set (ipv4_leases db)" "ilInstanceId l = inId row" for l
    using inv that ref [of "ilProjectId l"] by (auto simp: control_inv_defs)
  have leases: "filter (\<lambda>r. ilProjectId r = p) (ipv4_leases db') = filter (\<lambda>r. ilProjectId r = p) (ipv4_leases db)"
    using changed(9) lease q
    by (auto simp: leases_kept_or_released_def release_active_lease_def intro!: filter_update_other)
  have snap: "snProjectId s = inProjectId row" if "s \<in> set (snapshots db)" "snInstanceId s = inId row" for s
    using inv that ref [of "snProjectId s"] by (auto simp: control_inv_defs)
  have snaps: "filter (\<lambda>r. snProjectId r = p) (snapshots db') = filter (\<lambda>r. snProjectId r = p) (snapshots db)"
    using changed(10)
  proof (elim disjE)
    assume "snapshot_claimed row db db'"
    then obtain s state t where s: "lookup_by snId (snId s) (snapshots db) = Some s" "snInstanceId s = inId row" and
      db': "snapshots db' = update_where (\<lambda>x. snId x = snId s) (\<lambda>x. x\<lparr>snState := state, snUpdatedAt := t\<rparr>) (snapshots db)"
      by (auto simp: snapshot_claimed_def)
    have "x = s" if "x \<in> set (snapshots db)" "snId x = snId s" for x
      using unique_keys_eq [of snId "snapshots db" x s] that lookup_by_SomeD [OF s(1)] inv by (simp add: control_inv_defs)
    then show ?thesis
      unfolding db' using snap q s(2) by (intro filter_update_other) auto
  qed (use q in \<open>auto simp: snapshot_added_def\<close>)
  have doc: "idoProjectId d = inProjectId row" if "d \<in> set (instance_documents db)" "idoInstanceId d = inId row" for d
    using inv that ref [of "idoProjectId d"] by (auto simp: control_inv_defs)
  have docs: "filter (\<lambda>r. idoProjectId r = p) (instance_documents db') = filter (\<lambda>r. idoProjectId r = p) (instance_documents db)"
    unfolding changed(11) markInstanceBusyInProjection_def using doc q by (auto intro!: filter_update_other)
  from recordedD(3,4) [OF changed(1)] p show ?thesis
    by (auto simp: project_view_def inst leases snaps docs)
qed

end
