(* ===== verification/Control_Samples.thy ===== *)
theory Control_Samples
  imports Control_Quota Samples
begin

section \<open>Concrete control plane tables\<close>

text \<open>
  A project with a quota and a catalog, one idle instance with its lease and read document, and
  requests on it, used to run the control plane on concrete inputs.
\<close>

definition sample_tenant :: actor where
  "sample_tenant = \<lparr>subject = ''alice'', roles = [''tenant_developer''], projects = [sample_project]\<rparr>"

definition sample_admin :: actor where
  "sample_admin = \<lparr>subject = ''root'', roles = [''platform_administrator''], projects = []\<rparr>"

definition sample_row :: instance_row where
  "sample_row = \<lparr>inId = sample_instance, inProjectId = sample_project, inImageId = ''ubuntu-24'', inFlavorId = ''small'',
     inNetworkId = ''lab-net'', inProviderProfileId = ''fake'', inHostname = ''web-1'', inSshPublicKeys = [],
     inDesiredCpuCount = 2, inDesiredMemoryMib = 2048, inDesiredDiskGib = 20, inDesiredPowerState = ''running'',
     inLifecycleState = ''active'', inActiveOperationId = None, inCreateOperationId = Some sample_operation,
     inRetentionDeadline = None, inPurgeEligible = False, inDrift = ''none'', inLastReconciledAt = None,
     inObserved = None, inCreatedAt = 0, inUpdatedAt = 0\<rparr>"

definition sample_lease :: ipv4_lease where
  "sample_lease = \<lparr>ilId = sample_uuid 90, ilProjectId = sample_project, ilInstanceId = sample_instance,
     ilNetworkId = ''lab-net'', ilAddress = ''10.20.0.2'', ilPrefixLength = Some 24, ilGateway = ''10.20.0.1'',
     ilState = ''active'', ilUpdatedAt = 0\<rparr>"

definition sample_network :: network_row where
  "sample_network = \<lparr>neId = ''lab-net'', neName = ''lab'', neIpv4Cidr = ''10.20.0.0/24'', neGateway = ''10.20.0.1'',
     neDnsServers = [''10.20.0.1''], neExclusions = [], neEnabled = True,
     neCreatedAt = 0, neUpdatedAt = 0\<rparr>"

definition sample_quota :: quota_row where
  "sample_quota = \<lparr>quProjectId = sample_project, quInstances = 4, quCpuCount = 8, quMemoryMib = 16384, quDiskGib = 200,
     quIpv4Addresses = 4, quSnapshots = 2\<rparr>"

definition sample_flavor :: flavor_row where
  "sample_flavor = \<lparr>flId = ''small'', flName = ''Small'', flCpuCount = 2, flMemoryMib = 2048, flMinimumDiskGib = 20,
     flEnabled = True, flCreatedAt = 0, flUpdatedAt = 0\<rparr>"

definition empty_pg :: pg where
  "empty_pg = workflow_db.extend no_tables \<lparr>project_rows = [], quotas = [], networks = [], provider_profiles = [],
     images = [], flavors = [], policy = \<lparr>rpRetentionHours = 24, rpLeaseReleaseMode = ''quarantine_until_purge''\<rparr>,
     instances = [], operations = [], ipv4_leases = [], snapshots = [], idempotency_records = [], control_replays = [],
     ct_outbox = [], instance_documents = [], operation_documents = [], snapshot_documents = [],
     dead_letter_documents = [], event_receipts = [], projection_poison = []\<rparr>"

definition sample_pg :: pg where
  "sample_pg = empty_pg\<lparr>project_rows := [\<lparr>pjId = sample_project, pjName = ''lab'', pjEnabled = True\<rparr>],
     quotas := [sample_quota], networks := [sample_network],
     provider_profiles := [\<lparr>ppId = ''fake'', ppState = ''active'', ppNetworkId = ''lab-net''\<rparr>],
     images := [\<lparr>imId = ''ubuntu-24'', imName = ''Ubuntu'', imProviderProfileId = ''fake'',
        imEnabled = True, imArchitecture = ''x86_64'', imCreatedAt = 0, imUpdatedAt = 0\<rparr>],
     flavors := [sample_flavor], instances := [sample_row], ipv4_leases := [sample_lease]\<rparr>"

definition sample_instance_command :: instance_command where
  "sample_instance_command = \<lparr>mcActor = sample_tenant, mcIdempotencyKey = ''key-00001'', mcCorrelationId = sample_uuid 5,
     mcTraceparent = traceparent sample_trace, mcTracestate = None, mcProjectId = sample_project,
     mcInstanceId = sample_instance\<rparr>"

definition sample_power :: power_input where
  "sample_power = instance_command.extend sample_instance_command \<lparr>piAction = ''stop''\<rparr>"

definition sample_create :: create_input where
  "sample_create = \<lparr>mcActor = sample_tenant, mcIdempotencyKey = ''key-00002'', mcCorrelationId = sample_uuid 5,
     mcTraceparent = traceparent sample_trace, mcTracestate = None, mcProjectId = sample_project,
     ciImageId = ''ubuntu-24'', ciFlavorId = ''small'', ciNetworkId = ''lab-net'', ciHostname = ''web-2'',
     ciSshPublicKeys = None\<rparr>"

text \<open>A hash that tells the sample requests apart.\<close>

definition sample_control_env :: "nat \<Rightarrow> millis \<Rightarrow> env" where
  "sample_control_env k t = (sample_env_at k t)\<lparr>hashJson := (\<lambda>j. if j = request_json (Power_Request sample_power)
     then ''stop'' else if j = request_json (Create_Request sample_create) then ''create'' else ''other'')\<rparr>"

lemma sample_pg_inv: "control_inv sample_pg"
  by (simp add: control_inv_defs sample_pg_def empty_pg_def workflow_db.defs no_tables_def unique_keys_def instance_ref_def
      sample_row_def sample_lease_def)

lemma sample_pg_within_quota: "within_quota sample_project sample_pg"
  by (simp add: within_quota_def quota_usage_def live_instances_def occupying_snapshots_def sample_pg_def empty_pg_def
      workflow_db.defs no_tables_def sample_row_def sample_quota_def)

lemma sample_uuid_neq:
  "sample_uuid 14 \<noteq> sample_uuid 12" "sample_uuid 13 \<noteq> sample_uuid 11" "sample_uuid 15 \<noteq> sample_uuid 13"
  "sample_uuid 14 \<noteq> sample_uuid 16" "sample_uuid 16 \<noteq> sample_uuid 14" "sample_uuid 15 \<noteq> sample_uuid 12"
  "sample_uuid 14 \<noteq> sample_uuid 12" "sample_uuid 10 \<noteq> sample_instance" "sample_instance \<noteq> sample_uuid 10"
  "sample_uuid 13 \<noteq> sample_uuid 90"
  by code_simp+

lemmas sample_control_defs = sample_pg_def empty_pg_def workflow_db.defs no_tables_def sample_row_def sample_lease_def
  sample_quota_def sample_network_def sample_flavor_def sample_tenant_def sample_instance_command_def

lemma sample_power_accepted:
  "\<exists>r db'. serve (sample_control_env 10 5000) [] (Power_Request sample_power) sample_pg = Inr (Some r, db') \<and> \<not> acReplayed r"
  by (simp add: mutateInstancePower_def authorize_def assertIdempotencyKey_def IDEMPOTENCY_KEY_MINIMUM_LENGTH_def
      IDEMPOTENCY_KEY_MAXIMUM_LENGTH_def validatePowerAction_def sample_power_def instance_command.defs sample_control_defs
      acceptPowerAction_def replay_or_def findReplayedResponse_def lockInstanceForMutation_def MUTABLE_LIFECYCLE_STATES_def
      write_accepted_def insert_row_def insert_unique_def update_instance_def markInstanceBusyInProjection_def
      writeControlOutbox_def writeControlAudit_def auditRecordedEvent_def instance_command_event_def power_command_of_def Let_def
      sample_control_env_def sample_env_at_def sample_uuid_neq accepted_response_def bind_trace_def active_trace_def)

lemma sample_address:
  "allocateIpv4 \<lparr>cidr = ''10.20.0.0/24'', gateway = ''10.20.0.1'', exclusions = []\<rparr> {''10.20.0.2''} = Inr ''10.20.0.3''"
  by code_simp

lemma sample_create_valid: "validateCreateInstance (create_values sample_create) = Inr ()"
  by code_simp

definition sample_acceptance :: acceptance_context where
  "sample_acceptance = \<lparr>axcProviderProfileId = ''fake'', axcFlavor = sample_flavor, axcNetwork = sample_network,
     axcQuota = sample_quota\<rparr>"

lemma sample_create_command:
  "mcProjectId (create_command_of E sample_create) = sample_project" "ccImageId (create_command_of E sample_create) = ''ubuntu-24''"
  "ccFlavorId (create_command_of E sample_create) = ''small''" "ccNetworkId (create_command_of E sample_create) = ''lab-net''"
  "ccSshPublicKeys (create_command_of E sample_create) = []"
  by (simp_all add: create_command_of_def sample_create_def create_keys_def Let_def)

lemma sample_create_context: "loadAcceptanceContext (create_command_of E sample_create) sample_pg = Inr sample_acceptance"
  by (simp add: loadAcceptanceContext_def sample_create_command sample_control_defs sample_acceptance_def Let_def)

lemma sample_create_headroom: "assertQuotaHeadroom sample_project sample_acceptance sample_pg = Inr ()"
  by (simp add: assertQuotaHeadroom_def live_instances_def sample_acceptance_def sample_control_defs Let_def)

lemma sample_create_reserve: "reserveIpv4Address sample_acceptance sample_pg = Inr ''10.20.0.3''"
proof -
  have "filter (\<lambda>l. ilNetworkId l = neId (axcNetwork sample_acceptance) \<and> occupies l) (ipv4_leases sample_pg) = [sample_lease]"
    by (simp add: sample_acceptance_def sample_control_defs occupies_def)
  moreover have "ilAddress sample_lease = ''10.20.0.2''" by (simp add: sample_lease_def)
  ultimately show ?thesis
    unfolding reserveIpv4Address_def Let_def using sample_address
    by (simp add: sample_acceptance_def sample_network_def sample_quota_def)
qed

lemma sample_create_records:
  "\<exists>r. buildAcceptanceRecords E g (create_command_of E sample_create) sample_acceptance a = Inr r \<and>
     crInstanceId r = uuidAt E 0 \<and> crOperationId r = uuidAt E 1 \<and> crLeaseId r = uuidAt E 3 \<and> crAddress r = a \<and>
     eventId (crEvent r) = uuidAt E 2 \<and> \<not> acReplayed (crAccepted r) \<and> ovId (crOperation r) = uuidAt E 1"
  by (simp add: buildAcceptanceRecords_def create_event_data_def dnsTuple_def sample_create_command sample_acceptance_def
      sample_network_def Let_def accepted_response_def accepted_view_def)

lemma sample_create_write:
  assumes "crInstanceId r = sample_uuid 10" "crLeaseId r = sample_uuid 13" "crAddress r = ''10.20.0.3''"
    "eventId (crEvent r) = sample_uuid 12"
  shows "\<exists>db'. writeAcceptanceRecords (sample_control_env 10 5000) c sample_acceptance r h sample_pg = Inr db'"
  using assms
  by (simp add: writeAcceptanceRecords_def insert_lease_def created_lease_def created_instance_def insert_row_def
      insert_unique_def update_instance_def writeControlOutbox_def writeControlAudit_def auditRecordedEvent_def
      Let_def sample_control_env_def sample_env_at_def sample_uuid_neq sample_control_defs sample_acceptance_def occupies_def)

lemma sample_create_accepted:
  "\<exists>r db'. serve (sample_control_env 10 5000) [] (Create_Request sample_create) sample_pg = Inr (Some r, db') \<and> \<not> acReplayed r"
proof -
  let ?E = "sample_control_env 10 5000"
  have u: "uuidAt ?E n = sample_uuid (10 + n)" for n by (simp add: sample_control_env_def sample_env_at_def)
  from sample_create_records [of ?E "[]" "''10.20.0.3''"] obtain r where
    r: "buildAcceptanceRecords ?E [] (create_command_of ?E sample_create) sample_acceptance ''10.20.0.3'' = Inr r"
      "crInstanceId r = uuidAt ?E 0" "crLeaseId r = uuidAt ?E 3" "crAddress r = ''10.20.0.3''" "eventId (crEvent r) = uuidAt ?E 2"
      "\<not> acReplayed (crAccepted r)" by blast
  have known: "lookup_by scope_of sc (idempotency_records sample_pg) = None" for sc
    by (simp add: sample_control_defs)
  have guard: "authorize (mcActor sample_create) (mcProjectId sample_create) = Inr ()"
      "assertIdempotencyKey (mcIdempotencyKey sample_create) = Inr ()"
    by (simp_all add: authorize_def assertIdempotencyKey_def IDEMPOTENCY_KEY_MINIMUM_LENGTH_def
        IDEMPOTENCY_KEY_MAXIMUM_LENGTH_def sample_create_def sample_tenant_def)
  obtain db' where w: "writeAcceptanceRecords ?E (create_command_of ?E sample_create) sample_acceptance r
      (create_hash ?E sample_create) sample_pg = Inr db'"
    using sample_create_write [of r] r(2-5) by (auto simp: u)
  have "createInstance ?E [] sample_create sample_pg = Inr (crAccepted r, db')"
    unfolding createInstance_def guard acceptCreate_def replay_or_def findReplayedResponse_def known
    by (simp add: sample_create_valid sample_create_context sample_create_command sample_create_headroom sample_create_reserve r(1) w)
  with r(6) show ?thesis by simp
qed

definition sample_purge :: purge_command where
  "sample_purge = \<lparr>mcActor = sample_admin, mcIdempotencyKey = ''key-00003'', mcCorrelationId = sample_uuid 5,
     mcTraceparent = traceparent sample_trace, mcTracestate = None, puInstanceId = sample_instance,
     puReason = ''tenant left the lab'', puConfirmInstanceId = sample_instance\<rparr>"

definition sample_retained_pg :: pg where
  "sample_retained_pg = sample_pg\<lparr>instances := [sample_row\<lparr>inLifecycleState := ''retained'', inRetentionDeadline := Some 4000\<rparr>]\<rparr>"

lemma sample_reason: "\<not> length (js_trim ''tenant left the lab'') < 10"
  by code_simp

lemma sample_purge_accepted:
  "\<exists>r db'. purgeInstance (sample_control_env 10 5000) sample_purge sample_retained_pg = Inr (r, db') \<and> \<not> acReplayed r"
  using sample_reason
  by (simp add: purgeInstance_def authorizeAdministrator_def assertIdempotencyKey_def IDEMPOTENCY_KEY_MINIMUM_LENGTH_def
      IDEMPOTENCY_KEY_MAXIMUM_LENGTH_def sample_purge_def sample_admin_def sample_retained_pg_def sample_control_defs
      acceptPurge_def replay_or_def findReplayedResponse_def purgeable_def
      write_accepted_def insert_row_def insert_unique_def update_instance_def markInstanceBusyInProjection_def
      writeControlOutbox_def writeControlAudit_def auditRecordedEvent_def instance_command_event_def Let_def
      sample_control_env_def sample_env_at_def sample_uuid_neq accepted_response_def bind_trace_def active_trace_def)

end
