(* ===== verification/Control_Properties.thy ===== *)
theory Control_Properties
  imports Control_Samples "HOL-Library.Multiset"
begin

section \<open>Properties of the control plane\<close>

text \<open>
  The guarantees of the request path, over arbitrary histories of requests: idempotency, complete
  acceptance records, one command in flight per instance, quota, tenant isolation, address
  reservation and the guards of a purge.
\<close>

subsection \<open>Idempotency\<close>

text \<open>
  C14. Once a lifecycle request has been answered, the same request, repeated after any further requests and
  in any later environment with the same hash function, is answered with the first response marked as
  replayed, and changes nothing. No clock occurs in the statement: the code does not read the expiry it
  records, although the comment on its time to live says that an expired key starts afresh.
\<close>

theorem retry_returns_first_response:
  assumes "serve E g q db = Inr (Some r, db1)" and "request_scope q = Some sc" and "hashJson E' = hashJson E"
  shows "serve E' g' q (serve_all qs db1) = Inr (Some (r\<lparr>acReplayed := True\<rparr>), serve_all qs db1)"
  using control.retry_is_replayed [where E = "(E, g)" and E' = "(E', g')", OF _ assms(2) serve_all_keeps_records assms(2)
      serve_guarded [OF assms(1)]] assms(1,3)
  by simp

theorem retry_returns_first_response_witness:
  "\<exists>r db1. serve (sample_control_env 10 5000) [] (Power_Request sample_power) sample_pg = Inr (Some r, db1) \<and>
     serve (sample_control_env 30 9000) [] (Power_Request sample_power)
       (serve_all [(sample_control_env 50 7000, [], Create_Request sample_create)] db1) =
     Inr (Some (r\<lparr>acReplayed := True\<rparr>), serve_all [(sample_control_env 50 7000, [], Create_Request sample_create)] db1)"
proof -
  have s: "request_scope (Power_Request sample_power) = Some (project_scope sample_power POWER_INSTANCE_ACTION)"
    "hashJson (sample_control_env 30 9000) = hashJson (sample_control_env 10 5000)"
    by (simp_all add: sample_control_env_def)
  from sample_power_accepted obtain r db1 where
    "serve (sample_control_env 10 5000) [] (Power_Request sample_power) sample_pg = Inr (Some r, db1)" by blast
  with retry_returns_first_response [OF this s] show ?thesis by blast
qed

text \<open>
  C15. A lifecycle request under a scope that has already been answered, which passes its own guards
  (\<open>request_guard\<close>: role, key, input) and whose content hashes differently from the first, fails with
  \<^verbatim>\<open>IDEMPOTENCY_CONFLICT\<close> after any history of requests, however long ago the first one was. What the hash
  does not cover, such as the reason of a purge, does not make a request different.
\<close>

theorem reused_key_is_refused:
  assumes "serve E g q db = Inr (a, db1)" and "request_scope q = Some sc"
    and "request_scope q' = Some sc" and "request_guard q' = Inr ()"
    and "hashJson E' (request_json q') \<noteq> hashJson E (request_json q)"
  shows "serve E' g' q' (serve_all qs db1) = Inl (domain_fail IDEMPOTENCY_CONFLICT
     ''The idempotency key is already bound to different input.'')"
  using control.reuse_is_refused [where E = "(E, g)" and E' = "(E', g')", OF _ assms(2) serve_all_keeps_records assms(3,4)]
    assms(1,5)
  by (simp add: conflict_def)

theorem reused_key_is_refused_witness:
  "\<exists>a db1. serve (sample_control_env 10 5000) [] (Power_Request sample_power) sample_pg = Inr (a, db1) \<and>
     serve (sample_control_env 30 9000) [] (Power_Request (sample_power\<lparr>piAction := ''start''\<rparr>)) (serve_all [] db1) =
       Inl (domain_fail IDEMPOTENCY_CONFLICT ''The idempotency key is already bound to different input.'')"
proof -
  let ?q' = "Power_Request (sample_power\<lparr>piAction := ''start''\<rparr>)"
  have s: "request_scope (Power_Request sample_power) = Some (project_scope sample_power POWER_INSTANCE_ACTION)"
    "request_scope ?q' = Some (project_scope sample_power POWER_INSTANCE_ACTION)"
    by (simp_all add: project_scope_def)
  have guard: "request_guard ?q' = Inr ()"
    by (simp add: authorize_def assertIdempotencyKey_def IDEMPOTENCY_KEY_MINIMUM_LENGTH_def IDEMPOTENCY_KEY_MAXIMUM_LENGTH_def
        validatePowerAction_def sample_power_def instance_command.defs sample_instance_command_def sample_tenant_def)
  have hash: "hashJson (sample_control_env 30 9000) (request_json ?q') \<noteq>
      hashJson (sample_control_env 10 5000) (request_json (Power_Request sample_power))"
    by (simp add: sample_control_env_def instance_request_def sample_power_def instance_command.defs)
  from sample_power_accepted obtain r db1 where
    run: "serve (sample_control_env 10 5000) [] (Power_Request sample_power) sample_pg = Inr (Some r, db1)" by blast
  from reused_key_is_refused [OF run s guard hash, of "[]" "[]"] run show ?thesis by blast
qed

text \<open>
  C20. An acceptance is complete: a lifecycle request (one with an idempotency scope; replays of dead letters
  and reconciliation requests have none) that is answered without replay has, in one transaction, recorded its
  response under its scope and hash, its operation, the read document of the operation, exactly one
  command with that operation on the provisioning topic, one audit event and one audit entry of the
  actor, each under identifiers that were not in use.
\<close>

theorem acceptance_is_complete:
  assumes "serve E g q db = Inr (Some r, db')" and "request_scope q = Some sc" and "\<not> acReplayed r"
  shows "\<exists>e. recorded sc (hashJson E (request_json q)) r e db db'"
proof -
  from serve_refines [OF assms(1,2)] have "accepted_or_replayed sc (hashJson E (request_json q)) r db db'" by simp
  with assms(3) show ?thesis
    by (auto simp: accepted_or_replayed_def replays_def elim!: accepts.cases)
qed

theorem acceptance_is_complete_witness:
  "\<exists>r db' e. serve (sample_control_env 10 5000) [] (Create_Request sample_create) sample_pg = Inr (Some r, db') \<and>
     recorded (project_scope sample_create CREATE_INSTANCE_ACTION)
       (hashJson (sample_control_env 10 5000) (request_json (Create_Request sample_create))) r e sample_pg db'"
proof -
  have s: "request_scope (Create_Request sample_create) = Some (project_scope sample_create CREATE_INSTANCE_ACTION)" by simp
  from sample_create_accepted obtain r db' where
    run: "serve (sample_control_env 10 5000) [] (Create_Request sample_create) sample_pg = Inr (Some r, db')"
    "\<not> acReplayed r" by blast
  from acceptance_is_complete [OF run(1) s run(2)] run(1) show ?thesis by blast
qed

subsection \<open>Histories\<close>

text \<open>
  Every history of requests keeps the constraints of the control plane tables: unique keys, no two
  leases on one address, leases, snapshots and documents that belong to an instance of their
  project, busy instances that name a recorded operation.
\<close>

lemma control_tables_stay_consistent:
  "control_inv db \<Longrightarrow> control_inv (serve_all qs db)"
  by (rule serve_all_induct) (auto dest: request_step_inv)

text \<open>
  One operation is in flight per instance: between two terminal events no history of requests
  publishes more than one command for an instance, and none for an instance that is busy.
\<close>

lemma one_command_in_flight:
  assumes "control_inv db"
  shows "length (lifecycle_commands_for i (serve_all qs db)) \<le> length (lifecycle_commands_for i db) + (if busy i db then 0 else 1)"
proof -
  have "control_inv (serve_all qs db) \<and> in_flight_bound i (serve_all qs db) = in_flight_bound i db"
    by (rule serve_all_induct) (use assms in \<open>auto simp: request_step_in_flight dest: request_step_inv\<close>)
  then show ?thesis by (simp add: in_flight_bound_def split: if_splits)
qed

text \<open>
  When the requests run one after another, the measured usage of a project stays within its quota. The
  database does not run them so: theory \<^verbatim>\<open>Control_Concurrency\<close> shows what two creates at once do.
\<close>

lemma usage_within_quota_one_by_one:
  assumes "control_inv db" and "within_quota project db"
  shows "within_quota project (serve_all qs db)"
proof -
  have "control_inv (serve_all qs db) \<and> within_quota project (serve_all qs db)"
    by (rule serve_all_induct) (use assms in \<open>auto dest: request_step_inv request_step_within_quota\<close>)
  then show ?thesis by simp
qed

subsection \<open>Tenants, addresses and purges\<close>

fun request_actor :: "request \<Rightarrow> actor" where
  "request_actor (Create_Request c) = mcActor c"
| "request_actor (Power_Request c) = mcActor c"
| "request_actor (Resize_Request c) = mcActor c"
| "request_actor (Snapshot_Request c) = mcActor c"
| "request_actor (Snapshot_Action_Request a c) = mcActor c"
| "request_actor (Retain_Request c) = mcActor c"
| "request_actor (Purge_Request c) = mcActor c"
| "request_actor (Replay_Request c) = mcActor c"
| "request_actor (Reconcile_Request a i) = a"

definition may_act_in :: "actor \<Rightarrow> uuid \<Rightarrow> bool" where
  "may_act_in a project \<longleftrightarrow> List.member (roles a) ''tenant_developer'' \<and> List.member (projects a) project"

lemma tenant_guard:
  "request_guard q = Inr () \<Longrightarrow> request_scope q = Some (actor_id, project, action, k) \<Longrightarrow> action \<noteq> PURGE_INSTANCE_ACTION \<Longrightarrow>
     may_act_in (request_actor q) project"
  by (cases q) (auto simp: project_scope_def adminScope_def authorize_def may_act_in_def split: if_splits)

text \<open>
  C17. Tenants are isolated: a request that a tenant makes in a project succeeds only for a developer who
  is a member of the project, and leaves every instance, operation, lease, snapshot and read
  document of every other project exactly as it was.
\<close>

theorem tenants_are_isolated:
  assumes "control_inv db" and "serve E g q db = Inr (a, db')"
    and "request_scope q = Some (actor_id, project, action, k)" and "action \<noteq> PURGE_INSTANCE_ACTION"
  shows "may_act_in (request_actor q) project \<and>
     (\<forall>other. other \<noteq> project \<longrightarrow> project_view other db' = project_view other db)"
proof (intro conjI allI impI)
  show "may_act_in (request_actor q) project"
    by (rule tenant_guard [OF serve_guarded [OF assms(2)] assms(3,4)])
  fix other assume other: "other \<noteq> project"
  from serve_refines [OF assms(2,3)] obtain r where
    "accepted_or_replayed (actor_id, project, action, k) (hashJson E (request_json q)) r db db'" by blast
  then consider "db' = db" | e where "accepts (actor_id, project, action, k) (hashJson E (request_json q)) r e db db'"
    by (auto simp: accepted_or_replayed_def)
  then show "project_view other db' = project_view other db"
  proof cases
    case (2 e)
    then have "recorded (actor_id, project, action, k) (hashJson E (request_json q)) r e db db'" by (auto elim: accepts.cases)
    then have "projectId e = project" using assms(4) by (auto simp: recorded_def scope_project_def)
    with accepts_isolated [OF 2 assms(1)] other show ?thesis by simp
  qed simp
qed

theorem tenants_are_isolated_witness:
  "\<exists>a db'. serve (sample_control_env 10 5000) [] (Power_Request sample_power) sample_pg = Inr (a, db') \<and>
     may_act_in sample_tenant sample_project \<and> project_view ''another'' db' = project_view ''another'' sample_pg"
proof -
  have s: "request_scope (Power_Request sample_power) = Some (''alice'', sample_project, POWER_INSTANCE_ACTION, ''key-00001'')"
    "POWER_INSTANCE_ACTION \<noteq> PURGE_INSTANCE_ACTION" "''another'' \<noteq> sample_project"
    "request_actor (Power_Request sample_power) = sample_tenant"
    by (simp_all add: project_scope_def sample_power_def instance_command.defs sample_instance_command_def sample_tenant_def
        POWER_INSTANCE_ACTION_def PURGE_INSTANCE_ACTION_def sample_project_def sample_uuid_def)
  from sample_power_accepted obtain r db1 where
    run: "serve (sample_control_env 10 5000) [] (Power_Request sample_power) sample_pg = Inr (Some r, db1)" by blast
  from tenants_are_isolated [OF sample_pg_inv run s(1,2)] s(3,4) run show ?thesis by auto
qed

lemma allocated_not_leased: "allocateIpv4 pool leased = Inr a \<Longrightarrow> a \<notin> leased"
  by (auto simp: allocateIpv4_def Let_def allocate_from_Some_iff split: option.splits)

lemma allocated_prefix_length:
  "allocateIpv4 \<lparr>cidr = c, gateway = gw, exclusions = ex\<rparr> leased = Inr a \<Longrightarrow> \<exists>n. prefixLengthOf c = Some n"
  by (auto simp: allocateIpv4_def parse_pool_def prefixLengthOf_def Let_def split: option.splits)

text \<open>
  C18. The address of a new instance is reserved and published consistently: an accepted create takes the
  address the allocator picks from the chosen network given the addresses in use there, adds one
  active lease for it that collides with no occupied address, and publishes a command that carries
  that address, prefix length and gateway.
\<close>

theorem created_address_is_reserved:
  assumes "createInstance E g c db = Inr (r, db')" and "\<not> acReplayed r"
  shows "\<exists>n l cmd aud d. n \<in> set (networks db) \<and> neId n = ciNetworkId c \<and>
     allocateIpv4 \<lparr>cidr = neIpv4Cidr n, gateway = neGateway n, exclusions = neExclusions n\<rparr>
       (ilAddress ` {x \<in> set (ipv4_leases db). ilNetworkId x = neId n \<and> occupies x}) = Inr (ilAddress l) \<and>
     ipv4_leases db' = ipv4_leases db @ [l] \<and> ilInstanceId l = acTargetId r \<and> ilNetworkId l = neId n \<and> ilState l = ''active'' \<and>
     (\<forall>x \<in> set (ipv4_leases db). occupies x \<and> ilNetworkId x = neId n \<longrightarrow> ilAddress x \<noteq> ilAddress l) \<and>
     ct_outbox db' = ct_outbox db @ [cmd, aud] \<and> aggregateId (obPayload cmd) = acTargetId r \<and>
     data (obPayload cmd) = CreateRequested d \<and> ipAddress (dataIpv4 d) = ilAddress l \<and>
     Some (ipPrefixLength (dataIpv4 d)) = ilPrefixLength l \<and> ipGateway (dataIpv4 d) = ilGateway l"
proof -
  let ?c = "create_command_of E c"
  from assms(1) have "acceptCreate E g ?c (create_hash E c) db = Inr (r, db')" by (auto simp: createInstance_def)
  with assms(2) obtain ctx address rs where load: "loadAcceptanceContext ?c db = Inr ctx"
      and res: "reserveIpv4Address ctx db = Inr address"
      and build: "buildAcceptanceRecords E g ?c ctx address = Inr rs"
      and wr: "writeAcceptanceRecords E ?c ctx rs (create_hash E c) db = Inr db'" and r: "r = crAccepted rs"
    by (auto simp: acceptCreate_def replay_or_def findReplayedResponse_def split: option.splits if_splits)
  let ?n = "axcNetwork ctx"
  have n: "?n \<in> set (networks db)" "neId ?n = ciNetworkId c"
    using load by (auto simp: loadAcceptanceContext_def Let_def find_Some_iff create_command_of_def
        split: option.splits if_splits)
  have alloc: "allocateIpv4 \<lparr>cidr = neIpv4Cidr ?n, gateway = neGateway ?n, exclusions = neExclusions ?n\<rparr>
      (ilAddress ` {x \<in> set (ipv4_leases db). ilNetworkId x = neId ?n \<and> occupies x}) = Inr address"
    using res by (simp add: reserveIpv4Address_def Let_def split: if_splits)
  obtain p where p: "prefixLengthOf (neIpv4Cidr ?n) = Some p" using allocated_prefix_length [OF alloc] by blast
  note b = buildAcceptanceRecords_sel [OF build]
  from build obtain d where d: "data (crEvent rs) = CreateRequested d" "ipAddress (dataIpv4 d) = address"
      "ipPrefixLength (dataIpv4 d) = p" "ipGateway (dataIpv4 d) = neGateway ?n" "crPrefixLength rs = Some p"
    by (auto simp: buildAcceptanceRecords_def create_event_data_def Let_def p)
  have free: "\<forall>x \<in> set (ipv4_leases db). occupies x \<and> ilNetworkId x = neId ?n \<longrightarrow> ilAddress x \<noteq> address"
    using allocated_not_leased [OF alloc] by auto
  from wr show ?thesis
  proof (rule writeAcceptanceRecords_InrE, goal_cases)
    case (1 entry)
    show ?case
      using n alloc free d b
      by (intro exI [of _ ?n] exI [of _ "created_lease E ?c ctx rs"] exI [of _ d]
          exI [of _ "command_row (uuidAt E 4) (crEvent rs) ''provisioning.commands.v1'' (now E)"] exI)
        (auto simp: 1(10) created_lease_def command_row_def r accepted_response_def)
  qed
qed

theorem created_address_is_reserved_witness:
  "\<exists>r db' l. createInstance (sample_control_env 10 5000) [] sample_create sample_pg = Inr (r, db') \<and>
     ipv4_leases db' = ipv4_leases sample_pg @ [l] \<and> ilAddress l \<noteq> ''10.20.0.2''"
proof -
  from sample_create_accepted obtain r db' where
    run: "createInstance (sample_control_env 10 5000) [] sample_create sample_pg = Inr (r, db')" "\<not> acReplayed r" by auto
  have "sample_lease \<in> set (ipv4_leases sample_pg)" "occupies sample_lease" "ilAddress sample_lease = ''10.20.0.2''"
    "ilNetworkId sample_lease = ciNetworkId sample_create"
    by (simp_all add: sample_control_defs occupies_def sample_create_def)
  with created_address_is_reserved [OF run] run show ?thesis by metis
qed

text \<open>
  C19. A purge is accepted only from a platform administrator, with the instance named twice, for an idle
  instance that is retained and whose retention deadline has passed; the instance is then pending
  its purge under the new operation.
\<close>

theorem purge_needs_expired_retention:
  assumes "purgeInstance E c db = Inr (r, db')" and "\<not> acReplayed r"
  shows "List.member (roles (mcActor c)) ''platform_administrator'' \<and> puConfirmInstanceId c = puInstanceId c \<and>
     10 \<le> length (js_trim (puReason c)) \<and>
     (\<exists>row deadline. row \<in> set (instances db) \<and> inId row = puInstanceId c \<and> inActiveOperationId row = None \<and>
        inLifecycleState row = ''retained'' \<and> inRetentionDeadline row = Some deadline \<and> deadline \<le> now E \<and>
        row\<lparr>inActiveOperationId := Some (acOperationId r), inLifecycleState := ''purge_pending'', inPurgeEligible := True,
          inUpdatedAt := now E\<rparr> \<in> set (instances db'))"
proof -
  from assms(1) have run: "acceptPurge E (bind_trace E c) (hashJson E (request_json (Purge_Request c))) db = Inr (r, db')"
    and adm: "List.member (roles (mcActor c)) ''platform_administrator''" "10 \<le> length (js_trim (puReason c))"
    by (auto simp: purgeInstance_def authorizeAdministrator_def split: if_splits)
  have confirm: "puConfirmInstanceId c = puInstanceId c" using acceptPurge_confirmed [OF run] by simp
  with run assms(2) obtain row deadline a where p: "purgeable (now E) (puInstanceId c) db = Inr (row, deadline)"
      and w: "write_accepted E (uuidAt E 3, uuidAt E 4, uuidAt E 5) (bind_trace E c)
        (hashJson E (request_json (Purge_Request c))) a db = Inr (r, db')"
      and a: "consistent a" "axInstance a = inId row" "axAccepted a = accepted_response (uuidAt E 0) (inId row) (now E)
        (''/v1/admin/operations/'' @ uuidAt E 0)"
      "axChange a = (\<lambda>r. r\<lparr>inActiveOperationId := Some (uuidAt E 0), inLifecycleState := ''purge_pending'',
            inPurgeEligible := True, inUpdatedAt := now E\<rparr>)"
    by (fastforce simp: acceptPurge_def replay_or_def findReplayedResponse_def Let_def acceptance_simps
        split: option.splits if_splits)
  note l = purgeable_InrD [OF p]
  from write_accepted_recorded [OF w a(1)] have "r = axAccepted a"
      "instances db' = update_where (\<lambda>x. inId x = inId row) (axChange a) (instances db)" by (auto simp: a(2))
  then have "axChange a row \<in> set (instances db')" "acOperationId r = uuidAt E 0"
    using l(1) by (auto simp: set_update_where a(3) accepted_response_def)
  with l confirm adm show ?thesis by (intro conjI exI [of _ row] exI [of _ deadline]) (simp_all add: a(4))
qed

theorem purge_needs_expired_retention_witness:
  "\<exists>r db' row. purgeInstance (sample_control_env 10 5000) sample_purge sample_retained_pg = Inr (r, db') \<and>
     row \<in> set (instances db') \<and> inLifecycleState row = ''purge_pending'' \<and> inActiveOperationId row = Some (acOperationId r)"
proof -
  from sample_purge_accepted obtain r db' where
    run: "purgeInstance (sample_control_env 10 5000) sample_purge sample_retained_pg = Inr (r, db')" "\<not> acReplayed r" by blast
  from purge_needs_expired_retention [OF run] obtain row where
    "row\<lparr>inActiveOperationId := Some (acOperationId r), inLifecycleState := ''purge_pending'', inPurgeEligible := True,
       inUpdatedAt := now (sample_control_env 10 5000)\<rparr> \<in> set (instances db')" by blast
  with run(1) show ?thesis by (intro exI conjI) auto
qed

subsection \<open>Leases\<close>

definition lease_rank_le :: "ipv4_lease \<Rightarrow> ipv4_lease \<Rightarrow> bool" where
  "lease_rank_le l l' \<longleftrightarrow> ilId l' = ilId l \<and> ilNetworkId l' = ilNetworkId l \<and> ilAddress l' = ilAddress l \<and>
     ilInstanceId l' = ilInstanceId l \<and>
     (\<exists>a b. lease_rank (ilState l) = Some a \<and> lease_rank (ilState l') = Some b \<and> a \<le> b)"

definition ranked :: "pg \<Rightarrow> bool" where
  "ranked db \<longleftrightarrow> list_all (\<lambda>l. lease_rank (ilState l) \<noteq> None) (ipv4_leases db)"

definition release_target :: "string \<Rightarrow> string" where
  "release_target mode = (if mode = ''quarantine_until_purge'' then ''quarantined'' else ''released'')"

lemma release_target_rank: "\<exists>b. lease_rank (release_target mode) = Some b \<and> 1 \<le> b"
  by (simp add: release_target_def)

lemma releaseIpv4Lease_cases:
  assumes "ranked db"
  obtains "lookup_by ilInstanceId i (ipv4_leases db) = None" "releaseIpv4Lease t i mode db = (None, db)"
  | l a b where "lookup_by ilInstanceId i (ipv4_leases db) = Some l" "lease_rank (ilState l) = Some a"
      "lease_rank (release_target mode) = Some b" "b \<le> a" "releaseIpv4Lease t i mode db = (Some (ilState l), db)"
  | l a b where "lookup_by ilInstanceId i (ipv4_leases db) = Some l" "lease_rank (ilState l) = Some a"
      "lease_rank (release_target mode) = Some b" "a < b" "releaseIpv4Lease t i mode db = (Some (release_target mode),
         db\<lparr>ipv4_leases := update_where (\<lambda>r. ilId r = ilId l \<and> ilState r = ilState l)
           (\<lambda>r. r\<lparr>ilState := release_target mode, ilUpdatedAt := t\<rparr>) (ipv4_leases db)\<rparr>)"
proof (cases "lookup_by ilInstanceId i (ipv4_leases db)")
  case None
  then show ?thesis by (intro that(1)) (simp_all add: releaseIpv4Lease_def Let_def)
next
  case (Some l)
  then have "l \<in> set (ipv4_leases db)" by (auto dest: lookup_by_SomeD)
  with assms obtain a where a: "lease_rank (ilState l) = Some a" by (auto simp: ranked_def list_all_iff simp del: lease_rank.simps)
  obtain b where b: "lease_rank (release_target mode) = Some b" "1 \<le> b" using release_target_rank by blast
  show ?thesis
  proof (cases "b \<le> a")
    case True
    with a b(2) have "ilState l \<noteq> ''active''" by auto
    with Some a b True show ?thesis
      by (intro that(2) [OF Some a b(1) True]) (simp add: releaseIpv4Lease_def Let_def release_target_def [symmetric] del: lease_rank.simps)
  next
    case False
    with Some a b show ?thesis
      by (intro that(3) [OF Some a b(1)]) (simp_all add: releaseIpv4Lease_def Let_def release_target_def [symmetric] del: lease_rank.simps)
  qed
qed

lemma lease_rank_le_refl: "lease_rank (ilState l) \<noteq> None \<Longrightarrow> lease_rank_le l l"
  by (auto simp: lease_rank_le_def simp del: lease_rank.simps)

lemma list_all2_same: "list_all (\<lambda>x. P x x) xs \<Longrightarrow> list_all2 P xs xs"
  by (induction xs) auto

text \<open>
  \<^verbatim>\<open>releaseIpv4Lease\<close> moves leases one way, from active to quarantined to released: no lease goes
  back or changes its address, repeating the call reports the same state and changes nothing, and
  the leases of other instances are not touched.
\<close>

theorem lease_release_is_one_way:
  assumes "control_inv db" and "ranked db" and run: "releaseIpv4Lease t i mode db = (s, db')"
  shows "list_all2 lease_rank_le (ipv4_leases db) (ipv4_leases db') \<and>
     releaseIpv4Lease t' i mode db' = (s, db') \<and>
     (\<forall>j. j \<noteq> i \<longrightarrow> lookup_by ilInstanceId j (ipv4_leases db') = lookup_by ilInstanceId j (ipv4_leases db))"
proof -
  have refl: "list_all2 lease_rank_le (ipv4_leases db) (ipv4_leases db)"
    using assms(2) by (intro list_all2_same) (auto simp: ranked_def list_all_iff intro!: lease_rank_le_refl simp del: lease_rank.simps)
  show ?thesis
  proof (rule releaseIpv4Lease_cases [OF assms(2), of i t mode])
    assume "lookup_by ilInstanceId i (ipv4_leases db) = None" "releaseIpv4Lease t i mode db = (None, db)"
    with refl run show ?thesis by (auto simp: releaseIpv4Lease_def Let_def)
  next
    fix l a b assume 2: "lookup_by ilInstanceId i (ipv4_leases db) = Some l" "lease_rank (ilState l) = Some a"
      "lease_rank (release_target mode) = Some b" "b \<le> a" "releaseIpv4Lease t i mode db = (Some (ilState l), db)"
    with run have "s = Some (ilState l)" "db' = db" by auto
    moreover have "releaseIpv4Lease t' i mode db = (Some (ilState l), db)"
      by (rule releaseIpv4Lease_cases [OF assms(2), of i t' mode]) (use 2 in auto)
    ultimately show ?thesis using refl by simp
  next
    fix l a b assume 3: "lookup_by ilInstanceId i (ipv4_leases db) = Some l" "lease_rank (ilState l) = Some a"
      "lease_rank (release_target mode) = Some b" "a < b" "releaseIpv4Lease t i mode db = (Some (release_target mode),
         db\<lparr>ipv4_leases := update_where (\<lambda>r. ilId r = ilId l \<and> ilState r = ilState l)
           (\<lambda>r. r\<lparr>ilState := release_target mode, ilUpdatedAt := t\<rparr>) (ipv4_leases db)\<rparr>)"
    let ?f = "\<lambda>r. r\<lparr>ilState := release_target mode, ilUpdatedAt := t\<rparr>"
    have l: "l \<in> set (ipv4_leases db)" "ilInstanceId l = i" using lookup_by_SomeD [OF 3(1)] by auto
    have u: "unique_keys ilId (ipv4_leases db)" using assms(1) by (simp add: control_inv_defs)
    have only: "ilId r = ilId l \<and> ilState r = ilState l \<longleftrightarrow> r = l" if "r \<in> set (ipv4_leases db)" for r
      using unique_keys_eq [OF u that l(1)] by auto
    have s: "s = Some (release_target mode)" and leases: "ipv4_leases db' = update_where (\<lambda>r. r = l) ?f (ipv4_leases db)"
      using run 3(5) only by (auto simp: update_where_def)
    have step: "list_all (\<lambda>r. lease_rank_le r (if r = l then ?f r else r)) (ipv4_leases db)"
      using assms(2) 3(2-4) by (auto simp: ranked_def list_all_iff lease_rank_le_def simp del: lease_rank.simps)
    then have rank: "list_all2 lease_rank_le (ipv4_leases db) (ipv4_leases db')"
      unfolding leases update_where_def list.rel_map by (rule list_all2_same)
    have ranked': "ranked db'"
      using assms(2) 3(3) by (auto simp: ranked_def leases update_where_def list_all_iff simp del: lease_rank.simps)
    have look: "lookup_by ilInstanceId j (ipv4_leases db') =
        map_option (\<lambda>r. if r = l then ?f r else r) (lookup_by ilInstanceId j (ipv4_leases db))" for j
      unfolding leases by (rule lookup_by_update_where) simp
    have "releaseIpv4Lease t' i mode db' = (s, db')"
      by (rule releaseIpv4Lease_cases [OF ranked', of i t' mode]) (use 3 s look [of i] in \<open>auto simp del: lease_rank.simps\<close>)
    moreover have "lookup_by ilInstanceId j (ipv4_leases db') = lookup_by ilInstanceId j (ipv4_leases db)" if "j \<noteq> i" for j
      using look [of j] l(2) that
      by (cases "lookup_by ilInstanceId j (ipv4_leases db)") (auto dest: lookup_by_SomeD)
    ultimately show ?thesis using rank by blast
  qed
qed

theorem lease_release_is_one_way_witness:
  "\<exists>db'. releaseIpv4Lease 5000 sample_instance ''quarantine_until_purge'' sample_pg = (Some ''quarantined'', db') \<and>
     list_all2 lease_rank_le (ipv4_leases sample_pg) (ipv4_leases db')"
proof -
  have r: "ranked sample_pg" by (simp add: ranked_def sample_control_defs)
  obtain db' where run: "releaseIpv4Lease 5000 sample_instance ''quarantine_until_purge'' sample_pg = (Some ''quarantined'', db')"
    by (simp add: releaseIpv4Lease_def sample_control_defs Let_def)
  from lease_release_is_one_way [OF sample_pg_inv r run, of 0] run show ?thesis by blast
qed

subsection \<open>Reordered key lists\<close>

lemma validate_ssh_keys_Inr:
  "validate_ssh_keys ks = Inr u \<longleftrightarrow> (\<forall>k \<in> set ks. validate_ssh_keys [k] = Inr ())"
  by (induction ks) (auto split: if_splits)

lemma validateCreateInstance_keys:
  assumes "mset ks' = mset (case sshPublicKeys v of None \<Rightarrow> [] | Some ks \<Rightarrow> ks)" and "validateCreateInstance v = Inr ()"
  shows "validateCreateInstance (v\<lparr>sshPublicKeys := Some ks'\<rparr>) = Inr ()"
proof -
  let ?ks = "case sshPublicKeys v of None \<Rightarrow> [] | Some ks \<Rightarrow> ks"
  have set: "set ks' = set ?ks" and len: "length ks' = length ?ks"
    using assms(1) mset_eq_setD mset_eq_length by blast+
  have "length (remdups ks') = length (remdups ?ks)" using set by (simp add: length_remdups_card_conv)
  moreover have "validate_ssh_keys ks' = Inr () \<longleftrightarrow> validate_ssh_keys ?ks = Inr ()"
    using set by (simp add: validate_ssh_keys_Inr [of ks'] validate_ssh_keys_Inr [of ?ks] del: validate_ssh_keys.simps)
  ultimately show ?thesis
    using assms(2) len by (auto simp: validateCreateInstance_def Let_def split: if_splits)
qed

text \<open>
  The order of the SSH keys is not part of a create request: repeating an accepted create with the
  same keys in another order is answered as a retry of it.
\<close>

theorem reordered_keys_are_a_retry:
  assumes "createInstance E g c db = Inr (r, db1)" and "mset ks = mset (create_keys c)" and "hashJson E' = hashJson E"
  shows "createInstance E' g' (c\<lparr>ciSshPublicKeys := Some ks\<rparr>) (serve_all qs db1) =
     Inr (r\<lparr>acReplayed := True\<rparr>, serve_all qs db1)"
proof -
  let ?c = "c\<lparr>ciSshPublicKeys := Some ks\<rparr>" and ?sc = "project_scope c CREATE_INSTANCE_ACTION"
  have sorted: "sort ks = sort (create_keys c)" using assms(2) by (simp add: properties_for_sort)
  have vals: "create_values ?c = (create_values c)\<lparr>sshPublicKeys := Some ks\<rparr>" by (simp add: create_values_def)
  have run: "serve E g (Create_Request c) db = Inr (Some r, db1)" using assms(1) by simp
  have scope: "request_scope (Create_Request c) = Some ?sc" "request_scope (Create_Request ?c) = Some ?sc"
    by (simp_all add: project_scope_def)
  have "request_guard (Create_Request ?c) = Inr ()"
    using serve_guarded [OF run] validateCreateInstance_keys [of ks "create_values c"] assms(2)
    by (auto simp: vals create_values_def [of c] create_keys_def)
  moreover have "request_json (Create_Request ?c) = request_json (Create_Request c)"
    using sorted by (simp add: create_keys_def)
  ultimately have "serve E' g' (Create_Request ?c) (serve_all qs db1) = Inr (Some (r\<lparr>acReplayed := True\<rparr>), serve_all qs db1)"
    using control.retry_is_replayed [where E = "(E, g)" and E' = "(E', g')" and q = "Create_Request c" and q' = "Create_Request ?c",
        OF _ scope(1) serve_all_keeps_records scope(2)] run assms(3) by simp
  then show ?thesis by simp
qed

theorem reordered_keys_are_a_retry_witness:
  "\<exists>r db1. createInstance (sample_control_env 10 5000) [] sample_create sample_pg = Inr (r, db1) \<and>
     createInstance (sample_control_env 30 9000) [] (sample_create\<lparr>ciSshPublicKeys := Some []\<rparr>) (serve_all [] db1) =
       Inr (r\<lparr>acReplayed := True\<rparr>, serve_all [] db1)"
proof -
  from sample_create_accepted obtain r db1 where
    run: "createInstance (sample_control_env 10 5000) [] sample_create sample_pg = Inr (r, db1)" by auto
  have keys: "mset [] = mset (create_keys sample_create)" by (simp add: create_keys_def sample_create_def)
  have hash: "hashJson (sample_control_env 30 9000) = hashJson (sample_control_env 10 5000)" by (simp add: sample_control_env_def)
  from reordered_keys_are_a_retry [OF run keys hash, of "[]" "[]"] run show ?thesis by blast
qed

end
