(* ===== verification/Control_Concurrency.thy ===== *)
theory Control_Concurrency
  imports Control_Properties
begin

section \<open>Two creates at once\<close>

text \<open>
  The transactions of the other theories run one after another. Under the isolation level of the
  database, \<^verbatim>\<open>READ COMMITTED\<close>, every statement of a transaction sees what is committed when the statement
  starts. A create takes a lock on its idempotency scope first and one on the network only after it has
  measured the quota, so another create of the project can commit in between. Here that interleaving is
  explicit, and the quota does not survive it.
\<close>

subsection \<open>A create that waits for the network\<close>

text \<open>
  The statements of \<^verbatim>\<open>acceptCreate\<close> up to \<^verbatim>\<open>assertQuotaHeadroom\<close> see the tables \<open>early\<close>; those from the lock in
  \<^verbatim>\<open>reserveIpv4Address\<close> on see the tables \<open>late\<close>, with whatever was committed meanwhile.
\<close>

definition acceptCreate_interleaved ::
  "env \<Rightarrow> string \<Rightarrow> 'z create_command_scheme \<Rightarrow> string \<Rightarrow> pg \<Rightarrow> pg \<Rightarrow> control_error + accepted_mutation \<times> pg" where
  "acceptCreate_interleaved E generated c requestHash early late =
     res_bind (findReplayedResponse (project_scope c CREATE_INSTANCE_ACTION) requestHash early) (\<lambda>replayed.
     case replayed of Some response \<Rightarrow> Inr (response, late) | None \<Rightarrow>
       res_bind (loadAcceptanceContext c early) (\<lambda>ctx.
       res_bind (assertQuotaHeadroom (mcProjectId c) ctx early) (\<lambda>_.
       res_bind (reserveIpv4Address ctx late) (\<lambda>address.
       res_bind (buildAcceptanceRecords E generated c ctx address) (\<lambda>r.
       res_bind (writeAcceptanceRecords E c ctx r requestHash late) (\<lambda>db'.
       Inr (crAccepted r, db')))))))"

text \<open>Without anything in between it is the create of the serial model.\<close>

lemma acceptCreate_alone: "acceptCreate_interleaved E g c h db db = acceptCreate E g c h db"
  by (simp add: acceptCreate_interleaved_def acceptCreate_def replay_or_def)

lemma replayed_marked: "findReplayedResponse sc h db = Inr (Some r) \<Longrightarrow> acReplayed r"
  by (auto simp: findReplayedResponse_def split: option.split_asm if_split_asm)

lemma loaded_quota: "loadAcceptanceContext c db = Inr ctx \<Longrightarrow> lookup_by quProjectId (mcProjectId c) (quotas db) = Some (axcQuota ctx)"
  by (auto simp: loadAcceptanceContext_def Let_def split: option.split_asm if_split_asm)

lemma interleaved_parts:
  assumes "acceptCreate_interleaved E g c h early late = Inr (r, db')" and "\<not> acReplayed r"
  obtains ctx rs where "loadAcceptanceContext c early = Inr ctx" "assertQuotaHeadroom (mcProjectId c) ctx early = Inr ()"
    "writeAcceptanceRecords E c ctx rs h late = Inr db'"
proof -
  obtain replayed where found: "findReplayedResponse (project_scope c CREATE_INSTANCE_ACTION) h early = Inr replayed"
    using assms(1) unfolding acceptCreate_interleaved_def by (elim res_bind_InrE)
  have "replayed = None"
  proof (cases replayed)
    case (Some response)
    with assms(1) found have "r = response" by (simp add: acceptCreate_interleaved_def)
    with replayed_marked [OF found [unfolded Some]] assms(2) show ?thesis by simp
  qed
  with assms(1) found show thesis
    unfolding acceptCreate_interleaved_def by (auto intro: that)
qed

lemma interleaved_adds_instance:
  assumes "acceptCreate_interleaved E g c h early late = Inr (r, db')" and "\<not> acReplayed r"
  shows "usInstances (quota_usage (mcProjectId c) db') = usInstances (quota_usage (mcProjectId c) late) + 1 \<and> quotas db' = quotas late"
  using assms
proof (rule interleaved_parts)
  fix ctx rs
  assume "writeAcceptanceRecords E c ctx rs h late = Inr db'"
  then show ?thesis
  proof (rule writeAcceptanceRecords_InrE)
    fix entry
    assume db': "db' = late\<lparr>instances := instances late @ [accepted_instance E c ctx rs],
       operations := operations late @ [accepted_operation (crOperationId rs) (mcProjectId c) CREATE_INSTANCE_ACTION
         ''instance'' (crInstanceId rs) (now E)],
       ipv4_leases := ipv4_leases late @ [created_lease E c ctx rs],
       idempotency_records := idempotency_records late @ [idempotency_of (project_scope c CREATE_INSTANCE_ACTION)
         (crInstanceId rs) h (crAccepted rs) (now E)],
       audit_entries := audit_entries late @ [entry],
       ct_outbox := ct_outbox late @ [command_row (uuidAt E 4) (crEvent rs) ''provisioning.commands.v1'' (now E),
         command_row (uuidAt E 6) (audit_event (uuidAt E 5) (crEvent rs) (crOperationId rs)
           (tenant_audit c CREATE_INSTANCE_ACTION ''instance'' (crInstanceId rs)) (now E)) ''audit.events.v1'' (now E)],
       instance_documents := instance_documents late @ [\<lparr>idoInstanceId = crInstanceId rs, idoProjectId = mcProjectId c,
         idoDocument = crInstance rs, idoUpdatedAt = now E\<rparr>],
       operation_documents := operation_documents late @ [accepted_document c (crOperation rs) (now E)]\<rparr>"
    have "is_live (mcProjectId c) (accepted_instance E c ctx rs)"
      by (simp add: is_live_def accepted_instance_def created_instance_def Let_def)
    moreover have "instances db' = instances late @ [accepted_instance E c ctx rs]" "quotas db' = quotas late"
      by (simp_all add: db')
    ultimately show ?thesis by (simp add: quota_usage_def Let_def live_instances_alt)
  qed
qed


text \<open>The sample project with room for one more instance, and a second create under another key.\<close>

definition tight_pg :: pg where
  "tight_pg = sample_pg\<lparr>quotas := [sample_quota\<lparr>quInstances := 2\<rparr>]\<rparr>"

definition tight_acceptance :: acceptance_context where
  "tight_acceptance = sample_acceptance\<lparr>axcQuota := sample_quota\<lparr>quInstances := 2\<rparr>\<rparr>"

definition other_create :: create_input where
  "other_create = sample_create\<lparr>mcIdempotencyKey := ''key-00004''\<rparr>"

lemma other_create_command:
  "mcProjectId (create_command_of E other_create) = sample_project" "ccImageId (create_command_of E other_create) = ''ubuntu-24''"
  "ccFlavorId (create_command_of E other_create) = ''small''" "ccNetworkId (create_command_of E other_create) = ''lab-net''"
  "ccSshPublicKeys (create_command_of E other_create) = []"
  by (simp_all add: create_command_of_def other_create_def sample_create_def create_keys_def Let_def)

lemma tight_context:
  "loadAcceptanceContext (create_command_of E sample_create) tight_pg = Inr tight_acceptance"
  "loadAcceptanceContext (create_command_of E other_create) tight_pg = Inr tight_acceptance"
  by (simp_all add: loadAcceptanceContext_def sample_create_command other_create_command tight_pg_def tight_acceptance_def
      sample_control_defs sample_acceptance_def Let_def)

lemma tight_headroom: "assertQuotaHeadroom sample_project tight_acceptance tight_pg = Inr ()"
  by (simp add: assertQuotaHeadroom_def live_instances_def tight_acceptance_def tight_pg_def sample_acceptance_def
      sample_control_defs Let_def)

lemma tight_room:
  "lookup_by quProjectId sample_project (quotas tight_pg) = Some (sample_quota\<lparr>quInstances := 2\<rparr>)"
  "usInstances (quota_usage sample_project tight_pg) + 1 = quInstances (sample_quota\<lparr>quInstances := 2\<rparr>)"
  by (simp_all add: tight_pg_def sample_control_defs quota_usage_def live_instances_def Let_def)

lemma tight_addresses:
  "allocateIpv4 \<lparr>cidr = ''10.20.0.0/24'', gateway = ''10.20.0.1'', exclusions = []\<rparr> {''10.20.0.2'', ''10.20.0.3''} = Inr ''10.20.0.4''"
  by code_simp

lemma tight_reserve:
  assumes "ipv4_leases db = sample_lease # ls" and "\<forall>l \<in> set ls. ilNetworkId l = ''lab-net'' \<and> occupies l"
    and "map ilAddress ls \<in> {[], [''10.20.0.3'']}"
  shows "reserveIpv4Address tight_acceptance db = Inr (if ls = [] then ''10.20.0.3'' else ''10.20.0.4'')"
proof -
  have rows: "filter (\<lambda>l. ilNetworkId l = neId (axcNetwork tight_acceptance) \<and> occupies l) (ipv4_leases db) = sample_lease # ls"
    using assms(1,2) by (simp add: tight_acceptance_def sample_acceptance_def sample_control_defs occupies_def)
  have "ilAddress sample_lease = ''10.20.0.2''" by (simp add: sample_lease_def)
  with assms(3) show ?thesis
    unfolding reserveIpv4Address_def Let_def rows
    by (cases ls) (auto simp: tight_acceptance_def sample_acceptance_def sample_network_def sample_quota_def sample_address tight_addresses)
qed

lemma tight_first_write:
  assumes "crInstanceId r = sample_uuid 10" "crLeaseId r = sample_uuid 13" "crAddress r = ''10.20.0.3''"
    "eventId (crEvent r) = sample_uuid 12"
  shows "\<exists>db'. writeAcceptanceRecords (sample_control_env 10 5000) c tight_acceptance r h tight_pg = Inr db'"
  using assms
  by (simp add: writeAcceptanceRecords_def insert_lease_def created_lease_def created_instance_def insert_row_def
      insert_unique_def update_instance_def writeControlOutbox_def writeControlAudit_def auditRecordedEvent_def
      Let_def sample_control_env_def sample_env_at_def sample_uuid_neq sample_control_defs tight_pg_def tight_acceptance_def
      sample_acceptance_def occupies_def)

lemma tight_records:
  assumes "c = create_command_of E sample_create \<or> c = create_command_of E other_create"
  shows "\<exists>r. buildAcceptanceRecords E g c tight_acceptance a = Inr r \<and>
     crInstanceId r = uuidAt E 0 \<and> crOperationId r = uuidAt E 1 \<and> crLeaseId r = uuidAt E 3 \<and> crAddress r = a \<and>
     eventId (crEvent r) = uuidAt E 2 \<and> \<not> acReplayed (crAccepted r) \<and> ovId (crOperation r) = uuidAt E 1"
  using assms
  by (auto simp: buildAcceptanceRecords_def create_event_data_def dnsTuple_def sample_create_command other_create_command
      tight_acceptance_def sample_acceptance_def sample_network_def Let_def accepted_response_def accepted_view_def)

lemma tight_first:
  "\<exists>rs db1. acceptCreate (sample_control_env 10 5000) [] (create_command_of (sample_control_env 10 5000) sample_create) ''create'' tight_pg =
     Inr (crAccepted rs, db1) \<and> \<not> acReplayed (crAccepted rs) \<and> crInstanceId rs = sample_uuid 10 \<and> crOperationId rs = sample_uuid 11 \<and>
     crLeaseId rs = sample_uuid 13 \<and> crAddress rs = ''10.20.0.3'' \<and> eventId (crEvent rs) = sample_uuid 12 \<and> ovId (crOperation rs) = sample_uuid 11 \<and>
     writeAcceptanceRecords (sample_control_env 10 5000) (create_command_of (sample_control_env 10 5000) sample_create)
       tight_acceptance rs ''create'' tight_pg = Inr db1"
proof -
  let ?E = "sample_control_env 10 5000" and ?c = "create_command_of (sample_control_env 10 5000) sample_create"
  have u: "uuidAt ?E n = sample_uuid (10 + n)" for n by (simp add: sample_control_env_def sample_env_at_def)
  obtain rs where rs: "buildAcceptanceRecords ?E [] ?c tight_acceptance ''10.20.0.3'' = Inr rs"
      "crInstanceId rs = uuidAt ?E 0" "crOperationId rs = uuidAt ?E 1" "crLeaseId rs = uuidAt ?E 3" "crAddress rs = ''10.20.0.3''"
      "eventId (crEvent rs) = uuidAt ?E 2" "\<not> acReplayed (crAccepted rs)" "ovId (crOperation rs) = uuidAt ?E 1"
    using tight_records [of ?c ?E "[]" "''10.20.0.3''"] by blast
  obtain db1 where w: "writeAcceptanceRecords ?E ?c tight_acceptance rs ''create'' tight_pg = Inr db1"
    using tight_first_write [of rs] rs by (auto simp: u)
  have known: "findReplayedResponse sc h tight_pg = Inr None" for sc h
    by (simp add: findReplayedResponse_def tight_pg_def sample_control_defs)
  have address: "reserveIpv4Address tight_acceptance tight_pg = Inr ''10.20.0.3''"
    using tight_reserve [of tight_pg "[]"] by (simp add: tight_pg_def sample_pg_def)
  show ?thesis
    using rs w by (intro exI [of _ rs] exI [of _ db1])
      (simp add: acceptCreate_def replay_or_def known tight_context sample_create_command tight_headroom address u)
qed

lemma tight_uuids:
  "distinct [sample_uuid 30, sample_uuid 31, sample_uuid 32, sample_uuid 33, sample_uuid 34, sample_uuid 35, sample_uuid 36,
     sample_uuid 10, sample_uuid 11, sample_uuid 12, sample_uuid 13, sample_uuid 14, sample_uuid 15, sample_uuid 16,
     sample_uuid 90, sample_instance]"
  by code_simp

text \<open>The keys a create must not meet, and the keys it leaves.\<close>

lemma writeAcceptanceRecords_runs:
  assumes "crInstanceId r \<notin> set (map inId (instances db))" "crOperationId r \<notin> set (map opId (operations db))"
    and "crLeaseId r \<notin> set (map ilId (ipv4_leases db))" "crInstanceId r \<notin> set (map ilInstanceId (ipv4_leases db))"
    and "crAddress r \<notin> set (map ilAddress (ipv4_leases db))"
    and "project_scope c CREATE_INSTANCE_ACTION \<notin> set (map scope_of (idempotency_records db))"
    and "uuidAt E 4 \<noteq> uuidAt E 6" "{uuidAt E 4, uuidAt E 6} \<inter> set (map obOutboxId (ct_outbox db)) = {}"
    and "eventId (crEvent r) \<noteq> uuidAt E 5" "{eventId (crEvent r), uuidAt E 5} \<inter> set (map (eventId \<circ> obPayload) (ct_outbox db)) = {}"
    and "uuidAt E 5 \<notin> set (map aeId (audit_entries db))" "crInstanceId r \<notin> set (map idoInstanceId (instance_documents db))"
    and "ovId (crOperation r) \<notin> set (map odOperationId (operation_documents db))"
  shows "\<exists>db'. writeAcceptanceRecords E c ctx r h db = Inr db'"
proof -
  have scope: "scope_of (idempotency_of sc t h a t') = sc" for sc t h a t' by (cases sc) (simp add: idempotency_of_def scope_of_def)
  show ?thesis
    unfolding writeAcceptanceRecords_def insert_lease_def insert_row_def insert_unique_def Let_def scope
    using assms
    by (auto simp: created_lease_def created_instance_def accepted_operation_def update_instance_def writeControlOutbox_def
        writeControlAudit_def auditRecordedEvent_def audit_entry_of_def accepted_document_def insert_row_def insert_unique_def
        Let_def image_iff)
qed

lemma tight_keys:
  assumes "writeAcceptanceRecords (sample_control_env 10 5000) (create_command_of E sample_create) tight_acceptance rs h tight_pg = Inr db1"
    and "crInstanceId rs = sample_uuid 10" "crOperationId rs = sample_uuid 11" "crLeaseId rs = sample_uuid 13"
      "crAddress rs = ''10.20.0.3''" "eventId (crEvent rs) = sample_uuid 12" "ovId (crOperation rs) = sample_uuid 11"
  shows "map inId (instances db1) = [sample_instance, sample_uuid 10]" "map opId (operations db1) = [sample_uuid 11]"
    "map ilId (ipv4_leases db1) = [sample_uuid 90, sample_uuid 13]" "map ilInstanceId (ipv4_leases db1) = [sample_instance, sample_uuid 10]"
    "map ilAddress (ipv4_leases db1) = [''10.20.0.2'', ''10.20.0.3'']"
    "map scope_of (idempotency_records db1) = [project_scope (create_command_of E sample_create) CREATE_INSTANCE_ACTION]"
    "map obOutboxId (ct_outbox db1) = [sample_uuid 14, sample_uuid 16]"
    "map (eventId \<circ> obPayload) (ct_outbox db1) = [sample_uuid 12, sample_uuid 15]"
    "map aeId (audit_entries db1) = [sample_uuid 15]" "map idoInstanceId (instance_documents db1) = [sample_uuid 10]"
    "map odOperationId (operation_documents db1) = [sample_uuid 11]"
    "\<exists>l. ipv4_leases db1 = [sample_lease, l] \<and> ilNetworkId l = ''lab-net'' \<and> occupies l \<and> ilAddress l = ''10.20.0.3''"
proof -
  have scope: "scope_of (idempotency_of sc t h a t') = sc" for sc t h a t' by (cases sc) (simp add: idempotency_of_def scope_of_def)
  note cols = sample_control_defs tight_pg_def accepted_instance_def created_instance_def accepted_operation_def created_lease_def
    command_row_sel audit_event_def auditRecordedEvent_def audit_entry_of_def accepted_document_def sample_control_env_def
    sample_env_at_def tight_acceptance_def sample_acceptance_def occupies_def scope Let_def
  show "map inId (instances db1) = [sample_instance, sample_uuid 10]" "map opId (operations db1) = [sample_uuid 11]"
    "map ilId (ipv4_leases db1) = [sample_uuid 90, sample_uuid 13]" "map ilInstanceId (ipv4_leases db1) = [sample_instance, sample_uuid 10]"
    "map ilAddress (ipv4_leases db1) = [''10.20.0.2'', ''10.20.0.3'']"
    "map scope_of (idempotency_records db1) = [project_scope (create_command_of E sample_create) CREATE_INSTANCE_ACTION]"
    "map obOutboxId (ct_outbox db1) = [sample_uuid 14, sample_uuid 16]"
    "map (eventId \<circ> obPayload) (ct_outbox db1) = [sample_uuid 12, sample_uuid 15]"
    "map aeId (audit_entries db1) = [sample_uuid 15]" "map idoInstanceId (instance_documents db1) = [sample_uuid 10]"
    "map odOperationId (operation_documents db1) = [sample_uuid 11]"
    "\<exists>l. ipv4_leases db1 = [sample_lease, l] \<and> ilNetworkId l = ''lab-net'' \<and> occupies l \<and> ilAddress l = ''10.20.0.3''"
    by (rule writeAcceptanceRecords_InrE [OF assms(1)], simp add: assms(2-) cols)+
qed


end
