(* ===== verification/Projection_Store.thy ===== *)
theory Projection_Store
  imports Control_Store
begin

section \<open>The projection of workflow events\<close>

text \<open>
  Model of \<^verbatim>\<open>packages/postgres-adapter/src/projection-store.ts\<close>: the inbox receipts, the four workflow
  events applied to the write tables and the read documents, the dead letters and the drift findings.
  Each method is one transaction, an error leaves the tables unchanged. \<open>D\<close> is \<^verbatim>\<open>new Date(text)\<close>, the
  date parser of the runtime. The consumer narrows an event by its validator before the store sees it;
  a payload of another type than the schema name announces is \<open>UnsupportedEvent\<close>.

  An \<^verbatim>\<open>UPDATE\<close> without \<^verbatim>\<open>RETURNING\<close> does not raise when it matches no row; with \<^verbatim>\<open>RETURNING\<close> it does
  (\<open>MissingRow\<close>). Row locks only serialise transactions. A classification that is not a string does not
  occur: the reconciler writes the only events of that topic.
\<close>

definition EVENT_CONSUMER_NAME :: string where "EVENT_CONSUMER_NAME = ''control-api.provisioning-events.v1''"
definition DLQ_CONSUMER_NAME :: string where "DLQ_CONSUMER_NAME = ''control-api.provisioning-dlq.v1''"
definition DRIFT_CONSUMER_NAME :: string where "DRIFT_CONSUMER_NAME = ''control-api.reconciliation-events.v1''"

subsection \<open>Inbox\<close>

definition inbox_key :: "event_receipt \<Rightarrow> string \<times> uuid \<times> int" where
  "inbox_key r = (erConsumerName r, erEventId r, erReplayGeneration r)"

definition inbox_source :: "event_receipt \<Rightarrow> string \<times> string \<times> int \<times> string" where
  "inbox_source r = (erConsumerName r, erSourceTopic r, erSourcePartition r, erSourceOffset r)"

definition insertReceipt :: "string \<Rightarrow> uuid \<Rightarrow> delivery_identity \<Rightarrow> pg \<Rightarrow> control_error + bool \<times> pg" where
  "insertReceipt consumer event_id delivery db =
     (let row = \<lparr>erConsumerName = consumer, erEventId = event_id, erReplayGeneration = replayGeneration delivery,
                 erSourceTopic = topic delivery, erSourcePartition = partition delivery,
                 erSourceOffset = offset delivery\<rparr> in
      if inbox_key row \<in> set (map inbox_key (event_receipts db)) then Inr (False, db)
      else if inbox_source row \<in> set (map inbox_source (event_receipts db))
      then Inl (ConstraintViolation ''projection.event_receipts'')
      else Inr (True, db\<lparr>event_receipts := event_receipts db @ [row]\<rparr>))"

text \<open>An apply step under its receipt: a known receipt answers \<^verbatim>\<open>duplicate\<close> (\<open>False\<close>).\<close>

definition with_receipt ::
  "string \<Rightarrow> uuid \<Rightarrow> delivery_identity \<Rightarrow> (pg \<Rightarrow> control_error + pg) \<Rightarrow> pg \<Rightarrow> control_error + bool \<times> pg" where
  "with_receipt consumer event_id delivery body db =
     res_bind (insertReceipt consumer event_id delivery db) (\<lambda>(fresh, db1).
       if \<not> fresh then Inr (False, db1) else res_bind (body db1) (\<lambda>db2. Inr (True, db2)))"

subsection \<open>Documents\<close>

definition operationRecovery :: "event \<Rightarrow> operation_document \<Rightarrow> operation_document" where
  "operationRecovery e r = r\<lparr>odCorrelationId := Some (correlationId e), odCausationId := Some (causationId e),
     odTraceId := traceIdOf (traceparent (traceContext e))\<rparr>"

definition writeDocuments ::
  "instance_view \<Rightarrow> operation_view \<Rightarrow> millis \<Rightarrow> (operation_document \<Rightarrow> operation_document) \<Rightarrow> pg \<Rightarrow> pg" where
  "writeDocuments i v t recovery db = db\<lparr>
     instance_documents := update_where (\<lambda>r. idoInstanceId r = ivId i)
       (\<lambda>r. r\<lparr>idoDocument := i, idoUpdatedAt := t\<rparr>) (instance_documents db),
     operation_documents := update_where (\<lambda>r. odOperationId r = ovId v)
       (\<lambda>r. recovery (r\<lparr>odDocument := v, odUpdatedAt := t\<rparr>)) (operation_documents db)\<rparr>"

definition lockDocuments :: "uuid \<Rightarrow> uuid \<Rightarrow> pg \<Rightarrow> control_error + instance_view \<times> operation_view" where
  "lockDocuments instance_id operation_id db =
     res_bind (require MissingRow (lookup_by idoInstanceId instance_id (instance_documents db))) (\<lambda>i.
     res_bind (require MissingRow (lookup_by odOperationId operation_id (operation_documents db))) (\<lambda>v.
       Inr (idoDocument i, odDocument v)))"

definition update_operation :: "uuid \<Rightarrow> (operation_row \<Rightarrow> operation_row) \<Rightarrow> pg \<Rightarrow> pg" where
  "update_operation op change db = db\<lparr>operations := update_where (\<lambda>r. opId r = op) change (operations db)\<rparr>"

subsection \<open>Progress\<close>

text \<open>\<^verbatim>\<open>STAGE_PROGRESS_PERCENT[stage]\<close> for a stage name from the wire; \<open>None\<close> is \<^verbatim>\<open>undefined\<close>.\<close>

definition stage_percent :: "string \<Rightarrow> int option" where
  "stage_percent name = map_option STAGE_PROGRESS_PERCENT (find (\<lambda>s. persisted_name s = name)
     (map Live WORKFLOW_STAGES @ map Terminal [StageCompleted, StageFailed, StageManualReview]))"

definition progressed_operation :: "event \<Rightarrow> progress_data \<Rightarrow> operation_view \<Rightarrow> operation_view" where
  "progressed_operation e p v = v\<lparr>ovState := progOperationState p, ovStage := progStage p,
     ovProgressPercent := (case stage_percent (progStage p) of None \<Rightarrow> ovProgressPercent v | Some n \<Rightarrow> n),
     ovStartedAt := Some (case ovStartedAt v of None \<Rightarrow> occurredAt e | Some s \<Rightarrow> s),
     ovUpdatedAt := occurredAt e\<rparr>"

definition applyProgress :: "(string \<Rightarrow> millis) \<Rightarrow> event \<Rightarrow> progress_data \<Rightarrow> pg \<Rightarrow> control_error + pg" where
  "applyProgress D e p db =
     res_bind (require MissingRow (lookup_by odOperationId (operationId e) (operation_documents db))) (\<lambda>ro.
     res_bind (require MissingRow (lookup_by idoInstanceId (aggregateId e) (instance_documents db))) (\<lambda>ri.
     let t = D (occurredAt e); v = odDocument ro; next_v = progressed_operation e p v in
     Inr (writeDocuments ((idoDocument ri)\<lparr>ivLifecycleState := ''provisioning'', ivUpdatedAt := occurredAt e\<rparr>) next_v t
       (\<lambda>r. (operationRecovery e r)\<lparr>odCheckpoint := Some (progStage p),
              odRetryCount := max 0 (progAttempt p - 1), odTaskReference := progTaskReference p\<rparr>)
       (update_instance (aggregateId e) (\<lambda>r. r\<lparr>inLifecycleState := ''provisioning'', inUpdatedAt := t\<rparr>)
       (update_operation (operationId e)
         (\<lambda>r. r\<lparr>opState := progOperationState p, opStage := progStage p,
                opProgressPercent := ovProgressPercent next_v,
                opStartedAt := Some (if truthy (ovStartedAt v) then D (the (ovStartedAt v)) else t),
                opUpdatedAt := t\<rparr>) db)))))"

subsection \<open>Terminal events\<close>

definition observedFromEvent :: "event \<Rightarrow> completed_data \<Rightarrow> observed_view" where
  "observedFromEvent e c =
     (case complObserved c of
        None \<Rightarrow> \<lparr>bvExists = True, bvPowerState = ''unknown'', bvCpuCount = None, bvMemoryMiB = None,
                 bvDiskGiB = None, bvMarkerMatch = True, bvObservedAt = occurredAt e\<rparr>
      | Some b \<Rightarrow> \<lparr>bvExists = obsExists b, bvPowerState = obsPowerState b,
                 bvCpuCount = map_option measuredCpuCount (obsResources b),
                 bvMemoryMiB = Option.bind (obsResources b) measuredMemoryMiB,
                 bvDiskGiB = Option.bind (obsResources b) measuredDiskGiB,
                 bvMarkerMatch = obsMarkerMatch b, bvObservedAt = obsObservedAt b\<rparr>)"

definition available_snapshot :: "snapshot_row \<Rightarrow> millis \<Rightarrow> snapshot_view" where
  "available_snapshot r t = \<lparr>svId = snId r, svInstanceId = snInstanceId r, svName = snName r,
     svDescription = snDescription r, svState = ''available'', svCreatedAt = toISOString (snCreatedAt r),
     svUpdatedAt = toISOString t\<rparr>"

definition settleSnapshot :: "completed_data \<Rightarrow> operation_view \<Rightarrow> millis \<Rightarrow> pg \<Rightarrow> pg" where
  "settleSnapshot c v t db =
     (let sid = ovTargetId v in
      if ovTargetType v \<noteq> ''snapshot'' then db
      else if complAction c = ''delete_snapshot'' then
        db\<lparr>snapshot_documents := filter (\<lambda>d. sdSnapshotId d \<noteq> sid) (snapshot_documents db),
           snapshots := filter (\<lambda>r. snId r \<noteq> sid) (snapshots db)\<rparr>
      else case lookup_by snId sid (snapshots db) of
          None \<Rightarrow> db
        | Some r \<Rightarrow> db\<lparr>
            snapshots := update_where (\<lambda>r. snId r = sid) (\<lambda>r. r\<lparr>snState := ''available'', snUpdatedAt := t\<rparr>) (snapshots db),
            snapshot_documents := update_where (\<lambda>d. sdSnapshotId d = sid)
              (\<lambda>d. d\<lparr>sdDocument := available_snapshot r t, sdUpdatedAt := t\<rparr>) (snapshot_documents db)\<rparr>)"

definition completed_operation :: "event \<Rightarrow> operation_view \<Rightarrow> operation_view" where
  "completed_operation e v = v\<lparr>ovState := ''succeeded'', ovStage := ''completed'',
     ovProgressPercent := STAGE_PROGRESS_PERCENT (Terminal StageCompleted), ovUpdatedAt := occurredAt e,
     ovCompletedAt := Some (occurredAt e), ovErrorCategory := None, ovErrorCode := None, ovErrorMessage := None,
     ovManualReviewRequired := False\<rparr>"

definition completed_instance :: "event \<Rightarrow> completed_data \<Rightarrow> instance_row \<Rightarrow> instance_view \<Rightarrow> instance_view" where
  "completed_instance e c r i = i\<lparr>ivLifecycleState := complLifecycleState c, ivObserved := Some (observedFromEvent e c),
     ivActiveOperationId := None, ivDrift := ''none'', ivLastReconciledAt := Some (occurredAt e),
     ivRetentionDeadline := map_option toISOString (inRetentionDeadline r), ivPurgeEligible := inPurgeEligible r,
     ivUpdatedAt := occurredAt e\<rparr>"

definition completed_instance_row :: "millis \<Rightarrow> event \<Rightarrow> completed_data \<Rightarrow> instance_row \<Rightarrow> instance_row" where
  "completed_instance_row t e c r = r\<lparr>inLifecycleState := complLifecycleState c, inActiveOperationId := None, inUpdatedAt := t,
     inObserved := Some (observedFromEvent e c), inDrift := ''none'', inLastReconciledAt := Some t\<rparr>"

definition completed_operation_row :: "millis \<Rightarrow> operation_row \<Rightarrow> operation_row" where
  "completed_operation_row t r = r\<lparr>opState := ''succeeded'', opStage := ''completed'',
     opProgressPercent := STAGE_PROGRESS_PERCENT (Terminal StageCompleted), opUpdatedAt := t,
     opCompletedAt := Some t, opError := None, opManualReviewRequired := False\<rparr>"

definition applyCompleted :: "(string \<Rightarrow> millis) \<Rightarrow> event \<Rightarrow> completed_data \<Rightarrow> pg \<Rightarrow> control_error + pg" where
  "applyCompleted D e c db =
     (let t = D (occurredAt e) in
      res_bind (lockDocuments (aggregateId e) (operationId e) db) (\<lambda>(i, v).
      res_bind (require MissingRow (lookup_by inId (aggregateId e) (instances db))) (\<lambda>row.
      Inr (writeDocuments (completed_instance e c row i) (completed_operation e v) t
        (\<lambda>r. (operationRecovery e r)\<lparr>odCheckpoint := Some ''completed'', odTaskReference := None\<rparr>)
        (settleSnapshot c v t
        (update_operation (operationId e) (completed_operation_row t)
        (update_instance (aggregateId e) (completed_instance_row t e c) db)))))))"

definition needs_review :: "failed_data \<Rightarrow> bool" where
  "needs_review f \<longleftrightarrow> category (failFailure f) = ''unknown_outcome'' \<or> category (failFailure f) = ''manual_review'' \<or>
     failCompensationState f = ''unsafe''"

definition terminal_state :: "failed_data \<Rightarrow> string" where
  "terminal_state f = (if needs_review f then ''manual_review'' else ''failed'')"

definition failed_operation :: "event \<Rightarrow> failed_data \<Rightarrow> operation_view \<Rightarrow> operation_view" where
  "failed_operation e f v = v\<lparr>ovState := terminal_state f, ovStage := terminal_state f, ovUpdatedAt := occurredAt e,
     ovCompletedAt := Some (occurredAt e), ovErrorCategory := Some (category (failFailure f)),
     ovErrorCode := Some (code (failFailure f)), ovErrorMessage := Some (safeMessage (failFailure f)),
     ovManualReviewRequired := needs_review f\<rparr>"

definition failed_instance_row :: "millis \<Rightarrow> failed_data \<Rightarrow> instance_row \<Rightarrow> instance_row" where
  "failed_instance_row t f r = r\<lparr>inLifecycleState := terminal_state f, inActiveOperationId := None, inUpdatedAt := t\<rparr>"

definition failed_operation_row :: "millis \<Rightarrow> failed_data \<Rightarrow> operation_row \<Rightarrow> operation_row" where
  "failed_operation_row t f r = r\<lparr>opState := terminal_state f, opStage := terminal_state f, opUpdatedAt := t,
     opCompletedAt := Some t,
     opError := Some (category (failFailure f), code (failFailure f), safeMessage (failFailure f)),
     opManualReviewRequired := needs_review f\<rparr>"

definition applyFailed :: "(string \<Rightarrow> millis) \<Rightarrow> event \<Rightarrow> failed_data \<Rightarrow> pg \<Rightarrow> control_error + pg" where
  "applyFailed D e f db =
     (let t = D (occurredAt e) in
      res_bind (lockDocuments (aggregateId e) (operationId e) db) (\<lambda>(i, v).
      Inr (writeDocuments
        (i\<lparr>ivLifecycleState := terminal_state f, ivActiveOperationId := None, ivUpdatedAt := occurredAt e\<rparr>)
        (failed_operation e f v) t
        (\<lambda>r. (operationRecovery e r)\<lparr>odCheckpoint := Some (terminal_state f), odTaskReference := None\<rparr>)
        (update_operation (operationId e) (failed_operation_row t f)
        (update_instance (aggregateId e) (failed_instance_row t f) db)))))"

subsection \<open>Replay decisions\<close>

definition applyReplayResolved :: "(string \<Rightarrow> millis) \<Rightarrow> replay_resolved_data \<Rightarrow> pg \<Rightarrow> control_error + pg" where
  "applyReplayResolved D d db =
     (let t = D (resResolvedAt d);
          owned = (\<lambda>r. crId r = resReplayRequestId d \<and> crOriginalEventId r = resOriginalEventId d);
          db1 = db\<lparr>control_replays := update_where owned (\<lambda>r. r\<lparr>crStatus := resOutcome d, crUpdatedAt := t\<rparr>)
                 (control_replays db)\<rparr> in
      if find owned (control_replays db) = None then Inl MissingRow
      else if resOutcome d \<noteq> ''completed'' then Inr db1
      else res_bind (require MissingRow (lookup_by ddOriginalEventId (resOriginalEventId d) (dead_letter_documents db)))
        (\<lambda>row. Inr (db1\<lparr>dead_letter_documents := update_where (\<lambda>r. ddOriginalEventId r = resOriginalEventId d)
           (\<lambda>r. r\<lparr>ddDocument := (ddDocument row)\<lparr>dvReplayAllowed := False, dvLastReplayAt := Some (resResolvedAt d)\<rparr>,
              ddUpdatedAt := t\<rparr>) (dead_letter_documents db1)\<rparr>)))"

subsection \<open>Dispatch and the other topics\<close>

definition applyEvent :: "(string \<Rightarrow> millis) \<Rightarrow> event \<Rightarrow> pg \<Rightarrow> control_error + pg" where
  "applyEvent D e db =
     (if schemaName e = ''workflow.progressed'' then
        (case data e of Progressed p \<Rightarrow> applyProgress D e p db | _ \<Rightarrow> Inl UnsupportedEvent)
      else if schemaName e = ''instance.mutation.completed'' then
        (case data e of Completed c \<Rightarrow> applyCompleted D e c db | _ \<Rightarrow> Inl UnsupportedEvent)
      else if schemaName e = ''instance.mutation.failed'' then
        (case data e of Failed f \<Rightarrow> applyFailed D e f db | _ \<Rightarrow> Inl UnsupportedEvent)
      else if schemaName e = ''provisioning.replay.resolved'' then
        (case data e of ReplayResolved d \<Rightarrow> applyReplayResolved D d db | _ \<Rightarrow> Inl UnsupportedEvent)
      else Inl UnsupportedEvent)"

definition applyWorkflowEvent ::
  "(string \<Rightarrow> millis) \<Rightarrow> event \<Rightarrow> delivery_identity \<Rightarrow> pg \<Rightarrow> control_error + bool \<times> pg" where
  "applyWorkflowEvent D e delivery = with_receipt EVENT_CONSUMER_NAME (eventId e) delivery (applyEvent D e)"

definition dead_letter_view_of :: "event \<Rightarrow> dead_lettered_data \<Rightarrow> dead_letter_view" where
  "dead_letter_view_of e d = \<lparr>dvEventId = dlOriginalEventId d, dvSchemaName = dlOriginalSchemaName d,
     dvSchemaVersion = dlOriginalSchemaVersion d, dvAggregateId = aggregateId e, dvProjectId = projectId e,
     dvOperationId = operationId e, dvCategory = category (dlFailure d), dvSafeMessage = safeMessage (dlFailure d),
     dvAttempts = dlAttempts d, dvDeadLetteredAt = dlDeadLetteredAt d, dvReplayAllowed = dlReplayAllowed d,
     dvLastReplayAt = None\<rparr>"

definition dead_letter_row_of :: "(string \<Rightarrow> millis) \<Rightarrow> event \<Rightarrow> dead_lettered_data \<Rightarrow> dead_letter_document" where
  "dead_letter_row_of D e d = \<lparr>ddOriginalEventId = dlOriginalEventId d, ddProjectId = projectId e,
     ddOperationId = operationId e, ddAggregateId = aggregateId e, ddDocument = dead_letter_view_of e d,
     ddTraceContext = traceContext e, ddUpdatedAt = D (occurredAt e)\<rparr>"

definition project_dead_letter :: "(string \<Rightarrow> millis) \<Rightarrow> event \<Rightarrow> dead_lettered_data \<Rightarrow> pg \<Rightarrow> pg" where
  "project_dead_letter D e d db =
     (let row = dead_letter_row_of D e d;
          rows = (if ddOriginalEventId row \<in> set (map ddOriginalEventId (dead_letter_documents db))
                  then update_where (\<lambda>r. ddOriginalEventId r = ddOriginalEventId row) (\<lambda>_. row) (dead_letter_documents db)
                  else dead_letter_documents db @ [row]) in
      db\<lparr>dead_letter_documents := rows,
         operation_documents := update_where (\<lambda>r. odOperationId r = operationId e)
           (\<lambda>r. r\<lparr>odDeadLetterEventId := Some (dlOriginalEventId d)\<rparr>) (operation_documents db)\<rparr>)"

definition applyDeadLetterEvent ::
  "(string \<Rightarrow> millis) \<Rightarrow> event \<Rightarrow> delivery_identity \<Rightarrow> pg \<Rightarrow> control_error + bool \<times> pg" where
  "applyDeadLetterEvent D e delivery = with_receipt DLQ_CONSUMER_NAME (eventId e) delivery
     (\<lambda>db. case data e of DeadLettered d \<Rightarrow> Inr (project_dead_letter D e d db) | _ \<Rightarrow> Inl UnsupportedEvent)"

definition published_classification :: "event \<Rightarrow> string option" where
  "published_classification e =
     (case get_field (object_fields (event_json (data e))) ''classification'' of
        JStr s \<Rightarrow> (if s = [] then None else Some s) | _ \<Rightarrow> None)"

definition project_drift :: "(string \<Rightarrow> millis) \<Rightarrow> event \<Rightarrow> string \<Rightarrow> pg \<Rightarrow> pg" where
  "project_drift D e cls db =
     (case lookup_by idoInstanceId (aggregateId e) (instance_documents db) of
        None \<Rightarrow> db
      | Some row \<Rightarrow> db\<lparr>instance_documents := update_where (\<lambda>r. idoInstanceId r = aggregateId e)
          (\<lambda>r. r\<lparr>idoDocument := (idoDocument row)\<lparr>ivDrift := cls, ivLastReconciledAt := Some (occurredAt e),
               ivUpdatedAt := occurredAt e\<rparr>, idoUpdatedAt := D (occurredAt e)\<rparr>) (instance_documents db)\<rparr>)"

definition applyDriftEvent ::
  "(string \<Rightarrow> millis) \<Rightarrow> event \<Rightarrow> delivery_identity \<Rightarrow> pg \<Rightarrow> control_error + bool \<times> pg" where
  "applyDriftEvent D e delivery = with_receipt DRIFT_CONSUMER_NAME (eventId e) delivery
     (\<lambda>db. Inr (case published_classification e of None \<Rightarrow> db | Some c \<Rightarrow> project_drift D e c db))"

definition insert_poison :: "poison_record \<Rightarrow> pg \<Rightarrow> bool \<times> pg" where
  "insert_poison row db =
     (case insert_unique poison_source row (projection_poison db) of
        None \<Rightarrow> (False, db)
      | Some rows \<Rightarrow> (True, db\<lparr>projection_poison := rows\<rparr>))"

definition projection_quarantine ::
  "env \<Rightarrow> delivery_identity \<Rightarrow> uuid option \<Rightarrow> string \<Rightarrow> string \<Rightarrow> string \<Rightarrow> pg \<Rightarrow> control_error + bool \<times> pg" where
  "projection_quarantine E delivery event_id payload_hash failure_code safe_message db =
     (let consumer = (if topic delivery = ''provisioning.dlq.v1'' then DLQ_CONSUMER_NAME else EVENT_CONSUMER_NAME);
          inserted = insert_poison
            \<lparr>poId = uuidAt E 0, poConsumerName = consumer, poSourceTopic = topic delivery,
             poSourcePartition = partition delivery, poSourceOffset = offset delivery,
             poPayloadHash = payload_hash, poFailureCode = failure_code, poSafeMessage = safe_message,
             poQuarantinedAt = now E\<rparr> db in
      if truthy event_id
      then res_bind (insertReceipt consumer (the event_id) delivery (snd inserted))
        (\<lambda>(_, db2). Inr (fst inserted, db2))
      else Inr inserted)"

end
