(* ===== verification/Reconciliation.thy ===== *)
theory Reconciliation
  imports Capabilities Control_Store "HOL-Library.Option_ord"
begin

section \<open>Reconciliation\<close>

text \<open>
  Model of \<^verbatim>\<open>packages/postgres-adapter/src/reconciliation-store.ts\<close> and of one pass of
  \<^verbatim>\<open>apps/reconciler/src/app/reconciliation-worker.ts\<close>: the claim of the least recently reconciled
  instances, the observation of each through the provider port, the classification and the record of
  the finding. \<open>tp\<close> is the random \<^verbatim>\<open>traceparent\<close> of the event. \<open>SKIP LOCKED\<close> passes over rows of concurrent
  transactions; a transaction of the model has none. Ties of \<^verbatim>\<open>ORDER BY\<close> keep the order of insertion.
  A sizing the provider reports carries all three numbers. The desired power state is one of the two
  the code writes, \<^verbatim>\<open>running\<close> and \<^verbatim>\<open>stopped\<close>.
\<close>

record candidate =
  cdInstanceId :: uuid
  cdProjectId :: uuid
  cdProviderProfileId :: string
  cdCreateOperationId :: uuid
  cdProviderResourceId :: string
  cdLifecycleState :: string
  cdDesiredPowerState :: string
  cdDesiredSizing :: sizing

record reconciliation_outcome =
  roInstanceId :: uuid
  roProjectId :: uuid
  roDrift :: string
  roDangerous :: bool
  roExists :: bool
  roPowerState :: string
  roMarkerMatch :: bool
  roObservedAt :: millis

subsection \<open>Claim\<close>

definition stale :: "millis \<Rightarrow> instance_row \<Rightarrow> bool" where
  "stale staleAfter r \<longleftrightarrow> inLifecycleState r \<notin> {''purged'', ''pending''} \<and>
     (case inLastReconciledAt r of None \<Rightarrow> True | Some t \<Rightarrow> t \<le> staleAfter)"

definition stale_instances :: "nat \<Rightarrow> millis \<Rightarrow> pg \<Rightarrow> instance_row list" where
  "stale_instances limit staleAfter db = take limit (sort_key inLastReconciledAt (filter (stale staleAfter) (instances db)))"

definition observable :: "pg \<Rightarrow> instance_row \<Rightarrow> bool" where
  "observable db r \<longleftrightarrow> truthy (inherited_resource (inId r) (workflows db)) \<and> truthy (inCreateOperationId r)"

definition candidate_of :: "pg \<Rightarrow> instance_row \<Rightarrow> candidate" where
  "candidate_of db r = \<lparr>cdInstanceId = inId r, cdProjectId = inProjectId r, cdProviderProfileId = inProviderProfileId r,
     cdCreateOperationId = (case inCreateOperationId r of None \<Rightarrow> [] | Some op \<Rightarrow> op),
     cdProviderResourceId = (case inherited_resource (inId r) (workflows db) of None \<Rightarrow> [] | Some p \<Rightarrow> p),
     cdLifecycleState = inLifecycleState r, cdDesiredPowerState = inDesiredPowerState r, cdDesiredSizing = sizing_of r\<rparr>"

definition claimStaleInstances :: "env \<Rightarrow> nat \<Rightarrow> millis \<Rightarrow> pg \<Rightarrow> candidate list \<times> pg" where
  "claimStaleInstances E limit staleAfter db =
     (let claimed = filter (observable db) (stale_instances limit staleAfter db);
          ids = map inId claimed in
      (map (candidate_of db) claimed,
       if claimed = [] then db
       else db\<lparr>instances := update_where (\<lambda>r. inId r \<in> set ids) (\<lambda>r. r\<lparr>inLastReconciledAt := Some (now E)\<rparr>) (instances db)\<rparr>))"

subsection \<open>Record\<close>

definition observed_columns :: "reconciliation_outcome \<Rightarrow> observed_view option \<Rightarrow> observed_view" where
  "observed_columns out prev =
     (case prev of
        None \<Rightarrow> \<lparr>bvExists = roExists out, bvPowerState = roPowerState out, bvCpuCount = None, bvMemoryMiB = None,
                 bvDiskGiB = None, bvMarkerMatch = roMarkerMatch out, bvObservedAt = toISOString (roObservedAt out)\<rparr>
      | Some v \<Rightarrow> v\<lparr>bvExists := roExists out, bvPowerState := roPowerState out, bvMarkerMatch := roMarkerMatch out,
                 bvObservedAt := toISOString (roObservedAt out)\<rparr>)"

definition drift_event :: "env \<Rightarrow> string \<Rightarrow> reconciliation_outcome \<Rightarrow> event" where
  "drift_event E tp out =
     \<lparr>eventId = uuidAt E 0, schemaName = ''drift.detected'', schemaVersion = 1, aggregateType = ''instance'',
      aggregateId = roInstanceId out, projectId = roProjectId out, operationId = uuidAt E 0,
      correlationId = uuidAt E 0, causationId = uuidAt E 0, occurredAt = toISOString (roObservedAt out),
      traceContext = \<lparr>traceparent = tp, tracestate = None\<rparr>, partitionKey = roInstanceId out,
      data = DriftDetected (roDrift out) (roDangerous out) (uuidAt E 2)\<rparr>"

definition recordObservation :: "env \<Rightarrow> string \<Rightarrow> reconciliation_outcome \<Rightarrow> pg \<Rightarrow> control_error + pg" where
  "recordObservation E tp out db =
     (let db1 = update_instance (roInstanceId out)
            (\<lambda>r. r\<lparr>inDrift := roDrift out, inObserved := Some (observed_columns out (inObserved r)),
               inLastReconciledAt := Some (roObservedAt out), inUpdatedAt := now E\<rparr>) db in
      if roDrift out = ''none'' then Inr db1
      else writeControlOutbox (uuidAt E 1) (drift_event E tp out) ''reconciliation.events.v1'' (roObservedAt out) db1)"

subsection \<open>One instance of a sweep\<close>

definition STALE_AFTER_MS :: int where "STALE_AFTER_MS = 5 * 60 * 1000"
definition BATCH_SIZE :: nat where "BATCH_SIZE = 25"

fun drift_name :: "drift_classification \<Rightarrow> string" where
  "drift_name DriftNone = ''none''"
| "drift_name MissingResource = ''missing_resource''"
| "drift_name IdentityMismatch = ''identity_mismatch''"
| "drift_name StaleTask = ''stale_task''"
| "drift_name LateSuccess = ''late_success''"
| "drift_name PowerDrift = ''power_drift''"
| "drift_name NetworkDrift = ''network_drift''"
| "drift_name Ambiguous = ''ambiguous''"

fun powerStateName :: "observed_power option \<Rightarrow> string" where
  "powerStateName (Some ObservedRunning) = ''running''"
| "powerStateName (Some ObservedStopped) = ''stopped''"
| "powerStateName (Some ObservedSuspended) = ''suspended''"
| "powerStateName _ = ''unknown''"

definition reconcile_request :: "candidate \<Rightarrow> instance_request" where
  "reconcile_request c =
     \<lparr>irContext = \<lparr>ccRequestId = cdInstanceId c @ '':reconcile'', ccOperationId = cdCreateOperationId c,
        ccCorrelationId = cdCreateOperationId c, ccProjectId = cdProjectId c, ccInstanceId = cdInstanceId c,
        ccProviderProfileId = cdProviderProfileId c, ccAttempt = 1, ccFencingToken = []\<rparr>,
      irProviderResourceId = cdProviderResourceId c,
      irOwnershipMarkers = \<lparr>managedBy = ''private-cloud-control-plane'', environment = ''lab'',
        omProjectId = cdProjectId c, omInstanceId = cdInstanceId c, omCreateOperationId = cdCreateOperationId c\<rparr>\<rparr>"

definition observed_of :: "observation option \<Rightarrow> observed_snapshot" where
  "observed_of ob =
     (let sizes = measured_of (Option.bind ob onResources) in
      \<lparr>exists = obs_exists ob,
       observedPowerState = (case obs_power ob of None \<Rightarrow> ObservedUnknown | Some p \<Rightarrow> p),
       markerMatch = (case Option.bind ob onOwnership of None \<Rightarrow> False | Some oo \<Rightarrow> is_true (ooMatch oo)),
       observedCpuCount = map_option measuredCpuCount sizes,
       observedMemoryMiB = Option.bind sizes measuredMemoryMiB, observedDiskGiB = Option.bind sizes measuredDiskGiB\<rparr>)"

definition desired_of :: "candidate \<Rightarrow> desired_snapshot" where
  "desired_of c =
     \<lparr>desiredLifecycleState = cdLifecycleState c,
      desiredPowerState = (if cdDesiredPowerState c = ''running'' then DesiredRunning
        else if cdDesiredPowerState c = ''stopped'' then DesiredStopped else DesiredUnchanged),
      desiredSizing = cdDesiredSizing c\<rparr>"

definition outcome_of :: "env \<Rightarrow> candidate \<Rightarrow> observation option \<Rightarrow> reconciliation_outcome" where
  "outcome_of E c ob =
     (let finding = classifyDrift (desired_of c) (observed_of ob) in
      \<lparr>roInstanceId = cdInstanceId c, roProjectId = cdProjectId c, roDrift = drift_name (classification finding),
       roDangerous = dangerous finding, roExists = exists (observed_of ob), roPowerState = powerStateName (obs_power ob),
       roMarkerMatch = markerMatch (observed_of ob), roObservedAt = now E\<rparr>)"

text \<open>A failed observation or a failed write is logged and swallowed.\<close>

definition reconcile :: "'p provider \<Rightarrow> env \<Rightarrow> string \<Rightarrow> candidate \<Rightarrow> 'p \<times> pg \<Rightarrow> 'p \<times> pg" where
  "reconcile pv E tp c s =
     (case pvObserve pv (reconcile_request c) (fst s) of
        (Inl e, p) \<Rightarrow> (p, snd s)
      | (Inr ob, p) \<Rightarrow>
          (case recordObservation E tp (outcome_of E c ob) (snd s) of
             Inl e \<Rightarrow> (p, snd s)
           | Inr db \<Rightarrow> (p, db)))"

text \<open>One pass: the claim, then every candidate, each in its own environment.\<close>

fun reconcile_all :: "'p provider \<Rightarrow> (env \<times> string) list \<Rightarrow> candidate list \<Rightarrow> 'p \<times> pg \<Rightarrow> 'p \<times> pg" where
  "reconcile_all pv ((E, tp) # Es) (c # cs) s = reconcile_all pv Es cs (reconcile pv E tp c s)"
| "reconcile_all pv _ _ s = s"

definition sweep :: "'p provider \<Rightarrow> env \<Rightarrow> (env \<times> string) list \<Rightarrow> 'p \<times> pg \<Rightarrow> 'p \<times> pg" where
  "sweep pv E Es s =
     (case claimStaleInstances E BATCH_SIZE (now E - STALE_AFTER_MS) (snd s) of
        (cs, db) \<Rightarrow> reconcile_all pv Es cs (fst s, db))"

end
