(* ===== verification/Control_History.thy ===== *)
theory Control_History
  imports Control_Quota Projection_Store Reconciliation
begin

section \<open>Histories of requests, deliveries and reconciliations\<close>

text \<open>
  The three processes that write the control plane tables, as one history: requests served by the
  application, records delivered to the projection, and the claims and findings of the reconciler. A
  refused step leaves the tables as they were. \<open>projects\<close> is the normal form of what a delivery does,
  \<open>read_model_ok\<close> the agreement of the read documents with the rows.
\<close>

datatype delivery =
    Workflow_Record event delivery_identity
  | Dead_Letter_Record event delivery_identity
  | Drift_Record event delivery_identity
  | Poison_Record delivery_identity "uuid option" string string string

fun deliver :: "(string \<Rightarrow> millis) \<Rightarrow> env \<Rightarrow> delivery \<Rightarrow> pg \<Rightarrow> control_error + bool \<times> pg" where
  "deliver D E (Workflow_Record e d) db = applyWorkflowEvent D e d db"
| "deliver D E (Dead_Letter_Record e d) db = applyDeadLetterEvent D e d db"
| "deliver D E (Drift_Record e d) db = applyDriftEvent D e d db"
| "deliver D E (Poison_Record d i h c m) db = projection_quarantine E d i h c m db"

datatype step =
    Serve env string request
  | Deliver env delivery
  | Claim_Stale env nat millis
  | Record_Observation env string reconciliation_outcome

fun run_step :: "(string \<Rightarrow> millis) \<Rightarrow> step \<Rightarrow> pg \<Rightarrow> pg" where
  "run_step D (Serve E g q) db = committed db (serve E g q db)"
| "run_step D (Deliver E d) db = committed db (deliver D E d db)"
| "run_step D (Claim_Stale E limit staleAfter) db = snd (claimStaleInstances E limit staleAfter db)"
| "run_step D (Record_Observation E tp out) db = (case recordObservation E tp out db of Inl _ \<Rightarrow> db | Inr db' \<Rightarrow> db')"

fun run_steps :: "(string \<Rightarrow> millis) \<Rightarrow> step list \<Rightarrow> pg \<Rightarrow> pg" where
  "run_steps D [] db = db"
| "run_steps D (s # ss) db = run_steps D ss (run_step D s db)"

lemma run_steps_append: "run_steps D (ss @ ss') db = run_steps D ss' (run_steps D ss db)"
  by (induction ss arbitrary: db) auto

lemma run_steps_induct:
  assumes "P db" and "\<And>s d. s \<in> set ss \<Longrightarrow> P d \<Longrightarrow> P (run_step D s d)"
  shows "P (run_steps D ss db)"
  using assms by (induction ss arbitrary: db) auto

subsection \<open>Agreement of the read model\<close>

definition instance_agrees :: "instance_row \<Rightarrow> instance_document \<Rightarrow> bool" where
  "instance_agrees r d \<longleftrightarrow> ivActiveOperationId (idoDocument d) = inActiveOperationId r \<and>
     (inActiveOperationId r = None \<longrightarrow> ivLifecycleState (idoDocument d) = inLifecycleState r)"

definition read_model_ok :: "pg \<Rightarrow> bool" where
  "read_model_ok db \<longleftrightarrow>
     (\<forall>d \<in> set (instance_documents db). ivId (idoDocument d) = idoInstanceId d \<and>
        (\<forall>r \<in> set (instances db). inId r = idoInstanceId d \<longrightarrow> instance_agrees r d)) \<and>
     (\<forall>d \<in> set (operation_documents db). ovId (odDocument d) = odOperationId d \<and>
        (\<forall>r \<in> set (operations db). opId r = odOperationId d \<longrightarrow> operation_agrees r d))"

subsection \<open>The normal form of a delivery\<close>

definition keeps_instance :: "bool \<Rightarrow> (instance_row \<Rightarrow> instance_row) \<Rightarrow> bool" where
  "keeps_instance settling F \<longleftrightarrow> (\<forall>x. inId (F x) = inId x \<and> inProjectId (F x) = inProjectId x \<and>
     inCreateOperationId (F x) = inCreateOperationId x \<and> sizing_of (F x) = sizing_of x \<and>
     inActiveOperationId (F x) = (if settling then None else inActiveOperationId x))"

text \<open>
  One delivery changes at most the rows and documents of one instance and one operation, and the
  snapshot the operation is about; whether it frees the instance is the flag \<open>settling\<close>.
\<close>

inductive projects :: "bool \<Rightarrow> uuid \<Rightarrow> pg \<Rightarrow> pg \<Rightarrow> bool" where
  projected:
    "keeps_instance settling F \<Longrightarrow>
     (\<And>x y. ivActiveOperationId (idoDocument y) = inActiveOperationId x \<Longrightarrow>
        inActiveOperationId x = None \<longrightarrow> ivLifecycleState (idoDocument y) = inLifecycleState x \<Longrightarrow> instance_agrees (F x) (f y)) \<Longrightarrow>
     (\<And>y. idoInstanceId (f y) = idoInstanceId y \<and> idoProjectId (f y) = idoProjectId y \<and>
        ivId (idoDocument (f y)) = ivId (idoDocument y)) \<Longrightarrow>
     (\<And>x. opId (G x) = opId x \<and> opProjectId (G x) = opProjectId x) \<Longrightarrow>
     (\<And>y. odOperationId (g y) = odOperationId y \<and> odProjectId (g y) = odProjectId y \<and> ovId (odDocument (g y)) = ovId (odDocument y)) \<Longrightarrow>
     (\<And>x y. y \<in> set (operation_documents db) \<Longrightarrow> odOperationId y = op \<Longrightarrow> operation_agrees x y \<Longrightarrow> operation_agrees (G x) (g y)) \<Longrightarrow>
     instances db' = update_where (\<lambda>r. inId r = i) F (instances db) \<Longrightarrow>
     instance_documents db' = update_where (\<lambda>r. idoInstanceId r = i) f (instance_documents db) \<Longrightarrow>
     operations db' = update_where (\<lambda>r. opId r = op) G (operations db) \<Longrightarrow>
     operation_documents db' = update_where (\<lambda>r. odOperationId r = op) g (operation_documents db) \<Longrightarrow>
     (\<exists>P Q h. (\<forall>x. snId (h x) = snId x \<and> snInstanceId (h x) = snInstanceId x \<and> snName (h x) = snName x \<and>
        snProjectId (h x) = snProjectId x) \<and> snapshots db' = filter P (update_where Q h (snapshots db))) \<Longrightarrow>
     ipv4_leases db' = ipv4_leases db \<and> idempotency_records db' = idempotency_records db \<and> quotas db' = quotas db \<and>
     ct_outbox db' = ct_outbox db \<Longrightarrow>
     projects settling i db db'"

lemma update_where_same: "(\<And>x. x \<in> set rows \<Longrightarrow> P x \<Longrightarrow> f x = x) \<Longrightarrow> update_where P f rows = rows"
  by (induction rows) auto

lemma update_where_id: "update_where P (\<lambda>x. x) rows = rows"
  by (simp add: update_where_def)

lemma filter_update_id: "filter (\<lambda>_. True) (update_where (\<lambda>_. False) (\<lambda>x. x) rows) = rows"
  by (induction rows) auto

text \<open>An update of the one row that was looked up may be written as an update from the row itself.\<close>

lemma update_where_found:
  assumes "unique_keys k rows" and "lookup_by k i rows = Some r" and "f r = g r"
  shows "update_where (\<lambda>x. k x = i) f rows = update_where (\<lambda>x. k x = i) g rows"
proof -
  have "x = r" if "x \<in> set rows" "k x = i" for x
    using unique_keys_eq [OF assms(1) that(1)] lookup_by_SomeD [OF assms(2)] that(2) by blast
  with assms(3) show ?thesis unfolding update_where_def by (intro map_cong) auto
qed

lemma update_where_missing:
  "lookup_by k i rows = None \<Longrightarrow> update_where (\<lambda>x. k x = i) f rows = rows"
  by (rule update_where_same) (auto simp: lookup_by_None_iff)

subsection \<open>Deliveries in normal form\<close>

lemma insertReceipt_Inr:
  "insertReceipt consumer i d db = Inr (b, db') \<Longrightarrow>
     db' = (if b then db\<lparr>event_receipts := event_receipts db'\<rparr> else db)"
  by (auto simp: insertReceipt_def Let_def split: if_splits)

lemma projects_quiet:
  assumes "instances db' = instances db" and "operations db' = operations db"
    and "instance_documents db' = update_where (\<lambda>r. idoInstanceId r = i) f (instance_documents db)"
    and "\<And>y. idoInstanceId (f y) = idoInstanceId y \<and> idoProjectId (f y) = idoProjectId y \<and>
        ivId (idoDocument (f y)) = ivId (idoDocument y) \<and>
        ivActiveOperationId (idoDocument (f y)) = ivActiveOperationId (idoDocument y) \<and>
        ivLifecycleState (idoDocument (f y)) = ivLifecycleState (idoDocument y)"
    and "operation_documents db' = update_where (\<lambda>r. odOperationId r = op) g (operation_documents db)"
    and "\<And>y. odOperationId (g y) = odOperationId y \<and> odProjectId (g y) = odProjectId y \<and> odDocument (g y) = odDocument y"
    and "snapshots db' = snapshots db" and "ipv4_leases db' = ipv4_leases db"
    and "idempotency_records db' = idempotency_records db" and "quotas db' = quotas db" and "ct_outbox db' = ct_outbox db"
  shows "projects False i db db'"
proof (rule projected [where F = "\<lambda>x. x" and G = "\<lambda>x. x" and f = f and g = g and op = op], goal_cases)
  case 11
  show ?case
    by (intro exI [of _ "\<lambda>_. True"] exI [of _ "\<lambda>_. False"] exI [of _ "\<lambda>x. x"])
      (simp only: filter_update_id assms(7), simp)
qed (use assms in \<open>simp_all add: keeps_instance_def instance_agrees_def operation_agrees_def update_where_id Let_def\<close>)

lemma projects_refl: "projects False i db db"
  by (rule projects_quiet [where f = "\<lambda>x. x" and g = "\<lambda>x. x" and op = op for op]) (simp_all add: update_where_id)

text \<open>Any projection under its receipt.\<close>

lemma projects_receipts [simp]:
  "projects settling i (db\<lparr>event_receipts := rs\<rparr>) db' = projects settling i db db'"
  by (simp add: projects.simps)

lemma with_receipt_projects:
  assumes "with_receipt consumer j d body db = Inr (b, db')"
    and "\<And>rs db2. body (db\<lparr>event_receipts := rs\<rparr>) = Inr db2 \<Longrightarrow> projects settling i (db\<lparr>event_receipts := rs\<rparr>) db2"
  shows "if b then projects settling i db db' else db' = db"
  using assms insertReceipt_Inr [of consumer j d db]
  by (auto simp: with_receipt_def split: if_splits prod.splits) (metis projects_receipts)

lemma control_inv_receipts [simp]: "control_inv (db\<lparr>event_receipts := rs\<rparr>) = control_inv db"
  by (simp add: control_inv_defs)

lemma read_model_receipts [simp]: "read_model_ok (db\<lparr>event_receipts := rs\<rparr>) = read_model_ok db"
  by (simp add: read_model_ok_def)

lemma document_found:
  assumes "read_model_ok db"
  shows "lookup_by idoInstanceId i (instance_documents db) = Some r \<Longrightarrow> idoInstanceId r = i \<and> ivId (idoDocument r) = i"
    and "lookup_by odOperationId op (operation_documents db) = Some v \<Longrightarrow> odOperationId v = op \<and> ovId (odDocument v) = op"
  using assms lookup_by_SomeD [of idoInstanceId i _ r] lookup_by_SomeD [of odOperationId op _ v]
  by (auto simp: read_model_ok_def)

text \<open>A read-modify-write of the two documents is an update from the documents themselves.\<close>

lemma writeDocuments_found:
  assumes inv: "control_inv db" "read_model_ok db"
    and i: "lookup_by idoInstanceId i (instance_documents db) = Some ri"
    and v: "lookup_by odOperationId op (operation_documents db) = Some rv"
    and keys: "ivId (fi (idoDocument ri)) = ivId (idoDocument ri)" "ovId (fv (odDocument rv)) = ovId (odDocument rv)"
    and same: "instance_documents d = instance_documents db" "operation_documents d = operation_documents db"
  shows "instance_documents (writeDocuments (fi (idoDocument ri)) (fv (odDocument rv)) t rc d) =
      update_where (\<lambda>r. idoInstanceId r = i) (\<lambda>r. r\<lparr>idoDocument := fi (idoDocument r), idoUpdatedAt := t\<rparr>) (instance_documents db)"
    "operation_documents (writeDocuments (fi (idoDocument ri)) (fv (odDocument rv)) t rc d) =
      update_where (\<lambda>r. odOperationId r = op) (\<lambda>r. rc (r\<lparr>odDocument := fv (odDocument r), odUpdatedAt := t\<rparr>)) (operation_documents db)"
proof -
  have u: "unique_keys idoInstanceId (instance_documents db)" "unique_keys odOperationId (operation_documents db)"
    using inv(1) by (simp_all add: control_inv_defs)
  note ks = document_found(1) [OF inv(2) i] document_found(2) [OF inv(2) v]
  show "instance_documents (writeDocuments (fi (idoDocument ri)) (fv (odDocument rv)) t rc d) =
      update_where (\<lambda>r. idoInstanceId r = i) (\<lambda>r. r\<lparr>idoDocument := fi (idoDocument r), idoUpdatedAt := t\<rparr>) (instance_documents db)"
    using ks keys by (simp add: writeDocuments_def same) (rule update_where_found [OF u(1) i], simp)
  show "operation_documents (writeDocuments (fi (idoDocument ri)) (fv (odDocument rv)) t rc d) =
      update_where (\<lambda>r. odOperationId r = op) (\<lambda>r. rc (r\<lparr>odDocument := fv (odDocument r), odUpdatedAt := t\<rparr>)) (operation_documents db)"
    using ks keys by (simp add: writeDocuments_def same) (rule update_where_found [OF u(2) v], simp)
qed

text \<open>The tables outside the two documents that \<open>writeDocuments\<close> leaves alone.\<close>

lemma writeDocuments_sel [simp]:
  "instances (writeDocuments iv ov t rc d) = instances d" "operations (writeDocuments iv ov t rc d) = operations d"
  "snapshots (writeDocuments iv ov t rc d) = snapshots d" "ipv4_leases (writeDocuments iv ov t rc d) = ipv4_leases d"
  "idempotency_records (writeDocuments iv ov t rc d) = idempotency_records d"
  "quotas (writeDocuments iv ov t rc d) = quotas d" "ct_outbox (writeDocuments iv ov t rc d) = ct_outbox d"
  by (simp_all add: writeDocuments_def)

lemma updates_sel [simp]:
  "instances (update_operation op G d) = instances d"
  "operations (update_operation op G d) = update_where (\<lambda>r. opId r = op) G (operations d)"
  "instances (update_instance i F d) = update_where (\<lambda>r. inId r = i) F (instances d)"
  "operations (update_instance i F d) = operations d"
  by (simp_all add: update_operation_def update_instance_def)

lemma updates_frame [simp]:
  "instance_documents (update_operation op G d) = instance_documents d" "operation_documents (update_operation op G d) = operation_documents d"
  "snapshots (update_operation op G d) = snapshots d" "ipv4_leases (update_operation op G d) = ipv4_leases d"
  "idempotency_records (update_operation op G d) = idempotency_records d" "quotas (update_operation op G d) = quotas d"
  "ct_outbox (update_operation op G d) = ct_outbox d"
  "instance_documents (update_instance i F d) = instance_documents d" "operation_documents (update_instance i F d) = operation_documents d"
  "snapshots (update_instance i F d) = snapshots d" "ipv4_leases (update_instance i F d) = ipv4_leases d"
  "idempotency_records (update_instance i F d) = idempotency_records d" "quotas (update_instance i F d) = quotas d"
  "ct_outbox (update_instance i F d) = ct_outbox d"
  by (simp_all add: update_operation_def update_instance_def)

lemma snapshots_kept: "\<exists>P Q h. (\<forall>x. snId (h x) = snId x \<and> snInstanceId (h x) = snInstanceId x \<and> snName (h x) = snName x \<and>
        snProjectId (h x) = snProjectId x) \<and> rows = filter P (update_where Q h (rows :: snapshot_row list))"
  by (rule exI [of _ "\<lambda>_. True"], rule exI [of _ "\<lambda>_. False"], rule exI [of _ "\<lambda>x. x"]) (simp add: filter_update_id)

lemma applyProgress_projects:
  assumes inv: "control_inv db" "read_model_ok db" and run: "applyProgress D e p db = Inr db'"
  shows "projects False (aggregateId e) db db'"
proof -
  let ?t = "D (occurredAt e)"
  let ?F = "\<lambda>r. r\<lparr>inLifecycleState := ''provisioning'', inUpdatedAt := ?t\<rparr>"
  let ?fi = "\<lambda>y. y\<lparr>ivLifecycleState := ''provisioning'', ivUpdatedAt := occurredAt e\<rparr>"
  let ?rc = "\<lambda>r. (operationRecovery e r)\<lparr>odCheckpoint := Some (progStage p),
      odRetryCount := max 0 (progAttempt p - 1), odTaskReference := progTaskReference p\<rparr>"
  from run obtain rv ri where v: "lookup_by odOperationId (operationId e) (operation_documents db) = Some rv"
      and i: "lookup_by idoInstanceId (aggregateId e) (instance_documents db) = Some ri"
      and db': "db' = writeDocuments (?fi (idoDocument ri)) (progressed_operation e p (odDocument rv)) ?t ?rc
         (update_instance (aggregateId e) ?F (update_operation (operationId e)
           (\<lambda>r. r\<lparr>opState := progOperationState p, opStage := progStage p,
                opProgressPercent := ovProgressPercent (progressed_operation e p (odDocument rv)),
                opStartedAt := Some (if truthy (ovStartedAt (odDocument rv)) then D (the (ovStartedAt (odDocument rv))) else ?t),
                opUpdatedAt := ?t\<rparr>) db))"
    by (auto simp: applyProgress_def Let_def)
  let ?G = "\<lambda>r. r\<lparr>opState := progOperationState p, opStage := progStage p,
      opProgressPercent := ovProgressPercent (progressed_operation e p (odDocument rv)),
      opStartedAt := Some (if truthy (ovStartedAt (odDocument rv)) then D (the (ovStartedAt (odDocument rv))) else ?t),
      opUpdatedAt := ?t\<rparr>"
  have u: "unique_keys odOperationId (operation_documents db)" using inv(1) by (simp add: control_inv_defs)
  note rv = lookup_by_SomeD [OF v]
  note docs = writeDocuments_found [OF inv i v, of ?fi "progressed_operation e p"]
  show ?thesis
  proof (rule projected [where op = "operationId e" and F = ?F and G = ?G and
        f = "\<lambda>r. r\<lparr>idoDocument := ?fi (idoDocument r), idoUpdatedAt := ?t\<rparr>" and
        g = "\<lambda>r. ?rc (r\<lparr>odDocument := progressed_operation e p (odDocument r), odUpdatedAt := ?t\<rparr>)"], goal_cases)
    case (6 x y)
    have "y = rv" by (rule unique_keys_eq [OF u]) (use 6 rv in simp_all)
    with 6 show ?case
      by (auto simp: operation_agrees_def progressed_operation_def operationRecovery_def Let_def)
  next
    case 8 show ?case unfolding db' by (rule docs(1)) (simp_all add: progressed_operation_def)
  next
    case 10 show ?case unfolding db' by (rule docs(2)) (simp_all add: progressed_operation_def)
  next
    case 11 show ?case by (simp add: db' snapshots_kept)
  qed (simp_all add: db' keeps_instance_def instance_agrees_def progressed_operation_def operationRecovery_def sizing_of_def)
qed

lemma settleSnapshot_frame [simp]:
  "instances (settleSnapshot c v t d) = instances d" "operations (settleSnapshot c v t d) = operations d"
  "instance_documents (settleSnapshot c v t d) = instance_documents d"
  "operation_documents (settleSnapshot c v t d) = operation_documents d"
  "ipv4_leases (settleSnapshot c v t d) = ipv4_leases d" "idempotency_records (settleSnapshot c v t d) = idempotency_records d"
  "quotas (settleSnapshot c v t d) = quotas d" "ct_outbox (settleSnapshot c v t d) = ct_outbox d"
  by (simp_all add: settleSnapshot_def Let_def split: option.split)

lemma settleSnapshot_snapshots:
  "\<exists>P Q h. (\<forall>x. snId (h x) = snId x \<and> snInstanceId (h x) = snInstanceId x \<and> snName (h x) = snName x \<and>
     snProjectId (h x) = snProjectId x) \<and> snapshots (settleSnapshot c v t d) = filter P (update_where Q h (snapshots d))"
proof (cases "ovTargetType v = ''snapshot'' \<and> complAction c = ''delete_snapshot''")
  case True
  then show ?thesis
    by (intro exI [of _ "\<lambda>r. snId r \<noteq> ovTargetId v"] exI [of _ "\<lambda>_. False"] exI [of _ "\<lambda>x. x"])
      (simp add: settleSnapshot_def Let_def update_where_def)
next
  case False
  then have "snapshots (settleSnapshot c v t d) = snapshots d \<or> snapshots (settleSnapshot c v t d) =
      update_where (\<lambda>r. snId r = ovTargetId v) (\<lambda>r. r\<lparr>snState := ''available'', snUpdatedAt := t\<rparr>) (snapshots d)"
    by (auto simp: settleSnapshot_def Let_def split: option.split)
  then show ?thesis
  proof
    assume "snapshots (settleSnapshot c v t d) = snapshots d"
    then show ?thesis by (simp add: snapshots_kept)
  next
    assume "snapshots (settleSnapshot c v t d) =
      update_where (\<lambda>r. snId r = ovTargetId v) (\<lambda>r. r\<lparr>snState := ''available'', snUpdatedAt := t\<rparr>) (snapshots d)"
    then show ?thesis
      by (intro exI [of _ "\<lambda>_. True"] exI [of _ "\<lambda>r. snId r = ovTargetId v"]
          exI [of _ "\<lambda>r. r\<lparr>snState := ''available'', snUpdatedAt := t\<rparr>"]) (simp add: filter_id_conv)
  qed
qed

lemma applyCompleted_InrE:
  assumes "applyCompleted D e c db = Inr db'"
  obtains rv ri row where
    "lookup_by odOperationId (operationId e) (operation_documents db) = Some rv"
    "lookup_by idoInstanceId (aggregateId e) (instance_documents db) = Some ri"
    "db' = writeDocuments (completed_instance e c row (idoDocument ri)) (completed_operation e (odDocument rv)) (D (occurredAt e))
       (\<lambda>r. (operationRecovery e r)\<lparr>odCheckpoint := Some ''completed'', odTaskReference := None\<rparr>)
       (settleSnapshot c (odDocument rv) (D (occurredAt e))
       (update_operation (operationId e) (completed_operation_row (D (occurredAt e)))
       (update_instance (aggregateId e) (completed_instance_row (D (occurredAt e)) e c) db)))"
  using assms by (auto simp: applyCompleted_def lockDocuments_def Let_def)

lemma applyFailed_InrE:
  assumes "applyFailed D e f db = Inr db'"
  obtains rv ri where
    "lookup_by odOperationId (operationId e) (operation_documents db) = Some rv"
    "lookup_by idoInstanceId (aggregateId e) (instance_documents db) = Some ri"
    "db' = writeDocuments
       ((idoDocument ri)\<lparr>ivLifecycleState := terminal_state f, ivActiveOperationId := None, ivUpdatedAt := occurredAt e\<rparr>)
       (failed_operation e f (odDocument rv)) (D (occurredAt e))
       (\<lambda>r. (operationRecovery e r)\<lparr>odCheckpoint := Some (terminal_state f), odTaskReference := None\<rparr>)
       (update_operation (operationId e) (failed_operation_row (D (occurredAt e)) f)
       (update_instance (aggregateId e) (failed_instance_row (D (occurredAt e)) f) db))"
  using assms by (auto simp: applyFailed_def lockDocuments_def Let_def)

lemma applyCompleted_projects:
  assumes inv: "control_inv db" "read_model_ok db" and run: "applyCompleted D e c db = Inr db'"
  shows "projects True (aggregateId e) db db'"
  using run
proof (rule applyCompleted_InrE)
  let ?t = "D (occurredAt e)"
  let ?rc = "\<lambda>r. (operationRecovery e r)\<lparr>odCheckpoint := Some ''completed'', odTaskReference := None\<rparr>"
  let ?d = "update_operation (operationId e) (completed_operation_row ?t) (update_instance (aggregateId e) (completed_instance_row ?t e c) db)"
  fix rv ri row assume v: "lookup_by odOperationId (operationId e) (operation_documents db) = Some rv"
    and i: "lookup_by idoInstanceId (aggregateId e) (instance_documents db) = Some ri"
    and db': "db' = writeDocuments (completed_instance e c row (idoDocument ri)) (completed_operation e (odDocument rv)) ?t ?rc
      (settleSnapshot c (odDocument rv) ?t ?d)"
  note docs = writeDocuments_found [OF inv i v, of "completed_instance e c row" "completed_operation e"]
  show ?thesis
  proof (rule projected [where op = "operationId e" and F = "completed_instance_row ?t e c" and G = "completed_operation_row ?t" and
        f = "\<lambda>r. r\<lparr>idoDocument := completed_instance e c row (idoDocument r), idoUpdatedAt := ?t\<rparr>" and
        g = "\<lambda>r. ?rc (r\<lparr>odDocument := completed_operation e (odDocument r), odUpdatedAt := ?t\<rparr>)"], goal_cases)
    case 6 then show ?case
      by (simp add: operation_agrees_def completed_operation_def completed_operation_row_def operationRecovery_def
          error_columns_def Let_def)
  next
    case 8 show ?case unfolding db' by (rule docs(1)) (simp_all add: completed_operation_def completed_instance_def)
  next
    case 10 show ?case unfolding db' by (rule docs(2)) (simp_all add: completed_operation_def completed_instance_def)
  next
    case 11 show ?case unfolding db' writeDocuments_sel
      using settleSnapshot_snapshots [of c "odDocument rv" ?t ?d] by simp
  qed (simp_all add: db' keeps_instance_def instance_agrees_def completed_operation_def completed_instance_def
      completed_operation_row_def completed_instance_row_def operationRecovery_def sizing_of_def)
qed

lemma applyFailed_projects:
  assumes inv: "control_inv db" "read_model_ok db" and run: "applyFailed D e c db = Inr db'"
  shows "projects True (aggregateId e) db db'"
  using run
proof (rule applyFailed_InrE)
  let ?t = "D (occurredAt e)" and ?st = "terminal_state c"
  let ?fi = "\<lambda>i. i\<lparr>ivLifecycleState := ?st, ivActiveOperationId := None, ivUpdatedAt := occurredAt e\<rparr>"
  let ?rc = "\<lambda>r. (operationRecovery e r)\<lparr>odCheckpoint := Some ?st, odTaskReference := None\<rparr>"
  fix rv ri assume v: "lookup_by odOperationId (operationId e) (operation_documents db) = Some rv"
    and i: "lookup_by idoInstanceId (aggregateId e) (instance_documents db) = Some ri"
    and db': "db' = writeDocuments (?fi (idoDocument ri)) (failed_operation e c (odDocument rv)) ?t ?rc
       (update_operation (operationId e) (failed_operation_row ?t c) (update_instance (aggregateId e) (failed_instance_row ?t c) db))"
  note docs = writeDocuments_found [OF inv i v, of ?fi "failed_operation e c"]
  show ?thesis
  proof (rule projected [where op = "operationId e" and F = "failed_instance_row ?t c" and G = "failed_operation_row ?t c" and
        f = "\<lambda>r. r\<lparr>idoDocument := ?fi (idoDocument r), idoUpdatedAt := ?t\<rparr>" and
        g = "\<lambda>r. ?rc (r\<lparr>odDocument := failed_operation e c (odDocument r), odUpdatedAt := ?t\<rparr>)"], goal_cases)
    case 6 then show ?case
      by (simp add: operation_agrees_def failed_operation_def failed_operation_row_def operationRecovery_def error_columns_def Let_def)
  next
    case 8 show ?case unfolding db' by (rule docs(1)) (simp_all add: failed_operation_def)
  next
    case 10 show ?case unfolding db' by (rule docs(2)) (simp_all add: failed_operation_def)
  next
    case 11 show ?case by (simp add: db' snapshots_kept)
  qed (simp_all add: db' keeps_instance_def instance_agrees_def failed_operation_def failed_operation_row_def
      failed_instance_row_def operationRecovery_def sizing_of_def)
qed

lemma applyReplayResolved_projects:
  "applyReplayResolved D d db = Inr db' \<Longrightarrow> projects False i db db'"
  by (rule projects_quiet [where f = "\<lambda>x. x" and g = "\<lambda>x. x" and op = i])
    (auto simp: applyReplayResolved_def Let_def update_where_id split: if_splits)

text \<open>The events that end an operation.\<close>

definition terminal_event :: "event \<Rightarrow> bool" where
  "terminal_event e \<longleftrightarrow> schemaName e = ''instance.mutation.completed'' \<or> schemaName e = ''instance.mutation.failed''"

lemma applyEvent_projects:
  assumes "control_inv db" "read_model_ok db" and "applyEvent D e db = Inr db'"
  shows "projects (terminal_event e) (aggregateId e) db db'"
  using assms
  by (auto simp: applyEvent_def terminal_event_def split: if_splits event_data.splits
      intro: applyProgress_projects applyCompleted_projects applyFailed_projects applyReplayResolved_projects)

lemma project_dead_letter_projects: "projects False i db (project_dead_letter D e d db)"
  by (rule projects_quiet [where f = "\<lambda>x. x" and g = "\<lambda>r. r\<lparr>odDeadLetterEventId := Some (dlOriginalEventId d)\<rparr>"
        and op = "operationId e"]) (simp_all add: project_dead_letter_def Let_def update_where_id)

lemma project_drift_projects:
  assumes "control_inv db" "read_model_ok db"
  shows "projects False (aggregateId e) db (project_drift D e cls db)"
proof (cases "lookup_by idoInstanceId (aggregateId e) (instance_documents db)")
  case (Some row)
  have u: "unique_keys idoInstanceId (instance_documents db)" using assms(1) by (simp add: control_inv_defs)
  let ?f = "\<lambda>r. r\<lparr>idoDocument := (idoDocument r)\<lparr>ivDrift := cls, ivLastReconciledAt := Some (occurredAt e),
      ivUpdatedAt := occurredAt e\<rparr>, idoUpdatedAt := D (occurredAt e)\<rparr>"
  show ?thesis
  proof (rule projects_quiet [where f = ?f and g = "\<lambda>x. x" and op = "operationId e"], goal_cases)
    case 3
    show ?case
      using Some by (simp add: project_drift_def) (rule update_where_found [OF u Some], simp)
  qed (simp_all add: project_drift_def Some update_where_id)
qed (simp add: project_drift_def projects_refl)

text \<open>The instance a delivery is about, and whether it ends an operation of it.\<close>

fun delivery_instance :: "delivery \<Rightarrow> uuid" where
  "delivery_instance (Workflow_Record e d) = aggregateId e"
| "delivery_instance (Dead_Letter_Record e d) = aggregateId e"
| "delivery_instance (Drift_Record e d) = aggregateId e"
| "delivery_instance (Poison_Record d i h c m) = []"

fun ends_operation :: "delivery \<Rightarrow> bool" where
  "ends_operation (Workflow_Record e d) = terminal_event e"
| "ends_operation _ = False"

lemma insert_poison_frame: "\<exists>P. snd (insert_poison row db) = db\<lparr>projection_poison := P\<rparr>"
proof (cases "insert_unique poison_source row (projection_poison db)")
  case None
  then show ?thesis by (intro exI [of _ "projection_poison db"]) (simp add: insert_poison_def del: insert_unique_None_iff)
qed (auto simp add: insert_poison_def simp del: insert_unique_Some_iff)

lemma projection_quarantine_projects:
  assumes "projection_quarantine E d i h c m db = Inr (b, db')"
  shows "projects False j db db'"
proof -
  have "\<exists>row. snd (insert_poison row db) = db' \<or>
      (\<exists>cn k y. insertReceipt cn k d (snd (insert_poison row db)) = Inr (y, db'))"
  proof (cases "truthy i")
    case True
    from assms [unfolded projection_quarantine_def Let_def if_P [OF True]] show ?thesis
    proof (rule res_bind_InrE, goal_cases)
      case (1 a)
      then have "snd a = db'" by (cases a) simp
      then obtain x where "a = (x, db')" by (metis prod.collapse)
      from 1(1) [unfolded this] show ?case by blast
    qed
  next
    case False
    from assms [unfolded projection_quarantine_def Let_def if_not_P [OF False]] show ?thesis
      by (metis Inr_inject snd_conv)
  qed
  then obtain row where "snd (insert_poison row db) = db' \<or>
      (\<exists>cn k y. insertReceipt cn k d (snd (insert_poison row db)) = Inr (y, db'))" by blast
  moreover obtain P where P: "snd (insert_poison row db) = db\<lparr>projection_poison := P\<rparr>"
    using insert_poison_frame by blast
  ultimately consider "db' = db\<lparr>projection_poison := P\<rparr>"
    | cn k y where "insertReceipt cn k d (db\<lparr>projection_poison := P\<rparr>) = Inr (y, db')" by auto
  then have "\<exists>R. db' = db\<lparr>projection_poison := P, event_receipts := R\<rparr>"
  proof cases
    case 1
    then show ?thesis by (intro exI [of _ "event_receipts db"]) simp
  next
    case 2
    then show ?thesis
      by (cases y) (auto simp: insertReceipt_def Let_def split: if_split_asm intro: exI [of _ "event_receipts db"])
  qed
  then show ?thesis
    by (elim exE, intro projects_quiet [where f = "\<lambda>x. x" and g = "\<lambda>x. x" and op = j]) (simp_all add: update_where_id)
qed

lemma deliver_projects:
  assumes inv: "control_inv db" "read_model_ok db" and run: "deliver D E d db = Inr (b, db')"
  shows "projects (b \<and> ends_operation d) (delivery_instance d) db db'"
proof (cases d)
  case (Workflow_Record e i)
  have "if b then projects (terminal_event e) (aggregateId e) db db' else db' = db"
    using run unfolding Workflow_Record deliver.simps applyWorkflowEvent_def
    by (rule with_receipt_projects) (use inv in \<open>simp add: applyEvent_projects del: projects_receipts\<close>)
  then show ?thesis by (cases b) (simp_all add: Workflow_Record projects_refl)
next
  case (Dead_Letter_Record e i)
  have "if b then projects False (aggregateId e) db db' else db' = db"
    using run unfolding Dead_Letter_Record deliver.simps applyDeadLetterEvent_def
    by (rule with_receipt_projects) (auto split: event_data.splits simp: project_dead_letter_projects simp del: projects_receipts)
  then show ?thesis by (cases b) (simp_all add: Dead_Letter_Record projects_refl)
next
  case (Drift_Record e i)
  have "if b then projects False (aggregateId e) db db' else db' = db"
    using run unfolding Drift_Record deliver.simps applyDriftEvent_def
    by (rule with_receipt_projects)
      (use inv in \<open>auto split: option.splits simp: project_drift_projects projects_refl simp del: projects_receipts\<close>)
  then show ?thesis by (cases b) (simp_all add: Drift_Record projects_refl)
next
  case (Poison_Record i j h c m)
  with run show ?thesis by (simp add: projection_quarantine_projects)
qed

subsection \<open>What every step keeps\<close>

lemma unique_keys_filter: "unique_keys k rows \<Longrightarrow> unique_keys k (filter P rows)"
  by (simp add: unique_keys_def distinct_map_filter)

lemma projects_refs:
  "projects settling i db db' \<Longrightarrow> map instance_ref (instances db') = map instance_ref (instances db) \<and>
     map opId (operations db') = map opId (operations db)"
  by (erule projects.cases) (auto simp: instance_ref_def keeps_instance_def intro!: map_update_where_key)

lemma projects_control_inv:
  assumes "projects settling i db db'" and inv: "control_inv db"
  shows "control_inv db'"
  using assms(1)
proof cases
  case (projected F f G op g)
  note refs = projects_refs [OF assms(1)]
  have "instances_ok db'" unfolding instances_ok_def
  proof
    show "unique_keys inId (instances db')" using inv projected(1,7)
      by (simp add: control_inv_defs keeps_instance_def unique_keys_update_where)
    have ops: "set (map opId (operations db')) = set (map opId (operations db))" using refs by simp
    show "\<forall>r\<in>set (instances db'). \<forall>op. inActiveOperationId r = Some op \<longrightarrow> op \<in> set (map opId (operations db'))"
    proof (intro ballI allI impI)
      fix r op' assume r: "r \<in> set (instances db')" "inActiveOperationId r = Some op'"
      then obtain x where "x \<in> set (instances db)" "r = x \<or> r = F x" by (auto simp: projected(7) set_update_where)
      moreover from this have "inActiveOperationId x = Some op'"
        using r(2) projected(1) [unfolded keeps_instance_def, rule_format, of x] by (cases settling) auto
      ultimately show "op' \<in> set (map opId (operations db'))" unfolding ops using inv by (simp add: control_inv_defs)
    qed
  qed
  moreover have "operations_ok db'" using inv projected(4,5,9,10,12)
    by (simp add: control_inv_defs unique_keys_update_where)
  moreover have "leases_ok db'" using inv projected(12) refs by (simp add: control_inv_def leases_ok_def)
  moreover have "snapshots_ok db'" using inv projected(11) refs
    by (fastforce simp: control_inv_def snapshots_ok_def unique_keys_filter unique_keys_update_where set_update_where)
  moreover have "documents_ok db'" using inv projected(3,8) refs
    by (auto simp: control_inv_def documents_ok_def unique_keys_update_where set_update_where)
  ultimately show ?thesis by (simp add: control_inv_def)
qed

lemma projects_read_model:
  assumes "projects settling i db db'" and ok: "read_model_ok db"
  shows "read_model_ok db'"
  using assms(1)
proof cases
  case (projected F f G op g)
  have F: "inId (F x) = inId x" for x using projected(1) by (simp add: keeps_instance_def)
  have agree: "instance_agrees (F r) (f d)" if "instance_agrees r d" for r d
    using projected(2) that by (simp add: instance_agrees_def)
  show ?thesis
    unfolding read_model_ok_def projected(7-10) set_update_where
    using ok projected(3-6) agree F by (auto simp: read_model_ok_def)
qed

text \<open>Changes of instance columns that neither free nor move an instance.\<close>

lemma rows_touched:
  assumes "instances db' = update_where P F (instances db)"
    and F: "\<And>x. inId (F x) = inId x \<and> inProjectId (F x) = inProjectId x \<and>
        inActiveOperationId (F x) = inActiveOperationId x \<and> inLifecycleState (F x) = inLifecycleState x"
    and "operations db' = operations db" "instance_documents db' = instance_documents db"
      "operation_documents db' = operation_documents db" "snapshots db' = snapshots db" "ipv4_leases db' = ipv4_leases db"
      "idempotency_records db' = idempotency_records db"
  shows "control_inv db \<Longrightarrow> control_inv db'" and "read_model_ok db \<Longrightarrow> read_model_ok db'"
    and "busy i db' = busy i db"
proof -
  have refs: "map instance_ref (instances db') = map instance_ref (instances db)"
    using F by (simp add: assms(1) instance_ref_def map_update_where_key)
  show "control_inv db'" if "control_inv db"
    using that assms(3-) refs F unfolding control_inv_def
    by (auto simp: instances_ok_def operations_ok_def leases_ok_def snapshots_ok_def documents_ok_def assms(1)
        unique_keys_update_where set_update_where)
  show "read_model_ok db'" if "read_model_ok db"
    using that assms(3-) F by (auto simp: read_model_ok_def assms(1) set_update_where instance_agrees_def)
  show "busy i db' = busy i db"
    unfolding busy_def assms(1) bex_update_where using F by (intro bex_cong) (auto split: if_splits)
qed

lemma recorded_operations:
  assumes "recorded sc h r e db db'"
  obtains op doc where "opId op = acOperationId r" "odOperationId doc = acOperationId r" "operation_agrees op doc"
    "operations db' = operations db @ [op]" "operation_documents db' = operation_documents db @ [doc]"
    "acOperationId r \<notin> set (map opId (operations db))" "acOperationId r \<notin> set (map odOperationId (operation_documents db))"
  using assms unfolding recorded_def lookup_by_None_iff by blast

lemma operation_agrees_id: "operation_agrees r d \<Longrightarrow> ovId (odDocument d) = odOperationId d"
  by (simp add: operation_agrees_def Let_def)

definition documents_agree :: "pg \<Rightarrow> bool" where
  "documents_agree db \<longleftrightarrow> (\<forall>d \<in> set (instance_documents db). ivId (idoDocument d) = idoInstanceId d \<and>
     (\<forall>r \<in> set (instances db). inId r = idoInstanceId d \<longrightarrow> instance_agrees r d))"

definition operations_agree :: "pg \<Rightarrow> bool" where
  "operations_agree db \<longleftrightarrow> (\<forall>d \<in> set (operation_documents db). ovId (odDocument d) = odOperationId d \<and>
     (\<forall>r \<in> set (operations db). opId r = odOperationId d \<longrightarrow> operation_agrees r d))"

lemma read_model_split: "read_model_ok db \<longleftrightarrow> documents_agree db \<and> operations_agree db"
  by (simp add: read_model_ok_def documents_agree_def operations_agree_def)

lemma recorded_operations_agree:
  assumes "recorded sc h r e db db'" and "operations_agree db"
  shows "operations_agree db'"
  using assms(1)
proof (rule recorded_operations)
  fix op doc
  assume a: "opId op = acOperationId r" "odOperationId doc = acOperationId r" "operation_agrees op doc"
    "operations db' = operations db @ [op]" "operation_documents db' = operation_documents db @ [doc]"
    "acOperationId r \<notin> set (map opId (operations db))" "acOperationId r \<notin> set (map odOperationId (operation_documents db))"
  then show ?thesis
    using assms(2) operation_agrees_id [OF a(3)] unfolding operations_agree_def a(4,5)
    by (fastforce simp: image_iff)
qed

lemma accepts_read_model:
  assumes "accepts sc h r e db db'" and ok: "read_model_ok db"
  shows "read_model_ok db'"
  using assms(1)
proof cases
  case (created row doc)
  have "instance_agrees row doc" using created(4,16) by (simp add: instance_agrees_def)
  then have "documents_agree db'"
    using ok created(7,12,14,17) unfolding read_model_split documents_agree_def created(8,13) lookup_by_None_iff
    by (fastforce simp: image_iff)
  with recorded_operations_agree [OF created(1)] ok show ?thesis by (simp add: read_model_split)
next
  case (changed row f t)
  have f: "inId (f x) = inId x" "inActiveOperationId (f x) = Some (acOperationId r)" for x
    using changed(7) by (simp_all add: busy_change_def)
  have "documents_agree db'"
    using ok f unfolding read_model_split documents_agree_def changed(8,11) markInstanceBusyInProjection_def
    by (auto simp: set_update_where instance_agrees_def)
  with recorded_operations_agree [OF changed(1)] ok show ?thesis by (simp add: read_model_split)
qed

lemma request_step_read_model: "request_step db db' \<Longrightarrow> read_model_ok db \<Longrightarrow> read_model_ok db'"
proof (induction rule: request_step.induct)
  case (step_accept sc h r e db db')
  then show ?case by (rule accepts_read_model)
next
  case (step_reconcile db' i db)
  then show ?case
    by - (rule rows_touched(2) [where db = db and F = "\<lambda>r. r\<lparr>inLastReconciledAt := None\<rparr>" and P = "\<lambda>r. inId r = i"], simp_all)
qed (simp_all add: read_model_ok_def)

lemma claimStaleInstances_touches:
  "\<exists>P. instances (snd (claimStaleInstances E limit s db)) = update_where P (\<lambda>r. r\<lparr>inLastReconciledAt := Some (now E)\<rparr>) (instances db)"
proof (cases "filter (observable db) (stale_instances limit s db) = []")
  case True
  then show ?thesis by (intro exI [of _ "\<lambda>_. False"]) (simp add: claimStaleInstances_def Let_def update_where_def)
qed (auto simp: claimStaleInstances_def Let_def)

lemma claimStaleInstances_frame:
  "\<exists>rows. snd (claimStaleInstances E limit s db) = db\<lparr>instances := rows\<rparr>"
proof (cases "filter (observable db) (stale_instances limit s db) = []")
  case True
  then have "snd (claimStaleInstances E limit s db) = db" by (simp add: claimStaleInstances_def Let_def)
  then show ?thesis by (intro exI [of _ "instances db"]) simp
qed (auto simp: claimStaleInstances_def Let_def)

lemma recordObservation_frame:
  assumes "recordObservation E tp out db = Inr db'"
  obtains ob where "db' = update_instance (roInstanceId out)
      (\<lambda>r. r\<lparr>inDrift := roDrift out, inObserved := Some (observed_columns out (inObserved r)),
         inLastReconciledAt := Some (roObservedAt out), inUpdatedAt := now E\<rparr>) db\<lparr>ct_outbox := ct_outbox db @ ob\<rparr>"
    "\<And>x. x \<in> set ob \<Longrightarrow> obTopic x = ''reconciliation.events.v1''"
proof -
  from assms consider "roDrift out = ''none''" | oid e t where "writeControlOutbox oid e ''reconciliation.events.v1'' t
     (update_instance (roInstanceId out) (\<lambda>r. r\<lparr>inDrift := roDrift out, inObserved := Some (observed_columns out (inObserved r)),
         inLastReconciledAt := Some (roObservedAt out), inUpdatedAt := now E\<rparr>) db) = Inr db'"
    by (auto simp: recordObservation_def Let_def split: if_splits)
  then show thesis
  proof cases
    case 1
    with assms show thesis by (intro that [of "[]"]) (auto simp: recordObservation_def Let_def update_instance_def)
  next
    case 2
    then show thesis by (intro that) (auto simp: writeControlOutbox_Inr update_instance_def command_row_def)
  qed
qed

subsection \<open>The invariant of the whole history\<close>

definition system_inv :: "pg \<Rightarrow> bool" where
  "system_inv db \<longleftrightarrow> control_inv db \<and> read_model_ok db"

lemma committed_cases: "committed db r = db \<or> (\<exists>a. r = Inr (a, committed db r))"
  by (cases r) (auto simp: committed_def)

lemma claimStaleInstances_tables:
  "operations (snd (claimStaleInstances E l s db)) = operations db"
  "instance_documents (snd (claimStaleInstances E l s db)) = instance_documents db"
  "operation_documents (snd (claimStaleInstances E l s db)) = operation_documents db"
  "snapshots (snd (claimStaleInstances E l s db)) = snapshots db"
  "ipv4_leases (snd (claimStaleInstances E l s db)) = ipv4_leases db"
  "idempotency_records (snd (claimStaleInstances E l s db)) = idempotency_records db"
  "ct_outbox (snd (claimStaleInstances E l s db)) = ct_outbox db"
  using claimStaleInstances_frame [of E l s db] by auto

text \<open>Both writes of the reconciler touch rows only.\<close>

lemma reconciler_keeps:
  assumes "s = Claim_Stale E l t \<or> s = Record_Observation E tp out"
  shows "system_inv db \<Longrightarrow> system_inv (run_step D s db)" and "busy i (run_step D s db) = busy i db"
    and "lifecycle_commands_for i (run_step D s db) = lifecycle_commands_for i db"
proof -
  have "(system_inv db \<longrightarrow> system_inv (run_step D s db)) \<and> busy i (run_step D s db) = busy i db \<and>
      lifecycle_commands_for i (run_step D s db) = lifecycle_commands_for i db"
    using assms
  proof
    assume s: "s = Claim_Stale E l t"
    obtain P where P: "instances (snd (claimStaleInstances E l t db)) =
        update_where P (\<lambda>r. r\<lparr>inLastReconciledAt := Some (now E)\<rparr>) (instances db)"
      using claimStaleInstances_touches by blast
    note k = rows_touched [OF P]
    show ?thesis unfolding s run_step.simps system_inv_def
      using k(1) k(2) k(3) by (simp add: claimStaleInstances_tables lifecycle_commands_for_def)
  next
    assume s: "s = Record_Observation E tp out"
    show ?thesis
    proof (cases "recordObservation E tp out db")
      case (Inr db')
      then show ?thesis
      proof (rule recordObservation_frame)
        let ?F = "\<lambda>r. r\<lparr>inDrift := roDrift out, inObserved := Some (observed_columns out (inObserved r)),
         inLastReconciledAt := Some (roObservedAt out), inUpdatedAt := now E\<rparr>"
        fix ob assume db': "db' = update_instance (roInstanceId out) ?F db\<lparr>ct_outbox := ct_outbox db @ ob\<rparr>"
          and ob: "\<And>x. x \<in> set ob \<Longrightarrow> obTopic x = ''reconciliation.events.v1''"
        have i: "instances db' = update_where (\<lambda>r. inId r = roInstanceId out) ?F (instances db)" by (simp add: db')
        note k = rows_touched [OF i]
        have "filter (\<lambda>c. obTopic c = ''provisioning.commands.v1'' \<and> aggregateId (obPayload c) = i \<and>
            schemaName (obPayload c) \<noteq> ''provisioning.replay.requested'') ob = []"
          using ob by (auto simp: filter_empty_conv)
        then have "lifecycle_commands_for i db' = lifecycle_commands_for i db" by (simp add: lifecycle_commands_for_def db')
        moreover have "busy i db' = busy i db" by (rule k(3)) (simp_all add: db')
        moreover have "control_inv db \<Longrightarrow> control_inv db'" by (rule k(1)) (simp_all add: db')
        moreover have "read_model_ok db \<Longrightarrow> read_model_ok db'" by (rule k(2)) (simp_all add: db')
        ultimately show ?thesis by (simp add: s Inr system_inv_def)
      qed
    qed (simp add: s)
  qed
  then show "system_inv db \<Longrightarrow> system_inv (run_step D s db)" "busy i (run_step D s db) = busy i db"
    "lifecycle_commands_for i (run_step D s db) = lifecycle_commands_for i db" by auto
qed

text \<open>The steps that may publish a request for a replay.\<close>

fun asks_replay :: "step \<Rightarrow> bool" where
  "asks_replay (Serve E g (Replay_Request c)) = True"
| "asks_replay s = False"

lemma reconciler_replays:
  assumes "s = Claim_Stale E l t \<or> s = Record_Observation E tp out"
  shows "replay_requests_for i (run_step D s db) = replay_requests_for i db"
  using assms
proof
  assume "s = Claim_Stale E l t"
  then show ?thesis by (simp add: claimStaleInstances_tables replay_requests_for_def)
next
  assume s: "s = Record_Observation E tp out"
  show ?thesis
  proof (cases "recordObservation E tp out db")
    case (Inr db')
    then show ?thesis
      by (rule recordObservation_frame) (auto simp: s Inr replay_requests_for_def filter_empty_conv update_instance_def)
  qed (simp add: s)
qed

lemma serve_replays:
  assumes "\<not> asks_replay (Serve E g q)"
  shows "replay_requests_for i (committed db (serve E g q db)) = replay_requests_for i db"
proof (cases "serve E g q db")
  case (Inr res)
  obtain a db' where res: "res = (a, db')" by fastforce
  show ?thesis
  proof (cases "request_scope q")
    case None
    with assms obtain actor i' where "q = Reconcile_Request actor i'" by (cases q) auto
    with Inr have "ct_outbox db' = ct_outbox db"
      by (cases "authorizeAdministrator actor")
        (auto simp: requestReconciliation_def res store_requestReconciliation_def update_instance_def split: if_split_asm)
    then show ?thesis by (simp add: committed_def Inr res replay_requests_for_def)
  next
    case (Some sc)
    from serve_refines [OF Inr [unfolded res] Some] show ?thesis
      by (auto simp: accepted_or_replayed_def Inr res committed_def elim!: accepts.cases dest: recorded_replays [of _ _ _ _ _ _ i])
  qed
qed (simp add: committed_def)

lemma serve_committed: "request_step db (committed db (serve E g q db))"
  using committed_cases [of db "serve E g q db"] serve_step step_none by metis

lemma deliver_committed:
  assumes "system_inv db"
  shows "(\<exists>db'. deliver D E d db = Inr (True, db') \<and> committed db (deliver D E d db) = db' \<and>
       projects (ends_operation d) (delivery_instance d) db db') \<or>
     ((\<nexists>db'. deliver D E d db = Inr (True, db')) \<and>
       projects False (delivery_instance d) db (committed db (deliver D E d db)))"
proof (cases "deliver D E d db")
  case (Inl e)
  then show ?thesis by (simp add: committed_def projects_refl)
next
  case (Inr r)
  obtain b db' where r: "r = (b, db')" by (cases r)
  from deliver_projects [OF _ _ Inr [unfolded r]] assms show ?thesis
    by (cases b) (simp_all add: Inr r committed_def system_inv_def)
qed

lemma run_step_system_inv:
  assumes "system_inv db"
  shows "system_inv (run_step D s db)"
proof (cases s)
  case (Serve E g q)
  with assms show ?thesis
    using serve_committed [of db E g q] request_step_inv request_step_read_model by (auto simp: system_inv_def)
next
  case (Deliver E d)
  with assms deliver_committed [OF assms, of D E d] show ?thesis
    using projects_control_inv projects_read_model by (auto simp: system_inv_def)
qed (use assms reconciler_keeps(1) in blast)+

lemma run_steps_system_inv: "system_inv db \<Longrightarrow> system_inv (run_steps D ss db)"
  by (induction ss arbitrary: db) (simp_all add: run_step_system_inv)

subsection \<open>Who frees an instance\<close>

text \<open>A step settles an operation of an instance when it delivers a terminal event for the first time.\<close>

fun settles_now :: "(string \<Rightarrow> millis) \<Rightarrow> uuid \<Rightarrow> step \<Rightarrow> pg \<Rightarrow> bool" where
  "settles_now D i (Deliver E d) db = (ends_operation d \<and> delivery_instance d = i \<and>
     (case deliver D E d db of Inr (True, _) \<Rightarrow> True | _ \<Rightarrow> False))"
| "settles_now D i _ db = False"

fun settlements :: "(string \<Rightarrow> millis) \<Rightarrow> uuid \<Rightarrow> step list \<Rightarrow> pg \<Rightarrow> nat" where
  "settlements D i [] db = 0"
| "settlements D i (s # ss) db = (if settles_now D i s db then 1 else 0) + settlements D i ss (run_step D s db)"

lemma projects_busy:
  assumes "projects settling i db db'"
  shows "busy j db' = (busy j db \<and> \<not> (settling \<and> j = i))" and "lifecycle_commands_for j db' = lifecycle_commands_for j db"
proof -
  have "busy j db' = (busy j db \<and> \<not> (settling \<and> j = i)) \<and> lifecycle_commands_for j db' = lifecycle_commands_for j db"
    using assms
  proof cases
    case (projected F f G op g)
    have F: "inId (F x) = inId x" "inActiveOperationId (F x) = (if settling then None else inActiveOperationId x)" for x
      using projected(1) by (simp_all add: keeps_instance_def)
    have "busy j db' = (busy j db \<and> \<not> (settling \<and> j = i))"
      unfolding busy_def projected(7) bex_update_where using F by (auto split: if_splits)
    with projected(12) show ?thesis by (simp add: lifecycle_commands_for_def)
  qed
  then show "busy j db' = (busy j db \<and> \<not> (settling \<and> j = i))" "lifecycle_commands_for j db' = lifecycle_commands_for j db" by auto
qed

lemma run_step_in_flight:
  assumes "system_inv db"
  shows "in_flight_bound i (run_step D s db) \<le> in_flight_bound i db + (if settles_now D i s db then 1 else 0)"
proof (cases s)
  case (Serve E g q)
  with assms show ?thesis
    using request_step_in_flight [OF serve_committed [of db E g q], of i] by (simp add: system_inv_def)
next
  case (Deliver E d)
  from deliver_committed [OF assms, of D E d] show ?thesis
  proof (elim disjE exE conjE)
    fix db' assume a: "deliver D E d db = Inr (True, db')" "committed db (deliver D E d db) = db'"
      and p: "projects (ends_operation d) (delivery_instance d) db db'"
    show ?thesis
      using projects_busy [OF p, of i] a by (auto simp: Deliver in_flight_bound_def)
  next
    assume "projects False (delivery_instance d) db (committed db (deliver D E d db))"
    from projects_busy [OF this, of i] show ?thesis by (simp add: Deliver in_flight_bound_def)
  qed
qed (simp_all add: in_flight_bound_def reconciler_keeps(2,3) del: run_step.simps)

lemma run_steps_in_flight:
  "system_inv db \<Longrightarrow> in_flight_bound i (run_steps D ss db) \<le> in_flight_bound i db + settlements D i ss db"
proof (induction ss arbitrary: db)
  case (Cons s ss)
  show ?case
    using run_step_in_flight [OF Cons.prems, of i D s] Cons.IH [OF run_step_system_inv [OF Cons.prems], of D s]
    by simp
qed simp

lemma deliver_replays:
  assumes "projects settling j db db'"
  shows "replay_requests_for i db' = replay_requests_for i db"
  using assms by cases (simp add: replay_requests_for_def)

lemma run_step_replays:
  assumes "system_inv db"
  shows "length (replay_requests_for i (run_step D s db)) \<le> length (replay_requests_for i db) + (if asks_replay s then 1 else 0)"
    and "\<not> asks_replay s \<Longrightarrow> replay_requests_for i (run_step D s db) = replay_requests_for i db"
proof -
  have same: "replay_requests_for i (run_step D s db) = replay_requests_for i db" if "\<not> asks_replay s"
  proof (cases s)
    case (Serve E g q)
    with serve_replays that show ?thesis by simp
  next
    case (Deliver E d)
    then show ?thesis using deliver_committed [OF assms, of D E d] deliver_replays by auto
  qed (use reconciler_replays in blast)+
  then show "\<not> asks_replay s \<Longrightarrow> replay_requests_for i (run_step D s db) = replay_requests_for i db" .
  show "length (replay_requests_for i (run_step D s db)) \<le> length (replay_requests_for i db) + (if asks_replay s then 1 else 0)"
  proof (cases "asks_replay s")
    case True
    then obtain E g c where "s = Serve E g (Replay_Request c)" by (cases s rule: asks_replay.cases) auto
    then show ?thesis using request_step_replays [OF serve_committed [of db E g "Replay_Request c"], of i] by simp
  qed (simp add: same)
qed

lemma run_steps_replays:
  "system_inv db \<Longrightarrow> length (replay_requests_for i (run_steps D ss db)) \<le>
     length (replay_requests_for i db) + length (filter asks_replay ss)"
proof (induction ss arbitrary: db)
  case (Cons s ss)
  show ?case
    using run_step_replays(1) [OF Cons.prems, of i D s] Cons.IH [OF run_step_system_inv [OF Cons.prems], of D s]
    by (cases "asks_replay s") simp_all
qed simp

lemma run_steps_no_replays:
  "system_inv db \<Longrightarrow> \<forall>s \<in> set ss. \<not> asks_replay s \<Longrightarrow> replay_requests_for i (run_steps D ss db) = replay_requests_for i db"
  by (induction ss arbitrary: db) (simp_all add: run_step_replays(2) run_step_system_inv)

subsection \<open>An instance in manual review\<close>

definition parked :: "uuid \<Rightarrow> pg \<Rightarrow> bool" where
  "parked i db \<longleftrightarrow> i \<in> set (map inId (instances db)) \<and>
     (\<forall>r \<in> set (instances db). inId r = i \<longrightarrow> inLifecycleState r = ''manual_review'' \<and> inActiveOperationId r = None)"

fun reports_on :: "uuid \<Rightarrow> step \<Rightarrow> bool" where
  "reports_on i (Deliver E (Workflow_Record e d)) = (aggregateId e = i)"
| "reports_on i _ = False"

lemma parked_touched:
  assumes "instances db' = update_where P F (instances db)"
    and "\<And>x. P x \<Longrightarrow> inId x = i \<Longrightarrow> inId (F x) = i \<and> inLifecycleState (F x) = inLifecycleState x \<and>
      inActiveOperationId (F x) = inActiveOperationId x"
    and "\<And>x. P x \<Longrightarrow> inId (F x) = inId x"
    and "parked i db"
  shows "parked i db'"
  unfolding parked_def
proof (intro conjI ballI impI)
  have "map inId (instances db') = map inId (instances db)"
    unfolding assms(1) update_where_def using assms(3) by simp
  with assms(4) show "i \<in> set (map inId (instances db'))" by (simp add: parked_def)
next
  fix r assume "r \<in> set (instances db')" "inId r = i"
  then obtain x where x: "x \<in> set (instances db)" "r = (if P x then F x else x)"
    by (auto simp: assms(1) set_update_where)
  with \<open>inId r = i\<close> assms(3) have "inId x = i" by (auto split: if_splits)
  with x assms(2,4) show "inLifecycleState r = ''manual_review''" "inActiveOperationId r = None"
    by (auto simp: parked_def)
qed

lemma parked_accepts:
  assumes "accepts sc h r e db db'" and "parked i db"
  shows "parked i db' \<and> aggregateId e \<noteq> i"
  using assms(1)
proof cases
  case (created row doc)
  with assms(2) show ?thesis by (auto simp: parked_def lookup_by_None_iff)
next
  case (changed row f t)
  have ne: "inId row \<noteq> i" using changed(4,6) assms(2) by (auto simp: parked_def)
  have "inId (f x) = inId x" for x using changed(7) by (simp add: busy_change_def)
  with ne have "parked i db'" by (intro parked_touched [OF changed(8)] assms(2)) auto
  with ne changed(2) show ?thesis by simp
qed

lemma parked_request:
  "request_step db db' \<Longrightarrow> parked i db \<Longrightarrow> parked i db' \<and> lifecycle_commands_for i db' = lifecycle_commands_for i db"
proof (induction rule: request_step.induct)
  case (step_accept sc h r e db db')
  have "recorded sc h r e db db'" using step_accept(1) by (auto elim: accepts.cases)
  from recorded_commands [OF this, of i] parked_accepts [OF step_accept] show ?case by auto
next
  case (step_replay cmd aud db' db rr entry)
  then show ?case by (simp add: lifecycle_commands_for_def parked_def)
next
  case (step_reconcile db' j db)
  have "parked i db'"
    using step_reconcile
    by - (rule parked_touched [where P = "\<lambda>r. inId r = j" and F = "\<lambda>r. r\<lparr>inLastReconciledAt := None\<rparr>" and db = db], simp_all)
  then show ?case by (simp add: step_reconcile(1) lifecycle_commands_for_def update_instance_def)
qed simp

lemma with_receipt_instances:
  assumes "with_receipt consumer j d body db = Inr (b, db')"
    and "\<And>d1 d2. body d1 = Inr d2 \<Longrightarrow> instances d2 = instances d1"
  shows "instances db' = instances db"
proof -
  from assms(1) obtain fresh db1 where i: "insertReceipt consumer j d db = Inr (fresh, db1)"
      and b: "\<not> fresh \<and> db' = db1 \<or> body db1 = Inr db'"
    by (auto simp: with_receipt_def split: if_split_asm)
  have "instances db1 = instances db"
    using i by (auto simp: insertReceipt_def Let_def split: if_split_asm)
  with b assms(2) show ?thesis by auto
qed

text \<open>Only a workflow event moves an instance row.\<close>

lemma deliver_instances:
  assumes "deliver D E d db = Inr (b, db')" and "\<And>e j. d \<noteq> Workflow_Record e j"
  shows "instances db' = instances db"
proof (cases d)
  case (Dead_Letter_Record e j)
  from assms(1) show ?thesis
    unfolding Dead_Letter_Record deliver.simps applyDeadLetterEvent_def
    by (rule with_receipt_instances) (auto simp: project_dead_letter_def Let_def split: event_data.splits)
next
  case (Drift_Record e j)
  from assms(1) show ?thesis
    unfolding Drift_Record deliver.simps applyDriftEvent_def
    by (rule with_receipt_instances) (auto simp: project_drift_def split: option.splits)
next
  case (Poison_Record j i h c m)
  with assms(1) projection_quarantine_projects [of E j i h c m db b db' "[]"] show ?thesis
    using insert_poison_frame
    by (auto simp: projection_quarantine_def Let_def insertReceipt_def insert_poison_def split: if_split_asm option.split_asm)
qed (use assms(2) in blast)

lemma parked_step:
  assumes inv: "system_inv db" and parked: "parked i db" and quiet: "\<not> reports_on i s"
  shows "parked i (run_step D s db) \<and> lifecycle_commands_for i (run_step D s db) = lifecycle_commands_for i db"
proof (cases s)
  case (Serve E g q)
  with parked parked_request [OF serve_committed [of db E g q]] show ?thesis by simp
next
  case (Deliver E d)
  have cmds: "lifecycle_commands_for i (run_step D s db) = lifecycle_commands_for i db"
    using deliver_committed [OF inv, of D E d] projects_busy(2) by (auto simp: Deliver)
  show ?thesis
  proof (cases "\<exists>e j. d = Workflow_Record e j")
    case True
    then obtain e j where d: "d = Workflow_Record e j" by blast
    then have ne: "aggregateId e \<noteq> i" using quiet by (simp add: Deliver)
    from deliver_committed [OF inv, of D E d] obtain st where
      p: "projects st (aggregateId e) db (committed db (deliver D E d db))" by (auto simp: d)
    from p have "parked i (committed db (deliver D E d db))"
    proof cases
      case (projected F f G op g)
      show ?thesis
        using parked ne projected(1) by (intro parked_touched [OF projected(7)]) (auto simp: keeps_instance_def)
    qed
    with cmds show ?thesis by (simp add: Deliver)
  next
    case False
    then have "instances (committed db (deliver D E d db)) = instances db"
      using committed_cases [of db "deliver D E d db"] deliver_instances [of D E d db] by metis
    with parked cmds show ?thesis by (simp add: Deliver parked_def)
  qed
next
  case (Claim_Stale E l t)
  obtain P where P: "instances (run_step D s db) = update_where P (\<lambda>r. r\<lparr>inLastReconciledAt := Some (now E)\<rparr>) (instances db)"
    using claimStaleInstances_touches [of E l t db] by (auto simp: Claim_Stale)
  have "parked i (run_step D s db)" by (rule parked_touched [OF P]) (use parked in simp_all)
  then show ?thesis by (simp add: Claim_Stale reconciler_keeps(3) del: run_step.simps)
next
  case (Record_Observation E tp out)
  have "parked i (run_step D s db)"
  proof (cases "recordObservation E tp out db")
    case (Inr db')
    then show ?thesis
    proof (rule recordObservation_frame)
      fix ob let ?F = "\<lambda>r. r\<lparr>inDrift := roDrift out, inObserved := Some (observed_columns out (inObserved r)),
         inLastReconciledAt := Some (roObservedAt out), inUpdatedAt := now E\<rparr>"
      assume "db' = update_instance (roInstanceId out) ?F db\<lparr>ct_outbox := ct_outbox db @ ob\<rparr>"
      then have i: "instances db' = update_where (\<lambda>r. inId r = roInstanceId out) ?F (instances db)" by simp
      have "parked i db'" by (rule parked_touched [OF i]) (use parked in simp_all)
      then show ?thesis by (simp add: Record_Observation Inr)
    qed
  qed (use parked in \<open>simp add: Record_Observation\<close>)
  then show ?thesis by (simp add: Record_Observation reconciler_keeps(3) del: run_step.simps)
qed

lemma parked_steps:
  assumes "system_inv db" and "parked i db" and "\<And>s. s \<in> set ss \<Longrightarrow> \<not> reports_on i s"
  shows "parked i (run_steps D ss db) \<and> lifecycle_commands_for i (run_steps D ss db) = lifecycle_commands_for i db"
  using assms
proof (induction ss arbitrary: db)
  case (Cons s ss)
  have s: "parked i (run_step D s db)" "lifecycle_commands_for i (run_step D s db) = lifecycle_commands_for i db"
    using parked_step [OF Cons.prems(1,2)] Cons.prems(3) by auto
  show ?case
    using Cons.IH [OF run_step_system_inv [OF Cons.prems(1)] s(1)] Cons.prems(3) s(2) by simp
qed simp

subsection \<open>Receipts\<close>

text \<open>The identity under which a delivery is received once.\<close>

fun delivery_key :: "delivery \<Rightarrow> (string \<times> uuid \<times> int) option" where
  "delivery_key (Workflow_Record e d) = Some (EVENT_CONSUMER_NAME, eventId e, replayGeneration d)"
| "delivery_key (Dead_Letter_Record e d) = Some (DLQ_CONSUMER_NAME, eventId e, replayGeneration d)"
| "delivery_key (Drift_Record e d) = Some (DRIFT_CONSUMER_NAME, eventId e, replayGeneration d)"
| "delivery_key (Poison_Record d i h c m) = None"

definition received :: "pg \<Rightarrow> (string \<times> uuid \<times> int) set" where
  "received db = inbox_key ` set (event_receipts db)"

lemma receipts_frame [simp]:
  "event_receipts (writeDocuments iv ov t rc d) = event_receipts d"
  "event_receipts (update_operation op G d) = event_receipts d" "event_receipts (update_instance i F d) = event_receipts d"
  "event_receipts (settleSnapshot c v t d) = event_receipts d" "event_receipts (project_dead_letter D e dl d) = event_receipts d"
  "event_receipts (project_drift D e cls d) = event_receipts d"
  by (simp_all add: writeDocuments_def update_operation_def update_instance_def settleSnapshot_def project_dead_letter_def
      project_drift_def Let_def split: option.split)

lemma applyEvent_receipts: "applyEvent D e d1 = Inr d2 \<Longrightarrow> event_receipts d2 = event_receipts d1"
  by (auto simp: applyEvent_def applyProgress_def applyCompleted_def applyFailed_def applyReplayResolved_def lockDocuments_def
      Let_def split: if_split_asm event_data.splits)

lemma insertReceipt_received:
  "insertReceipt consumer i d db = Inr (b, db') \<Longrightarrow>
     received db' = insert (consumer, i, replayGeneration d) (received db) \<and> (b \<longrightarrow> (consumer, i, replayGeneration d) \<notin> received db)"
  by (auto simp: insertReceipt_def received_def inbox_key_def Let_def image_iff split: if_split_asm)

lemma with_receipt_known:
  "(consumer, i, replayGeneration d) \<in> received db \<Longrightarrow> with_receipt consumer i d body db = Inr (False, db)"
  by (auto simp: with_receipt_def insertReceipt_def received_def inbox_key_def Let_def)

lemma with_receipt_received:
  assumes "with_receipt consumer i d body db = Inr (b, db')"
    and "\<And>d1 d2. body d1 = Inr d2 \<Longrightarrow> event_receipts d2 = event_receipts d1"
  shows "received db' = insert (consumer, i, replayGeneration d) (received db)"
proof -
  from assms(1) obtain fresh db1 where i: "insertReceipt consumer i d db = Inr (fresh, db1)"
      and b: "\<not> fresh \<and> db' = db1 \<or> body db1 = Inr db'"
    by (auto simp: with_receipt_def split: if_split_asm)
  from b assms(2) have "received db' = received db1" by (auto simp: received_def)
  with insertReceipt_received [OF i] show ?thesis by simp
qed

lemma deliver_received:
  assumes "deliver D E d db = Inr (b, db')"
  shows "received db \<subseteq> received db' \<and> (\<forall>k. delivery_key d = Some k \<longrightarrow> k \<in> received db')"
proof (cases d)
  case (Workflow_Record e j)
  from assms have "received db' = insert (EVENT_CONSUMER_NAME, eventId e, replayGeneration j) (received db)"
    unfolding Workflow_Record deliver.simps applyWorkflowEvent_def
    by (rule with_receipt_received) (rule applyEvent_receipts)
  then show ?thesis by (auto simp: Workflow_Record)
next
  case (Dead_Letter_Record e j)
  from assms have "received db' = insert (DLQ_CONSUMER_NAME, eventId e, replayGeneration j) (received db)"
    unfolding Dead_Letter_Record deliver.simps applyDeadLetterEvent_def
    by (rule with_receipt_received) (auto split: event_data.splits)
  then show ?thesis by (auto simp: Dead_Letter_Record)
next
  case (Drift_Record e j)
  from assms have "received db' = insert (DRIFT_CONSUMER_NAME, eventId e, replayGeneration j) (received db)"
    unfolding Drift_Record deliver.simps applyDriftEvent_def
    by (rule with_receipt_received) (auto split: option.splits)
  then show ?thesis by (auto simp: Drift_Record)
next
  case (Poison_Record j i h c m)
  have "received (snd (insert_poison row db)) = received db" for row
    using insert_poison_frame [of row db] by (auto simp: received_def)
  with assms show ?thesis
    by (auto simp: Poison_Record projection_quarantine_def Let_def dest!: insertReceipt_received split: if_split_asm)
      (metis snd_conv)+
qed

lemma request_step_received: "request_step db db' \<Longrightarrow> received db' = received db"
proof (induction rule: request_step.induct)
  case (step_accept sc h r e db db')
  have "recorded sc h r e db db'" using step_accept(1) by (auto elim: accepts.cases)
  then show ?case by (simp add: recorded_def same_catalog_def received_def)
qed (simp_all add: received_def)

lemma run_step_received: "received db \<subseteq> received (run_step D s db)"
proof (cases s)
  case (Serve E g q)
  then show ?thesis using request_step_received [OF serve_committed [of db E g q]] by simp
next
  case (Deliver E d)
  then show ?thesis using deliver_received [of D E d db] committed_cases [of db "deliver D E d db"] by auto
next
  case (Claim_Stale E l t)
  then show ?thesis using claimStaleInstances_frame [of E l t db] by (auto simp: received_def)
next
  case (Record_Observation E tp out)
  show ?thesis
  proof (cases "recordObservation E tp out db")
    case (Inr db')
    then show ?thesis by (rule recordObservation_frame) (simp add: Record_Observation Inr received_def)
  qed (simp add: Record_Observation)
qed

lemma run_steps_received: "received db \<subseteq> received (run_steps D ss db)"
proof (induction ss arbitrary: db)
  case (Cons s ss)
  from run_step_received [of db D s] Cons.IH [of "run_step D s db"] show ?case by auto
qed simp

lemma deliver_known:
  "delivery_key d = Some k \<Longrightarrow> k \<in> received db \<Longrightarrow> deliver D E d db = Inr (False, db)"
  by (cases d) (auto simp: applyWorkflowEvent_def applyDeadLetterEvent_def applyDriftEvent_def with_receipt_known)

end
