(* ===== verification/System_Properties.thy ===== *)
theory System_Properties
  imports Control_History Control_Samples Provider_Samples
begin

section \<open>Properties of the control plane as a whole\<close>

text \<open>
  The properties that span the application, the projection and the reconciler: what histories of
  requests, deliveries and findings keep, what a terminal event does, and what a sweep may touch. The
  lemmas are those of \<open>Control_History\<close>.
\<close>

subsection \<open>Concrete tables and events\<close>

definition sample_busy_row :: instance_row where
  "sample_busy_row = sample_row\<lparr>inActiveOperationId := Some sample_operation\<rparr>"

definition sample_document :: instance_view where
  "sample_document = \<lparr>ivId = sample_instance, ivProjectId = sample_project, ivLifecycleState = ''active'',
     ivDesired = \<lparr>dvImageId = ''ubuntu-24'', dvFlavorId = ''small'', dvNetworkId = ''lab-net'', dvHostname = ''web-1'',
       dvPowerState = ''running'', dvRetentionRequested = False\<rparr>,
     ivObserved = None,
     ivIpv4Lease = \<lparr>lvAddress = ''10.20.0.2'', lvPrefixLength = Some 24, lvGateway = ''10.20.0.1'', lvState = ''active''\<rparr>,
     ivActiveOperationId = Some sample_operation, ivDrift = ''none'', ivLastReconciledAt = None,
     ivRetentionDeadline = None, ivPurgeEligible = False, ivCreatedAt = ''t0'', ivUpdatedAt = ''t0''\<rparr>"

definition sample_busy_pg :: pg where
  "sample_busy_pg = sample_pg\<lparr>instances := [sample_busy_row],
     operations := [accepted_operation sample_operation sample_project ''power_instance'' ''instance'' sample_instance 0],
     instance_documents := [\<lparr>idoInstanceId = sample_instance, idoProjectId = sample_project,
       idoDocument = sample_document, idoUpdatedAt = 0\<rparr>],
     operation_documents := [accepted_document sample_instance_command
       (accepted_view sample_operation sample_project ''power_instance'' ''instance'' sample_instance ''t0'') 0]\<rparr>"

definition sample_failed :: event where
  "sample_failed = sample_completed\<lparr>schemaName := ''instance.mutation.failed'',
     data := Failed \<lparr>failAction = ''power_instance'', failFailure = \<lparr>category = ''unknown_outcome'', code = ''PROVIDER_ABORTED'',
       safeMessage = ''unknown'', retryAfterMilliseconds = None\<rparr>, failCompensationState = ''not_required''\<rparr>\<rparr>"

lemmas sample_busy_defs = sample_busy_pg_def sample_busy_row_def sample_document_def accepted_operation_def
  accepted_document_def accepted_view_def sample_control_defs

lemma sample_busy_inv: "system_inv sample_busy_pg"
proof -
  have "control_inv sample_busy_pg"
    by (simp add: control_inv_defs sample_busy_defs unique_keys_def instance_ref_def)
  moreover have "read_model_ok sample_busy_pg"
    by (simp add: read_model_ok_def sample_busy_defs instance_agrees_def operation_agrees_def error_columns_def)
  ultimately show ?thesis by (simp add: system_inv_def)
qed

definition sample_date :: "string \<Rightarrow> millis" where
  "sample_date t = 3000"

lemma sample_completed_applied:
  "\<exists>db'. applyWorkflowEvent sample_date sample_completed sample_delivery sample_busy_pg = Inr (True, db')"
  by (simp add: applyWorkflowEvent_def with_receipt_def insertReceipt_def sample_busy_defs sample_completed_def applyEvent_def
      applyCompleted_def lockDocuments_def Let_def)

lemma sample_failed_applied:
  "\<exists>db'. applyWorkflowEvent sample_date sample_failed sample_delivery sample_busy_pg = Inr (True, db')"
  by (simp add: applyWorkflowEvent_def with_receipt_def insertReceipt_def sample_busy_defs sample_failed_def
      sample_completed_def applyEvent_def applyFailed_def lockDocuments_def Let_def)

subsection \<open>Histories\<close>

text \<open>
  C22. Every history of requests, deliveries and reconciliations keeps the tables consistent and the read
  model in agreement with the rows: the document of an instance names the operation its row names,
  and its lifecycle state when the instance is idle; the document of an operation tells the state,
  stage, progress, error and review flag of its row.
\<close>

theorem read_model_follows_tables:
  "system_inv db \<Longrightarrow> system_inv (run_steps D ss db)"
  by (rule run_steps_system_inv)

theorem read_model_follows_tables_witness:
  "system_inv (run_steps sample_date [Deliver (sample_env_at 10 5000) (Workflow_Record sample_completed sample_delivery),
     Serve (sample_control_env 10 5000) [] (Power_Request sample_power)] sample_busy_pg)"
  by (rule read_model_follows_tables [OF sample_busy_inv])



text \<open>
  A record is applied once: after a delivery was received, every later delivery of the same event
  and replay generation to the same consumer, after any history, is answered as a duplicate and
  changes nothing, whatever its position in the topic.
\<close>

theorem redelivery_changes_nothing:
  assumes "deliver D E d db = Inr (b, db1)" and "delivery_key d = Some k" and "delivery_key d' = Some k"
  shows "deliver D E' d' (run_steps D ss db1) = Inr (False, run_steps D ss db1)"
proof (rule deliver_known [OF assms(3)])
  show "k \<in> received (run_steps D ss db1)"
    using deliver_received [OF assms(1)] assms(2) run_steps_received [of db1 D ss] by auto
qed

theorem redelivery_changes_nothing_witness:
  "\<exists>db1. deliver sample_date (sample_env_at 10 5000) (Workflow_Record sample_completed sample_delivery) sample_busy_pg = Inr (True, db1) \<and>
     deliver sample_date (sample_env_at 20 6000) (Workflow_Record sample_completed (sample_delivery\<lparr>offset := ''9''\<rparr>))
       (run_steps sample_date [] db1) = Inr (False, run_steps sample_date [] db1)"
proof -
  obtain db1 where run: "deliver sample_date (sample_env_at 10 5000) (Workflow_Record sample_completed sample_delivery)
      sample_busy_pg = Inr (True, db1)"
    using sample_completed_applied by auto
  have k: "delivery_key (Workflow_Record sample_completed sample_delivery) = Some (EVENT_CONSUMER_NAME, sample_uuid 30, 0)"
    "delivery_key (Workflow_Record sample_completed (sample_delivery\<lparr>offset := ''9''\<rparr>)) = Some (EVENT_CONSUMER_NAME, sample_uuid 30, 0)"
    by (simp_all add: sample_completed_def sample_delivery_def)
  from redelivery_changes_nothing [OF run k] run show ?thesis by blast
qed

subsection \<open>Terminal events\<close>

text \<open>The lifecycle state and the operation state a terminal event announces.\<close>

definition outcome_states :: "event \<Rightarrow> string \<times> string" where
  "outcome_states e = (case data e of Completed c \<Rightarrow> (complLifecycleState c, ''succeeded'')
     | Failed f \<Rightarrow> (terminal_state f, terminal_state f) | _ \<Rightarrow> ([], []))"

definition rows_settled :: "(string \<Rightarrow> millis) \<Rightarrow> event \<Rightarrow> pg \<Rightarrow> pg \<Rightarrow> bool" where
  "rows_settled D e db db' \<longleftrightarrow>
     (\<forall>r \<in> set (instances db'). inId r = aggregateId e \<longrightarrow>
        inActiveOperationId r = None \<and> inLifecycleState r = fst (outcome_states e)) \<and>
     (\<forall>r \<in> set (operations db'). opId r = operationId e \<longrightarrow>
        opState r = snd (outcome_states e) \<and> opCompletedAt r = Some (D (occurredAt e))) \<and>
     filter (\<lambda>r. inId r \<noteq> aggregateId e) (instances db') = filter (\<lambda>r. inId r \<noteq> aggregateId e) (instances db) \<and>
     filter (\<lambda>r. opId r \<noteq> operationId e) (operations db') = filter (\<lambda>r. opId r \<noteq> operationId e) (operations db)"

definition documents_settled :: "event \<Rightarrow> pg \<Rightarrow> bool" where
  "documents_settled e db' \<longleftrightarrow>
     (\<exists>d \<in> set (instance_documents db'). idoInstanceId d = aggregateId e \<and>
        ivActiveOperationId (idoDocument d) = None \<and> ivLifecycleState (idoDocument d) = fst (outcome_states e)) \<and>
     (\<exists>d \<in> set (operation_documents db'). odOperationId d = operationId e \<and>
        ovState (odDocument d) = snd (outcome_states e) \<and> ovCompletedAt (odDocument d) = Some (occurredAt e) \<and>
        odTaskReference d = None)"

lemma filter_update_ne:
  "(\<And>x. k (f x) = k x) \<Longrightarrow> filter (\<lambda>r. k r \<noteq> i) (update_where (\<lambda>r. k r = i) f rows) = filter (\<lambda>r. k r \<noteq> i) rows"
  by (induction rows) auto

lemma rows_settledI:
  assumes "instances db' = update_where (\<lambda>r. inId r = aggregateId e) F (instances db)"
    and "operations db' = update_where (\<lambda>r. opId r = operationId e) G (operations db)"
    and "\<And>x. inId (F x) = inId x \<and> inActiveOperationId (F x) = None \<and> inLifecycleState (F x) = fst (outcome_states e)"
    and "\<And>x. opId (G x) = opId x \<and> opState (G x) = snd (outcome_states e) \<and> opCompletedAt (G x) = Some (D (occurredAt e))"
  shows "rows_settled D e db db'"
  using assms(3,4) unfolding rows_settled_def assms(1,2)
  by (auto simp: set_update_where filter_update_ne)

text \<open>The documents written at the end of a terminal event.\<close>

lemma documents_settledI:
  assumes "lookup_by idoInstanceId (aggregateId e) (instance_documents db) = Some ri"
    and "lookup_by odOperationId (operationId e) (operation_documents db) = Some rv"
    and "instance_documents d = instance_documents db" "operation_documents d = operation_documents db"
    and "ivId iv = aggregateId e" "ivActiveOperationId iv = None" "ivLifecycleState iv = fst (outcome_states e)"
    and "ovId ov = operationId e" "ovState ov = snd (outcome_states e)" "ovCompletedAt ov = Some (occurredAt e)"
    and "\<And>r. odOperationId (rc r) = odOperationId r \<and> odDocument (rc r) = odDocument r \<and> odTaskReference (rc r) = None"
  shows "documents_settled e (writeDocuments iv ov t rc d)"
proof -
  from lookup_by_SomeD [OF assms(1)] have "ri\<lparr>idoDocument := iv, idoUpdatedAt := t\<rparr> \<in> set (instance_documents (writeDocuments iv ov t rc d))"
    unfolding writeDocuments_def by (auto simp: assms(3,5) set_update_where image_iff intro!: bexI [of _ ri])
  moreover from lookup_by_SomeD [OF assms(2)] have
    "rc (rv\<lparr>odDocument := ov, odUpdatedAt := t\<rparr>) \<in> set (operation_documents (writeDocuments iv ov t rc d))"
    unfolding writeDocuments_def by (auto simp: assms(4,8) set_update_where image_iff intro!: bexI [of _ rv])
  ultimately show ?thesis
    unfolding documents_settled_def
    using assms(6,7,9-) lookup_by_SomeD [OF assms(1)] lookup_by_SomeD [OF assms(2)]
    by (auto intro!: bexI [of _ "ri\<lparr>idoDocument := iv, idoUpdatedAt := t\<rparr>"]
        bexI [of _ "rc (rv\<lparr>odDocument := ov, odUpdatedAt := t\<rparr>)"])
qed

lemma applyCompleted_settles:
  assumes ok: "read_model_ok db" and c: "data e = Completed c" and run: "applyCompleted D e c db = Inr db'"
  shows "rows_settled D e db db' \<and> documents_settled e db'"
  using run
proof (rule applyCompleted_InrE, goal_cases)
  case (1 rv ri row)
  have out: "outcome_states e = (complLifecycleState c, ''succeeded'')" by (simp add: outcome_states_def c)
  note ids = document_found(1) [OF ok 1(2)] document_found(2) [OF ok 1(1)]
  have "rows_settled D e db db'"
    by (rule rows_settledI [where F = "completed_instance_row (D (occurredAt e)) e c" and G = "completed_operation_row (D (occurredAt e))"])
      (simp_all add: 1(3) out completed_instance_row_def completed_operation_row_def)
  moreover have "documents_settled e db'"
    unfolding 1(3) by (rule documents_settledI [OF 1(2,1)])
      (use ids in \<open>simp_all add: out completed_instance_def completed_operation_def operationRecovery_def\<close>)
  ultimately show ?case by simp
qed

lemma applyFailed_settles:
  assumes ok: "read_model_ok db" and f: "data e = Failed f" and run: "applyFailed D e f db = Inr db'"
  shows "rows_settled D e db db' \<and> documents_settled e db'"
  using run
proof (rule applyFailed_InrE, goal_cases)
  case (1 rv ri)
  have out: "outcome_states e = (terminal_state f, terminal_state f)" by (simp add: outcome_states_def f)
  note ids = document_found(1) [OF ok 1(2)] document_found(2) [OF ok 1(1)]
  have "rows_settled D e db db'"
    by (rule rows_settledI [where F = "failed_instance_row (D (occurredAt e)) f" and G = "failed_operation_row (D (occurredAt e)) f"])
      (simp_all add: 1(3) out failed_instance_row_def failed_operation_row_def)
  moreover have "documents_settled e db'"
    unfolding 1(3) by (rule documents_settledI [OF 1(2,1)])
      (use ids in \<open>simp_all add: out failed_operation_def operationRecovery_def\<close>)
  ultimately show ?case by simp
qed

text \<open>An applied event ran on the tables with its receipt.\<close>

lemma applyWorkflowEvent_applied:
  assumes "applyWorkflowEvent D e d db = Inr (True, db')"
  obtains rs where "applyEvent D e (db\<lparr>event_receipts := rs\<rparr>) = Inr db'"
proof -
  from assms obtain db1 where "insertReceipt EVENT_CONSUMER_NAME (eventId e) d db = Inr (True, db1)" "applyEvent D e db1 = Inr db'"
    by (auto simp: applyWorkflowEvent_def with_receipt_def split: if_split_asm)
  moreover from this(1) have "db1 = db\<lparr>event_receipts := event_receipts db1\<rparr>" by (auto dest: insertReceipt_Inr)
  ultimately show thesis using that by metis
qed

text \<open>
  A terminal event settles its operation: once applied, every row of the instance is free in the
  lifecycle state the event announces, the operation is closed at the time of the event with the
  matching state, the two read documents say the same, and no other instance or operation changed.
\<close>

theorem terminal_event_settles:
  assumes "system_inv db" and "terminal_event e" and "applyWorkflowEvent D e d db = Inr (True, db')"
  shows "rows_settled D e db db' \<and> documents_settled e db'"
  using assms(3)
proof (rule applyWorkflowEvent_applied)
  fix rs assume run: "applyEvent D e (db\<lparr>event_receipts := rs\<rparr>) = Inr db'"
  have ok: "read_model_ok (db\<lparr>event_receipts := rs\<rparr>)" using assms(1) by (simp add: system_inv_def)
  have "rows_settled D e (db\<lparr>event_receipts := rs\<rparr>) db' \<and> documents_settled e db'"
    using run assms(2) applyCompleted_settles [OF ok] applyFailed_settles [OF ok]
    by (auto simp: applyEvent_def terminal_event_def split: if_split_asm event_data.splits)
  then show ?thesis by (simp add: rows_settled_def)
qed

theorem terminal_event_settles_witness:
  "\<exists>db'. applyWorkflowEvent sample_date sample_completed sample_delivery sample_busy_pg = Inr (True, db') \<and>
     rows_settled sample_date sample_completed sample_busy_pg db' \<and> documents_settled sample_completed db'"
proof -
  obtain db' where run: "applyWorkflowEvent sample_date sample_completed sample_delivery sample_busy_pg = Inr (True, db')"
    using sample_completed_applied by blast
  have "terminal_event sample_completed" by (simp add: terminal_event_def sample_completed_def)
  from terminal_event_settles [OF sample_busy_inv this run] run show ?thesis by blast
qed

text \<open>
  C23. An ambiguous outcome stops the instance: after a failure whose outcome is unknown, that asks for
  review or whose compensation is unsafe has been applied, no history of requests, reconciliations
  and deliveries without a further workflow event of the instance publishes a lifecycle command for it, and
  the instance stays free and in manual review. Only an administrator who asks for the replay of a dead
  letter can still have something published for it; without such a request nothing is.
\<close>

theorem ambiguous_failure_stops_instance:
  assumes "system_inv db" and "schemaName e = ''instance.mutation.failed''" and "data e = Failed f" and "needs_review f"
    and "aggregateId e \<in> set (map inId (instances db))" and "applyWorkflowEvent D e d db = Inr (True, db1)"
    and "\<forall>s \<in> set ss. \<not> reports_on (aggregateId e) s"
  shows "parked (aggregateId e) (run_steps D ss db1) \<and>
     lifecycle_commands_for (aggregateId e) (run_steps D ss db1) = lifecycle_commands_for (aggregateId e) db \<and>
     ((\<forall>s \<in> set ss. \<not> asks_replay s) \<longrightarrow>
        replay_requests_for (aggregateId e) (run_steps D ss db1) = replay_requests_for (aggregateId e) db)"
proof -
  let ?i = "aggregateId e"
  have run: "deliver D E (Workflow_Record e d) db = Inr (True, db1)" for E using assms(6) by simp
  have proj: "projects True ?i db db1"
    using deliver_projects [OF _ _ run] assms(1,2) by (simp add: system_inv_def terminal_event_def)
  have inv: "system_inv db1"
    using projects_control_inv [OF proj] projects_read_model [OF proj] assms(1) by (simp add: system_inv_def)
  have "rows_settled D e db db1 \<and> documents_settled e db1"
    by (rule terminal_event_settles [OF assms(1) _ assms(6)]) (simp add: terminal_event_def assms(2))
  moreover have "map inId (instances db1) = map inId (instances db)"
    using projects_refs [OF proj] by (metis (no_types, lifting) comp_apply fst_conv instance_ref_def map_map map_eq_conv)
  ultimately have "parked ?i db1"
    using assms(3-5) by (auto simp: parked_def rows_settled_def outcome_states_def terminal_state_def)
  from parked_steps [OF inv this] assms(7) projects_busy(2) [OF proj, of ?i] deliver_replays [OF proj, of ?i]
    run_steps_no_replays [OF inv, of ss ?i D]
  show ?thesis by auto
qed

theorem ambiguous_failure_stops_instance_witness:
  "\<exists>db1. applyWorkflowEvent sample_date sample_failed sample_delivery sample_busy_pg = Inr (True, db1) \<and>
     parked sample_instance (run_steps sample_date
       [Serve (sample_control_env 10 5000) [] (Power_Request sample_power)] db1) \<and>
     lifecycle_commands_for sample_instance (run_steps sample_date
       [Serve (sample_control_env 10 5000) [] (Power_Request sample_power)] db1) = []"
proof -
  let ?ss = "[Serve (sample_control_env 10 5000) [] (Power_Request sample_power)]"
  obtain db1 where run: "applyWorkflowEvent sample_date sample_failed sample_delivery sample_busy_pg = Inr (True, db1)"
    using sample_failed_applied by blast
  obtain f where e: "schemaName sample_failed = ''instance.mutation.failed''" "data sample_failed = Failed f" "needs_review f"
    by (simp add: sample_failed_def needs_review_def)
  have i: "aggregateId sample_failed \<in> set (map inId (instances sample_busy_pg))" "aggregateId sample_failed = sample_instance"
    by (simp_all add: sample_failed_def sample_completed_def sample_busy_defs)
  have q: "\<forall>s \<in> set ?ss. \<not> reports_on (aggregateId sample_failed) s" by simp
  have "lifecycle_commands_for sample_instance sample_busy_pg = []" by (simp add: lifecycle_commands_for_def sample_busy_defs)
  with ambiguous_failure_stops_instance [OF sample_busy_inv e i(1) run q] run show ?thesis
    unfolding i(2) by metis
qed

subsection \<open>Reconciliation\<close>

text \<open>
  The tables with the columns a reconciliation may write (drift, observation, time of the last
  reconciliation and of the last change), and the outbox, erased.
\<close>

definition unreconciled :: "pg \<Rightarrow> pg" where
  "unreconciled db = db\<lparr>instances := map (\<lambda>r. r\<lparr>inDrift := [], inObserved := None, inLastReconciledAt := None,
     inUpdatedAt := 0\<rparr>) (instances db), ct_outbox := []\<rparr>"

definition publishes_drift :: "pg \<Rightarrow> pg \<Rightarrow> bool" where
  "publishes_drift db db' \<longleftrightarrow> (\<exists>rows. ct_outbox db' = ct_outbox db @ rows \<and>
     (\<forall>x \<in> set rows. obTopic x = ''reconciliation.events.v1'' \<and> schemaName (obPayload x) = ''drift.detected'' \<and>
        (\<exists>c dgr ev. data (obPayload x) = DriftDetected c dgr ev \<and> c \<noteq> ''none'')))"

lemma publishes_drift_refl [simp]: "publishes_drift db db"
  by (simp add: publishes_drift_def)

lemma publishes_drift_trans: "publishes_drift a b \<Longrightarrow> publishes_drift b c \<Longrightarrow> publishes_drift a c"
proof -
  assume a: "publishes_drift a b" and b: "publishes_drift b c"
  from a obtain xs where xs: "ct_outbox b = ct_outbox a @ xs" "\<forall>x \<in> set xs. obTopic x = ''reconciliation.events.v1'' \<and>
      schemaName (obPayload x) = ''drift.detected'' \<and> (\<exists>c dgr ev. data (obPayload x) = DriftDetected c dgr ev \<and> c \<noteq> ''none'')"
    unfolding publishes_drift_def by blast
  from b obtain ys where ys: "ct_outbox c = ct_outbox b @ ys" "\<forall>x \<in> set ys. obTopic x = ''reconciliation.events.v1'' \<and>
      schemaName (obPayload x) = ''drift.detected'' \<and> (\<exists>c dgr ev. data (obPayload x) = DriftDetected c dgr ev \<and> c \<noteq> ''none'')"
    unfolding publishes_drift_def by blast
  from xs ys show "publishes_drift a c" unfolding publishes_drift_def by (intro exI [of _ "xs @ ys"]) auto
qed

lemma recordObservation_reports:
  assumes "recordObservation E tp out db = Inr db'"
  shows "unreconciled db' = unreconciled db \<and> publishes_drift db db'"
proof (cases "roDrift out = ''none''")
  case True
  with assms show ?thesis
    by (auto simp: recordObservation_def Let_def update_instance_def unreconciled_def update_where_def publishes_drift_def)
next
  case False
  with assms show ?thesis
    by (auto simp: recordObservation_def Let_def writeControlOutbox_Inr update_instance_def unreconciled_def update_where_def
        publishes_drift_def command_row_def drift_event_def)
qed

lemma reconcile_reports:
  "unreconciled (snd (reconcile pv E tp c s)) = unreconciled (snd s) \<and> publishes_drift (snd s) (snd (reconcile pv E tp c s))"
  using recordObservation_reports
  by (fastforce simp: reconcile_def split: prod.split sum.split)

lemma reconcile_all_reports:
  "unreconciled (snd (reconcile_all pv Es cs s)) = unreconciled (snd s) \<and> publishes_drift (snd s) (snd (reconcile_all pv Es cs s))"
proof (induction pv Es cs s rule: reconcile_all.induct)
  case (1 pv E tp Es c cs s)
  with reconcile_reports [of pv E tp c s] show ?case by (auto intro: publishes_drift_trans)
qed simp_all

text \<open>
  C24. Reconciliation only reports: a sweep writes nothing but the drift, the observation, the reconciliation
  time and the change time (\<^verbatim>\<open>updated_at\<close>) of instances, every event it publishes is a drift finding, and it is the same sweep whatever
  the provider does on a mutation, because it sends none.
\<close>

theorem reconciliation_only_reports:
  "unreconciled (snd (sweep pv E Es s)) = unreconciled (snd s) \<and> publishes_drift (snd s) (snd (sweep pv E Es s)) \<and>
   sweep (pv\<lparr>pvMutate := mu, pvGetTask := gt, pvListSnapshots := ls\<rparr>) E Es s = sweep pv E Es s"
proof -
  let ?pv = "pv\<lparr>pvMutate := mu, pvGetTask := gt, pvListSnapshots := ls\<rparr>"
  obtain cs db where claim: "claimStaleInstances E BATCH_SIZE (now E - STALE_AFTER_MS) (snd s) = (cs, db)" by fastforce
  then have "unreconciled db = unreconciled (snd s) \<and> ct_outbox db = ct_outbox (snd s)"
    by (auto simp: claimStaleInstances_def Let_def unreconciled_def update_where_def split: if_split_asm)
  then have "unreconciled (snd (sweep pv E Es s)) = unreconciled (snd s) \<and> publishes_drift (snd s) (snd (sweep pv E Es s))"
    using reconcile_all_reports [of pv Es cs "(fst s, db)"] by (simp add: sweep_def claim publishes_drift_def)
  moreover have "reconcile ?pv = reconcile pv" by (simp add: reconcile_def fun_eq_iff)
  then have "reconcile_all ?pv Es cs x = reconcile_all pv Es cs x" for x
    by (induction pv Es cs x rule: reconcile_all.induct) simp_all
  then have "sweep ?pv E Es s = sweep pv E Es s" by (simp add: sweep_def claim)
  ultimately show ?thesis by simp
qed

end
