(* ===== verification/Plan_Gate.thy ===== *)
theory Plan_Gate
  imports Json
begin

section \<open>The Terraform plan gate\<close>

text \<open>
  Model of \<^verbatim>\<open>packages/provider-adapters/src/terraform/plan-gate.ts\<close>: the pure function that decides from
  the parsed output of \<^verbatim>\<open>terraform show -json\<close> whether a plan may be applied. An action is text, as in
  the plan; an absent member is \<open>None\<close>. The fields the gate does not read are left out. The counts are an
  association list in the order \<^verbatim>\<open>Object.entries\<close> yields them; an action that is spelled like a
  property every object inherits has no counter of its own there.
\<close>

datatype path_segment = SegmentText string | SegmentIndex int

record plan_change =
  pcAddress :: "string option"
  pcActionReason :: "string option"
  pcActions :: "string list option"
  pcReplacePaths :: "path_segment list list option"

record terraform_plan =
  tpErrored :: bool
  tpResourceChanges :: "plan_change list option"

datatype gate_decision = Allowed | RefusedDestructive

record gate_objection =
  gbAddress :: string
  gbActions :: "string list"
  gbActionReason :: "string option"
  gbReplacePaths :: "string list option"

record gate_result =
  grDecision :: gate_decision
  grRule :: "string option"
  grActionCounts :: "(string \<times> nat) list"
  grObjections :: "gate_objection list"
  grSummary :: string

definition PERMITTED_ACTIONS :: "string list" where
  "PERMITTED_ACTIONS = [''no-op'', ''create'', ''read'', ''update'']"

definition DESTRUCTIVE_ACTION :: string where
  "DESTRUCTIVE_ACTION = ''delete''"

definition COUNTED_ACTIONS :: "string list" where
  "COUNTED_ACTIONS = [''no-op'', ''create'', ''read'', ''update'', ''delete'', ''replace'']"

definition change_actions :: "plan_change \<Rightarrow> string list" where
  "change_actions c = (case pcActions c of None \<Rightarrow> [] | Some acts \<Rightarrow> acts)"

definition change_address :: "plan_change \<Rightarrow> string" where
  "change_address c = (case pcAddress c of None \<Rightarrow> ''unknown'' | Some a \<Rightarrow> a)"

definition plan_changes :: "terraform_plan \<Rightarrow> plan_change list" where
  "plan_changes p = (case tpResourceChanges p of None \<Rightarrow> [] | Some cs \<Rightarrow> cs)"

subsection \<open>Counts\<close>

fun bump :: "string \<Rightarrow> (string \<times> nat) list \<Rightarrow> (string \<times> nat) list" where
  "bump a [] = [(a, 1)]"
| "bump a ((b, n) # counts) = (if a = b then (b, n + 1) # counts else (b, n) # bump a counts)"

definition count_change :: "plan_change \<Rightarrow> (string \<times> nat) list \<Rightarrow> (string \<times> nat) list" where
  "count_change c counts =
     (let acts = change_actions c in
      fold bump acts
        (if List.member acts ''delete'' \<and> List.member acts ''create'' then bump ''replace'' counts else counts))"

definition countActions :: "plan_change list \<Rightarrow> (string \<times> nat) list" where
  "countActions cs = fold count_change cs (map (\<lambda>a. (a, 0)) COUNTED_ACTIONS)"

subsection \<open>Objections\<close>

fun joined :: "string \<Rightarrow> string list \<Rightarrow> string" where
  "joined sep [] = []"
| "joined sep [x] = x"
| "joined sep (x # xs) = x @ sep @ joined sep xs"

fun segment_text :: "path_segment \<Rightarrow> string" where
  "segment_text (SegmentText s) = s"
| "segment_text (SegmentIndex n) = show_int n"

definition renderPath :: "path_segment list \<Rightarrow> string" where
  "renderPath p = joined ''.'' (map segment_text p)"

definition unrecognised :: "plan_change \<Rightarrow> string list" where
  "unrecognised c = filter (\<lambda>a. \<not> List.member PERMITTED_ACTIONS a \<and> a \<noteq> DESTRUCTIVE_ACTION) (change_actions c)"

text \<open>The rule and the objection a change raises, if it raises one.\<close>

definition objection_to :: "string option \<Rightarrow> plan_change \<Rightarrow> (string \<times> gate_objection) option" where
  "objection_to allowDestroyOf c =
     (if unrecognised c \<noteq> [] then
        Some (''unrecognised_action'', \<lparr>gbAddress = change_address c, gbActions = change_actions c,
          gbActionReason = None, gbReplacePaths = None\<rparr>)
      else if \<not> List.member (change_actions c) DESTRUCTIVE_ACTION then None
      else if allowDestroyOf = Some (change_address c) then None
      else Some (case pcActionReason c of None \<Rightarrow> ''delete_not_permitted'' | Some r \<Rightarrow> r,
        \<lparr>gbAddress = change_address c, gbActions = change_actions c,
          gbActionReason = (case pcActionReason c of Some r \<Rightarrow> if r = [] then None else Some r | None \<Rightarrow> None),
          gbReplacePaths = map_option (map renderPath) (pcReplacePaths c)\<rparr>))"

text \<open>The loop over the changes: the first rule is kept (\<^verbatim>\<open>??=\<close>), the objections are collected.\<close>

fun objections_of :: "string option \<Rightarrow> plan_change list \<Rightarrow> string option \<times> gate_objection list" where
  "objections_of allow [] = (None, [])"
| "objections_of allow (c # cs) =
     (case objection_to allow c of
        None \<Rightarrow> objections_of allow cs
      | Some (r, ob) \<Rightarrow> (Some r, ob # snd (objections_of allow cs)))"

definition objection_text :: "gate_objection \<Rightarrow> string" where
  "objection_text ob = gbAddress ob @ '': '' @ joined ''+'' (gbActions ob) @
     (case gbActionReason ob of None \<Rightarrow> [] | Some r \<Rightarrow> '' ('' @ r @ '')'') @
     (case gbReplacePaths ob of None \<Rightarrow> []
      | Some ps \<Rightarrow> if ps = [] then [] else '' forced by '' @ joined '', '' ps)"

definition refused :: "string \<Rightarrow> string \<Rightarrow> gate_result" where
  "refused rule summary = \<lparr>grDecision = RefusedDestructive, grRule = Some rule, grActionCounts = [],
     grObjections = [], grSummary = summary\<rparr>"

definition described :: "(string \<times> nat) list \<Rightarrow> string" where
  "described counts = joined '' '' (map (\<lambda>(a, n). a @ ''='' @ show_int (int n)) (filter (\<lambda>(a, n). n > 0) counts))"

definition evaluatePlan :: "terraform_plan option \<Rightarrow> string option \<Rightarrow> gate_result" where
  "evaluatePlan plan allowDestroyOf =
     (case plan of
        None \<Rightarrow> refused ''unparseable_plan''
          ''The plan could not be read. Refusing, because a gate that guesses is not a gate.''
      | Some p \<Rightarrow>
          if tpErrored p then refused ''errored_plan''
            ''Terraform marked this plan as errored. Nothing is applied from an errored plan.''
          else
            (let cs = plan_changes p; counts = countActions cs; raised = objections_of allowDestroyOf cs in
             if snd raised = [] then
               \<lparr>grDecision = Allowed, grRule = None, grActionCounts = counts, grObjections = [],
                grSummary = (if cs = [] then ''No changes.''
                  else ''Allowed: '' @ (if described counts = [] then ''no-op'' else described counts) @ ''.'')\<rparr>
             else
               \<lparr>grDecision = RefusedDestructive,
                grRule = (case fst raised of Some r \<Rightarrow> if r = [] then None else Some r | None \<Rightarrow> None),
                grActionCounts = counts, grObjections = snd raised,
                grSummary = ''Refused, this plan would destroy a provider resource. '' @
                  joined ''; '' (map objection_text (snd raised))\<rparr>))"

definition isRecoverableByUntaint :: "gate_result \<Rightarrow> bool" where
  "isRecoverableByUntaint r \<longleftrightarrow> grDecision r = RefusedDestructive \<and> grObjections r \<noteq> [] \<and>
     list_all (\<lambda>ob. gbActionReason ob = Some ''replace_because_tainted'') (grObjections r)"

subsection \<open>What the gate lets through\<close>

text \<open>A change that leaves its resource in place.\<close>

definition harmless :: "plan_change \<Rightarrow> bool" where
  "harmless c \<longleftrightarrow> set (change_actions c) \<subseteq> {''no-op'', ''create'', ''read'', ''update''}"

lemma unrecognised_empty:
  "unrecognised c = [] \<longleftrightarrow> set (change_actions c) \<subseteq> {''no-op'', ''create'', ''read'', ''update'', ''delete''}"
  unfolding unrecognised_def filter_empty_conv PERMITTED_ACTIONS_def DESTRUCTIVE_ACTION_def List.member_iff by auto

lemma harmless_iff:
  "harmless c \<longleftrightarrow> unrecognised c = [] \<and> ''delete'' \<notin> set (change_actions c)"
  unfolding unrecognised_empty harmless_def by auto

lemma objection_to_None:
  "objection_to allow c = None \<longleftrightarrow> harmless c \<or>
     (allow = Some (change_address c) \<and> set (change_actions c) \<subseteq> {''no-op'', ''create'', ''read'', ''update'', ''delete''})"
  unfolding harmless_iff unrecognised_empty [symmetric] objection_to_def DESTRUCTIVE_ACTION_def List.member_iff by simp

lemma objections_of_empty: "snd (objections_of allow cs) = [] \<longleftrightarrow> list_all (\<lambda>c. objection_to allow c = None) cs"
  by (induction cs) (auto split: option.splits)

lemma bump_other: "a \<noteq> b \<Longrightarrow> map_of (bump a counts) b = map_of counts b"
  by (induction counts rule: bump.induct) auto

lemma fold_bump_other: "b \<notin> set acts \<Longrightarrow> map_of (fold bump acts counts) b = map_of counts b"
  by (induction acts arbitrary: counts) (auto simp: bump_other)

lemma count_harmless:
  "harmless c \<Longrightarrow> b \<in> {''delete'', ''replace''} \<Longrightarrow> map_of (count_change c counts) b = map_of counts b"
  by (auto simp: count_change_def harmless_def List.member_iff Let_def intro!: fold_bump_other)

lemma countActions_harmless:
  assumes "list_all harmless cs" and "b \<in> {''delete'', ''replace''}"
  shows "map_of (countActions cs) b = Some 0"
proof -
  have "map_of (fold count_change cs counts) b = map_of counts b" for counts
    using assms(1) by (induction cs arbitrary: counts) (simp_all add: count_harmless [OF _ assms(2)])
  then show ?thesis using assms(2) by (auto simp: countActions_def COUNTED_ACTIONS_def)
qed

text \<open>
  C25. The plan gate spares every resource but the one it was told to destroy: a plan is allowed exactly
  when it was read, is not marked as errored, and every change of it either only creates, reads,
  updates or leaves alone, or uses these and deletions at the one address the caller named. Without a
  named address an allowed plan counts no deletion and no replacement.
\<close>

theorem gate_spares_other_resources:
  "(grDecision (evaluatePlan plan allow) = Allowed \<longleftrightarrow>
      (\<exists>p. plan = Some p \<and> \<not> tpErrored p \<and>
        (\<forall>c \<in> set (plan_changes p). harmless c \<or>
           (allow = Some (change_address c) \<and>
            set (change_actions c) \<subseteq> {''no-op'', ''create'', ''read'', ''update'', ''delete''})))) \<and>
   (grDecision (evaluatePlan plan None) = Allowed \<longrightarrow>
      map_of (grActionCounts (evaluatePlan plan None)) ''delete'' = Some 0 \<and>
      map_of (grActionCounts (evaluatePlan plan None)) ''replace'' = Some 0)"
proof (intro conjI impI)
  show "grDecision (evaluatePlan plan allow) = Allowed \<longleftrightarrow>
      (\<exists>p. plan = Some p \<and> \<not> tpErrored p \<and>
        (\<forall>c \<in> set (plan_changes p). harmless c \<or>
           (allow = Some (change_address c) \<and>
            set (change_actions c) \<subseteq> {''no-op'', ''create'', ''read'', ''update'', ''delete''})))"
    by (cases plan) (auto simp: evaluatePlan_def refused_def Let_def objections_of_empty list_all_iff objection_to_None)
  assume ok: "grDecision (evaluatePlan plan None) = Allowed"
  then obtain p where p: "plan = Some p" "\<not> tpErrored p" "snd (objections_of None (plan_changes p)) = []"
    by (auto simp: evaluatePlan_def refused_def Let_def split: option.splits if_split_asm)
  then have "list_all harmless (plan_changes p)" by (simp add: objections_of_empty objection_to_None list_all_iff)
  with p countActions_harmless [of "plan_changes p"]
  show "map_of (grActionCounts (evaluatePlan plan None)) ''delete'' = Some 0"
    "map_of (grActionCounts (evaluatePlan plan None)) ''replace'' = Some 0"
    by (simp_all add: evaluatePlan_def Let_def)
qed

theorem gate_spares_other_resources_witness:
  "grDecision (evaluatePlan (Some \<lparr>tpErrored = False, tpResourceChanges = Some
     [\<lparr>pcAddress = Some ''vm.instance'', pcActionReason = None, pcActions = Some [''update''], pcReplacePaths = None\<rparr>]\<rparr>) None) = Allowed \<and>
   map_of (grActionCounts (evaluatePlan (Some \<lparr>tpErrored = False, tpResourceChanges = Some
     [\<lparr>pcAddress = Some ''vm.instance'', pcActionReason = None, pcActions = Some [''update''], pcReplacePaths = None\<rparr>]\<rparr>) None))
     ''delete'' = Some 0 \<and>
   grDecision (evaluatePlan (Some \<lparr>tpErrored = False, tpResourceChanges = Some
     [\<lparr>pcAddress = Some ''vm.other'', pcActionReason = None, pcActions = Some [''delete'', ''create''], pcReplacePaths = None\<rparr>]\<rparr>)
     (Some ''vm.instance'')) \<noteq> Allowed"
proof -
  let ?p = "\<lparr>tpErrored = False, tpResourceChanges = Some [\<lparr>pcAddress = Some ''vm.instance'', pcActionReason = None,
    pcActions = Some [''update''], pcReplacePaths = None\<rparr>]\<rparr>"
  let ?q = "\<lparr>tpErrored = False, tpResourceChanges = Some [\<lparr>pcAddress = Some ''vm.other'', pcActionReason = None,
    pcActions = Some [''delete'', ''create''], pcReplacePaths = None\<rparr>]\<rparr>"
  have "grDecision (evaluatePlan (Some ?p) None) = Allowed"
    using conjunct1 [OF gate_spares_other_resources [of "Some ?p" None]] by (auto simp add: plan_changes_def harmless_def change_actions_def)
  moreover have "grDecision (evaluatePlan (Some ?q) (Some ''vm.instance'')) \<noteq> Allowed"
    using conjunct1 [OF gate_spares_other_resources [of "Some ?q" "Some ''vm.instance''"]]
    by (auto simp add: plan_changes_def harmless_def change_actions_def change_address_def)
  ultimately show ?thesis using gate_spares_other_resources [of "Some ?p" None] by blast
qed

end
