(* ===== verification/Json_Parse.thy ===== *)
theory Json_Parse
  imports Json
begin

section \<open>Reading JSON\<close>

text \<open>
  \<^verbatim>\<open>JSON.parse\<close> of the JavaScript runtime, for the boundaries that read untrusted text, and its round
  trip with \<open>stringify\<close>. A number that is not an integer is read as null, for no reader of the source
  accepts one, and a code unit above 255 as the unit 255. The recursion is bounded by the length of
  the text, which every nested value shortens.
\<close>

subsection \<open>White space, strings and literals\<close>

definition json_space :: "char \<Rightarrow> bool" where
  "json_space c \<longleftrightarrow> code_unit c \<in> {9, 10, 13, 32}"

definition skip_space :: "string \<Rightarrow> string" where
  "skip_space s = dropWhile json_space s"

definition hex_value :: "char \<Rightarrow> nat option" where
  "hex_value c =
     (let n = code_unit c in
      if is_digit c then Some (n - 48)
      else if 97 \<le> n \<and> n \<le> 102 then Some (n - 87)
      else if 65 \<le> n \<and> n \<le> 70 then Some (n - 55) else None)"

definition char_of_unit :: "nat \<Rightarrow> char" where
  "char_of_unit n = char_of (min n 255)"

definition unicode_escape :: "char \<Rightarrow> char \<Rightarrow> char \<Rightarrow> char \<Rightarrow> char option" where
  "unicode_escape a b c d =
     (case (hex_value a, hex_value b, hex_value c, hex_value d) of
        (Some i, Some j, Some k, Some l) \<Rightarrow> Some (char_of_unit (i * 4096 + j * 256 + k * 16 + l))
      | _ \<Rightarrow> None)"

definition simple_escape :: "char \<Rightarrow> char option" where
  "simple_escape c =
     (if c = CHR 0x22 \<or> c = CHR 0x5C \<or> c = CHR ''/'' then Some c
      else if c = CHR ''b'' then Some (char_of (8::nat))
      else if c = CHR ''f'' then Some (char_of (12::nat))
      else if c = CHR ''n'' then Some (char_of (10::nat))
      else if c = CHR ''r'' then Some (char_of (13::nat))
      else if c = CHR ''t'' then Some (char_of (9::nat)) else None)"

definition prefixed :: "char option \<Rightarrow> (string \<times> string) option \<Rightarrow> (string \<times> string) option" where
  "prefixed c res = (case (c, res) of (Some x, Some (t, r)) \<Rightarrow> Some (x # t, r) | _ \<Rightarrow> None)"

text \<open>The characters of a string literal after its opening quote, and the text after its closing one.\<close>

fun parse_string :: "string \<Rightarrow> (string \<times> string) option" where
  "parse_string [] = None"
| "parse_string (x # s) =
     (if x = CHR 0x22 then Some ([], s)
      else if code_unit x < 32 then None
      else if x \<noteq> CHR 0x5C then prefixed (Some x) (parse_string s)
      else (case s of
          [] \<Rightarrow> None
        | e # r \<Rightarrow>
            if e = CHR ''u'' then
              (case r of
                 a # b # c # d # r' \<Rightarrow> prefixed (unicode_escape a b c d) (parse_string r')
               | _ \<Rightarrow> None)
            else prefixed (simple_escape e) (parse_string r)))"

definition number_char :: "char \<Rightarrow> bool" where
  "number_char c \<longleftrightarrow> is_digit c \<or> c \<in> {CHR ''-'', CHR ''+'', CHR ''.'', CHR ''e'', CHR ''E''}"

definition well_formed_number :: "string \<Rightarrow> bool" where
  "well_formed_number s =
     (let ip = takeWhile is_digit s; r = dropWhile is_digit s in
      ip \<noteq> [] \<and> (hd ip = CHR ''0'' \<longrightarrow> length ip = 1) \<and>
      (r \<noteq> [] \<and> hd r = CHR ''.'' \<longrightarrow> tl r \<noteq> [] \<and> is_digit (hd (tl r))))"

definition json_of_number :: "rat option \<Rightarrow> json" where
  "json_of_number q = (case js_integer q of None \<Rightarrow> JNull | Some i \<Rightarrow> JNum i)"

definition parse_number :: "string \<Rightarrow> json option" where
  "parse_number s =
     (let neg = (s \<noteq> [] \<and> hd s = CHR ''-''); t = (if neg then tl s else s) in
      if \<not> well_formed_number t then None
      else case decimal_number t of
          None \<Rightarrow> None
        | Some q \<Rightarrow> Some (json_of_number (Some (if neg then - q else q))))"

definition parse_literal :: "string \<Rightarrow> (json \<times> string) option" where
  "parse_literal s =
     (if take 4 s = ''null'' then Some (JNull, drop 4 s)
      else if take 4 s = ''true'' then Some (JBool True, drop 4 s)
      else if take 5 s = ''false'' then Some (JBool False, drop 5 s)
      else map_option (\<lambda>v. (v, dropWhile number_char s)) (parse_number (takeWhile number_char s)))"

subsection \<open>Values\<close>

text \<open>A repeated member keeps its first place and its last value.\<close>

fun set_member :: "string \<Rightarrow> json \<Rightarrow> (string \<times> json) list \<Rightarrow> (string \<times> json) list" where
  "set_member k v [] = [(k, v)]"
| "set_member k v ((k', v') # kvs) = (if k = k' then (k, v) # kvs else (k', v') # set_member k v kvs)"

definition object_of :: "(string \<times> json) list \<Rightarrow> json" where
  "object_of kvs = JObj (fold (\<lambda>(k, v). set_member k v) kvs [])"

fun parse_value :: "nat \<Rightarrow> string \<Rightarrow> (json \<times> string) option"
  and parse_items :: "nat \<Rightarrow> string \<Rightarrow> (json list \<times> string) option"
  and parse_members :: "nat \<Rightarrow> string \<Rightarrow> ((string \<times> json) list \<times> string) option" where
  "parse_value 0 s = None"
| "parse_value (Suc n) s =
     (case skip_space s of
        [] \<Rightarrow> None
      | x # r \<Rightarrow>
          if x = CHR 0x22 then map_option (\<lambda>(t, r'). (JStr t, r')) (parse_string r)
          else if x = CHR ''['' then
            (if take 1 (skip_space r) = '']'' then Some (JArr [], drop 1 (skip_space r))
             else map_option (\<lambda>(vs, r'). (JArr vs, r')) (parse_items n r))
          else if x = CHR ''{'' then
            (if take 1 (skip_space r) = ''}'' then Some (JObj [], drop 1 (skip_space r))
             else map_option (\<lambda>(kvs, r'). (object_of kvs, r')) (parse_members n r))
          else parse_literal (x # r))"
| "parse_items 0 s = None"
| "parse_items (Suc n) s =
     (case parse_value n s of
        None \<Rightarrow> None
      | Some (v, r) \<Rightarrow>
          (case skip_space r of
             [] \<Rightarrow> None
           | x # r' \<Rightarrow>
               if x = CHR '','' then map_option (\<lambda>(vs, r''). (v # vs, r'')) (parse_items n r')
               else if x = CHR '']'' then Some ([v], r') else None))"
| "parse_members 0 s = None"
| "parse_members (Suc n) s =
     (case skip_space s of
        [] \<Rightarrow> None
      | x # r \<Rightarrow>
          if x \<noteq> CHR 0x22 then None
          else (case parse_string r of
             None \<Rightarrow> None
           | Some (k, r1) \<Rightarrow>
               if take 1 (skip_space r1) \<noteq> '':'' then None
               else (case parse_value n (drop 1 (skip_space r1)) of
                  None \<Rightarrow> None
                | Some (v, r2) \<Rightarrow>
                    (case skip_space r2 of
                       [] \<Rightarrow> None
                     | y # r3 \<Rightarrow>
                         if y = CHR '','' then map_option (\<lambda>(kvs, r4). ((k, v) # kvs, r4)) (parse_members n r3)
                         else if y = CHR ''}'' then Some ([(k, v)], r3) else None))))"

definition parse_json :: "string \<Rightarrow> json option" where
  "parse_json s =
     (case parse_value (2 * length s + 1) s of
        None \<Rightarrow> None
      | Some (v, r) \<Rightarrow> if skip_space r = [] then Some v else None)"

subsection \<open>The fuel is enough\<close>

lemma length_skip_space: "length (skip_space s) \<le> length s"
  by (simp add: skip_space_def length_dropWhile_le)

lemma prefixed_SomeD: "prefixed c res = Some (t, r) \<Longrightarrow> \<exists>t'. res = Some (t', r)"
  by (auto simp: prefixed_def split: option.splits)

lemma parse_string_shorter: "parse_string s = Some (t, r) \<Longrightarrow> length r < length s"
proof (induction s arbitrary: t rule: parse_string.induct)
  case (2 x s)
  show ?case
  proof (cases "x = CHR 0x5C")
    case True
    with 2 show ?thesis by (fastforce split: if_split_asm list.splits dest!: prefixed_SomeD)
  next
    case False
    with 2 show ?thesis by (fastforce split: if_split_asm dest!: prefixed_SomeD)
  qed
qed simp

lemma parse_literal_shorter: "parse_literal s = Some (v, r) \<Longrightarrow> length r < length s"
proof -
  assume lit: "parse_literal s = Some (v, r)"
  have "length (dropWhile number_char s) < length s" if "takeWhile number_char s \<noteq> []"
    using that length_dropWhile_le [of number_char "tl s"] by (cases s) (auto split: if_split_asm)
  moreover have "parse_number [] = None" by (simp add: parse_number_def well_formed_number_def)
  then have "parse_number (takeWhile number_char s) = Some j \<Longrightarrow> takeWhile number_char s \<noteq> []" for j by force
  ultimately show ?thesis
    using lit by (cases s) (auto simp: parse_literal_def split: if_split_asm)
qed

lemma parse_shorter:
  "parse_value n s = Some (v, r) \<Longrightarrow> length r < length s"
  "parse_items n s = Some (vs, r) \<Longrightarrow> length r < length s"
  "parse_members n s = Some (kvs, r) \<Longrightarrow> length r < length s"
proof (induction n s and n s and n s arbitrary: v r and vs r and kvs r rule: parse_value_parse_items_parse_members.induct)
  case (2 n s)
  then obtain x t where x: "skip_space s = x # t" by (cases "skip_space s") auto
  then have t: "Suc (length t) \<le> length s" using length_skip_space [of s] by simp
  with 2(3) length_skip_space [of t] 2(1,2) [OF x] show ?case
    by (fastforce simp: x split: if_split_asm dest: parse_string_shorter parse_literal_shorter)
next
  case (4 n s)
  then obtain w t where w: "parse_value n s = Some (w, t)" by (auto split: option.splits)
  obtain x u where x: "skip_space t = x # u" using 4(3) w by (cases "skip_space t") auto
  then have "Suc (length u) \<le> length t" using length_skip_space [of t] by simp
  with 4(1) [OF w] 4(3) 4(2) [OF w refl x] w x show ?case by (fastforce split: if_split_asm)
next
  case (6 n s)
  then obtain t where t: "skip_space s = CHR 0x22 # t" by (auto split: list.splits if_split_asm)
  with 6(3) obtain k u where k: "parse_string t = Some (k, u)" by (auto split: option.splits)
  with 6(3) t obtain w y where w: "parse_value n (drop 1 (skip_space u)) = Some (w, y)"
    by (auto split: option.splits if_split_asm)
  with 6(3) t k obtain c z where z: "skip_space y = c # z" "take 1 (skip_space u) = '':''"
    by (auto split: list.splits if_split_asm)
  have "length y < length s"
    using 6(1) [OF t _ k _ _ w] z(2) length_skip_space [of s] length_skip_space [of u] parse_string_shorter [OF k] t by auto
  moreover have "Suc (length z) \<le> length y" using length_skip_space [of y] z by simp
  moreover from 6(3) t k w z have "c = CHR '','' \<and> (\<exists>kvs'. parse_members n z = Some (kvs', r)) \<or> r = z"
    by (auto split: if_split_asm)
  ultimately show ?case using 6(2) [OF t _ k _ _ w _ z(1)] z(2) by fastforce
qed simp_all

lemma fuel_steps:
  assumes "\<And>t. length t < length s \<Longrightarrow> 2 * length t + 1 < n \<Longrightarrow> 2 * length t + 1 < m \<Longrightarrow>
      parse_items n t = parse_items m t \<and> parse_members n t = parse_members m t"
    and "2 * length s < Suc n" and "2 * length s < Suc m"
  shows "parse_value (Suc n) s = parse_value (Suc m) s"
proof (cases "skip_space s")
  case (Cons x t)
  then have "length t < length s" using length_skip_space [of s] by simp
  with assms show ?thesis by (simp add: Cons)
qed simp

lemma fuel_enough_all:
  "(2 * length s < n \<longrightarrow> 2 * length s < m \<longrightarrow> parse_value n s = parse_value m s) \<and>
   (2 * length s + 1 < n \<longrightarrow> 2 * length s + 1 < m \<longrightarrow>
      parse_items n s = parse_items m s \<and> parse_members n s = parse_members m s)"
proof (induction "length s" arbitrary: s n m rule: less_induct)
  case less
  have shorter: "parse_items n' t = parse_items m' t \<and> parse_members n' t = parse_members m' t"
    if "length t < length s" "2 * length t + 1 < n'" "2 * length t + 1 < m'" for t n' m'
    using less [of t n' m'] that by simp
  have val: "parse_value n' s = parse_value m' s" if "2 * length s < n'" "2 * length s < m'" for n' m'
  proof -
    from that obtain i j where "n' = Suc i" "m' = Suc j" by (cases n'; cases m') auto
    with that fuel_steps [of s i j, OF shorter] show ?thesis by blast
  qed
  have items: "parse_items (Suc n') s = parse_items (Suc m') s" if nm: "2 * length s < n'" "2 * length s < m'" for n' m'
  proof (cases "parse_value m' s")
    case (Some vr)
    obtain v r where vr: "vr = (v, r)" by (cases vr)
    show ?thesis
    proof (cases "skip_space r")
      case (Cons x t)
      then have "length t < length s" using parse_shorter(1) [of m' s v r] Some vr length_skip_space [of r] by simp
      with shorter [of t n' m'] nm show ?thesis by (simp add: val [OF nm] Some vr Cons)
    qed (simp add: val [OF nm] Some vr)
  qed (simp add: val [OF nm])
  have members: "parse_members (Suc n') s = parse_members (Suc m') s" if nm: "2 * length s < n'" "2 * length s < m'" for n' m'
  proof (cases "\<exists>t k u. skip_space s = CHR 0x22 # t \<and> parse_string t = Some (k, u)")
    case True
    then obtain t k u where t: "skip_space s = CHR 0x22 # t" "parse_string t = Some (k, u)" by blast
    let ?w = "drop 1 (skip_space u)"
    have w: "length ?w < length s"
      using t length_skip_space [of s] length_skip_space [of u] parse_string_shorter [OF t(2)] by simp
    have veq: "parse_value n' ?w = parse_value m' ?w" using less [OF w, of n' m'] w nm by simp
    show ?thesis
    proof (cases "parse_value m' ?w")
      case (Some vr)
      obtain v r where vr: "vr = (v, r)" by (cases vr)
      show ?thesis
      proof (cases "skip_space r")
        case (Cons y z)
        then have "length z < length s" using parse_shorter(1) [of m' ?w v r] Some vr length_skip_space [of r] w by simp
        with shorter [of z n' m'] nm show ?thesis using veq Some by (simp add: t vr Cons)
      qed (use veq Some in \<open>simp add: t vr\<close>)
    qed (use veq in \<open>simp add: t\<close>)
  next
    case False
    then show ?thesis by (cases "skip_space s"; cases "parse_string (tl (skip_space s))") auto
  qed
  show ?case
  proof (intro conjI impI)
    show "parse_value n s = parse_value m s" if "2 * length s < n" "2 * length s < m" using val that by blast
    assume nm: "2 * length s + 1 < n" "2 * length s + 1 < m"
    then obtain i j where ij: "n = Suc i" "m = Suc j" by (cases n; cases m) auto
    with nm have "2 * length s < i" "2 * length s < j" by simp_all
    then show "parse_items n s = parse_items m s" "parse_members n s = parse_members m s"
      unfolding ij by (rule items, rule members)
  qed
qed

text \<open>Any fuel above twice the length of the text gives the same answer.\<close>

lemma parse_value_fuel: "2 * length s < n \<Longrightarrow> parse_value n s = parse_value (2 * length s + 1) s"
  using fuel_enough_all [of s n "2 * length s + 1"] by simp

subsection \<open>What is written is read back\<close>

lemma prefixed_Some [simp]: "prefixed (Some x) (Some (t, r)) = Some (x # t, r)"
  by (simp add: prefixed_def)

lemma code_unit_eq_iff: "code_unit a = code_unit b \<longleftrightarrow> a = b"
  by (simp add: code_unit_def)

lemma code_unit_char_of [simp]: "n < 256 \<Longrightarrow> code_unit (char_of n) = n"
  by (simp add: code_unit_def)

lemma hex_value_hex_digit [simp]: "n < 16 \<Longrightarrow> hex_value (hex_digit n) = Some n"
  by (auto simp: hex_value_def hex_digit_def is_digit_def Let_def)

lemma escaped_unicode:
  assumes "code_unit c < 32"
  shows "unicode_escape (CHR ''0'') (CHR ''0'') (hex_digit (code_unit c div 16)) (hex_digit (code_unit c mod 16)) = Some c"
proof -
  have "hex_value (CHR ''0'') = Some 0" by (simp add: hex_value_def is_digit_def code_unit_def)
  moreover have "min (code_unit c) 255 = code_unit c" using assms by simp
  ultimately show ?thesis using assms by (simp add: unicode_escape_def char_of_unit_def)
qed

lemma code_unit_backslash [simp]: "code_unit (CHR 0x5C) = 92"
  by (simp add: code_unit_def)

lemma code_unit_eqD: "code_unit c = n \<Longrightarrow> char_of n = c"
  by auto

lemma parse_string_escape:
  "parse_string (escape_char c @ s) = prefixed (Some c) (parse_string s)"
proof -
  have named: "char_of (code_unit c) = c" by simp
  consider "c = CHR 0x22 \<or> c = CHR 0x5C" | "code_unit c \<in> {8, 9, 10, 12, 13}"
    | "c \<noteq> CHR 0x22" "c \<noteq> CHR 0x5C" "code_unit c < 32" "code_unit c \<notin> {8, 9, 10, 12, 13}"
    | "c \<noteq> CHR 0x22" "c \<noteq> CHR 0x5C" "\<not> code_unit c < 32"
    by blast
  then show ?thesis
  proof cases
    case 1
    then show ?thesis by (auto simp: escape_char_def simple_escape_def code_unit_def)
  next
    case 2
    then have "c \<noteq> CHR 0x22" "c \<noteq> CHR 0x5C" by (auto simp: code_unit_def)
    with 2 named show ?thesis by (auto simp: escape_char_def simple_escape_def dest: code_unit_eqD)
  next
    case 3
    then show ?thesis by (simp add: escape_char_def escaped_unicode)
  next
    case 4
    then show ?thesis by (auto simp: escape_char_def)
  qed
qed

lemma parse_string_quoted: "parse_string (concat (map escape_char s) @ CHR 0x22 # r) = Some (s, r)"
  by (induction s) (simp_all add: parse_string_escape)

text \<open>Values that are written as they are: nothing undefined, no member twice.\<close>

fun plain_json :: "json \<Rightarrow> bool" where
  "plain_json JUndefined = False"
| "plain_json (JArr vs) = list_all plain_json vs"
| "plain_json (JObj kvs) = (distinct (map fst kvs) \<and> list_all (\<lambda>(k, v). plain_json v) kvs)"
| "plain_json _ = True"

definition ends_number :: "string \<Rightarrow> bool" where
  "ends_number r \<longleftrightarrow> r = [] \<or> \<not> number_char (hd r)"

lemma digit_number_char: "is_digit c \<Longrightarrow> number_char c"
  by (simp add: number_char_def)

lemma takeWhile_number:
  assumes "\<forall>c \<in> set s. number_char c" and "ends_number r"
  shows "takeWhile number_char (s @ r) = s" "dropWhile number_char (s @ r) = r"
  using assms by (auto simp: takeWhile_append dropWhile_append ends_number_def takeWhile_eq_Nil_iff dropWhile_eq_self_iff)

lemma hd_show_nat: "hd (show_nat n) = CHR ''0'' \<Longrightarrow> length (show_nat n) = 1"
proof (induction n rule: show_nat.induct)
  case (1 n)
  show ?case
  proof (cases "n < 10")
    case True
    then show ?thesis by (simp add: show_nat.simps [of n])
  next
    case False
    with 1 have "length (show_nat (n div 10)) = 1" by (simp add: show_nat.simps [of n])
    then obtain c where c: "show_nat (n div 10) = [c]" by (cases "show_nat (n div 10)") auto
    with False 1(2) have "c = CHR ''0''" by (simp add: show_nat.simps [of n])
    with c have "n div 10 = 0" using dec_value_show_nat [of "n div 10"]
      by (simp add: dec_value_def digit_value_def code_unit_def)
    with False show ?thesis by simp
  qed
qed

lemma parse_number_show_nat:
  "well_formed_number (show_nat n)" "decimal_number (show_nat n) = Some (of_nat n)"
proof -
  have "\<forall>c \<in> set (show_nat n). is_digit c" by (rule show_nat_digits)
  then show "well_formed_number (show_nat n)" "decimal_number (show_nat n) = Some (of_nat n)"
    using hd_show_nat [of n] by (auto simp: well_formed_number_def takeWhile_all decimal_number_digits)
qed

lemma hd_digit_show_nat: "is_digit (hd (show_nat n))"
  using show_nat_digits [of n] hd_in_set [OF show_nat_nonempty] by blast

lemma parse_number_show_int: "parse_number (show_int i) = Some (JNum i)"
proof (cases "i < 0")
  case True
  then show ?thesis
    by (simp add: parse_number_def show_int_def parse_number_show_nat json_of_number_def js_integer_def)
next
  case False
  then have "hd (show_nat (nat i)) \<noteq> CHR ''-''" using hd_digit_show_nat [of "nat i"] by (auto simp: is_digit_def code_unit_def)
  with False show ?thesis
    by (simp add: parse_number_def show_int_def parse_number_show_nat json_of_number_def js_integer_def)
qed

lemma show_int_start: "\<exists>x t. show_int i = x # t \<and> (is_digit x \<or> x = CHR ''-'')"
proof (cases "i < 0")
  case True
  then show ?thesis by (simp add: show_int_def)
next
  case False
  then show ?thesis using hd_digit_show_nat [of "nat i"] by (cases "show_nat (nat i)") (simp_all add: show_int_def)
qed

lemma parse_literal_show_int:
  assumes "ends_number r"
  shows "parse_literal (show_int i @ r) = Some (JNum i, r)"
proof -
  have all: "\<forall>c \<in> set (show_int i). number_char c"
    using show_nat_digits by (auto simp: show_int_def digit_number_char) (simp add: number_char_def)
  obtain x t where x: "show_int i = x # t" "is_digit x \<or> x = CHR ''-''" using show_int_start by blast
  then have "x \<noteq> CHR ''n''" "x \<noteq> CHR ''t''" "x \<noteq> CHR ''f''" by (auto simp: is_digit_def code_unit_def)
  with x(1) have "take 4 (show_int i @ r) \<noteq> ''null''" "take 4 (show_int i @ r) \<noteq> ''true''" "take 5 (show_int i @ r) \<noteq> ''false''"
    by auto
  then show ?thesis
    unfolding parse_literal_def takeWhile_number [OF all assms] parse_number_show_int by simp
qed

text \<open>The first character of a written value.\<close>

lemma stringify_start:
  assumes "plain_json v"
  shows "\<exists>x t. stringify v = x # t \<and> \<not> json_space x \<and> x \<noteq> CHR '']'' \<and> x \<noteq> CHR ''}''"
proof (cases v)
  case (JNum i)
  then show ?thesis using show_int_start [of i] by (auto simp: json_space_def is_digit_def code_unit_def)
qed (use assms in \<open>auto simp: json_space_def code_unit_def quote_string_def\<close>)

lemma skip_stringify [simp]: "plain_json v \<Longrightarrow> skip_space (stringify v @ r) = stringify v @ r"
  using stringify_start [of v] by (auto simp: skip_space_def)

lemma skip_nonspace [simp]: "\<not> json_space x \<Longrightarrow> skip_space (x # r) = x # r"
  by (simp add: skip_space_def)

lemma punctuation [simp]:
  "\<not> json_space (CHR '','')" "\<not> json_space (CHR '']'')" "\<not> json_space (CHR ''}'')" "\<not> json_space (CHR '':'')"
  "\<not> json_space (CHR 0x22)" "\<not> json_space (CHR ''['')" "\<not> json_space (CHR ''{'')"
  "ends_number (CHR '','' # r)" "ends_number (CHR '']'' # r)" "ends_number (CHR ''}'' # r)" "ends_number []"
  by (simp_all add: json_space_def code_unit_def ends_number_def number_char_def is_digit_def)

definition reads_back :: "json \<Rightarrow> bool" where
  "reads_back v \<longleftrightarrow> (\<forall>n r. 2 * length (stringify v) < n \<longrightarrow> ends_number r \<longrightarrow>
     parse_value n (stringify v @ r) = Some (v, r))"

lemma parse_items_joined:
  assumes "vs \<noteq> []" and "list_all plain_json vs" and "\<forall>v \<in> set vs. reads_back v"
    and "2 * length (join_with (CHR '','') (map stringify vs)) + 1 < n"
  shows "parse_items n (join_with (CHR '','') (map stringify vs) @ CHR '']'' # r) = Some (vs, r)"
  using assms
proof (induction vs arbitrary: n)
  case (Cons v vs)
  obtain m where n: "n = Suc m" using Cons.prems(4) by (cases n) auto
  show ?case
  proof (cases vs)
    case Nil
    with Cons.prems n show ?thesis by (simp add: reads_back_def)
  next
    case (Cons w ws)
    then have j: "join_with (CHR '','') (map stringify (v # vs)) =
        stringify v @ CHR '','' # join_with (CHR '','') (map stringify vs)" by simp
    from Cons.prems(4) n have len: "2 * length (stringify v) < m" "2 * length (join_with (CHR '','') (map stringify vs)) + 1 < m"
      unfolding j by auto
    with Cons.prems(2,3) Cons.IH [of m] \<open>vs = w # ws\<close> show ?thesis unfolding n j by (simp add: reads_back_def)
  qed
qed simp

lemma set_member_fresh: "k \<notin> set (map fst kvs) \<Longrightarrow> set_member k v kvs = kvs @ [(k, v)]"
  by (induction kvs) auto

lemma fold_set_member: "distinct (map fst (acc @ kvs)) \<Longrightarrow> fold (\<lambda>(k, v). set_member k v) kvs acc = acc @ kvs"
proof (induction kvs arbitrary: acc)
  case (Cons kv kvs)
  obtain k v where kv: "kv = (k, v)" by (cases kv)
  with Cons.prems have "set_member k v acc = acc @ [(k, v)]" by (intro set_member_fresh) auto
  with Cons.IH [of "acc @ [(k, v)]"] Cons.prems kv show ?case by simp
qed simp

lemma object_of_distinct: "distinct (map fst kvs) \<Longrightarrow> object_of kvs = JObj kvs"
  using fold_set_member [of "[]" kvs] by (simp add: object_of_def)

definition member_text :: "string \<times> json \<Rightarrow> string" where
  "member_text kv = quote_string (fst kv) @ CHR '':'' # stringify (snd kv)"

lemma plain_defined: "list_all (\<lambda>(k, v). plain_json v) kvs \<Longrightarrow> filter (\<lambda>(k, item). is_defined item) kvs = kvs"
  by (induction kvs) (auto simp: is_defined_def)

lemma stringify_members:
  "list_all (\<lambda>(k, v). plain_json v) kvs \<Longrightarrow>
   stringify (JObj kvs) = CHR ''{'' # join_with (CHR '','') (map member_text kvs) @ ''}''"
  by (simp only: stringify.simps plain_defined) (simp add: member_text_def [abs_def] case_prod_beta')

lemma parse_string_quote: "parse_string (concat (map escape_char k) @ [CHR 0x22] @ r) = Some (k, r)"
  using parse_string_quoted [of k r] by simp

lemma parse_member:
  assumes "reads_back v" and "2 * length (stringify v) < m" and "ends_number s"
  shows "parse_members (Suc m) (member_text (k, v) @ s) =
     (case skip_space s of
        [] \<Rightarrow> None
      | y # r \<Rightarrow>
          if y = CHR '','' then map_option (\<lambda>(kvs, r'). ((k, v) # kvs, r')) (parse_members m r)
          else if y = CHR ''}'' then Some ([(k, v)], r) else None)"
  using assms by (simp add: reads_back_def member_text_def quote_string_def parse_string_quoted)

lemma parse_members_joined:
  assumes "kvs \<noteq> []" and "list_all (\<lambda>(k, v). plain_json v) kvs" and "\<forall>kv \<in> set kvs. reads_back (snd kv)"
    and "2 * length (join_with (CHR '','') (map member_text kvs)) + 1 < n"
  shows "parse_members n (join_with (CHR '','') (map member_text kvs) @ CHR ''}'' # r) = Some (kvs, r)"
  using assms
proof (induction kvs arbitrary: n)
  case (Cons kv kvs)
  obtain k v where kv: "kv = (k, v)" by (cases kv)
  obtain m where n: "n = Suc m" using Cons.prems(4) by (cases n) auto
  have v: "reads_back v" using Cons.prems(3) kv by simp
  show ?case
  proof (cases kvs)
    case Nil
    with Cons.prems(4) n kv have "2 * length (stringify v) < m" by (simp add: member_text_def)
    with Nil kv n show ?thesis by (simp add: parse_member [OF v] del: parse_members.simps)
  next
    case (Cons w ws)
    then have j: "join_with (CHR '','') (map member_text (kv # kvs)) =
        member_text (k, v) @ CHR '','' # join_with (CHR '','') (map member_text kvs)" by (simp add: kv)
    from Cons.prems(4) n have len: "2 * length (stringify v) < m" "2 * length (join_with (CHR '','') (map member_text kvs)) + 1 < m"
      unfolding j by (auto simp: member_text_def)
    have "parse_members m (join_with (CHR '','') (map member_text kvs) @ CHR ''}'' # r) = Some (kvs, r)"
      using Cons.IH [OF _ _ _ len(2)] Cons.prems(2,3) \<open>kvs = w # ws\<close> by simp
    then show ?thesis unfolding n j append_assoc append_Cons by (simp add: parse_member [OF v len(1)] kv del: parse_members.simps)
  qed
qed simp

lemma parse_constant:
  assumes "0 < n"
  shows "parse_value n (CHR ''n'' # CHR ''u'' # CHR ''l'' # CHR ''l'' # r) = Some (JNull, r)"
    "parse_value n (CHR ''t'' # CHR ''r'' # CHR ''u'' # CHR ''e'' # r) = Some (JBool True, r)"
    "parse_value n (CHR ''f'' # CHR ''a'' # CHR ''l'' # CHR ''s'' # CHR ''e'' # r) = Some (JBool False, r)"
  using assms by (cases n; simp add: parse_literal_def json_space_def code_unit_def)+

lemma reads_back_plain: "plain_json v \<Longrightarrow> reads_back v"
proof (induction v)
  case (JStr s)
  show ?case
    unfolding reads_back_def
    by (auto simp: quote_string_def parse_string_quoted gr0_conv_Suc dest!: less_imp_Suc_add)
next
  case (JNum i)
  obtain x t where x: "show_int i = x # t" "is_digit x \<or> x = CHR ''-''" using show_int_start by blast
  then have ne: "x \<noteq> CHR 0x22" "x \<noteq> CHR ''[''" "x \<noteq> CHR ''{''" "\<not> json_space x"
    by (auto simp: is_digit_def code_unit_def json_space_def)
  show ?case
    unfolding reads_back_def
  proof (intro allI impI)
    fix n r assume "2 * length (stringify (JNum i)) < n" "ends_number r"
    moreover from this obtain m where "n = Suc m" by (cases n) auto
    moreover have "parse_literal (x # t @ r) = Some (JNum i, r)" if "ends_number r" for r
      using parse_literal_show_int [OF that, of i] by (simp add: x(1))
    ultimately show "parse_value n (stringify (JNum i) @ r) = Some (JNum i, r)" using ne by (simp add: x(1))
  qed
next
  case (JArr vs)
  then have vs: "list_all plain_json vs" "\<forall>v \<in> set vs. reads_back v" by (auto simp: list_all_iff)
  show ?case
    unfolding reads_back_def
  proof (intro allI impI)
    fix n r assume n: "2 * length (stringify (JArr vs)) < n" "ends_number r"
    then obtain m where m: "n = Suc m" by (cases n) auto
    show "parse_value n (stringify (JArr vs) @ r) = Some (JArr vs, r)"
    proof (cases vs)
      case Nil
      then show ?thesis by (simp add: m)
    next
      case (Cons w ws)
      let ?j = "join_with (CHR '','') (map stringify vs)"
      from vs(1) Cons obtain x t where x: "stringify w = x # t" "\<not> json_space x" "x \<noteq> CHR '']''"
        using stringify_start [of w] by auto
      then have "\<exists>t'. ?j = x # t'" by (cases ws) (simp_all add: Cons)
      with x have "take 1 (skip_space (?j @ CHR '']'' # r)) \<noteq> '']''" by auto
      moreover have "parse_items m (?j @ CHR '']'' # r) = Some (vs, r)"
        using n m by (intro parse_items_joined [OF _ vs]) (simp_all add: Cons)
      ultimately show ?thesis by (simp add: m)
    qed
  qed
next
  case (JObj kvs)
  then have kvs: "list_all (\<lambda>(k, v). plain_json v) kvs" "\<forall>kv \<in> set kvs. reads_back (snd kv)" "distinct (map fst kvs)"
    by (auto simp: list_all_iff)
  show ?case
    unfolding reads_back_def
  proof (intro allI impI)
    fix n r assume n: "2 * length (stringify (JObj kvs)) < n" "ends_number r"
    then obtain m where m: "n = Suc m" by (cases n) auto
    show "parse_value n (stringify (JObj kvs) @ r) = Some (JObj kvs, r)"
    proof (cases kvs)
      case Nil
      then show ?thesis by (simp add: m)
    next
      case (Cons w ws)
      let ?j = "join_with (CHR '','') (map member_text kvs)"
      have "\<exists>t'. ?j = CHR 0x22 # t'" by (cases ws) (simp_all add: Cons member_text_def quote_string_def)
      then have "take 1 (skip_space (?j @ CHR ''}'' # r)) \<noteq> ''}''" by auto
      moreover have "parse_members m (?j @ CHR ''}'' # r) = Some (kvs, r)"
        using n m unfolding stringify_members [OF kvs(1)] by (intro parse_members_joined [OF _ kvs(1,2)]) (simp_all add: Cons)
      ultimately show ?thesis unfolding stringify_members [OF kvs(1)] by (simp add: m object_of_distinct [OF kvs(3)])
    qed
  qed
qed (auto simp: reads_back_def parse_constant)

lemma parse_stringify:
  assumes "plain_json v"
  shows "parse_json (stringify v) = Some v"
proof -
  have "parse_value (2 * length (stringify v) + 1) (stringify v @ []) = Some (v, [])"
    using reads_back_plain [OF assms] unfolding reads_back_def by (metis less_add_one punctuation(11))
  then show ?thesis by (simp add: parse_json_def skip_space_def del: parse_value.simps)
qed

end
