(* ===== verification/Message_Codec.thy ===== *)
theory Message_Codec
  imports Json_Parse Event_Validation "HOL-Library.Monad_Syntax"
begin

section \<open>The message codec\<close>

text \<open>
  Model of \<^verbatim>\<open>packages/messaging/src/message-codec.ts\<close>: what a record must carry before it reaches a
  handler. A buffer is the text it decodes to. The decoded object is read into the \<^typ>\<open>event\<close> of the
  contracts: its payload keeps the reading of its schema when that reading denotes the same object, and
  stays untyped otherwise, so a validator sees the object that was sent up to the order of members.
  Members beyond those of the envelope are not kept.
\<close>

subsection \<open>Errors\<close>

datatype decode_code =
    EMPTY_VALUE | INVALID_JSON | INVALID_ENVELOPE | INVALID_TRANSPORT_METADATA | INVALID_REPLAY_GENERATION

fun decode_code_name :: "decode_code \<Rightarrow> string" where
  "decode_code_name EMPTY_VALUE = ''EMPTY_VALUE''"
| "decode_code_name INVALID_JSON = ''INVALID_JSON''"
| "decode_code_name INVALID_ENVELOPE = ''INVALID_ENVELOPE''"
| "decode_code_name INVALID_TRANSPORT_METADATA = ''INVALID_TRANSPORT_METADATA''"
| "decode_code_name INVALID_REPLAY_GENERATION = ''INVALID_REPLAY_GENERATION''"

text \<open>What a handler can throw: the decoder's error, a permanent one with its code, anything else.\<close>

datatype 'e message_error =
    MessageDecodeError decode_code
  | PermanentMessageError string
  | HandlerError 'e

subsection \<open>Transport metadata\<close>

definition generation_pattern :: "string \<Rightarrow> bool" where
  "generation_pattern s \<longleftrightarrow> s \<noteq> [] \<and> list_all is_digit s \<and> (hd s = CHR ''0'' \<longrightarrow> length s = 1)"

definition decodeReplayGeneration :: "string option \<Rightarrow> decode_code + int" where
  "decodeReplayGeneration value_text =
     (case value_text of
        None \<Rightarrow> Inr 0
      | Some s \<Rightarrow>
          if \<not> generation_pattern s \<or> length s > 16 then Inl INVALID_REPLAY_GENERATION
          else if int (dec_value s) > MAX_SAFE_INTEGER then Inl INVALID_REPLAY_GENERATION
          else Inr (int (dec_value s)))"

definition decodeOutboxId :: "string option \<Rightarrow> decode_code + uuid" where
  "decodeOutboxId value_text =
     (case value_text of
        None \<Rightarrow> Inl INVALID_TRANSPORT_METADATA
      | Some s \<Rightarrow> if uuidPattern s then Inr s else Inl INVALID_TRANSPORT_METADATA)"

definition validateEventTransport ::
  "event \<Rightarrow> string option \<Rightarrow> (string \<Rightarrow> string option) \<Rightarrow> decode_code + unit" where
  "validateEventTransport envelope key_text headers =
     throw_if (\<not> (key_text = Some (partitionKey envelope) \<and>
                  headers ''event-id'' = Some (eventId envelope) \<and>
                  headers ''schema-name'' = Some (schemaName envelope) \<and>
                  headers ''schema-version'' = Some (show_int (schemaVersion envelope)) \<and>
                  (case headers ''outbox-id'' of None \<Rightarrow> False | Some s \<Rightarrow> uuidPattern s)))
       INVALID_TRANSPORT_METADATA"

subsection \<open>The envelope\<close>

definition hex_text :: "nat \<Rightarrow> string \<Rightarrow> bool" where
  "hex_text n s \<longleftrightarrow> length s = n \<and> list_all is_hex s"

definition boundedString :: "json \<Rightarrow> nat \<Rightarrow> bool" where
  "boundedString v maximum = stringInRange v 1 maximum"

text \<open>The trace and span of a \<^verbatim>\<open>traceparent\<close>, when it matches the pattern.\<close>

definition traceparent_parts :: "string \<Rightarrow> (string \<times> string) option" where
  "traceparent_parts s =
     (case split_on (CHR ''-'') s of
        [v, t, p, f] \<Rightarrow> if hex_text 2 v \<and> hex_text 32 t \<and> hex_text 16 p \<and> hex_text 2 f then Some (t, p) else None
      | _ \<Rightarrow> None)"

definition all_zero :: "string \<Rightarrow> bool" where
  "all_zero s \<longleftrightarrow> s \<noteq> [] \<and> list_all (\<lambda>c. c = CHR ''0'') s"

fun validTraceContext :: "json \<Rightarrow> bool" where
  "validTraceContext (JObj carrier) =
     (case get_field carrier ''traceparent'' of
        JStr s \<Rightarrow>
          (case traceparent_parts s of
             None \<Rightarrow> False
           | Some (t, p) \<Rightarrow> \<not> all_zero t \<and> \<not> all_zero p \<and>
               (case get_field carrier ''tracestate'' of
                  JUndefined \<Rightarrow> True
                | JStr st \<Rightarrow> boundedString (JStr st) 512 \<and>
                    \<not> list_ex (\<lambda>c. code_unit c \<le> 31 \<or> code_unit c = 127) st
                | _ \<Rightarrow> False))
      | _ \<Rightarrow> False)"
| "validTraceContext _ = False"

definition isEventEnvelope :: "env \<Rightarrow> json \<Rightarrow> bool" where
  "isEventEnvelope E v =
     (objectValue v \<and>
      (let candidate = object_fields v in
       uuidValue (get_field candidate ''eventId'') \<and>
       boundedString (get_field candidate ''schemaName'') 120 \<and>
       positiveInteger (get_field candidate ''schemaVersion'') \<and>
       boundedString (get_field candidate ''aggregateType'') 64 \<and>
       uuidValue (get_field candidate ''aggregateId'') \<and>
       uuidValue (get_field candidate ''projectId'') \<and>
       uuidValue (get_field candidate ''operationId'') \<and>
       uuidValue (get_field candidate ''correlationId'') \<and>
       uuidValue (get_field candidate ''causationId'') \<and>
       dateTime E (get_field candidate ''occurredAt'') \<and>
       boundedString (get_field candidate ''partitionKey'') 128 \<and>
       validTraceContext (get_field candidate ''traceContext'') \<and>
       objectValue (get_field candidate ''data'')))"

subsection \<open>The typed reading of a payload\<close>

fun text_of :: "json \<Rightarrow> string option" where
  "text_of (JStr s) = Some s"
| "text_of _ = None"

fun number_of :: "json \<Rightarrow> int option" where
  "number_of (JNum i) = Some i"
| "number_of _ = None"

fun flag_of :: "json \<Rightarrow> bool option" where
  "flag_of (JBool b) = Some b"
| "flag_of _ = None"

fun nullable_number :: "json \<Rightarrow> int option option" where
  "nullable_number JNull = Some None"
| "nullable_number (JNum i) = Some (Some i)"
| "nullable_number _ = None"

fun texts_of :: "json \<Rightarrow> string list option" where
  "texts_of (JArr vs) = those (map text_of vs)"
| "texts_of _ = None"

definition if_present :: "(json \<Rightarrow> 'a option) \<Rightarrow> json \<Rightarrow> 'a option option" where
  "if_present r v = (if v = JUndefined then Some None else map_option Some (r v))"

abbreviation member :: "json \<Rightarrow> string \<Rightarrow> json" where
  "member v k \<equiv> get_field (object_fields v) k"

definition read_sizing :: "json \<Rightarrow> sizing option" where
  "read_sizing v = do {
     c \<leftarrow> number_of (member v ''cpuCount''); m \<leftarrow> number_of (member v ''memoryMiB'');
     d \<leftarrow> number_of (member v ''diskGiB'');
     Some \<lparr>cpuCount = c, memoryMiB = m, diskGiB = d\<rparr> }"

definition read_routing :: "json \<Rightarrow> routing option" where
  "read_routing v = do {
     p \<leftarrow> text_of (member v ''providerProfileId''); c \<leftarrow> text_of (member v ''createOperationId'');
     Some \<lparr>providerProfileId = p, createOperationId = c\<rparr> }"

definition read_failure :: "json \<Rightarrow> failure option" where
  "read_failure v = do {
     c \<leftarrow> text_of (member v ''category''); k \<leftarrow> text_of (member v ''code'');
     m \<leftarrow> text_of (member v ''safeMessage'');
     r \<leftarrow> if_present nullable_number (member v ''retryAfterMilliseconds'');
     Some \<lparr>category = c, code = k, safeMessage = m, retryAfterMilliseconds = r\<rparr> }"

definition read_measured :: "json \<Rightarrow> measured_resources option" where
  "read_measured v = do {
     c \<leftarrow> number_of (member v ''cpuCount''); m \<leftarrow> nullable_number (member v ''memoryMiB'');
     d \<leftarrow> nullable_number (member v ''diskGiB'');
     Some \<lparr>measuredCpuCount = c, measuredMemoryMiB = m, measuredDiskGiB = d\<rparr> }"

definition read_observed :: "json \<Rightarrow> observed_state option" where
  "read_observed v = do {
     x \<leftarrow> flag_of (member v ''exists''); p \<leftarrow> text_of (member v ''powerState'');
     r \<leftarrow> if_present read_measured (member v ''resources''); k \<leftarrow> flag_of (member v ''markerMatch'');
     t \<leftarrow> text_of (member v ''observedAt'');
     Some \<lparr>obsExists = x, obsPowerState = p, obsResources = r, obsMarkerMatch = k, obsObservedAt = t\<rparr> }"

definition read_ipv4 :: "json \<Rightarrow> ipv4_configuration option" where
  "read_ipv4 v = do {
     a \<leftarrow> text_of (member v ''address''); p \<leftarrow> number_of (member v ''prefixLength'');
     g \<leftarrow> text_of (member v ''gateway''); d \<leftarrow> texts_of (member v ''dnsServers'');
     Some \<lparr>ipAddress = a, ipPrefixLength = p, ipGateway = g, dnsServers = d\<rparr> }"

definition read_create :: "json \<Rightarrow> create_data option" where
  "read_create v = do {
     i \<leftarrow> text_of (member v ''imageId''); f \<leftarrow> text_of (member v ''flavorId'');
     n \<leftarrow> text_of (member v ''networkId''); p \<leftarrow> text_of (member v ''providerProfileId'');
     h \<leftarrow> text_of (member v ''hostname''); r \<leftarrow> read_sizing (member v ''resources'');
     a \<leftarrow> read_ipv4 (member v ''ipv4''); k \<leftarrow> if_present texts_of (member v ''sshPublicKeys'');
     Some \<lparr>dataImageId = i, dataFlavorId = f, dataNetworkId = n, dataProviderProfileId = p, dataHostname = h,
       dataResources = r, dataIpv4 = a, dataSshPublicKeys = k\<rparr> }"

definition read_progress :: "json \<Rightarrow> progress_data option" where
  "read_progress v = do {
     s \<leftarrow> text_of (member v ''stage''); a \<leftarrow> number_of (member v ''attempt'');
     st \<leftarrow> text_of (member v ''operationState'');
     r \<leftarrow> if_present text_of (member v ''providerTaskReference''); n \<leftarrow> if_present text_of (member v ''nextActionAt'');
     Some \<lparr>progStage = s, progAttempt = a, progOperationState = st, progTaskReference = r, progNextActionAt = n\<rparr> }"

definition read_completed :: "json \<Rightarrow> completed_data option" where
  "read_completed v = do {
     a \<leftarrow> text_of (member v ''action''); l \<leftarrow> text_of (member v ''lifecycleState'');
     p \<leftarrow> if_present text_of (member v ''providerResourceId''); x \<leftarrow> text_of (member v ''evidenceId'');
     b \<leftarrow> if_present read_observed (member v ''observed'');
     Some \<lparr>complAction = a, complLifecycleState = l, complProviderResourceId = p, complEvidenceId = x,
       complObserved = b\<rparr> }"

definition read_failed :: "json \<Rightarrow> failed_data option" where
  "read_failed v = do {
     a \<leftarrow> text_of (member v ''action''); f \<leftarrow> read_failure (member v ''failure'');
     c \<leftarrow> text_of (member v ''compensationState'');
     Some \<lparr>failAction = a, failFailure = f, failCompensationState = c\<rparr> }"

definition read_resolved :: "json \<Rightarrow> replay_resolved_data option" where
  "read_resolved v = do {
     r \<leftarrow> text_of (member v ''replayRequestId''); e \<leftarrow> text_of (member v ''originalEventId'');
     c \<leftarrow> text_of (member v ''outcome''); g \<leftarrow> number_of (member v ''replayGeneration'');
     t \<leftarrow> text_of (member v ''resolvedAt'');
     Some \<lparr>resReplayRequestId = r, resOriginalEventId = e, resOutcome = c, resReplayGeneration = g, resResolvedAt = t\<rparr> }"

definition read_dead_lettered :: "json \<Rightarrow> dead_lettered_data option" where
  "read_dead_lettered v = do {
     e \<leftarrow> text_of (member v ''originalEventId''); n \<leftarrow> text_of (member v ''originalSchemaName'');
     k \<leftarrow> number_of (member v ''originalSchemaVersion''); f \<leftarrow> read_failure (member v ''failure'');
     a \<leftarrow> number_of (member v ''attempts''); r \<leftarrow> flag_of (member v ''replayAllowed'');
     t \<leftarrow> text_of (member v ''deadLetteredAt'');
     Some \<lparr>dlOriginalEventId = e, dlOriginalSchemaName = n, dlOriginalSchemaVersion = k, dlFailure = f,
       dlAttempts = a, dlReplayAllowed = r, dlDeadLetteredAt = t\<rparr> }"

definition read_audit :: "json \<Rightarrow> audit_data option" where
  "read_audit v = do {
     a \<leftarrow> text_of (member v ''actorId''); r \<leftarrow> text_of (member v ''actorRole''); c \<leftarrow> text_of (member v ''action'');
     t \<leftarrow> text_of (member v ''targetType''); i \<leftarrow> text_of (member v ''targetId''); x \<leftarrow> text_of (member v ''outcome'');
     n \<leftarrow> if_present text_of (member v ''reasonReference'');
     Some \<lparr>auActorId = a, auActorRole = r, auAction = c, auTargetType = t, auTargetId = i, auOutcome = x,
       auReasonReference = n\<rparr> }"

text \<open>The reading a schema prescribes.\<close>

definition typed_reading :: "string \<Rightarrow> json \<Rightarrow> event_data option" where
  "typed_reading name v =
     (if name = ''instance.create.requested'' then map_option CreateRequested (read_create v)
      else if name = ''instance.power.requested'' then do {
        a \<leftarrow> text_of (member v ''action''); r \<leftarrow> read_routing v; Some (PowerRequested a r) }
      else if name = ''instance.resize.requested'' then do {
        f \<leftarrow> text_of (member v ''flavorId''); t \<leftarrow> read_sizing (member v ''targetResources''); r \<leftarrow> read_routing v;
        Some (ResizeRequested f t r) }
      else if name = ''snapshot.create.requested'' then do {
        i \<leftarrow> text_of (member v ''snapshotId''); n \<leftarrow> text_of (member v ''name'');
        d \<leftarrow> if_present text_of (member v ''description''); r \<leftarrow> read_routing v;
        Some (SnapshotCreateRequested i n d r) }
      else if name = ''snapshot.rollback.requested'' then do {
        i \<leftarrow> text_of (member v ''snapshotId''); n \<leftarrow> text_of (member v ''providerSnapshotReference'');
        r \<leftarrow> read_routing v; Some (SnapshotRollbackRequested i n r) }
      else if name = ''snapshot.delete.requested'' then do {
        i \<leftarrow> text_of (member v ''snapshotId''); n \<leftarrow> text_of (member v ''providerSnapshotReference'');
        r \<leftarrow> read_routing v; Some (SnapshotDeleteRequested i n r) }
      else if name = ''instance.retention.requested'' then do {
        d \<leftarrow> text_of (member v ''retentionDeadline''); m \<leftarrow> text_of (member v ''leaseReleaseMode'');
        r \<leftarrow> read_routing v; Some (RetentionRequested d m r) }
      else if name = ''instance.purge.requested'' then do {
        a \<leftarrow> text_of (member v ''purgeAuthorizationId''); d \<leftarrow> text_of (member v ''retentionDeadline'');
        n \<leftarrow> text_of (member v ''reasonReference''); r \<leftarrow> read_routing v; Some (PurgeRequested a d n r) }
      else if name = ''provisioning.replay.requested'' then do {
        r \<leftarrow> text_of (member v ''replayRequestId''); e \<leftarrow> text_of (member v ''originalEventId'');
        t \<leftarrow> text_of (member v ''requestedAt''); Some (ReplayRequested r e t) }
      else if name = ''workflow.progressed'' then map_option Progressed (read_progress v)
      else if name = ''instance.mutation.completed'' then map_option Completed (read_completed v)
      else if name = ''instance.mutation.failed'' then map_option Failed (read_failed v)
      else if name = ''provisioning.replay.resolved'' then map_option ReplayResolved (read_resolved v)
      else if name = ''drift.detected'' then do {
        c \<leftarrow> text_of (member v ''classification''); d \<leftarrow> flag_of (member v ''dangerous'');
        e \<leftarrow> text_of (member v ''evidenceId''); Some (DriftDetected c d e) }
      else if name = ''provisioning.dead_lettered'' then map_option DeadLettered (read_dead_lettered v)
      else if name = ''audit.recorded'' then map_option AuditRecorded (read_audit v)
      else None)"

text \<open>Two values that denote the same object, whatever the order of its members.\<close>

fun same_json :: "json \<Rightarrow> json \<Rightarrow> bool" where
  "same_json (JObj kvs) w =
     (objectValue w \<and> length kvs = length (object_fields w) \<and>
      list_all (\<lambda>(k, v). same_json v (member w k)) kvs)"
| "same_json (JArr vs) w = (case w of JArr ws \<Rightarrow> list_all2 same_json vs ws | _ \<Rightarrow> False)"
| "same_json v w = (v = w)"

definition read_data :: "string \<Rightarrow> json \<Rightarrow> event_data" where
  "read_data name v =
     (case typed_reading name v of
        None \<Rightarrow> OtherData v
      | Some d \<Rightarrow> if same_json (event_json d) v then d else OtherData v)"

definition text_at :: "(string \<times> json) list \<Rightarrow> string \<Rightarrow> string" where
  "text_at kvs k = (case text_of (get_field kvs k) of None \<Rightarrow> [] | Some s \<Rightarrow> s)"

definition event_of :: "(string \<times> json) list \<Rightarrow> event" where
  "event_of kvs =
     (let trace = object_fields (get_field kvs ''traceContext'') in
      \<lparr>eventId = text_at kvs ''eventId'', schemaName = text_at kvs ''schemaName'',
       schemaVersion = (case number_of (get_field kvs ''schemaVersion'') of None \<Rightarrow> 0 | Some n \<Rightarrow> n),
       aggregateType = text_at kvs ''aggregateType'', aggregateId = text_at kvs ''aggregateId'',
       projectId = text_at kvs ''projectId'', operationId = text_at kvs ''operationId'',
       correlationId = text_at kvs ''correlationId'', causationId = text_at kvs ''causationId'',
       occurredAt = text_at kvs ''occurredAt'',
       traceContext = \<lparr>traceparent = text_at trace ''traceparent'', tracestate = text_of (get_field trace ''tracestate'')\<rparr>,
       partitionKey = text_at kvs ''partitionKey'',
       data = read_data (text_at kvs ''schemaName'') (get_field kvs ''data'')\<rparr>)"

definition decodeEventEnvelope :: "env \<Rightarrow> string option \<Rightarrow> decode_code + event" where
  "decodeEventEnvelope E buffer =
     (case buffer of
        None \<Rightarrow> Inl EMPTY_VALUE
      | Some text \<Rightarrow>
          if text = [] then Inl EMPTY_VALUE
          else case parse_json text of
              None \<Rightarrow> Inl INVALID_JSON
            | Some parsed \<Rightarrow>
                if isEventEnvelope E parsed then Inr (event_of (object_fields parsed)) else Inl INVALID_ENVELOPE)"

subsection \<open>What the stores publish is decoded to the same event\<close>

text \<open>The schema of a typed payload.\<close>

fun schema_of :: "event_data \<Rightarrow> string option" where
  "schema_of (CreateRequested _) = Some ''instance.create.requested''"
| "schema_of (PowerRequested _ _) = Some ''instance.power.requested''"
| "schema_of (ResizeRequested _ _ _) = Some ''instance.resize.requested''"
| "schema_of (SnapshotCreateRequested _ _ _ _) = Some ''snapshot.create.requested''"
| "schema_of (SnapshotRollbackRequested _ _ _) = Some ''snapshot.rollback.requested''"
| "schema_of (SnapshotDeleteRequested _ _ _) = Some ''snapshot.delete.requested''"
| "schema_of (RetentionRequested _ _ _) = Some ''instance.retention.requested''"
| "schema_of (PurgeRequested _ _ _ _) = Some ''instance.purge.requested''"
| "schema_of (ReplayRequested _ _ _) = Some ''provisioning.replay.requested''"
| "schema_of (Progressed _) = Some ''workflow.progressed''"
| "schema_of (Completed _) = Some ''instance.mutation.completed''"
| "schema_of (Failed _) = Some ''instance.mutation.failed''"
| "schema_of (ReplayResolved _) = Some ''provisioning.replay.resolved''"
| "schema_of (DriftDetected _ _ _) = Some ''drift.detected''"
| "schema_of (DeadLettered _) = Some ''provisioning.dead_lettered''"
| "schema_of (AuditRecorded _) = Some ''audit.recorded''"
| "schema_of (OtherData _) = None"

lemma optional_field_simps [simp]:
  "optional_field k None = []" "optional_field k (Some v) = [(k, v)]"
  by (simp_all add: optional_field_def)

lemma if_present_simps [simp]:
  "if_present r JUndefined = Some None"
  "v \<noteq> JUndefined \<Longrightarrow> if_present r v = map_option Some (r v)"
  by (simp_all add: if_present_def)

lemma those_Some [simp]: "those (map Some xs) = Some xs"
  by (induction xs) simp_all

lemma text_of_JStr [simp]: "text_of \<circ> JStr = Some"
  by (simp add: fun_eq_iff)

lemma texts_of_map [simp]: "texts_of (JArr (map JStr xs)) = Some xs"
  by simp

lemma number_json_defined [simp]: "number_json n \<noteq> JUndefined" "nullable_number (number_json n) = Some n"
  by (cases n; simp add: number_json_def)+

lemma read_sizing_json [simp]: "read_sizing (sizing_json r) = Some r"
  by (simp add: read_sizing_def sizing_json_def)

lemma read_failure_json [simp]: "read_failure (failure_json f) = Some f"
  by (cases f rule: failure.cases; cases "retryAfterMilliseconds f")
    (auto simp: read_failure_def failure_json_def)

lemma read_measured_json [simp]: "read_measured (measured_json r) = Some r"
  by (simp add: read_measured_def measured_json_def)

lemma json_objects [simp]:
  "measured_json r \<noteq> JUndefined" "observed_json b \<noteq> JUndefined" "failure_json f \<noteq> JUndefined"
  by (simp_all add: measured_json_def observed_json_def failure_json_def)

lemma read_observed_json [simp]: "read_observed (observed_json b) = Some b"
  by (cases "obsResources b") (simp_all add: read_observed_def observed_json_def)

lemma read_ipv4_json [simp]: "read_ipv4 (ipv4_json a) = Some a"
  by (simp add: read_ipv4_def ipv4_json_def)

lemma read_create_json [simp]: "read_create (create_json d) = Some d"
  by (cases "dataSshPublicKeys d") (simp_all add: read_create_def create_json_def)

lemma read_progress_json [simp]: "read_progress (event_json (Progressed p)) = Some p"
  by (cases "progTaskReference p"; cases "progNextActionAt p") (simp_all add: read_progress_def)

lemma read_completed_json [simp]: "read_completed (event_json (Completed c)) = Some c"
  by (cases "complProviderResourceId c"; cases "complObserved c") (simp_all add: read_completed_def)

lemma read_failed_json [simp]: "read_failed (event_json (Failed f)) = Some f"
  by (simp add: read_failed_def)

lemma read_resolved_json [simp]: "read_resolved (event_json (ReplayResolved r)) = Some r"
  by (simp add: read_resolved_def)

lemma read_dead_lettered_json [simp]: "read_dead_lettered (event_json (DeadLettered d)) = Some d"
  by (simp add: read_dead_lettered_def)

lemma read_audit_json [simp]: "read_audit (event_json (AuditRecorded a)) = Some a"
  by (cases "auReasonReference a") (simp_all add: read_audit_def)

lemma read_create_event [simp]: "read_create (event_json (CreateRequested d)) = Some d"
  by simp

lemmas command_readings = read_routing_def routing_fields_def

lemma typed_reading_schema:
  assumes "schema_of d \<noteq> None"
  shows "typed_reading (the (schema_of d)) (event_json d) = Some d"
proof (cases d)
  case (SnapshotCreateRequested i m t r)
  then show ?thesis by (cases t) (simp_all add: typed_reading_def command_readings)
next
  case (Progressed p)
  then show ?thesis by (simp add: typed_reading_def del: event_json.simps)
next
  case (Completed c)
  then show ?thesis by (simp add: typed_reading_def del: event_json.simps)
next
  case (Failed f)
  then show ?thesis by (simp add: typed_reading_def del: event_json.simps)
next
  case (ReplayResolved r)
  then show ?thesis by (simp add: typed_reading_def del: event_json.simps)
next
  case (DeadLettered c)
  then show ?thesis by (simp add: typed_reading_def del: event_json.simps)
next
  case (AuditRecorded a)
  then show ?thesis by (simp add: typed_reading_def del: event_json.simps)
qed (use assms in \<open>simp_all add: typed_reading_def command_readings\<close>)

lemma typed_reading_json: "schema_of d = Some n \<Longrightarrow> typed_reading n (event_json d) = Some d"
  using typed_reading_schema [of d] by simp

lemma same_json_refl: "plain_json v \<Longrightarrow> same_json v v"
proof (induction v)
  case (JArr vs)
  then show ?case by (auto simp: list_all2_same list_all_iff)
next
  case (JObj kvs)
  have "get_field kvs k = v" if "(k, v) \<in> set kvs" for k v
    using JObj.prems that by (simp add: get_field_def map_of_is_SomeI)
  with JObj show ?case by (auto simp: list_all_iff)
qed simp_all

lemma plain_number_json [simp]: "plain_json (number_json n)"
  by (cases n) (simp_all add: number_json_def)

lemma plain_optional [simp]:
  "list_all (\<lambda>(k, v). plain_json v) (optional_field k v) \<longleftrightarrow> (case v of None \<Rightarrow> True | Some j \<Rightarrow> plain_json j)"
  by (cases v) simp_all

lemma fst_optional [simp]: "map fst (optional_field k v) = (case v of None \<Rightarrow> [] | Some j \<Rightarrow> [k])"
  by (cases v) simp_all

lemma plain_texts [simp]: "list_all plain_json (map JStr xs)"
  by (simp add: list_all_iff)

lemma plain_sizing [simp]: "plain_json (sizing_json r)"
  by (simp add: sizing_json_def)

lemma plain_measured [simp]: "plain_json (measured_json r)"
  by (simp add: measured_json_def)

lemma plain_failure [simp]: "plain_json (failure_json f)"
  by (cases "retryAfterMilliseconds f") (simp_all add: failure_json_def)

lemma plain_observed [simp]: "plain_json (observed_json b)"
  by (cases "obsResources b") (simp_all add: observed_json_def)

lemma plain_ipv4 [simp]: "plain_json (ipv4_json a)"
  by (simp add: ipv4_json_def)

lemma plain_create [simp]: "plain_json (create_json d)"
  by (cases "dataSshPublicKeys d") (simp_all add: create_json_def)

lemma plain_event_json: "schema_of d \<noteq> None \<Longrightarrow> plain_json (event_json d)"
  by (cases d) (auto simp: routing_fields_def split: option.splits)

lemma plain_trace [simp]: "plain_json (trace_json t)"
  by (cases "tracestate t") (simp_all add: trace_json_def)

lemma plain_message_json: "schema_of (data e) \<noteq> None \<Longrightarrow> plain_json (message_json e)"
  by (simp add: message_json_def plain_event_json)

lemma read_data_json: "schema_of d = Some n \<Longrightarrow> read_data n (event_json d) = d"
  by (simp add: read_data_def typed_reading_json same_json_refl plain_event_json)

lemma text_at_simps [simp]:
  "text_at ((k', v) # kvs) k = (if k' = k then (case text_of v of None \<Rightarrow> [] | Some s \<Rightarrow> s) else text_at kvs k)"
  "text_at [] k = []"
  by (simp_all add: text_at_def)

lemma read_trace_json:
  "text_at (object_fields (trace_json t)) ''traceparent'' = traceparent t"
  "text_of (get_field (object_fields (trace_json t)) ''tracestate'') = tracestate t"
  by (cases "tracestate t"; simp add: trace_json_def)+

lemma event_of_message: "schema_of (data e) = Some (schemaName e) \<Longrightarrow> event_of (object_fields (message_json e)) = e"
  by (simp add: event_of_def message_json_def read_trace_json read_data_json)

text \<open>An event that any consumer of the contract accepts as an envelope, with the payload of its schema.\<close>

definition publishable :: "env \<Rightarrow> event \<Rightarrow> bool" where
  "publishable E e \<longleftrightarrow> isEventEnvelope E (message_json e) \<and> schema_of (data e) = Some (schemaName e)"

lemma decode_published:
  assumes "publishable E e"
  shows "decodeEventEnvelope E (Some (stringify (message_json e))) = Inr e"
proof -
  have plain: "plain_json (message_json e)" using assms by (simp add: publishable_def plain_message_json)
  then have "stringify (message_json e) \<noteq> []" using stringify_start by fastforce
  with assms show ?thesis
    by (simp add: decodeEventEnvelope_def parse_stringify [OF plain] publishable_def event_of_message)
qed

end
