(* ===== verification/Kafka_Consumer.thy ===== *)
theory Kafka_Consumer
  imports Message_Codec Workflow_Store
begin

section \<open>The Kafka consumer\<close>

text \<open>
  Model of \<^verbatim>\<open>packages/messaging/src/kafka-consumer.ts\<close>: how a message becomes a record, the bounded
  retries of a handler, and the offset that is committed only after the handler or the exhaustion
  callback has returned. The handlers are arguments; a call of one takes the number of the attempt,
  which stands for the clock and the identifiers it reads, and the state it works on. The broker, the
  traces and the metrics are left out.
\<close>

subsection \<open>Records\<close>

datatype header_item = BufferItem string | TextItem string

datatype header_value = HeaderAbsent | HeaderOne header_item | HeaderMany "header_item list"

record kafka_message =
  mKey :: "string option"
  mValue :: "string option"
  mHeaders :: "(string \<times> header_value) list"
  mOffset :: string
  mTimestamp :: string

record message_delivery =
  mdIdentity :: delivery_identity
  mdBrokerTimestampMs :: rat

record incoming_record =
  irDelivery :: message_delivery
  irKey :: "string option"
  irValue :: "string option"
  irHeaders :: "string \<Rightarrow> string option"
  irEnvelope :: "event option"
  irDecodeError :: "decode_code option"

datatype message_outcome = Handled | Duplicate | DeadLetteredRecord | Quarantined

record handling_result =
  hrOutcome :: message_outcome
  hrSchemaName :: string

text \<open>A buffer is always truthy, a text when it is not empty.\<close>

fun item_text :: "header_item \<Rightarrow> string option" where
  "item_text (BufferItem s) = Some s"
| "item_text (TextItem s) = (if s = [] then None else Some s)"

fun header_text :: "header_value \<Rightarrow> string option" where
  "header_text HeaderAbsent = None"
| "header_text (HeaderOne i) = item_text i"
| "header_text (HeaderMany is) = (case is of [] \<Rightarrow> None | i # _ \<Rightarrow> item_text i)"

definition lower_char :: "char \<Rightarrow> char" where
  "lower_char c = (if is_upper c then char_of (code_unit c + 32) else c)"

text \<open>\<^verbatim>\<open>Object.fromEntries\<close> keeps the last of the entries with one name.\<close>

definition headers_of :: "(string \<times> header_value) list \<Rightarrow> string \<Rightarrow> string option" where
  "headers_of hs = map_of (rev (concat (map (\<lambda>(k, v).
     case header_text v of None \<Rightarrow> [] | Some s \<Rightarrow> [(map lower_char k, s)]) hs)))"

definition or_else :: "decode_code option \<Rightarrow> decode_code + 'a \<Rightarrow> decode_code option" where
  "or_else err r = (case err of Some e \<Rightarrow> Some e | None \<Rightarrow> (case r of Inl e \<Rightarrow> Some e | Inr _ \<Rightarrow> None))"

definition right_or :: "'a \<Rightarrow> 'e + 'a \<Rightarrow> 'a" where
  "right_or d r = (case r of Inl _ \<Rightarrow> d | Inr a \<Rightarrow> a)"

definition right_option :: "'e + 'a \<Rightarrow> 'a option" where
  "right_option r = (case r of Inl _ \<Rightarrow> None | Inr a \<Rightarrow> Some a)"

definition kafka_record :: "env \<Rightarrow> string \<Rightarrow> int \<Rightarrow> kafka_message \<Rightarrow> incoming_record" where
  "kafka_record E topic_name part m =
     (let headers = headers_of (mHeaders m);
          decoded = decodeEventEnvelope E (mValue m);
          generation = decodeReplayGeneration (headers ''replay-generation'');
          outbox = decodeOutboxId (headers ''outbox-id'');
          err = or_else (or_else (or_else None decoded) generation) outbox;
          err' = (case (decoded, err) of
                    (Inr envelope, None) \<Rightarrow> or_else None (validateEventTransport envelope (mKey m) headers)
                  | _ \<Rightarrow> err) in
      \<lparr>irDelivery = \<lparr>mdIdentity = \<lparr>topic = topic_name, partition = part, offset = mOffset m,
           replayGeneration = right_or 0 generation, outboxId = right_option outbox\<rparr>,
         mdBrokerTimestampMs = (case js_number (mTimestamp m) of None \<Rightarrow> of_int (now E) | Some t \<Rightarrow> t)\<rparr>,
       irKey = mKey m, irValue = mValue m, irHeaders = headers,
       irEnvelope = right_option decoded, irDecodeError = err'\<rparr>)"

subsection \<open>Bounded retries\<close>

type_synonym ('e, 's) handler = "nat \<Rightarrow> incoming_record \<Rightarrow> 's \<Rightarrow> ('e message_error + handling_result) \<times> 's"
type_synonym ('e, 's) exhaustion = "incoming_record \<Rightarrow> 'e message_error \<Rightarrow> nat \<Rightarrow> 's \<Rightarrow> ('e message_error + handling_result) \<times> 's"

definition attempt_once :: "('e, 's) handler \<Rightarrow> nat \<Rightarrow> incoming_record \<Rightarrow> 's \<Rightarrow> ('e message_error + handling_result) \<times> 's" where
  "attempt_once handle attempt r s =
     (case irDecodeError r of Some e \<Rightarrow> (Inl (MessageDecodeError e), s) | None \<Rightarrow> handle attempt r s)"

text \<open>
  The loop over the attempts: the result of the record or of the exhaustion callback, and the pauses
  in between.
\<close>

function attempts ::
  "('e, 's) handler \<Rightarrow> ('e, 's) exhaustion \<Rightarrow> nat \<Rightarrow> nat \<Rightarrow> incoming_record \<Rightarrow> nat \<Rightarrow> 'e message_error option \<Rightarrow> 's \<Rightarrow>
   ('e message_error + handling_result) \<times> nat list \<times> 's" where
  "attempts handle exhausted maximum backoff r attempt lastError s =
     (if attempt \<le> maximum then
        (case attempt_once handle attempt r s of
           (Inr res, s') \<Rightarrow> (Inr res, [], s')
         | (Inl e, s') \<Rightarrow>
             (case attempts handle exhausted maximum backoff r (attempt + 1) (Some e) s' of
                (res, pauses, s'') \<Rightarrow>
                  (res, (if attempt < maximum then [backoff * attempt] else []) @ pauses, s'')))
      else (case lastError of
              None \<Rightarrow> (Inl (PermanentMessageError []), [], s)
            | Some e \<Rightarrow> (case exhausted r e maximum s of (res, s') \<Rightarrow> (res, [], s'))))"
  by pat_completeness auto
termination
  by (relation "measure (\<lambda>(_, _, maximum, _, _, attempt, _, _). maximum + 1 - attempt)") auto

declare attempts.simps [simp del]

definition handleWithRetry ::
  "('e, 's) handler \<Rightarrow> ('e, 's) exhaustion \<Rightarrow> nat \<Rightarrow> nat \<Rightarrow> incoming_record \<Rightarrow> 's \<Rightarrow>
   ('e message_error + handling_result) \<times> nat list \<times> 's" where
  "handleWithRetry handle exhausted maximum backoff r s = attempts handle exhausted maximum backoff r 1 None s"

subsection \<open>One message\<close>

record ('e, 's) runner =
  rnTopic :: string
  rnMaximumAttempts :: nat
  rnRetryBackoffMs :: nat
  rnHandle :: "('e, 's) handler"
  rnExhausted :: "('e, 's) exhaustion"

text \<open>The state after a message, and the offset to commit when its handling returned.\<close>

definition eachMessage :: "('e, 's) runner \<Rightarrow> env \<Rightarrow> int \<Rightarrow> kafka_message \<Rightarrow> 's \<Rightarrow> int option \<times> 's" where
  "eachMessage run E part m s =
     (case handleWithRetry (rnHandle run) (rnExhausted run) (rnMaximumAttempts run) (rnRetryBackoffMs run)
             (kafka_record E (rnTopic run) part m) s of
        (Inl _, _, s') \<Rightarrow> (None, s')
      | (Inr _, _, s') \<Rightarrow> (Some (int (dec_value (mOffset m)) + 1), s'))"

subsection \<open>Construction\<close>

datatype config_error = ConfigError string

text \<open>The two bounded options of the constructor; an absent one takes its default.\<close>

definition runner_limits :: "string list \<Rightarrow> int option \<Rightarrow> nat option \<Rightarrow> config_error + nat \<times> nat" where
  "runner_limits brokers maximum backoff =
     (let n = (case maximum of None \<Rightarrow> 3 | Some i \<Rightarrow> i) in
      if brokers = [] then Inl (ConfigError ''At least one Kafka broker is required.'')
      else if n < 1 \<or> n > 10 then Inl (ConfigError ''Kafka handler maximum attempts must be between 1 and 10.'')
      else Inr (nat n, case backoff of None \<Rightarrow> 250 | Some b \<Rightarrow> b))"

definition SASL_MECHANISMS :: "string list" where
  "SASL_MECHANISMS = [''scram-sha-512'', ''scram-sha-256'', ''plain'']"

record sasl_identity =
  saMechanism :: string
  saUsername :: string
  saPassword :: string

record kafka_security =
  ksCertificateAuthority :: "string option"
  ksSasl :: "sasl_identity option"

text \<open>The files of the process; a name that cannot be read has none.\<close>

definition readSecretFile :: "(string \<Rightarrow> string option) \<Rightarrow> string \<Rightarrow> string \<Rightarrow> config_error + string" where
  "readSecretFile files path variableName =
     (case files path of
        None \<Rightarrow> Inl (ConfigError (variableName @ '' points at a file that could not be read.''))
      | Some content \<Rightarrow>
          if js_trim content = [] then Inl (ConfigError (variableName @ '' points at an empty file.''))
          else Inr (js_trim content))"

definition trimmed :: "(string \<Rightarrow> string option) \<Rightarrow> string \<Rightarrow> string option" where
  "trimmed environment name = map_option js_trim (environment name)"

definition sasl_of :: "(string \<Rightarrow> string option) \<Rightarrow> (string \<Rightarrow> string option) \<Rightarrow> config_error + sasl_identity option" where
  "sasl_of files environment =
     (let mechanism = map_option (map lower_char) (trimmed environment ''KAFKA_SASL_MECHANISM'');
          username = trimmed environment ''KAFKA_SASL_USERNAME'';
          passwordFile = trimmed environment ''KAFKA_SASL_PASSWORD_FILE'' in
      if \<not> truthy mechanism \<and> \<not> truthy username \<and> \<not> truthy passwordFile then Inr None
      else if \<not> truthy mechanism \<or> \<not> truthy username \<or> \<not> truthy passwordFile then
        Inl (ConfigError ''KAFKA_SASL_MECHANISM, KAFKA_SASL_USERNAME, and KAFKA_SASL_PASSWORD_FILE must be set together.'')
      else if \<not> List.member SASL_MECHANISMS (the mechanism) then
        Inl (ConfigError ''KAFKA_SASL_MECHANISM must be one of scram-sha-512, scram-sha-256, plain.'')
      else res_bind (readSecretFile files (the passwordFile) ''KAFKA_SASL_PASSWORD_FILE'') (\<lambda>password.
        Inr (Some \<lparr>saMechanism = the mechanism, saUsername = the username, saPassword = password\<rparr>)))"

definition kafkaSecurity :: "(string \<Rightarrow> string option) \<Rightarrow> (string \<Rightarrow> string option) \<Rightarrow> config_error + kafka_security" where
  "kafkaSecurity files environment =
     res_bind (case trimmed environment ''KAFKA_TLS_CA_FILE'' of
                 None \<Rightarrow> Inr None
               | Some path \<Rightarrow> if path = [] then Inr None
                   else res_bind (readSecretFile files path ''KAFKA_TLS_CA_FILE'') (\<lambda>ca. Inr (Some ca))) (\<lambda>tls.
     res_bind (sasl_of files environment) (\<lambda>sasl.
     Inr \<lparr>ksCertificateAuthority = tls, ksSasl = sasl\<rparr>))"

definition kafkaBrokers :: "string option \<Rightarrow> config_error + string list" where
  "kafkaBrokers value_text =
     (let brokers = filter (\<lambda>b. b \<noteq> []) (map js_trim (split_on (CHR '','')
            (case value_text of None \<Rightarrow> ''127.0.0.1:9092'' | Some v \<Rightarrow> v))) in
      if brokers = [] then Inl (ConfigError ''KAFKA_BROKERS must contain at least one broker.'') else Inr brokers)"

end
