(* ===== verification/Message_Transport.thy ===== *)
theory Message_Transport
  imports Kafka_Consumer
begin

section \<open>From an outbox row to a decoded record\<close>

text \<open>
  The connector between the outbox tables and the broker: a row becomes a message whose key, headers and
  value are columns of the row (\<^verbatim>\<open>deploy/local/debezium/outbox-connector.json\<close>). The payload column is
  \<^verbatim>\<open>jsonb\<close>, so the members of an object may arrive in another order than they were written in. The
  readers of the codec do not depend on that order, so the consumer decodes the event that was published.
\<close>

subsection \<open>Reading does not depend on the order of members\<close>

definition plain_or_absent :: "json \<Rightarrow> bool" where
  "plain_or_absent v \<longleftrightarrow> plain_json v \<or> v = JUndefined"

definition alike :: "json \<Rightarrow> json \<Rightarrow> bool" where
  "alike v w \<longleftrightarrow> plain_or_absent v \<and> plain_or_absent w \<and> same_json v w"

lemma alike_object:
  assumes "alike v w"
  shows "objectValue v \<longleftrightarrow> objectValue w"
  using assms by (cases v; cases w) (auto simp: alike_def plain_or_absent_def)

lemma plain_member: "plain_json v \<Longrightarrow> plain_or_absent (member v k)"
  by (cases v) (auto simp: plain_or_absent_def get_field_def list_all_iff split: option.split dest!: map_of_SomeD)

lemma same_absent: "plain_json v \<Longrightarrow> \<not> same_json v JUndefined"
  by (cases v) simp_all

lemma keys_alike:
  assumes v: "plain_json (JObj kvs)" and w: "plain_json (JObj kvs')" and same: "same_json (JObj kvs) (JObj kvs')"
  shows "set (map fst kvs) = set (map fst kvs')"
proof (rule card_subset_eq)
  show "set (map fst kvs) \<subseteq> set (map fst kvs')"
  proof
    fix k assume "k \<in> set (map fst kvs)"
    then obtain x where x: "(k, x) \<in> set kvs" by auto
    with v same have "plain_json x" "same_json x (get_field kvs' k)" by (auto simp: list_all_iff)
    then have "get_field kvs' k \<noteq> JUndefined" using same_absent by auto
    then have "map_of kvs' k \<noteq> None" by (simp add: get_field_def split: option.splits)
    then show "k \<in> set (map fst kvs')" by (auto simp: map_of_eq_None_iff)
  qed
  have "distinct (map fst kvs)" "distinct (map fst kvs')" "length kvs = length kvs'"
    using v w same by simp_all
  then show "card (set (map fst kvs)) = card (set (map fst kvs'))"
    using distinct_card [of "map fst kvs"] distinct_card [of "map fst kvs'"] by simp
qed simp

lemma alike_member:
  assumes "alike v w"
  shows "alike (member v k) (member w k)"
proof (cases v)
  case (JObj kvs)
  with assms obtain kvs' where w: "w = JObj kvs'" and plain: "plain_json (JObj kvs)" "plain_json (JObj kvs')"
    and same: "same_json (JObj kvs) (JObj kvs')"
    by (cases w) (auto simp: alike_def plain_or_absent_def)
  have "same_json (get_field kvs k) (get_field kvs' k)"
  proof (cases "k \<in> set (map fst kvs)")
    case True
    then obtain x where x: "(k, x) \<in> set kvs" by auto
    then have "get_field kvs k = x" using plain(1) by (simp add: get_field_def map_of_is_SomeI)
    with x same show ?thesis by (auto simp: list_all_iff)
  next
    case False
    then have "k \<notin> set (map fst kvs')" using keys_alike [OF plain same] by simp
    with False have "map_of kvs k = None" "map_of kvs' k = None" by (simp_all add: map_of_eq_None_iff)
    then show ?thesis by (simp add: get_field_def)
  qed
  with plain_member [OF plain(1)] plain_member [OF plain(2)] JObj w show ?thesis by (simp add: alike_def)
qed (use assms in \<open>cases w; auto simp: alike_def plain_or_absent_def\<close>)+

lemma alike_scalar:
  assumes "alike v w"
  shows "text_of v = text_of w" "number_of v = number_of w" "flag_of v = flag_of w" "nullable_number v = nullable_number w"
    "v = JUndefined \<longleftrightarrow> w = JUndefined"
  using assms by (cases v; cases w; auto simp: alike_def plain_or_absent_def)+

lemma alike_texts:
  assumes "alike v w"
  shows "texts_of v = texts_of w"
proof (cases v)
  case (JArr vs)
  with assms obtain ws where w: "w = JArr ws" and same: "list_all2 same_json vs ws"
    and plain: "list_all plain_json vs" "list_all plain_json ws"
    by (cases w) (auto simp: alike_def plain_or_absent_def)
  from same plain have "map text_of vs = map text_of ws"
  proof (induction rule: list_all2_induct)
    case (Cons x xs y ys)
    then show ?case using alike_scalar(1) [of x y] by (simp add: alike_def plain_or_absent_def)
  qed simp
  with JArr w show ?thesis by simp
qed (use assms in \<open>cases w; auto simp: alike_def plain_or_absent_def\<close>)+

text \<open>A reader that gives one result on values that are alike.\<close>

definition order_free :: "(json \<Rightarrow> 'a) \<Rightarrow> bool" where
  "order_free r \<longleftrightarrow> (\<forall>v w. alike v w \<longrightarrow> r v = r w)"

lemma order_freeI: "(\<And>v w. alike v w \<Longrightarrow> r v = r w) \<Longrightarrow> order_free r"
  by (simp add: order_free_def)

lemma order_freeD: "order_free r \<Longrightarrow> alike v w \<Longrightarrow> r (member v k) = r (member w k)"
  by (simp add: order_free_def alike_member)

lemma order_free_present: "order_free r \<Longrightarrow> order_free (if_present r)"
  by (auto simp: order_free_def if_present_def alike_scalar)

lemma order_free_scalars:
  "order_free text_of" "order_free number_of" "order_free flag_of" "order_free nullable_number" "order_free texts_of"
  by (simp_all add: order_free_def alike_scalar alike_texts)

lemmas order_free_fields = order_free_scalars [THEN order_freeD] order_free_scalars [THEN order_free_present, THEN order_freeD]

lemma order_free_parts:
  "order_free read_sizing" "order_free read_routing" "order_free read_failure" "order_free read_measured" "order_free read_ipv4"
  "order_free read_progress" "order_free read_resolved" "order_free read_audit"
  by (rule order_freeI, simp only: read_sizing_def read_routing_def read_failure_def read_measured_def read_ipv4_def
      read_progress_def read_resolved_def read_audit_def order_free_fields)+

lemmas order_free_nested = order_free_parts [THEN order_freeD] order_free_parts [THEN order_free_present, THEN order_freeD]

lemma order_free_wholes: "order_free read_observed" "order_free read_create" "order_free read_failed" "order_free read_dead_lettered"
  by (rule order_freeI, simp only: read_observed_def read_create_def read_failed_def read_dead_lettered_def
      order_free_fields order_free_nested)+

lemmas order_free_deep = order_free_wholes [THEN order_freeD] order_free_wholes [THEN order_free_present, THEN order_freeD]

lemma order_free_completed: "order_free read_completed"
  by (rule order_freeI, simp only: read_completed_def order_free_fields order_free_deep)

lemma order_freeE: "order_free r \<Longrightarrow> alike v w \<Longrightarrow> r v = r w"
  by (simp add: order_free_def)

lemma order_free_typed: "order_free (typed_reading name)"
  by (rule order_freeI, simp only: typed_reading_def order_free_fields order_free_nested
      order_free_parts [THEN order_freeE] order_free_wholes [THEN order_freeE] order_freeE [OF order_free_completed])

subsection \<open>The envelope\<close>

lemma alike_text_tests:
  assumes "alike v w"
  shows "boundedString v n = boundedString w n" "uuidValue v = uuidValue w" "positiveInteger v = positiveInteger w"
    "dateTime E v = dateTime E w"
  using assms by (cases v; cases w; auto simp: alike_def plain_or_absent_def boundedString_def)+

definition state_text :: "string option \<Rightarrow> bool" where
  "state_text s \<longleftrightarrow> (case s of None \<Rightarrow> False
     | Some st \<Rightarrow> boundedString (JStr st) 512 \<and> \<not> list_ex (\<lambda>c. code_unit c \<le> 31 \<or> code_unit c = 127) st)"

lemma trace_texts:
  "validTraceContext v \<longleftrightarrow> objectValue v \<and>
     (case text_of (member v ''traceparent'') of None \<Rightarrow> False
      | Some s \<Rightarrow> (case traceparent_parts s of None \<Rightarrow> False
          | Some (t, p) \<Rightarrow> \<not> all_zero t \<and> \<not> all_zero p \<and>
              (member v ''tracestate'' = JUndefined \<or> state_text (text_of (member v ''tracestate'')))))"
proof (cases v)
  case (JObj kvs)
  show ?thesis
    by (cases "get_field kvs ''traceparent''"; cases "get_field kvs ''tracestate''")
      (simp_all add: JObj state_text_def split: option.split)
qed simp_all

lemma alike_trace:
  assumes "alike v w"
  shows "validTraceContext v = validTraceContext w"
proof -
  note m = alike_scalar(1,5) [OF alike_member [OF assms]]
  show ?thesis unfolding trace_texts alike_object [OF assms] m ..
qed

lemma alike_envelope:
  assumes "alike v w"
  shows "isEventEnvelope E v = isEventEnvelope E w"
  unfolding isEventEnvelope_def Let_def alike_object [OF assms]
  by (simp only: alike_text_tests [OF alike_member [OF assms]] alike_trace [OF alike_member [OF assms]]
      alike_object [OF alike_member [OF assms]])

lemma alike_text_at:
  assumes "alike v w"
  shows "text_at (object_fields v) k = text_at (object_fields w) k"
  by (simp add: text_at_def alike_scalar(1) [OF alike_member [OF assms]])

text \<open>What arrives is read as what was published.\<close>

lemma event_of_alike:
  assumes a: "alike (message_json e) w" and schema: "schema_of (data e) = Some (schemaName e)"
  shows "event_of (object_fields w) = e"
proof -
  let ?v = "message_json e"
  have data: "alike (event_json (data e)) (member w ''data'')"
    using alike_member [OF a, of "''data''"] by (simp add: message_json_def)
  have name: "text_at (object_fields w) ''schemaName'' = schemaName e"
    using alike_text_at [OF a, of "''schemaName''"] by (simp add: message_json_def)
  have "typed_reading (schemaName e) (member w ''data'') = Some (data e)"
    using order_freeE [OF order_free_typed data] typed_reading_json [OF schema] by simp
  with data have read: "read_data (schemaName e) (member w ''data'') = data e"
    by (simp add: read_data_def alike_def)
  have trace: "alike (trace_json (traceContext e)) (member w ''traceContext'')"
    using alike_member [OF a, of "''traceContext''"] by (simp add: message_json_def)
  have "event_of (object_fields w) = (event_of (object_fields ?v))\<lparr>data := data e\<rparr>"
    using alike_text_at [OF a] alike_scalar(2) [OF alike_member [OF a]] alike_text_at [OF trace]
      alike_scalar(1) [OF alike_member [OF trace]]
    by (simp add: event_of_def Let_def read name) (simp add: message_json_def)
  then show ?thesis by (simp add: event_of_message [OF schema])
qed

lemma decode_alike:
  assumes "publishable E e" and "parse_json s = Some w" and "plain_json w" and "same_json (message_json e) w"
  shows "decodeEventEnvelope E (Some s) = Inr e"
proof -
  have a: "alike (message_json e) w"
    using assms by (auto simp: alike_def plain_or_absent_def publishable_def plain_message_json)
  have "s \<noteq> []" using assms(2) by (auto simp: parse_json_def skip_space_def)
  with assms show ?thesis
    by (simp add: decodeEventEnvelope_def publishable_def alike_envelope [OF a] event_of_alike [OF a])
qed

subsection \<open>The connector\<close>

text \<open>
  A message that carries a row: the columns the connector is configured to place, in the header names of
  its configuration, and a value that denotes the payload.
\<close>

definition carries :: "kafka_message \<Rightarrow> outbox_row \<Rightarrow> bool" where
  "carries m row \<longleftrightarrow>
     (let e = obPayload row; headers = headers_of (mHeaders m) in
      mKey m = Some (partitionKey e) \<and>
      (\<exists>s w. mValue m = Some s \<and> parse_json s = Some w \<and> plain_json w \<and> same_json (message_json e) w) \<and>
      headers ''event-id'' = Some (eventId e) \<and> headers ''schema-name'' = Some (schemaName e) \<and>
      headers ''schema-version'' = Some (show_int (schemaVersion e)) \<and>
      headers ''outbox-id'' = Some (obOutboxId row) \<and>
      headers ''replay-generation'' = Some (show_int (obReplayGeneration row)))"

definition row_bounds :: "outbox_row \<Rightarrow> bool" where
  "row_bounds row \<longleftrightarrow> uuidPattern (obOutboxId row) \<and> 0 \<le> obReplayGeneration row \<and> obReplayGeneration row \<le> MAX_SAFE_INTEGER"

lemma show_nat_length: "n < 10 ^ Suc k \<Longrightarrow> length (show_nat n) \<le> Suc k"
proof (induction k arbitrary: n)
  case (Suc k)
  show ?case
  proof (cases "n < 10")
    case False
    have "n div 10 < 10 ^ Suc k" using Suc.prems by (simp add: div_less_iff_less_mult)
    from Suc.IH [OF this] False show ?thesis by (simp add: show_nat.simps [of n])
  qed (simp add: show_nat.simps [of n])
qed (simp add: show_nat.simps)

lemma generation_digits:
  assumes "0 \<le> i" and "i \<le> MAX_SAFE_INTEGER"
  shows "decodeReplayGeneration (Some (show_int i)) = Inr i"
proof -
  have s: "show_int i = show_nat (nat i)" using assms(1) by (simp add: show_int_def)
  have "length (show_nat (nat i)) \<le> 16"
    using show_nat_length [of "nat i" 15] assms by (simp add: MAX_SAFE_INTEGER_def)
  then show ?thesis
    using assms hd_show_nat [of "nat i"]
      show_nat_digits [of "nat i"]
    by (auto simp: decodeReplayGeneration_def s generation_pattern_def list_all_iff not_less [symmetric])
qed

lemma carried_record:
  assumes "carries m row" and "publishable E (obPayload row)" and "row_bounds row"
  shows "irEnvelope (kafka_record E t part m) = Some (obPayload row)"
    "irDecodeError (kafka_record E t part m) = None"
    "mdIdentity (irDelivery (kafka_record E t part m)) = \<lparr>topic = t, partition = part, offset = mOffset m,
       replayGeneration = obReplayGeneration row, outboxId = Some (obOutboxId row)\<rparr>"
    "decodeEventEnvelope E (irValue (kafka_record E t part m)) = Inr (obPayload row)"
proof -
  from assms(1) have d: "decodeEventEnvelope E (mValue m) = Inr (obPayload row)"
    using decode_alike [OF assms(2)] by (auto simp: carries_def Let_def)
  have g: "decodeReplayGeneration (headers_of (mHeaders m) ''replay-generation'') = Inr (obReplayGeneration row)"
    using assms(1,3) generation_digits by (simp add: carries_def row_bounds_def Let_def)
  have b: "decodeOutboxId (headers_of (mHeaders m) ''outbox-id'') = Inr (obOutboxId row)"
    using assms(1,3) by (simp add: carries_def row_bounds_def decodeOutboxId_def Let_def)
  have v: "validateEventTransport (obPayload row) (mKey m) (headers_of (mHeaders m)) = Inr ()"
    using assms(1,3) by (simp add: carries_def row_bounds_def validateEventTransport_def Let_def)
  note parts = kafka_record_def Let_def d g b v or_else_def right_or_def right_option_def
  show "irEnvelope (kafka_record E t part m) = Some (obPayload row)"
    "irDecodeError (kafka_record E t part m) = None"
    "mdIdentity (irDelivery (kafka_record E t part m)) = \<lparr>topic = t, partition = part, offset = mOffset m,
       replayGeneration = obReplayGeneration row, outboxId = Some (obOutboxId row)\<rparr>"
    "decodeEventEnvelope E (irValue (kafka_record E t part m)) = Inr (obPayload row)"
    by (simp_all add: parts)
qed

text \<open>The message of a row whose payload column keeps the order of its members.\<close>

definition connector_message :: "outbox_row \<Rightarrow> nat \<Rightarrow> kafka_message" where
  "connector_message row position =
     (let e = obPayload row; header = (\<lambda>k v. (k, HeaderOne (BufferItem v))) in
      \<lparr>mKey = Some (partitionKey e), mValue = Some (stringify (message_json e)),
       mHeaders = [header ''outbox-id'' (obOutboxId row), header ''event-id'' (eventId e),
         header ''schema-name'' (schemaName e), header ''schema-version'' (show_int (schemaVersion e)),
         header ''replay-generation'' (show_int (obReplayGeneration row))],
       mOffset = show_nat position, mTimestamp = ''0''\<rparr>)"

lemma lower_names:
  "map lower_char ''outbox-id'' = ''outbox-id''" "map lower_char ''event-id'' = ''event-id''"
  "map lower_char ''schema-name'' = ''schema-name''" "map lower_char ''schema-version'' = ''schema-version''"
  "map lower_char ''replay-generation'' = ''replay-generation''"
  by code_simp+

lemma headers_of_five:
  "headers_of [(k1, HeaderOne (BufferItem v1)), (k2, HeaderOne (BufferItem v2)), (k3, HeaderOne (BufferItem v3)),
      (k4, HeaderOne (BufferItem v4)), (k5, HeaderOne (BufferItem v5))] =
    map_of [(map lower_char k5, v5), (map lower_char k4, v4), (map lower_char k3, v3), (map lower_char k2, v2), (map lower_char k1, v1)]"
  by (simp add: headers_of_def)

lemma connector_headers:
  "headers_of (mHeaders (connector_message row n)) =
     map_of [(''replay-generation'', show_int (obReplayGeneration row)), (''schema-version'', show_int (schemaVersion (obPayload row))),
       (''schema-name'', schemaName (obPayload row)), (''event-id'', eventId (obPayload row)), (''outbox-id'', obOutboxId row)]"
  unfolding connector_message_def Let_def kafka_message.select_convs headers_of_five lower_names ..

lemma connector_carries:
  assumes "publishable E (obPayload row)"
  shows "carries (connector_message row n) row"
proof -
  have plain: "plain_json (message_json (obPayload row))"
    using assms by (simp add: publishable_def plain_message_json)
  then have "\<exists>s w. Some (stringify (message_json (obPayload row))) = Some s \<and> parse_json s = Some w \<and> plain_json w \<and>
      same_json (message_json (obPayload row)) w"
    using parse_stringify [OF plain] same_json_refl [OF plain] by blast
  then show ?thesis
    by (simp add: carries_def connector_headers Let_def) (simp add: connector_message_def Let_def)
qed

end
