(* ===== verification/Command_Consumer.thy ===== *)
theory Command_Consumer
  imports Kafka_Consumer
begin

section \<open>The command consumer of the orchestrator\<close>

text \<open>
  Model of \<^verbatim>\<open>apps/provisioning-orchestrator/src/app/command-routing.ts\<close> and \<^verbatim>\<open>command-consumer.ts\<close>: a
  record of the command topic is narrowed to a command the deployment supports, or to a replay request,
  and given to the workflow store; what can never be handled is quarantined or dead-lettered when the
  attempts are used up, and every other failure is thrown again, so that the offset stays uncommitted.
  \<open>Es\<close> is the environment of each attempt, \<open>digest\<close> the SHA-256 of the raw value.
\<close>

subsection \<open>Routing\<close>

definition decoded_record :: "env \<Rightarrow> incoming_record \<Rightarrow> 'e message_error + event" where
  "decoded_record E r =
     (case decodeEventEnvelope E (irValue r) of Inl c \<Rightarrow> Inl (MessageDecodeError c) | Inr e \<Rightarrow> Inr e)"

definition SUPPORTED_COMMAND_SCHEMAS :: "string list" where
  "SUPPORTED_COMMAND_SCHEMAS =
     [''instance.create.requested'', ''instance.power.requested'', ''instance.resize.requested'',
      ''snapshot.create.requested'', ''snapshot.rollback.requested'', ''snapshot.delete.requested'',
      ''instance.retention.requested'', ''instance.purge.requested'']"

definition isSupportedCommandSchema :: "string \<Rightarrow> bool" where
  "isSupportedCommandSchema name = List.member SUPPORTED_COMMAND_SCHEMAS name"

definition unsupported :: "'e message_error + event" where
  "unsupported = Inl (PermanentMessageError ''COMMAND_SCHEMA_UNSUPPORTED'')"

definition accepted_if :: "bool \<Rightarrow> event \<Rightarrow> 'e message_error + event" where
  "accepted_if valid e = (if valid then Inr e else Inl (PermanentMessageError ''COMMAND_PAYLOAD_INVALID''))"

definition createCommand :: "env \<Rightarrow> incoming_record \<Rightarrow> 'e message_error + event" where
  "createCommand E r = res_bind (decoded_record E r) (\<lambda>e.
     if schemaName e \<noteq> ''instance.create.requested'' \<or> schemaVersion e \<noteq> 1 then unsupported
     else accepted_if (isInstanceCreateRequestedV1 e) e)"

definition powerCommand :: "env \<Rightarrow> incoming_record \<Rightarrow> 'e message_error + event" where
  "powerCommand E r = res_bind (decoded_record E r) (\<lambda>e.
     if schemaName e \<noteq> ''instance.power.requested'' \<or> schemaVersion e \<noteq> 1 then unsupported
     else accepted_if (isInstancePowerRequestedV1 e) e)"

definition resizeCommand :: "env \<Rightarrow> incoming_record \<Rightarrow> 'e message_error + event" where
  "resizeCommand E r = res_bind (decoded_record E r) (\<lambda>e.
     if schemaName e \<noteq> ''instance.resize.requested'' \<or> schemaVersion e \<noteq> 1 then unsupported
     else accepted_if (isInstanceResizeRequestedV1 e) e)"

definition snapshotCommand :: "env \<Rightarrow> incoming_record \<Rightarrow> 'e message_error + event" where
  "snapshotCommand E r = res_bind (decoded_record E r) (\<lambda>e.
     let valid = (if schemaName e = ''snapshot.create.requested'' then isSnapshotCreateRequestedV1 e
                  else isSnapshotActionRequestedV1 e (schemaName e)) in
     if schemaVersion e \<noteq> 1 then unsupported else accepted_if valid e)"

definition retentionCommand :: "env \<Rightarrow> incoming_record \<Rightarrow> 'e message_error + event" where
  "retentionCommand E r = res_bind (decoded_record E r) (\<lambda>e.
     if schemaVersion e \<noteq> 1 then unsupported else accepted_if (isInstanceRetentionRequestedV1 E e) e)"

definition purgeCommand :: "env \<Rightarrow> incoming_record \<Rightarrow> 'e message_error + event" where
  "purgeCommand E r = res_bind (decoded_record E r) (\<lambda>e.
     if schemaVersion e \<noteq> 1 then unsupported else accepted_if (isInstancePurgeRequestedV1 E e) e)"

definition narrowCommand :: "env \<Rightarrow> incoming_record \<Rightarrow> 'e message_error + event" where
  "narrowCommand E r = res_bind (decoded_record E r) (\<lambda>envelope.
     let name = schemaName envelope in
     if name = ''instance.create.requested'' then createCommand E r
     else if name = ''instance.power.requested'' then powerCommand E r
     else if name = ''instance.resize.requested'' then resizeCommand E r
     else if name = ''instance.retention.requested'' then retentionCommand E r
     else if name = ''instance.purge.requested'' then purgeCommand E r
     else if name = ''snapshot.create.requested'' \<or> name = ''snapshot.rollback.requested'' \<or>
             name = ''snapshot.delete.requested'' then snapshotCommand E r
     else unsupported)"

definition replayRequest :: "env \<Rightarrow> incoming_record \<Rightarrow> 'e message_error + event" where
  "replayRequest E r = res_bind (decoded_record E r) (\<lambda>e.
     if isProvisioningReplayRequestedV1 E e then Inr e
     else Inl (PermanentMessageError ''REPLAY_SCHEMA_UNSUPPORTED''))"

subsection \<open>Handling\<close>

definition COMMAND_TOPIC :: string where
  "COMMAND_TOPIC = ''provisioning.commands.v1''"

text \<open>A store method is a transaction: an error leaves the tables as they were.\<close>

definition in_store :: "'s \<Rightarrow> ('x \<Rightarrow> handling_result) \<Rightarrow> 'e + 'x \<times> 's \<Rightarrow> ('e message_error + handling_result) \<times> 's" where
  "in_store db f r = (case r of Inl e \<Rightarrow> (Inl (HandlerError e), db) | Inr (x, db') \<Rightarrow> (Inr (f x), db'))"

fun admission_outcome :: "command_admission \<Rightarrow> message_outcome" where
  "admission_outcome AdmissionAccepted = Handled"
| "admission_outcome AdmissionDuplicate = Duplicate"
| "admission_outcome (AdmissionRejected c) = Quarantined"

definition replay_outcome :: "replay_decision \<Rightarrow> message_outcome" where
  "replay_outcome d = (if d = ReplayDuplicate then Duplicate else Handled)"

definition command_handle :: "(nat \<Rightarrow> env) \<Rightarrow> (store_error, 'z workflow_db_scheme) handler" where
  "command_handle Es attempt r db =
     (let E = Es attempt; delivery = mdIdentity (irDelivery r) in
      case decoded_record E r of
        Inl e \<Rightarrow> (Inl e, db)
      | Inr envelope \<Rightarrow>
          if isSupportedCommandSchema (schemaName envelope) then
            (case narrowCommand E r of
               Inl e \<Rightarrow> (Inl e, db)
             | Inr command \<Rightarrow>
                 in_store db (\<lambda>a. \<lparr>hrOutcome = admission_outcome a, hrSchemaName = schemaName command\<rparr>)
                   (admitCommand E command delivery db))
          else if schemaName envelope = ''provisioning.replay.requested'' then
            (case replayRequest E r of
               Inl e \<Rightarrow> (Inl e, db)
             | Inr request \<Rightarrow>
                 in_store db (\<lambda>d. \<lparr>hrOutcome = replay_outcome d, hrSchemaName = schemaName request\<rparr>)
                   (admitReplayRequest E request delivery db))
          else (Inl (PermanentMessageError ''COMMAND_SCHEMA_UNSUPPORTED''), db))"

subsection \<open>Exhaustion\<close>

text \<open>The code of an error that can never be handled.\<close>

fun permanent_code :: "'e message_error \<Rightarrow> string option" where
  "permanent_code (MessageDecodeError c) = Some (decode_code_name c)"
| "permanent_code (PermanentMessageError c) = Some c"
| "permanent_code (HandlerError e) = None"

fun is_decode_error :: "'e message_error \<Rightarrow> bool" where
  "is_decode_error (MessageDecodeError _) = True"
| "is_decode_error _ = False"

definition raw_value :: "incoming_record \<Rightarrow> string" where
  "raw_value r = (case irValue r of None \<Rightarrow> [] | Some v \<Rightarrow> v)"

definition command_exhausted ::
  "(nat \<Rightarrow> env) \<Rightarrow> (string \<Rightarrow> string) \<Rightarrow> (store_error, 'z workflow_db_scheme) exhaustion" where
  "command_exhausted Es digest r err attempts_used db =
     (let E = Es (Suc attempts_used); delivery = mdIdentity (irDelivery r) in
      case permanent_code err of
        None \<Rightarrow> (Inl err, db)
      | Some failure_code \<Rightarrow>
          (case (is_decode_error err, irEnvelope r) of
             (False, Some envelope) \<Rightarrow>
               in_store db (\<lambda>fresh. \<lparr>hrOutcome = (if fresh then DeadLetteredRecord else Duplicate),
                   hrSchemaName = schemaName envelope\<rparr>)
                 (deadLetterCommand E envelope delivery (int attempts_used) failure_code
                    ''The command schema is not supported by this consumer deployment.''
                    (failure_code = ''COMMAND_SCHEMA_UNSUPPORTED'' \<and>
                     schemaName envelope = ''instance.create.requested'') db)
           | _ \<Rightarrow>
               (case quarantineRecord E delivery (digest (raw_value r)) failure_code
                       ''The Kafka record could not be decoded as a versioned event envelope.'' db of
                  (fresh, db') \<Rightarrow>
                    (Inr \<lparr>hrOutcome = (if fresh then Quarantined else Duplicate), hrSchemaName = ''unknown''\<rparr>, db'))))"

definition command_runner :: "(nat \<Rightarrow> env) \<Rightarrow> (string \<Rightarrow> string) \<Rightarrow> nat \<Rightarrow> (store_error, 'z workflow_db_scheme) runner" where
  "command_runner Es digest maximum =
     \<lparr>rnTopic = COMMAND_TOPIC, rnMaximumAttempts = maximum, rnRetryBackoffMs = 250,
      rnHandle = command_handle Es, rnExhausted = command_exhausted Es digest\<rparr>"

end
