(* ===== verification/Command_Wire.thy ===== *)
theory Command_Wire
  imports Command_Consumer Control_Requests Control_Acceptance
begin

section \<open>Commands on the wire\<close>

text \<open>
  The contract between the control plane, which publishes a command with every acceptance, and the
  orchestrator, which decodes, narrows and admits it. A
  published command is \<open>offered\<close> when the codec decodes it and the validator of its action takes it.
\<close>

subsection \<open>The routing table and the store agree on commands\<close>

definition admissible :: "env \<Rightarrow> event \<Rightarrow> bool" where
  "admissible E e \<longleftrightarrow> (\<exists>a. workflowActionForSchema (schemaName e) = Some a \<and> COMMAND_VALIDATORS E a e)"

lemma decoded_record_Inr [simp]: "decoded_record E r = Inr e \<longleftrightarrow> decodeEventEnvelope E (irValue r) = Inr e"
  by (auto simp: decoded_record_def split: sum.split)

lemma action_of_schema:
  assumes "workflowActionForSchema n = Some a"
  obtains "n = ''instance.create.requested''" "a = CreateInstance"
    | "n = ''instance.power.requested''" "a = PowerInstance"
    | "n = ''instance.resize.requested''" "a = ResizeInstance"
    | "n = ''snapshot.create.requested''" "a = CreateSnapshot"
    | "n = ''snapshot.rollback.requested''" "a = Workflow_Stage.RollbackSnapshot"
    | "n = ''snapshot.delete.requested''" "a = Workflow_Stage.DeleteSnapshot"
    | "n = ''instance.retention.requested''" "a = RetainInstance"
    | "n = ''instance.purge.requested''" "a = PurgeInstance"
  using assms unfolding workflowActionForSchema_def by (simp split: if_split_asm)

lemma validated_version: "COMMAND_VALIDATORS E a e \<Longrightarrow> schemaVersion e = 1"
  by (cases a) (simp_all only: COMMAND_VALIDATORS.simps isInstanceCreateRequestedV1_def isInstancePowerRequestedV1_def
    isInstanceResizeRequestedV1_def isSnapshotCreateRequestedV1_def isSnapshotActionRequestedV1_def
    isInstanceRetentionRequestedV1_def isInstancePurgeRequestedV1_def instance_schema_is_def schema_is_def Let_def)

text \<open>The command of a schema is accepted exactly when the validator of its action accepts it.\<close>

lemma narrow_schema:
  assumes "decodeEventEnvelope E (irValue r) = Inr e" and "workflowActionForSchema (schemaName e) = Some a"
  shows "narrowCommand E r =
    (if schemaVersion e \<noteq> 1 then unsupported else accepted_if (COMMAND_VALIDATORS E a e) e)"
proof -
  have d: "decoded_record E r = Inr e" using assms(1) by simp
  note narrow = narrowCommand_def d res_bind_simps Let_def createCommand_def powerCommand_def resizeCommand_def
    snapshotCommand_def retentionCommand_def purgeCommand_def
  from assms(2) show ?thesis by (cases rule: action_of_schema) (simp_all add: narrow)
qed

lemma narrow_other:
  assumes "decodeEventEnvelope E (irValue r) = Inr e" and "workflowActionForSchema (schemaName e) = None"
  shows "narrowCommand E r = unsupported"
proof -
  have d: "decoded_record E r = Inr e" using assms(1) by simp
  from assms(2) show ?thesis
    by (auto simp: narrowCommand_def d workflowActionForSchema_def Let_def split: if_split_asm)
qed

lemma narrowCommand_decoded:
  assumes "decodeEventEnvelope E (irValue r) = Inr e"
  shows "narrowCommand E r = Inr c \<longleftrightarrow> c = e \<and> admissible E e"
proof (cases "workflowActionForSchema (schemaName e)")
  case None
  then show ?thesis by (simp add: narrow_other [OF assms] unsupported_def admissible_def)
next
  case (Some a)
  then show ?thesis
    using validated_version [of E a e]
    by (auto simp: narrow_schema [OF assms Some] unsupported_def accepted_if_def admissible_def)
qed

text \<open>Of the environment, a decision on a command depends on the date parser only.\<close>

lemma dateTime_same: "dateParses E' = dateParses E \<Longrightarrow> dateTime E' = dateTime E"
proof -
  assume same: "dateParses E' = dateParses E"
  have "dateTime E' v = dateTime E v" for v by (cases v) (simp_all add: same)
  then show ?thesis by (simp add: fun_eq_iff)
qed

lemma admissible_same:
  assumes "dateParses E' = dateParses E"
  shows "admissible E' e = admissible E e"
proof -
  note same = dateTime_same [OF assms]
  have "COMMAND_VALIDATORS E' a e = COMMAND_VALIDATORS E a e" for a
    by (cases a) (simp_all add: isInstanceRetentionRequestedV1_def isInstancePurgeRequestedV1_def same)
  then show ?thesis by (simp add: admissible_def)
qed

lemma supported_schema: "isSupportedCommandSchema name \<longleftrightarrow> workflowActionForSchema name \<noteq> None"
  by (simp add: isSupportedCommandSchema_def SUPPORTED_COMMAND_SCHEMAS_def workflowActionForSchema_def)

subsection \<open>Well-formed inputs\<close>

text \<open>
  What the surroundings provide: identifiers that are UUIDs, a date parser that reads what
  \<^verbatim>\<open>toISOString\<close> writes, and a propagator that keeps a trace context valid.
\<close>

definition valid_trace :: "trace_context \<Rightarrow> bool" where
  "valid_trace t \<longleftrightarrow> validTraceContext (trace_json t)"

definition wire_env :: "env \<Rightarrow> bool" where
  "wire_env E \<longleftrightarrow> (\<forall>n. uuidPattern (uuidAt E n)) \<and> (\<forall>t. dateParses E (toISOString t)) \<and>
     (\<forall>t. valid_trace t \<longrightarrow> valid_trace (currentTraceContext E t))"

text \<open>
  What is assumed of a request. Over HTTP the request schema bounds the disk and the description
  (\<^verbatim>\<open>instance-action.dto.ts\<close>); over gRPC nothing does (\<^verbatim>\<open>instance-grpc.controller.ts\<close>), so for such requests
  these are assumptions, and theory \<^verbatim>\<open>Consumer_Properties\<close> shows what happens to a larger disk.
\<close>

definition wire_command :: "'z mutation_command_scheme \<Rightarrow> bool" where
  "wire_command c \<longleftrightarrow> uuidPattern (mcCorrelationId c) \<and> valid_trace (command_trace c)"

fun wire_request :: "request \<Rightarrow> bool" where
  "wire_request (Create_Request c) = (wire_command c \<and> uuidPattern (mcProjectId c))"
| "wire_request (Resize_Request c) = (wire_command c \<and> (\<forall>d. rzDiskGiB c = Some d \<longrightarrow> d \<le> 2048))"
| "wire_request (Snapshot_Request c) = (wire_command c \<and> (\<forall>d. scDescription c = Some d \<longrightarrow> length d \<le> 256))"
| "wire_request (Power_Request c) = wire_command c"
| "wire_request (Snapshot_Action_Request a c) = wire_command c"
| "wire_request (Retain_Request c) = wire_command c"
| "wire_request (Purge_Request c) = wire_command c"
| "wire_request (Replay_Request c) = wire_command c"
| "wire_request (Reconcile_Request a i) = True"

text \<open>
  What is assumed of the catalog and the tables: the bounds of the command schema. The database has only the
  lower bounds of a flavor (\<^verbatim>\<open>0001_phase3.sql\<close>); the upper ones are those of the published contract, kept by
  whoever seeds the catalog.
\<close>

definition wire_instance :: "instance_row \<Rightarrow> bool" where
  "wire_instance i \<longleftrightarrow> uuidPattern (inId i) \<and> uuidPattern (inProjectId i) \<and>
     inProviderProfileId i \<noteq> [] \<and> length (inProviderProfileId i) \<le> 63 \<and>
     (\<exists>op. inCreateOperationId i = Some op \<and> uuidPattern op) \<and> inDesiredDiskGib i \<le> 2048"

definition wire_flavor :: "flavor_row \<Rightarrow> bool" where
  "wire_flavor f \<longleftrightarrow> flId f \<noteq> [] \<and> length (flId f) \<le> 63 \<and> 1 \<le> flCpuCount f \<and> flCpuCount f \<le> 64 \<and>
     512 \<le> flMemoryMib f \<and> flMemoryMib f \<le> 262144 \<and> 8 \<le> flMinimumDiskGib f \<and> flMinimumDiskGib f \<le> 2048"

definition wire_network :: "network_row \<Rightarrow> bool" where
  "wire_network n \<longleftrightarrow> list_all (\<lambda>a. ipv4Address (JStr a)) (neDnsServers n) \<and> distinct (neDnsServers n)"

definition wire_snapshot :: "snapshot_row \<Rightarrow> bool" where
  "wire_snapshot s \<longleftrightarrow> uuidPattern (snId s) \<and>
     (let n = (case snProviderSnapshotName s of Some n \<Rightarrow> n | None \<Rightarrow> snName s) in n \<noteq> [] \<and> length n \<le> 128)"

definition wire_tables :: "pg \<Rightarrow> bool" where
  "wire_tables db \<longleftrightarrow>
     list_all wire_instance (instances db) \<and> list_all wire_flavor (flavors db) \<and>
     list_all wire_network (networks db) \<and> list_all wire_snapshot (snapshots db) \<and>
     list_all (\<lambda>p. ppId p \<noteq> [] \<and> length (ppId p) \<le> 63) (provider_profiles db) \<and>
     List.member [''quarantine_until_purge'', ''release_on_retain''] (rpLeaseReleaseMode (policy db))"

subsection \<open>The envelope of a published command\<close>

lemma isEventEnvelope_message:
  "isEventEnvelope E (message_json e) \<longleftrightarrow>
     uuidPattern (eventId e) \<and> 1 \<le> length (schemaName e) \<and> length (schemaName e) \<le> 120 \<and>
     \<bar>schemaVersion e\<bar> \<le> MAX_SAFE_INTEGER \<and> 0 < schemaVersion e \<and>
     1 \<le> length (aggregateType e) \<and> length (aggregateType e) \<le> 64 \<and>
     uuidPattern (aggregateId e) \<and> uuidPattern (projectId e) \<and> uuidPattern (operationId e) \<and>
     uuidPattern (correlationId e) \<and> uuidPattern (causationId e) \<and> dateParses E (occurredAt e) \<and>
     1 \<le> length (partitionKey e) \<and> length (partitionKey e) \<le> 128 \<and>
     valid_trace (traceContext e) \<and> objectValue (event_json (data e))"
  by (simp add: isEventEnvelope_def message_json_def boundedString_def valid_trace_def Let_def)

lemma publishable_same: "dateParses E' = dateParses E \<Longrightarrow> publishable E' e = publishable E e"
  by (simp add: publishable_def isEventEnvelope_message)

lemma typed_object: "schema_of d \<noteq> None \<Longrightarrow> objectValue (event_json d)"
  by (cases d) (simp_all add: create_json_def)

lemma uuidPattern_length: "uuidPattern s \<Longrightarrow> length s = 36"
proof -
  have len: "length s = sum_list (map length (split_on c s)) + length (split_on c s) - 1" for c and s :: string
    by (induction s) (auto split: list.split)
  assume "uuidPattern s"
  then have "map length (split_on (CHR ''-'') s) = [8, 4, 4, 4, 12]" by (simp add: uuidPattern_def Let_def)
  moreover from this have "length (split_on (CHR ''-'') s) = 5" using arg_cong [of _ _ length] by fastforce
  ultimately show ?thesis using len [of s "CHR ''-''"] by simp
qed

lemma instance_command_publishable:
  assumes "wire_env E" "wire_instance i" "wire_command c" "uuidPattern eid" "uuidPattern op"
    and "schema_of d = Some schema" "length schema \<le> 120" "schema \<noteq> []"
  shows "publishable E (instance_command_event eid schema c i op t d)"
  using assms uuidPattern_length [of "inId i"] typed_object [of d]
  by (auto simp: publishable_def isEventEnvelope_message instance_command_event_def wire_env_def wire_instance_def
      wire_command_def MAX_SAFE_INTEGER_def Suc_le_eq)

subsection \<open>The payloads of the acceptances\<close>

definition offered :: "env \<Rightarrow> event \<Rightarrow> bool" where
  "offered E e \<longleftrightarrow> publishable E e \<and> admissible E e"

lemma offeredI:
  assumes "publishable E e" and "workflowActionForSchema (schemaName e) = Some a" and "COMMAND_VALIDATORS E a e"
  shows "offered E e"
  using assms by (auto simp: offered_def admissible_def)

lemma wire_routing:
  "wire_instance i \<Longrightarrow> providerProfileId (routing_of i) \<noteq> [] \<and> length (providerProfileId (routing_of i)) \<le> 63 \<and>
     uuidPattern (createOperationId (routing_of i))"
  by (auto simp: wire_instance_def routing_of_def)

lemmas command_data = instance_command_event_def payload_def routing_fields_def snapshotRouting_def schema_is_def
  instance_schema_is_def onlyKeys_def enumerated_def optional_def Let_def Suc_le_eq

definition wired :: "env \<Rightarrow> instance_row \<Rightarrow> 'z mutation_command_scheme \<Rightarrow> uuid \<Rightarrow> uuid \<Rightarrow> bool" where
  "wired E i c eid op \<longleftrightarrow> wire_env E \<and> wire_instance i \<and> wire_command c \<and> uuidPattern eid \<and> uuidPattern op"

lemma wired_publishable:
  assumes "wired E i c eid op" and "schema_of d = Some schema" "length schema \<le> 120" "schema \<noteq> []"
  shows "publishable E (instance_command_event eid schema c i op t d)"
  using instance_command_publishable assms by (auto simp: wired_def)

lemma wired_parts: "wired E i c eid op \<Longrightarrow> wire_env E \<and> wire_instance i"
  by (simp add: wired_def)

lemma power_offered:
  assumes w: "wired E i c eid op"
  shows "offered E (instance_command_event eid ''instance.power.requested'' c i op t (PowerRequested (power_text a) (routing_of i)))"
proof (rule offeredI [where a = PowerInstance])
  show "COMMAND_VALIDATORS E PowerInstance (instance_command_event eid ''instance.power.requested'' c i op t
      (PowerRequested (power_text a) (routing_of i)))"
    using wire_routing [OF conjunct2 [OF wired_parts [OF w]]] by (cases a) (simp_all add: isInstancePowerRequestedV1_def command_data)
qed (use wired_publishable [OF w] in \<open>simp_all add: instance_command_event_def workflowActionForSchema_def\<close>)

lemma resize_offered:
  assumes w: "wired E i c eid op" and "wire_flavor f" and "n = flId f" and "8 \<le> d" "d \<le> 2048"
  shows "offered E (instance_command_event eid ''instance.resize.requested'' c i op t
    (ResizeRequested n \<lparr>cpuCount = flCpuCount f, memoryMiB = flMemoryMib f, diskGiB = d\<rparr> (routing_of i)))"
proof (rule offeredI [where a = ResizeInstance])
  show "COMMAND_VALIDATORS E ResizeInstance (instance_command_event eid ''instance.resize.requested'' c i op t
      (ResizeRequested n \<lparr>cpuCount = flCpuCount f, memoryMiB = flMemoryMib f, diskGiB = d\<rparr> (routing_of i)))"
    using wire_routing [OF conjunct2 [OF wired_parts [OF w]]] assms
    by (simp add: isInstanceResizeRequestedV1_def command_data wire_flavor_def sizing_json_def resourcesValue_def MAX_SAFE_INTEGER_def)
qed (use wired_publishable [OF w] in \<open>simp_all add: instance_command_event_def workflowActionForSchema_def\<close>)

lemma snapshot_create_offered:
  assumes w: "wired E i c eid op" and "uuidPattern sid" and "snapshotNamePattern n" and "\<forall>x. d = Some x \<longrightarrow> length x \<le> 256"
  shows "offered E (instance_command_event eid ''snapshot.create.requested'' c i op t
    (SnapshotCreateRequested sid n d (routing_of i)))"
proof (rule offeredI [where a = CreateSnapshot])
  show "COMMAND_VALIDATORS E CreateSnapshot (instance_command_event eid ''snapshot.create.requested'' c i op t
      (SnapshotCreateRequested sid n d (routing_of i)))"
    using wire_routing [OF conjunct2 [OF wired_parts [OF w]]] assms
    by (cases d) (simp_all add: isSnapshotCreateRequestedV1_def command_data snapshotNamePattern_def)
qed (use wired_publishable [OF w] in \<open>simp_all add: instance_command_event_def workflowActionForSchema_def\<close>)

lemma snapshot_rollback_offered:
  assumes w: "wired E i c eid op" and "uuidPattern sid" and "n \<noteq> []" "length n \<le> 128"
  shows "offered E (instance_command_event eid ''snapshot.rollback.requested'' c i op t
    (SnapshotRollbackRequested sid n (routing_of i)))"
proof (rule offeredI [where a = Workflow_Stage.RollbackSnapshot])
  show "COMMAND_VALIDATORS E Workflow_Stage.RollbackSnapshot (instance_command_event eid ''snapshot.rollback.requested'' c i op t
      (SnapshotRollbackRequested sid n (routing_of i)))"
    using wire_routing [OF conjunct2 [OF wired_parts [OF w]]] assms by (simp add: isSnapshotActionRequestedV1_def command_data)
qed (use wired_publishable [OF w] in \<open>simp_all add: instance_command_event_def workflowActionForSchema_def\<close>)

lemma snapshot_delete_offered:
  assumes w: "wired E i c eid op" and "uuidPattern sid" and "n \<noteq> []" "length n \<le> 128"
  shows "offered E (instance_command_event eid ''snapshot.delete.requested'' c i op t
    (SnapshotDeleteRequested sid n (routing_of i)))"
proof (rule offeredI [where a = Workflow_Stage.DeleteSnapshot])
  show "COMMAND_VALIDATORS E Workflow_Stage.DeleteSnapshot (instance_command_event eid ''snapshot.delete.requested'' c i op t
      (SnapshotDeleteRequested sid n (routing_of i)))"
    using wire_routing [OF conjunct2 [OF wired_parts [OF w]]] assms by (simp add: isSnapshotActionRequestedV1_def command_data)
qed (use wired_publishable [OF w] in \<open>simp_all add: instance_command_event_def workflowActionForSchema_def\<close>)

lemma retention_offered:
  assumes w: "wired E i c eid op" and "List.member [''quarantine_until_purge'', ''release_on_retain''] m"
  shows "offered E (instance_command_event eid ''instance.retention.requested'' c i op t
    (RetentionRequested (toISOString dl) m (routing_of i)))"
proof (rule offeredI [where a = RetainInstance])
  show "COMMAND_VALIDATORS E RetainInstance (instance_command_event eid ''instance.retention.requested'' c i op t
      (RetentionRequested (toISOString dl) m (routing_of i)))"
    using wire_routing [OF conjunct2 [OF wired_parts [OF w]]] wired_parts [OF w] assms
    by (simp add: isInstanceRetentionRequestedV1_def command_data wire_env_def)
qed (use wired_publishable [OF w] in \<open>simp_all add: instance_command_event_def workflowActionForSchema_def\<close>)

lemma purge_offered:
  assumes w: "wired E i c eid op" and "uuidPattern a"
  shows "offered E (instance_command_event eid ''instance.purge.requested'' c i op t
    (PurgeRequested a (toISOString dl) a (routing_of i)))"
proof (rule offeredI [where a = PurgeInstance])
  show "COMMAND_VALIDATORS E PurgeInstance (instance_command_event eid ''instance.purge.requested'' c i op t
      (PurgeRequested a (toISOString dl) a (routing_of i)))"
    using wire_routing [OF conjunct2 [OF wired_parts [OF w]]] wired_parts [OF w] assms
    by (simp add: isInstancePurgeRequestedV1_def command_data wire_env_def)
qed (use wired_publishable [OF w] in \<open>simp_all add: instance_command_event_def workflowActionForSchema_def\<close>)

subsection \<open>The payload of a create\<close>

lemma strict_octets_pattern:
  "strict_octets r os = Some w \<Longrightarrow> list_all (\<lambda>x. octet_pattern x \<and> dec_value x \<le> 255) os"
  by (induction r os rule: strict_octets.induct) (auto split: if_splits)

lemma strict_ipv4Address: "strictIpv4 a = Some w \<Longrightarrow> ipv4Address (JStr a)"
  by (auto simp: strictIpv4_def Let_def dest: strict_octets_pattern split: if_splits)

lemma parse_pool_parts:
  assumes "parse_pool pool = Inr np"
  obtains n w where "prefix_length (split_on (CHR ''/'') (cidr pool)) = Some n" "1 \<le> n" "n \<le> 30"
    "strictIpv4 (gateway pool) = Some w"
proof -
  from assms obtain n where n: "prefix_length (split_on (CHR ''/'') (cidr pool)) = Some n"
    by (cases "prefix_length (split_on (CHR ''/'') (cidr pool))") (simp_all add: parse_pool_def)
  with assms have range: "1 \<le> n" "n \<le> 30"
    by (simp_all add: parse_pool_def Let_def split: if_split_asm)
  obtain w where "strictIpv4 (gateway pool) = Some w"
    using assms n by (cases "strictIpv4 (gateway pool)") (simp_all add: parse_pool_def Let_def split: option.split_asm if_split_asm)
  then show ?thesis using that n range by blast
qed

lemma allocated_pool:
  assumes "allocateIpv4 pool leased = Inr a"
  shows "ipv4Address (JStr a)" "ipv4Address (JStr (gateway pool))"
    "\<exists>n. prefix_length (split_on (CHR ''/'') (cidr pool)) = Some n \<and> 1 \<le> n \<and> n \<le> 30"
proof -
  from assms obtain network p k where pool: "parse_pool pool = Inr (network, p)" and a: "a = dotted (network + of_nat k)"
    unfolding allocateIpv4_Inr_iff by (elim exE conjE) (rule that)
  show "ipv4Address (JStr a)" unfolding a by (rule strict_ipv4Address [OF strictIpv4_dotted])
  obtain n w where n: "prefix_length (split_on (CHR ''/'') (cidr pool)) = Some n" "1 \<le> n" "n \<le> 30"
    and w: "strictIpv4 (gateway pool) = Some w" by (rule parse_pool_parts [OF pool])
  show "ipv4Address (JStr (gateway pool))" using strict_ipv4Address [OF w] .
  show "\<exists>n. prefix_length (split_on (CHR ''/'') (cidr pool)) = Some n \<and> 1 \<le> n \<and> n \<le> 30" using n by blast
qed

lemma validate_ssh_keys_sizes:
  "validate_ssh_keys ks = Inr u \<Longrightarrow> list_all (\<lambda>k. 32 \<le> length k \<and> length k \<le> 8192) ks"
  by (induction ks) (auto split: if_splits)

lemma validateCreateInstance_InrD:
  assumes "validateCreateInstance v = Inr u"
  shows "slugPattern (imageId v)" "slugPattern (flavorId v)" "slugPattern (networkId v)" "hostnamePattern (hostname v)"
    "length (case sshPublicKeys v of None \<Rightarrow> [] | Some ks \<Rightarrow> ks) \<le> 5"
    "distinct (case sshPublicKeys v of None \<Rightarrow> [] | Some ks \<Rightarrow> ks)"
    "list_all (\<lambda>k. 32 \<le> length k \<and> length k \<le> 8192) (case sshPublicKeys v of None \<Rightarrow> [] | Some ks \<Rightarrow> ks)"
  using assms validate_ssh_keys_sizes
  by (auto simp: validateCreateInstance_def Let_def length_remdups_eq split: if_splits)

lemma loadAcceptanceContext_InrE:
  assumes "loadAcceptanceContext c db = Inr ctx"
  obtains p f n q where "p \<in> set (provider_profiles db)" "f \<in> set (flavors db)" "n \<in> set (networks db)"
    "ctx = \<lparr>axcProviderProfileId = ppId p, axcFlavor = f, axcNetwork = n, axcQuota = q\<rparr>"
proof -
  let ?im = "lookup_by imId (ccImageId c) (images db)"
  let ?f = "find (\<lambda>f. flId f = ccFlavorId c \<and> flEnabled f) (flavors db)"
  let ?n = "find (\<lambda>n. neId n = ccNetworkId c \<and> neEnabled n) (networks db)"
  let ?q = "lookup_by quProjectId (mcProjectId c) (quotas db)"
  have pick: "x \<in> set xs" if "find P xs = Some x" for P and x :: 'x and xs
    using that by (auto simp: find_Some_iff)
  note load = assms [unfolded loadAcceptanceContext_def Let_def]
  from load obtain im where im: "?im = Some im" by (cases ?im) (auto split: if_split_asm)
  obtain p where p: "lookup_by ppId (imProviderProfileId im) (provider_profiles db) = Some p"
    using load im by (cases "lookup_by ppId (imProviderProfileId im) (provider_profiles db)") (auto split: if_split_asm)
  from load im p obtain f where f: "?f = Some f" by (cases ?f) (auto split: if_split_asm)
  from load im p f obtain n where n: "?n = Some n" by (cases ?n) (auto split: if_split_asm)
  from load im p f n obtain q where q: "?q = Some q" by (cases ?q) (auto split: if_split_asm)
  from load im p f n q have "ctx = \<lparr>axcProviderProfileId = ppId p, axcFlavor = f, axcNetwork = n, axcQuota = q\<rparr>"
    by (auto split: if_split_asm)
  then show ?thesis using that conjunct1 [OF lookup_by_SomeD [OF p]] pick [OF f] pick [OF n] by blast
qed

lemma loaded_context:
  assumes "loadAcceptanceContext c db = Inr ctx" and "wire_tables db"
  shows "axcProviderProfileId ctx \<noteq> [] \<and> length (axcProviderProfileId ctx) \<le> 63"
    "wire_flavor (axcFlavor ctx)" "wire_network (axcNetwork ctx)"
  using assms(2) by (rule_tac [!] loadAcceptanceContext_InrE [OF assms(1)]) (auto simp: wire_tables_def list_all_iff)

lemma create_offered:
  assumes env: "wire_env E" and tables: "wire_tables db" and ctx: "loadAcceptanceContext c db = Inr ctx"
    and address: "reserveIpv4Address ctx db = Inr a" and built: "buildAcceptanceRecords E g c ctx a = Inr r"
    and valid: "validateCreateInstance \<lparr>imageId = ccImageId c, flavorId = ccFlavorId c, networkId = ccNetworkId c,
      hostname = ccHostname c, sshPublicKeys = Some (ccSshPublicKeys c)\<rparr> = Inr u"
    and command: "wire_command c" "uuidPattern (mcProjectId c)"
  shows "offered E (crEvent r)"
proof -
  let ?n = "axcNetwork ctx"
  note v = validateCreateInstance_InrD [OF valid, simplified]
  note l = loaded_context [OF ctx tables]
  obtain leased where "allocateIpv4 \<lparr>cidr = neIpv4Cidr ?n, gateway = neGateway ?n, exclusions = neExclusions ?n\<rparr> leased = Inr a"
    using address by (auto simp: reserveIpv4Address_def lift_domain_def Let_def split: if_splits sum.splits)
  note pool = allocated_pool [OF this, unfolded ipv4_pool.select_convs]
  then obtain p where p: "prefixLengthOf (neIpv4Cidr ?n) = Some p" "1 \<le> p" "p \<le> 30" by (auto simp: prefixLengthOf_def)
  from built obtain d where d: "create_event_data c ctx a = Inr d" and e: "crEvent r =
      \<lparr>eventId = uuidAt E 2, schemaName = ''instance.create.requested'', schemaVersion = 1,
       aggregateType = ''instance'', aggregateId = uuidAt E 0, projectId = mcProjectId c, operationId = uuidAt E 1,
       correlationId = mcCorrelationId c, causationId = uuidAt E 1, occurredAt = toISOString (now E),
       traceContext = (command_trace c)\<lparr>traceparent := (if mcTraceparent c = [] then g else mcTraceparent c)\<rparr>,
       partitionKey = uuidAt E 0, data = CreateRequested d\<rparr>"
    by (auto simp: buildAcceptanceRecords_def Let_def)
  have tp: "mcTraceparent c \<noteq> []"
    using command(1) by (auto simp: wire_command_def valid_trace_def command_trace_def trace_json_def traceparent_parts_def)
  then have trace: "(command_trace c)\<lparr>traceparent := (if mcTraceparent c = [] then g else mcTraceparent c)\<rparr> = command_trace c"
    by (simp add: command_trace_def)
  have ids: "\<And>n. uuidPattern (uuidAt E n)" "dateParses E (toISOString (now E))" using env by (auto simp: wire_env_def)
  have "publishable E (crEvent r)"
    using ids uuidPattern_length [OF ids(1)] command
    by (simp add: e trace publishable_def isEventEnvelope_message wire_command_def MAX_SAFE_INTEGER_def create_json_def)
  moreover have "isInstanceCreateRequestedV1 (crEvent r)"
  proof -
    from d obtain ks where ks: "dataSshPublicKeys d = ks" "ks = None \<or> ks = Some (ccSshPublicKeys c)"
      and fields: "dataImageId d = ccImageId c" "dataFlavorId d = ccFlavorId c" "dataNetworkId d = ccNetworkId c"
        "dataProviderProfileId d = axcProviderProfileId ctx" "dataHostname d = ccHostname c"
        "dataResources d = \<lparr>cpuCount = flCpuCount (axcFlavor ctx), memoryMiB = flMemoryMib (axcFlavor ctx), diskGiB = flMinimumDiskGib (axcFlavor ctx)\<rparr>"
        "dataIpv4 d = \<lparr>ipAddress = a, ipPrefixLength = p, ipGateway = neGateway ?n, dnsServers = neDnsServers ?n\<rparr>"
        "1 \<le> length (neDnsServers ?n)" "length (neDnsServers ?n) \<le> 4"
      by (auto simp: create_event_data_def dnsTuple_def sshTuple_def p Let_def map_sum_def Suc_le_eq split: if_splits sum.splits)
    have dns: "list_all ipv4Address (map JStr (neDnsServers ?n))" "distinct (map JStr (neDnsServers ?n))"
      using l(3) by (auto simp: wire_network_def list_all_iff distinct_map inj_on_def simp del: ipv4Address.simps)
    have keys: "list_all (\<lambda>k. stringInRange k 32 8192) (map JStr (ccSshPublicKeys c))" "distinct (map JStr (ccSshPublicKeys c))"
      using v(6,7) by (auto simp: list_all_iff distinct_map inj_on_def)
    have ip: "ipv4Value (ipv4_json (dataIpv4 d))"
      using pool p fields(8,9) dns by (simp add: fields ipv4Value_def ipv4_json_def onlyKeys_def MAX_SAFE_INTEGER_def Let_def del: ipv4Address.simps)
    have size: "resourcesValue (sizing_json (dataResources d))"
      using l(2) by (simp add: fields resourcesValue_def sizing_json_def onlyKeys_def wire_flavor_def MAX_SAFE_INTEGER_def Let_def)
    have filled: "ccImageId c \<noteq> []" "ccFlavorId c \<noteq> []" "ccNetworkId c \<noteq> []"
      using v(1-3) by (auto simp: slugPattern_def)
    from ks(2) show ?thesis
      using l(1) v(1-5) filled keys ip size
      by (elim disjE) (simp_all add: e isInstanceCreateRequestedV1_def payload_def create_json_def instance_schema_is_def
          schema_is_def onlyKeys_def ks(1) fields(1-5) slugPattern_def hostnamePattern_def Let_def Suc_le_eq sshKeysValue_def)
  qed
  ultimately show ?thesis by (auto intro!: offeredI [where a = CreateInstance] simp: e workflowActionForSchema_def)
qed

end
