(* ===== verification/Command_Publication.thy ===== *)
theory Command_Publication
  imports Command_Wire
begin

section \<open>What the control plane publishes, the orchestrator admits\<close>

text \<open>
  Every acceptance of a request appends a command to the outbox of the control plane. On well-formed
  inputs and tables that command is one that the codec of the orchestrator decodes and that the
  validator of its action accepts (\<open>offered\<close>). One lemma per method of the store, and the result for
  a whole request.
\<close>

definition publishes :: "env \<Rightarrow> pg \<Rightarrow> pg \<Rightarrow> bool" where
  "publishes E db db' \<longleftrightarrow> (\<exists>rows. ct_outbox db' = ct_outbox db @ rows \<and>
     (\<forall>row \<in> set rows. obTopic row = COMMAND_TOPIC \<longrightarrow>
       obReplayGeneration row = 0 \<and> uuidPattern (obOutboxId row) \<and> offered E (obPayload row)))"

lemma publishes_none [simp]: "publishes E db db"
  by (simp add: publishes_def)

lemma publishes_command:
  "ct_outbox db' = ct_outbox db @ [command_row o1 e COMMAND_TOPIC t, command_row o2 e' ''audit.events.v1'' t'] \<Longrightarrow>
     offered E e \<Longrightarrow> uuidPattern o1 \<Longrightarrow> publishes E db db'"
  unfolding publishes_def by (rule exI, rule conjI, assumption) (simp add: command_row_def COMMAND_TOPIC_def)

lemma write_accepted_publishes:
  assumes "write_accepted E ids c h a db = Inr (r, db')" and "effects_frame (axEffects a)" and "offered E (axEvent a)"
    and "uuidPattern (fst ids)"
  shows "publishes E db db'"
proof -
  obtain o1 a1 o2 where ids: "ids = (o1, a1, o2)" by (cases ids)
  from assms(1) [unfolded ids] assms(2) show ?thesis
    by (rule write_accepted_InrE)
      (rule publishes_command [OF _ assms(3)], use assms(4) ids in \<open>simp_all add: COMMAND_TOPIC_def\<close>)
qed

lemma replay_or_publishes:
  assumes "replay_or sc h accept db = Inr (r, db')" and "accept db = Inr (r, db') \<Longrightarrow> publishes E db db'"
  shows "publishes E db db'"
  using assms by (auto simp: replay_or_def split: option.splits)

subsection \<open>One acceptance each\<close>

lemma wire_uuid: "wire_env E \<Longrightarrow> uuidPattern (uuidAt E n)"
  by (simp add: wire_env_def)

lemma wired_row:
  assumes "wire_env E" "wire_tables db" "row \<in> set (instances db)" "wire_command c"
  shows "wired E row c (uuidAt E m) (uuidAt E n)"
  using assms by (simp add: wired_def wire_env_def wire_tables_def list_all_iff)

lemma acceptPowerAction_publishes:
  assumes "acceptPowerAction E c h db = Inr (r, db')" and wire: "wire_env E" "wire_tables db" "wire_command c"
  shows "publishes E db db'"
proof (rule replay_or_publishes [OF assms(1) [unfolded acceptPowerAction_def]], erule res_bind_InrE, goal_cases)
  case (1 row)
  note l = lockInstance_InrD [OF 1(1)]
  from write_accepted_publishes [OF 1(2) [unfolded Let_def]] show ?case
    using power_offered [OF wired_row [OF wire(1,2) l(1) wire(3)]] wire_uuid [OF wire(1)] by simp
qed

lemma acceptRetention_publishes:
  assumes "acceptRetention E c h db = Inr (r, db')" and wire: "wire_env E" "wire_tables db" "wire_command c"
  shows "publishes E db db'"
proof (rule replay_or_publishes [OF assms(1) [unfolded acceptRetention_def]], erule res_bind_InrE, goal_cases)
  case (1 row)
  note l = lockInstance_InrD [OF 1(1)]
  have "List.member [''quarantine_until_purge'', ''release_on_retain''] (rpLeaseReleaseMode (policy db))"
    using wire(2) by (simp add: wire_tables_def)
  with write_accepted_publishes [OF 1(2) [unfolded Let_def]] show ?case
    using retention_offered [OF wired_row [OF wire(1,2) l(1) wire(3)]] wire_uuid [OF wire(1)] by simp
qed

lemma acceptPurge_publishes:
  assumes "acceptPurge E c h db = Inr (r, db')" and wire: "wire_env E" "wire_tables db" "wire_command c"
  shows "publishes E db db'"
proof -
  from acceptPurge_confirmed [OF assms(1)] have confirmed: "\<not> puConfirmInstanceId c \<noteq> puInstanceId c" by simp
  show ?thesis
  proof (rule replay_or_publishes [OF assms(1) [unfolded acceptPurge_def Let_def if_not_P [OF confirmed]]],
      erule res_bind_InrE, goal_cases)
    case (1 p)
    obtain row deadline where p: "p = (row, deadline)" by (cases p)
    note l = purgeable_InrD [OF 1(1) [unfolded p]]
    from write_accepted_publishes [OF 1(2) [unfolded p prod.case]] show ?case
      using purge_offered [OF wired_row [OF wire(1,2) l(1) wire(3)]] wire(1) by (simp add: wire_env_def)
  qed
qed

lemma acceptResize_publishes:
  assumes "acceptResize E c h db = Inr (r, db')" and wire: "wire_env E" "wire_tables db" "wire_command c"
    and disk: "\<forall>d. rzDiskGiB c = Some d \<longrightarrow> d \<le> 2048"
  shows "publishes E db db'"
proof (rule replay_or_publishes [OF assms(1) [unfolded acceptResize_def Let_def]], (erule res_bind_InrE)+, goal_cases)
  case (1 row f u v)
  note l = lockInstance_InrD [OF 1(1)]
  from 1(2) have f: "f \<in> set (flavors db)" "flId f = rzFlavorId c" by (auto simp: find_Some_iff)
  with wire(2) l(1) have wf: "wire_flavor f" and row: "inDesiredDiskGib row \<le> 2048"
    by (auto simp: wire_tables_def list_all_iff wire_instance_def)
  let ?d = "max (max (inDesiredDiskGib row) (flMinimumDiskGib f)) (case rzDiskGiB c of Some d \<Rightarrow> d | None \<Rightarrow> 0)"
  have "8 \<le> ?d" "?d \<le> 2048" using wf row disk by (auto simp: wire_flavor_def split: option.split)
  with write_accepted_publishes [OF 1(5)] show ?case
    using resize_offered [OF wired_row [OF wire(1,2) l(1) wire(3)] wf f(2) [symmetric]] wire_uuid [OF wire(1)]
    by (simp add: resize_target_def)
qed

lemma acceptSnapshotCreate_publishes:
  assumes "acceptSnapshotCreate E c h db = Inr (r, db')" and wire: "wire_env E" "wire_tables db" "wire_command c"
    and given: "snapshotNamePattern (scName c)" "\<forall>d. scDescription c = Some d \<longrightarrow> length d \<le> 256"
  shows "publishes E db db'"
proof (rule replay_or_publishes [OF assms(1) [unfolded acceptSnapshotCreate_def Let_def]], (erule res_bind_InrE)+, goal_cases)
  case (1 row u v db1)
  note l = lockInstance_InrD [OF 1(1)]
  have db1: "ct_outbox db1 = ct_outbox db" using 1(4) by (simp add: insert_snapshot_Inr)
  have "uuidPattern (uuidAt E 1)" using wire(1) by (simp add: wire_env_def)
  then have "publishes E db1 db'"
    using write_accepted_publishes [OF 1(5) [unfolded writeSnapshotOperation_def]] given
      snapshot_create_offered [OF wired_row [OF wire(1,2) l(1) wire(3)]] wire_uuid [OF wire(1)] by simp
  then show ?case by (simp add: publishes_def db1)
qed

lemma acceptSnapshotAction_publishes:
  assumes "acceptSnapshotAction E a c h db = Inr (r, db')" and wire: "wire_env E" "wire_tables db" "wire_command c"
  shows "publishes E db db'"
proof (rule replay_or_publishes [OF assms(1) [unfolded acceptSnapshotAction_def Let_def]], (erule res_bind_InrE)+, goal_cases)
  case (1 row s)
  note l = lockInstance_InrD [OF 1(1)]
  note offer = wired_row [OF wire(1,2) l(1) wire(3)]
  from 1(2) have "s \<in> set (snapshots db)" by (auto dest: lookup_by_SomeD)
  with wire(2) have s: "uuidPattern (snId s)"
      "(case snProviderSnapshotName s of Some n \<Rightarrow> n | None \<Rightarrow> snName s) \<noteq> []"
      "length (case snProviderSnapshotName s of Some n \<Rightarrow> n | None \<Rightarrow> snName s) \<le> 128"
    by (simp_all add: wire_tables_def list_all_iff wire_snapshot_def Let_def)
  obtain schema d where sd: "snapshot_action_data a s row = (schema, d)" by fastforce
  have "offered E (instance_command_event (uuidAt E 1) schema c row (uuidAt E 0) (now E) d)"
    using sd snapshot_rollback_offered [OF offer s] snapshot_delete_offered [OF offer s]
    by (cases a) (simp_all add: snapshot_action_data_def Let_def)
  then have "publishes E (db\<lparr>snapshots := update_where (\<lambda>r. snId r = snId s)
      (\<lambda>r. r\<lparr>snState := (if a = RollbackSnapshot then ''rolling_back'' else ''deleting''), snUpdatedAt := now E\<rparr>)
      (snapshots db)\<rparr>) db'"
    using write_accepted_publishes [of E _ c h _ _ r db'] 1(3) sd wire_uuid [OF wire(1)]
    by (simp add: writeSnapshotOperation_def split: if_split_asm)
  then show ?case by (simp add: publishes_def)
qed

lemma acceptCreate_publishes:
  assumes "acceptCreate E g c h db = Inr (r, db')" and wire: "wire_env E" "wire_tables db" "wire_command c"
    and valid: "validateCreateInstance \<lparr>imageId = ccImageId c, flavorId = ccFlavorId c, networkId = ccNetworkId c,
      hostname = ccHostname c, sshPublicKeys = Some (ccSshPublicKeys c)\<rparr> = Inr u" and "uuidPattern (mcProjectId c)"
  shows "publishes E db db'"
proof (rule replay_or_publishes [OF assms(1) [unfolded acceptCreate_def]], (erule res_bind_InrE)+, goal_cases)
  case (1 ctx u address rs d)
  then have w: "writeAcceptanceRecords E c ctx rs h db = Inr db'" by auto
  note offer = create_offered [OF wire(1,2) 1(1,3,4) valid wire(3) assms(6)]
  from w show ?case
    by (rule writeAcceptanceRecords_InrE) (rule publishes_command [OF _ offer wire_uuid [OF wire(1)]], simp add: COMMAND_TOPIC_def)
qed

subsection \<open>A request\<close>

definition valid_parent :: "string \<Rightarrow> bool" where
  "valid_parent p \<longleftrightarrow> (case traceparent_parts p of None \<Rightarrow> False | Some (t, s) \<Rightarrow> \<not> all_zero t \<and> \<not> all_zero s)"

definition valid_state :: "string option \<Rightarrow> bool" where
  "valid_state s \<longleftrightarrow> (case s of None \<Rightarrow> True
     | Some st \<Rightarrow> boundedString (JStr st) 512 \<and> \<not> list_ex (\<lambda>c. code_unit c \<le> 31 \<or> code_unit c = 127) st)"

lemma valid_trace_iff: "valid_trace t \<longleftrightarrow> valid_parent (traceparent t) \<and> valid_state (tracestate t)"
proof -
  have field: "get_field ((''traceparent'', p) # optional_field ''tracestate'' (map_option JStr s)) ''tracestate'' =
      (case s of None \<Rightarrow> JUndefined | Some st \<Rightarrow> JStr st)" for p s
    by (cases s) simp_all
  show ?thesis
    by (cases "traceparent_parts (traceparent t)"; cases "tracestate t")
      (simp_all add: valid_trace_def trace_json_def valid_parent_def valid_state_def field Let_def split: prod.split)
qed

lemma valid_trace_kept:
  assumes "valid_trace t" "valid_trace t'" and "tracestate u = None \<or> tracestate u = tracestate t \<or> tracestate u = tracestate t'"
    and "traceparent u = traceparent t"
  shows "valid_trace u"
  using assms by (auto simp: valid_trace_iff) (simp_all add: valid_state_def)

lemma wire_bind_trace:
  assumes "wire_env E" "wire_command c"
  shows "wire_command (bind_trace E c)"
proof -
  have a: "valid_trace (active_trace E c)"
    using assms by (simp add: wire_env_def wire_command_def active_trace_def command_trace_def)
  have "valid_trace (command_trace (bind_trace E c))"
    by (rule valid_trace_kept [OF a a]) (simp_all add: command_trace_def bind_trace_def)
  then show ?thesis using assms(2) by (simp add: wire_command_def) (simp add: bind_trace_def)
qed

lemma wire_spread_trace:
  assumes "wire_env E" "wire_command c"
  shows "wire_command (spread_trace E c)"
proof -
  have a: "valid_trace (active_trace E c)" and c: "valid_trace (command_trace c)"
    using assms by (simp_all add: wire_env_def wire_command_def active_trace_def command_trace_def)
  have "valid_trace (command_trace (spread_trace E c))"
    by (rule valid_trace_kept [OF a c]) (auto simp: command_trace_def spread_trace_def)
  then show ?thesis using assms(2) by (simp add: wire_command_def) (simp add: spread_trace_def)
qed

lemma wire_same:
  "wire_command c \<Longrightarrow> mcCorrelationId d = mcCorrelationId c \<Longrightarrow> command_trace d = command_trace c \<Longrightarrow> wire_command d"
  by (simp add: wire_command_def)

lemma wire_create_command: "wire_env E \<Longrightarrow> wire_command c \<Longrightarrow> wire_command (create_command_of E c)"
  by (rule wire_same [OF wire_spread_trace [of E c]]) (simp_all add: create_command_of_def command_trace_def Let_def spread_trace_def)

lemma wire_power_command: "wire_env E \<Longrightarrow> wire_command c \<Longrightarrow> wire_command (power_command_of E c a)"
  by (rule wire_same [OF wire_bind_trace [of E c]]) (simp_all add: power_command_of_def command_trace_def Let_def bind_trace_def)

lemma createInstance_publishes:
  assumes "createInstance E g c db = Inr (r, db')" and "wire_env E" "wire_tables db" "wire_request (Create_Request c)"
  shows "publishes E db db'"
proof -
  from assms(1) have run: "acceptCreate E g (create_command_of E c) (create_hash E c) db = Inr (r, db')"
    and valid: "validateCreateInstance (create_values c) = Inr ()"
    by (auto simp: createInstance_def)
  have "validateCreateInstance \<lparr>imageId = ccImageId (create_command_of E c), flavorId = ccFlavorId (create_command_of E c),
      networkId = ccNetworkId (create_command_of E c), hostname = ccHostname (create_command_of E c),
      sshPublicKeys = Some (ccSshPublicKeys (create_command_of E c))\<rparr> = Inr ()"
    using valid unfolding validateCreateInstance_def create_values_def create_command_of_def create_keys_def Let_def
    by (cases "ciSshPublicKeys c") (simp_all cong: if_cong)
  from acceptCreate_publishes [OF run assms(2,3) wire_create_command this] show ?thesis
    using assms(2,4) by (simp add: create_command_of_def Let_def)
qed

text \<open>The requests that an acceptance answers; a replay of a dead letter is a request of its own.\<close>

lemma serve_publishes:
  assumes "serve E g q db = Inr (a, db')" and "request_scope q \<noteq> None"
    and wire: "wire_env E" "wire_tables db" "wire_request q"
  shows "publishes E db db'"
proof (cases q)
  case (Create_Request c)
  with assms show ?thesis by (auto dest: createInstance_publishes)
next
  case (Power_Request c)
  with assms show ?thesis
    by (auto simp: mutateInstancePower_def dest!: acceptPowerAction_publishes intro: wire_power_command)
next
  case (Resize_Request c)
  from assms(1) Resize_Request obtain r h where run: "acceptResize E (bind_trace E c) h db = Inr (r, db')"
    by (auto simp: resizeInstance_def)
  have "rzDiskGiB (bind_trace E c) = rzDiskGiB c" by (simp add: bind_trace_def)
  with acceptResize_publishes [OF run wire(1,2) wire_bind_trace] show ?thesis
    using wire Resize_Request by simp
next
  case (Snapshot_Request c)
  let ?c = "(bind_trace E c)\<lparr>scDescription := (if truthy (scDescription c) then scDescription c else None)\<rparr>"
  have w: "wire_command ?c"
    by (rule wire_same [OF wire_bind_trace [of E c]]) (use wire Snapshot_Request in \<open>simp_all add: command_trace_def bind_trace_def\<close>)
  from assms(1) Snapshot_Request obtain r h where run: "acceptSnapshotCreate E ?c h db = Inr (r, db')"
    and "validateSnapshotName (scName c) = Inr ()" by (auto simp: createSnapshot_def)
  then have "snapshotNamePattern (scName ?c)" by (simp add: validateSnapshotName_def bind_trace_def split: if_split_asm)
  with acceptSnapshotCreate_publishes [OF run wire(1,2) w] show ?thesis
    using wire(3) Snapshot_Request by simp
next
  case (Snapshot_Action_Request a c)
  with assms show ?thesis
    by (auto simp: snapshotAction_def dest!: acceptSnapshotAction_publishes intro: wire_bind_trace)
next
  case (Retain_Request c)
  with assms show ?thesis
    by (auto simp: retainInstance_def dest!: acceptRetention_publishes intro: wire_bind_trace)
next
  case (Purge_Request c)
  with assms show ?thesis
    by (auto simp: purgeInstance_def dest!: acceptPurge_publishes intro: wire_bind_trace split: if_split_asm)
qed (use assms(2) in simp_all)

end
