(* ===== verification/Projection_Consumer.thy ===== *)
theory Projection_Consumer
  imports Command_Consumer Projection_Store
begin

section \<open>The projection consumer of the control API\<close>

text \<open>
  Model of \<^verbatim>\<open>apps/control-api/src/app/projections/projection-consumer.ts\<close>: the records of the event,
  dead-letter and reconciliation topics are narrowed and given to the projection store; a record that
  can never be projected is quarantined, every other failure is thrown again. \<open>D\<close> reads a date.
\<close>

definition EVENT_TOPIC :: string where "EVENT_TOPIC = ''provisioning.events.v1''"
definition DLQ_TOPIC :: string where "DLQ_TOPIC = ''provisioning.dlq.v1''"
definition RECONCILIATION_TOPIC :: string where "RECONCILIATION_TOPIC = ''reconciliation.events.v1''"

definition supported_workflow_event :: "env \<Rightarrow> event \<Rightarrow> bool" where
  "supported_workflow_event E e \<longleftrightarrow> isWorkflowProgressedV1 E e \<or> isInstanceMutationCompletedV1 E e \<or>
     isInstanceMutationFailedV1 e \<or> isProvisioningReplayResolvedV1 E e"

definition workflowEvent :: "env \<Rightarrow> incoming_record \<Rightarrow> 'e message_error + event" where
  "workflowEvent E r = res_bind (decoded_record E r) (\<lambda>e.
     if supported_workflow_event E e then Inr e
     else Inl (PermanentMessageError ''PROJECTION_SCHEMA_UNSUPPORTED''))"

definition deadLetterEvent :: "env \<Rightarrow> incoming_record \<Rightarrow> 'e message_error + event" where
  "deadLetterEvent E r = res_bind (decoded_record E r) (\<lambda>e.
     if isProvisioningDeadLetteredV1 E e then Inr e else Inl (PermanentMessageError ''DLQ_SCHEMA_UNSUPPORTED''))"

definition projected :: "event \<Rightarrow> bool \<Rightarrow> handling_result" where
  "projected e fresh = \<lparr>hrOutcome = (if fresh then Handled else Duplicate), hrSchemaName = schemaName e\<rparr>"

definition projection_handle :: "(string \<Rightarrow> millis) \<Rightarrow> (nat \<Rightarrow> env) \<Rightarrow> (control_error, pg) handler" where
  "projection_handle D Es attempt r db =
     (let E = Es attempt; delivery = mdIdentity (irDelivery r) in
      if topic delivery = RECONCILIATION_TOPIC then
        (case decoded_record E r of
           Inl err \<Rightarrow> (Inl err, db)
         | Inr e \<Rightarrow> in_store db (projected e) (applyDriftEvent D e delivery db))
      else if topic delivery = EVENT_TOPIC then
        (case workflowEvent E r of
           Inl err \<Rightarrow> (Inl err, db)
         | Inr e \<Rightarrow> in_store db (projected e) (applyWorkflowEvent D e delivery db))
      else
        (case deadLetterEvent E r of
           Inl err \<Rightarrow> (Inl err, db)
         | Inr e \<Rightarrow> in_store db (projected e) (applyDeadLetterEvent D e delivery db)))"

definition projection_exhausted :: "(nat \<Rightarrow> env) \<Rightarrow> (string \<Rightarrow> string) \<Rightarrow> (control_error, pg) exhaustion" where
  "projection_exhausted Es digest r err attempts_used db =
     (case permanent_code err of
        None \<Rightarrow> (Inl err, db)
      | Some failure_code \<Rightarrow>
          in_store db (\<lambda>fresh. \<lparr>hrOutcome = (if fresh then Quarantined else Duplicate),
              hrSchemaName = (case irEnvelope r of None \<Rightarrow> ''unknown'' | Some e \<Rightarrow> schemaName e)\<rparr>)
            (projection_quarantine (Es (Suc attempts_used)) (mdIdentity (irDelivery r))
               (map_option eventId (irEnvelope r)) (digest (raw_value r)) failure_code
               ''The projection record could not be handled by this contract version.'' db))"

definition projection_runner ::
  "(string \<Rightarrow> millis) \<Rightarrow> (nat \<Rightarrow> env) \<Rightarrow> (string \<Rightarrow> string) \<Rightarrow> string \<Rightarrow> nat \<Rightarrow> (control_error, pg) runner" where
  "projection_runner D Es digest topic_name maximum =
     \<lparr>rnTopic = topic_name, rnMaximumAttempts = maximum, rnRetryBackoffMs = 250,
      rnHandle = projection_handle D Es, rnExhausted = projection_exhausted Es digest\<rparr>"

end
