(* ===== verification/Consumer_Safety.thy ===== *)
theory Consumer_Safety
  imports Message_Transport Command_Publication Projection_Consumer Workflow_Fencing Control_History
begin

section \<open>No record is passed over\<close>

text \<open>
  What the consumers promise of a partition: an offset is committed only when the record before it has
  left durable evidence, a receipt of its event or a quarantine of its position. The locale states what a
  pair of handler and exhaustion callback must satisfy for that; it is interpreted on the command consumer
  of the orchestrator and on the projection consumer of the control API.
\<close>

subsection \<open>The retry loop\<close>

lemma attempts_step:
  "attempts handle exhausted maximum backoff r n final s =
     (if n \<le> maximum then
        (case attempt_once handle n r s of
           (Inr res, s') \<Rightarrow> (Inr res, [], s')
         | (Inl e, s') \<Rightarrow>
             (case attempts handle exhausted maximum backoff r (n + 1) (Some e) s' of
                (res, pauses, s'') \<Rightarrow> (res, (if n < maximum then [backoff * n] else []) @ pauses, s'')))
      else (case final of
              None \<Rightarrow> (Inl (PermanentMessageError []), [], s)
            | Some e \<Rightarrow> (case exhausted r e maximum s of (res, s') \<Rightarrow> (res, [], s'))))"
  by (subst attempts.simps) (rule refl)

lemma attempts_done: "attempts handle exhausted maximum backoff r (Suc maximum) (Some e) s =
    (case exhausted r e maximum s of (res, s') \<Rightarrow> (res, [], s'))"
  by (simp add: attempts_step split: prod.split)

text \<open>A record that could not be decoded is never given to the handler; the callback gets it after the last attempt.\<close>

lemma attempts_undecodable:
  assumes "irDecodeError r = Some c" and "1 \<le> n" and "n \<le> maximum"
  shows "attempts handle exhausted maximum backoff r n final s =
    (case exhausted r (MessageDecodeError c) maximum s of (res, s') \<Rightarrow> (res, map ((*) backoff) [n..<maximum], s'))"
  using assms(3,2)
proof (induction n arbitrary: final rule: inc_induct)
  case base
  then show ?case
    by (subst attempts_step) (simp add: attempt_once_def assms(1) attempts_done split: prod.split)
next
  case (step n)
  have "map ((*) backoff) [n..<maximum] = backoff * n # map ((*) backoff) [Suc n..<maximum]"
    using step.hyps(2) by (simp add: upt_conv_Cons)
  then show ?case
    using step.hyps step.prems
    by (subst attempts_step) (simp add: attempt_once_def assms(1) step.IH split: prod.split)
qed

text \<open>The pauses: between attempts only, each a multiple of the backoff.\<close>

lemma attempts_pauses:
  assumes "attempts handle exhausted maximum backoff r n final s = (res, pauses, s')"
  shows "\<exists>k. pauses = map ((*) backoff) [n..<k] \<and> (k \<le> n \<or> k \<le> maximum)"
  using assms
proof (induction handle exhausted maximum backoff r n final s arbitrary: res pauses s' rule: attempts.induct)
  case (1 handle exhausted maximum backoff r n final s)
  show ?case
  proof (cases "n \<le> maximum")
    case True
    obtain x s1 where once: "attempt_once handle n r s = (x, s1)" by fastforce
    show ?thesis
    proof (cases x)
      case (Inl e)
      obtain res2 pauses2 s2 where rest: "attempts handle exhausted maximum backoff r (n + 1) (Some e) s1 = (res2, pauses2, s2)"
        by (rule prod_cases3)
      from 1(1) [OF True once [symmetric] Inl rest] obtain k where
        k: "pauses2 = map ((*) backoff) [n + 1..<k]" "k \<le> n + 1 \<or> k \<le> maximum" by blast
      have p: "pauses = (if n < maximum then [backoff * n] else []) @ pauses2"
        using 1(2) True once Inl rest by (simp add: attempts_step [of handle exhausted maximum backoff r n])
      show ?thesis
      proof (cases "n < maximum")
        case True
        then have "pauses = map ((*) backoff) [n..<max (Suc n) k]"
          using p k by (cases "Suc n \<le> k") (simp_all add: upt_conv_Cons max_def)
        moreover have "max (Suc n) k \<le> maximum" using True k by auto
        ultimately show ?thesis by blast
      next
        case False
        with p k True have "pauses = map ((*) backoff) [n..<n]" by auto
        then show ?thesis by blast
      qed
    next
      case (Inr a)
      with 1(2) True once have "pauses = []" by (simp add: attempts_step [of handle exhausted maximum backoff r n])
      then show ?thesis by (intro exI [of _ n]) simp
    qed
  next
    case False
    with 1(2) have "pauses = []"
      by (auto simp: attempts_step [of handle exhausted maximum backoff r n] split: option.splits prod.splits)
    then show ?thesis by (intro exI [of _ n]) simp
  qed
qed

subsection \<open>A partition\<close>

text \<open>
  A partition of a topic is consumed from its committed offset. The handling of the record there may
  return and its offset be committed, or be lost by a crash before the commit; it may throw; and others
  may change the state in between.
\<close>

inductive partition_step ::
  "('e, 's) runner \<Rightarrow> int \<Rightarrow> ('s \<Rightarrow> 's \<Rightarrow> bool) \<Rightarrow> kafka_message list \<Rightarrow> nat \<times> 's \<Rightarrow> nat \<times> 's \<Rightarrow> bool"
  for run part others log_messages where
  committed_record: "c < length log_messages \<Longrightarrow> eachMessage run E part (log_messages ! c) s = (Some off, s') \<Longrightarrow>
    partition_step run part others log_messages (c, s) (nat off, s')"
| uncommitted_record: "c < length log_messages \<Longrightarrow> eachMessage run E part (log_messages ! c) s = (off, s') \<Longrightarrow>
    partition_step run part others log_messages (c, s) (c, s')"
| other_work: "others s s' \<Longrightarrow> partition_step run part others log_messages (c, s) (c, s')"

text \<open>The broker numbers the records of a partition.\<close>

definition numbered :: "kafka_message list \<Rightarrow> bool" where
  "numbered ms \<longleftrightarrow> (\<forall>i < length ms. mOffset (ms ! i) = show_nat i)"

text \<open>A record whose decoded envelope is the one of its value.\<close>

definition built :: "incoming_record \<Rightarrow> bool" where
  "built r \<longleftrightarrow> (\<exists>E. irEnvelope r = right_option (decodeEventEnvelope E (irValue r)))"

lemma built_kafka_record [simp]: "built (kafka_record E t part m)"
  by (auto simp: built_def kafka_record_def Let_def)

locale durable_handler =
  fixes handle :: "('e, 's) handler" and exhausted :: "('e, 's) exhaustion" and others :: "'s \<Rightarrow> 's \<Rightarrow> bool"
    and evidence :: "'s \<Rightarrow> incoming_record \<Rightarrow> bool"
  assumes handled: "built r \<Longrightarrow> handle n r s = (Inr res, s') \<Longrightarrow> evidence s' r"
    and gave_up: "built r \<Longrightarrow> exhausted r e n s = (Inr res, s') \<Longrightarrow> evidence s' r"
    and handle_keeps: "handle n r s = (x, s') \<Longrightarrow> evidence s q \<Longrightarrow> evidence s' q"
    and exhausted_keeps: "exhausted r e n s = (x, s') \<Longrightarrow> evidence s q \<Longrightarrow> evidence s' q"
    and others_keep: "others s s' \<Longrightarrow> evidence s q \<Longrightarrow> evidence s' q"
begin

lemma attempt_once_keeps: "attempt_once handle n r s = (x, s') \<Longrightarrow> evidence s q \<Longrightarrow> evidence s' q"
  by (auto simp: attempt_once_def dest: handle_keeps split: option.splits)

lemma attempts_evidence:
  assumes "attempts handle exhausted maximum backoff r n final s = (x, pauses, s')" and "built r"
  shows "(\<forall>q. evidence s q \<longrightarrow> evidence s' q) \<and> (\<forall>res. x = Inr res \<longrightarrow> evidence s' r)"
  using assms(1)
proof (induction "maximum + 1 - n" arbitrary: n final s x pauses s')
  case 0
  then have "\<not> n \<le> maximum" by simp
  with 0(2) show ?case
    by (auto simp: attempts_step [of handle exhausted maximum backoff r n] dest: exhausted_keeps gave_up [OF assms(2)]
        split: option.splits prod.splits)
next
  case (Suc k)
  then have le: "n \<le> maximum" and k: "k = maximum + 1 - (n + 1)" by simp_all
  obtain y s1 where once: "attempt_once handle n r s = (y, s1)" by fastforce
  note keep = attempt_once_keeps [OF once]
  show ?case
  proof (cases y)
    case (Inl e)
    obtain x2 pauses2 s2 where rest: "attempts handle exhausted maximum backoff r (n + 1) (Some e) s1 = (x2, pauses2, s2)"
      by (rule prod_cases3)
    with Suc.prems le once Inl have "x = x2" "s' = s2"
      by (simp_all add: attempts_step [of handle exhausted maximum backoff r n])
    with Suc.hyps(1) [OF k rest] keep show ?thesis by blast
  next
    case (Inr res)
    with Suc.prems le once have eq: "x = Inr res" "s' = s1" by (simp_all add: attempts_step [of handle exhausted maximum backoff r n])
    have "handle n r s = (Inr res, s1)" using once Inr by (simp add: attempt_once_def split: option.splits)
    then show ?thesis using handled [OF assms(2)] keep eq by blast
  qed
qed

lemma eachMessage_evidence:
  assumes "eachMessage run E part m s = (off, s')" and "rnHandle run = handle" and "rnExhausted run = exhausted"
  shows "(evidence s q \<longrightarrow> evidence s' q) \<and> (off \<noteq> None \<longrightarrow> evidence s' (kafka_record E (rnTopic run) part m))"
proof -
  obtain x pauses s1 where a: "attempts handle exhausted (rnMaximumAttempts run) (rnRetryBackoffMs run)
      (kafka_record E (rnTopic run) part m) 1 None s = (x, pauses, s1)"
    by (rule prod_cases3)
  with assms have "s' = s1" "off \<noteq> None \<longrightarrow> (\<exists>res. x = Inr res)"
    by (auto simp: eachMessage_def handleWithRetry_def split: sum.splits)
  with attempts_evidence [OF a built_kafka_record] show ?thesis by blast
qed

text \<open>Every record below the committed offset has its evidence.\<close>

lemma evidence_below:
  assumes "(partition_step run part others ms)\<^sup>*\<^sup>* (0, s) (c, s')"
    and "rnHandle run = handle" "rnExhausted run = exhausted" and "numbered ms" and "j < c"
  shows "\<exists>E. evidence s' (kafka_record E (rnTopic run) part (ms ! j))"
proof -
  have "\<forall>j < fst y. \<exists>E. evidence (snd y) (kafka_record E (rnTopic run) part (ms ! j))"
    if "(partition_step run part others ms)\<^sup>*\<^sup>* x y" "fst x = 0" for x y
    using that
  proof (induction rule: rtranclp_induct)
    case (step y z)
    from step.hyps(2) show ?case
    proof (cases rule: partition_step.cases)
      case (committed_record c E s off s')
      note m = eachMessage_evidence [OF committed_record(4) assms(2,3)]
      have "off = int c + 1"
        using committed_record(3,4) assms(4)
        by (auto simp: eachMessage_def numbered_def split: sum.splits prod.splits)
      with m step.IH [OF step.prems] committed_record(1,2) show ?thesis
        by (auto simp: less_Suc_eq nat_add_distrib) blast+
    next
      case (uncommitted_record c E s off s')
      with eachMessage_evidence [OF uncommitted_record(4) assms(2,3)] step.IH [OF step.prems] show ?thesis
        by simp blast
    next
      case (other_work s s' c)
      with step.IH [OF step.prems] show ?thesis by (auto dest: others_keep)
    qed
  qed simp
  from this [OF assms(1)] assms(5) show ?thesis by simp
qed

end

subsection \<open>The command consumer\<close>

text \<open>The receipts and quarantined positions of the orchestrator.\<close>

definition receipt_keys :: "'z workflow_db_scheme \<Rightarrow> (string \<times> uuid \<times> int) set" where
  "receipt_keys db = receipt_key ` set (command_receipts db)"

definition poison_keys :: "'z workflow_db_scheme \<Rightarrow> (string \<times> string \<times> int \<times> string) set" where
  "poison_keys db = poison_source ` set (poison_records db)"

definition command_evidence :: "'z workflow_db_scheme \<Rightarrow> incoming_record \<Rightarrow> bool" where
  "command_evidence db r \<longleftrightarrow> (let d = mdIdentity (irDelivery r) in
     (\<exists>E e. decodeEventEnvelope E (irValue r) = Inr e \<and> (CONSUMER_NAME, eventId e, replayGeneration d) \<in> receipt_keys db) \<or>
     (CONSUMER_NAME, topic d, partition d, offset d) \<in> poison_keys db)"

definition evidence_grows :: "'z workflow_db_scheme \<Rightarrow> 'z workflow_db_scheme \<Rightarrow> bool" where
  "evidence_grows db db' \<longleftrightarrow> receipt_keys db \<subseteq> receipt_keys db' \<and> poison_keys db \<subseteq> poison_keys db'"

lemma evidence_grows_refl [simp]: "evidence_grows db db"
  by (simp add: evidence_grows_def)

lemma command_evidence_grows: "evidence_grows db db' \<Longrightarrow> command_evidence db r \<Longrightarrow> command_evidence db' r"
  by (auto simp: command_evidence_def evidence_grows_def Let_def)

lemma command_receipt_evidence:
  "decodeEventEnvelope E (irValue r) = Inr e \<Longrightarrow>
     (CONSUMER_NAME, eventId e, replayGeneration (mdIdentity (irDelivery r))) \<in> receipt_keys db \<Longrightarrow> command_evidence db r"
  by (auto simp: command_evidence_def Let_def)

lemma poison_evidence:
  "d = mdIdentity (irDelivery r) \<Longrightarrow> (CONSUMER_NAME, topic d, partition d, offset d) \<in> poison_keys db \<Longrightarrow> command_evidence db r"
  by (auto simp: command_evidence_def Let_def)

text \<open>The statements that write no quarantine.\<close>

lemma outbox_poison: "writeWorkflowOutbox oid e tp oc g db = Inr db' \<Longrightarrow> poison_records db' = poison_records db"
  by (auto simp: writeWorkflowOutbox_def Let_def split: if_splits)

lemma resolution_poison: "writeReplayResolution eid oid r ids oc g t db = Inr db' \<Longrightarrow> poison_records db' = poison_records db"
  by (simp add: writeReplayResolution_def writeEvent_def outbox_poison)

lemma audit_poison: "writeServiceAudit aid oid c a oc t rs db = Inr db' \<Longrightarrow> poison_records db' = poison_records db"
  by (auto simp: writeServiceAudit_def Let_def dest: outbox_poison split: option.splits)

lemma dead_letter_poison: "writeDeadLetter eid oid i t db = Inr db' \<Longrightarrow> poison_records db' = poison_records db"
  by (auto simp: writeDeadLetter_def dest: outbox_poison)

lemma receipt_poison: "insertCommandReceipt E e d c db = Inr (fresh, db') \<Longrightarrow> poison_records db' = poison_records db"
  by (auto simp: insertCommandReceipt_def Let_def split: if_splits)

lemma persist_poison: "persistReplayRequest r s t a db = Inr db' \<Longrightarrow> poison_records db' = poison_records db"
  by (auto simp: persistReplayRequest_def Let_def split: if_splits)

lemma reopen_poison: "reopen_or_insert E c d existing db = Inr db' \<Longrightarrow> poison_records db' = poison_records db"
  by (auto simp: reopen_or_insert_def dest: insertWorkflow_Inr split: option.splits)

lemmas poison_frames = outbox_poison resolution_poison audit_poison dead_letter_poison receipt_poison persist_poison reopen_poison

lemma inbox_frames:
  "writeWorkflowOutbox oid e tp oc g db = Inr db' \<Longrightarrow> command_receipts db' = command_receipts db \<and> poison_records db' = poison_records db"
  "writeReplayResolution eid oid r ids oc' g t db = Inr db' \<Longrightarrow> command_receipts db' = command_receipts db \<and> poison_records db' = poison_records db"
  "writeServiceAudit aid oid c a oc' t rs db = Inr db' \<Longrightarrow> command_receipts db' = command_receipts db \<and> poison_records db' = poison_records db"
  "writeDeadLetter eid oid i t db = Inr db' \<Longrightarrow> command_receipts db' = command_receipts db \<and> poison_records db' = poison_records db"
  "persistReplayRequest r' st t au db = Inr db' \<Longrightarrow> command_receipts db' = command_receipts db \<and> poison_records db' = poison_records db"
  by (simp_all add: poison_frames writeWorkflowOutbox_frame writeReplayResolution_frame writeServiceAudit_frame
      writeDeadLetter_frame persistReplayRequest_frame)

text \<open>The statements that write evidence.\<close>

lemma insertCommandReceipt_keys:
  "insertCommandReceipt E e d c db = Inr (fresh, db') \<Longrightarrow>
     receipt_keys db' = insert (CONSUMER_NAME, eventId e, replayGeneration d) (receipt_keys db)"
  by (auto simp: insertCommandReceipt_def receipt_keys_def receipt_key_def Let_def image_iff split: if_splits)

lemma insertPoisonRecord_keys:
  assumes "insertPoisonRecord E i d h c m db = (b, db')"
  shows "poison_keys db' = insert (CONSUMER_NAME, topic d, partition d, offset d) (poison_keys db)"
    "receipt_keys db' = receipt_keys db"
  using assms
  by (auto simp: insertPoisonRecord_def insert_unique_def poison_keys_def poison_source_def receipt_keys_def Let_def
      image_iff split: if_splits)

lemma rejectReplayCommand_keys:
  assumes "rejectReplayCommand E d h c db = (a, db')"
  shows "poison_keys db' = insert (CONSUMER_NAME, topic d, partition d, offset d) (poison_keys db)"
    "receipt_keys db' = receipt_keys db"
proof -
  have db': "db' = snd (insertPoisonRecord E (uuidAt E 2) d h (rejection_name c) (REPLAY_REJECTION_MESSAGES c) db)"
    using assms by (simp add: rejectReplayCommand_def)
  show "poison_keys db' = insert (CONSUMER_NAME, topic d, partition d, offset d) (poison_keys db)"
    "receipt_keys db' = receipt_keys db"
    unfolding db' by (rule insertPoisonRecord_keys [OF surjective_pairing])+
qed

lemma admitOriginal_keys:
  assumes "admitOriginalDelivery E c d db = Inr (a, db')"
  shows "receipt_keys db' = insert (CONSUMER_NAME, eventId c, replayGeneration d) (receipt_keys db)"
    "poison_keys db' = poison_keys db"
proof -
  have w: "receipt_keys (db1\<lparr>workflows := ws\<rparr>) = receipt_keys db1" "poison_keys (db1\<lparr>workflows := ws\<rparr>) = poison_keys db1"
    for db1 :: "'a workflow_db_scheme" and ws
    by (simp_all add: receipt_keys_def poison_keys_def)
  from assms obtain c' fresh db1 where r: "insertCommandReceipt E c d c' db = Inr (fresh, db1)"
    and s: "db' = db1 \<or> (\<exists>ws. db' = db1\<lparr>workflows := ws\<rparr>)"
    unfolding admitOriginalDelivery_def Let_def by (auto dest!: insertWorkflow_Inr split: if_splits) blast+
  have "receipt_keys db' = receipt_keys db1" "poison_keys db' = poison_keys db1" using s w by auto
  then show "receipt_keys db' = insert (CONSUMER_NAME, eventId c, replayGeneration d) (receipt_keys db)"
    "poison_keys db' = poison_keys db"
    using insertCommandReceipt_keys [OF r] receipt_poison [OF r] by (simp_all add: poison_keys_def)
qed

lemma admitReplay_keys:
  assumes "admitAuthorizedReplayCommand E c d db = Inr (a, db')"
  shows "evidence_grows db db' \<and> ((CONSUMER_NAME, eventId c, replayGeneration d) \<in> receipt_keys db' \<or>
     (CONSUMER_NAME, topic d, partition d, offset d) \<in> poison_keys db')"
proof -
  let ?h = "hashJson E (message_json c)" and ?w = "lookup_by wfOperationId (operationId c) (workflows db)"
  note run = assms [unfolded admitAuthorizedReplayCommand_def Let_def]
  have rejected: ?thesis if "rejectReplayCommand E d h k db = (a, db')" for h k
    using rejectReplayCommand_keys [OF that] by (auto simp: evidence_grows_def)
  show ?thesis
  proof (cases "lookup_by receipt_key (CONSUMER_NAME, eventId c, replayGeneration d) (command_receipts db)")
    case (Some receipt)
    then have "(CONSUMER_NAME, eventId c, replayGeneration d) \<in> receipt_keys db"
      using lookup_by_SomeD [OF Some] by (metis receipt_keys_def image_eqI)
    with run Some rejected show ?thesis by (simp split: if_split_asm)
  next
    case unknown: None
    show ?thesis
    proof (cases "authorization_for c d db")
      case None
      with run unknown rejected show ?thesis by simp
    next
      case (Some auth)
      show ?thesis
      proof (cases "is_authorized ?h d auth \<and> \<not> (case ?w of None \<Rightarrow> False | Some w \<Rightarrow> not_reopenable c d w)")
        case True
        with run unknown Some obtain request fresh db1 where r: "insertCommandReceipt E c d None db = Inr (fresh, db1)"
          and rest: "(if \<not> fresh then Inr (AdmissionDuplicate, db1)
            else res_bind (reopen_or_insert E c d ?w db1) (\<lambda>db2.
              res_bind (writeReplayResolution (uuidAt E 2) (uuidAt E 3) request (replay_ids (data request)) ''completed''
                (replayGeneration d) (now E) (consume_authority E c d auth db2)) (\<lambda>db3. Inr (AdmissionAccepted, db3)))) = Inr (a, db')"
          by auto
        have "command_receipts db' = command_receipts db1 \<and> poison_records db' = poison_records db1"
        proof (cases fresh)
          case True
          with rest obtain db2 where o: "reopen_or_insert E c d ?w db1 = Inr db2"
            and z: "writeReplayResolution (uuidAt E 2) (uuidAt E 3) request (replay_ids (data request)) ''completed''
                (replayGeneration d) (now E) (consume_authority E c d auth db2) = Inr db'"
            by auto
          have "workflows db1 = workflows db" using insertCommandReceipt_frame [OF r] by simp
          with reopen_or_insert_op [OF o] reopen_poison [OF o] inbox_frames(2) [OF z]
          show ?thesis by (simp add: consume_authority_def)
        qed (use rest in simp)
        then show ?thesis using insertCommandReceipt_keys [OF r] receipt_poison [OF r]
          by (auto simp: evidence_grows_def poison_keys_def receipt_keys_def)
      next
        case False
        with run unknown Some rejected show ?thesis by (auto split: if_split_asm)
      qed
    qed
  qed
qed

lemma admitCommand_keys:
  assumes "admitCommand E c d db = Inr (a, db')"
  shows "evidence_grows db db' \<and> ((CONSUMER_NAME, eventId c, replayGeneration d) \<in> receipt_keys db' \<or>
     (CONSUMER_NAME, topic d, partition d, offset d) \<in> poison_keys db')"
  using assms admitReplay_keys [of E c d db a db'] admitOriginal_keys [of E c d db a db']
  by (auto simp: admitCommand_def evidence_grows_def split: if_splits)

lemma admitReplayRequest_keys:
  assumes "admitReplayRequest E q d db = Inr (a, db')"
  shows "evidence_grows db db' \<and> (CONSUMER_NAME, eventId q, replayGeneration d) \<in> receipt_keys db'"
proof -
  from assms obtain fresh db1 where r: "insertCommandReceipt E q d (Some (now E)) db = Inr (fresh, db1)"
      "command_receipts db' = command_receipts db1" "poison_records db' = poison_records db1"
    unfolding admitReplayRequest_def rejectReplayRequest_def Let_def
    by (auto dest!: inbox_frames split: if_splits option.splits)
  then show ?thesis using insertCommandReceipt_keys [OF r(1)] receipt_poison [OF r(1)]
    by (auto simp: evidence_grows_def poison_keys_def receipt_keys_def)
qed

lemma deadLetterCommand_keys:
  assumes "deadLetterCommand E e d n c m ra db = Inr (b, db')"
  shows "evidence_grows db db' \<and> (CONSUMER_NAME, eventId e, replayGeneration d) \<in> receipt_keys db'"
proof -
  from assms obtain fresh db1 where r: "insertCommandReceipt E e d (Some (now E)) db = Inr (fresh, db1)"
      "command_receipts db' = command_receipts db1" "poison_records db' = poison_records db1"
    unfolding deadLetterCommand_def by (auto dest!: inbox_frames split: if_splits)
  then show ?thesis using insertCommandReceipt_keys [OF r(1)] receipt_poison [OF r(1)]
    by (auto simp: evidence_grows_def poison_keys_def receipt_keys_def)
qed

text \<open>The fenced writes of the workers write no quarantine either.\<close>

lemma fenced_poison:
  "checkpoint E ci db = Inr db' \<Longrightarrow> poison_records db' = poison_records db"
  "deadLetterWorkflow E di db = Inr db' \<Longrightarrow> poison_records db' = poison_records db"
  "complete E f st e db = Inr db' \<Longrightarrow> poison_records db' = poison_records db"
  by (auto simp: checkpoint_def deadLetterWorkflow_def complete_def writeEvent_def update_workflow_def releaseLease_def
      complete_receipt_def Let_def dest!: inbox_frames split: if_splits option.splits)

lemma store_step_evidence:
  assumes "store_step (t, db) (t', db')"
  shows "evidence_grows db db'"
proof -
  from store_step_grows [OF assms] obtain ids where
    "map receipt_identity (command_receipts db') = map receipt_identity (command_receipts db) @ ids" by blast
  then have "set (map fst (map receipt_identity (command_receipts db))) \<subseteq> set (map fst (map receipt_identity (command_receipts db')))"
    by simp
  then have receipts: "receipt_keys db \<subseteq> receipt_keys db'" by (simp add: receipt_keys_def receipt_identity_def image_image)
  have same: ?thesis if "poison_records db' = poison_records db"
    using that receipts by (simp add: evidence_grows_def poison_keys_def)
  from assms show ?thesis
  proof (cases rule: store_step.cases)
    case (step_admit E c d a)
    then show ?thesis using admitCommand_keys by blast
  next
    case (step_replay E r d b)
    then show ?thesis using admitReplayRequest_keys by blast
  next
    case (step_quarantine E d h c m q)
    then have "insertPoisonRecord E (uuidAt E 2) d h c m db = (q, db')" by (simp add: quarantineRecord_def)
    from insertPoisonRecord_keys [OF this] show ?thesis by (auto simp: evidence_grows_def)
  next
    case (step_dead_letter E e d n c m ra q)
    then show ?thesis using deadLetterCommand_keys by blast
  next
    case (step_claim E worker s action cw)
    from step_claim(4) show ?thesis by (rule claimNext_effect) (rule same, simp)
  qed (use same fenced_poison in blast)+
qed

definition other_store_work :: "workflow_db \<Rightarrow> workflow_db \<Rightarrow> bool" where
  "other_store_work db db' \<longleftrightarrow> (\<exists>t t'. store_step (t, db) (t', db'))"

lemma in_store_Inr:
  "in_store db f r = (Inr res, db') \<longleftrightarrow> (\<exists>x. r = Inr (x, db') \<and> res = f x)"
  "in_store db f r = (Inl e, db') \<longleftrightarrow> (\<exists>e'. r = Inl e' \<and> e = HandlerError e' \<and> db' = db)"
  by (auto simp: in_store_def split: sum.splits)

lemma narrowCommand_event:
  "decodeEventEnvelope E (irValue r) = Inr e \<Longrightarrow> narrowCommand E r = Inr c \<Longrightarrow> c = e"
  by (simp add: narrowCommand_decoded)

lemma replayRequest_event:
  "decodeEventEnvelope E (irValue r) = Inr e \<Longrightarrow> replayRequest E r = Inr q \<Longrightarrow> q = e"
  by (simp add: replayRequest_def decoded_record_def split: if_split_asm)

lemma command_handle_evidence:
  assumes "command_handle Es n r db = (x, db')"
  shows "evidence_grows db db' \<and> (\<forall>res. x = Inr res \<longrightarrow> command_evidence db' r)"
proof (cases "decodeEventEnvelope (Es n) (irValue r)")
  case (Inl err)
  with assms have "db' = db" "\<exists>e. x = Inl e" by (auto simp: command_handle_def decoded_record_def Let_def)
  then show ?thesis by auto
next
  case e: (Inr e)
  let ?d = "mdIdentity (irDelivery r)"
  have done_by: ?thesis
    if run: "in_store db f y = (x, db')"
      and ok: "\<And>a d1. y = Inr (a, d1) \<Longrightarrow> evidence_grows db d1 \<and>
        ((CONSUMER_NAME, eventId e, replayGeneration ?d) \<in> receipt_keys d1 \<or>
         (CONSUMER_NAME, topic ?d, partition ?d, offset ?d) \<in> poison_keys d1)" for f and y :: "store_error + 'b \<times> 'a workflow_db_scheme"
    using run ok by (cases x) (auto simp: in_store_Inr dest: command_receipt_evidence [OF e] poison_evidence [OF refl])
  consider "(narrowCommand (Es n) r :: store_error message_error + event) = Inr e" "isSupportedCommandSchema (schemaName e)"
    | "(replayRequest (Es n) r :: store_error message_error + event) = Inr e" "\<not> isSupportedCommandSchema (schemaName e)" "schemaName e = ''provisioning.replay.requested''"
    | err where "x = Inl err" "db' = db"
    using assms by (auto simp: command_handle_def decoded_record_def e Let_def split: if_split_asm sum.split_asm
        dest: narrowCommand_event [OF e] replayRequest_event [OF e])
  then show ?thesis
  proof cases
    case 1
    with assms e have "in_store db (\<lambda>a. \<lparr>hrOutcome = admission_outcome a, hrSchemaName = schemaName e\<rparr>)
        (admitCommand (Es n) e ?d db) = (x, db')" by (simp add: command_handle_def decoded_record_def Let_def)
    then show ?thesis by (rule done_by) (rule admitCommand_keys)
  next
    case 2
    with assms e have "in_store db (\<lambda>d. \<lparr>hrOutcome = replay_outcome d, hrSchemaName = schemaName e\<rparr>)
        (admitReplayRequest (Es n) e ?d db) = (x, db')" by (simp add: command_handle_def decoded_record_def Let_def)
    then show ?thesis by (rule done_by) (use admitReplayRequest_keys in blast)
  qed simp
qed

lemma command_exhausted_evidence:
  assumes "command_exhausted Es digest r err n db = (x, db')"
  shows "evidence_grows db db' \<and> (built r \<longrightarrow> (\<forall>res. x = Inr res \<longrightarrow> command_evidence db' r))"
proof (cases "permanent_code err")
  case None
  with assms have "db' = db" "x = Inl err" by (auto simp: command_exhausted_def Let_def)
  then show ?thesis by simp
next
  case (Some failure_code)
  let ?d = "mdIdentity (irDelivery r)"
  show ?thesis
  proof (cases "\<not> is_decode_error err \<and> irEnvelope r \<noteq> None")
    case True
    then obtain e where e: "irEnvelope r = Some e" by auto
    with True Some assms have run: "in_store db (\<lambda>fresh. \<lparr>hrOutcome = (if fresh then DeadLetteredRecord else Duplicate),
        hrSchemaName = schemaName e\<rparr>) (deadLetterCommand (Es (Suc n)) e ?d (int n) failure_code
          ''The command schema is not supported by this consumer deployment.''
          (failure_code = ''COMMAND_SCHEMA_UNSUPPORTED'' \<and> schemaName e = ''instance.create.requested'') db) = (x, db')"
      by (simp add: command_exhausted_def Let_def)
    have "\<exists>E. decodeEventEnvelope E (irValue r) = Inr e" if "built r"
    proof -
      from that obtain E where "irEnvelope r = right_option (decodeEventEnvelope E (irValue r))" by (auto simp: built_def)
      with e show ?thesis by (cases "decodeEventEnvelope E (irValue r)") (auto simp: right_option_def)
    qed
    then show ?thesis using run deadLetterCommand_keys command_receipt_evidence
      by (cases x) (auto simp: in_store_Inr, blast+)
  next
    case False
    then have "is_decode_error err \<or> irEnvelope r = None" by blast
    with assms Some obtain fresh where "quarantineRecord (Es (Suc n)) ?d (digest (raw_value r)) failure_code
        ''The Kafka record could not be decoded as a versioned event envelope.'' db = (fresh, db')"
      by (cases "is_decode_error err"; cases "irEnvelope r") (auto simp: command_exhausted_def Let_def split: prod.split_asm)
    then show ?thesis
      unfolding quarantineRecord_def by (auto simp: evidence_grows_def intro: poison_evidence [OF refl] dest: insertPoisonRecord_keys)
  qed
qed

interpretation command_durability: durable_handler "command_handle Es" "command_exhausted Es digest" other_store_work command_evidence
  for Es digest
proof
  fix r :: incoming_record and n and s s' :: workflow_db and x and q :: incoming_record and err :: "store_error message_error"
  show "built r \<Longrightarrow> command_handle Es n r s = (Inr res, s') \<Longrightarrow> command_evidence s' r" for res
    using command_handle_evidence by blast
  show "built r \<Longrightarrow> command_exhausted Es digest r err n s = (Inr res, s') \<Longrightarrow> command_evidence s' r" for res
    using command_exhausted_evidence by blast
  show "command_handle Es n r s = (x, s') \<Longrightarrow> command_evidence s q \<Longrightarrow> command_evidence s' q"
    using command_handle_evidence command_evidence_grows by blast
  show "command_exhausted Es digest r err n s = (x, s') \<Longrightarrow> command_evidence s q \<Longrightarrow> command_evidence s' q"
    using command_exhausted_evidence command_evidence_grows by blast
  show "other_store_work s s' \<Longrightarrow> command_evidence s q \<Longrightarrow> command_evidence s' q"
    unfolding other_store_work_def by (blast intro: command_evidence_grows store_step_evidence)
qed

end
