(* ===== verification/Projection_Safety.thy ===== *)
theory Projection_Safety
  imports Consumer_Safety
begin

section \<open>The projection consumer passes no record over\<close>

text \<open>
  The second interpretation of \<open>durable_handler\<close>: the projection consumer of the control API, with the
  receipts and quarantined positions of its database. The other work is any step of the control plane.
\<close>

definition projection_poison_keys :: "pg \<Rightarrow> (string \<times> string \<times> int \<times> string) set" where
  "projection_poison_keys db = poison_source ` set (projection_poison db)"

definition projection_consumers :: "string set" where
  "projection_consumers = {EVENT_CONSUMER_NAME, DLQ_CONSUMER_NAME, DRIFT_CONSUMER_NAME}"

definition projection_evidence :: "pg \<Rightarrow> incoming_record \<Rightarrow> bool" where
  "projection_evidence db r \<longleftrightarrow> (let d = mdIdentity (irDelivery r) in \<exists>cn \<in> projection_consumers.
     (\<exists>E e. decodeEventEnvelope E (irValue r) = Inr e \<and> (cn, eventId e, replayGeneration d) \<in> received db) \<or>
     (cn, topic d, partition d, offset d) \<in> projection_poison_keys db)"

definition projection_grows :: "pg \<Rightarrow> pg \<Rightarrow> bool" where
  "projection_grows db db' \<longleftrightarrow> received db \<subseteq> received db' \<and> projection_poison_keys db \<subseteq> projection_poison_keys db'"

lemma projection_grows_refl [simp]: "projection_grows db db"
  by (simp add: projection_grows_def)

lemma projection_evidence_grows: "projection_grows db db' \<Longrightarrow> projection_evidence db r \<Longrightarrow> projection_evidence db' r"
  by (fastforce simp: projection_evidence_def projection_grows_def Let_def)

lemma poison_frame [simp]:
  "projection_poison (writeDocuments iv ov t rc d) = projection_poison d"
  "projection_poison (update_operation op G d) = projection_poison d" "projection_poison (update_instance i F d) = projection_poison d"
  "projection_poison (settleSnapshot c v t d) = projection_poison d"
  "projection_poison (project_dead_letter D e dl d) = projection_poison d"
  "projection_poison (project_drift D e cls d) = projection_poison d"
  by (simp_all add: writeDocuments_def update_operation_def update_instance_def settleSnapshot_def project_dead_letter_def
      project_drift_def Let_def split: option.split)

lemma applyEvent_poison: "applyEvent D e d1 = Inr d2 \<Longrightarrow> projection_poison d2 = projection_poison d1"
  by (auto simp: applyEvent_def applyProgress_def applyCompleted_def applyFailed_def applyReplayResolved_def lockDocuments_def
      Let_def split: if_split_asm event_data.splits)

lemma insertReceipt_poison: "insertReceipt cn i d db = Inr (b, db') \<Longrightarrow> projection_poison db' = projection_poison db"
  by (auto simp: insertReceipt_def Let_def split: if_split_asm)

lemma with_receipt_grows:
  assumes "with_receipt cn i d body db = Inr (b, db')"
    and "\<And>d1 d2. body d1 = Inr d2 \<Longrightarrow> event_receipts d2 = event_receipts d1 \<and> projection_poison d2 = projection_poison d1"
  shows "projection_grows db db' \<and> (cn, i, replayGeneration d) \<in> received db'"
proof -
  from assms(1) obtain fresh db1 where i: "insertReceipt cn i d db = Inr (fresh, db1)"
      and b: "\<not> fresh \<and> db' = db1 \<or> body db1 = Inr db'"
    by (auto simp: with_receipt_def split: if_split_asm)
  have "received db' = received db1" "projection_poison_keys db' = projection_poison_keys db1"
    using b assms(2) [of db1 db'] by (auto simp: received_def projection_poison_keys_def)
  with insertReceipt_received [OF i] insertReceipt_poison [OF i] show ?thesis
    by (auto simp: projection_grows_def projection_poison_keys_def)
qed

lemma workflow_grows:
  assumes "applyWorkflowEvent D e d db = Inr (b, db')"
  shows "projection_grows db db' \<and> (EVENT_CONSUMER_NAME, eventId e, replayGeneration d) \<in> received db'"
  using assms [unfolded applyWorkflowEvent_def]
  by (rule with_receipt_grows) (simp add: applyEvent_receipts applyEvent_poison)

lemma dead_letter_grows:
  assumes "applyDeadLetterEvent D e d db = Inr (b, db')"
  shows "projection_grows db db' \<and> (DLQ_CONSUMER_NAME, eventId e, replayGeneration d) \<in> received db'"
  using assms [unfolded applyDeadLetterEvent_def]
  by (rule with_receipt_grows) (auto split: event_data.split_asm)

lemma drift_grows:
  assumes "applyDriftEvent D e d db = Inr (b, db')"
  shows "projection_grows db db' \<and> (DRIFT_CONSUMER_NAME, eventId e, replayGeneration d) \<in> received db'"
  using assms [unfolded applyDriftEvent_def]
  by (rule with_receipt_grows) (auto split: option.split)

lemma insert_poison_keys:
  "projection_poison_keys (snd (insert_poison row db)) = insert (poison_source row) (projection_poison_keys db)"
  "received (snd (insert_poison row db)) = received db"
  by (auto simp: insert_poison_def insert_unique_def projection_poison_keys_def received_def image_iff split: if_splits)

lemma quarantine_grows:
  assumes "projection_quarantine E d i h c m db = Inr (b, db')"
  shows "projection_grows db db' \<and> (\<exists>cn \<in> projection_consumers. (cn, topic d, partition d, offset d) \<in> projection_poison_keys db')"
proof -
  let ?cn = "if topic d = ''provisioning.dlq.v1'' then DLQ_CONSUMER_NAME else EVENT_CONSUMER_NAME"
  let ?row = "\<lparr>poId = uuidAt E 0, poConsumerName = ?cn, poSourceTopic = topic d, poSourcePartition = partition d,
    poSourceOffset = offset d, poPayloadHash = h, poFailureCode = c, poSafeMessage = m, poQuarantinedAt = now E\<rparr>"
  let ?db1 = "snd (insert_poison ?row db)"
  have kept: "received ?db1 \<subseteq> received db' \<and> projection_poison_keys db' = projection_poison_keys ?db1"
  proof (cases "truthy i")
    case True
    with assms obtain fresh where "insertReceipt ?cn (the i) d ?db1 = Inr (fresh, db')"
      by (auto simp: projection_quarantine_def Let_def)
    from insertReceipt_received [OF this] insertReceipt_poison [OF this]
    show ?thesis
      by (auto simp: projection_poison_keys_def)
  next
    case False
    with assms have "insert_poison ?row db = (b, db')" by (simp add: projection_quarantine_def Let_def)
    then show ?thesis by simp
  qed
  have cn: "?cn \<in> projection_consumers" by (simp add: projection_consumers_def)
  have source: "poison_source ?row = (?cn, topic d, partition d, offset d)" by (simp add: poison_source_def)
  have "received db \<subseteq> received db'" "projection_poison_keys db' = insert (?cn, topic d, partition d, offset d) (projection_poison_keys db)"
    using kept unfolding insert_poison_keys source by simp_all
  with cn show ?thesis unfolding projection_grows_def by (intro conjI bexI [of _ ?cn]) auto
qed

lemma poison_records_grow:
  assumes "deliver D E d db = Inr (b, db')"
  shows "projection_grows db db'"
  using assms workflow_grows dead_letter_grows drift_grows quarantine_grows by (cases d) auto

lemma run_step_grows: "projection_grows db (run_step D s db)"
proof -
  have "projection_poison_keys db \<subseteq> projection_poison_keys (run_step D s db)"
  proof (cases s)
    case (Serve E g q)
    have "projection_poison db' = projection_poison db" if "request_step db db'" for db'
      using that
    proof (induction rule: request_step.induct)
      case (step_accept sc h r e db db')
      have "recorded sc h r e db db'" using step_accept(1) by (auto elim: accepts.cases)
      then show ?case by (simp add: recorded_def same_catalog_def)
    qed simp_all
    from this [OF serve_committed [of db E g q]] show ?thesis by (simp add: Serve projection_poison_keys_def)
  next
    case (Deliver E d)
    then show ?thesis using committed_cases [of db "deliver D E d db"] poison_records_grow [of D E d db]
      by (auto simp: projection_grows_def)
  next
    case (Claim_Stale E l t)
    then show ?thesis using claimStaleInstances_frame [of E l t db] by (auto simp: projection_poison_keys_def)
  next
    case (Record_Observation E tp out)
    show ?thesis
    proof (cases "recordObservation E tp out db")
      case (Inr db')
      then show ?thesis by (rule recordObservation_frame) (simp add: Record_Observation Inr projection_poison_keys_def)
    qed (simp add: Record_Observation)
  qed
  with run_step_received [of db D s] show ?thesis by (simp add: projection_grows_def)
qed

definition other_control_work :: "(string \<Rightarrow> millis) \<Rightarrow> pg \<Rightarrow> pg \<Rightarrow> bool" where
  "other_control_work D db db' \<longleftrightarrow> (\<exists>s. db' = run_step D s db)"

lemma projection_received_evidence:
  assumes "decodeEventEnvelope E (irValue r) = Inr e" and "cn \<in> projection_consumers"
    and "(cn, eventId e, replayGeneration (mdIdentity (irDelivery r))) \<in> received db"
  shows "projection_evidence db r"
  using assms by (auto simp: projection_evidence_def Let_def)

lemma workflowEvent_event: "decodeEventEnvelope E (irValue r) = Inr e \<Longrightarrow> workflowEvent E r = Inr q \<Longrightarrow> q = e"
  by (simp add: workflowEvent_def decoded_record_def split: if_split_asm)

lemma deadLetterEvent_event: "decodeEventEnvelope E (irValue r) = Inr e \<Longrightarrow> deadLetterEvent E r = Inr q \<Longrightarrow> q = e"
  by (simp add: deadLetterEvent_def decoded_record_def split: if_split_asm)

lemma projection_handle_evidence:
  assumes "projection_handle D Es n r db = (x, db')"
  shows "projection_grows db db' \<and> (\<forall>res. x = Inr res \<longrightarrow> projection_evidence db' r)"
proof (cases "decodeEventEnvelope (Es n) (irValue r)")
  case (Inl err)
  with assms have "db' = db" "\<exists>e. x = Inl e"
    by (auto simp: projection_handle_def workflowEvent_def deadLetterEvent_def decoded_record_def Let_def split: if_split_asm)
  then show ?thesis by auto
next
  case e: (Inr e)
  let ?d = "mdIdentity (irDelivery r)"
  have by_store: ?thesis
    if run: "in_store db f y = (x, db')" and cn: "cn \<in> projection_consumers"
      and ok: "\<And>a d1. y = Inr (a, d1) \<Longrightarrow> projection_grows db d1 \<and> (cn, eventId e, replayGeneration ?d) \<in> received d1"
    for f and y :: "control_error + bool \<times> pg" and cn
    using run ok cn by (cases x) (auto simp: in_store_Inr dest: projection_received_evidence [OF e])
  have names: "EVENT_CONSUMER_NAME \<in> projection_consumers" "DLQ_CONSUMER_NAME \<in> projection_consumers"
      "DRIFT_CONSUMER_NAME \<in> projection_consumers"
    by (simp_all add: projection_consumers_def)
  from assms consider "in_store db (projected e) (applyDriftEvent D e ?d db) = (x, db')"
    | "in_store db (projected e) (applyWorkflowEvent D e ?d db) = (x, db')"
    | "in_store db (projected e) (applyDeadLetterEvent D e ?d db) = (x, db')"
    | err where "x = Inl err" "db' = db"
    by (auto simp: projection_handle_def decoded_record_def e Let_def split: if_split_asm sum.split_asm
        dest: workflowEvent_event [OF e] deadLetterEvent_event [OF e])
  then show ?thesis
  proof cases
    case 1 then show ?thesis by (rule by_store [OF _ names(3) drift_grows])
  next
    case 2 then show ?thesis by (rule by_store [OF _ names(1) workflow_grows])
  next
    case 3 then show ?thesis by (rule by_store [OF _ names(2) dead_letter_grows])
  qed simp
qed

lemma projection_exhausted_evidence:
  assumes "projection_exhausted Es digest r err n db = (x, db')"
  shows "projection_grows db db' \<and> (\<forall>res. x = Inr res \<longrightarrow> projection_evidence db' r)"
proof (cases "permanent_code err")
  case None
  with assms have "db' = db" "x = Inl err" by (auto simp: projection_exhausted_def)
  then show ?thesis by simp
next
  case (Some failure_code)
  let ?d = "mdIdentity (irDelivery r)"
  from assms Some consider fresh i h c m where "projection_quarantine (Es (Suc n)) ?d i h c m db = Inr (fresh, db')"
    | e where "x = Inl e" "db' = db"
    by (cases x) (auto simp: projection_exhausted_def in_store_Inr)
  then show ?thesis
  proof cases
    case 1
    then show ?thesis using quarantine_grows [OF 1] by (auto simp: projection_evidence_def Let_def)
  qed simp
qed

interpretation projection_durability: durable_handler "projection_handle D Es" "projection_exhausted Es digest"
  "other_control_work D" projection_evidence for D Es digest
proof
  fix r :: incoming_record and n and s s' :: pg and x and q :: incoming_record and err :: "control_error message_error"
  show "projection_handle D Es n r s = (Inr res, s') \<Longrightarrow> projection_evidence s' r" for res
    using projection_handle_evidence by blast
  show "projection_exhausted Es digest r err n s = (Inr res, s') \<Longrightarrow> projection_evidence s' r" for res
    using projection_exhausted_evidence by blast
  show "projection_handle D Es n r s = (x, s') \<Longrightarrow> projection_evidence s q \<Longrightarrow> projection_evidence s' q"
    using projection_handle_evidence projection_evidence_grows by blast
  show "projection_exhausted Es digest r err n s = (x, s') \<Longrightarrow> projection_evidence s q \<Longrightarrow> projection_evidence s' q"
    using projection_exhausted_evidence projection_evidence_grows by blast
  show "other_control_work D s s' \<Longrightarrow> projection_evidence s q \<Longrightarrow> projection_evidence s' q"
    unfolding other_control_work_def by (blast intro: projection_evidence_grows run_step_grows)
qed

end
