(* ===== verification/Consumer_Properties.thy ===== *)
theory Consumer_Properties
  imports Projection_Safety Control_Samples
begin

section \<open>Properties of the messaging between the planes\<close>

text \<open>
  From a row of an outbox to its effect at the other side: what is carried is decoded as it was
  published, an accepted command becomes a workflow, every committed offset has its evidence, and what
  cannot be decoded is quarantined after a bounded effort.
\<close>

subsection \<open>Bounded effort\<close>

lemma pauses_of:
  assumes "handleWithRetry handle exhausted maximum backoff r s = (res, pauses, s')"
  obtains k where "pauses = map ((*) backoff) [1..<k]" "k \<le> max 1 maximum"
proof -
  from attempts_pauses [OF assms [unfolded handleWithRetry_def]] obtain k where
    "pauses = map ((*) backoff) [1..<k]" "k \<le> 1 \<or> k \<le> maximum" by blast
  moreover from this(2) have "k \<le> max 1 maximum" by auto
  ultimately show thesis using that by blast
qed

text \<open>
  A record costs at most as many attempts as were configured: the pauses are backoff, twice
  backoff, and so on, one between two attempts and none after the last, so with the bounds that the
  constructor enforces there are at most nine, none longer than nine times the backoff.
\<close>

theorem handler_retries_are_bounded:
  assumes "runner_limits brokers given given_backoff = Inr (maximum, backoff)"
    and "handleWithRetry handle exhausted maximum backoff r s = (res, pauses, s')"
  shows "length pauses \<le> 9 \<and> (\<forall>i < length pauses. pauses ! i = backoff * (i + 1))"
proof -
  from assms(1) have "1 \<le> maximum" "maximum \<le> 10"
    by (auto simp: runner_limits_def Let_def split: if_split_asm)
  moreover obtain k where k: "pauses = map ((*) backoff) [1..<k]" "k \<le> max 1 maximum"
    by (rule pauses_of [OF assms(2)])
  ultimately have "length pauses \<le> 9" by simp
  moreover have "pauses ! i = backoff * (i + 1)" if "i < length pauses" for i
  proof -
    from that have "1 + i < k" by (simp add: k(1))
    then show ?thesis by (simp add: k(1) nth_upt)
  qed
  ultimately show ?thesis by blast
qed

theorem handler_retries_are_bounded_witness:
  "runner_limits [''kafka:9092''] None None = Inr (3, 250) \<and> length ([250, 500] :: nat list) \<le> 9"
proof -
  let ?r = "\<lparr>irDelivery = \<lparr>mdIdentity = sample_delivery, mdBrokerTimestampMs = 0\<rparr>, irKey = None, irValue = None,
    irHeaders = (\<lambda>_. None), irEnvelope = None, irDecodeError = Some EMPTY_VALUE\<rparr>"
  let ?give_up = "\<lambda>r (e :: store_error message_error) n (s :: unit). (Inr \<lparr>hrOutcome = Quarantined, hrSchemaName = ''unknown''\<rparr>, s)"
  have limits: "runner_limits [''kafka:9092''] None None = Inr (3, 250)" by (simp add: runner_limits_def)
  have pauses: "map ((*) 250) [1..<3] = [250, 500 :: nat]" by code_simp
  have "handleWithRetry (\<lambda>n r s. (Inl (PermanentMessageError []), s)) ?give_up 3 250 ?r () =
      (Inr \<lparr>hrOutcome = Quarantined, hrSchemaName = ''unknown''\<rparr>, [250, 500], ())"
    unfolding handleWithRetry_def
    by (subst attempts_undecodable [where c = EMPTY_VALUE]) (simp_all add: pauses [unfolded One_nat_def])
  from handler_retries_are_bounded [OF limits this] limits show ?thesis by simp
qed

subsection \<open>Transport\<close>

text \<open>
  C13. A record that the connector made from an outbox row is decoded to the event that was published,
  at the replay generation and outbox identifier of the row, whatever the order of the members of the
  stored object.
\<close>

theorem carried_event_is_decoded:
  assumes "carries m row" and "publishable E (obPayload row)" and "row_bounds row"
  shows "irEnvelope (kafka_record E t part m) = Some (obPayload row) \<and> irDecodeError (kafka_record E t part m) = None \<and>
    replayGeneration (mdIdentity (irDelivery (kafka_record E t part m))) = obReplayGeneration row \<and>
    outboxId (mdIdentity (irDelivery (kafka_record E t part m))) = Some (obOutboxId row)"
  using carried_record [OF assms] by simp

definition sample_wire_env :: env where
  "sample_wire_env = (sample_control_env 10 5000)\<lparr>uuidAt := (\<lambda>n. sample_uuid (if n < 5 then 10 + n else 99))\<rparr>"

lemma sample_uuid_pattern: "n \<in> {1, 2, 3, 4, 5, 6, 10, 11, 12, 13, 14, 99} \<Longrightarrow> uuidPattern (sample_uuid n)"
proof -
  have "list_all (\<lambda>n. uuidPattern (sample_uuid n)) [1, 2, 3, 4, 5, 6, 10, 11, 12, 13, 14, 99]" by code_simp
  then show "n \<in> {1, 2, 3, 4, 5, 6, 10, 11, 12, 13, 14, 99} \<Longrightarrow> ?thesis" by auto
qed

lemma sample_trace_valid: "valid_trace sample_trace"
  by code_simp

lemma toISOString_text: "toISOString t \<noteq> []"
  by (simp add: toISOString_def Let_def split: prod.split)

lemma sample_wire_uuid: "uuidPattern (uuidAt sample_wire_env n)"
proof -
  have "n < 5 \<Longrightarrow> 10 + n \<in> {10, 11, 12, 13, 14}" by auto
  then show ?thesis by (auto simp: sample_wire_env_def intro!: sample_uuid_pattern)
qed

lemma sample_wire: "wire_env sample_wire_env"
  using sample_wire_uuid by (auto simp: wire_env_def sample_wire_env_def sample_control_env_def sample_env_at_def toISOString_text)

definition sample_outbox_row :: outbox_row where
  "sample_outbox_row = \<lparr>obOutboxId = sample_uuid 6, obTopic = COMMAND_TOPIC, obPayload = sample_command,
     obReplayGeneration = 0, obOccurredAt = toISOString 0\<rparr>"

lemma sample_command_offered: "offered sample_wire_env sample_command"
proof -
  have "isInstanceCreateRequestedV1 sample_command" by code_simp
  then have "admissible sample_wire_env sample_command"
    by (simp add: admissible_def sample_command_def workflowActionForSchema_def)
  moreover have "publishable sample_wire_env sample_command"
    by (simp add: publishable_def isEventEnvelope_message sample_command_def sample_uuid_pattern sample_instance_def
        sample_project_def sample_operation_def sample_trace_valid MAX_SAFE_INTEGER_def create_json_def
        sample_wire_env_def sample_control_env_def sample_env_at_def toISOString_text uuidPattern_length)
  ultimately show ?thesis by (simp add: offered_def)
qed

theorem carried_event_is_decoded_witness:
  "irEnvelope (kafka_record sample_wire_env COMMAND_TOPIC 0 (connector_message sample_outbox_row 7)) = Some sample_command"
proof -
  have e: "publishable sample_wire_env (obPayload sample_outbox_row)"
    using sample_command_offered by (simp add: offered_def sample_outbox_row_def)
  have b: "row_bounds sample_outbox_row" by (simp add: row_bounds_def sample_outbox_row_def sample_uuid_pattern MAX_SAFE_INTEGER_def)
  from carried_event_is_decoded [OF connector_carries [where n = 7, OF e] e b, of COMMAND_TOPIC 0] show ?thesis
    by (simp add: sample_outbox_row_def)
qed

subsection \<open>An accepted command becomes a workflow\<close>

lemma admitOriginal_new:
  assumes "lookup_by wfOperationId (operationId e) (workflows db) = None"
    and "eventId e \<notin> set (map wfEventId (workflows db))"
    and "receipt_keys db \<inter> {(CONSUMER_NAME, eventId e, replayGeneration d)} = {}"
    and "(CONSUMER_NAME, topic d, partition d, offset d) \<notin> receipt_source ` set (command_receipts db)"
    and "workflowActionForSchema (schemaName e) = Some action"
  shows "\<exists>db' w. admitOriginalDelivery E e d db = Inr (AdmissionAccepted, db') \<and> w \<in> set (workflows db') \<and>
    wfCommand w = e \<and> wfOperationId w = operationId e \<and> wfStatus w = ''running'' \<and> wfStage w = ''accepted''"
proof -
  have receipt: "\<exists>rows. insertCommandReceipt E e d None db = Inr (True, db\<lparr>command_receipts := rows\<rparr>)"
    using assms(3,4) by (auto simp: insertCommandReceipt_def receipt_keys_def receipt_key_def receipt_source_def Let_def)
  then obtain rows where r: "insertCommandReceipt E e d None db = Inr (True, db\<lparr>command_receipts := rows\<rparr>)" by blast
  have op: "operationId e \<notin> set (map wfOperationId (workflows db))" using assms(1) by (simp add: lookup_by_None_iff)
  have act: "workflowActionOf e = Inr action" using assms(5) by (simp add: workflowActionOf_def)
  let ?w = "new_workflow e action d (if action = CreateInstance then None
    else inherited_resource (aggregateId e) (workflows (db\<lparr>command_receipts := rows\<rparr>))) (now E)"
  have w: "wfCommand ?w = e \<and> wfOperationId ?w = operationId e \<and> wfEventId ?w = eventId e \<and>
      wfStatus ?w = ''running'' \<and> wfStage ?w = ''accepted''" by (simp add: new_workflow_def)
  have "admitOriginalDelivery E e d db =
      Inr (AdmissionAccepted, db\<lparr>command_receipts := rows, workflows := workflows db @ [?w]\<rparr>)"
    using op assms(2) w by (simp add: admitOriginalDelivery_def assms(1) r act insertWorkflow_def Let_def)
  then show ?thesis using w by (intro exI [of _ "db\<lparr>command_receipts := rows, workflows := workflows db @ [?w]\<rparr>"] exI [of _ ?w]) simp
qed

text \<open>The sample request on the sample tables.\<close>

lemma sample_wire_tables: "wire_tables sample_pg"
proof -
  have "ipv4Address (JStr ''10.20.0.1'')" by code_simp
  then show ?thesis
    by (simp add: wire_tables_def sample_control_defs wire_instance_def wire_flavor_def wire_network_def sample_uuid_pattern
        sample_instance_def sample_project_def sample_operation_def del: ipv4Address.simps)
qed

lemma sample_wire_power: "wire_request (Power_Request sample_power)"
  using sample_trace_valid sample_uuid_pattern [of 5]
  by (simp add: wire_command_def sample_power_def instance_command.defs sample_instance_command_def command_trace_def sample_trace_def)

lemma sample_power_sent:
  "\<exists>r db'. serve sample_wire_env [] (Power_Request sample_power) sample_pg = Inr (Some r, db') \<and> \<not> acReplayed r"
  by (simp add: mutateInstancePower_def authorize_def assertIdempotencyKey_def IDEMPOTENCY_KEY_MINIMUM_LENGTH_def
      IDEMPOTENCY_KEY_MAXIMUM_LENGTH_def validatePowerAction_def sample_power_def instance_command.defs sample_control_defs
      acceptPowerAction_def replay_or_def findReplayedResponse_def lockInstanceForMutation_def MUTABLE_LIFECYCLE_STATES_def
      write_accepted_def insert_row_def insert_unique_def update_instance_def markInstanceBusyInProjection_def
      writeControlOutbox_def writeControlAudit_def auditRecordedEvent_def instance_command_event_def power_command_of_def Let_def
      sample_wire_env_def sample_control_env_def sample_env_at_def sample_uuid_neq accepted_response_def bind_trace_def active_trace_def)

text \<open>A command the orchestrator has not met, at a position it has not met.\<close>

definition unmet :: "event \<Rightarrow> delivery_identity \<Rightarrow> 'z workflow_db_scheme \<Rightarrow> bool" where
  "unmet e d db \<longleftrightarrow> lookup_by wfOperationId (operationId e) (workflows db) = None \<and>
     eventId e \<notin> set (map wfEventId (workflows db)) \<and>
     receipt_keys db \<inter> {(CONSUMER_NAME, eventId e, replayGeneration d)} = {} \<and>
     (CONSUMER_NAME, topic d, partition d, offset d) \<notin> receipt_source ` set (command_receipts db)"

lemma handled_at_once:
  assumes "irDecodeError r = None" and "handle 1 r s = (Inr res, s')" and "1 \<le> maximum"
  shows "handleWithRetry handle exhausted maximum backoff r s = (Inr res, [], s')"
  using assms by (simp add: handleWithRetry_def attempts_step [of handle exhausted maximum backoff r "Suc 0"] attempt_once_def)

lemma undecodable_gives_up:
  assumes "irDecodeError r = Some c" and "1 \<le> maximum" and "exhausted r (MessageDecodeError c) maximum s = (res, s')"
  shows "handleWithRetry handle exhausted maximum backoff r s = (res, map ((*) backoff) [1..<maximum], s')"
  unfolding handleWithRetry_def attempts_undecodable [OF assms(1) order.refl assms(2)] assms(3) by simp

lemma offered_same:
  assumes "offered E e" and "dateParses E' = dateParses E"
  shows "publishable E' e" "admissible E' e"
  using assms(1) publishable_same [OF assms(2)] admissible_same [OF assms(2)] by (simp_all add: offered_def)

lemma offered_row_admitted:
  assumes offer: "offered E (obPayload row)" and row: "obReplayGeneration row = 0" "uuidPattern (obOutboxId row)"
    and "carries m row" and same: "dateParses (Es 1) = dateParses E" "dateParses E' = dateParses E" and "1 \<le> maximum"
    and new: "unmet (obPayload row) \<lparr>topic = COMMAND_TOPIC, partition = part, offset = mOffset m,
      replayGeneration = 0, outboxId = Some (obOutboxId row)\<rparr> wdb"
  shows "\<exists>wdb' w. eachMessage (command_runner Es digest maximum) E' part m wdb = (Some (int (dec_value (mOffset m)) + 1), wdb') \<and>
    w \<in> set (workflows wdb') \<and> wfCommand w = obPayload row \<and> wfOperationId w = operationId (obPayload row) \<and>
    wfStatus w = ''running'' \<and> wfStage w = ''accepted''"
proof -
  let ?e = "obPayload row" and ?r = "kafka_record E' COMMAND_TOPIC part m"
  let ?d = "\<lparr>topic = COMMAND_TOPIC, partition = part, offset = mOffset m, replayGeneration = 0, outboxId = Some (obOutboxId row)\<rparr>"
  have bounds: "row_bounds row" using row by (simp add: row_bounds_def MAX_SAFE_INTEGER_def)
  note adm = offered_same(2) [OF offer same(1)]
  note r = carried_record [OF assms(4) offered_same(1) [OF offer same(2)] bounds, of COMMAND_TOPIC part]
  have d: "mdIdentity (irDelivery ?r) = ?d" using r(3) row(1) by simp
  have decoded: "decodeEventEnvelope (Es 1) (irValue ?r) = Inr ?e"
    using decode_alike [OF offered_same(1) [OF offer same(1)]] assms(4) by (auto simp: carries_def kafka_record_def Let_def)
  from adm obtain action where act: "workflowActionForSchema (schemaName ?e) = Some action" by (auto simp: admissible_def)
  have narrow: "(narrowCommand (Es 1) ?r :: store_error message_error + event) = Inr ?e"
    by (rule narrowCommand_decoded [OF decoded, THEN iffD2]) (use adm in simp)
  from new obtain wdb' w where admit: "admitCommand (Es 1) ?e ?d wdb = Inr (AdmissionAccepted, wdb')"
    and w: "w \<in> set (workflows wdb')" "wfCommand w = ?e" "wfOperationId w = operationId ?e" "wfStatus w = ''running''"
      "wfStage w = ''accepted''"
    using admitOriginal_new [of ?e wdb ?d action "Es 1"] act by (auto simp: unmet_def admitCommand_def)
  have "command_handle Es 1 ?r wdb = (Inr \<lparr>hrOutcome = Handled, hrSchemaName = schemaName ?e\<rparr>, wdb')"
    using decoded narrow act admit by (simp add: command_handle_def decoded_record_def supported_schema d in_store_def Let_def)
  from handled_at_once [where handle = "command_handle Es", OF r(2) this assms(7)] w show ?thesis
    by (intro exI [of _ wdb'] exI [of _ w]) (simp add: eachMessage_def command_runner_def)
qed

text \<open>
  C10. The two planes fit together inside the bounds of the command schemas: when the tables and the request are
  within them (\<open>wire_tables\<close>, \<open>wire_request\<close>, which the database and the remote calls do not enforce), the
  command row that an accepted lifecycle request leaves in the outbox of the control plane, once the connector
  has delivered it, is decoded, narrowed and admitted by an orchestrator that has not met it, which then holds
  a running workflow for that command and commits the next offset. Replay requests are not such commands.
\<close>

theorem accepted_command_becomes_workflow:
  assumes "serve E g q db = Inr (a, db')" and "request_scope q \<noteq> None"
    and "wire_env E" "wire_tables db" "wire_request q"
    and "row \<in> set (ct_outbox db')" "row \<notin> set (ct_outbox db)" "obTopic row = COMMAND_TOPIC" and "carries m row"
    and "dateParses (Es 1) = dateParses E" "dateParses E' = dateParses E" and "1 \<le> maximum"
    and "unmet (obPayload row) \<lparr>topic = COMMAND_TOPIC, partition = part, offset = mOffset m,
      replayGeneration = 0, outboxId = Some (obOutboxId row)\<rparr> wdb"
  shows "\<exists>wdb' w. eachMessage (command_runner Es digest maximum) E' part m wdb = (Some (int (dec_value (mOffset m)) + 1), wdb') \<and>
    w \<in> set (workflows wdb') \<and> wfCommand w = obPayload row \<and> wfOperationId w = operationId (obPayload row) \<and>
    wfStatus w = ''running'' \<and> wfStage w = ''accepted''"
proof -
  from serve_publishes [OF assms(1-5)] assms(6-8) have "obReplayGeneration row = 0" "uuidPattern (obOutboxId row)" "offered E (obPayload row)"
    by (auto simp: publishes_def)
  then show ?thesis
    using offered_row_admitted [where E = E and Es = Es and row = row] assms(9-13) by blast
qed

theorem accepted_command_becomes_workflow_witness:
  "\<exists>a db' row wdb' w. serve sample_wire_env [] (Power_Request sample_power) sample_pg = Inr (a, db') \<and> row \<in> set (ct_outbox db') \<and>
     eachMessage (command_runner (\<lambda>_. sample_wire_env) (\<lambda>s. s) 3) sample_wire_env 0 (connector_message row 0) no_tables =
       (Some 1, wdb') \<and> w \<in> set (workflows wdb') \<and> wfCommand w = obPayload row"
proof -
  obtain r db' where run: "serve sample_wire_env [] (Power_Request sample_power) sample_pg = Inr (Some r, db')" "\<not> acReplayed r"
    using sample_power_sent by blast
  from serve_refines [OF run(1)] run(2) obtain e where "recorded (project_scope sample_power POWER_INSTANCE_ACTION)
      (hashJson sample_wire_env (request_json (Power_Request sample_power))) r e sample_pg db'"
    by (auto simp: accepted_or_replayed_def replays_def elim: accepts.cases)
  then obtain row aud where out: "ct_outbox db' = ct_outbox sample_pg @ [row, aud]" "obTopic row = COMMAND_TOPIC"
    by (auto simp: recorded_def COMMAND_TOPIC_def)
  have fresh: "row \<notin> set (ct_outbox sample_pg)" by (simp add: sample_control_defs)
  from serve_publishes [OF run(1) _ sample_wire sample_wire_tables sample_wire_power] out have "publishable sample_wire_env (obPayload row)"
    by (auto simp: publishes_def offered_def)
  note m = connector_carries [where n = 0, OF this]
  have new: "unmet (obPayload row) \<lparr>topic = COMMAND_TOPIC, partition = 0, offset = mOffset (connector_message row 0),
      replayGeneration = 0, outboxId = Some (obOutboxId row)\<rparr> no_tables"
    by (simp add: unmet_def no_tables_def receipt_keys_def)
  have offset: "dec_value (mOffset (connector_message row 0)) = 0" by (simp add: connector_message_def Let_def)
  from accepted_command_becomes_workflow [where Es = "\<lambda>_. sample_wire_env" and E' = sample_wire_env and maximum = 3 and digest = "\<lambda>s. s",
      OF run(1) _ sample_wire sample_wire_tables sample_wire_power _ fresh out(2) m refl refl _ new] out(1) run(1)
  show ?thesis unfolding offset by auto
qed

subsection \<open>What cannot be decoded\<close>

lemma undecodable_command:
  assumes "irDecodeError (kafka_record E COMMAND_TOPIC part m) = Some err" and "1 \<le> maximum"
  shows "\<exists>db'. eachMessage (command_runner Es digest maximum) E part m db = (Some (int (dec_value (mOffset m)) + 1), db') \<and>
    (CONSUMER_NAME, COMMAND_TOPIC, part, mOffset m) \<in> poison_keys db' \<and> workflows db' = workflows db"
proof -
  let ?r = "kafka_record E COMMAND_TOPIC part m"
  let ?d = "mdIdentity (irDelivery ?r)"
  have d: "topic ?d = COMMAND_TOPIC" "partition ?d = part" "offset ?d = mOffset m" by (simp_all add: kafka_record_def Let_def)
  obtain fresh db' where q: "quarantineRecord (Es (Suc maximum)) ?d (digest (raw_value ?r)) (decode_code_name err)
      ''The Kafka record could not be decoded as a versioned event envelope.'' db = (fresh, db')"
    by fastforce
  have gave_up: "command_exhausted Es digest ?r (MessageDecodeError err) maximum db =
      (Inr \<lparr>hrOutcome = (if fresh then Quarantined else Duplicate), hrSchemaName = ''unknown''\<rparr>, db')"
    by (simp add: command_exhausted_def q Let_def)
  have "eachMessage (command_runner Es digest maximum) E part m db = (Some (int (dec_value (mOffset m)) + 1), db')"
    using undecodable_gives_up [where exhausted = "command_exhausted Es digest", OF assms gave_up]
    by (simp add: eachMessage_def command_runner_def)
  moreover have "workflows db' = workflows db" using quarantineRecord_effect [OF q] by simp
  moreover have "(CONSUMER_NAME, COMMAND_TOPIC, part, mOffset m) \<in> poison_keys db'"
    using insertPoisonRecord_keys(1) [OF q [unfolded quarantineRecord_def]] d by simp
  ultimately show ?thesis by blast
qed

text \<open>
  A record that cannot be decoded never blocks its partition and never reaches a workflow: it is
  quarantined under its position and its offset is committed, whatever the tables hold, and no workflow
  changes.
\<close>

theorem undecodable_record_is_quarantined:
  assumes "irDecodeError (kafka_record E COMMAND_TOPIC part m) = Some err" and "1 \<le> maximum"
  shows "\<exists>db'. eachMessage (command_runner Es digest maximum) E part m db = (Some (int (dec_value (mOffset m)) + 1), db') \<and>
    (CONSUMER_NAME, COMMAND_TOPIC, part, mOffset m) \<in> poison_keys db' \<and> workflows db' = workflows db"
  by (rule undecodable_command [OF assms])

text \<open>A message without a value, at the start of a partition.\<close>

definition sample_empty_message :: kafka_message where
  "sample_empty_message = \<lparr>mKey = None, mValue = None, mHeaders = [], mOffset = ''0'', mTimestamp = ''0''\<rparr>"

lemma sample_empty_record: "irDecodeError (kafka_record E t part sample_empty_message) = Some EMPTY_VALUE"
  by (simp add: kafka_record_def sample_empty_message_def decodeEventEnvelope_def or_else_def Let_def)

lemma sample_numbered: "numbered [sample_empty_message]"
proof -
  have "show_nat 0 = ''0''" by code_simp
  then show ?thesis by (simp add: numbered_def sample_empty_message_def)
qed

lemma sample_offset: "dec_value (mOffset sample_empty_message) = 0"
  unfolding sample_empty_message_def by code_simp

theorem undecodable_record_is_quarantined_witness:
  "\<exists>db'. eachMessage (command_runner (\<lambda>_. sample_wire_env) (\<lambda>s. s) 3) sample_wire_env 0 sample_empty_message no_tables = (Some 1, db') \<and>
     (CONSUMER_NAME, COMMAND_TOPIC, 0, ''0'') \<in> poison_keys db'"
  using undecodable_record_is_quarantined [OF sample_empty_record, of 3 "\<lambda>_. sample_wire_env" "\<lambda>s. s" sample_wire_env 0 no_tables]
  by (auto simp: sample_offset) (auto simp: sample_empty_message_def)

subsection \<open>No record is passed over\<close>

text \<open>
  C12. The command consumer commits an offset only when the record before it is durably accounted for:
  after any history of deliveries, crashes before a commit, failures and other work of the store, every
  record below the committed offset has a receipt of its event or a quarantine of its position.
\<close>

theorem command_offsets_leave_evidence:
  assumes "(partition_step (command_runner Es digest maximum) part other_store_work ms)\<^sup>*\<^sup>* (0, db) (c, db')"
    and "numbered ms" and "j < c"
  shows "\<exists>E. command_evidence db' (kafka_record E COMMAND_TOPIC part (ms ! j))"
  using command_durability.evidence_below [OF assms(1) _ _ assms(2,3)] by (simp add: command_runner_def)

text \<open>
  The projection consumer of the control API makes the same promise on each of its topics.
\<close>

theorem projection_offsets_leave_evidence:
  assumes "(partition_step (projection_runner D Es digest t maximum) part (other_control_work D) ms)\<^sup>*\<^sup>* (0, db) (c, db')"
    and "numbered ms" and "j < c"
  shows "\<exists>E. projection_evidence db' (kafka_record E t part (ms ! j))"
  using projection_durability.evidence_below [OF assms(1) _ _ assms(2,3)] by (simp add: projection_runner_def)

theorem command_offsets_leave_evidence_witness:
  "\<exists>db' E. (partition_step (command_runner (\<lambda>_. sample_wire_env) (\<lambda>s. s) 3) 0 other_store_work [sample_empty_message])\<^sup>*\<^sup>*
      (0, no_tables) (1, db') \<and> command_evidence db' (kafka_record E COMMAND_TOPIC 0 sample_empty_message)"
proof -
  let ?run = "command_runner (\<lambda>_. sample_wire_env) (\<lambda>s. s) 3"
  obtain db' where db': "eachMessage ?run sample_wire_env 0 sample_empty_message no_tables = (Some 1, db')"
    using undecodable_command [OF sample_empty_record, of 3 "\<lambda>_. sample_wire_env" "\<lambda>s. s" sample_wire_env 0 no_tables]
    by (auto simp: sample_offset)
  have "partition_step ?run 0 other_store_work [sample_empty_message] (0, no_tables) (nat 1, db')"
    by (rule committed_record) (use db' in simp_all)
  then have steps: "(partition_step ?run 0 other_store_work [sample_empty_message])\<^sup>*\<^sup>* (0, no_tables) (1, db')" by simp
  from command_offsets_leave_evidence [OF steps sample_numbered, of 0] steps show ?thesis by auto
qed

theorem projection_offsets_leave_evidence_witness:
  "\<exists>db' E. (partition_step (projection_runner (\<lambda>_. 0) (\<lambda>_. sample_wire_env) (\<lambda>s. s) EVENT_TOPIC 3) 0 (other_control_work (\<lambda>_. 0))
      [sample_empty_message])\<^sup>*\<^sup>* (0, sample_pg) (1, db') \<and> projection_evidence db' (kafka_record E EVENT_TOPIC 0 sample_empty_message)"
proof -
  let ?run = "projection_runner (\<lambda>_. 0) (\<lambda>_. sample_wire_env) (\<lambda>s. s) EVENT_TOPIC 3"
  let ?r = "kafka_record sample_wire_env EVENT_TOPIC 0 sample_empty_message"
  have envelope: "irEnvelope ?r = None"
    by (simp add: kafka_record_def sample_empty_message_def decodeEventEnvelope_def right_option_def Let_def)
  have quarantined: "\<exists>fresh db'. projection_quarantine E d None h c m db = Inr (fresh, db')" for E d h c m db
    by (simp add: projection_quarantine_def Let_def)
  obtain res db' where "projection_exhausted (\<lambda>_. sample_wire_env) (\<lambda>s. s) ?r (MessageDecodeError EMPTY_VALUE) 3 sample_pg = (Inr res, db')"
    using quarantined [of "sample_wire_env" "mdIdentity (irDelivery ?r)" "raw_value ?r" "''EMPTY_VALUE''"
        "''The projection record could not be handled by this contract version.''" sample_pg]
    by (auto simp: projection_exhausted_def envelope in_store_def)
  from undecodable_gives_up [where exhausted = "projection_exhausted (\<lambda>_. sample_wire_env) (\<lambda>s. s)", OF sample_empty_record _ this]
  have db': "eachMessage ?run sample_wire_env 0 sample_empty_message sample_pg = (Some 1, db')"
    by (simp add: eachMessage_def projection_runner_def sample_offset)
  have "partition_step ?run 0 (other_control_work (\<lambda>_. 0)) [sample_empty_message] (0, sample_pg) (nat 1, db')"
    by (rule committed_record) (use db' in simp_all)
  then have steps: "(partition_step ?run 0 (other_control_work (\<lambda>_. 0)) [sample_empty_message])\<^sup>*\<^sup>* (0, sample_pg) (1, db')" by simp
  from projection_offsets_leave_evidence [OF steps sample_numbered, of 0] steps show ?thesis by auto
qed

subsection \<open>A command that its consumer does not take\<close>

lemma attempts_refused:
  assumes "irDecodeError r = None" and "\<And>k. handle k r s = (Inl e, s)" and "n \<le> maximum"
  shows "\<exists>pauses. attempts handle exhausted maximum backoff r n final s =
    (fst (exhausted r e maximum s), pauses, snd (exhausted r e maximum s))"
  using assms(3)
proof (induction n arbitrary: final rule: inc_induct)
  case base
  show ?case
    by (subst attempts_step) (simp add: attempt_once_def assms(1,2) attempts_done split: prod.split)
next
  case (step n)
  obtain pauses where "attempts handle exhausted maximum backoff r (Suc n) (Some e) s =
      (fst (exhausted r e maximum s), pauses, snd (exhausted r e maximum s))" using step.IH by blast
  with step.hyps show ?case
    by (subst attempts_step) (simp add: attempt_once_def assms(1,2))
qed

text \<open>A decoded command that the validator of its action refuses leaves every workflow alone, at every delivery.\<close>

lemma refused_command_runs_nothing:
  assumes carried: "carries m row" "publishable E' (obPayload row)" "row_bounds row"
    and refused: "\<And>k. publishable (Es k) (obPayload row)" "\<And>k. \<not> admissible (Es k) (obPayload row)"
      "workflowActionForSchema (schemaName (obPayload row)) = Some a" "schemaVersion (obPayload row) = 1"
    and "1 \<le> maximum" and run: "eachMessage (command_runner Es digest maximum) E' part m wdb = (res, wdb')"
  shows "workflows wdb' = workflows wdb"
proof -
  let ?e = "obPayload row" and ?r = "kafka_record E' COMMAND_TOPIC part m"
  let ?err = "PermanentMessageError ''COMMAND_PAYLOAD_INVALID'' :: store_error message_error"
  note r = carried_record [OF carried, of COMMAND_TOPIC part]
  have decoded: "decodeEventEnvelope (Es k) (irValue ?r) = Inr ?e" for k
    using decode_alike [OF refused(1)] carried(1) by (auto simp: carries_def kafka_record_def Let_def)
  have narrow: "(narrowCommand (Es k) ?r :: store_error message_error + event) = Inl ?err" for k
    using refused(2) [of k] refused(3,4)
    by (simp add: narrow_schema [OF decoded refused(3)] accepted_if_def admissible_def)
  have fails: "command_handle Es k ?r wdb = (Inl ?err, wdb)" for k
    using decoded [of k] narrow [of k] refused(3)
    by (simp add: command_handle_def decoded_record_def supported_schema Let_def)
  obtain pauses where "handleWithRetry (command_handle Es) (command_exhausted Es digest) maximum 250 ?r wdb =
      (fst (command_exhausted Es digest ?r ?err maximum wdb), pauses, snd (command_exhausted Es digest ?r ?err maximum wdb))"
    using attempts_refused [of ?r "command_handle Es", OF r(2) fails assms(8)] unfolding handleWithRetry_def by blast
  then have "wdb' = snd (command_exhausted Es digest ?r ?err maximum wdb)"
    using run by (auto simp: eachMessage_def command_runner_def split: sum.split_asm)
  then show ?thesis
    by (auto simp: command_exhausted_def r(1) in_store_def Let_def split: sum.split dest!: deadLetterCommand_effect)
qed

lemma resize_published:
  assumes run: "resizeInstance E c db = Inr (r, db')" and new: "\<not> acReplayed r" and size: "rzDiskGiB c = Some d"
    and row: "row \<in> set (ct_outbox db')" "row \<notin> set (ct_outbox db)" "obTopic row = COMMAND_TOPIC"
  shows "\<exists>i t. i \<in> set (instances db) \<and> obReplayGeneration row = 0 \<and> obOutboxId row = uuidAt E 2 \<and>
      obPayload row = instance_command_event (uuidAt E 1) ''instance.resize.requested'' (bind_trace E c) i (uuidAt E 0) (now E)
        (ResizeRequested (rzFlavorId c) t (routing_of i)) \<and> d \<le> diskGiB t"
    and "\<exists>i \<in> set (instances db'). inId i = mcInstanceId c \<and> inActiveOperationId i = Some (operationId (obPayload row))"
proof -
  have same: "rzDiskGiB (bind_trace E c) = Some d" "rzFlavorId (bind_trace E c) = rzFlavorId c"
    "mcInstanceId (bind_trace E c) = mcInstanceId c"
    by (simp_all add: bind_trace_def size)
  from run obtain h where accept: "acceptResize E (bind_trace E c) h db = Inr (r, db')" by (auto simp: resizeInstance_def)
  have fresh: "findReplayedResponse sc h db \<noteq> Inr (Some r)" for sc
    using new by (auto simp: findReplayedResponse_def split: option.split_asm if_split_asm)
  from accept fresh obtain i f where i: "lockInstanceForMutation (mcProjectId (bind_trace E c)) (mcInstanceId (bind_trace E c)) db = Inr i"
    and w: "write_accepted E (uuidAt E 2, uuidAt E 3, uuidAt E 4) (bind_trace E c) h
         \<lparr>axScope = project_scope (bind_trace E c) RESIZE_INSTANCE_ACTION, axInstance = inId i, axAction = RESIZE_INSTANCE_ACTION,
          axTargetType = ''instance'', axTargetId = inId i,
          axAccepted = accepted_response (uuidAt E 0) (inId i) (now E) (status_url (mcProjectId (bind_trace E c)) (uuidAt E 0)),
          axEvent = instance_command_event (uuidAt E 1) ''instance.resize.requested'' (bind_trace E c) i (uuidAt E 0) (now E)
            (ResizeRequested (rzFlavorId (bind_trace E c)) (resize_target i f (rzDiskGiB (bind_trace E c))) (routing_of i)),
          axChange = (\<lambda>r. r\<lparr>inActiveOperationId := Some (uuidAt E 0), inFlavorId := rzFlavorId (bind_trace E c),
            inDesiredCpuCount := cpuCount (resize_target i f (rzDiskGiB (bind_trace E c))),
            inDesiredMemoryMib := memoryMiB (resize_target i f (rzDiskGiB (bind_trace E c))),
            inDesiredDiskGib := diskGiB (resize_target i f (rzDiskGiB (bind_trace E c))), inUpdatedAt := now E\<rparr>),
          axEffects = Inr,
          axAudit = tenant_audit (bind_trace E c) ''resize_instance'' ''instance'' (inId i)\<rparr> db = Inr (r, db')"
    unfolding acceptResize_def replay_or_def Let_def
    by (elim res_bind_InrE) (auto split: option.split_asm)
  note l = lockInstance_InrD [OF i]
  have frame: "effects_frame Inr" by (simp add: effects_frame_def)
  have both: "(\<exists>i t. i \<in> set (instances db) \<and> obReplayGeneration row = 0 \<and> obOutboxId row = uuidAt E 2 \<and>
      obPayload row = instance_command_event (uuidAt E 1) ''instance.resize.requested'' (bind_trace E c) i (uuidAt E 0) (now E)
        (ResizeRequested (rzFlavorId c) t (routing_of i)) \<and> d \<le> diskGiB t) \<and>
    (\<exists>i \<in> set (instances db'). inId i = mcInstanceId c \<and> inActiveOperationId i = Some (operationId (obPayload row)))"
    using w
  proof (rule write_accepted_InrE, goal_cases)
    case (2 d1 d2 entry)
    note db' = 2(14) [unfolded acceptance.simps]
    from row have "row = command_row (uuidAt E 2) (instance_command_event (uuidAt E 1) ''instance.resize.requested'' (bind_trace E c) i
        (uuidAt E 0) (now E) (ResizeRequested (rzFlavorId c) (resize_target i f (Some d)) (routing_of i))) ''provisioning.commands.v1'' (now E)"
      unfolding db' same by (auto simp: command_row_def COMMAND_TOPIC_def)
    moreover have "\<exists>x \<in> set (instances db'). inId x = mcInstanceId c \<and> inActiveOperationId x = Some (uuidAt E 0)"
      unfolding db' using l(1,2) same(3) by (simp add: bex_update_where, intro bexI [of _ i]) simp_all
    ultimately show ?case
      using l(1) same(2)
      by (auto simp: command_row_sel resize_target_def instance_command_event_def intro!: exI [of _ i]
          exI [of _ "resize_target i f (Some d)"])
  qed simp
  then show "\<exists>i t. i \<in> set (instances db) \<and> obReplayGeneration row = 0 \<and> obOutboxId row = uuidAt E 2 \<and>
      obPayload row = instance_command_event (uuidAt E 1) ''instance.resize.requested'' (bind_trace E c) i (uuidAt E 0) (now E)
        (ResizeRequested (rzFlavorId c) t (routing_of i)) \<and> d \<le> diskGiB t"
    and "\<exists>i \<in> set (instances db'). inId i = mcInstanceId c \<and> inActiveOperationId i = Some (operationId (obPayload row))"
    by blast+
qed

text \<open>
  C11. A resize to more than 2048 GiB is accepted although no orchestrator can take it: nothing between the
  remote call and the store bounds the disk, but the validator of the command does. For an accepted resize
  of that size whose command is a decodable event, every delivery of the command row leaves all workflows alone,
  while the instance is recorded as busy with the operation.
\<close>

theorem oversized_resize_is_never_run:
  assumes "resizeInstance E c db = Inr (r, db')" and "\<not> acReplayed r" and "rzDiskGiB c = Some d" and "2048 < d"
    and "row \<in> set (ct_outbox db')" "row \<notin> set (ct_outbox db)" "obTopic row = COMMAND_TOPIC" and "carries m row"
    and "publishable E (obPayload row)" "uuidPattern (uuidAt E 2)"
    and "\<And>k. dateParses (Es k) = dateParses E" "dateParses E' = dateParses E" and "1 \<le> maximum"
    and "eachMessage (command_runner Es digest maximum) E' part m wdb = (res, wdb')"
  shows "workflows wdb' = workflows wdb \<and>
    (\<exists>i \<in> set (instances db'). inId i = mcInstanceId c \<and> inActiveOperationId i = Some (operationId (obPayload row)))"
proof -
  let ?e = "obPayload row"
  from resize_published(1) [OF assms(1-3,5-7)] obtain t i where
    row: "obReplayGeneration row = 0" "obOutboxId row = uuidAt E 2" "d \<le> diskGiB t"
    and e: "?e = instance_command_event (uuidAt E 1) ''instance.resize.requested'' (bind_trace E c) i (uuidAt E 0) (now E)
        (ResizeRequested (rzFlavorId c) t (routing_of i))" by blast
  have p: "schemaName ?e = ''instance.resize.requested''" "schemaVersion ?e = 1"
    "data ?e = ResizeRequested (rzFlavorId c) t (routing_of i)"
    by (simp_all add: e instance_command_event_def)
  have "\<not> isInstanceResizeRequestedV1 ?e"
    using p(3) row(3) assms(4) by (simp add: isInstanceResizeRequestedV1_def payload_def resourcesValue_def sizing_json_def Let_def)
  then have refused: "\<not> admissible (Es k) ?e" for k by (simp add: admissible_def p(1) workflowActionForSchema_def)
  have bounds: "row_bounds row" using row(1,2) assms(10) by (simp add: row_bounds_def MAX_SAFE_INTEGER_def)
  have same: "publishable (Es k) ?e" "publishable E' ?e" for k
    using assms(9) publishable_same [OF assms(11)] publishable_same [OF assms(12)] by simp_all
  have "workflowActionForSchema (schemaName ?e) = Some ResizeInstance" by (simp add: p(1) workflowActionForSchema_def)
  from refused_command_runs_nothing [OF assms(8) same(2) bounds same(1) refused this p(2) assms(13,14)]
  show ?thesis using resize_published(2) [OF assms(1-3,5-7)] by blast
qed

text \<open>The sample project with disk enough for the request.\<close>

definition wide_pg :: pg where
  "wide_pg = sample_pg\<lparr>quotas := [sample_quota\<lparr>quDiskGib := 10000\<rparr>]\<rparr>"

definition sample_oversized :: resize_command where
  "sample_oversized = instance_command.extend sample_instance_command \<lparr>rzFlavorId = ''small'', rzDiskGiB = Some 4096\<rparr>"

lemma sample_oversized_accepted:
  "\<exists>r db'. resizeInstance sample_wire_env sample_oversized wide_pg = Inr (r, db') \<and> \<not> acReplayed r"
  by (simp add: resizeInstance_def authorize_def assertIdempotencyKey_def IDEMPOTENCY_KEY_MINIMUM_LENGTH_def
      IDEMPOTENCY_KEY_MAXIMUM_LENGTH_def sample_oversized_def instance_command.defs wide_pg_def sample_control_defs
      acceptResize_def replay_or_def findReplayedResponse_def lockInstanceForMutation_def MUTABLE_LIFECYCLE_STATES_def
      resize_target_def validateResize_def sizing_of_def assertResizeQuotaHeadroom_def live_instances_def lift_domain_def
      write_accepted_def insert_row_def insert_unique_def update_instance_def markInstanceBusyInProjection_def
      writeControlOutbox_def writeControlAudit_def auditRecordedEvent_def instance_command_event_def Let_def
      sample_wire_env_def sample_control_env_def sample_env_at_def sample_uuid_neq accepted_response_def bind_trace_def active_trace_def)

theorem oversized_resize_is_never_run_witness:
  "\<exists>r db' row. resizeInstance sample_wire_env sample_oversized wide_pg = Inr (r, db') \<and> row \<in> set (ct_outbox db') \<and>
     workflows (snd (eachMessage (command_runner (\<lambda>_. sample_wire_env) (\<lambda>s. s) 3) sample_wire_env 0 (connector_message row 0) no_tables)) = [] \<and>
     (\<exists>i \<in> set (instances db'). inId i = sample_instance \<and> inActiveOperationId i = Some (operationId (obPayload row)))"
proof -
  obtain r db' where run: "resizeInstance sample_wire_env sample_oversized wide_pg = Inr (r, db')" "\<not> acReplayed r"
    using sample_oversized_accepted by blast
  have size: "rzDiskGiB sample_oversized = Some 4096" "mcInstanceId sample_oversized = sample_instance"
    by (simp_all add: sample_oversized_def instance_command.defs sample_instance_command_def)
  from run(1) have "serve sample_wire_env [] (Resize_Request sample_oversized) wide_pg = Inr (Some r, db')" by simp
  from serve_refines [OF this] run(2) obtain e where "recorded (project_scope sample_oversized RESIZE_INSTANCE_ACTION)
      (hashJson sample_wire_env (request_json (Resize_Request sample_oversized))) r e wide_pg db'"
    by (auto simp: accepted_or_replayed_def replays_def elim: accepts.cases)
  then obtain row aud where out: "ct_outbox db' = ct_outbox wide_pg @ [row, aud]" "obTopic row = COMMAND_TOPIC"
    by (auto simp: recorded_def COMMAND_TOPIC_def)
  have row: "row \<in> set (ct_outbox db')" "row \<notin> set (ct_outbox wide_pg)"
    using out(1) by (simp_all add: wide_pg_def sample_control_defs)
  from resize_published(1) [OF run size(1) row out(2)] obtain i t where i: "i \<in> set (instances wide_pg)"
    and e: "obPayload row = instance_command_event (uuidAt sample_wire_env 1) ''instance.resize.requested''
      (bind_trace sample_wire_env sample_oversized) i (uuidAt sample_wire_env 0) (now sample_wire_env)
      (ResizeRequested (rzFlavorId sample_oversized) t (routing_of i))" by blast
  have "i \<in> set (instances sample_pg)" using i by (simp add: wide_pg_def)
  moreover have "wire_command sample_oversized"
    using sample_trace_valid sample_uuid_pattern [of 5]
    by (simp add: wire_command_def sample_oversized_def instance_command.defs sample_instance_command_def command_trace_def sample_trace_def)
  ultimately have wired: "wired sample_wire_env i (bind_trace sample_wire_env sample_oversized) (uuidAt sample_wire_env 1) (uuidAt sample_wire_env 0)"
    by (intro wired_row [OF sample_wire sample_wire_tables] wire_bind_trace sample_wire)
  have pub: "publishable sample_wire_env (obPayload row)"
    unfolding e by (rule wired_publishable [OF wired]) simp_all
  note m = connector_carries [where n = 0, OF pub]
  obtain res wdb' where each: "eachMessage (command_runner (\<lambda>_. sample_wire_env) (\<lambda>s. s) 3) sample_wire_env 0
      (connector_message row 0) no_tables = (res, wdb')" by fastforce
  have "workflows wdb' = workflows no_tables \<and>
      (\<exists>i \<in> set (instances db'). inId i = sample_instance \<and> inActiveOperationId i = Some (operationId (obPayload row)))"
    using oversized_resize_is_never_run [OF run size(1) _ row out(2) m pub sample_wire_uuid _ _ _ each] size(2) by simp
  then show ?thesis using run(1) row(1) each by (auto simp: no_tables_def)
qed

end
