(* ===== verification/Page_Cursor.thy ===== *)
theory Page_Cursor
  imports Json_Parse Control_Db "HOL-Library.Sorting_Algorithms"
begin

section \<open>Page cursors\<close>

text \<open>
  Model of \<^verbatim>\<open>packages/postgres-adapter/src/page-cursor.ts\<close>: the opaque cursor that carries the position
  of the last row of a page, with the conversions of \<^verbatim>\<open>Buffer\<close> it is written with, and \<^verbatim>\<open>paginate\<close>.
  Reading base64url skips what is not of the alphabet and stops at padding, and reading UTF-8 replaces
  ill-formed sequences, as the runtime does; a code unit above 255 is read as the unit 255.
\<close>

subsection \<open>\<open>Buffer.from(text, 'utf8')\<close> and \<open>toString('utf8')\<close>\<close>

definition utf8_unit :: "char \<Rightarrow> string" where
  "utf8_unit c =
     (let n = code_unit c in
      if n < 128 then [c] else [char_of (192 + n div 64), char_of (128 + n mod 64)])"

definition utf8_encode :: "string \<Rightarrow> string" where
  "utf8_encode s = concat (map utf8_unit s)"

text \<open>The ranges of the continuation bytes each leading byte asks for.\<close>

definition utf8_ranges :: "nat \<Rightarrow> (nat \<times> nat) list" where
  "utf8_ranges n =
     (if 194 \<le> n \<and> n \<le> 223 then [(128, 191)]
      else if n = 224 then [(160, 191), (128, 191)]
      else if n = 237 then [(128, 159), (128, 191)]
      else if 225 \<le> n \<and> n \<le> 239 then [(128, 191), (128, 191)]
      else if n = 240 then [(144, 191), (128, 191), (128, 191)]
      else if 241 \<le> n \<and> n \<le> 243 then [(128, 191), (128, 191), (128, 191)]
      else if n = 244 then [(128, 143), (128, 191), (128, 191)]
      else [])"

fun continuation :: "(nat \<times> nat) list \<Rightarrow> string \<Rightarrow> string" where
  "continuation ((lo, hi) # rs) (y # s) =
     (if lo \<le> code_unit y \<and> code_unit y \<le> hi then y # continuation rs s else [])"
| "continuation _ _ = []"

definition lead_bits :: "nat \<Rightarrow> nat" where
  "lead_bits n = (if n < 224 then n - 192 else if n < 240 then n - 224 else n - 240)"

definition units_of_code_point :: "nat \<Rightarrow> string" where
  "units_of_code_point p =
     (if p < 65536 then [char_of_unit p]
      else [char_of_unit (55296 + (p - 65536) div 1024), char_of_unit (56320 + (p - 65536) mod 1024)])"

definition utf8_sequence :: "nat \<Rightarrow> string \<Rightarrow> string" where
  "utf8_sequence n cs =
     (if cs = [] \<or> length cs \<noteq> length (utf8_ranges n) then [char_of_unit 65533]
      else units_of_code_point (foldl (\<lambda>p c. p * 64 + (code_unit c - 128)) (lead_bits n) cs))"

function utf8_decode :: "string \<Rightarrow> string" where
  "utf8_decode [] = []"
| "utf8_decode (x # s) =
     (if code_unit x < 128 then x # utf8_decode s
      else let cs = continuation (utf8_ranges (code_unit x)) s in
        utf8_sequence (code_unit x) cs @ utf8_decode (drop (length cs) s))"
  by pat_completeness auto
termination by (relation "measure length") auto

lemma two_byte_sequence:
  assumes "128 \<le> n" and "n < 256"
  shows "192 + n div 64 = 194 \<or> 192 + n div 64 = 195"
    "continuation (utf8_ranges (192 + n div 64)) (char_of (128 + n mod 64) # s) = [char_of (128 + n mod 64)]"
    "utf8_sequence (192 + n div 64) [char_of (128 + n mod 64)] = [char_of n]"
proof -
  have "n div 64 < 4" using assms(2) by (simp add: less_mult_imp_div_less)
  moreover have "2 \<le> n div 64" using assms(1) div_le_mono [of 128 n 64] by simp
  ultimately show lead: "192 + n div 64 = 194 \<or> 192 + n div 64 = 195" by linarith
  then have ranges: "utf8_ranges (192 + n div 64) = [(128, 191)]"
    by (elim disjE) (simp_all only: utf8_ranges_def, simp_all)
  have "n mod 64 < 64" by simp
  then have unit: "code_unit (char_of (128 + n mod 64)) = 128 + n mod 64"
    by (intro code_unit_char_of) linarith
  show "continuation (utf8_ranges (192 + n div 64)) (char_of (128 + n mod 64) # s) = [char_of (128 + n mod 64)]"
    using \<open>n mod 64 < 64\<close> by (simp add: ranges unit)
  have bits: "lead_bits (192 + n div 64) = n div 64"
    using lead by (elim disjE) (simp_all only: lead_bits_def, simp_all)
  have whole: "n div 64 * 64 + n mod 64 = n" by simp
  have "utf8_sequence (192 + n div 64) [char_of (128 + n mod 64)] =
      units_of_code_point (n div 64 * 64 + (128 + n mod 64 - 128))"
    by (simp only: utf8_sequence_def ranges bits unit foldl.simps list.size simp_thms list.distinct if_False)
  then have "utf8_sequence (192 + n div 64) [char_of (128 + n mod 64)] = units_of_code_point n"
    by (simp only: add_diff_cancel_left' whole)
  then show "utf8_sequence (192 + n div 64) [char_of (128 + n mod 64)] = [char_of n]"
    using assms(2) by (simp add: units_of_code_point_def char_of_unit_def min_def)
qed

lemma utf8_decode_unit [simp]: "utf8_decode (utf8_unit c @ s) = c # utf8_decode s"
proof (cases "code_unit c < 128")
  case True
  then show ?thesis by (simp add: utf8_unit_def)
next
  case False
  then have n: "128 \<le> code_unit c" "code_unit c < 256" using code_unit_less [of c] by simp_all
  have lead: "code_unit (char_of (192 + code_unit c div 64)) = 192 + code_unit c div 64"
    using two_byte_sequence(1) [OF n] by (intro code_unit_char_of) linarith
  show ?thesis
    using False two_byte_sequence(2,3) [OF n] by (simp add: utf8_unit_def lead Let_def)
qed

lemma utf8_roundtrip [simp]: "utf8_decode (utf8_encode s) = s"
  by (induction s) (simp_all add: utf8_encode_def)

lemma utf8_plain: "\<forall>c \<in> set s. code_unit c < 128 \<Longrightarrow> utf8_encode s = s"
  by (induction s) (auto simp: utf8_encode_def utf8_unit_def)

subsection \<open>\<open>Buffer.from(text, 'base64url')\<close> and \<open>toString('base64url')\<close>\<close>

definition url_sextet_char :: "nat \<Rightarrow> char" where
  "url_sextet_char n = (if n = 62 then CHR ''-'' else if n = 63 then CHR ''_'' else sextet_char n)"

definition url_sextet :: "char \<Rightarrow> nat option" where
  "url_sextet c = (if c = CHR ''-'' then Some 62 else if c = CHR ''_'' then Some 63 else sextet c)"

definition base64url_encode :: "string \<Rightarrow> string" where
  "base64url_encode s = map url_sextet_char (encode_sextets s)"

definition base64url_decode :: "string \<Rightarrow> string" where
  "base64url_decode s =
     (let xs = List.map_filter url_sextet (takeWhile (\<lambda>c. c \<noteq> CHR ''='') s) in
      case decode_sextets (if length xs mod 4 = 1 then butlast xs else xs) of
        Some bytes \<Rightarrow> bytes | None \<Rightarrow> [])"

lemma url_sextet_char_ok: "n < 64 \<Longrightarrow> url_sextet (url_sextet_char n) = Some n"
proof -
  assume n: "n < 64"
  have "sextet_char m \<noteq> CHR ''-'' \<and> sextet_char m \<noteq> CHR ''_''" if "m < 62" for m
    using sextet_char_ok [of m] that by (auto simp: sextet_def char_class_defs)
  moreover have "n < 62 \<or> n = 62 \<or> n = 63" using n by linarith
  ultimately show ?thesis
    using sextet_char_ok [OF n] by (auto simp: url_sextet_def url_sextet_char_def)
qed

lemma url_sextet_char_not_padding: "n < 64 \<Longrightarrow> url_sextet_char n \<noteq> CHR ''=''"
  using sextet_char_props(2) [of n] by (auto simp: url_sextet_char_def)

lemma length_mod_encode_sextets: "length (encode_sextets s) mod 4 \<noteq> 1"
  by (induction s rule: encode_sextets.induct) simp_all

lemma base64url_roundtrip [simp]: "base64url_decode (base64url_encode s) = s"
proof -
  let ?xs = "encode_sextets s"
  have bound: "\<forall>n \<in> set ?xs. n < 64" by (rule encode_sextets_bound)
  then have "takeWhile (\<lambda>c. c \<noteq> CHR ''='') (base64url_encode s) = base64url_encode s"
    by (auto simp: base64url_encode_def takeWhile_eq_all_conv dest: url_sextet_char_not_padding)
  moreover have "List.map_filter url_sextet (map url_sextet_char xs) = xs" if "\<forall>n \<in> set xs. n < 64" for xs
    using that by (induction xs) (simp_all add: map_filter_simps url_sextet_char_ok)
  ultimately have "List.map_filter url_sextet (takeWhile (\<lambda>c. c \<noteq> CHR ''='') (base64url_encode s)) = ?xs"
    using bound by (simp only: base64url_encode_def)
  then show ?thesis
    using length_mod_encode_sextets [of s] by (simp add: base64url_decode_def)
qed

subsection \<open>The cursor\<close>

definition CURSOR_VERSION :: int where "CURSOR_VERSION = 1"
definition MAXIMUM_CURSOR_LENGTH :: nat where "MAXIMUM_CURSOR_LENGTH = 512"
definition MAXIMUM_COMPONENT_LENGTH :: nat where "MAXIMUM_COMPONENT_LENGTH = 128"

record page_cursor =
  pcSortKey :: string
  pcId :: string

definition encodePageCursor :: "page_cursor \<Rightarrow> string" where
  "encodePageCursor p = base64url_encode (utf8_encode (stringify (JObj
     [(''v'', JNum CURSOR_VERSION), (''s'', JStr (pcSortKey p)), (''i'', JStr (pcId p))])))"

definition isComponent :: "json \<Rightarrow> string option" where
  "isComponent v =
     (case v of
        JStr s \<Rightarrow> if length s > 0 \<and> length s \<le> MAXIMUM_COMPONENT_LENGTH then Some s else None
      | _ \<Rightarrow> None)"

definition invalidCursor :: control_error where
  "invalidCursor = domain_fail VALIDATION_FAILED ''The pagination cursor is not valid.''"

definition decodePageCursor :: "string \<Rightarrow> control_error + page_cursor" where
  "decodePageCursor cursor =
     (if length cursor = 0 \<or> length cursor > MAXIMUM_CURSOR_LENGTH then Inl invalidCursor
      else case parse_json (utf8_decode (base64url_decode cursor)) of
        Some (JObj candidate) \<Rightarrow>
          if get_field candidate ''v'' \<noteq> JNum CURSOR_VERSION then Inl invalidCursor
          else (case (isComponent (get_field candidate ''s''), isComponent (get_field candidate ''i'')) of
              (Some s, Some i) \<Rightarrow> Inr \<lparr>pcSortKey = s, pcId = i\<rparr>
            | _ \<Rightarrow> Inl invalidCursor)
      | _ \<Rightarrow> Inl invalidCursor)"

text \<open>The trimmed rows of a page, and the cursor of the next one.\<close>

definition paginate :: "'r list \<Rightarrow> nat \<Rightarrow> ('r \<Rightarrow> page_cursor) \<Rightarrow> 'r list \<times> string option" where
  "paginate rows limit position =
     (if length rows \<le> limit then (rows, None)
      else let items = take limit rows in
        (items, if items = [] then None else Some (encodePageCursor (position (List.last items)))))"

text \<open>
  The positions of the tables: an instant and an identifier, or a slug twice. Their components are
  printable ASCII without the two characters JSON escapes, so that the token stays within its bound.
\<close>

definition component_char :: "char \<Rightarrow> bool" where
  "component_char c \<longleftrightarrow> 32 \<le> code_unit c \<and> code_unit c < 127 \<and> c \<noteq> CHR 0x22 \<and> c \<noteq> CHR 0x5C"

definition cursor_component :: "string \<Rightarrow> bool" where
  "cursor_component s \<longleftrightarrow> s \<noteq> [] \<and> length s \<le> MAXIMUM_COMPONENT_LENGTH \<and> list_all component_char s"

definition cursor_position :: "page_cursor \<Rightarrow> bool" where
  "cursor_position p \<longleftrightarrow> cursor_component (pcSortKey p) \<and> cursor_component (pcId p)"

lemma escape_component: "component_char c \<Longrightarrow> escape_char c = [c]"
  by (auto simp: component_char_def escape_char_def code_unit_def)

lemma quote_component: "list_all component_char s \<Longrightarrow> quote_string s = CHR 0x22 # s @ [CHR 0x22]"
  by (induction s) (simp_all add: quote_string_def escape_component)

definition cursor_payload :: "page_cursor \<Rightarrow> string" where
  "cursor_payload p = stringify (JObj
     [(''v'', JNum CURSOR_VERSION), (''s'', JStr (pcSortKey p)), (''i'', JStr (pcId p))])"

lemma show_version: "show_int 1 = ''1''"
  by code_simp

lemma cursor_payload_text:
  assumes "list_all component_char (pcSortKey p)" and "list_all component_char (pcId p)"
  shows "cursor_payload p =
    [CHR ''{'', CHR 0x22, CHR ''v'', CHR 0x22, CHR '':'', CHR ''1'', CHR '','',
     CHR 0x22, CHR ''s'', CHR 0x22, CHR '':'', CHR 0x22] @ pcSortKey p @
    [CHR 0x22, CHR '','', CHR 0x22, CHR ''i'', CHR 0x22, CHR '':'', CHR 0x22] @ pcId p @ [CHR 0x22, CHR ''}'']"
  using assms
  by (simp add: cursor_payload_def quote_component CURSOR_VERSION_def show_version
      quote_component [of "''v''"] quote_component [of "''s''"] quote_component [of "''i''"]
      component_char_def code_unit_def is_defined_def)

lemma cursor_payload_ascii:
  assumes "cursor_position p"
  shows "\<forall>c \<in> set (cursor_payload p). code_unit c < 128" "length (cursor_payload p) \<le> 277"
proof -
  have parts: "list_all component_char (pcSortKey p)" "list_all component_char (pcId p)"
    using assms by (simp_all add: cursor_position_def cursor_component_def)
  have "code_unit c < 128" if "component_char c" for c
    using that by (simp add: component_char_def)
  with parts have "\<forall>c \<in> set (pcSortKey p) \<union> set (pcId p). code_unit c < 128"
    by (auto simp: list_all_iff)
  moreover have "\<forall>c \<in> set ''{vis,:1}''. code_unit c < 128" "code_unit (CHR 0x22) < 128"
    by (simp_all add: code_unit_def)
  ultimately show "\<forall>c \<in> set (cursor_payload p). code_unit c < 128"
    unfolding cursor_payload_text [OF parts] by simp
  show "length (cursor_payload p) \<le> 277"
    using assms unfolding cursor_payload_text [OF parts]
    by (simp add: cursor_position_def cursor_component_def MAXIMUM_COMPONENT_LENGTH_def)
qed

lemma encodePageCursor_payload: "encodePageCursor p = base64url_encode (utf8_encode (cursor_payload p))"
  by (simp add: encodePageCursor_def cursor_payload_def)

lemma length_encodePageCursor:
  assumes "cursor_position p"
  shows "length (encodePageCursor p) \<le> 370" "encodePageCursor p \<noteq> []"
proof -
  have "utf8_encode (cursor_payload p) = cursor_payload p"
    using cursor_payload_ascii(1) [OF assms] by (rule utf8_plain)
  then have len: "length (encodePageCursor p) =
      length (cursor_payload p) + length (cursor_payload p) div 3 +
      (if length (cursor_payload p) mod 3 = 0 then 0 else 1)"
    by (simp add: encodePageCursor_payload base64url_encode_def length_encode_sextets)
  have "length (cursor_payload p) div 3 \<le> 92"
    using cursor_payload_ascii(2) [OF assms] by linarith
  then show "length (encodePageCursor p) \<le> 370"
    using len cursor_payload_ascii(2) [OF assms] by simp
  have "0 < length (cursor_payload p)"
    using assms by (simp add: cursor_payload_text cursor_position_def cursor_component_def)
  with len show "encodePageCursor p \<noteq> []" by auto
qed

lemma parse_cursor_payload:
  "parse_json (cursor_payload p) = Some (JObj
     [(''v'', JNum CURSOR_VERSION), (''s'', JStr (pcSortKey p)), (''i'', JStr (pcId p))])"
  unfolding cursor_payload_def by (rule parse_stringify) simp

lemma decode_encode_cursor:
  assumes "cursor_position p"
  shows "decodePageCursor (encodePageCursor p) = Inr p"
proof -
  have "length (encodePageCursor p) \<le> MAXIMUM_CURSOR_LENGTH" "length (encodePageCursor p) \<noteq> 0"
    using length_encodePageCursor [OF assms] by (simp_all add: MAXIMUM_CURSOR_LENGTH_def)
  moreover have "isComponent (JStr (pcSortKey p)) = Some (pcSortKey p)" "isComponent (JStr (pcId p)) = Some (pcId p)"
    using assms by (simp_all add: cursor_position_def cursor_component_def isComponent_def)
  ultimately show ?thesis
    by (simp add: decodePageCursor_def encodePageCursor_payload parse_cursor_payload)
qed

end
