(* ===== verification/Keyset_Pages.thy ===== *)
theory Keyset_Pages
  imports Page_Cursor
begin

section \<open>Pages by position\<close>

text \<open>
  The queries of a listing: the rows after the position of the cursor, in order, one more than the page
  holds, trimmed by \<^verbatim>\<open>paginate\<close>. The locale \<open>keyset\<close> states what a listing needs of its order, its cursor
  and its seek predicate, and proves what a client sees that follows the cursors from page to page.
\<close>

subsection \<open>A page\<close>

record page_request =
  pqLimit :: nat
  pqCursor :: "string option"

record 'v page =
  pgItems :: "'v list"
  pgLimit :: nat
  pgNextCursor :: "string option"

definition map_page :: "('v \<Rightarrow> 'w) \<Rightarrow> 'v page \<Rightarrow> 'w page" where
  "map_page f p = \<lparr>pgItems = map f (pgItems p), pgLimit = pgLimit p, pgNextCursor = pgNextCursor p\<rparr>"

lemma map_page_simps [simp]:
  "pgItems (map_page f p) = map f (pgItems p)"
  "pgNextCursor (map_page f p) = pgNextCursor p"
  by (simp_all add: map_page_def)

text \<open>The rows a query returns, given the predicate of its cursor.\<close>

definition rows_after :: "'k comparator \<Rightarrow> ('r \<Rightarrow> 'k) \<Rightarrow> ('k \<Rightarrow> bool) \<Rightarrow> 'r list \<Rightarrow> 'r list" where
  "rows_after cmp key_of after rows =
     Sorting_Algorithms.sort (Comparator.key key_of cmp) (filter (\<lambda>r. after (key_of r)) rows)"

definition page_rows ::
  "'k comparator \<Rightarrow> ('r \<Rightarrow> 'k) \<Rightarrow> (string \<Rightarrow> control_error + ('k \<Rightarrow> bool)) \<Rightarrow> ('r \<Rightarrow> page_cursor) \<Rightarrow>
     page_request \<Rightarrow> 'r list \<Rightarrow> control_error + 'r page" where
  "page_rows cmp key_of seek position page rows =
     res_bind (if truthy (pqCursor page) then seek (the (pqCursor page)) else Inr (\<lambda>_. True)) (\<lambda>after.
     let (items, cursor) =
           paginate (take (pqLimit page + 1) (rows_after cmp key_of after rows)) (pqLimit page) position
     in Inr \<lparr>pgItems = items, pgLimit = pqLimit page, pgNextCursor = cursor\<rparr>)"

subsection \<open>Following the cursors\<close>

text \<open>
  What a client receives that asks for the first page, then for the page of every cursor it is given.
  The tables may change from one request to the next: \<open>fetch i\<close> is the answer to the \<open>i\<close>-th request.
  \<open>None\<close> when a request fails, or when more than \<open>n\<close> requests would be needed.
\<close>

fun follow :: "nat \<Rightarrow> (nat \<Rightarrow> string option \<Rightarrow> 'e + 'v page) \<Rightarrow> nat \<Rightarrow> string option \<Rightarrow> 'v page list option" where
  "follow 0 fetch i c = None"
| "follow (Suc n) fetch i c =
     (case fetch i c of
        Inl e \<Rightarrow> None
      | Inr p \<Rightarrow>
          (case pgNextCursor p of
             None \<Rightarrow> Some [p]
           | Some c' \<Rightarrow> map_option (Cons p) (follow n fetch (Suc i) (Some c'))))"

definition page_items :: "'v page list \<Rightarrow> 'v list" where
  "page_items ps = concat (map pgItems ps)"

lemma page_items_simps [simp]:
  "page_items [] = []"
  "page_items (p # ps) = pgItems p @ page_items ps"
  by (simp_all add: page_items_def)

lemma page_items_map [simp]: "page_items (map (map_page f) ps) = map f (page_items ps)"
  by (induction ps) simp_all

lemma follow_map:
  "follow n (\<lambda>i c. map_sum id (map_page f) (fetch i c)) i c =
     map_option (map (map_page f)) (follow n fetch i c)"
proof (induction n arbitrary: i c)
  case (Suc n)
  then show ?case
    by (cases "fetch i c") (simp_all add: id_def option.map_comp comp_def split: option.split)
qed simp

lemma length_follow: "follow n fetch i c = Some ps \<Longrightarrow> 0 < length ps \<and> length ps \<le> n"
proof (induction n arbitrary: i c ps)
  case (Suc n)
  then show ?case
    by (fastforce split: sum.split_asm option.split_asm)
qed simp

subsection \<open>The laws of a listing\<close>

locale keyset =
  fixes cmp :: "'k comparator"
    and key_of :: "'r \<Rightarrow> 'k"
    and seek :: "string \<Rightarrow> control_error + ('k \<Rightarrow> bool)"
    and position :: "'r \<Rightarrow> page_cursor"
    and readable :: "'r \<Rightarrow> bool"
  assumes total: "compare cmp a b = Equiv \<Longrightarrow> a = b"
    and cursor_given: "readable r \<Longrightarrow> encodePageCursor (position r) \<noteq> []"
    and seek_position:
      "readable r \<Longrightarrow> seek (encodePageCursor (position r)) = Inr (\<lambda>k. compare cmp k (key_of r) = Greater)"
begin

definition table :: "'r list \<Rightarrow> bool" where
  "table rows \<longleftrightarrow> distinct (map key_of rows) \<and> list_all readable rows"

definition upward :: "('k \<Rightarrow> bool) \<Rightarrow> bool" where
  "upward after \<longleftrightarrow> (\<forall>a b. after a \<longrightarrow> compare cmp b a = Greater \<longrightarrow> after b)"

definition cursor_means :: "string option \<Rightarrow> ('k \<Rightarrow> bool) \<Rightarrow> bool" where
  "cursor_means c after \<longleftrightarrow> (if truthy c then seek (the c) = Inr after else after = (\<lambda>_. True))"

lemma upward_True [simp]: "upward (\<lambda>_. True)"
  by (simp add: upward_def)

lemma upward_beyond [simp]: "upward (\<lambda>k. compare cmp k x = Greater)"
  by (auto simp: upward_def intro: compare.trans_greater)

lemma cursor_means_None [simp]: "cursor_means None (\<lambda>_. True)"
  by (simp add: cursor_means_def)

lemma cursor_means_position:
  "readable r \<Longrightarrow> cursor_means (Some (encodePageCursor (position r))) (\<lambda>k. compare cmp k (key_of r) = Greater)"
  using cursor_given [of r] by (simp add: cursor_means_def seek_position)

lemma set_rows_after: "set (rows_after cmp key_of after rows) = {r \<in> set rows. after (key_of r)}"
  by (simp add: rows_after_def)

lemma mset_rows_after: "mset (rows_after cmp key_of after rows) = mset (filter (\<lambda>r. after (key_of r)) rows)"
  by (simp add: rows_after_def)

lemma sorted_rows_after: "sorted (Comparator.key key_of cmp) (rows_after cmp key_of after rows)"
  by (simp add: rows_after_def)

lemma distinct_rows_after:
  assumes "table rows"
  shows "distinct (map key_of (rows_after cmp key_of after rows))"
proof -
  have "mset (map key_of (rows_after cmp key_of after rows)) = mset (map key_of (filter (\<lambda>r. after (key_of r)) rows))"
    by (simp add: mset_rows_after)
  moreover have "distinct (map key_of (filter (\<lambda>r. after (key_of r)) rows))"
    using assms by (simp add: table_def distinct_map_filter)
  ultimately show ?thesis by (metis mset_eq_imp_distinct_iff)
qed

text \<open>Where an ordered list without duplicates is cut, the later part is what lies beyond the cut.\<close>

lemma beyond_cut:
  assumes sort: "sorted (Comparator.key key_of cmp) (xs @ [l] @ ys)"
    and dist: "distinct (map key_of (xs @ [l] @ ys))"
  shows "\<forall>r \<in> set (xs @ [l]). compare cmp (key_of r) (key_of l) \<noteq> Greater"
    "\<forall>r \<in> set ys. compare cmp (key_of r) (key_of l) = Greater"
proof -
  have below: "\<forall>r \<in> set xs. compare cmp (key_of r) (key_of l) \<noteq> Greater"
    and above: "\<forall>r \<in> set ys. compare cmp (key_of l) (key_of r) \<noteq> Greater"
    using sort sorted_Cons_imp_not_less [of "Comparator.key key_of cmp" l ys]
    by (auto simp: sorted_append_iff)
  show "\<forall>r \<in> set (xs @ [l]). compare cmp (key_of r) (key_of l) \<noteq> Greater"
    using below by simp
  show "\<forall>r \<in> set ys. compare cmp (key_of r) (key_of l) = Greater"
  proof
    fix r assume r: "r \<in> set ys"
    then have "key_of l \<noteq> key_of r" using dist by auto
    then have "compare cmp (key_of l) (key_of r) \<noteq> Equiv" using total by blast
    moreover have "compare cmp (key_of l) (key_of r) \<noteq> Greater" using above r by blast
    ultimately have "compare cmp (key_of l) (key_of r) = Less"
      by (cases "compare cmp (key_of l) (key_of r)") simp_all
    then show "compare cmp (key_of r) (key_of l) = Greater"
      by (simp add: compare.greater_iff_sym_less)
  qed
qed

lemma page_rows_means:
  assumes "0 < m" and "cursor_means c after"
  shows "page_rows cmp key_of seek position \<lparr>pqLimit = m, pqCursor = c\<rparr> rows =
    (let found = rows_after cmp key_of after rows in
     Inr (if length found \<le> m then \<lparr>pgItems = found, pgLimit = m, pgNextCursor = None\<rparr>
       else \<lparr>pgItems = take m found, pgLimit = m,
         pgNextCursor = Some (encodePageCursor (position (List.last (take m found))))\<rparr>))"
proof -
  have "(if truthy c then seek (the c) else Inr (\<lambda>_. True)) = Inr after"
    using assms(2) by (simp add: cursor_means_def split: if_split_asm)
  then show ?thesis
    using assms(1) by (auto simp: page_rows_def paginate_def Let_def min_def)
qed

text \<open>A page with a next cursor: its rows, and the predicate that cursor means.\<close>

lemma page_cut:
  assumes rows: "table rows" and m: "0 < m"
    and found: "found = rows_after cmp key_of after rows"
    and long: "m < length found"
    and last: "l = List.last (take m found)"
  shows "readable l" "after (key_of l)"
    "\<forall>r \<in> set (take m found). compare cmp (key_of r) (key_of l) \<noteq> Greater"
    "upward after \<Longrightarrow>
       drop m found = rows_after cmp key_of (\<lambda>k. compare cmp k (key_of l) = Greater) rows"
proof -
  let ?beyond = "\<lambda>r. compare cmp (key_of r) (key_of l) = Greater"
  have ne: "take m found \<noteq> []" using m long by auto
  then have l: "l \<in> set found" unfolding last by (meson in_set_takeD last_in_set)
  then show after: "after (key_of l)" by (simp add: found set_rows_after)
  from l rows show "readable l" by (auto simp: found set_rows_after table_def list_all_iff)
  have split: "found = butlast (take m found) @ [l] @ drop m found"
    using append_butlast_last_id [OF ne] by (metis append_assoc append_take_drop_id last)
  have sort: "sorted (Comparator.key key_of cmp) (butlast (take m found) @ [l] @ drop m found)"
    and dist: "distinct (map key_of (butlast (take m found) @ [l] @ drop m found))"
    using sorted_rows_after [of after rows] distinct_rows_after [OF rows, of after]
    by (simp_all only: split [symmetric] found [symmetric])
  have front: "butlast (take m found) @ [l] = take m found" using ne by (simp add: last)
  show low: "\<forall>r \<in> set (take m found). compare cmp (key_of r) (key_of l) \<noteq> Greater"
    using beyond_cut(1) [OF sort dist] by (simp only: front)
  have high: "\<forall>r \<in> set (drop m found). ?beyond r" by (rule beyond_cut(2) [OF sort dist])
  assume up: "upward after"
  have "filter ?beyond found = filter ?beyond (take m found) @ filter ?beyond (drop m found)"
    by (metis append_take_drop_id filter_append)
  also have "\<dots> = drop m found"
    using low high by (simp add: filter_empty_conv filter_id_conv)
  finally have cut: "drop m found = filter ?beyond found" ..
  have "filter (\<lambda>r. ?beyond r \<and> after (key_of r)) rows = filter ?beyond rows"
    using up after by (auto simp: upward_def intro!: filter_cong)
  then have "filter ?beyond found = rows_after cmp key_of (\<lambda>k. compare cmp k (key_of l) = Greater) rows"
    by (simp add: found rows_after_def filter_sort conj_commute)
  with cut show "drop m found = rows_after cmp key_of (\<lambda>k. compare cmp k (key_of l) = Greater) rows"
    by simp
qed

lemma follow_page:
  assumes "0 < m" and "cursor_means c after"
    and "fetch i c = page_rows cmp key_of seek position \<lparr>pqLimit = m, pqCursor = c\<rparr> rows"
  shows "follow (Suc n) fetch i c =
    (let found = rows_after cmp key_of after rows in
     if length found \<le> m then Some [\<lparr>pgItems = found, pgLimit = m, pgNextCursor = None\<rparr>]
     else let c' = Some (encodePageCursor (position (List.last (take m found)))) in
       map_option (Cons \<lparr>pgItems = take m found, pgLimit = m, pgNextCursor = c'\<rparr>)
         (follow n fetch (Suc i) c'))"
  by (simp add: assms(3) page_rows_means [OF assms(1,2)] Let_def)

text \<open>
  A table that stays the same is listed completely, in order, in the fewest pages.
\<close>

theorem listing_ends:
  assumes "table rows" and "0 < m" and "cursor_means c after" and "upward after"
    and "length (rows_after cmp key_of after rows) \<le> Suc n * m"
    and "\<And>i c. fetch i c = page_rows cmp key_of seek position \<lparr>pqLimit = m, pqCursor = c\<rparr> rows"
  shows "\<exists>ps. follow (Suc n) fetch i c = Some ps \<and> page_items ps = rows_after cmp key_of after rows"
  using assms(3-5)
proof (induction n arbitrary: i c after)
  case 0
  then show ?case
    by (simp only: follow_page [of m c after fetch i rows 0, OF assms(2) 0(1) assms(6)])
      (simp add: page_items_def)
next
  case (Suc n)
  let ?found = "rows_after cmp key_of after rows"
  show ?case
  proof (cases "length ?found \<le> m")
    case True
    then show ?thesis
      by (simp only: follow_page [of m c after fetch i rows "Suc n", OF assms(2) Suc(2) assms(6)]) (simp add: page_items_def)
  next
    case False
    then have long: "m < length ?found" by simp
    define l where "l = List.last (take m ?found)"
    note cut = page_cut [OF assms(1,2) refl long l_def]
    have rest: "drop m ?found = rows_after cmp key_of (\<lambda>k. compare cmp k (key_of l) = Greater) rows"
      by (rule cut(4) [OF Suc(3)])
    have "length (rows_after cmp key_of (\<lambda>k. compare cmp k (key_of l) = Greater) rows) \<le> Suc n * m"
      unfolding rest [symmetric] using Suc(4) by simp
    from Suc.IH [OF cursor_means_position [OF cut(1)] upward_beyond this]
    obtain ps where "follow (Suc n) fetch (Suc i) (Some (encodePageCursor (position l))) = Some ps"
      "page_items ps = drop m ?found"
      unfolding rest by blast
    with False show ?thesis
      by (simp only: follow_page [of m c after fetch i rows "Suc n", OF assms(2) Suc(2) assms(6)] Let_def l_def [symmetric]) simp
  qed
qed

text \<open>A row that stays in the tables is listed once, whatever becomes of the others.\<close>

theorem unmoved_row_listed_once:
  assumes tables: "\<And>i. table (rows i)" and m: "0 < m" and r: "\<And>i. r \<in> set (rows i)"
    and fetch: "\<And>i c. fetch i c = page_rows cmp key_of seek position \<lparr>pqLimit = m, pqCursor = c\<rparr> (rows i)"
    and "cursor_means c after" and "upward after" and "follow n fetch i c = Some ps"
  shows "length (filter (\<lambda>x. key_of x = key_of r) (page_items ps)) = (if after (key_of r) then 1 else 0)"
  using assms(5-7)
proof (induction n arbitrary: i c after ps)
  case (Suc n)
  let ?found = "rows_after cmp key_of after (rows i)"
  let ?mine = "\<lambda>x. key_of x = key_of r"
  have dist: "distinct (map key_of ?found)" by (rule distinct_rows_after [OF tables])
  have once: "length (filter ?mine xs) = (if r \<in> set xs then 1 else 0)"
    if "distinct (map key_of xs)" "set xs \<subseteq> set (rows i)" for xs
  proof -
    have same: "x = r" if "x \<in> set xs" "key_of x = key_of r" for x
      using that \<open>set xs \<subseteq> set (rows i)\<close> tables [of i] r [of i]
      by (auto simp: table_def distinct_map dest: inj_onD)
    then have "filter ?mine xs = filter (\<lambda>x. x = r) xs" by (auto intro: filter_cong)
    also have "length \<dots> = (if r \<in> set xs then 1 else 0)"
      using that(1) by (induction xs) (auto simp: filter_empty_conv)
    finally show ?thesis .
  qed
  have sub: "set ?found \<subseteq> set (rows i)" by (auto simp: set_rows_after)
  have mem: "r \<in> set ?found \<longleftrightarrow> after (key_of r)" using r [of i] by (simp add: set_rows_after)
  show ?case
  proof (cases "length ?found \<le> m")
    case True
    then have "page_items ps = ?found"
      using Suc(4) by (simp only: follow_page [of m c after fetch i "rows i" n, OF m Suc(2) fetch]) (auto simp: page_items_def)
    then show ?thesis using once [OF dist sub] mem by simp
  next
    case False
    then have long: "m < length ?found" by simp
    define l where "l = List.last (take m ?found)"
    note cut = page_cut [OF tables m refl long l_def]
    let ?beyond = "\<lambda>k. compare cmp k (key_of l) = Greater"
    from Suc(4) False obtain p qs where
      ps: "ps = p # qs" "pgItems p = take m ?found"
      and qs: "follow n fetch (Suc i) (Some (encodePageCursor (position l))) = Some qs"
      by (simp only: follow_page [of m c after fetch i "rows i" n, OF m Suc(2) fetch] Let_def l_def [symmetric]) auto
    have rest: "length (filter ?mine (page_items qs)) = (if ?beyond (key_of r) then 1 else 0)"
      by (rule Suc.IH [OF cursor_means_position [OF cut(1)] upward_beyond qs])
    have "length (filter ?mine (take m ?found)) = (if r \<in> set (take m ?found) then 1 else 0)"
      using dist sub by (intro once) (auto simp: take_map [symmetric] dest: in_set_takeD)
    moreover have "r \<in> set (drop m ?found) \<longleftrightarrow> ?beyond (key_of r)"
      unfolding cut(4) [OF Suc(3)] using r [of i] by (simp add: set_rows_after)
    moreover have "r \<in> set ?found \<longleftrightarrow> r \<in> set (take m ?found) \<or> r \<in> set (drop m ?found)"
      by (metis append_take_drop_id Un_iff set_append)
    moreover have "r \<in> set (take m ?found) \<Longrightarrow> \<not> ?beyond (key_of r)" using cut(3) by blast
    ultimately show ?thesis using mem rest by (auto simp: ps)
  qed
qed simp

text \<open>Only stored rows are listed.\<close>

lemma listed_rows:
  assumes tables: "\<And>i. table (rows i)" and m: "0 < m"
    and fetch: "\<And>i c. fetch i c = page_rows cmp key_of seek position \<lparr>pqLimit = m, pqCursor = c\<rparr> (rows i)"
    and "cursor_means c after" and "upward after" and "follow n fetch i c = Some ps"
  shows "set (page_items ps) \<subseteq> (\<Union>i. set (rows i))"
  using assms(4-6)
proof (induction n arbitrary: i c after ps)
  case (Suc n)
  let ?found = "rows_after cmp key_of after (rows i)"
  have sub: "set ?found \<subseteq> set (rows i)" by (auto simp: set_rows_after)
  show ?case
  proof (cases "length ?found \<le> m")
    case True
    then have "page_items ps = ?found"
      using Suc(4) by (simp only: follow_page [of m c after fetch i "rows i" n, OF m Suc(2) fetch])
        (auto simp: page_items_def)
    with sub show ?thesis by auto
  next
    case False
    then have long: "m < length ?found" by simp
    define l where "l = List.last (take m ?found)"
    note cut = page_cut [OF tables m refl long l_def]
    from Suc(4) False obtain p qs where ps: "ps = p # qs" "pgItems p = take m ?found"
      and qs: "follow n fetch (Suc i) (Some (encodePageCursor (position l))) = Some qs"
      by (simp only: follow_page [of m c after fetch i "rows i" n, OF m Suc(2) fetch] Let_def l_def [symmetric]) auto
    have "set (page_items qs) \<subseteq> (\<Union>i. set (rows i))"
      by (rule Suc.IH [OF cursor_means_position [OF cut(1)] upward_beyond qs])
    with sub set_take_subset [of m ?found] show ?thesis by (auto simp: ps)
  qed
qed simp

end

end
