(* ===== verification/Control_Lists.thy ===== *)
theory Control_Lists
  imports Control_Plane Keyset_Pages
begin

section \<open>The paged lists\<close>

text \<open>
  The list queries of \<^verbatim>\<open>packages/postgres-adapter/src/control-plane-store.ts\<close> and the list methods of
  \<^verbatim>\<open>packages/application/src/control-plane.ts\<close>. Projections are listed by instant and identifier, the
  latest first; the catalog by its slugs. What the database engine decides is a parameter: how it casts a
  text to an instant and to a UUID, and the key its collation sorts a slug by, with ties broken by the
  slug itself. A UUID is compared as its canonical text. A text it cannot cast fails the query.
\<close>

record pg_types =
  timestamptz :: "string \<Rightarrow> millis option"
  uuidOf :: "string \<Rightarrow> uuid option"
  collationKey :: "string \<Rightarrow> string"

subsection \<open>Seek predicates\<close>

definition newest_first :: "(millis \<times> uuid) comparator" where
  "newest_first = reversed (prod_lex default default)"

definition by_slug :: "pg_types \<Rightarrow> string comparator" where
  "by_slug T = Comparator.key (\<lambda>s. (collationKey T s, s)) (prod_lex default default)"

definition seekDescending :: "pg_types \<Rightarrow> string \<Rightarrow> control_error + (millis \<times> uuid \<Rightarrow> bool)" where
  "seekDescending T cursor =
     res_bind (decodePageCursor cursor) (\<lambda>p.
     res_bind (require (InvalidText (pcSortKey p)) (timestamptz T (pcSortKey p))) (\<lambda>t.
     res_bind (require (InvalidText (pcId p)) (uuidOf T (pcId p))) (\<lambda>u.
     Inr (\<lambda>(a, b). a < t \<or> a = t \<and> b < u))))"

definition seekAscending :: "pg_types \<Rightarrow> string \<Rightarrow> control_error + (string \<Rightarrow> bool)" where
  "seekAscending T cursor =
     res_bind (decodePageCursor cursor) (\<lambda>p. Inr (\<lambda>s. compare (by_slug T) s (pcId p) = Greater))"

definition instant_position :: "('r \<Rightarrow> millis \<times> uuid) \<Rightarrow> 'r \<Rightarrow> page_cursor" where
  "instant_position key_of r = \<lparr>pcSortKey = toISOString (fst (key_of r)), pcId = snd (key_of r)\<rparr>"

definition slug_position :: "('r \<Rightarrow> string) \<Rightarrow> 'r \<Rightarrow> page_cursor" where
  "slug_position slug_of r = \<lparr>pcSortKey = slug_of r, pcId = slug_of r\<rparr>"

definition list_instants ::
  "pg_types \<Rightarrow> ('r \<Rightarrow> millis \<times> uuid) \<Rightarrow> ('r \<Rightarrow> 'v) \<Rightarrow> page_request \<Rightarrow> 'r list \<Rightarrow> control_error + 'v page" where
  "list_instants T key_of view page rows =
     map_sum id (map_page view) (page_rows newest_first key_of (seekDescending T) (instant_position key_of) page rows)"

definition list_slugs ::
  "pg_types \<Rightarrow> ('r \<Rightarrow> string) \<Rightarrow> ('r \<Rightarrow> 'v) \<Rightarrow> page_request \<Rightarrow> 'r list \<Rightarrow> control_error + 'v page" where
  "list_slugs T slug_of view page rows =
     map_sum id (map_page view) (page_rows (by_slug T) slug_of (seekAscending T) (slug_position slug_of) page rows)"

subsection \<open>Views\<close>

record image_view =
  iwId :: string
  iwName :: string
  iwProviderProfileId :: string
  iwEnabled :: bool
  iwArchitecture :: string
  iwCreatedAt :: string
  iwUpdatedAt :: string

record flavor_view =
  fwId :: string
  fwName :: string
  fwCpuCount :: int
  fwMemoryMiB :: int
  fwMinimumDiskGiB :: int
  fwEnabled :: bool
  fwCreatedAt :: string
  fwUpdatedAt :: string

record network_view =
  nwId :: string
  nwName :: string
  nwProviderProfileId :: "string option"
  nwIpv4Cidr :: string
  nwGateway :: string
  nwDnsServers :: "string list"
  nwExclusions :: "string list"
  nwEnabled :: bool
  nwCreatedAt :: string
  nwUpdatedAt :: string

record audit_view =
  awId :: uuid
  awActorId :: string
  awActorRole :: string
  awProjectId :: uuid
  awAction :: string
  awTargetType :: string
  awTargetId :: string
  awOperationId :: uuid
  awOutcome :: string
  awOccurredAt :: string

record audit_filter =
  afProjectId :: "uuid option"
  afOperationId :: "uuid option"

definition auditActorRole :: "string \<Rightarrow> string" where
  "auditActorRole v =
     (case find (\<lambda>role. role = v)
         [''tenant_developer'', ''platform_operator'', ''platform_administrator'', ''service''] of
        Some role \<Rightarrow> role | None \<Rightarrow> ''service'')"

definition auditOutcome :: "string \<Rightarrow> string" where
  "auditOutcome v =
     (case find (\<lambda>outcome. outcome = v) [''accepted'', ''succeeded'', ''rejected'', ''failed''] of
        Some outcome \<Rightarrow> outcome | None \<Rightarrow> ''rejected'')"

subsection \<open>The queries of the store\<close>

definition store_listSnapshots :: "pg_types \<Rightarrow> uuid \<Rightarrow> uuid \<Rightarrow> page_request \<Rightarrow> pg \<Rightarrow> control_error + snapshot_view page" where
  "store_listSnapshots T project i page db =
     list_instants T (\<lambda>r. (sdUpdatedAt r, sdSnapshotId r)) sdDocument page
       (filter (\<lambda>r. sdProjectId r = project \<and> sdInstanceId r = i) (snapshot_documents db))"

definition store_listDeadLetters :: "pg_types \<Rightarrow> page_request \<Rightarrow> pg \<Rightarrow> control_error + dead_letter_view page" where
  "store_listDeadLetters T page db =
     list_instants T (\<lambda>r. (ddUpdatedAt r, ddOriginalEventId r)) ddDocument page (dead_letter_documents db)"

definition image_view_of :: "image_row \<Rightarrow> image_view" where
  "image_view_of r = \<lparr>iwId = imId r, iwName = imName r, iwProviderProfileId = imProviderProfileId r,
     iwEnabled = imEnabled r, iwArchitecture = imArchitecture r, iwCreatedAt = toISOString (imCreatedAt r),
     iwUpdatedAt = toISOString (imUpdatedAt r)\<rparr>"

definition store_listImages :: "pg_types \<Rightarrow> page_request \<Rightarrow> pg \<Rightarrow> control_error + image_view page" where
  "store_listImages T page db = list_slugs T imId image_view_of page (filter imEnabled (images db))"

definition flavor_view_of :: "flavor_row \<Rightarrow> flavor_view" where
  "flavor_view_of r = \<lparr>fwId = flId r, fwName = flName r, fwCpuCount = flCpuCount r, fwMemoryMiB = flMemoryMib r,
     fwMinimumDiskGiB = flMinimumDiskGib r, fwEnabled = flEnabled r, fwCreatedAt = toISOString (flCreatedAt r),
     fwUpdatedAt = toISOString (flUpdatedAt r)\<rparr>"

definition store_listFlavors :: "pg_types \<Rightarrow> page_request \<Rightarrow> pg \<Rightarrow> control_error + flavor_view page" where
  "store_listFlavors T page db = list_slugs T flId flavor_view_of page (filter flEnabled (flavors db))"

text \<open>The left join: one row for each profile of a network, or one without a profile.\<close>

definition network_rows :: "pg \<Rightarrow> (network_row \<times> string option) list" where
  "network_rows db =
     concat (map (\<lambda>n. case filter (\<lambda>p. ppNetworkId p = neId n) (provider_profiles db) of
         [] \<Rightarrow> [(n, None)]
       | ps \<Rightarrow> map (\<lambda>p. (n, Some (ppId p))) ps) (filter neEnabled (networks db)))"

definition network_view_of :: "network_row \<times> string option \<Rightarrow> network_view" where
  "network_view_of r = (case r of (n, profile) \<Rightarrow>
     \<lparr>nwId = neId n, nwName = neName n, nwProviderProfileId = (if truthy profile then profile else None),
      nwIpv4Cidr = neIpv4Cidr n, nwGateway = neGateway n, nwDnsServers = neDnsServers n,
      nwExclusions = neExclusions n, nwEnabled = neEnabled n, nwCreatedAt = toISOString (neCreatedAt n),
      nwUpdatedAt = toISOString (neUpdatedAt n)\<rparr>)"

definition store_listNetworks :: "pg_types \<Rightarrow> page_request \<Rightarrow> pg \<Rightarrow> control_error + network_view page" where
  "store_listNetworks T page db =
     list_slugs T (\<lambda>r. neId (fst r)) network_view_of page (network_rows db)"

definition store_listInstances :: "pg_types \<Rightarrow> uuid \<Rightarrow> page_request \<Rightarrow> pg \<Rightarrow> control_error + instance_view page" where
  "store_listInstances T project page db =
     list_instants T (\<lambda>r. (idoUpdatedAt r, idoInstanceId r)) idoDocument page
       (filter (\<lambda>r. idoProjectId r = project) (instance_documents db))"

definition store_listOperations :: "pg_types \<Rightarrow> uuid \<Rightarrow> page_request \<Rightarrow> pg \<Rightarrow> control_error + operation_view page" where
  "store_listOperations T project page db =
     list_instants T (\<lambda>r. (odUpdatedAt r, odOperationId r)) odDocument page
       (filter (\<lambda>r. odProjectId r = project) (operation_documents db))"

definition audit_view_of :: "audit_entry \<Rightarrow> audit_view" where
  "audit_view_of r = \<lparr>awId = aeId r, awActorId = aeActorId r, awActorRole = auditActorRole (aeActorRole r),
     awProjectId = aeProjectId r, awAction = aeAction r, awTargetType = aeTargetType r,
     awTargetId = aeTargetId r, awOperationId = aeOperationId r, awOutcome = auditOutcome (aeOutcome r),
     awOccurredAt = toISOString (aeOccurredAt r)\<rparr>"

definition audit_selected :: "audit_filter \<Rightarrow> audit_entry \<Rightarrow> bool" where
  "audit_selected f r \<longleftrightarrow>
     (truthy (afProjectId f) \<longrightarrow> aeProjectId r = the (afProjectId f)) \<and>
     (truthy (afOperationId f) \<longrightarrow> aeOperationId r = the (afOperationId f))"

definition store_listAuditEvents ::
  "pg_types \<Rightarrow> audit_filter \<Rightarrow> page_request \<Rightarrow> 'z workflow_db_scheme \<Rightarrow> control_error + audit_view page" where
  "store_listAuditEvents T f page db =
     list_instants T (\<lambda>r. (aeOccurredAt r, aeId r)) audit_view_of page
       (filter (audit_selected f) (audit_entries db))"

subsection \<open>The methods of the service\<close>

definition page_request_of :: "int option \<Rightarrow> string option \<Rightarrow> page_request" where
  "page_request_of limit cursor =
     \<lparr>pqLimit = nat (page_limit limit), pqCursor = (if truthy cursor then cursor else None)\<rparr>"

definition listSnapshots ::
  "pg_types \<Rightarrow> actor \<Rightarrow> uuid \<Rightarrow> uuid \<Rightarrow> int option \<Rightarrow> string option \<Rightarrow> pg \<Rightarrow> control_error + snapshot_view page" where
  "listSnapshots T a project i limit cursor db =
     res_bind (authorize a project) (\<lambda>_. store_listSnapshots T project i (page_request_of limit cursor) db)"

definition listImages ::
  "pg_types \<Rightarrow> actor \<Rightarrow> uuid \<Rightarrow> int option \<Rightarrow> string option \<Rightarrow> pg \<Rightarrow> control_error + image_view page" where
  "listImages T a project limit cursor db =
     res_bind (authorize a project) (\<lambda>_. store_listImages T (page_request_of limit cursor) db)"

definition listFlavors ::
  "pg_types \<Rightarrow> actor \<Rightarrow> uuid \<Rightarrow> int option \<Rightarrow> string option \<Rightarrow> pg \<Rightarrow> control_error + flavor_view page" where
  "listFlavors T a project limit cursor db =
     res_bind (authorize a project) (\<lambda>_. store_listFlavors T (page_request_of limit cursor) db)"

definition listNetworks ::
  "pg_types \<Rightarrow> actor \<Rightarrow> uuid \<Rightarrow> int option \<Rightarrow> string option \<Rightarrow> pg \<Rightarrow> control_error + network_view page" where
  "listNetworks T a project limit cursor db =
     res_bind (authorize a project) (\<lambda>_. store_listNetworks T (page_request_of limit cursor) db)"

definition listInstances ::
  "pg_types \<Rightarrow> actor \<Rightarrow> uuid \<Rightarrow> int option \<Rightarrow> string option \<Rightarrow> pg \<Rightarrow> control_error + instance_view page" where
  "listInstances T a project limit cursor db =
     res_bind (authorize a project) (\<lambda>_. store_listInstances T project (page_request_of limit cursor) db)"

definition listOperations ::
  "pg_types \<Rightarrow> actor \<Rightarrow> uuid \<Rightarrow> int option \<Rightarrow> string option \<Rightarrow> pg \<Rightarrow> control_error + operation_view page" where
  "listOperations T a project limit cursor db =
     res_bind (authorize a project) (\<lambda>_. store_listOperations T project (page_request_of limit cursor) db)"

definition listDeadLetters ::
  "pg_types \<Rightarrow> actor \<Rightarrow> int option \<Rightarrow> string option \<Rightarrow> pg \<Rightarrow> control_error + dead_letter_view page" where
  "listDeadLetters T a limit cursor db =
     res_bind (authorizeAdministrator a) (\<lambda>_. store_listDeadLetters T (page_request_of limit cursor) db)"

definition listAuditEvents ::
  "pg_types \<Rightarrow> actor \<Rightarrow> audit_filter \<Rightarrow> int option \<Rightarrow> string option \<Rightarrow> pg \<Rightarrow> control_error + audit_view page" where
  "listAuditEvents T a f limit cursor db =
     res_bind (authorizeAdministrator a) (\<lambda>_. store_listAuditEvents T f (page_request_of limit cursor) db)"

end
