(* ===== verification/List_Properties.thy ===== *)
theory List_Properties
  imports Control_Lists Control_Samples
begin

section \<open>What the paged lists guarantee\<close>

text \<open>
  The locale \<open>keyset\<close> holds for both orders of the lists. A projection row is readable when its instant
  and its identifier are read back by the casts of the database from the texts the cursor carries.
\<close>

definition readable_key :: "pg_types \<Rightarrow> millis \<times> uuid \<Rightarrow> bool" where
  "readable_key T k \<longleftrightarrow>
     cursor_component (toISOString (fst k)) \<and> timestamptz T (toISOString (fst k)) = Some (fst k) \<and>
     cursor_component (snd k) \<and> uuidOf T (snd k) = Some (snd k)"

lemma compare_newest_first:
  "compare newest_first a b = Equiv \<Longrightarrow> a = b"
  "compare newest_first a b = Greater \<longleftrightarrow> fst a < fst b \<or> fst a = fst b \<and> snd a < snd b"
  by (auto simp: newest_first_def compare_prod_lex_apply prod_eq_iff split: comp.splits)

lemma compare_by_slug: "compare (by_slug T) a b = Equiv \<Longrightarrow> a = b"
  by (auto simp: by_slug_def compare_prod_lex_apply split: comp.splits)

interpretation newest: keyset newest_first key_of "seekDescending T" "instant_position key_of"
    "\<lambda>r. readable_key T (key_of r)" for T and key_of :: "'r \<Rightarrow> millis \<times> uuid"
proof unfold_locales
  fix r assume r: "readable_key T (key_of r)"
  then have ok: "cursor_position (instant_position key_of r)"
    by (simp add: readable_key_def cursor_position_def instant_position_def)
  then show "encodePageCursor (instant_position key_of r) \<noteq> []" by (rule length_encodePageCursor(2))
  show "seekDescending T (encodePageCursor (instant_position key_of r)) =
      Inr (\<lambda>k. compare newest_first k (key_of r) = Greater)"
    using r decode_encode_cursor [OF ok]
    by (auto simp: seekDescending_def readable_key_def instant_position_def compare_newest_first fun_eq_iff)
qed (rule compare_newest_first)

interpretation slugs: keyset "by_slug T" slug_of "seekAscending T" "slug_position slug_of"
    "\<lambda>r. cursor_component (slug_of r)" for T and slug_of :: "'r \<Rightarrow> string"
proof unfold_locales
  fix r assume "cursor_component (slug_of r)"
  then have ok: "cursor_position (slug_position slug_of r)"
    by (simp add: cursor_position_def slug_position_def)
  then show "encodePageCursor (slug_position slug_of r) \<noteq> []" by (rule length_encodePageCursor(2))
  show "seekAscending T (encodePageCursor (slug_position slug_of r)) =
      Inr (\<lambda>k. compare (by_slug T) k (slug_of r) = Greater)"
    using decode_encode_cursor [OF ok] by (simp add: seekAscending_def slug_position_def)
qed (rule compare_by_slug)

subsection \<open>Listings of projections\<close>

lemma page_limit_pos [simp]: "0 < nat (page_limit limit)"
  by (simp add: page_limit_def DEFAULT_PAGE_LIMIT_def MAXIMUM_PAGE_LIMIT_def split: option.split)

lemma page_rows_absent_cursor:
  "page_rows cmp key_of seek position \<lparr>pqLimit = m, pqCursor = (if truthy c then c else None)\<rparr> rows =
     page_rows cmp key_of seek position \<lparr>pqLimit = m, pqCursor = c\<rparr> rows"
  by (simp add: page_rows_def)

lemma list_instants_fetch:
  "list_instants T key_of view (page_request_of limit c) rows =
     map_sum id (map_page view) (page_rows newest_first key_of (seekDescending T) (instant_position key_of)
       \<lparr>pqLimit = nat (page_limit limit), pqCursor = c\<rparr> rows)"
  by (simp add: list_instants_def page_request_of_def page_rows_absent_cursor)

lemma list_slugs_fetch:
  "list_slugs T slug_of view (page_request_of limit c) rows =
     map_sum id (map_page view) (page_rows (by_slug T) slug_of (seekAscending T) (slug_position slug_of)
       \<lparr>pqLimit = nat (page_limit limit), pqCursor = c\<rparr> rows)"
  by (simp add: list_slugs_def page_request_of_def page_rows_absent_cursor)

lemma pages_needed: "0 < m \<Longrightarrow> k \<le> n \<Longrightarrow> k \<le> Suc (n div m) * m" for m :: nat
  by (metis dividend_less_div_times le_trans less_imp_le mult_Suc add.commute)

lemma sorted_newest_first:
  assumes "sorted (Comparator.key key_of newest_first) rows"
  shows "sorted_wrt (\<lambda>x y. fst (key_of y) \<le> fst (key_of x)) rows"
  using assms
proof (induction rows rule: list.induct)
  case (Cons r rows)
  have "fst (key_of x) \<le> fst (key_of r)" if "x \<in> set rows" for x
    using sorted_Cons_imp_not_less [OF Cons.prems that] by (auto simp: compare_newest_first)
  with Cons show ?case using sorted_Cons_imp_sorted by fastforce
qed simp

text \<open>Every listing of projections that do not change ends, complete and in order.\<close>

lemma instants_listing_ends:
  assumes "distinct (map key_of rows)" and "\<forall>r \<in> set rows. readable_key T (key_of r)" and "length rows \<le> n"
  shows "\<exists>ps listed. follow (n div nat (page_limit limit) + 1)
      (\<lambda>_ c. list_instants T key_of view (page_request_of limit c) rows) 0 None = Some ps \<and>
    page_items ps = map view listed \<and> mset listed = mset rows \<and>
    sorted_wrt (\<lambda>x y. fst (key_of y) \<le> fst (key_of x)) listed"
proof -
  let ?m = "nat (page_limit limit)"
  let ?fetch = "\<lambda>_ c. page_rows newest_first key_of (seekDescending T) (instant_position key_of)
    \<lparr>pqLimit = ?m, pqCursor = c\<rparr> rows"
  let ?listed = "rows_after newest_first key_of (\<lambda>_. True) rows"
  have table: "newest.table key_of T rows"
    using assms(1,2) by (simp add: newest.table_def list_all_iff)
  have "length ?listed \<le> Suc (n div ?m) * ?m"
    using assms(3) by (intro pages_needed [OF page_limit_pos]) (simp add: rows_after_def)
  from newest.listing_ends [OF table page_limit_pos newest.cursor_means_None newest.upward_True this refl, of 0]
  obtain ps where "follow (Suc (n div ?m)) ?fetch 0 None = Some ps" "page_items ps = ?listed"
    by blast
  moreover have "mset ?listed = mset rows" by (simp add: rows_after_def)
  moreover have "sorted_wrt (\<lambda>x y. fst (key_of y) \<le> fst (key_of x)) ?listed"
    by (rule sorted_newest_first) (simp add: rows_after_def)
  ultimately show ?thesis
    unfolding list_instants_fetch follow_map
    by (intro exI [of _ "map (map_page view) ps"] exI [of _ ?listed]) simp
qed

text \<open>A projection that stays as it is, is listed once, whatever happens to the others between two pages.\<close>

lemma instants_unmoved_once:
  assumes "\<And>i. distinct (map key_of (rows i))" and "\<And>i. \<forall>x \<in> set (rows i). readable_key T (key_of x)"
    and "\<And>i. r \<in> set (rows i)"
    and "follow n (\<lambda>i c. list_instants T key_of view (page_request_of limit c) (rows i)) 0 None = Some ps"
  shows "\<exists>listed. page_items ps = map view listed \<and> set listed \<subseteq> (\<Union>i. set (rows i)) \<and>
    length (filter (\<lambda>x. key_of x = key_of r) listed) = 1"
proof -
  let ?m = "nat (page_limit limit)"
  let ?fetch = "\<lambda>i c. page_rows newest_first key_of (seekDescending T) (instant_position key_of)
    \<lparr>pqLimit = ?m, pqCursor = c\<rparr> (rows i)"
  have table: "newest.table key_of T (rows i)" for i
    using assms(1,2) by (simp add: newest.table_def list_all_iff)
  from assms(4) obtain qs where qs: "follow n ?fetch 0 None = Some qs" "ps = map (map_page view) qs"
    unfolding list_instants_fetch follow_map by auto
  have "length (filter (\<lambda>x. key_of x = key_of r) (page_items qs)) = 1"
    using newest.unmoved_row_listed_once [OF table page_limit_pos assms(3) refl newest.cursor_means_None
        newest.upward_True qs(1)] by simp
  moreover have "set (page_items qs) \<subseteq> (\<Union>i. set (rows i))"
    using newest.listed_rows [OF table page_limit_pos refl newest.cursor_means_None newest.upward_True qs(1)] .
  ultimately show ?thesis using qs(2) by auto
qed

subsection \<open>Concrete listings\<close>

definition listed_document :: "nat \<Rightarrow> millis \<Rightarrow> instance_document" where
  "listed_document k t = \<lparr>idoInstanceId = sample_uuid k, idoProjectId = sample_project,
     idoDocument = \<lparr>ivId = sample_uuid k, ivProjectId = sample_project, ivLifecycleState = ''active'',
       ivDesired = \<lparr>dvImageId = ''ubuntu-24'', dvFlavorId = ''small'', dvNetworkId = ''lab-net'', dvHostname = ''web-1'',
         dvPowerState = ''running'', dvRetentionRequested = False\<rparr>,
       ivObserved = None, ivIpv4Lease = \<lparr>lvAddress = ''10.20.0.2'', lvPrefixLength = Some 24, lvGateway = ''10.20.0.1'',
         lvState = ''active''\<rparr>, ivActiveOperationId = None, ivDrift = ''none'', ivLastReconciledAt = None,
       ivRetentionDeadline = None, ivPurgeEligible = False, ivCreatedAt = toISOString 0, ivUpdatedAt = toISOString t\<rparr>,
     idoUpdatedAt = t\<rparr>"

definition listing_pg :: "instance_document list \<Rightarrow> pg" where
  "listing_pg docs = sample_pg\<lparr>instance_documents := docs\<rparr>"

text \<open>A database that reads two instants and any UUID.\<close>

definition listing_types :: pg_types where
  "listing_types = \<lparr>timestamptz = (\<lambda>s. if s = ''1970-01-01T00:00:01.000Z'' then Some 1000
       else if s = ''1970-01-01T00:00:02.000Z'' then Some 2000 else None), uuidOf = Some, collationKey = id\<rparr>"

lemma listed_readable:
  "readable_key listing_types (1000, sample_uuid 1)" "readable_key listing_types (2000, sample_uuid 2)"
  "readable_key listing_types (2000, sample_uuid 3)" "sample_uuid 1 \<noteq> sample_uuid 2" "sample_uuid 2 \<noteq> sample_uuid 1"
  "sample_uuid 1 \<noteq> sample_uuid 3" "sample_uuid 3 \<noteq> sample_uuid 1"
  by code_simp+

lemma listing_authorized: "authorize sample_tenant sample_project = Inr ()"
  by (simp add: authorize_def sample_tenant_def)

lemma instance_documents_listing [simp]: "instance_documents (listing_pg docs) = docs"
  by (simp add: listing_pg_def)

lemma listed_document_simps [simp]:
  "idoInstanceId (listed_document k t) = sample_uuid k" "idoProjectId (listed_document k t) = sample_project"
  "idoUpdatedAt (listed_document k t) = t" "ivId (idoDocument (listed_document k t)) = sample_uuid k"
  by (simp_all add: listed_document_def)

subsection \<open>Properties\<close>

text \<open>
  C31. Page by page: whatever page size a member of the project asks for, following the cursors of
  \<^verbatim>\<open>listInstances\<close> over unchanged tables ends within one page more than the tables divided by the page
  size, and the pages together hold every instance of the project, each as often as it is stored, the
  latest change first. Identifiers are unique and positions are read back as they were written.
\<close>

theorem instance_listing_ends:
  assumes "authorize a project = Inr ()"
    and "distinct (map idoInstanceId (instance_documents db))"
    and "\<forall>r \<in> set (instance_documents db). readable_key T (idoUpdatedAt r, idoInstanceId r)"
  shows "\<exists>ps listed.
    follow (length (instance_documents db) div nat (page_limit limit) + 1)
      (\<lambda>_ c. listInstances T a project limit c db) 0 None = Some ps \<and>
    page_items ps = map idoDocument listed \<and>
    mset listed = mset (filter (\<lambda>r. idoProjectId r = project) (instance_documents db)) \<and>
    sorted_wrt (\<lambda>x y. idoUpdatedAt y \<le> idoUpdatedAt x) listed"
proof -
  let ?rows = "filter (\<lambda>r. idoProjectId r = project) (instance_documents db)"
  let ?key = "\<lambda>r. (idoUpdatedAt r, idoInstanceId r)"
  have "distinct (map ?key ?rows)"
    using assms(2) by (auto simp: distinct_map inj_on_def)
  moreover have "\<forall>r \<in> set ?rows. readable_key T (?key r)" using assms(3) by simp
  moreover have "length ?rows \<le> length (instance_documents db)" by simp
  ultimately show ?thesis
    using instants_listing_ends [of ?key ?rows T "length (instance_documents db)" limit idoDocument] assms(1)
    by (simp add: listInstances_def store_listInstances_def)
qed

theorem instance_listing_ends_witness:
  "\<exists>ps listed. follow 3 (\<lambda>_ c. listInstances listing_types sample_tenant sample_project (Some 1) c
      (listing_pg [listed_document 1 1000, listed_document 2 2000])) 0 None = Some ps \<and>
    page_items ps = map idoDocument listed \<and>
    mset listed = {#listed_document 1 1000, listed_document 2 2000#} \<and>
    sorted_wrt (\<lambda>x y. idoUpdatedAt y \<le> idoUpdatedAt x) listed"
proof -
  let ?db = "listing_pg [listed_document 1 1000, listed_document 2 2000]"
  have fuel: "length (instance_documents ?db) div nat (page_limit (Some 1)) + 1 = 3"
    by (simp add: page_limit_def MAXIMUM_PAGE_LIMIT_def)
  have rows: "filter (\<lambda>r. idoProjectId r = sample_project) (instance_documents ?db) =
      [listed_document 1 1000, listed_document 2 2000]" by simp
  have ok: "distinct (map idoInstanceId (instance_documents ?db))"
    "\<forall>r \<in> set (instance_documents ?db). readable_key listing_types (idoUpdatedAt r, idoInstanceId r)"
    by (simp_all add: listed_readable del: One_nat_def)
  from instance_listing_ends [OF listing_authorized ok, of "Some 1", unfolded fuel rows]
  show ?thesis by simp
qed

text \<open>
  C32. Keyset pages: when other instances are created, changed or removed between two pages, an instance
  whose read document stays as it is, is still listed exactly once by a walk along the cursors that ends.
\<close>

theorem unmoved_instance_listed_once:
  assumes "authorize a project = Inr ()"
    and "\<And>i. distinct (map idoInstanceId (instance_documents (db i)))"
    and "\<And>i. \<forall>x \<in> set (instance_documents (db i)). readable_key T (idoUpdatedAt x, idoInstanceId x)"
    and "\<And>i. \<forall>x \<in> set (instance_documents (db i)). ivId (idoDocument x) = idoInstanceId x"
    and "\<And>i. r \<in> set (instance_documents (db i))" and "idoProjectId r = project"
    and "\<And>i. \<forall>x \<in> set (instance_documents (db i)). idoInstanceId x = idoInstanceId r \<longrightarrow> x = r"
    and "follow n (\<lambda>i c. listInstances T a project limit c (db i)) 0 None = Some ps"
  shows "filter (\<lambda>v. ivId v = idoInstanceId r) (page_items ps) = [idoDocument r]"
proof -
  let ?rows = "\<lambda>i. filter (\<lambda>x. idoProjectId x = project) (instance_documents (db i))"
  let ?key = "\<lambda>x. (idoUpdatedAt x, idoInstanceId x)"
  have "distinct (map ?key (?rows i))" for i
    using assms(2) [of i] by (auto simp: distinct_map inj_on_def)
  moreover have "\<forall>x \<in> set (?rows i). readable_key T (?key x)" for i using assms(3) [of i] by simp
  moreover have "r \<in> set (?rows i)" for i using assms(5,6) by simp
  moreover have "follow n (\<lambda>i c. list_instants T ?key idoDocument (page_request_of limit c) (?rows i)) 0 None = Some ps"
    using assms(8) by (simp add: listInstances_def store_listInstances_def assms(1))
  ultimately obtain listed where listed: "page_items ps = map idoDocument listed"
      "set listed \<subseteq> (\<Union>i. set (?rows i))" "length (filter (\<lambda>x. ?key x = ?key r) listed) = 1"
    using instants_unmoved_once [of ?key ?rows T r n idoDocument limit ps] by blast
  have stored: "\<exists>i. x \<in> set (instance_documents (db i))" if "x \<in> set listed" for x
    using subsetD [OF listed(2) that] by simp
  have same: "x = r" if "x \<in> set listed" "idoInstanceId x = idoInstanceId r" for x
    using stored [OF that(1)] that(2) assms(7) by blast
  have ident: "ivId (idoDocument x) = idoInstanceId x" if "x \<in> set listed" for x
    using stored [OF that] assms(4) by blast
  have "ivId (idoDocument x) = idoInstanceId r \<longleftrightarrow> ?key x = ?key r" if "x \<in> set listed" for x
    using same [OF that] ident [OF that] by auto
  then have "filter (\<lambda>x. ivId (idoDocument x) = idoInstanceId r) listed = filter (\<lambda>x. ?key x = ?key r) listed"
    by (intro filter_cong) (simp_all only: refl)
  moreover have "\<exists>y. xs = [y]" if "length xs = 1" for xs :: "instance_document list"
    using that by (simp add: length_Suc_conv)
  then obtain y where y: "filter (\<lambda>x. ?key x = ?key r) listed = [y]"
    using listed(3) by blast
  moreover from y have "y \<in> set (filter (\<lambda>x. ?key x = ?key r) listed)" by simp
  then have "y = r" using same by simp
  ultimately show ?thesis by (simp add: listed(1) filter_map comp_def)
qed

text \<open>Between the first page and the second one instance is removed and another created.\<close>

definition changing_pg :: "nat \<Rightarrow> pg" where
  "changing_pg i = listing_pg [listed_document 1 1000, if i = 0 then listed_document 2 2000 else listed_document 3 2000]"

abbreviation document_key :: "instance_document \<Rightarrow> millis \<times> uuid" where
  "document_key r \<equiv> (idoUpdatedAt r, idoInstanceId r)"

lemma changing_walk:
  "\<exists>ps. follow 2 (\<lambda>i c. listInstances listing_types sample_tenant sample_project (Some 1) c (changing_pg i)) 0 None = Some ps"
proof -
  let ?d = "listed_document"
  let ?rows = "\<lambda>i::nat. [?d 1 1000, if i = 0 then ?d 2 2000 else ?d 3 2000]"
  let ?fetch = "\<lambda>i c. page_rows newest_first document_key (seekDescending listing_types) (instant_position document_key)
    \<lparr>pqLimit = 1, pqCursor = c\<rparr> (?rows i)"
  let ?beyond = "\<lambda>k. compare newest_first k (document_key (?d 2 2000)) = Greater"
  have first: "rows_after newest_first document_key (\<lambda>_. True) (?rows 0) = [?d 2 2000, ?d 1 1000]"
    by (simp add: rows_after_def compare_newest_first)
  have "sample_uuid 3 < sample_uuid 2 \<longleftrightarrow> False" by code_simp
  then have second: "rows_after newest_first document_key ?beyond (?rows (Suc 0)) = [?d 1 1000]"
    by (simp add: rows_after_def compare_newest_first)
  have "newest.cursor_means listing_types (Some (encodePageCursor (instant_position document_key (?d 2 2000)))) ?beyond"
    by (rule newest.cursor_means_position) (simp add: listed_readable)
  from newest.follow_page [where fetch = ?fetch and n = 0 and i = "Suc 0" and rows = "?rows (Suc 0)", OF zero_less_one this refl]
  have "\<exists>ps. follow (Suc 0) ?fetch (Suc 0) (Some (encodePageCursor (instant_position document_key (?d 2 2000)))) = Some ps"
    unfolding second by simp
  with newest.follow_page [where fetch = ?fetch and n = "Suc 0" and i = 0 and rows = "?rows 0" and T = listing_types,
      OF zero_less_one newest.cursor_means_None refl]
  have "\<exists>ps. follow 2 ?fetch 0 None = Some ps"
    unfolding first by (auto simp: numeral_2_eq_2)
  moreover have "listInstances listing_types sample_tenant sample_project (Some 1) c (changing_pg i) =
      map_sum id (map_page idoDocument) (?fetch i c)" for i c
    by (simp add: listInstances_def listing_authorized store_listInstances_def list_instants_fetch changing_pg_def
        page_limit_def MAXIMUM_PAGE_LIMIT_def)
  ultimately show ?thesis by (auto simp: follow_map)
qed

theorem unmoved_instance_listed_once_witness:
  "\<exists>ps. follow 2 (\<lambda>i c. listInstances listing_types sample_tenant sample_project (Some 1) c (changing_pg i)) 0 None = Some ps \<and>
    filter (\<lambda>v. ivId v = sample_uuid 1) (page_items ps) = [idoDocument (listed_document 1 1000)]"
proof -
  obtain ps where ps: "follow 2 (\<lambda>i c. listInstances listing_types sample_tenant sample_project (Some 1) c (changing_pg i)) 0 None = Some ps"
    using changing_walk by auto
  have "filter (\<lambda>v. ivId v = idoInstanceId (listed_document 1 1000)) (page_items ps) = [idoDocument (listed_document 1 1000)]"
  proof (rule unmoved_instance_listed_once)
    show "follow 2 (\<lambda>i c. listInstances listing_types sample_tenant sample_project (Some 1) c (changing_pg i)) 0 None = Some ps"
      by (rule ps)
  qed (simp_all add: listing_authorized changing_pg_def listed_readable del: One_nat_def)
  with ps show ?thesis by auto
qed

text \<open>
  A cursor is read back as the position it was written for, for any two components of printable ASCII
  up to 128 characters without quotes and backslashes, as instants, UUIDs and slugs are.
\<close>

theorem page_cursor_roundtrip:
  assumes "cursor_position p"
  shows "decodePageCursor (encodePageCursor p) = Inr p"
  using assms by (rule decode_encode_cursor)

theorem page_cursor_roundtrip_witness:
  "decodePageCursor (encodePageCursor \<lparr>pcSortKey = ''2026-09-03T10:00:00.000Z'',
     pcId = ''20000000-0000-4000-8000-000000000001''\<rparr>) =
   Inr \<lparr>pcSortKey = ''2026-09-03T10:00:00.000Z'', pcId = ''20000000-0000-4000-8000-000000000001''\<rparr>"
proof (rule page_cursor_roundtrip)
  show "cursor_position \<lparr>pcSortKey = ''2026-09-03T10:00:00.000Z'', pcId = ''20000000-0000-4000-8000-000000000001''\<rparr>"
    by code_simp
qed

subsection \<open>Networks with several profiles\<close>

text \<open>
  The position of \<^verbatim>\<open>listNetworks\<close> is the network alone, but its rows are networks joined with profiles. When
  two profiles share a network and a page ends between their rows, the second one is never listed.
\<close>

definition shared_pg :: pg where
  "shared_pg = sample_pg\<lparr>provider_profiles := [\<lparr>ppId = ''fake'', ppState = ''active'', ppNetworkId = ''lab-net''\<rparr>,
     \<lparr>ppId = ''proxmox'', ppState = ''active'', ppNetworkId = ''lab-net''\<rparr>]\<rparr>"

lemma shared_network_row_is_lost:
  "length (network_rows shared_pg) = 2"
  "\<exists>ps. follow 2 (\<lambda>_ c. listNetworks listing_types sample_tenant sample_project (Some 1) c shared_pg) 0 None = Some ps \<and>
     length (page_items ps) = 1"
proof -
  let ?slug = "\<lambda>r :: network_row \<times> string option. neId (fst r)"
  let ?a = "(sample_network, Some ''fake'')" and ?b = "(sample_network, Some ''proxmox'')"
  let ?fetch = "\<lambda>_ c. page_rows (by_slug listing_types) ?slug (seekAscending listing_types) (slug_position ?slug)
    \<lparr>pqLimit = 1, pqCursor = c\<rparr> [?a, ?b]"
  let ?beyond = "\<lambda>k. compare (by_slug listing_types) k (?slug ?a) = Greater"
  have rows: "network_rows shared_pg = [?a, ?b]"
    by (simp add: network_rows_def shared_pg_def sample_pg_def sample_network_def)
  then show "length (network_rows shared_pg) = 2" by simp
  have first: "rows_after (by_slug listing_types) ?slug (\<lambda>_. True) [?a, ?b] = [?a, ?b]"
    by (simp add: rows_after_def)
  have second: "rows_after (by_slug listing_types) ?slug ?beyond [?a, ?b] = []"
    by (simp add: rows_after_def)
  have "cursor_component (?slug ?a)" by code_simp
  then have "slugs.cursor_means listing_types (Some (encodePageCursor (slug_position ?slug ?a))) ?beyond"
    by (rule slugs.cursor_means_position)
  from slugs.follow_page [where fetch = ?fetch and n = 0 and i = "Suc 0" and rows = "[?a, ?b]", OF zero_less_one this refl]
  have "follow (Suc 0) ?fetch (Suc 0) (Some (encodePageCursor (slug_position ?slug ?a))) =
      Some [\<lparr>pgItems = [], pgLimit = 1, pgNextCursor = None\<rparr>]"
    unfolding second by simp
  with slugs.follow_page [where fetch = ?fetch and n = "Suc 0" and i = 0 and rows = "[?a, ?b]" and T = listing_types
      and slug_of = ?slug, OF zero_less_one slugs.cursor_means_None refl]
  have "\<exists>ps. follow 2 ?fetch 0 None = Some ps \<and> length (page_items ps) = 1"
    unfolding first by (auto simp: numeral_2_eq_2)
  moreover have "listNetworks listing_types sample_tenant sample_project (Some 1) c shared_pg =
      map_sum id (map_page network_view_of) (?fetch i c)" for i c
    by (simp add: listNetworks_def listing_authorized store_listNetworks_def list_slugs_fetch rows
        page_limit_def MAXIMUM_PAGE_LIMIT_def)
  ultimately show "\<exists>ps. follow 2 (\<lambda>_ c. listNetworks listing_types sample_tenant sample_project (Some 1) c shared_pg)
      0 None = Some ps \<and> length (page_items ps) = 1"
    by (auto simp: follow_map)
qed

end
