(* ===== verification/Ownership_Marker.thy ===== *)
theory Ownership_Marker
  imports Provider_Port Json_Parse
begin

section \<open>Ownership markers of a virtual machine\<close>

text \<open>
  The vocabulary of \<^verbatim>\<open>packages/provider-adapters/src/proxmox-provider.ts\<close> that every Proxmox adapter shares:
  the markers written into the description of a machine, their reading and comparison, and the size of its
  disk. A value a hypervisor reports is the JSON it sent; a text absent from a request is the empty text.
\<close>

subsection \<open>Values of the hypervisor\<close>

fun json_truthy :: "json \<Rightarrow> bool" where
  "json_truthy JNull = False"
| "json_truthy JUndefined = False"
| "json_truthy (JBool b) = b"
| "json_truthy (JNum n) = (n \<noteq> 0)"
| "json_truthy (JStr s) = (s \<noteq> [])"
| "json_truthy _ = True"

text \<open>\<^verbatim>\<open>value.key\<close>: a type error on null and undefined.\<close>

fun json_member :: "json \<Rightarrow> string \<Rightarrow> json option" where
  "json_member JNull k = None"
| "json_member JUndefined k = None"
| "json_member (JObj kvs) k = Some (get_field kvs k)"
| "json_member _ k = Some JUndefined"

text \<open>\<^verbatim>\<open>value?.key\<close> and \<^verbatim>\<open>a ?? b\<close>.\<close>

definition optional_member :: "json \<Rightarrow> string \<Rightarrow> json" where
  "optional_member v k = (case json_member v k of None \<Rightarrow> JUndefined | Some m \<Rightarrow> m)"

definition nullish :: "json \<Rightarrow> json \<Rightarrow> json" where
  "nullish a b = (if a = JNull \<or> a = JUndefined then b else a)"

definition newline :: char where "newline = CHR 0x0A"

subsection \<open>Markers\<close>

definition markerPrefix :: string where "markerPrefix = ''private-cloud-control:''"

definition RETENTION_TRAILER_KEY :: string where "RETENTION_TRAILER_KEY = ''retained-until''"

definition marker_json :: "ownership_markers \<Rightarrow> json" where
  "marker_json m = JObj [(''managedBy'', JStr (managedBy m)), (''environment'', JStr (environment m)),
     (''projectId'', JStr (omProjectId m)), (''instanceId'', JStr (omInstanceId m)),
     (''createOperationId'', JStr (omCreateOperationId m))]"

definition ownershipDescription :: "ownership_markers \<Rightarrow> string" where
  "ownershipDescription m = markerPrefix @ stringify (marker_json m)"

definition describedWithTrailer :: "ownership_markers \<Rightarrow> string \<Rightarrow> string \<Rightarrow> string" where
  "describedWithTrailer m k v = ownershipDescription m @ newline # k @ CHR ''='' # v"

text \<open>Markers as they were read: any values that are not falsy.\<close>

record parsed_markers =
  pmManagedBy :: json
  pmEnvironment :: json
  pmProjectId :: json
  pmInstanceId :: json
  pmCreateOperationId :: json

definition markers_of_json :: "json \<Rightarrow> parsed_markers option" where
  "markers_of_json v =
     (let f = optional_member v in
      if \<not> json_truthy (f ''managedBy'') \<or> \<not> json_truthy (f ''environment'') \<or> \<not> json_truthy (f ''projectId'') \<or>
         \<not> json_truthy (f ''instanceId'') \<or> \<not> json_truthy (f ''createOperationId'')
      then None
      else Some \<lparr>pmManagedBy = f ''managedBy'', pmEnvironment = f ''environment'', pmProjectId = f ''projectId'',
        pmInstanceId = f ''instanceId'', pmCreateOperationId = f ''createOperationId''\<rparr>)"

text \<open>
  \<^verbatim>\<open>parseOwnership\<close>: the outer \<open>None\<close> is the type error of a description that is neither text nor absent.
  A type error inside the reading of the marker is caught by the source and means no markers, which is what
  \<open>optional_member\<close> on null gives.
\<close>

definition parse_marker_text :: "string \<Rightarrow> parsed_markers option" where
  "parse_marker_text s =
     (if take (length markerPrefix) s \<noteq> markerPrefix then None
      else Option.bind (parse_json (hd (split_on newline (drop (length markerPrefix) s)))) markers_of_json)"

definition parseOwnership :: "json \<Rightarrow> parsed_markers option option" where
  "parseOwnership description =
     (case description of
        JStr s \<Rightarrow> Some (parse_marker_text s)
      | JNull \<Rightarrow> Some None
      | JUndefined \<Rightarrow> Some None
      | _ \<Rightarrow> None)"

definition markersMatch :: "parsed_markers option \<Rightarrow> ownership_markers \<Rightarrow> bool" where
  "markersMatch actual expected =
     (case actual of
        None \<Rightarrow> False
      | Some a \<Rightarrow>
          pmManagedBy a = JStr (managedBy expected) \<and> pmEnvironment a = JStr (environment expected) \<and>
          pmProjectId a = JStr (omProjectId expected) \<and> pmInstanceId a = JStr (omInstanceId expected) \<and>
          pmCreateOperationId a = JStr (omCreateOperationId expected))"

subsection \<open>The disk\<close>

definition lower_letter :: "char \<Rightarrow> char" where
  "lower_letter c = (if is_upper c then char_of (code_unit c + 32) else c)"

text \<open>\<^verbatim>\<open>\d+(?:\.\d+)?\<close>\<close>

definition decimal_pattern :: "string \<Rightarrow> bool" where
  "decimal_pattern s =
     (let ip = takeWhile is_digit s; r = dropWhile is_digit s in
      ip \<noteq> [] \<and> (r = [] \<or> hd r = CHR ''.'' \<and> tl r \<noteq> [] \<and> list_all is_digit (tl r)))"

text \<open>The size a segment between commas states, in GiB: \<^verbatim>\<open>size=<number><unit>\<close>, in any case.\<close>

definition unit_factor :: "char \<Rightarrow> rat option" where
  "unit_factor c =
     (if lower_letter c = CHR ''k'' then Some (1 / 1024 / 1024)
      else if lower_letter c = CHR ''m'' then Some (1 / 1024)
      else if lower_letter c = CHR ''g'' then Some 1
      else if lower_letter c = CHR ''t'' then Some 1024 else None)"

definition size_segment :: "string \<Rightarrow> string option" where
  "size_segment s =
     (if map lower_letter (take 5 s) \<noteq> ''size='' \<or> length s < 7 \<or> \<not> decimal_pattern (butlast (drop 5 s)) then None
      else case (js_number (butlast (drop 5 s)), unit_factor (List.last s)) of
        (Some n, Some factor) \<Rightarrow> Some (show_int \<lceil>n * factor\<rceil>)
      | _ \<Rightarrow> None)"

fun first_some :: "('a \<Rightarrow> 'b option) \<Rightarrow> 'a list \<Rightarrow> 'b option" where
  "first_some f [] = None"
| "first_some f (x # xs) = (case f x of None \<Rightarrow> first_some f xs | Some y \<Rightarrow> Some y)"

definition diskGiB :: "json \<Rightarrow> string option" where
  "diskGiB config =
     (let f = optional_member config;
          disk = nullish (f ''scsi0'') (nullish (f ''virtio0'') (f ''sata0''))
      in first_some size_segment (split_on (CHR '','') (js_string (nullish disk (JStr [])))))"

subsection \<open>What is written is read back\<close>

lemma plain_marker_json [simp]: "plain_json (marker_json m)"
  by (simp add: marker_json_def)

lemma hex_digit_no_newline: "n < 16 \<Longrightarrow> hex_digit n \<noteq> newline"
proof
  assume "n < 16" and eq: "hex_digit n = newline"
  then have "hex_value newline = Some n" using hex_value_hex_digit [of n] by simp
  moreover have "hex_value newline = None" by code_simp
  ultimately show False by simp
qed

lemma escaped_no_newline: "newline \<notin> set (escape_char c)"
proof -
  have "code_unit c < 32 \<Longrightarrow> hex_digit (code_unit c div 16) \<noteq> newline \<and> hex_digit (code_unit c mod 16) \<noteq> newline"
    by (simp add: hex_digit_no_newline less_mult_imp_div_less)
  moreover have "code_unit c \<noteq> 10 \<Longrightarrow> c \<noteq> newline" by (auto simp: newline_def code_unit_def)
  ultimately show ?thesis
    by (auto simp: escape_char_def newline_def)
qed

lemma quoted_no_newline: "newline \<notin> set (quote_string s)"
  using escaped_no_newline by (auto simp: quote_string_def newline_def)

lemma marker_no_newline: "newline \<notin> set (stringify (marker_json m))"
  using quoted_no_newline by (simp add: marker_json_def is_defined_def newline_def)

definition marked :: "ownership_markers \<Rightarrow> bool" where
  "marked m \<longleftrightarrow> managedBy m \<noteq> [] \<and> environment m \<noteq> [] \<and> omProjectId m \<noteq> [] \<and> omInstanceId m \<noteq> [] \<and>
     omCreateOperationId m \<noteq> []"

definition parsed_of :: "ownership_markers \<Rightarrow> parsed_markers" where
  "parsed_of m = \<lparr>pmManagedBy = JStr (managedBy m), pmEnvironment = JStr (environment m),
     pmProjectId = JStr (omProjectId m), pmInstanceId = JStr (omInstanceId m),
     pmCreateOperationId = JStr (omCreateOperationId m)\<rparr>"

lemma markers_of_marker_json: "marked m \<Longrightarrow> markers_of_json (marker_json m) = Some (parsed_of m)"
  by (simp add: markers_of_json_def marker_json_def optional_member_def marked_def parsed_of_def)

lemma parse_marker_line:
  assumes "marked m" and "rest = [] \<or> hd rest = newline"
  shows "parse_marker_text (ownershipDescription m @ rest) = Some (parsed_of m)"
proof -
  have line: "hd (split_on newline (stringify (marker_json m) @ rest)) = stringify (marker_json m)"
    using assms(2) marker_no_newline [of m]
    by (cases rest) (simp_all add: split_on_no_sep split_on_append_sep)
  have "parse_json (stringify (marker_json m)) = Some (marker_json m)"
    by (rule parse_stringify) simp
  then show ?thesis
    using assms(1) by (simp add: parse_marker_text_def ownershipDescription_def line markers_of_marker_json)
qed

lemma parse_description:
  assumes "marked m"
  shows "parseOwnership (JStr (ownershipDescription m)) = Some (Some (parsed_of m))"
    "parseOwnership (JStr (describedWithTrailer m k v)) = Some (Some (parsed_of m))"
  using parse_marker_line [OF assms, of "[]"] parse_marker_line [OF assms, of "newline # k @ CHR ''='' # v"]
  by (simp_all add: parseOwnership_def describedWithTrailer_def)

lemma parsed_match: "markersMatch (Some (parsed_of m)) e \<longleftrightarrow>
    managedBy m = managedBy e \<and> environment m = environment e \<and> omProjectId m = omProjectId e \<and>
    omInstanceId m = omInstanceId e \<and> omCreateOperationId m = omCreateOperationId e"
  by (simp add: markersMatch_def parsed_of_def)

end
