(* ===== verification/Proxmox_Http.thy ===== *)
theory Proxmox_Http
  imports Ownership_Marker Page_Cursor
begin

section \<open>Requests to the hypervisor\<close>

text \<open>
  The transport of \<^verbatim>\<open>packages/provider-adapters/src/proxmox-provider.ts\<close>. The hypervisor is not code of the
  repository: it is a parameter with a state of its own, that answers a request or fails. A computation of
  the adapter records the requests it makes with their answers, which has no effect on what it does and
  is what the safety properties speak about.
\<close>

subsection \<open>The hypervisor\<close>

datatype http_method = GET | POST | PUT | DELETE

record http_call =
  htMethod :: http_method
  htPath :: string
  htBody :: "(string \<times> string) list option"

text \<open>
  An answer: \<^verbatim>\<open>fetch\<close> failed (the code says whether the caller aborted, the time ran out or the server
  was not reached), a status outside 200 to 299, a body that is not JSON, or the JSON of a body.
\<close>

datatype http_answer =
    FetchFailed transport_code
  | HttpStatus nat
  | InvalidBody
  | Body json

type_synonym 'h hypervisor = "http_call \<Rightarrow> 'h \<Rightarrow> http_answer \<times> 'h"

text \<open>What an operation throws: a transport error, an HTTP failure, or an error of the language.\<close>

datatype adapter_error =
    TransportFailure transport_error
  | HttpFailure nat
  | LanguageError

definition retryable_status :: "nat \<Rightarrow> bool" where
  "retryable_status s \<longleftrightarrow> s = 408 \<or> s = 429 \<or> s \<ge> 500"

text \<open>\<^verbatim>\<open>ProxmoxHttpError\<close> is a transport error as well.\<close>

fun as_transport_error :: "adapter_error \<Rightarrow> transport_error option" where
  "as_transport_error (TransportFailure e) = Some e"
| "as_transport_error (HttpFailure s) =
     Some (transport_error_of (if retryable_status s then Unavailable else ProtocolError) (Some (retryable_status s)))"
| "as_transport_error LanguageError = None"

text \<open>The refusal of the adapter itself.\<close>

definition protocol_refusal :: adapter_error where
  "protocol_refusal = TransportFailure (transport_error_of ProtocolError (Some False))"

subsection \<open>Computations that make requests\<close>

type_synonym exchange = "http_call \<times> http_answer"
type_synonym ('h, 'a) hio = "'h \<Rightarrow> (adapter_error + 'a) \<times> exchange list \<times> 'h"

definition h_return :: "'a \<Rightarrow> ('h, 'a) hio" where
  "h_return a h = (Inr a, [], h)"

definition h_throw :: "adapter_error \<Rightarrow> ('h, 'a) hio" where
  "h_throw e h = (Inl e, [], h)"

definition h_bind :: "('h, 'a) hio \<Rightarrow> ('a \<Rightarrow> ('h, 'b) hio) \<Rightarrow> ('h, 'b) hio" where
  "h_bind m f h =
     (case m h of
        (Inl e, l, h1) \<Rightarrow> (Inl e, l, h1)
      | (Inr a, l, h1) \<Rightarrow> (case f a h1 of (r, l', h2) \<Rightarrow> (r, l @ l', h2)))"

definition h_catch :: "('h, 'a) hio \<Rightarrow> (adapter_error \<Rightarrow> ('h, 'a) hio) \<Rightarrow> ('h, 'a) hio" where
  "h_catch m f h =
     (case m h of
        (Inl e, l, h1) \<Rightarrow> (case f e h1 of (r, l', h2) \<Rightarrow> (r, l @ l', h2))
      | r \<Rightarrow> r)"

definition h_lift :: "adapter_error + 'a \<Rightarrow> ('h, 'a) hio" where
  "h_lift r = (case r of Inl e \<Rightarrow> h_throw e | Inr a \<Rightarrow> h_return a)"

text \<open>A value that is missing or of the wrong kind for what the language does with it.\<close>

definition h_require :: "'a option \<Rightarrow> ('h, 'a) hio" where
  "h_require x = (case x of None \<Rightarrow> h_throw LanguageError | Some a \<Rightarrow> h_return a)"

definition h_assert :: "bool \<Rightarrow> ('h, unit) hio" where
  "h_assert c = (if c then h_return () else h_throw protocol_refusal)"

lemma h_simps [simp]:
  "h_bind (h_return a) f = f a"
  "h_bind (h_throw e) f = h_throw e"
  "h_lift (Inr a) = h_return a"
  "h_lift (Inl e) = h_throw e"
  "h_require (Some a) = h_return a"
  "h_require None = h_throw LanguageError"
  "h_assert True = h_return ()"
  "h_assert False = h_throw protocol_refusal"
  by (simp_all add: fun_eq_iff h_bind_def h_return_def h_throw_def h_lift_def h_require_def h_assert_def)

lemma h_bind_assoc: "h_bind (h_bind m f) g = h_bind m (\<lambda>a. h_bind (f a) g)"
  by (rule ext) (simp add: h_bind_def split: prod.split sum.split)

subsection \<open>\<open>request\<close>\<close>

definition proxmox_request :: "'h hypervisor \<Rightarrow> http_call \<Rightarrow> ('h, json) hio" where
  "proxmox_request H c h =
     (case H c h of (a, h') \<Rightarrow>
        ((case a of
            FetchFailed tc \<Rightarrow> Inl (TransportFailure (transport_error_of tc None))
          | HttpStatus s \<Rightarrow> Inl (HttpFailure s)
          | InvalidBody \<Rightarrow> Inl protocol_refusal
          | Body envelope \<Rightarrow>
              (case envelope of
                 JObj kvs \<Rightarrow> (if is_defined (get_field kvs ''data'') then Inr (get_field kvs ''data'') else Inl protocol_refusal)
               | JNull \<Rightarrow> Inl LanguageError
               | JUndefined \<Rightarrow> Inl LanguageError
               | _ \<Rightarrow> Inl protocol_refusal)),
         [(c, a)], h'))"

text \<open>The data a request delivers when its answer is a proper envelope.\<close>

definition delivers :: "http_answer \<Rightarrow> json \<Rightarrow> bool" where
  "delivers a v \<longleftrightarrow> (\<exists>kvs. a = Body (JObj kvs) \<and> get_field kvs ''data'' = v \<and> is_defined v)"

subsection \<open>Paths\<close>

definition unreserved :: "char \<Rightarrow> bool" where
  "unreserved c \<longleftrightarrow> is_alnum c \<or> List.member ''-_.!~*()'' c \<or> c = CHR 0x27"

definition upper_hex :: "nat \<Rightarrow> char" where
  "upper_hex n = (if n < 10 then char_of (48 + n) else char_of (55 + n))"

definition encodeURIComponent :: "string \<Rightarrow> string" where
  "encodeURIComponent s =
     concat (map (\<lambda>c. if unreserved c then [c]
       else concat (map (\<lambda>b. [CHR ''%'', upper_hex (code_unit b div 16), upper_hex (code_unit b mod 16)])
              (utf8_unit c))) s)"

end
