(* ===== verification/Proxmox_Provider.thy ===== *)
theory Proxmox_Provider
  imports Proxmox_Http "HOL-Library.Sublist"
begin

section \<open>The Proxmox adapter\<close>

text \<open>
  Model of the class \<^verbatim>\<open>ProxmoxProvider\<close> of \<^verbatim>\<open>packages/provider-adapters/src/proxmox-provider.ts\<close>: its
  configuration, the checks every operation makes, and each operation as the requests it sends. A request
  without its context, its markers or its network is one whose texts are empty. Parsing of addresses
  (\<^verbatim>\<open>ipaddr.js\<close>), SHA-256 and the URL parser are parameters; identifiers of evidence and the clock do not
  influence an operation and are left out, but for the time of an observation. A machine is listed with a
  number, and a task reference is a text: the adapter fails on anything else. The form of a request is the
  list of its fields with their texts.
\<close>

definition MAXIMUM_CPU_COUNT :: int where "MAXIMUM_CPU_COUNT = 8"
definition MINIMUM_MEMORY_MIB :: int where "MINIMUM_MEMORY_MIB = 512"
definition MAXIMUM_MEMORY_MIB :: int where "MAXIMUM_MEMORY_MIB = 16384"
definition MINIMUM_DISK_GIB :: int where "MINIMUM_DISK_GIB = 1"
definition MAXIMUM_DISK_GIB :: int where "MAXIMUM_DISK_GIB = 128"
definition MAXIMUM_SNAPSHOTS :: int where "MAXIMUM_SNAPSHOTS = 8"

record px_config =
  pxEndpoint :: string
  pxProviderProfileId :: string
  pxNode :: string
  pxTemplateVmid :: int
  pxImageId :: string
  pxStorage :: string
  pxBridge :: string
  pxNetworkId :: string
  pxIpv4Cidr :: string
  pxIpv4Gateway :: string
  pxResourceIdMinimum :: int
  pxResourceIdMaximum :: int
  pxProjectId :: string
  pxEnvironment :: string
  pxManagedBy :: string

text \<open>\<^verbatim>\<open>ipaddr.parse\<close>, \<^verbatim>\<open>parseCIDR\<close>, \<^verbatim>\<open>kind\<close> and \<^verbatim>\<open>match\<close>: an address is its text, a failure to parse is \<open>None\<close>.\<close>

record ip_library =
  ipParse :: "string \<Rightarrow> string option"
  ipParseCIDR :: "string \<Rightarrow> (string \<times> int) option"
  ipIsV4 :: "string \<Rightarrow> bool"
  ipMatch :: "string \<Rightarrow> string \<Rightarrow> int \<Rightarrow> bool"

record 'h px =
  pxConfig :: px_config
  pxIp :: ip_library
  pxUrlProtocol :: "string \<Rightarrow> string option"
  pxSha256Hex :: "string \<Rightarrow> string"
  pxNow :: string
  pxHypervisor :: "'h hypervisor"

subsection \<open>The constructor\<close>

definition MAXIMUM_SAFE_INTEGER :: int where "MAXIMUM_SAFE_INTEGER = 2 ^ 53 - 1"

definition construct_provider :: "'h px \<Rightarrow> string + unit" where
  "construct_provider X =
     (let c = pxConfig X; L = pxIp X in
      case pxUrlProtocol X (pxEndpoint c) of
        None \<Rightarrow> Inl ''Invalid URL''
      | Some protocol \<Rightarrow>
          if protocol \<noteq> ''https:'' then Inl ''Proxmox endpoint must use HTTPS.''
          else if abs (pxResourceIdMinimum c) > MAXIMUM_SAFE_INTEGER \<or> abs (pxResourceIdMaximum c) > MAXIMUM_SAFE_INTEGER \<or>
            pxResourceIdMinimum c < 910000 \<or> pxResourceIdMaximum c > 910099 \<or>
            pxResourceIdMinimum c > pxResourceIdMaximum c
          then Inl ''Proxmox resource IDs must stay inside the reserved 910000-910099 range.''
          else (case (ipParseCIDR L (pxIpv4Cidr c), ipParse L (pxIpv4Gateway c)) of
              (Some (net, bits), Some gw) \<Rightarrow>
                if \<not> ipIsV4 L net \<or> \<not> ipIsV4 L gw \<or> \<not> ipMatch L gw net bits
                then Inl ''Proxmox IPv4 allowlist configuration is invalid.'' else Inr ()
            | _ \<Rightarrow> Inl ''Proxmox IPv4 allowlist configuration is invalid.''))"

subsection \<open>Requests\<close>

definition node_path :: "'h px \<Rightarrow> string" where
  "node_path X = ''/nodes/'' @ encodeURIComponent (pxNode (pxConfig X))"

definition vm_path :: "'h px \<Rightarrow> int \<Rightarrow> string" where
  "vm_path X vmid = node_path X @ ''/qemu/'' @ show_int vmid"

definition px_get :: "'h px \<Rightarrow> string \<Rightarrow> ('h, json) hio" where
  "px_get X path = proxmox_request (pxHypervisor X) \<lparr>htMethod = GET, htPath = path, htBody = None\<rparr>"

definition px_send :: "'h px \<Rightarrow> http_method \<Rightarrow> string \<Rightarrow> (string \<times> string) list option \<Rightarrow> ('h, json) hio" where
  "px_send X m path body = proxmox_request (pxHypervisor X) \<lparr>htMethod = m, htPath = path, htBody = body\<rparr>"

definition listVms :: "'h px \<Rightarrow> ('h, json list) hio" where
  "listVms X = h_bind (px_get X (node_path X @ ''/qemu''))
     (\<lambda>v. h_require (case v of JArr items \<Rightarrow> Some items | _ \<Rightarrow> None))"

definition currentStatus :: "'h px \<Rightarrow> int \<Rightarrow> ('h, json) hio" where
  "currentStatus X vmid = px_get X (vm_path X vmid @ ''/status/current'')"

definition vmConfig :: "'h px \<Rightarrow> int \<Rightarrow> bool \<Rightarrow> ('h, json) hio" where
  "vmConfig X vmid allowMissing =
     h_catch (px_get X (vm_path X vmid @ ''/config''))
       (\<lambda>e. if allowMissing \<and> e = HttpFailure 404 then h_return JNull else h_throw e)"

text \<open>The member of a reported object that is read without \<^verbatim>\<open>?.\<close>.\<close>

definition read_member :: "json \<Rightarrow> string \<Rightarrow> ('h, json) hio" where
  "read_member v k = h_require (json_member v k)"

subsection \<open>Checks\<close>

definition h_required :: "string \<Rightarrow> ('h, string) hio" where
  "h_required v = (if v = [] then h_throw protocol_refusal else h_return v)"

definition assertDirectProfile :: "'h px \<Rightarrow> string \<Rightarrow> ('h, unit) hio" where
  "assertDirectProfile X profile = h_assert (profile = pxProviderProfileId (pxConfig X))"

definition assertContext :: "'h px \<Rightarrow> call_context \<Rightarrow> ('h, call_context) hio" where
  "assertContext X c =
     h_bind (assertDirectProfile X (ccProviderProfileId c)) (\<lambda>_.
     h_bind (h_assert (ccProjectId c = pxProjectId (pxConfig X))) (\<lambda>_.
     h_bind (h_required (ccRequestId c)) (\<lambda>_.
     h_bind (h_required (ccOperationId c)) (\<lambda>_.
     h_bind (h_required (ccCorrelationId c)) (\<lambda>_.
     h_bind (h_required (ccInstanceId c)) (\<lambda>_. h_return c))))))"

definition assertOwnership :: "'h px \<Rightarrow> ownership_markers \<Rightarrow> call_context \<Rightarrow> ('h, ownership_markers) hio" where
  "assertOwnership X m c =
     h_bind (h_assert (managedBy m = pxManagedBy (pxConfig X) \<and> environment m = pxEnvironment (pxConfig X) \<and>
       omProjectId m = ccProjectId c \<and> omInstanceId m = ccInstanceId c \<and>
       omCreateOperationId m = ccOperationId c)) (\<lambda>_. h_return m)"

definition in_range :: "px_config \<Rightarrow> int \<Rightarrow> bool" where
  "in_range c vmid \<longleftrightarrow> pxResourceIdMinimum c \<le> vmid \<and> vmid \<le> pxResourceIdMaximum c"

definition assertVmid :: "'h px \<Rightarrow> string \<Rightarrow> ('h, int) hio" where
  "assertVmid X v =
     (case js_integer (js_number v) of
        Some vmid \<Rightarrow>
          if abs vmid \<le> MAXIMUM_SAFE_INTEGER \<and> in_range (pxConfig X) vmid then h_return vmid
          else h_throw protocol_refusal
      | None \<Rightarrow> h_throw protocol_refusal)"

definition requireOwnedConfig :: "'h px \<Rightarrow> int \<Rightarrow> ownership_markers \<Rightarrow> ('h, json) hio" where
  "requireOwnedConfig X vmid expected =
     h_bind (vmConfig X vmid True) (\<lambda>config.
     if \<not> json_truthy config then h_throw protocol_refusal
     else h_bind (h_require (parseOwnership (optional_member config ''description''))) (\<lambda>actual.
       if markersMatch actual expected then h_return config else h_throw protocol_refusal))"

text \<open>The checks every operation on a machine starts with.\<close>

definition owned_machine ::
  "'h px \<Rightarrow> instance_request \<Rightarrow> (int \<Rightarrow> ownership_markers \<Rightarrow> json \<Rightarrow> ('h, 'a) hio) \<Rightarrow> ('h, 'a) hio" where
  "owned_machine X req k =
     h_bind (assertContext X (irContext req)) (\<lambda>context.
     h_bind (assertOwnership X (irOwnershipMarkers req) context) (\<lambda>ownership.
     h_bind (assertVmid X (irProviderResourceId req)) (\<lambda>vmid.
     h_bind (requireOwnedConfig X vmid ownership) (\<lambda>config. k vmid ownership config))))"

definition assertResources :: "requested_resources \<Rightarrow> json \<Rightarrow> ('h, unit) hio" where
  "assertResources r conf =
     h_assert (1 \<le> rqCpuCount r \<and> rqCpuCount r \<le> MAXIMUM_CPU_COUNT \<and>
       (case (js_integer (js_number (rqMemoryMib r)), js_integer (js_number (rqDiskGib r))) of
          (Some memory, Some disk) \<Rightarrow>
            MINIMUM_MEMORY_MIB \<le> memory \<and> memory \<le> MAXIMUM_MEMORY_MIB \<and>
            MINIMUM_DISK_GIB \<le> disk \<and> disk \<le> MAXIMUM_DISK_GIB \<and> diskGiB conf = Some (show_int disk)
        | _ \<Rightarrow> False))"

definition assertNetwork :: "'h px \<Rightarrow> requested_network \<Rightarrow> ('h, unit) hio" where
  "assertNetwork X n =
     (let c = pxConfig X; L = pxIp X in
      h_bind (h_required (rnIpv4Address n)) (\<lambda>address.
      case (ipParseCIDR L (pxIpv4Cidr c), ipParse L address) of
        (Some (net, bits), Some parsed) \<Rightarrow>
          h_assert (rnNetworkId n = pxNetworkId c \<and> rnIpv4Gateway n = pxIpv4Gateway c \<and>
            rnIpv4PrefixLength n = bits \<and> ipIsV4 L parsed \<and> ipIsV4 L net \<and> ipMatch L parsed net bits \<and>
            rnDnsServers n \<noteq> [])
      | _ \<Rightarrow> h_throw protocol_refusal))"

text \<open>\<^verbatim>\<open>text.includes(part)\<close> on a reported value that may be absent.\<close>

definition value_includes :: "json \<Rightarrow> string \<Rightarrow> bool option" where
  "value_includes v part =
     (case v of JStr s \<Rightarrow> Some (sublist part s) | JNull \<Rightarrow> Some False | JUndefined \<Rightarrow> Some False | _ \<Rightarrow> None)"

fun check_address :: "'h px \<Rightarrow> string \<Rightarrow> int \<Rightarrow> json list \<Rightarrow> ('h, unit) hio" where
  "check_address X address vmid [] = h_return ()"
| "check_address X address vmid (summary # rest) =
     h_bind (read_member summary ''vmid'') (\<lambda>v.
     case v of
       JNum other \<Rightarrow>
         if other = 0 \<or> other = vmid then check_address X address vmid rest
         else h_bind (vmConfig X other False) (\<lambda>config.
           h_bind (h_require (value_includes (optional_member config ''ipconfig0'') (''ip='' @ address @ ''/'')))
             (\<lambda>taken. if taken then h_throw protocol_refusal else check_address X address vmid rest))
     | _ \<Rightarrow> if json_truthy v then h_throw LanguageError else check_address X address vmid rest)"

definition assertIpv4Available :: "'h px \<Rightarrow> string \<Rightarrow> int \<Rightarrow> ('h, unit) hio" where
  "assertIpv4Available X address vmid =
     h_bind (h_required address) (\<lambda>_. h_bind (listVms X) (check_address X address vmid))"

definition snapshot_pattern :: "string \<Rightarrow> bool" where
  "snapshot_pattern s \<longleftrightarrow>
     s \<noteq> [] \<and> length s \<le> 63 \<and> is_alnum (hd s) \<and> list_all (\<lambda>c. is_alnum c \<or> List.member ''_.-'' c) (tl s)"

definition assertSnapshotName :: "string \<Rightarrow> ('h, string) hio" where
  "assertSnapshotName v =
     h_bind (h_required v) (\<lambda>name.
     if \<not> snapshot_pattern name \<or> name = ''current'' then h_throw protocol_refusal else h_return name)"

subsection \<open>Results\<close>

definition encodeTask :: "'h px \<Rightarrow> string \<Rightarrow> string" where
  "encodeTask X upid = pxNode (pxConfig X) @ CHR '':'' # base64url_encode (utf8_encode upid)"

definition decodeTask :: "string \<Rightarrow> ('h, string \<times> string) hio" where
  "decodeTask reference =
     (let node = takeWhile (\<lambda>c. c \<noteq> CHR '':'') reference;
          rest = dropWhile (\<lambda>c. c \<noteq> CHR '':'') reference;
          upid = utf8_decode (base64url_decode (tl rest)) in
      if rest = [] \<or> node = [] then h_throw protocol_refusal
      else if take 5 upid \<noteq> ''UPID:'' then h_throw protocol_refusal
      else h_return (node, upid))"

definition px_accepted :: "'h px \<Rightarrow> int \<Rightarrow> string \<Rightarrow> mutation_result" where
  "px_accepted X vmid upid = \<lparr>mrState = Some ResultAccepted, mrProviderTaskReference = Some (encodeTask X upid),
     mrProviderResourceId = Some (show_int vmid), mrFailure = None\<rparr>"

definition succeeded_result :: "int \<Rightarrow> mutation_result" where
  "succeeded_result vmid = \<lparr>mrState = Some ResultSucceeded, mrProviderTaskReference = None,
     mrProviderResourceId = Some (show_int vmid), mrFailure = None\<rparr>"

definition failure_result :: "failure_category \<Rightarrow> string \<Rightarrow> string \<Rightarrow> mutation_result" where
  "failure_result cat failure_code message = \<lparr>mrState = Some ResultRejected, mrProviderTaskReference = None,
     mrProviderResourceId = None, mrFailure = Some \<lparr>pfCategory = Some cat, pfCode = Some failure_code,
       pfSafeMessage = Some message, pfRetryAfterMilliseconds = None\<rparr>\<rparr>"

definition locked_result :: mutation_result where
  "locked_result = failure_result FailureTransient ''PROVIDER_RESOURCE_LOCKED''
     ''Another provider operation currently holds this instance.''"

text \<open>The task of an answer, required or optional.\<close>

definition task_text :: "json \<Rightarrow> string option" where
  "task_text v = (case v of JStr s \<Rightarrow> Some s | _ \<Rightarrow> None)"

definition accepted_task :: "'h px \<Rightarrow> int \<Rightarrow> json \<Rightarrow> ('h, mutation_result) hio" where
  "accepted_task X vmid v =
     (if \<not> json_truthy v then h_throw protocol_refusal
      else h_bind (h_require (task_text v)) (\<lambda>upid. h_return (px_accepted X vmid upid)))"

definition accepted_or_done :: "'h px \<Rightarrow> int \<Rightarrow> json \<Rightarrow> ('h, mutation_result) hio" where
  "accepted_or_done X vmid v =
     (if json_truthy v then accepted_task X vmid v else h_return (succeeded_result vmid))"

subsection \<open>The machine of an instance\<close>

definition px_seed :: "'h px \<Rightarrow> string \<Rightarrow> nat" where
  "px_seed X i = foldl (\<lambda>n c. 16 * n + radix_digit c) 0 (takeWhile (\<lambda>c. radix_digit c < 16) (take 8 (pxSha256Hex X i)))"

definition px_size :: "'h px \<Rightarrow> int" where
  "px_size X = pxResourceIdMaximum (pxConfig X) - pxResourceIdMinimum (pxConfig X) + 1"

definition candidates :: "'h px \<Rightarrow> string \<Rightarrow> int list" where
  "candidates X i = map (\<lambda>offset. pxResourceIdMinimum (pxConfig X) + (int (px_seed X i) + int offset) mod px_size X)
     [0 ..< nat (px_size X)]"

fun occupied_ids :: "json list \<Rightarrow> json list option" where
  "occupied_ids [] = Some []"
| "occupied_ids (summary # rest) =
     (case (json_member summary ''vmid'', occupied_ids rest) of
        (Some v, Some vs) \<Rightarrow> Some (if json_truthy v then v # vs else vs)
      | _ \<Rightarrow> None)"

definition described_owned :: "json \<Rightarrow> ownership_markers \<Rightarrow> ('h, bool) hio" where
  "described_owned config m =
     h_bind (h_require (parseOwnership (optional_member config ''description''))) (\<lambda>actual.
     h_return (markersMatch actual m))"

fun probe :: "'h px \<Rightarrow> ownership_markers \<Rightarrow> json list \<Rightarrow> int list \<Rightarrow> ('h, int) hio" where
  "probe X m occupied [] = h_throw protocol_refusal"
| "probe X m occupied (vmid # rest) =
     (if \<not> List.member occupied (JNum vmid) then h_return vmid
      else h_bind (vmConfig X vmid False) (\<lambda>config.
        h_bind (described_owned config m) (\<lambda>own. if own then h_return vmid else probe X m occupied rest)))"

definition findOwnedOrFreeVmid :: "'h px \<Rightarrow> ownership_markers \<Rightarrow> ('h, int) hio" where
  "findOwnedOrFreeVmid X m =
     h_bind (listVms X) (\<lambda>summaries.
     h_bind (h_require (occupied_ids summaries)) (\<lambda>occupied.
     h_bind (h_required (omInstanceId m)) (\<lambda>i. probe X m occupied (candidates X i))))"

fun search_owned :: "'h px \<Rightarrow> ownership_markers \<Rightarrow> json list \<Rightarrow> ('h, int option) hio" where
  "search_owned X m [] = h_return None"
| "search_owned X m (summary # rest) =
     h_bind (read_member summary ''vmid'') (\<lambda>v.
     case v of
       JNum vmid \<Rightarrow>
         if vmid = 0 \<or> \<not> in_range (pxConfig X) vmid then search_owned X m rest
         else h_bind (vmConfig X vmid False) (\<lambda>config.
           h_bind (described_owned config m) (\<lambda>own. if own then h_return (Some vmid) else search_owned X m rest))
     | _ \<Rightarrow> if json_truthy v then h_throw LanguageError else search_owned X m rest)"

definition findOwnedVmid :: "'h px \<Rightarrow> ownership_markers \<Rightarrow> ('h, int option) hio" where
  "findOwnedVmid X m = h_bind (listVms X) (search_owned X m)"

subsection \<open>Profile and capabilities\<close>

record validation_check =
  vcName :: string
  vcPassed :: bool
  vcSafeSummary :: string

definition profile_check ::
  "'h px \<Rightarrow> string \<Rightarrow> string \<Rightarrow> (json \<Rightarrow> bool option) \<Rightarrow> ('h, validation_check) hio" where
  "profile_check X name path predicate =
     h_catch
       (h_bind (px_get X path) (\<lambda>v. h_bind (h_require (predicate v)) (\<lambda>passed.
        h_return \<lparr>vcName = name, vcPassed = passed,
          vcSafeSummary = name @ (if passed then '' is allowlisted and available.'' else '' did not match.'')\<rparr>)))
       (\<lambda>e. h_return \<lparr>vcName = name, vcPassed = False, vcSafeSummary = name @ '' could not be verified.''\<rparr>)"

text \<open>\<^verbatim>\<open>typeof data === 'object' && data !== null\<close>\<close>

definition is_object :: "json \<Rightarrow> bool option" where
  "is_object v = Some (case v of JObj _ \<Rightarrow> True | JArr _ \<Rightarrow> True | _ \<Rightarrow> False)"

definition has_bridge :: "'h px \<Rightarrow> json \<Rightarrow> bool option" where
  "has_bridge X v = Some (case v of
       JArr items \<Rightarrow> list_ex (\<lambda>entry. optional_member entry ''iface'' = JStr (pxBridge (pxConfig X))) items
     | _ \<Rightarrow> False)"

definition validateProfile :: "'h px \<Rightarrow> string \<Rightarrow> ('h, bool \<times> validation_check list) hio" where
  "validateProfile X profile =
     h_bind (assertDirectProfile X profile) (\<lambda>_.
     h_bind (profile_check X ''endpoint'' ''/version'' is_object) (\<lambda>c1.
     h_bind (profile_check X ''node'' (node_path X @ ''/status'') is_object) (\<lambda>c2.
     h_bind (profile_check X ''template'' (vm_path X (pxTemplateVmid (pxConfig X)) @ ''/config'') is_object) (\<lambda>c3.
     h_bind (profile_check X ''storage''
       (node_path X @ ''/storage/'' @ encodeURIComponent (pxStorage (pxConfig X)) @ ''/status'') is_object) (\<lambda>c4.
     h_bind (profile_check X ''bridge'' (node_path X @ ''/network'') (has_bridge X)) (\<lambda>c5.
     let checks = [c1, c2, c3, c4, c5] in h_return (list_all vcPassed checks, checks)))))))"

record provider_capabilities =
  pcFlags :: "(string \<times> bool) list"
  pcMaximumCpuCount :: int
  pcMaximumMemoryMib :: string
  pcMaximumDiskGib :: string
  pcMaximumSnapshots :: int

definition getCapabilities :: "'h px \<Rightarrow> string \<Rightarrow> ('h, provider_capabilities) hio" where
  "getCapabilities X profile =
     h_bind (assertDirectProfile X profile) (\<lambda>_. h_return
       \<lparr>pcFlags = [(''createInstance'', True), (''configureInstance'', True), (''power'', True), (''resizeCompute'', True),
          (''growDisk'', True), (''snapshots'', True), (''retentionMarker'', True), (''purge'', True)],
        pcMaximumCpuCount = MAXIMUM_CPU_COUNT, pcMaximumMemoryMib = show_int MAXIMUM_MEMORY_MIB,
        pcMaximumDiskGib = show_int MAXIMUM_DISK_GIB, pcMaximumSnapshots = MAXIMUM_SNAPSHOTS\<rparr>)"

subsection \<open>Creation\<close>

definition hostname_pattern :: "string \<Rightarrow> bool" where
  "hostname_pattern s \<longleftrightarrow>
     s \<noteq> [] \<and> length s \<le> 63 \<and> is_alnum (hd s) \<and> is_alnum (List.last s) \<and> list_all (\<lambda>c. is_alnum c \<or> c = CHR ''-'') s"

definition clone_form :: "'h px \<Rightarrow> int \<Rightarrow> string \<Rightarrow> ownership_markers \<Rightarrow> (string \<times> string) list" where
  "clone_form X vmid host m =
     [(''newid'', show_int vmid), (''name'', host), (''full'', ''1''),
      (''storage'', pxStorage (pxConfig X)), (''description'', ownershipDescription m)]"

definition submitCreateInstance ::
  "'h px \<Rightarrow> call_context \<Rightarrow> string \<Rightarrow> build_request \<Rightarrow> ownership_markers \<Rightarrow> ('h, mutation_result) hio" where
  "submitCreateInstance X c img b m =
     h_bind (assertContext X c) (\<lambda>context.
     h_bind (assertOwnership X m context) (\<lambda>ownership.
     h_bind (h_assert (img = pxImageId (pxConfig X))) (\<lambda>_.
     h_bind (h_assert (hostname_pattern (brHostname b))) (\<lambda>_.
     h_bind (findOwnedOrFreeVmid X ownership) (\<lambda>vmid.
     h_bind (vmConfig X vmid True) (\<lambda>existing.
     if json_truthy existing then h_return (succeeded_result vmid)
     else h_bind (h_required (brHostname b)) (\<lambda>host.
       h_bind (px_send X POST (vm_path X (pxTemplateVmid (pxConfig X)) @ ''/clone'') (Some (clone_form X vmid host ownership)))
         (accepted_task X vmid))))))))"

definition net0_with_bridge :: "'h px \<Rightarrow> string \<Rightarrow> string" where
  "net0_with_bridge X net0 =
     join_with (CHR '','') (filter (\<lambda>part. take 7 part \<noteq> ''bridge='') (split_on (CHR '','') net0) @
       [''bridge='' @ pxBridge (pxConfig X)])"

fun join_text :: "string \<Rightarrow> string list \<Rightarrow> string" where
  "join_text sep [] = []"
| "join_text sep [w] = w"
| "join_text sep (w # v # ws) = w @ sep @ join_text sep (v # ws)"

definition configuration_form ::
  "'h px \<Rightarrow> string \<Rightarrow> string \<Rightarrow> requested_resources \<Rightarrow> requested_network \<Rightarrow> string list \<Rightarrow> ownership_markers \<Rightarrow>
     (string \<times> string) list" where
  "configuration_form X host net0 r n keys m =
     [(''name'', host), (''cores'', show_int (rqCpuCount r)), (''sockets'', ''1''),
      (''vcpus'', show_int (rqCpuCount r)), (''memory'', rqMemoryMib r), (''net0'', net0),
      (''ipconfig0'', ''ip='' @ rnIpv4Address n @ ''/'' @ show_int (rnIpv4PrefixLength n) @ '',gw='' @ rnIpv4Gateway n),
      (''nameserver'', join_text '' '' (rnDnsServers n)), (''description'', ownershipDescription m)] @
     (if keys \<noteq> [] then [(''sshkeys'', join_text [newline] keys)] else [])"

definition applyInstanceConfiguration ::
  "'h px \<Rightarrow> instance_request \<Rightarrow> string \<Rightarrow> requested_resources option \<Rightarrow> requested_network option \<Rightarrow> string list \<Rightarrow>
     ('h, mutation_result) hio" where
  "applyInstanceConfiguration X req host resources network keys =
     owned_machine X req (\<lambda>vmid ownership conf.
     case (network, resources) of
       (Some n, Some r) \<Rightarrow>
         h_bind (assertResources r conf) (\<lambda>_.
         h_bind (assertNetwork X n) (\<lambda>_.
         h_bind (assertIpv4Available X (rnIpv4Address n) vmid) (\<lambda>_.
         let net0 = optional_member conf ''net0'' in
         if \<not> json_truthy net0 then h_return
           (failure_result FailurePermanent ''NET0_MISSING'' ''The allowlisted template did not provide net0.'')
         else h_bind (h_require (task_text net0)) (\<lambda>text0.
           h_bind (h_required host) (\<lambda>name.
           h_bind (h_required (rnIpv4Gateway n)) (\<lambda>_.
           h_bind (px_send X POST (vm_path X vmid @ ''/config'')
             (Some (configuration_form X name (net0_with_bridge X text0) r n keys ownership)))
             (accepted_or_done X vmid)))))))
     | _ \<Rightarrow> h_return
         (failure_result FailureValidation ''CONFIGURATION_REQUIRED'' ''Resources and network configuration are required.''))"

subsection \<open>Tasks\<close>

definition getTask :: "'h px \<Rightarrow> call_context \<Rightarrow> string \<Rightarrow> ('h, task_response) hio" where
  "getTask X c reference =
     h_bind (assertContext X c) (\<lambda>_.
     h_bind (h_required reference) (\<lambda>r.
     h_bind (decodeTask r) (\<lambda>(node, upid).
     h_bind (h_assert (node = pxNode (pxConfig X))) (\<lambda>_.
     h_bind (px_get X (''/nodes/'' @ encodeURIComponent node @ ''/tasks/'' @ encodeURIComponent upid @ ''/status'')) (\<lambda>task.
     h_bind (read_member task ''status'') (\<lambda>status.
     if status \<noteq> JStr ''stopped'' then h_return \<lparr>trState = Some TaskRunning, trFailure = None\<rparr>
     else if optional_member task ''exitstatus'' = JStr ''OK'' then h_return \<lparr>trState = Some TaskSucceeded, trFailure = None\<rparr>
     else h_return \<lparr>trState = Some TaskFailed, trFailure = Some \<lparr>pfCategory = Some FailurePermanent,
         pfCode = Some ''PROXMOX_TASK_FAILED'', pfSafeMessage = Some ''The provider task failed.'',
         pfRetryAfterMilliseconds = None\<rparr>\<rparr>))))))"

subsection \<open>Power\<close>

definition startInstance :: "'h px \<Rightarrow> instance_request \<Rightarrow> ('h, mutation_result) hio" where
  "startInstance X req =
     owned_machine X req (\<lambda>vmid ownership _.
     h_bind (currentStatus X vmid) (\<lambda>state.
     h_bind (read_member state ''status'') (\<lambda>status.
     if status = JStr ''running'' then h_return (succeeded_result vmid)
     else h_bind (px_send X POST (vm_path X vmid @ ''/status/start'') (Some [])) (accepted_task X vmid))))"

definition powerTransition ::
  "'h px \<Rightarrow> instance_request \<Rightarrow> string \<Rightarrow> string option \<Rightarrow> (string \<times> string) list \<Rightarrow> ('h, mutation_result) hio" where
  "powerTransition X req act alreadyInState extraFields =
     owned_machine X req (\<lambda>vmid ownership _.
     h_bind (currentStatus X vmid) (\<lambda>state.
     h_bind (read_member state ''lock'') (\<lambda>lock.
     if json_truthy lock then h_return locked_result
     else if alreadyInState \<noteq> None \<and> optional_member state ''status'' = JStr (the alreadyInState)
     then h_return (succeeded_result vmid)
     else h_bind (px_send X POST (vm_path X vmid @ ''/status/'' @ act) (Some extraFields)) (accepted_task X vmid))))"

definition shutdownInstance :: "'h px \<Rightarrow> instance_request \<Rightarrow> ('h, mutation_result) hio" where
  "shutdownInstance X req = powerTransition X req ''shutdown'' (Some ''stopped'') []"

definition stopInstance :: "'h px \<Rightarrow> instance_request \<Rightarrow> ('h, mutation_result) hio" where
  "stopInstance X req = powerTransition X req ''stop'' (Some ''stopped'') [(''overrule-shutdown'', ''1'')]"

definition rebootInstance :: "'h px \<Rightarrow> instance_request \<Rightarrow> ('h, mutation_result) hio" where
  "rebootInstance X req = powerTransition X req ''reboot'' None []"

subsection \<open>Resizing\<close>

definition disk_number :: "json \<Rightarrow> int" where
  "disk_number config =
     (case diskGiB config of
        None \<Rightarrow> 0
      | Some s \<Rightarrow> (case js_integer (js_number s) of None \<Rightarrow> 0 | Some n \<Rightarrow> n))"

text \<open>The first disk that is set and no CD-ROM; a set disk that is not a text is a type error.\<close>

fun first_disk :: "(string \<times> json) list \<Rightarrow> ('h, string) hio" where
  "first_disk [] = h_throw protocol_refusal"
| "first_disk ((name, v) # rest) =
     (if \<not> json_truthy v then first_disk rest
      else h_bind (h_require (value_includes v ''media=cdrom'')) (\<lambda>cdrom.
        if cdrom then first_disk rest else h_return name))"

definition primaryDiskKey :: "json \<Rightarrow> ('h, string) hio" where
  "primaryDiskKey config =
     first_disk (map (\<lambda>name. (name, optional_member config name)) [''scsi0'', ''virtio0'', ''sata0''])"

definition px_resize_target :: "requested_resources \<Rightarrow> (int \<times> int \<times> int) option" where
  "px_resize_target t =
     (case (js_integer (js_number (rqMemoryMib t)), js_integer (js_number (rqDiskGib t))) of
        (Some memory, Some disk) \<Rightarrow>
          if rqCpuCount t < 1 \<or> rqCpuCount t > 8 \<or> memory < 512 \<or> memory > 16384 \<or> disk < 1 \<or> disk > 128 then None
          else Some (rqCpuCount t, memory, disk)
      | _ \<Rightarrow> None)"

definition resize_form :: "int \<Rightarrow> int \<Rightarrow> (string \<times> string) list" where
  "resize_form cpu memory =
     [(''cores'', show_int cpu), (''sockets'', ''1''), (''vcpus'', show_int cpu), (''memory'', show_int memory)]"

definition grow_disk ::
  "'h px \<Rightarrow> int \<Rightarrow> json \<Rightarrow> int \<Rightarrow> json \<Rightarrow> ('h, mutation_result) hio" where
  "grow_disk X vmid config disk configTask =
     (if disk > disk_number config then
        h_bind (primaryDiskKey config) (\<lambda>name.
        h_bind (px_send X PUT (vm_path X vmid @ ''/resize'') (Some [(''disk'', name), (''size'', show_int disk @ ''G'')]))
          (\<lambda>growTask. if json_truthy growTask then accepted_task X vmid growTask
            else accepted_or_done X vmid configTask))
      else accepted_or_done X vmid configTask)"

definition resizeVm :: "'h px \<Rightarrow> instance_request \<Rightarrow> requested_resources \<Rightarrow> ('h, mutation_result) hio" where
  "resizeVm X req t =
     owned_machine X req (\<lambda>vmid ownership config.
     case px_resize_target t of
       None \<Rightarrow> h_throw protocol_refusal
     | Some (cpu, memory, disk) \<Rightarrow>
         if disk < disk_number config then h_throw protocol_refusal
         else h_bind (currentStatus X vmid) (\<lambda>state.
           h_bind (read_member state ''lock'') (\<lambda>lock.
           if json_truthy lock then h_return locked_result
           else h_bind (px_send X POST (vm_path X vmid @ ''/config'') (Some (resize_form cpu memory)))
             (grow_disk X vmid config disk))))"

subsection \<open>Snapshots\<close>

record px_snapshot =
  psReference :: string
  psDescription :: json
  psCreatedAt :: string

text \<open>The entries of a listing, without the one named \<^verbatim>\<open>current\<close> and those without a name.\<close>

fun snapshot_entries :: "json list \<Rightarrow> px_snapshot list option" where
  "snapshot_entries [] = Some []"
| "snapshot_entries (entry # rest) =
     (case (json_member entry ''name'', snapshot_entries rest) of
        (Some v, Some es) \<Rightarrow>
          if \<not> json_truthy v \<or> v = JStr ''current'' then Some es
          else (case (v, nullish (optional_member entry ''snaptime'') (JNum 0)) of
              (JStr name, JNum t) \<Rightarrow> Some (\<lparr>psReference = name, psDescription =
                (let d = optional_member entry ''description'' in if json_truthy d then d else JUndefined),
                psCreatedAt = toISOString (t * 1000)\<rparr> # es)
            | _ \<Rightarrow> None)
      | _ \<Rightarrow> None)"

definition listVmSnapshots :: "'h px \<Rightarrow> instance_request \<Rightarrow> ('h, px_snapshot list) hio" where
  "listVmSnapshots X req =
     owned_machine X req (\<lambda>vmid ownership _.
     h_bind (px_get X (vm_path X vmid @ ''/snapshot'')) (\<lambda>entries.
     h_require (case nullish entries (JArr []) of JArr items \<Rightarrow> snapshot_entries items | _ \<Rightarrow> None)))"

definition prepareSnapshotMutation :: "'h px \<Rightarrow> instance_request \<Rightarrow> ('h, int) hio" where
  "prepareSnapshotMutation X req =
     owned_machine X req (\<lambda>vmid ownership _.
     h_bind (currentStatus X vmid) (\<lambda>state.
     h_bind (read_member state ''lock'') (\<lambda>lock.
     if json_truthy lock then h_throw (TransportFailure (transport_error_of Unavailable (Some True)))
     else h_return vmid)))"

definition createVmSnapshot :: "'h px \<Rightarrow> instance_request \<Rightarrow> string \<Rightarrow> string option \<Rightarrow> ('h, mutation_result) hio" where
  "createVmSnapshot X req name description =
     h_bind (prepareSnapshotMutation X req) (\<lambda>vmid.
     h_bind (h_required name) (\<lambda>n.
     h_bind (px_send X POST (vm_path X vmid @ ''/snapshot'')
       (Some ([(''snapname'', n), (''vmstate'', ''0'')] @
          (if truthy description then [(''description'', the description)] else []))))
       (accepted_task X vmid)))"

definition rollbackVmSnapshot :: "'h px \<Rightarrow> instance_request \<Rightarrow> string \<Rightarrow> ('h, mutation_result) hio" where
  "rollbackVmSnapshot X req reference =
     h_bind (prepareSnapshotMutation X req) (\<lambda>vmid.
     h_bind (assertSnapshotName reference) (\<lambda>name.
     h_bind (px_send X POST (vm_path X vmid @ ''/snapshot/'' @ encodeURIComponent name @ ''/rollback'') (Some [(''start'', ''1'')]))
       (accepted_task X vmid)))"

definition deleteVmSnapshot :: "'h px \<Rightarrow> instance_request \<Rightarrow> string \<Rightarrow> ('h, mutation_result) hio" where
  "deleteVmSnapshot X req reference =
     h_bind (prepareSnapshotMutation X req) (\<lambda>vmid.
     h_bind (assertSnapshotName reference) (\<lambda>name.
     h_bind (px_send X DELETE (vm_path X vmid @ ''/snapshot/'' @ encodeURIComponent name) None)
       (accepted_task X vmid)))"

subsection \<open>Retention and purge\<close>

definition retention_form :: "ownership_markers \<Rightarrow> string \<Rightarrow> (string \<times> string) list" where
  "retention_form m deadline =
     [(''description'', describedWithTrailer m RETENTION_TRAILER_KEY deadline), (''onboot'', ''0''),
      (''delete'', ''ipconfig0'')]"

definition markVmRetained :: "'h px \<Rightarrow> instance_request \<Rightarrow> string \<Rightarrow> ('h, mutation_result) hio" where
  "markVmRetained X req deadline =
     owned_machine X req (\<lambda>vmid ownership _.
     h_bind (currentStatus X vmid) (\<lambda>state.
     h_bind (read_member state ''lock'') (\<lambda>lock.
     if json_truthy lock then h_return locked_result
     else h_bind (px_send X POST (vm_path X vmid @ ''/config'') (Some (retention_form ownership deadline)))
       (accepted_or_done X vmid))))"

definition stop_if_running :: "'h px \<Rightarrow> int \<Rightarrow> json \<Rightarrow> ('h, unit) hio" where
  "stop_if_running X vmid state =
     (if optional_member state ''status'' = JStr ''running'' then
        h_bind (px_send X POST (vm_path X vmid @ ''/status/stop'') (Some [(''overrule-shutdown'', ''1'')]))
          (\<lambda>_. h_return ())
      else h_return ())"

definition purgeVm :: "'h px \<Rightarrow> instance_request \<Rightarrow> ('h, mutation_result) hio" where
  "purgeVm X req =
     owned_machine X req (\<lambda>vmid ownership _.
     h_bind (currentStatus X vmid) (\<lambda>state.
     h_bind (read_member state ''lock'') (\<lambda>lock.
     if json_truthy lock then h_return locked_result
     else h_bind (stop_if_running X vmid state) (\<lambda>_.
       h_bind (px_send X DELETE (vm_path X vmid @ ''?purge=1&destroy-unreferenced-disks=1'') None)
         (accepted_or_done X vmid)))))"

subsection \<open>Observation\<close>

definition absentObservation :: "'h px \<Rightarrow> observation" where
  "absentObservation X = \<lparr>onExists = Some False, onPowerState = Some ObservedUnknown, onResources = None,
     onOwnership = Some \<lparr>ooComplete = Some False, ooMatch = Some False\<rparr>, onObservedAt = Some (pxNow X)\<rparr>"

definition number_or_zero :: "json \<Rightarrow> int" where
  "number_or_zero v = (case v of JNum n \<Rightarrow> n | _ \<Rightarrow> 0)"

definition present_observation ::
  "'h px \<Rightarrow> json \<Rightarrow> json \<Rightarrow> parsed_markers option \<Rightarrow> ownership_markers \<Rightarrow> observation" where
  "present_observation X config status actual expected =
     \<lparr>onExists = Some True,
      onPowerState = Some (if status = JStr ''running'' then ObservedRunning
        else if status = JStr ''stopped'' then ObservedStopped else ObservedUnknown),
      onResources = Some \<lparr>orCpuCount = Some (number_or_zero (optional_member config ''cores'')),
        orMemoryMib = Some (js_string (nullish (optional_member config ''memory'') (JNum 0))), orDiskGib = diskGiB config\<rparr>,
      onOwnership = Some \<lparr>ooComplete = Some (actual \<noteq> None), ooMatch = Some (markersMatch actual expected)\<rparr>,
      onObservedAt = Some (pxNow X)\<rparr>"

definition observed_vmid :: "'h px \<Rightarrow> string \<Rightarrow> ownership_markers \<Rightarrow> ('h, int option) hio" where
  "observed_vmid X v expected =
     (if v \<noteq> [] then h_bind (assertVmid X v) (\<lambda>vmid. h_return (Some vmid)) else findOwnedVmid X expected)"

definition observeVm :: "'h px \<Rightarrow> instance_request \<Rightarrow> ('h, observation) hio" where
  "observeVm X req =
     h_bind (assertContext X (irContext req)) (\<lambda>context.
     h_bind (assertOwnership X (irOwnershipMarkers req) context) (\<lambda>expected.
     h_bind (observed_vmid X (irProviderResourceId req) expected) (\<lambda>found.
     case found of
       None \<Rightarrow> h_return (absentObservation X)
     | Some vmid \<Rightarrow>
         h_bind (vmConfig X vmid True) (\<lambda>config.
         if \<not> json_truthy config then h_return (absentObservation X)
         else h_bind (currentStatus X vmid) (\<lambda>state.
           h_bind (h_require (parseOwnership (optional_member config ''description''))) (\<lambda>actual.
           h_bind (read_member state ''status'') (\<lambda>status.
           h_return (present_observation X config status actual expected))))))))"

subsection \<open>The adapter as a provider\<close>

text \<open>
  The mutating calls of the provider port. What becomes of the errors an operation throws is the matter of
  \<open>Provider_Grpc\<close>.
\<close>

fun px_mutate :: "'h px \<Rightarrow> mutation_call \<Rightarrow> ('h, mutation_result) hio" where
  "px_mutate X (SubmitCreateInstance c img flavor b m) = submitCreateInstance X c img b m"
| "px_mutate X (ApplyInstanceConfiguration req b) =
     applyInstanceConfiguration X req (brHostname b) (Some (brResources b)) (Some (brNetwork b)) (brSshPublicKeys b)"
| "px_mutate X (StartInstance req) = startInstance X req"
| "px_mutate X (ShutdownInstance req) = shutdownInstance X req"
| "px_mutate X (StopInstance req) = stopInstance X req"
| "px_mutate X (RebootInstance req) = rebootInstance X req"
| "px_mutate X (ResizeInstanceCall req t) = resizeVm X req t"
| "px_mutate X (CreateSnapshotCall req sid name description) = createVmSnapshot X req name description"
| "px_mutate X (RollbackSnapshotCall req sid reference) = rollbackVmSnapshot X req reference"
| "px_mutate X (DeleteSnapshotCall req sid reference) = deleteVmSnapshot X req reference"
| "px_mutate X (MarkInstanceRetained req deadline) = markVmRetained X req deadline"
| "px_mutate X (PurgeInstanceCall req auth deadline) = purgeVm X req"

end
