(* ===== verification/Proxmox_Safety.thy ===== *)
theory Proxmox_Safety
  imports Proxmox_Provider Workflow_Safety
begin

section \<open>What the Proxmox adapter may change\<close>

text \<open>
  The requests of a computation: \<open>sends P m\<close> says that all of them are reads or satisfy \<open>P\<close>, \<open>yields Q m\<close> what
  a result satisfies. Both are closed under the composition of computations, so that the requests of an
  operation are read off its definition.
\<close>

named_theorems sends_intros "requests of composed computations"

definition sends :: "(http_call \<Rightarrow> bool) \<Rightarrow> ('h, 'a) hio \<Rightarrow> bool" where
  "sends P m \<longleftrightarrow> (\<forall>h r l h'. m h = (r, l, h') \<longrightarrow> (\<forall>e \<in> set l. htMethod (fst e) = GET \<or> P (fst e)))"

definition yields :: "('a \<Rightarrow> bool) \<Rightarrow> ('h, 'a) hio \<Rightarrow> bool" where
  "yields Q m \<longleftrightarrow> (\<forall>h a l h'. m h = (Inr a, l, h') \<longrightarrow> Q a)"

lemma sends_return [sends_intros]: "sends P (h_return a)"
  by (simp add: sends_def h_return_def)

lemma sends_throw [sends_intros]: "sends P (h_throw e)"
  by (simp add: sends_def h_throw_def)

lemma h_bind_cases:
  assumes "h_bind m f h = (r, l, h')"
  obtains (throws) e where "m h = (Inl e, l, h')" "r = Inl e"
    | (runs) a l1 h1 l2 where "m h = (Inr a, l1, h1)" "f a h1 = (r, l2, h')" "l = l1 @ l2"
  using assms by (auto simp: h_bind_def split: prod.split_asm sum.split_asm)

lemma sends_bind_yields:
  assumes "sends P m" and "yields Q m" and "\<And>a. Q a \<Longrightarrow> sends P (f a)"
  shows "sends P (h_bind m f)"
  unfolding sends_def
proof (intro allI impI)
  fix h r l h'
  assume "h_bind m f h = (r, l, h')"
  then show "\<forall>e \<in> set l. htMethod (fst e) = GET \<or> P (fst e)"
  proof (cases rule: h_bind_cases)
    case (throws e)
    with assms(1) show ?thesis unfolding sends_def by blast
  next
    case (runs a l1 h1 l2)
    from runs(1) assms(2) have "Q a" unfolding yields_def by blast
    with runs assms(1,3) show ?thesis unfolding sends_def by (metis Un_iff set_append)
  qed
qed

lemma sends_bind [sends_intros]: "sends P m \<Longrightarrow> (\<And>a. sends P (f a)) \<Longrightarrow> sends P (h_bind m f)"
  by (rule sends_bind_yields [where Q = "\<lambda>_. True"]) (simp_all add: yields_def)

lemma sends_catch [sends_intros]:
  assumes "sends P m" and "\<And>e. sends P (f e)"
  shows "sends P (h_catch m f)"
  unfolding sends_def
proof (intro allI impI)
  fix h r l h'
  assume run: "h_catch m f h = (r, l, h')"
  obtain r1 l1 h1 where m: "m h = (r1, l1, h1)" by (cases "m h")
  then have l1: "\<forall>e \<in> set l1. htMethod (fst e) = GET \<or> P (fst e)" using assms(1) unfolding sends_def by blast
  show "\<forall>e \<in> set l. htMethod (fst e) = GET \<or> P (fst e)"
  proof (cases r1)
    case (Inl e)
    obtain r2 l2 h2 where f: "f e h1 = (r2, l2, h2)" by (cases "f e h1")
    then have "\<forall>e \<in> set l2. htMethod (fst e) = GET \<or> P (fst e)" using assms(2) unfolding sends_def by blast
    moreover have "l = l1 @ l2" using run by (simp add: h_catch_def m Inl f)
    ultimately show ?thesis using l1 by auto
  next
    case (Inr a)
    with run l1 show ?thesis by (simp add: h_catch_def m)
  qed
qed

lemma sends_lift [sends_intros]: "sends P (h_require x)" "sends P (h_assert c)" "sends P (h_required v)"
  by (auto simp: h_require_def h_assert_def h_required_def intro: sends_intros split: option.split)

lemma sends_if [sends_intros]: "(c \<Longrightarrow> sends P m) \<Longrightarrow> (\<not> c \<Longrightarrow> sends P n) \<Longrightarrow> sends P (if c then m else n)"
  by simp

lemma sends_request: "htMethod c = GET \<or> P c \<Longrightarrow> sends P (proxmox_request H c)"
  by (auto simp: sends_def proxmox_request_def split: prod.split_asm)

lemma sends_get [sends_intros]: "sends P (px_get X path)"
  unfolding px_get_def by (rule sends_request) simp

lemma sends_send [sends_intros]: "P \<lparr>htMethod = m, htPath = path, htBody = body\<rparr> \<Longrightarrow> sends P (px_send X m path body)"
  unfolding px_send_def by (rule sends_request) simp

text \<open>The reads and checks of the adapter.\<close>

lemma sends_reads [sends_intros]:
  "sends P (listVms X)" "sends P (currentStatus X vmid)" "sends P (vmConfig X vmid b)" "sends P (read_member v k)"
  by (simp_all only: listVms_def currentStatus_def vmConfig_def read_member_def) (intro sends_intros)+

lemma sends_checks [sends_intros]:
  "sends P (assertContext X c)" "sends P (assertOwnership X m c)" "sends P (assertVmid X v)"
  "sends P (requireOwnedConfig X vmid m)" "sends P (assertResources r config)" "sends P (assertNetwork X n)"
  "sends P (described_owned config m)" "sends P (assertSnapshotName v)" "sends P (decodeTask v)"
  "sends P (accepted_task X vmid u)" "sends P (accepted_or_done X vmid u)"
  by (auto simp: assertContext_def assertDirectProfile_def assertOwnership_def assertVmid_def requireOwnedConfig_def
      assertResources_def assertNetwork_def described_owned_def assertSnapshotName_def decodeTask_def Let_def
      accepted_task_def accepted_or_done_def intro!: sends_intros split: option.split prod.split)

lemma sends_check_address [sends_intros]: "sends P (check_address X address vmid summaries)"
  by (induction summaries)
    (auto intro!: sends_intros split: json.split)

lemma sends_probe [sends_intros]: "sends P (probe X m occupied ids)"
  by (induction ids) (auto intro!: sends_intros)

lemma sends_search_owned [sends_intros]: "sends P (search_owned X m summaries)"
  by (induction summaries) (auto intro!: sends_intros split: json.split)

lemma sends_searches [sends_intros]:
  "sends P (assertIpv4Available X address vmid)" "sends P (findOwnedOrFreeVmid X m)" "sends P (findOwnedVmid X m)"
  by (auto simp: assertIpv4Available_def findOwnedOrFreeVmid_def findOwnedVmid_def intro!: sends_intros)

lemma sends_first_disk [sends_intros]: "sends P (first_disk disks)"
  by (induction disks rule: first_disk.induct) (auto intro!: sends_intros)

subsection \<open>The machine an operation works on\<close>

definition config_call :: "'h px \<Rightarrow> int \<Rightarrow> http_call" where
  "config_call X vmid = \<lparr>htMethod = GET, htPath = vm_path X vmid @ ''/config'', htBody = None\<rparr>"

text \<open>An exchange that proves the machine carries exactly these markers.\<close>

definition proves_owned :: "'h px \<Rightarrow> int \<Rightarrow> ownership_markers \<Rightarrow> exchange \<Rightarrow> bool" where
  "proves_owned X vmid m e \<longleftrightarrow> fst e = config_call X vmid \<and>
     (\<exists>config pm. delivers (snd e) config \<and> parseOwnership (optional_member config ''description'') = Some pm \<and>
        markersMatch pm m)"

text \<open>A request on one machine: its path, or a path below it.\<close>

definition on_machine :: "'h px \<Rightarrow> int \<Rightarrow> http_call \<Rightarrow> bool" where
  "on_machine X vmid c \<longleftrightarrow>
     (\<exists>rest. htPath c = vm_path X vmid @ rest \<and> rest \<noteq> [] \<and> (hd rest = CHR ''/'' \<or> hd rest = CHR ''?''))"

lemma run_request:
  "proxmox_request H c h = (r, l, h') \<Longrightarrow> \<exists>a. l = [(c, a)] \<and> (\<forall>v. r = Inr v \<longrightarrow> delivers a v)"
  by (auto simp: proxmox_request_def delivers_def split: prod.split_asm http_answer.split_asm json.split_asm if_split_asm)

lemma run_vmConfig:
  assumes "vmConfig X vmid b h = (r, l, h')"
  shows "\<exists>a. l = [(config_call X vmid, a)] \<and> (\<forall>v. r = Inr v \<longrightarrow> v = JNull \<or> delivers a v)"
proof -
  obtain r1 l1 h1 where get: "px_get X (vm_path X vmid @ ''/config'') h = (r1, l1, h1)"
    by (cases "px_get X (vm_path X vmid @ ''/config'') h")
  from run_request [OF get [unfolded px_get_def]] obtain a
    where "l1 = [(config_call X vmid, a)]" "\<forall>v. r1 = Inr v \<longrightarrow> delivers a v"
    by (auto simp: config_call_def)
  with assms show ?thesis
    by (cases r1) (auto simp: vmConfig_def h_catch_def get h_return_def h_throw_def split: if_split_asm)
qed

lemma requireOwnedConfig_cases:
  assumes "requireOwnedConfig X vmid m h = (r, l, h')"
  shows "\<exists>a. l = [(config_call X vmid, a)] \<and> (\<forall>config. r = Inr config \<longrightarrow>
    proves_owned X vmid m (config_call X vmid, a) \<and> delivers a config)"
  using assms unfolding requireOwnedConfig_def
proof (cases rule: h_bind_cases)
  case (throws e)
  from run_vmConfig [OF throws(1)] throws(2) show ?thesis by auto
next
  case (runs config l1 h1 l2)
  from run_vmConfig [OF runs(1)] obtain a where a: "l1 = [(config_call X vmid, a)]" "config = JNull \<or> delivers a config"
    by auto
  have checked: "l2 = [] \<and> (\<forall>c. r = Inr c \<longrightarrow> c = config \<and> json_truthy config \<and> (\<exists>pm. parseOwnership (optional_member config ''description'') = Some pm \<and> markersMatch pm m))"
    using runs(2) by (auto simp: h_throw_def h_bind_def h_require_def h_return_def split: if_split_asm option.split_asm)
  show ?thesis
  proof (intro exI conjI allI impI)
    show "l = [(config_call X vmid, a)]" using a(1) checked runs(3) by simp
  next
    fix c assume "r = Inr c"
    with checked have c: "c = config" "json_truthy config"
      and pm: "\<exists>pm. parseOwnership (optional_member config ''description'') = Some pm \<and> markersMatch pm m" by blast+
    from c(2) a(2) have "delivers a config" by auto
    with pm c(1) show "proves_owned X vmid m (config_call X vmid, a)" "delivers a c"
      unfolding proves_owned_def by auto
  qed
qed

lemma h_assert_cases: "h_assert c h = (r, l, h') \<longleftrightarrow> l = [] \<and> h' = h \<and> r = (if c then Inr () else Inl protocol_refusal)"
  by (auto simp: h_assert_def h_return_def h_throw_def)

lemma h_required_cases: "h_required v h = (r, l, h') \<longleftrightarrow> l = [] \<and> h' = h \<and> r = (if v = [] then Inl protocol_refusal else Inr v)"
  by (auto simp: h_required_def h_return_def h_throw_def)

text \<open>A call within the boundary of the laboratory.\<close>

definition context_allowed :: "'h px \<Rightarrow> call_context \<Rightarrow> bool" where
  "context_allowed X c \<longleftrightarrow> ccProviderProfileId c = pxProviderProfileId (pxConfig X) \<and> ccProjectId c = pxProjectId (pxConfig X) \<and>
     ccRequestId c \<noteq> [] \<and> ccOperationId c \<noteq> [] \<and> ccCorrelationId c \<noteq> [] \<and> ccInstanceId c \<noteq> []"

definition markers_allowed :: "'h px \<Rightarrow> call_context \<Rightarrow> ownership_markers \<Rightarrow> bool" where
  "markers_allowed X c m \<longleftrightarrow> managedBy m = pxManagedBy (pxConfig X) \<and> environment m = pxEnvironment (pxConfig X) \<and>
     omProjectId m = ccProjectId c \<and> omInstanceId m = ccInstanceId c \<and> omCreateOperationId m = ccOperationId c"

lemma run_assertContext: "assertContext X c = (if context_allowed X c then h_return c else h_throw protocol_refusal)"
  by (auto simp: assertContext_def assertDirectProfile_def context_allowed_def h_assert_def h_required_def)

lemma run_assertOwnership:
  "assertOwnership X m c = (if markers_allowed X c m then h_return m else h_throw protocol_refusal)"
  by (auto simp: assertOwnership_def markers_allowed_def h_assert_def)

lemma run_assertVmid:
  "assertVmid X v = (case js_integer (js_number v) of
     Some vmid \<Rightarrow> if abs vmid \<le> MAXIMUM_SAFE_INTEGER \<and> in_range (pxConfig X) vmid then h_return vmid else h_throw protocol_refusal
   | None \<Rightarrow> h_throw protocol_refusal)"
  by (simp add: assertVmid_def)

lemma owned_machine_refused:
  assumes "\<not> (context_allowed X (irContext req) \<and> markers_allowed X (irContext req) (irOwnershipMarkers req))"
  shows "owned_machine X req k = h_throw protocol_refusal"
  using assms
  by (cases "context_allowed X (irContext req)")
    (simp_all add: owned_machine_def run_assertContext run_assertOwnership)

lemma owned_machine_cases:
  assumes "owned_machine X req k h = (r, l, h')"
  obtains (refused) e where "r = Inl e" "\<forall>e \<in> set l. htMethod (fst e) = GET"
    | (owned) vmid a config h1 l2 where "in_range (pxConfig X) vmid" "context_allowed X (irContext req)"
        "markers_allowed X (irContext req) (irOwnershipMarkers req)"
        "l = (config_call X vmid, a) # l2" "proves_owned X vmid (irOwnershipMarkers req) (config_call X vmid, a)"
        "delivers a config" "k vmid (irOwnershipMarkers req) config h1 = (r, l2, h')"
proof (cases "context_allowed X (irContext req) \<and> markers_allowed X (irContext req) (irOwnershipMarkers req)")
  case False
  then have "r = Inl protocol_refusal \<and> l = []"
    using assms by (simp add: owned_machine_refused h_throw_def)
  then show ?thesis using refused by auto
next
  case allowed: True
  show ?thesis
  proof (cases "\<exists>vmid. js_integer (js_number (irProviderResourceId req)) = Some vmid \<and>
      abs vmid \<le> MAXIMUM_SAFE_INTEGER \<and> in_range (pxConfig X) vmid")
    case False
    then have "r = Inl protocol_refusal \<and> l = []"
      using assms allowed
      by (auto simp: owned_machine_def run_assertContext run_assertOwnership run_assertVmid h_throw_def split: option.split_asm)
    then show ?thesis using refused by auto
  next
    case True
    then obtain vmid where vmid: "js_integer (js_number (irProviderResourceId req)) = Some vmid"
      "abs vmid \<le> MAXIMUM_SAFE_INTEGER" "in_range (pxConfig X) vmid" by blast
    have "h_bind (requireOwnedConfig X vmid (irOwnershipMarkers req)) (k vmid (irOwnershipMarkers req)) h = (r, l, h')"
      using assms allowed vmid by (simp add: owned_machine_def run_assertContext run_assertOwnership run_assertVmid)
    then show ?thesis
    proof (cases rule: h_bind_cases)
      case (throws e)
      from requireOwnedConfig_cases [OF throws(1)] throws(2) show ?thesis
        using refused by (auto simp: config_call_def)
    next
      case (runs config l1 h1 l2)
      from requireOwnedConfig_cases [OF runs(1)] obtain a
        where "l1 = [(config_call X vmid, a)]" "proves_owned X vmid (irOwnershipMarkers req) (config_call X vmid, a)"
          "delivers a config" by auto
      then show ?thesis using owned [of vmid a l2 config h1] vmid allowed runs by simp
    qed
  qed
qed

subsection \<open>Every operation on a machine\<close>

lemma on_machine_path [sends_intros]:
  "on_machine X vmid \<lparr>htMethod = m, htPath = vm_path X vmid @ CHR ''/'' # rest, htBody = b\<rparr>"
  "on_machine X vmid \<lparr>htMethod = m, htPath = vm_path X vmid @ CHR ''?'' # rest, htBody = b\<rparr>"
  by (simp_all add: on_machine_def)

lemma owned_machine_bind: "h_bind (owned_machine X req k) f = owned_machine X req (\<lambda>v m c. h_bind (k v m c) f)"
  by (simp add: owned_machine_def h_bind_assoc)

definition unlocked :: "'h px \<Rightarrow> int \<Rightarrow> ('h, 'a) hio \<Rightarrow> ('h, 'a) hio" where
  "unlocked X vmid m =
     h_bind (currentStatus X vmid) (\<lambda>state. h_bind (read_member state ''lock'') (\<lambda>lock.
       if json_truthy lock then h_throw (TransportFailure (transport_error_of Unavailable (Some True))) else m))"

lemma prepare_bind:
  "h_bind (prepareSnapshotMutation X req) f = owned_machine X req (\<lambda>vmid m c. unlocked X vmid (f vmid))"
  by (simp add: prepareSnapshotMutation_def owned_machine_bind unlocked_def h_bind_assoc if_distrib
      [where f = "\<lambda>m. h_bind m f"] cong: if_cong)

lemma sends_unlocked [sends_intros]: "sends P m \<Longrightarrow> sends P (unlocked X vmid m)"
  by (auto simp: unlocked_def intro!: sends_intros)

lemma sends_steps [sends_intros]:
  "sends (on_machine X vmid) (grow_disk X vmid config disk task)"
  "sends (on_machine X vmid) (stop_if_running X vmid state)"
  by (auto simp: grow_disk_def stop_if_running_def primaryDiskKey_def intro!: sends_intros)

fun machine_request :: "mutation_call \<Rightarrow> instance_request option" where
  "machine_request (SubmitCreateInstance _ _ _ _ _) = None"
| "machine_request (ApplyInstanceConfiguration r _) = Some r"
| "machine_request (StartInstance r) = Some r"
| "machine_request (ShutdownInstance r) = Some r"
| "machine_request (StopInstance r) = Some r"
| "machine_request (RebootInstance r) = Some r"
| "machine_request (ResizeInstanceCall r _) = Some r"
| "machine_request (CreateSnapshotCall r _ _ _) = Some r"
| "machine_request (RollbackSnapshotCall r _ _) = Some r"
| "machine_request (DeleteSnapshotCall r _ _) = Some r"
| "machine_request (MarkInstanceRetained r _) = Some r"
| "machine_request (PurgeInstanceCall r _ _) = Some r"

lemma machine_request_of_call:
  "machine_request call = Some req \<Longrightarrow> irContext req = call_context call \<and> irOwnershipMarkers req = call_markers call"
  by (cases call) auto

lemma machine_operation:
  assumes "machine_request call = Some req"
  shows "\<exists>k. px_mutate X call = owned_machine X req k \<and> (\<forall>vmid m config. sends (on_machine X vmid) (k vmid m config))"
proof -
  have direct: "\<exists>k. op = owned_machine X req k \<and> (\<forall>vmid m config. sends (on_machine X vmid) (k vmid m config))"
    if "op = owned_machine X req k" "\<And>vmid m config. sends (on_machine X vmid) (k vmid m config)" for op k
    using that by blast
  show ?thesis
    using assms
  proof (cases call)
    case (ApplyInstanceConfiguration r b)
    with assms show ?thesis
      by (auto simp: applyInstanceConfiguration_def Let_def intro!: direct sends_intros)
  next
    case (ResizeInstanceCall r t)
    with assms show ?thesis
      by (auto simp: resizeVm_def intro!: direct sends_intros split: option.split prod.split)
  next
    case (PurgeInstanceCall r a d)
    with assms show ?thesis
      by (auto simp: purgeVm_def intro!: direct sends_intros)
  next
    case (MarkInstanceRetained r d)
    with assms show ?thesis
      by (auto simp: markVmRetained_def intro!: direct sends_intros)
  next
    case (StartInstance r)
    with assms show ?thesis
      by (auto simp: startInstance_def intro!: direct sends_intros)
  qed (auto simp: shutdownInstance_def stopInstance_def rebootInstance_def powerTransition_def createVmSnapshot_def
      rollbackVmSnapshot_def deleteVmSnapshot_def prepare_bind intro!: direct sends_intros)
qed

subsection \<open>Creation\<close>

text \<open>The one change of a creation: a clone of the template with an identifier of the reserved range.\<close>

definition clones :: "'h px \<Rightarrow> int \<Rightarrow> string \<Rightarrow> ownership_markers \<Rightarrow> http_call \<Rightarrow> bool" where
  "clones X vmid host m c \<longleftrightarrow> c = \<lparr>htMethod = POST, htPath = vm_path X (pxTemplateVmid (pxConfig X)) @ ''/clone'',
     htBody = Some (clone_form X vmid host m)\<rparr>"

lemma candidates_in_range: "vmid \<in> set (candidates X i) \<Longrightarrow> in_range (pxConfig X) vmid"
proof -
  assume "vmid \<in> set (candidates X i)"
  then obtain offset where "nat (px_size X) > offset"
    and vmid: "vmid = pxResourceIdMinimum (pxConfig X) + (int (px_seed X i) + int offset) mod px_size X"
    by (auto simp: candidates_def)
  then have "0 < px_size X" by linarith
  then have "0 \<le> (int (px_seed X i) + int offset) mod px_size X" "(int (px_seed X i) + int offset) mod px_size X < px_size X"
    by simp_all
  then show ?thesis unfolding vmid in_range_def px_size_def by linarith
qed

lemma yields_bind: "(\<And>a. yields Q (f a)) \<Longrightarrow> yields Q (h_bind m f)"
  unfolding yields_def by (metis Inr_not_Inl h_bind_cases)

lemma yields_throw [simp]: "yields Q (h_throw e)"
  by (simp add: yields_def h_throw_def)

lemma yields_return [simp]: "yields Q (h_return a) = Q a"
  by (simp add: yields_def h_return_def)

lemma yields_probe: "(\<And>v. v \<in> set ids \<Longrightarrow> Q v) \<Longrightarrow> yields Q (probe X m occupied ids)"
  by (induction ids) (auto intro!: yields_bind)

lemma yields_findOwnedOrFreeVmid: "yields (in_range (pxConfig X)) (findOwnedOrFreeVmid X m)"
  unfolding findOwnedOrFreeVmid_def by (intro yields_bind yields_probe candidates_in_range)

lemma h_required_bind: "h_bind (h_required v) f = (if v = [] then h_throw protocol_refusal else f v)"
  by (simp add: h_required_def)

lemma sends_create:
  "sends (\<lambda>c. \<exists>vmid. in_range (pxConfig X) vmid \<and> clones X vmid (brHostname b) m c) (submitCreateInstance X c img b m)"
proof (cases "context_allowed X c \<and> markers_allowed X c m")
  case True
  have "sends (\<lambda>c. \<exists>vmid. in_range (pxConfig X) vmid \<and> clones X vmid (brHostname b) m c)
      (h_bind (findOwnedOrFreeVmid X m) (\<lambda>vmid. h_bind (vmConfig X vmid True) (\<lambda>existing.
         if json_truthy existing then h_return (succeeded_result vmid)
         else h_bind (h_required (brHostname b)) (\<lambda>hostname.
           h_bind (px_send X POST (vm_path X (pxTemplateVmid (pxConfig X)) @ ''/clone'') (Some (clone_form X vmid hostname m)))
             (accepted_task X vmid)))))"
  proof (rule sends_bind_yields [OF _ yields_findOwnedOrFreeVmid])
    fix vmid assume vmid: "in_range (pxConfig X) vmid"
    show "sends (\<lambda>c. \<exists>vmid. in_range (pxConfig X) vmid \<and> clones X vmid (brHostname b) m c)
        (h_bind (vmConfig X vmid True) (\<lambda>existing.
         if json_truthy existing then h_return (succeeded_result vmid)
         else h_bind (h_required (brHostname b)) (\<lambda>hostname.
           h_bind (px_send X POST (vm_path X (pxTemplateVmid (pxConfig X)) @ ''/clone'') (Some (clone_form X vmid hostname m)))
             (accepted_task X vmid))))"
      using vmid by (auto simp: h_required_bind clones_def intro!: sends_intros cong: if_cong)
  qed (rule sends_intros)
  with True show ?thesis
    by (auto simp: submitCreateInstance_def run_assertContext run_assertOwnership intro!: sends_intros)
qed (auto simp: submitCreateInstance_def run_assertContext run_assertOwnership intro!: sends_intros)

subsection \<open>The evidence before a change\<close>

lemma sends_on_run: "sends P m \<Longrightarrow> m h = (r, l, h') \<Longrightarrow> e \<in> set l \<Longrightarrow> htMethod (fst e) \<noteq> GET \<Longrightarrow> P (fst e)"
  unfolding sends_def by blast

lemma machine_change_is_proven:
  assumes "machine_request call = Some req" and "px_mutate X call h = (r, l1 @ e # l2, h')" and "htMethod (fst e) \<noteq> GET"
  shows "\<exists>vmid. in_range (pxConfig X) vmid \<and> context_allowed X (call_context call) \<and>
    markers_allowed X (call_context call) (call_markers call) \<and> on_machine X vmid (fst e) \<and>
    (\<exists>evidence \<in> set l1. proves_owned X vmid (call_markers call) evidence)"
proof -
  from machine_operation [OF assms(1)] obtain k where op: "px_mutate X call = owned_machine X req k"
    and k: "\<And>vmid m config. sends (on_machine X vmid) (k vmid m config)" by blast
  from assms(2) have "owned_machine X req k h = (r, l1 @ e # l2, h')" by (simp only: op)
  then show ?thesis
  proof (cases rule: owned_machine_cases)
    case (refused err)
    with assms(3) show ?thesis by simp
  next
    case (owned vmid a config h1 l)
    from owned(4) assms(3) obtain l1' where l1: "l1 = (config_call X vmid, a) # l1'" "l = l1' @ e # l2"
      by (cases l1) (auto simp: config_call_def)
    have "on_machine X vmid (fst e)"
      by (rule sends_on_run [OF k owned(7) _ assms(3)]) (simp add: l1)
    with owned l1 machine_request_of_call [OF assms(1)] show ?thesis by auto
  qed
qed

lemma create_change_is_a_clone:
  assumes "submitCreateInstance X c img b m h = (r, l1 @ e # l2, h')" and "htMethod (fst e) \<noteq> GET"
  shows "context_allowed X c \<and> markers_allowed X c m \<and>
    (\<exists>vmid. in_range (pxConfig X) vmid \<and> clones X vmid (brHostname b) m (fst e))"
proof -
  have "context_allowed X c \<and> markers_allowed X c m"
  proof (rule ccontr)
    assume "\<not> (context_allowed X c \<and> markers_allowed X c m)"
    then have "submitCreateInstance X c img b m = h_throw protocol_refusal"
      by (cases "context_allowed X c") (simp_all add: submitCreateInstance_def run_assertContext run_assertOwnership)
    with assms(1) show False by (simp add: h_throw_def)
  qed
  moreover have "\<exists>vmid. in_range (pxConfig X) vmid \<and> clones X vmid (brHostname b) m (fst e)"
    by (rule sends_on_run [OF sends_create assms(1) _ assms(2)]) simp
  ultimately show ?thesis by blast
qed

lemma constructed_range: "construct_provider X = Inr () \<Longrightarrow> in_range (pxConfig X) vmid \<Longrightarrow> 910000 \<le> vmid \<and> vmid \<le> 910099"
  by (auto simp: construct_provider_def in_range_def Let_def split: option.split_asm if_split_asm prod.split_asm)

subsection \<open>Answers that cannot be read\<close>

text \<open>
  A computation that ends with an answer whose body cannot be read ends in a protocol error. This too is closed
  under composition.
\<close>

named_theorems ends_intros "computations whose last answer is read"

definition ends_unread :: "('h, 'a) hio \<Rightarrow> bool" where
  "ends_unread m \<longleftrightarrow> (\<forall>h r l c h'. m h = (r, l @ [(c, InvalidBody)], h') \<longrightarrow> r = Inl protocol_refusal)"

lemma ends_unreadD: "ends_unread m \<Longrightarrow> m h = (r, l @ [(c, InvalidBody)], h') \<Longrightarrow> r = Inl protocol_refusal"
  unfolding ends_unread_def by blast

lemma ends_plain [ends_intros]:
  "ends_unread (h_return a)" "ends_unread (h_throw e)" "ends_unread (h_require x)" "ends_unread (h_assert b)"
  "ends_unread (h_required v)"
  by (auto simp: ends_unread_def h_return_def h_throw_def h_require_def h_assert_def h_required_def split: option.split)

lemma ends_bind [ends_intros]:
  assumes "ends_unread m" and "\<And>a. ends_unread (f a)"
  shows "ends_unread (h_bind m f)"
  unfolding ends_unread_def
proof (intro allI impI)
  fix h r l c h'
  assume "h_bind m f h = (r, l @ [(c, InvalidBody)], h')"
  then show "r = Inl protocol_refusal"
  proof (cases rule: h_bind_cases)
    case (throws e)
    with assms(1) show ?thesis unfolding ends_unread_def by blast
  next
    case (runs a l1 h1 l2)
    show ?thesis
    proof (cases l2 rule: rev_cases)
      case Nil
      with runs have "m h = (Inr a, l @ [(c, InvalidBody)], h1)" by simp
      with assms(1) have "Inr a = (Inl protocol_refusal :: adapter_error + _)" unfolding ends_unread_def by blast
      then show ?thesis by simp
    next
      case (snoc l2' x)
      with runs have "f a h1 = (r, l2' @ [(c, InvalidBody)], h')" by simp
      with assms(2) show ?thesis unfolding ends_unread_def by blast
    qed
  qed
qed

lemma ends_request: "ends_unread (proxmox_request H c)"
  by (auto simp: ends_unread_def proxmox_request_def split: prod.split_asm)

lemma ends_get_send [ends_intros]: "ends_unread (px_get X path)" "ends_unread (px_send X m path body)"
  by (simp_all add: px_get_def px_send_def ends_request)

lemma ends_if [ends_intros]: "(b \<Longrightarrow> ends_unread m) \<Longrightarrow> (\<not> b \<Longrightarrow> ends_unread n) \<Longrightarrow> ends_unread (if b then m else n)"
  by simp

lemma ends_vmConfig [ends_intros]: "ends_unread (vmConfig X vmid b)"
  unfolding ends_unread_def
proof (intro allI impI)
  fix h r l c h'
  assume run: "vmConfig X vmid b h = (r, l @ [(c, InvalidBody)], h')"
  obtain r1 l1 h1 where get: "px_get X (vm_path X vmid @ ''/config'') h = (r1, l1, h1)" by (metis surj_pair)
  have l1: "l1 = l @ [(c, InvalidBody)]"
    using run get by (auto simp: vmConfig_def h_catch_def h_return_def h_throw_def split: sum.split_asm if_split_asm)
  have "r1 = Inl protocol_refusal"
    using ends_get_send(1) [of X "vm_path X vmid @ ''/config''"] get unfolding ends_unread_def l1 by blast
  with run get show "r = Inl protocol_refusal"
    by (simp add: vmConfig_def h_catch_def h_return_def h_throw_def protocol_refusal_def)
qed

lemma ends_reads [ends_intros]:
  "ends_unread (listVms X)" "ends_unread (currentStatus X vmid)" "ends_unread (read_member v k)"
  by (simp_all only: listVms_def currentStatus_def read_member_def) (intro ends_intros)+

lemma ends_described [ends_intros]: "ends_unread (described_owned config m)"
  unfolding described_owned_def by (intro ends_intros)

lemma ends_probe [ends_intros]: "ends_unread (probe X m occupied ids)"
  by (induction ids) (auto intro!: ends_intros)

lemma ends_checks [ends_intros]:
  "ends_unread (assertContext X c)" "ends_unread (assertOwnership X m c)" "ends_unread (accepted_task X vmid u)"
  "ends_unread (findOwnedOrFreeVmid X m)"
  by (auto simp: assertContext_def assertDirectProfile_def assertOwnership_def accepted_task_def findOwnedOrFreeVmid_def
      intro!: ends_intros)

lemma ends_create: "ends_unread (submitCreateInstance X c img b m)"
  unfolding submitCreateInstance_def by (intro ends_intros)

end
