(* ===== verification/Provider_Grpc.thy ===== *)
theory Provider_Grpc
  imports Proxmox_Provider
begin

section \<open>The provider behind gRPC\<close>

text \<open>
  The orchestrator reaches the adapter through a remote call. This theory has both ends: the controller
  \<^verbatim>\<open>apps/proxmox-provider/src/app/provider-grpc.controller.ts\<close>, which maps a failure to a status, and the client
  \<^verbatim>\<open>apps/provisioning-orchestrator/src/app/grpc-provider.client.ts\<close>, which classifies a status. The library
  between them is a parameter: with a state of its own it delivers a call, or fails it before or after the
  handler ran. Messages, metrics and logs are left out.
\<close>

datatype grpc_status =
    CANCELLED
  | DEADLINE_EXCEEDED
  | FAILED_PRECONDITION
  | INTERNAL
  | UNAVAILABLE
  | OtherStatus nat

fun status_of :: "transport_code \<Rightarrow> grpc_status" where
  "status_of Aborted = CANCELLED"
| "status_of DeadlineExceeded = DEADLINE_EXCEEDED"
| "status_of ProtocolError = FAILED_PRECONDITION"
| "status_of Unavailable = UNAVAILABLE"

definition rpcError :: "adapter_error \<Rightarrow> grpc_status" where
  "rpcError e = (case as_transport_error e of Some t \<Rightarrow> status_of (transportCode t) | None \<Rightarrow> INTERNAL)"

definition transportError :: "grpc_status \<Rightarrow> transport_error" where
  "transportError s =
     (let c = (if s = DEADLINE_EXCEEDED then DeadlineExceeded
               else if s = CANCELLED then Aborted
               else if s = UNAVAILABLE then Unavailable
               else ProtocolError)
      in transport_error_of c (Some (c \<noteq> ProtocolError)))"

subsection \<open>Timestamps\<close>

text \<open>
  A timestamp on the wire is its seconds and nanoseconds. The client encodes the deadline of a request and
  the controller decodes it; the controller encodes the time of an observation, failing on one it cannot parse, and
  the client decodes it. \<^verbatim>\<open>Date.parse\<close> is a parameter.
\<close>

type_synonym wire_time = "int \<times> int"

definition js_remainder :: "int \<Rightarrow> int \<Rightarrow> int" where
  "js_remainder a b = sgn a * (abs a mod b)"

definition wire_of_millis :: "int \<Rightarrow> wire_time" where
  "wire_of_millis ms = (ms div 1000, js_remainder ms 1000 * 1000000)"

definition millis_of_wire :: "wire_time \<Rightarrow> int" where
  "millis_of_wire t = fst t * 1000 + snd t div 1000000"

definition client_wireTimestamp :: "(string \<Rightarrow> int option) \<Rightarrow> string \<Rightarrow> wire_time option" where
  "client_wireTimestamp dateParse v = (if v = [] then None else map_option wire_of_millis (dateParse v))"

definition isoTimestamp :: "wire_time option \<Rightarrow> string" where
  "isoTimestamp t = (case t of None \<Rightarrow> [] | Some w \<Rightarrow> toISOString (millis_of_wire w))"

definition controller_wireTimestamp :: "(string \<Rightarrow> int option) \<Rightarrow> string option \<Rightarrow> ('h, wire_time option) hio" where
  "controller_wireTimestamp dateParse v =
     (if \<not> truthy v then h_return None
      else h_bind (h_require (dateParse (the v))) (\<lambda>ms. h_return (Some (wire_of_millis ms))))"

definition client_timestamp :: "wire_time option \<Rightarrow> string option" where
  "client_timestamp t = map_option (\<lambda>w. toISOString (millis_of_wire w)) t"

fun wire_mutation :: "(string \<Rightarrow> int option) \<Rightarrow> mutation_call \<Rightarrow> mutation_call" where
  "wire_mutation dateParse (MarkInstanceRetained req deadline) =
     MarkInstanceRetained req (isoTimestamp (client_wireTimestamp dateParse deadline))"
| "wire_mutation dateParse (PurgeInstanceCall req auth deadline) =
     PurgeInstanceCall req auth (isoTimestamp (client_wireTimestamp dateParse deadline))"
| "wire_mutation dateParse call = call"

subsection \<open>A remote call\<close>

datatype rpc_fate = Delivered | NotSent grpc_status | AnswerLost grpc_status

type_synonym 'n rpc_library = "'n \<Rightarrow> rpc_fate \<times> 'n"

definition grpc_call :: "'n rpc_library \<Rightarrow> ('h, 'a) hio \<Rightarrow> 'n \<times> 'h \<Rightarrow> (transport_error + 'a) \<times> 'n \<times> 'h" where
  "grpc_call N handler s =
     (case N (fst s) of
        (NotSent status, n) \<Rightarrow> (Inl (transportError status), (n, snd s))
      | (AnswerLost status, n) \<Rightarrow> (case handler (snd s) of (_, _, h) \<Rightarrow> (Inl (transportError status), (n, h)))
      | (Delivered, n) \<Rightarrow>
          (case handler (snd s) of
             (Inl e, _, h) \<Rightarrow> (Inl (transportError (rpcError e)), (n, h))
           | (Inr a, _, h) \<Rightarrow> (Inr a, (n, h))))"

text \<open>The answers the client reads.\<close>

definition controller_observe ::
  "(string \<Rightarrow> int option) \<Rightarrow> ('h, observation) hio \<Rightarrow> ('h, observation option) hio" where
  "controller_observe dateParse m =
     h_bind m (\<lambda>ob.
     h_bind (controller_wireTimestamp dateParse (onObservedAt ob)) (\<lambda>t.
     h_return (Some (ob\<lparr>onObservedAt := client_timestamp t\<rparr>))))"

text \<open>The Proxmox adapter as the provider of the workflows.\<close>

definition proxmox_provider :: "(string \<Rightarrow> int option) \<Rightarrow> 'n rpc_library \<Rightarrow> 'h px \<Rightarrow> ('n \<times> 'h) provider" where
  "proxmox_provider dateParse N X =
     \<lparr>pvMutate = (\<lambda>call. grpc_call N (h_bind (px_mutate X (wire_mutation dateParse call)) (\<lambda>r. h_return (Some r)))),
      pvGetTask = (\<lambda>c ref. grpc_call N (getTask X c ref)),
      pvObserve = (\<lambda>req. grpc_call N (controller_observe dateParse (observeVm X req))),
      pvListSnapshots = (\<lambda>req. grpc_call N
        (h_bind (listVmSnapshots X req) (\<lambda>ss. h_return (map (\<lambda>s. Some (psReference s)) ss))))\<rparr>"

subsection \<open>What crosses the boundary\<close>

lemma status_crosses: "transportError (status_of c) = ProviderTransportError c (c \<noteq> ProtocolError)"
  by (cases c) (simp_all add: transportError_def transport_error_of_def)

lemma transport_error_crosses:
  assumes "as_transport_error e = Some t" and "transportRetryable t \<longleftrightarrow> transportCode t \<noteq> ProtocolError"
  shows "transportError (rpcError e) = t"
proof -
  have "rpcError e = status_of (transportCode t)" by (simp add: rpcError_def assms(1))
  then have "transportError (rpcError e) = ProviderTransportError (transportCode t) (transportCode t \<noteq> ProtocolError)"
    by (simp only: status_crosses)
  also have "\<dots> = ProviderTransportError (transportCode t) (transportRetryable t)" using assms(2) by blast
  finally show ?thesis by simp
qed

lemma refusal_crosses [simp]: "transportError (rpcError protocol_refusal) = transport_error_of ProtocolError (Some False)"
  by (rule transport_error_crosses) (simp_all add: protocol_refusal_def transport_error_of_def)

lemma language_error_crosses: "transportError (rpcError LanguageError) = transport_error_of ProtocolError (Some False)"
  by (simp add: rpcError_def transportError_def transport_error_of_def)

lemma millis_cross: "0 \<le> ms \<Longrightarrow> millis_of_wire (wire_of_millis ms) = ms"
  by (simp add: millis_of_wire_def wire_of_millis_def js_remainder_def sgn_if)

end
