(* ===== verification/Proxmox_Properties.thy ===== *)
theory Proxmox_Properties
  imports Proxmox_Safety Provider_Grpc Workflow_Properties
begin

section \<open>Properties of the Proxmox adapter\<close>

subsection \<open>A sample hypervisor\<close>

text \<open>
  An adapter with one template and the reserved range 910000 to 910099, over a hypervisor given by a function
  from calls to answers, whose state counts the requests.
\<close>

definition sample_px :: "(http_call \<Rightarrow> nat \<Rightarrow> http_answer) \<Rightarrow> nat px" where
  "sample_px answer =
     \<lparr>pxConfig = \<lparr>pxEndpoint = ''https://pve'', pxProviderProfileId = ''fake'', pxNode = ''pve'', pxTemplateVmid = 9000,
        pxImageId = ''ubuntu-24'', pxStorage = ''local'', pxBridge = ''vmbr1'', pxNetworkId = ''lab-net'',
        pxIpv4Cidr = ''10.20.0.0/24'', pxIpv4Gateway = ''10.20.0.1'', pxResourceIdMinimum = 910000,
        pxResourceIdMaximum = 910099, pxProjectId = sample_project, pxEnvironment = ''lab'',
        pxManagedBy = ''private-cloud-control-plane''\<rparr>,
      pxIp = \<lparr>ipParse = (\<lambda>s. Some s), ipParseCIDR = (\<lambda>s. Some (s, 24)), ipIsV4 = (\<lambda>_. True), ipMatch = (\<lambda>_ _ _. True)\<rparr>,
      pxUrlProtocol = (\<lambda>_. Some ''https:''), pxSha256Hex = (\<lambda>_. ''00000005''), pxNow = toISOString 0,
      pxHypervisor = (\<lambda>c n. (answer c n, Suc n))\<rparr>"

definition answer_data :: "json \<Rightarrow> http_answer" where
  "answer_data v = Body (JObj [(''data'', v)])"

definition sample_markers :: ownership_markers where
  "sample_markers = \<lparr>managedBy = ''private-cloud-control-plane'', environment = ''lab'', omProjectId = sample_project,
     omInstanceId = sample_instance, omCreateOperationId = sample_operation\<rparr>"

text \<open>A hypervisor with one stopped machine that carries the markers.\<close>

definition owned_answer :: "http_call \<Rightarrow> nat \<Rightarrow> http_answer" where
  "owned_answer c n =
     (if htMethod c \<noteq> GET then answer_data (JStr ''UPID:1'')
      else if htPath c = ''/nodes/pve/qemu/910005/config''
      then answer_data (JObj [(''description'', JStr (ownershipDescription sample_markers)), (''scsi0'', JStr ''local:vm,size=20G'')])
      else if htPath c = ''/nodes/pve/qemu/910005/status/current'' then answer_data (JObj [(''status'', JStr ''stopped'')])
      else HttpStatus 404)"

definition sample_request :: "string \<Rightarrow> instance_request" where
  "sample_request step = \<lparr>irContext = call_context_of (sample_claim Starting) step, irProviderResourceId = ''910005'',
     irOwnershipMarkers = sample_markers\<rparr>"

lemma sample_constructed: "construct_provider (sample_px answer) = Inr ()"
  by (simp add: construct_provider_def sample_px_def MAXIMUM_SAFE_INTEGER_def Let_def)

lemma sample_number: "show_int 910005 = ''910005''"
proof -
  have "char_of (57 :: nat) = CHR ''9''" "char_of (49 :: nat) = CHR ''1''" "char_of (48 :: nat) = CHR ''0''"
    "char_of (53 :: nat) = CHR ''5''" by code_simp+
  then show ?thesis by (simp add: show_int_def show_nat.simps digit_char_def)
qed

lemma sample_node: "encodeURIComponent ''pve'' = ''pve''"
  by code_simp

lemma sample_paths [simp]:
  "vm_path (sample_px answer) 910005 = ''/nodes/pve/qemu/910005''"
  "node_path (sample_px answer) = ''/nodes/pve''"
  by (simp_all add: vm_path_def node_path_def sample_px_def sample_number sample_node)

lemma request_data:
  assumes "answer c n = answer_data v" and "is_defined v"
  shows "proxmox_request (pxHypervisor (sample_px answer)) c n = (Inr v, [(c, answer_data v)], Suc n)"
  using assms by (simp add: proxmox_request_def sample_px_def answer_data_def)

lemma sample_fields:
  "ccProviderProfileId (irContext (sample_request step)) = ''fake''"
  "ccProjectId (irContext (sample_request step)) = sample_project"
  "ccInstanceId (irContext (sample_request step)) = sample_instance"
  "ccOperationId (irContext (sample_request step)) = sample_operation"
  "ccCorrelationId (irContext (sample_request step)) = sample_uuid 5"
  "ccRequestId (irContext (sample_request step)) = sample_operation @ '':'' @ step"
  by (simp_all add: sample_request_def call_context_of_def sample_command_def sample_create_data_def capProviderProfileId_def data_field_def text_of_def Let_def payload_def create_json_def get_field_def)

lemma sample_checks:
  "context_allowed (sample_px answer) (irContext (sample_request step))"
  "markers_allowed (sample_px answer) (irContext (sample_request step)) sample_markers"
  "in_range (pxConfig (sample_px answer)) 910005"
  "js_integer (js_number ''910005'') = Some 910005"
proof -
  have texts: "sample_uuid n \<noteq> []" for n by (simp add: sample_uuid_def)
  show "context_allowed (sample_px answer) (irContext (sample_request step))"
    by (simp add: context_allowed_def sample_fields sample_px_def sample_operation_def sample_instance_def texts)
  show "markers_allowed (sample_px answer) (irContext (sample_request step)) sample_markers"
    by (simp add: markers_allowed_def sample_fields sample_px_def sample_markers_def)
  show "in_range (pxConfig (sample_px answer)) 910005" by (simp add: in_range_def sample_px_def)
  have digits: "show_nat 910005 = ''910005''" using sample_number by (simp add: show_int_def)
  have "js_number ''910005'' = Some (of_nat 910005)" by (rule js_number_show_nat [of 910005, unfolded digits])
  then show "js_integer (js_number ''910005'') = Some 910005" by (simp add: js_integer_def)
qed

definition config_exchange :: exchange where
  "config_exchange = (\<lparr>htMethod = GET, htPath = ''/nodes/pve/qemu/910005/config'', htBody = None\<rparr>,
     answer_data (JObj [(''description'', JStr (ownershipDescription sample_markers)), (''scsi0'', JStr ''local:vm,size=20G'')]))"

definition status_exchange :: exchange where
  "status_exchange = (\<lparr>htMethod = GET, htPath = ''/nodes/pve/qemu/910005/status/current'', htBody = None\<rparr>,
     answer_data (JObj [(''status'', JStr ''stopped'')]))"

lemma sample_marked: "marked sample_markers"
  by (simp add: marked_def sample_markers_def sample_project_def sample_instance_def sample_operation_def sample_uuid_def)

lemma owned_answers:
  "owned_answer (fst config_exchange) n = snd config_exchange"
  "owned_answer (fst status_exchange) n = snd status_exchange"
  by (simp_all add: owned_answer_def config_exchange_def status_exchange_def)

text \<open>A machine of any configuration that carries the markers.\<close>

lemma described_machine_run:
  assumes "answer \<lparr>htMethod = GET, htPath = ''/nodes/pve/qemu/910005/config'', htBody = None\<rparr> 0 = answer_data config"
    and "is_defined config" "json_truthy config" and "optional_member config ''description'' = JStr (ownershipDescription sample_markers)"
    and "k 910005 sample_markers config 1 = (r, l, n)"
  shows "owned_machine (sample_px answer) (sample_request step) k 0 =
    (r, (\<lparr>htMethod = GET, htPath = ''/nodes/pve/qemu/910005/config'', htBody = None\<rparr>, answer_data config) # l, n)"
proof -
  let ?c = "\<lparr>htMethod = GET, htPath = ''/nodes/pve/qemu/910005/config'', htBody = None\<rparr>"
  have "vmConfig (sample_px answer) 910005 True 0 = (Inr config, [(?c, answer_data config)], 1)"
    using request_data [of answer ?c 0 config] assms(1,2)
    by (simp add: vmConfig_def px_get_def h_catch_def)
  then have owned: "requireOwnedConfig (sample_px answer) 910005 sample_markers 0 = (Inr config, [(?c, answer_data config)], 1)"
    using assms(3,4) by (simp add: requireOwnedConfig_def h_bind_def [of "vmConfig (sample_px answer) 910005 True"]
        parse_description [OF sample_marked] parsed_match h_return_def)
  have rid: "irProviderResourceId (sample_request step) = ''910005''" "irOwnershipMarkers (sample_request step) = sample_markers"
    by (simp_all add: sample_request_def)
  show ?thesis
    using assms(5) owned
    by (simp add: owned_machine_def run_assertContext run_assertOwnership run_assertVmid sample_checks rid
        MAXIMUM_SAFE_INTEGER_def h_bind_def [of "requireOwnedConfig (sample_px answer) 910005 sample_markers"])
qed

lemma sample_machine_run:
  assumes "answer (fst config_exchange) 0 = snd config_exchange"
    and "k 910005 sample_markers (JObj [(''description'', JStr (ownershipDescription sample_markers)), (''scsi0'', JStr ''local:vm,size=20G'')]) 1 = (r, l, n)"
  shows "owned_machine (sample_px answer) (sample_request step) k 0 = (r, config_exchange # l, n)"
  unfolding config_exchange_def
  by (rule described_machine_run)
    (use assms in \<open>simp_all add: config_exchange_def is_defined_def optional_member_def get_field_def\<close>)

lemma sample_start_run:
  "px_mutate (sample_px owned_answer) (StartInstance (sample_request ''start'')) 0 =
     (Inr (px_accepted (sample_px owned_answer) 910005 ''UPID:1''),
      [config_exchange, status_exchange] @
        (\<lparr>htMethod = POST, htPath = ''/nodes/pve/qemu/910005/status/start'', htBody = Some []\<rparr>, answer_data (JStr ''UPID:1'')) # [], 3)"
proof -
  let ?X = "sample_px owned_answer" and ?state = "JObj [(''status'', JStr ''stopped'')]"
    and ?get = "\<lparr>htMethod = GET, htPath = ''/nodes/pve/qemu/910005/status/current'', htBody = None\<rparr>"
    and ?post = "\<lparr>htMethod = POST, htPath = ''/nodes/pve/qemu/910005/status/start'', htBody = Some []\<rparr>"
  have status: "proxmox_request (pxHypervisor ?X) ?get (Suc 0) = (Inr ?state, [status_exchange], 2)"
    using request_data [of owned_answer ?get 1 ?state]
    by (simp add: owned_answer_def is_defined_def status_exchange_def)
  have post: "proxmox_request (pxHypervisor ?X) ?post 2 = (Inr (JStr ''UPID:1''), [(?post, answer_data (JStr ''UPID:1''))], 3)"
    using request_data [of owned_answer ?post 2 "JStr ''UPID:1''"] by (simp add: owned_answer_def is_defined_def)
  show ?thesis
    unfolding px_mutate.simps startInstance_def append_Cons append_Nil
  proof (rule sample_machine_run)
    show "owned_answer (fst config_exchange) 0 = snd config_exchange" by (rule owned_answers)
  qed (simp add: h_bind_def currentStatus_def px_get_def status px_send_def post read_member_def get_field_def
      accepted_task_def task_text_def h_return_def)
qed

subsection \<open>Only proven machines\<close>

text \<open>
  C33. The blast radius of the adapter: whatever the hypervisor answers, each request of an operation that changes
  something is within the boundary of the laboratory and touches a machine of the reserved range only. It is either the clone of the
  template that a creation makes, or a request on a machine whose configuration was read before, in the same operation, and
  carried exactly the markers of the call.
\<close>

theorem proxmox_changes_only_proven_machines:
  assumes "construct_provider X = Inr ()" and "px_mutate X call h = (r, l1 @ e # l2, h')" and "htMethod (fst e) \<noteq> GET"
  shows "\<exists>vmid. 910000 \<le> vmid \<and> vmid \<le> 910099 \<and> context_allowed X (call_context call) \<and>
    markers_allowed X (call_context call) (call_markers call) \<and>
    ((machine_request call = None \<and> (\<exists>host. clones X vmid host (call_markers call) (fst e))) \<or>
     (on_machine X vmid (fst e) \<and> (\<exists>evidence \<in> set l1. proves_owned X vmid (call_markers call) evidence)))"
proof (cases "machine_request call")
  case None
  then obtain c img flavor b m where call: "call = SubmitCreateInstance c img flavor b m" by (cases call) auto
  with assms create_change_is_a_clone [of X c img b m h r l1 e l2 h'] obtain vmid
    where "context_allowed X c" "markers_allowed X c m" "in_range (pxConfig X) vmid" "clones X vmid (brHostname b) m (fst e)"
    by auto
  with constructed_range [OF assms(1)] call None show ?thesis by auto
next
  case (Some req)
  from machine_change_is_proven [OF Some assms(2,3)] constructed_range [OF assms(1)] show ?thesis by blast
qed

theorem proxmox_changes_only_proven_machines_witness:
  "\<exists>vmid. 910000 \<le> vmid \<and> vmid \<le> 910099 \<and>
     on_machine (sample_px owned_answer) vmid \<lparr>htMethod = POST, htPath = ''/nodes/pve/qemu/910005/status/start'', htBody = Some []\<rparr> \<and>
     (\<exists>evidence \<in> {config_exchange, status_exchange}. proves_owned (sample_px owned_answer) vmid sample_markers evidence)"
  using proxmox_changes_only_proven_machines [OF sample_constructed sample_start_run] by (auto simp: sample_request_def)

subsection \<open>Operations after the creation\<close>

lemma refused_call:
  assumes "omCreateOperationId (call_markers call) \<noteq> ccOperationId (call_context call)"
  shows "px_mutate X call = h_throw protocol_refusal"
proof (cases "machine_request call")
  case None
  then obtain c img flavor b m where "call = SubmitCreateInstance c img flavor b m" by (cases call) auto
  with assms show ?thesis
    by (cases "context_allowed X c") (auto simp: submitCreateInstance_def run_assertContext run_assertOwnership markers_allowed_def)
next
  case (Some req)
  from machine_operation [OF Some] obtain k where "px_mutate X call = owned_machine X req k" by blast
  moreover have "\<not> markers_allowed X (irContext req) (irOwnershipMarkers req)"
    using assms machine_request_of_call [OF Some] by (simp add: markers_allowed_def)
  ultimately show ?thesis by (simp add: owned_machine_refused)
qed

lemma wire_mutation_context [simp]: "call_context (wire_mutation dp call) = call_context call"
  by (cases call) simp_all

lemma wire_mutation_markers [simp]: "call_markers (wire_mutation dp call) = call_markers call"
  by (cases call) simp_all

lemma instance_request_present:
  "truthy (cwProviderResourceId w) \<Longrightarrow> instance_request_of cap w step k =
     k \<lparr>irContext = call_context_of w step, irProviderResourceId = the (cwProviderResourceId w), irOwnershipMarkers = ownership cap w\<rparr>"
  by (simp add: instance_request_of_def requiredResource_def)

text \<open>The mutation stage of every executor on an existing instance is one call for the claim.\<close>

lemma mutates_intro:
  "execute X w = mutate cap X w call a s \<Longrightarrow> call_for cap w call \<Longrightarrow>
     \<exists>call a s. call_for cap w call \<and> execute X w = mutate cap X w call a s"
  by blast

lemma execute_mutates:
  assumes "(cap, execute) \<in> set workflow_executors" and "capAction cap \<noteq> CreateInstance"
    and "truthy (cwProviderResourceId w)" and "cwStage w \<in> set (capMutationStages cap)"
  shows "\<exists>call a s. call_for cap w call \<and> execute X w = mutate cap X w call a s"
proof -
  note present = instance_request_present [OF assms(3)]
  have power: "\<exists>call a s. call_for power_capability w call \<and> execute_power X w = mutate power_capability X w call a s"
    if "cwStage w = SubmittingPower"
    by (rule mutates_intro, simp add: that execute_power_def submitPower_def present Let_def)
      (auto simp: that call_checks)
  have resize: "\<exists>call a s. call_for resize_capability w call \<and> execute_resize X w = mutate resize_capability X w call a s"
    if "cwStage w = SubmittingResize"
    by (rule mutates_intro, simp add: that execute_resize_def submitResize_def present Let_def)
      (auto simp: that call_checks)
  have snapshots: "\<exists>call a s. call_for (snapshot_capability sa) w call \<and>
      execute_snapshot sa X w = mutate (snapshot_capability sa) X w call a s" if "cwStage w = SubmittingSnapshot" for sa
    by (rule mutates_intro, simp add: that execute_snapshot_def submitSnapshot_def present Let_def)
      (cases sa; auto simp: that call_checks)
  have retain: "\<exists>call a s. call_for retain_capability w call \<and> execute_retain X w = mutate retain_capability X w call a s"
    if "cwStage w = SubmittingRetention"
    by (rule mutates_intro, simp add: that execute_retain_def submitRetention_def present)
      (auto simp: that call_checks)
  have purge: "\<exists>call a s. call_for purge_capability w call \<and> execute_purge X w = mutate purge_capability X w call a s"
    if "cwStage w = SubmittingPurge"
    by (rule mutates_intro, simp add: that execute_purge_def submitPurge_def present)
      (auto simp: that call_checks)
  show ?thesis
    using assms(1,2,4) power resize snapshots retain purge unfolding workflow_executors_def
    by (auto simp: set_mutation_stages)
qed

lemma provider_call_refused:
  assumes "px_mutate P (wire_mutation dp call) h = (Inl protocol_refusal, l, h')" and "N n = (Delivered, n')"
  shows "pvMutate (proxmox_provider dp N P) call (n, h) = (Inl (transport_error_of ProtocolError (Some False)), (n', h'))"
  using assms by (simp add: proxmox_provider_def grpc_call_def h_bind_def)

text \<open>Reading an existing machine is refused in the same way as changing it.\<close>

lemma reads_refused:
  assumes "omCreateOperationId (irOwnershipMarkers req) \<noteq> ccOperationId (irContext req)" and "N n = (Delivered, n')"
  shows "pvObserve (proxmox_provider dp N P) req (n, h) = (Inl (transport_error_of ProtocolError (Some False)), (n', h))"
    and "pvListSnapshots (proxmox_provider dp N P) req (n, h) = (Inl (transport_error_of ProtocolError (Some False)), (n', h))"
proof -
  have no: "\<not> markers_allowed P (irContext req) (irOwnershipMarkers req)" using assms(1) by (simp add: markers_allowed_def)
  have "observeVm P req = h_throw protocol_refusal"
    by (cases "context_allowed P (irContext req)") (simp_all add: observeVm_def run_assertContext run_assertOwnership no)
  then show "pvObserve (proxmox_provider dp N P) req (n, h) = (Inl (transport_error_of ProtocolError (Some False)), (n', h))"
    using assms(2) by (simp add: proxmox_provider_def grpc_call_def controller_observe_def h_throw_def h_bind_def)
  have "listVmSnapshots P req = h_throw protocol_refusal"
    using no by (simp add: listVmSnapshots_def owned_machine_refused)
  then show "pvListSnapshots (proxmox_provider dp N P) req (n, h) = (Inl (transport_error_of ProtocolError (Some False)), (n', h))"
    using assms(2) by (simp add: proxmox_provider_def grpc_call_def h_throw_def h_bind_def)
qed

text \<open>A step whose transport reports a protocol error closes the workflow as failed for good.\<close>

definition failed_for_good :: "claimed_workflow \<Rightarrow> workflow_db \<Rightarrow> bool" where
  "failed_for_good w db \<longleftrightarrow> (\<exists>row. lookup_by wfOperationId (operationId (cwCommand w)) (workflows db) = Some row \<and>
    wfStatus row = ''failed'' \<and>
    wfFailure row = Some (''permanent'', ''PROVIDER_PROTOCOL_ERROR'', ''The create workflow could not continue safely.''))"

lemma protocol_error_closes:
  assumes "execute X w (p, db) = (Inl (Transport (transport_error_of ProtocolError (Some False))), (p1, db))"
  shows "run_claimed cap execute X w (p, db) = finishFailure cap X w (plain_failure ''permanent'' ''PROVIDER_PROTOCOL_ERROR''
      ''The create workflow could not continue safely.'') CompletionFailed (p1, db)"
  using run_transport [of execute, OF assms]
  by (simp add: handleProviderError_def transport_error_of_def fail_def)

lemma protocol_error_fails:
  assumes "execute X w (p, db) = (Inl (Transport (transport_error_of ProtocolError (Some False))), (p1, db))"
    and "run_claimed cap execute X w (p, db) = (Inr (), (p', db'))"
  shows "p' = p1 \<and> failed_for_good w db'"
  using finishFailure_row [OF assms(2) [unfolded protocol_error_closes [of execute, OF assms(1)]]]
  by (simp add: plain_failure_def failed_for_good_def)

lemma mutate_transport:
  assumes "pvMutate (cxProvider X) call p = (Inl e, p1)"
  shows "mutate cap X w call a s (p, db) = (Inl (Transport e), (p1, db))"
  using assms by (simp add: mutate_def io_bind_def io_call_def)

text \<open>The stages of a workflow on an existing machine that call the adapter for that machine.\<close>

fun machine_stages :: "workflow_action \<Rightarrow> workflow_stage list" where
  "machine_stages PowerInstance = [SubmittingPower, ObservingPower]"
| "machine_stages ResizeInstance = [SubmittingResize, ObservingResize]"
| "machine_stages CreateSnapshot = [SubmittingSnapshot, ObservingSnapshot]"
| "machine_stages RollbackSnapshot = [SubmittingSnapshot, ObservingSnapshot]"
| "machine_stages DeleteSnapshot = [SubmittingSnapshot, ObservingSnapshot]"
| "machine_stages RetainInstance = [SubmittingRetention, ObservingRetention]"
| "machine_stages PurgeInstance = [VerifyingPurge, SubmittingPurge, ObservingPurge]"
| "machine_stages _ = []"

lemma execute_reads:
  assumes "(cap, execute) \<in> set workflow_executors" and "cwStage w \<in> set (machine_stages (capAction cap))"
    and "cwStage w \<notin> set (capMutationStages cap)" and "truthy (cwProviderResourceId w)"
    and "capCreateOperationId cap (cwCommand w) \<noteq> operationId (cwCommand w)"
    and "cxProvider X = proxmox_provider dateParse N P" and "N n = (Delivered, n1)"
  shows "execute X w ((n, h), db) = (Inl (Transport (transport_error_of ProtocolError (Some False))), ((n1, h), db))"
proof -
  have other: "omCreateOperationId (ownership c w) \<noteq> ccOperationId (call_context_of w step)"
    if "capCreateOperationId c (cwCommand w) = capCreateOperationId cap (cwCommand w)" for c step
    using assms(5) that by (simp add: ownership_def call_context_of_def Let_def)
  have observed: "observe_instance c X w step k ((n, h), db) =
      (Inl (Transport (transport_error_of ProtocolError (Some False))), ((n1, h), db))"
    if "capCreateOperationId c (cwCommand w) = capCreateOperationId cap (cwCommand w)" for c step k
    unfolding observe_instance_def instance_request_present [OF assms(4)] assms(6)
    by (simp add: io_bind_def io_call_def reads_refused(1) [where N = N and n = n and n' = n1, OF _ assms(7)] other [OF that])
  have listed: "instance_request_of c w step (\<lambda>req. io_bind (io_call (pvListSnapshots (cxProvider X) req)) k) ((n, h), db) =
      (Inl (Transport (transport_error_of ProtocolError (Some False))), ((n1, h), db))"
    if "capCreateOperationId c (cwCommand w) = capCreateOperationId cap (cwCommand w)" for c step and k :: "_ \<Rightarrow> (_, unit) io"
    unfolding instance_request_present [OF assms(4)] assms(6)
    by (simp add: io_bind_def io_call_def reads_refused(2) [where N = N and n = n and n' = n1, OF _ assms(7)] other [OF that])
  consider "cap = create_capability" | "cap = power_capability" "execute = execute_power"
    | "cap = resize_capability" "execute = execute_resize" | a where "cap = snapshot_capability a" "execute = execute_snapshot a"
    | "cap = retain_capability" "execute = execute_retain" | "cap = purge_capability" "execute = execute_purge"
    using assms(1) unfolding workflow_executors_def by auto
  then show ?thesis
  proof cases
    case 1
    with assms(2) show ?thesis by (simp add: create_capability_def)
  next
    case 2
    with assms(2,3) have "cwStage w = ObservingPower" by (auto simp: power_capability_def)
    with 2 show ?thesis by (simp add: execute_power_def observePower_def Let_def observed)
  next
    case 3
    with assms(2,3) have "cwStage w = ObservingResize" by (auto simp: resize_capability_def)
    with 3 show ?thesis by (simp add: execute_resize_def observeResize_def observed)
  next
    case (4 a)
    with assms(2,3) have "cwStage w = ObservingSnapshot" by (cases a) (auto simp: snapshot_capability_def)
    with 4 show ?thesis by (simp add: execute_snapshot_def observeSnapshot_def Let_def listed)
  next
    case 5
    with assms(2,3) have "cwStage w = ObservingRetention" by (auto simp: retain_capability_def)
    with 5 show ?thesis by (simp add: execute_retain_def observeRetention_def observed)
  next
    case 6
    with assms(2,3) have "cwStage w = VerifyingPurge \<or> cwStage w = ObservingPurge" by (auto simp: purge_capability_def)
    with 6 show ?thesis by (auto simp: execute_purge_def verifyOwnership_def observeAbsence_def observed)
  qed
qed

lemma execute_refused:
  assumes "(cap, execute) \<in> set workflow_executors" and "cwStage w \<in> set (machine_stages (capAction cap))"
    and "capCreateOperationId cap (cwCommand w) \<noteq> operationId (cwCommand w)"
    and "cxProvider X = proxmox_provider dateParse N P" and "N n = (Delivered, n1)"
  shows "\<exists>n2. execute X w ((n, h), db) = (Inl (Transport (transport_error_of ProtocolError (Some False))), ((n2, h), db))"
proof -
  have later: "capAction cap \<noteq> CreateInstance" using assms(2) by auto
  show ?thesis
  proof (cases "truthy (cwProviderResourceId w)")
    case True
    show ?thesis
    proof (cases "cwStage w \<in> set (capMutationStages cap)")
      case mutating: True
      from execute_mutates [OF assms(1) later True mutating] obtain call a s
        where call: "call_for cap w call" "execute X w = mutate cap X w call a s" by blast
      have "px_mutate P (wire_mutation dateParse call) h = (Inl protocol_refusal, [], h)"
        using refused_call [of "wire_mutation dateParse call" P] call(1) assms(3)
        by (simp add: call_for_def ownership_def call_context_of_def Let_def h_throw_def)
      from provider_call_refused [OF this, of N, OF assms(5)]
      have "pvMutate (cxProvider X) call (n, h) = (Inl (transport_error_of ProtocolError (Some False)), (n1, h))"
        unfolding assms(4) .
      from mutate_transport [of X call, OF this] show ?thesis unfolding call(2) by blast
    next
      case False
      from execute_reads [OF assms(1,2) False True assms(3-5)] show ?thesis by blast
    qed
  next
    case False
    then have absent: "instance_request_of c w step k = io_throw (Transport (transport_error_of ProtocolError (Some False)))"
      for c step and k :: "instance_request \<Rightarrow> ('a \<times> 'b, unit) io"
      by (simp add: instance_request_of_def requiredResource_def)
    have "execute X w ((n, h), db) = (Inl (Transport (transport_error_of ProtocolError (Some False))), ((n, h), db))"
      using assms(1,2) later unfolding workflow_executors_def
      by (auto simp: capability_actions execute_power_def submitPower_def observePower_def execute_resize_def submitResize_def observeResize_def
          execute_snapshot_def submitSnapshot_def observeSnapshot_def execute_retain_def submitRetention_def observeRetention_def
          execute_purge_def submitPurge_def verifyOwnership_def observeAbsence_def observe_instance_def
          absent io_throw_def Let_def)
    then show ?thesis by blast
  qed
qed

text \<open>
  C34. With the Proxmox adapter behind gRPC, an operation on an existing machine is refused. The adapter demands that
  the markers of a call name the operation of the call itself as the creating one; a later operation has an id of its
  own. In every stage of a power, resize, snapshot, retention or purge workflow that calls the adapter for the machine,
  when that call is delivered and the worker still holds its lease, no request reaches the hypervisor and the
  workflow is closed as failed for good. A purge is refused in this way when it verifies the ownership.
\<close>

theorem proxmox_refuses_later_operations:
  assumes "(cap, execute) \<in> set workflow_executors" and "cwStage w \<in> set (machine_stages (capAction cap))"
    and "capCreateOperationId cap (cwCommand w) \<noteq> operationId (cwCommand w)"
    and "cxProvider X = proxmox_provider dateParse N P" and "N n = (Delivered, n1)"
    and "assertLease (cxEnv X) (fence_of X w) db = Inr leased" and "new_identifiers (cxEnv X) db"
  shows "\<exists>n' db'. run_claimed cap execute X w ((n, h), db) = (Inr (), ((n', h), db')) \<and> failed_for_good w db'"
proof -
  from execute_refused [OF assms(1-5)] obtain n'
    where thrown: "execute X w ((n, h), db) = (Inl (Transport (transport_error_of ProtocolError (Some False))), ((n', h), db))"
    by blast
  from finishFailure_runs [OF assms(6,7)] obtain db' where "run_claimed cap execute X w ((n, h), db) = (Inr (), ((n', h), db'))"
    unfolding protocol_error_closes [of execute, OF thrown] by blast
  with protocol_error_fails [of execute, OF thrown this] show ?thesis by blast
qed

text \<open>A power command on the sample instance, created by another operation.\<close>

definition sample_power_claim :: claimed_workflow where
  "sample_power_claim = (sample_claim SubmittingPower)\<lparr>cwAction := PowerInstance,
     cwProviderResourceId := Some ''910005'',
     cwCommand := sample_command\<lparr>schemaName := ''instance.power.requested'',
       data := PowerRequested ''start'' \<lparr>providerProfileId = ''fake'', createOperationId = sample_uuid 70\<rparr>\<rparr>\<rparr>"

definition proxmox_ctx :: "(http_call \<Rightarrow> nat \<Rightarrow> http_answer) \<Rightarrow> (unit \<times> nat) ctx" where
  "proxmox_ctx answer = \<lparr>cxEnv = sample_env_at 60 3000, cxWorkerId = ''worker-a'',
     cxProvider = proxmox_provider (\<lambda>_. Some 0) (\<lambda>n. (Delivered, n)) (sample_px answer)\<rparr>"

lemma proxmox_env: "cxEnv (proxmox_ctx answer) = sample_env_at 60 3000"
  by (simp add: proxmox_ctx_def)

lemma proxmox_settles:
  assumes "operationId (cwCommand w) = sample_operation" and "cwFencingToken w = 1"
  shows "\<exists>db'. finishFailure cap (proxmox_ctx answer) w f st (p, sample_claimed) = (Inr (), (p, db'))"
proof -
  have fence: "fence_of (proxmox_ctx answer) w = sample_fence"
    using assms by (simp add: fence_of_def sample_fence_def proxmox_ctx_def)
  show ?thesis
    unfolding finishFailure_def fence proxmox_env
    by (rule io_write_runs, rule sample_complete_ok) (simp add: failed_event_def envelope_def Let_def sample_env_at_def)
qed

theorem proxmox_refuses_later_operations_witness:
  "\<exists>db'. run_claimed power_capability execute_power (proxmox_ctx owned_answer) sample_power_claim (((), 0), sample_claimed) =
     (Inr (), (((), 0), db')) \<and> failed_for_good sample_power_claim db'"
proof -
  let ?X = "proxmox_ctx owned_answer" and ?w = sample_power_claim
  have ex: "(power_capability, execute_power) \<in> set workflow_executors" by (simp add: workflow_executors_def)
  have stage: "cwStage ?w \<in> set (machine_stages (capAction power_capability))"
    by (simp add: sample_power_claim_def power_capability_def)
  have other: "capCreateOperationId power_capability (cwCommand ?w) \<noteq> operationId (cwCommand ?w)"
  proof -
    have "capCreateOperationId power_capability (cwCommand ?w) = sample_uuid 70"
      by (simp add: sample_power_claim_def power_capability_def routed_create_operation_def text_of_def data_field_def
          payload_def routing_fields_def get_field_def)
    moreover have "sample_uuid 70 \<noteq> sample_operation" by code_simp
    ultimately show ?thesis by (simp add: sample_power_claim_def)
  qed
  have provider: "cxProvider ?X = proxmox_provider (\<lambda>_. Some 0) (\<lambda>n. (Delivered, n)) (sample_px owned_answer)"
    by (simp add: proxmox_ctx_def)
  have fence: "fence_of ?X ?w = sample_fence"
    by (simp add: fence_of_def sample_fence_def proxmox_ctx_def sample_power_claim_def sample_claim_def)
  obtain leased where lease: "assertLease (cxEnv ?X) (fence_of ?X ?w) sample_claimed = Inr leased"
    using sample_leased by (auto simp: fence proxmox_env)
  have new: "new_identifiers (cxEnv ?X) sample_claimed" using sample_new_identifiers by (simp add: proxmox_env)
  from proxmox_refuses_later_operations [OF ex stage other provider _ lease new] show ?thesis by auto
qed

subsection \<open>A creation whose answer cannot be read\<close>

definition create_call :: "claimed_workflow \<Rightarrow> mutation_call" where
  "create_call w = SubmitCreateInstance (call_context_of w ''create'') (text_of (data_field (cwCommand w) ''imageId''))
     (text_of (data_field (cwCommand w) ''flavorId'')) (build_request_of (cwCommand w)) (ownership create_capability w)"

lemma execute_submits:
  "cwStage w = SubmittingCreate \<Longrightarrow> execute_create X w = mutate create_capability X w (create_call w) PollingCreate Configuring"
  by (simp add: execute_create_def submitCreate_def create_call_def)

text \<open>
  C35. The hypervisor was asked to clone, and the body of its answer could not be read, so the machine may exist. The
  adapter reports this as a protocol error, and the workflow is closed as failed for good: not parked for manual
  review, as every other unknown outcome of a mutation is.
\<close>

theorem unreadable_clone_counts_as_refused:
  assumes "cwStage w = SubmittingCreate" and "cxProvider X = proxmox_provider dateParse N P"
    and "N n = (Delivered, n1)" and "px_mutate P (create_call w) h = (r, l @ [(c, InvalidBody)], h1)"
    and "htMethod c \<noteq> GET"
    and "run_claimed create_capability execute_create X w ((n, h), db) = (Inr (), ((n', h'), db'))"
  shows "h' = h1 \<and> (\<exists>vmid host. clones P vmid host (ownership create_capability w) c) \<and>
    (\<exists>row. lookup_by wfOperationId (operationId (cwCommand w)) (workflows db') = Some row \<and>
       wfStatus row = ''failed'' \<and>
       wfFailure row = Some (''permanent'', ''PROVIDER_PROTOCOL_ERROR'', ''The create workflow could not continue safely.''))"
proof -
  note run = assms(4) [unfolded create_call_def px_mutate.simps]
  have r: "r = Inl protocol_refusal" by (rule ends_unreadD [OF ends_create run])
  have clone: "\<exists>vmid host. clones P vmid host (ownership create_capability w) c"
    using create_change_is_a_clone [OF run] assms(5) by auto
  have "px_mutate P (wire_mutation dateParse (create_call w)) h = (Inl protocol_refusal, l @ [(c, InvalidBody)], h1)"
    using assms(4) r by (simp add: create_call_def)
  from provider_call_refused [of P dateParse "create_call w" h, OF this, of N n, OF assms(3)]
  have "pvMutate (cxProvider X) (create_call w) (n, h) = (Inl (transport_error_of ProtocolError (Some False)), (n1, h1))"
    unfolding assms(2) .
  from mutate_transport [of X "create_call w", OF this]
  have "execute_create X w ((n, h), db) = (Inl (Transport (transport_error_of ProtocolError (Some False))), ((n1, h1), db))"
    unfolding execute_submits [OF assms(1)] .
  from protocol_error_fails [OF this assms(6)] clone show ?thesis by (simp add: failed_for_good_def)
qed

text \<open>An empty node, whose answer to the clone is cut off.\<close>

definition cut_off_answer :: "http_call \<Rightarrow> nat \<Rightarrow> http_answer" where
  "cut_off_answer c n =
     (if htMethod c \<noteq> GET then InvalidBody
      else if htPath c = ''/nodes/pve/qemu'' then answer_data (JArr [])
      else HttpStatus 404)"

lemma sample_candidates: "\<exists>rest. candidates (sample_px answer) i = 910005 # rest"
proof -
  have "takeWhile (\<lambda>c. radix_digit c < 16) (take 8 ''00000005'') = ''00000005''" by code_simp
  moreover have "foldl (\<lambda>n c. 16 * n + radix_digit c) 0 ''00000005'' = 5" by code_simp
  ultimately have "px_seed (sample_px answer) i = 5" by (simp only: px_seed_def sample_px_def px.simps)
  moreover have "[0 ..< nat (px_size (sample_px answer))] = 0 # [1 ..< 100]"
    by (simp add: px_size_def sample_px_def upt_conv_Cons)
  ultimately show ?thesis by (simp add: candidates_def sample_px_def px_size_def)
qed

lemma sample_create_checks:
  "context_allowed (sample_px answer) (call_context_of (sample_claim st) step)"
  "markers_allowed (sample_px answer) (call_context_of (sample_claim st) step) (ownership create_capability (sample_claim st))"
proof -
  have same: "irContext (sample_request step) = call_context_of (sample_claim st) step"
    "sample_markers = ownership create_capability (sample_claim st)"
    by (simp_all add: sample_request_def call_context_of_def sample_claim_def sample_markers_def ownership_def
        create_capability_def sample_command_def)
  show "context_allowed (sample_px answer) (call_context_of (sample_claim st) step)"
    using sample_checks(1) [of answer step] by (simp only: same)
  show "markers_allowed (sample_px answer) (call_context_of (sample_claim st) step) (ownership create_capability (sample_claim st))"
    using sample_checks(2) [of answer step] by (simp only: same)
qed

definition sample_clone :: http_call where
  "sample_clone = \<lparr>htMethod = POST, htPath = vm_path (sample_px cut_off_answer) 9000 @ ''/clone'',
     htBody = Some (clone_form (sample_px cut_off_answer) 910005 ''web-1'' (ownership create_capability (sample_claim SubmittingCreate)))\<rparr>"

lemma cut_off_create_run:
  "\<exists>l. px_mutate (sample_px cut_off_answer) (create_call (sample_claim SubmittingCreate)) 0 =
     (Inl protocol_refusal, l @ [(sample_clone, InvalidBody)], 3)"
proof -
  let ?X = "sample_px cut_off_answer" and ?w = "sample_claim SubmittingCreate"
  let ?m = "ownership create_capability ?w"
  let ?list = "\<lparr>htMethod = GET, htPath = ''/nodes/pve/qemu'', htBody = None\<rparr>"
  have listed: "listVms ?X 0 = (Inr [], [(?list, answer_data (JArr []))], Suc 0)"
    using request_data [of cut_off_answer ?list 0 "JArr []"]
    by (simp add: listVms_def px_get_def cut_off_answer_def is_defined_def h_bind_def h_return_def)
  obtain rest where cands: "candidates ?X (omInstanceId ?m) = 910005 # rest" using sample_candidates by blast
  have id: "omInstanceId ?m \<noteq> []"
    by (simp add: ownership_def sample_claim_def sample_instance_def sample_uuid_def)
  have free: "findOwnedOrFreeVmid ?X ?m 0 = (Inr 910005, [(?list, answer_data (JArr []))], Suc 0)"
    using id by (simp add: findOwnedOrFreeVmid_def h_bind_def [of "listVms ?X"] listed cands h_required_def h_return_def)
  have missing: "\<exists>l. vmConfig ?X 910005 True (Suc 0) = (Inr JNull, l, 2)"
    by (simp add: vmConfig_def h_catch_def px_get_def proxmox_request_def h_return_def sample_px_def cut_off_answer_def)
  have post: "px_send ?X POST (htPath sample_clone) (htBody sample_clone) 2 = (Inl protocol_refusal, [(sample_clone, InvalidBody)], 3)"
    by (simp add: px_send_def proxmox_request_def sample_px_def cut_off_answer_def sample_clone_def)
  have host: "brHostname (build_request_of sample_command) = ''web-1''" "hostname_pattern ''web-1''"
    "text_of (data_field sample_command ''imageId'') = ''ubuntu-24''"
    by (simp add: build_request_of_def sample_command_def sample_create_data_def data_field_def text_of_def
      payload_def create_json_def get_field_def, code_simp, simp add: sample_command_def sample_create_data_def data_field_def text_of_def
      payload_def create_json_def get_field_def)
  from missing obtain l where gone: "vmConfig ?X 910005 True (Suc 0) = (Inr JNull, l, 2)" by blast
  have cfg: "pxImageId (pxConfig ?X) = ''ubuntu-24''" "pxTemplateVmid (pxConfig ?X) = 9000" by (simp_all add: sample_px_def)
  have "submitCreateInstance ?X (call_context_of ?w ''create'') ''ubuntu-24'' (build_request_of sample_command) ?m 0 =
      (Inl protocol_refusal, ((?list, answer_data (JArr [])) # l) @ [(sample_clone, InvalidBody)], 3)"
    using post [unfolded sample_clone_def http_call.simps] sample_create_checks [of cut_off_answer SubmittingCreate "''create''"]
    by (simp add: submitCreateInstance_def run_assertContext run_assertOwnership cfg host
      h_bind_def [of "findOwnedOrFreeVmid ?X ?m"] free h_bind_def [of "vmConfig ?X 910005 True"] gone
      h_required_def h_bind_def [of "px_send ?X POST path body" for path body] sample_clone_def)
  then show ?thesis by (auto simp: create_call_def host)
qed

theorem unreadable_clone_counts_as_refused_witness:
  "\<exists>db' row. run_claimed create_capability execute_create (proxmox_ctx cut_off_answer) (sample_claim SubmittingCreate)
     (((), 0), sample_claimed) = (Inr (), (((), 3), db')) \<and>
   (\<exists>vmid host. clones (sample_px cut_off_answer) vmid host (ownership create_capability (sample_claim SubmittingCreate)) sample_clone) \<and>
   lookup_by wfOperationId sample_operation (workflows db') = Some row \<and> wfStatus row = ''failed''"
proof -
  let ?X = "proxmox_ctx cut_off_answer" and ?w = "sample_claim SubmittingCreate"
  have provider: "cxProvider ?X = proxmox_provider (\<lambda>_. Some 0) (\<lambda>n. (Delivered, n)) (sample_px cut_off_answer)"
    by (simp add: proxmox_ctx_def)
  have ids: "operationId (cwCommand ?w) = sample_operation" "cwFencingToken ?w = 1"
    by (simp_all add: sample_claim_def)
  from proxmox_settles [OF ids] obtain db' where settled: "finishFailure create_capability ?X ?w
      (plain_failure ''permanent'' ''PROVIDER_PROTOCOL_ERROR'' ''The create workflow could not continue safely.'')
      CompletionFailed (((), 3), sample_claimed) = (Inr (), (((), 3), db'))" by blast
  from cut_off_create_run obtain l where sent: "px_mutate (sample_px cut_off_answer) (create_call ?w) 0 =
      (Inl protocol_refusal, l @ [(sample_clone, InvalidBody)], 3)" by blast
  then have "pvMutate (cxProvider ?X) (create_call ?w) ((), 0) = (Inl (transport_error_of ProtocolError (Some False)), ((), 3))"
    unfolding provider by (intro provider_call_refused) (simp_all add: create_call_def)
  from mutate_transport [of ?X "create_call ?w", OF this]
  have "execute_create ?X ?w (((), 0), sample_claimed) =
      (Inl (Transport (transport_error_of ProtocolError (Some False))), (((), 3), sample_claimed))"
    by (simp add: execute_submits)
  then have run: "run_claimed create_capability execute_create ?X ?w (((), 0), sample_claimed) = (Inr (), (((), 3), db'))"
    using settled by (simp add: run_transport [where execute = execute_create] handleProviderError_def transport_error_of_def fail_def)
  have "htMethod sample_clone \<noteq> GET" by (simp add: sample_clone_def)
  from unreadable_clone_counts_as_refused [OF _ provider _ sent this run] run ids show ?thesis by auto
qed

subsection \<open>Where a creation puts the machine\<close>

text \<open>The identifiers a creation tries: each one of the reserved range, once, from a place given by the instance.\<close>

lemma candidates_cover:
  assumes "pxResourceIdMinimum (pxConfig X) \<le> pxResourceIdMaximum (pxConfig X)"
  shows "distinct (candidates X i) \<and> set (candidates X i) = {vmid. in_range (pxConfig X) vmid}"
proof -
  let ?n = "px_size X" and ?min = "pxResourceIdMinimum (pxConfig X)"
  let ?f = "\<lambda>offset. ?min + (int (px_seed X i) + int offset) mod ?n"
  have n: "0 < ?n" using assms by (simp add: px_size_def)
  have inj: "inj_on ?f {0 ..< nat ?n}"
  proof (rule inj_onI)
    fix a b assume ab: "a \<in> {0 ..< nat ?n}" "b \<in> {0 ..< nat ?n}" and "?f a = ?f b"
    then have "(int (px_seed X i) + int a) mod ?n = (int (px_seed X i) + int b) mod ?n" by simp
    then have "?n dvd (int a - int b)" by (simp add: mod_eq_dvd_iff)
    moreover have "\<bar>int a - int b\<bar> < ?n" using ab n by auto
    ultimately have "int a - int b = 0" using zdvd_not_zless [of "\<bar>int a - int b\<bar>" ?n] by force
    then show "a = b" by simp
  qed
  have dist: "distinct (candidates X i)" using inj by (simp add: candidates_def distinct_map)
  have sub: "set (candidates X i) \<subseteq> {vmid. in_range (pxConfig X) vmid}" using candidates_in_range by blast
  have range: "{vmid. in_range (pxConfig X) vmid} = {?min .. pxResourceIdMaximum (pxConfig X)}"
    by (auto simp: in_range_def)
  have "card (set (candidates X i)) = length (candidates X i)" by (rule distinct_card [OF dist])
  also have "\<dots> = nat ?n" by (simp add: candidates_def)
  finally have "card {vmid. in_range (pxConfig X) vmid} \<le> card (set (candidates X i))"
    unfolding range by (simp add: px_size_def)
  with sub have "set (candidates X i) = {vmid. in_range (pxConfig X) vmid}"
    by (intro card_seteq) (simp_all add: range)
  with dist show ?thesis by blast
qed

text \<open>A hypervisor that reports these machines with these configurations, and does not change on a read.\<close>

definition reports :: "'h px \<Rightarrow> 'h \<Rightarrow> json list \<Rightarrow> (int \<Rightarrow> json) \<Rightarrow> bool" where
  "reports X h machines conf \<longleftrightarrow>
     pxHypervisor X \<lparr>htMethod = GET, htPath = node_path X @ ''/qemu'', htBody = None\<rparr> h = (answer_data (JArr machines), h) \<and>
     (\<forall>vmid. JNum vmid \<in> set (map (\<lambda>m. optional_member m ''vmid'') machines) \<longrightarrow>
        pxHypervisor X (config_call X vmid) h = (answer_data (conf vmid), h) \<and> is_defined (conf vmid) \<and>
        parseOwnership (optional_member (conf vmid) ''description'') \<noteq> None)"

definition owned_by :: "(int \<Rightarrow> json) \<Rightarrow> ownership_markers \<Rightarrow> int \<Rightarrow> bool" where
  "owned_by conf m vmid \<longleftrightarrow>
     markersMatch (the (parseOwnership (optional_member (conf vmid) ''description''))) m"

lemma occupied_ids_listed: "occupied_ids machines = Some ids \<Longrightarrow> v \<in> set ids \<Longrightarrow>
    v \<in> set (map (\<lambda>m. optional_member m ''vmid'') machines)"
  by (induction machines arbitrary: ids)
    (auto simp: optional_member_def split: option.split_asm if_split_asm)

lemma probe_finds:
  assumes "\<And>vmid. JNum vmid \<in> set ids \<Longrightarrow> pxHypervisor X (config_call X vmid) h = (answer_data (conf vmid), h) \<and>
      is_defined (conf vmid) \<and> parseOwnership (optional_member (conf vmid) ''description'') \<noteq> None"
  shows "\<exists>l. probe X m ids vmids h =
    ((case List.find (\<lambda>vmid. JNum vmid \<notin> set ids \<or> owned_by conf m vmid) vmids of
        Some vmid \<Rightarrow> Inr vmid | None \<Rightarrow> Inl protocol_refusal), l, h)"
proof (induction vmids)
  case Nil
  show ?case by (simp add: h_throw_def)
next
  case (Cons vmid vmids)
  show ?case
  proof (cases "JNum vmid \<in> set ids")
    case False
    then show ?thesis by (simp add: List.member_iff h_return_def)
  next
    case True
    from assms [OF True] obtain pm
      where answer: "pxHypervisor X (config_call X vmid) h = (answer_data (conf vmid), h)" "is_defined (conf vmid)"
        and pm: "parseOwnership (optional_member (conf vmid) ''description'') = Some pm" by blast
    have read: "vmConfig X vmid False h = (Inr (conf vmid), [(config_call X vmid, answer_data (conf vmid))], h)"
      using answer by (simp add: vmConfig_def h_catch_def px_get_def proxmox_request_def config_call_def answer_data_def get_field_def)
    have own: "described_owned (conf vmid) m = h_return (owned_by conf m vmid)"
      by (simp add: described_owned_def owned_by_def pm)
    have step: "probe X m ids (vmid # vmids) h =
        (case (if owned_by conf m vmid then h_return vmid else probe X m ids vmids) h of
           (r, l, h2) \<Rightarrow> (r, (config_call X vmid, answer_data (conf vmid)) # l, h2))"
      using True by (simp add: h_bind_def [of "vmConfig X vmid False"] read own)
    show ?thesis
      using Cons.IH True unfolding step by (cases "owned_by conf m vmid") (auto simp: h_return_def)
  qed
qed

text \<open>
  C36. Where a creation puts its machine: while the node reports the same machines, the search returns the first
  identifier, of the whole reserved range in the order of the instance, that no machine has or whose machine carries the
  markers, and refuses when there is none. A repeated creation therefore finds its machine only when every
  identifier before it is still taken: one freed meanwhile is returned instead, and a second machine is cloned.
\<close>

theorem creation_takes_first_free_or_owned:
  assumes "pxResourceIdMinimum (pxConfig X) \<le> pxResourceIdMaximum (pxConfig X)"
    and "reports X h machines conf" and "occupied_ids machines = Some ids" and "omInstanceId m \<noteq> []"
  shows "distinct (candidates X (omInstanceId m)) \<and> set (candidates X (omInstanceId m)) = {vmid. in_range (pxConfig X) vmid} \<and>
    (\<exists>l. findOwnedOrFreeVmid X m h =
      ((case List.find (\<lambda>vmid. JNum vmid \<notin> set ids \<or> owned_by conf m vmid) (candidates X (omInstanceId m)) of
          Some vmid \<Rightarrow> Inr vmid | None \<Rightarrow> Inl protocol_refusal), l, h))"
proof -
  have listed: "listVms X h = (Inr machines, [(\<lparr>htMethod = GET, htPath = node_path X @ ''/qemu'', htBody = None\<rparr>,
      answer_data (JArr machines))], h)"
    using assms(2) by (simp add: listVms_def px_get_def proxmox_request_def reports_def h_bind_def answer_data_def
        get_field_def is_defined_def h_return_def)
  from probe_finds [of ids X h conf m "candidates X (omInstanceId m)"] occupied_ids_listed [OF assms(3)] assms(2)
  obtain l where "probe X m ids (candidates X (omInstanceId m)) h =
      ((case List.find (\<lambda>vmid. JNum vmid \<notin> set ids \<or> owned_by conf m vmid) (candidates X (omInstanceId m)) of
          Some vmid \<Rightarrow> Inr vmid | None \<Rightarrow> Inl protocol_refusal), l, h)"
    unfolding reports_def by blast
  then have "\<exists>l. findOwnedOrFreeVmid X m h =
      ((case List.find (\<lambda>vmid. JNum vmid \<notin> set ids \<or> owned_by conf m vmid) (candidates X (omInstanceId m)) of
          Some vmid \<Rightarrow> Inr vmid | None \<Rightarrow> Inl protocol_refusal), l, h)"
    using assms(3,4) by (simp add: findOwnedOrFreeVmid_def h_bind_def [of "listVms X"] listed h_required_def)
  with candidates_cover [OF assms(1)] show ?thesis by blast
qed

text \<open>The machine of the instance is the second candidate, the first one was freed: the search returns the first.\<close>

definition moved_answer :: "http_call \<Rightarrow> nat \<Rightarrow> http_answer" where
  "moved_answer c n =
     (if htPath c = ''/nodes/pve/qemu'' then answer_data (JArr [JObj [(''vmid'', JNum 910006)]])
      else answer_data (JObj [(''description'', JStr (ownershipDescription sample_markers))]))"

definition still_px :: "nat px" where
  "still_px = (sample_px moved_answer)\<lparr>pxHypervisor := (\<lambda>c n. (moved_answer c n, n))\<rparr>"

theorem creation_takes_first_free_or_owned_witness:
  "owned_by (\<lambda>_. JObj [(''description'', JStr (ownershipDescription sample_markers))]) sample_markers 910006 \<and>
   (\<exists>l. findOwnedOrFreeVmid still_px sample_markers 0 = (Inr 910005, l, 0))"
proof -
  let ?conf = "\<lambda>_. JObj [(''description'', JStr (ownershipDescription sample_markers))]"
  have same: "pxConfig still_px = pxConfig (sample_px moved_answer)" "node_path still_px = node_path (sample_px moved_answer)"
    "candidates still_px i = candidates (sample_px moved_answer) i" for i
    by (simp_all add: still_px_def node_path_def candidates_def px_size_def px_seed_def)
  have owned: "owned_by ?conf sample_markers 910006"
    by (simp add: owned_by_def optional_member_def get_field_def parse_description [OF sample_marked] parsed_match)
  have other: "htPath (config_call still_px vmid) \<noteq> ''/nodes/pve/qemu''" for vmid
    by (simp add: config_call_def vm_path_def same)
  have r: "reports still_px 0 [JObj [(''vmid'', JNum 910006)]] ?conf"
    using other by (simp add: reports_def still_px_def moved_answer_def node_path_def sample_node sample_px_def
      is_defined_def optional_member_def get_field_def parse_description [OF sample_marked] config_call_def)
  have b: "pxResourceIdMinimum (pxConfig still_px) \<le> pxResourceIdMaximum (pxConfig still_px)"
    by (simp add: same sample_px_def)
  have o: "occupied_ids [JObj [(''vmid'', JNum 910006)]] = Some [JNum 910006]" by (simp add: get_field_def)
  have i: "omInstanceId sample_markers \<noteq> []"
    by (simp add: sample_markers_def sample_instance_def sample_uuid_def)
  from creation_takes_first_free_or_owned [OF b r o i]
  have "\<exists>l. findOwnedOrFreeVmid still_px sample_markers 0 =
      ((case List.find (\<lambda>vmid. JNum vmid \<notin> set [JNum 910006] \<or> owned_by ?conf sample_markers vmid)
          (candidates still_px (omInstanceId sample_markers)) of Some vmid \<Rightarrow> Inr vmid | None \<Rightarrow> Inl protocol_refusal), l, 0)"
    by (elim conjE)
  then show ?thesis
    using owned sample_candidates [of moved_answer "omInstanceId sample_markers"] by (auto simp: same)
qed

subsection \<open>Markers survive every rewrite of the description\<close>

text \<open>
  C37. The marker survives: the description a creation, a configuration and a retention write, each as its form sends it, is read
  back as markers that match exactly the markers of the operation, so that a machine can be proven to be the one of
  the instance after each of them.
\<close>

theorem written_descriptions_prove_ownership:
  assumes "marked m"
  shows "\<forall>form \<in> {clone_form X vmid host m, configuration_form X host net0 r n keys m, retention_form m deadline}.
    \<exists>description pm. map_of form ''description'' = Some description \<and>
      parseOwnership (JStr description) = Some (Some pm) \<and> (\<forall>m'. markersMatch (Some pm) m' \<longleftrightarrow> m' = m)"
  using parse_description [OF assms] by (auto simp: clone_form_def configuration_form_def retention_form_def parsed_match)

theorem written_descriptions_prove_ownership_witness:
  "marked sample_markers \<and> (\<exists>description pm. map_of (retention_form sample_markers ''2026'') ''description'' = Some description \<and>
     parseOwnership (JStr description) = Some (Some pm) \<and> markersMatch (Some pm) sample_markers)"
  using written_descriptions_prove_ownership [OF sample_marked, of undefined 0 "[]" "[]" undefined undefined "[]" "''2026''"]
    sample_marked by blast

subsection \<open>Which disk a resize grows\<close>

text \<open>
  The disk whose size is compared is the first that is set; the disk that is grown is the first that is set to a text and is
  no CD-ROM. The size of a disk alone is the size the comparison reads when the machine has no other.
\<close>

definition machine_disks :: "json \<Rightarrow> (string \<times> json) list" where
  "machine_disks config = map (\<lambda>name. (name, optional_member config name)) [''scsi0'', ''virtio0'', ''sata0'']"

definition measured_disk :: "json \<Rightarrow> json" where
  "measured_disk config =
     nullish (optional_member config ''scsi0'') (nullish (optional_member config ''virtio0'') (optional_member config ''sata0''))"

definition resizable :: "json \<Rightarrow> bool" where
  "resizable v \<longleftrightarrow> json_truthy v \<and> value_includes v ''media=cdrom'' = Some False"

definition stated_size :: "json \<Rightarrow> int" where
  "stated_size v = disk_number (JObj [(''scsi0'', v)])"

lemma disk_number_measured: "disk_number config = stated_size (measured_disk config)"
  by (simp add: stated_size_def disk_number_def diskGiB_def measured_disk_def optional_member_def get_field_def nullish_def Let_def)

lemma measured_is_found:
  assumes "resizable (measured_disk config)" and "List.find (\<lambda>(name, v). resizable v) (machine_disks config) = Some (name, v)"
  shows "v = measured_disk config"
  using assms
  by (auto simp: machine_disks_def measured_disk_def resizable_def nullish_def value_includes_def split: if_split_asm json.split_asm)

lemma first_disk_found:
  assumes "first_disk disks h = (Inr name, l, h')"
  shows "\<exists>v. List.find (\<lambda>(name, v). resizable v) disks = Some (name, v)"
  using assms
proof (induction disks)
  case Nil
  then show ?case by (simp add: h_throw_def)
next
  case (Cons d disks)
  obtain n v where d: "d = (n, v)" by (cases d)
  show ?case
  proof (cases "value_includes v ''media=cdrom''")
    case None
    with Cons d show ?thesis by (auto simp: resizable_def h_require_def h_throw_def h_bind_def split: if_split_asm)
  next
    case (Some cdrom)
    with Cons d show ?thesis
      by (cases cdrom) (auto simp: resizable_def h_require_def h_return_def h_bind_def split: if_split_asm)
  qed
qed

lemma primaryDiskKey_yields:
  "yields (\<lambda>name. \<exists>v. List.find (\<lambda>(name, v). resizable v) (machine_disks config) = Some (name, v)) (primaryDiskKey config)"
  unfolding yields_def primaryDiskKey_def machine_disks_def by (intro allI impI) (rule first_disk_found)

definition grow_call :: "'h px \<Rightarrow> int \<Rightarrow> json \<Rightarrow> int \<Rightarrow> http_call \<Rightarrow> bool" where
  "grow_call X vmid config disk c \<longleftrightarrow> (htMethod c = PUT \<longrightarrow>
     disk_number config < disk \<and> htPath c = vm_path X vmid @ ''/resize'' \<and>
     (\<exists>name v. List.find (\<lambda>(name, v). resizable v) (machine_disks config) = Some (name, v) \<and>
       htBody c = Some [(''disk'', name), (''size'', show_int disk @ ''G'')]))"

lemma other_calls_grow [simp]: "htMethod c \<noteq> PUT \<Longrightarrow> grow_call X vmid config disk c"
  by (simp add: grow_call_def)

lemma grow_sends:
  "sends (grow_call X vmid config disk) (grow_disk X vmid config disk task)"
  unfolding grow_disk_def
proof (rule sends_if)
  assume "disk_number config < disk"
  then show "sends (grow_call X vmid config disk)
    (h_bind (primaryDiskKey config) (\<lambda>name.
        h_bind (px_send X PUT (vm_path X vmid @ ''/resize'') (Some [(''disk'', name), (''size'', show_int disk @ ''G'')]))
          (\<lambda>growTask. if json_truthy growTask then accepted_task X vmid growTask else accepted_or_done X vmid task)))"
    by (intro sends_bind_yields [OF _ primaryDiskKey_yields]) (auto simp: primaryDiskKey_def grow_call_def intro!: sends_intros)
qed (auto intro!: sends_intros)

text \<open>The run of a resize behind the proven machine, and what it requires of the requested sizes.\<close>

lemma resize_machine_cases:
  assumes "resizeVm X req t h = (r, l, h')"
  obtains (refused) e where "r = Inl e" "\<forall>e \<in> set l. htMethod (fst e) = GET"
    | (reads) vmid a config h1 l2 cpu memory disk where "l = (config_call X vmid, a) # l2" "delivers a config"
        "px_resize_target t = Some (cpu, memory, disk)" "disk_number config \<le> disk"
        "h_bind (currentStatus X vmid) (\<lambda>state. h_bind (read_member state ''lock'') (\<lambda>lock.
          if json_truthy lock then h_return locked_result
          else h_bind (px_send X POST (vm_path X vmid @ ''/config'') (Some (resize_form cpu memory)))
            (grow_disk X vmid config disk))) h1 = (r, l2, h')"
  using assms unfolding resizeVm_def
proof (cases rule: owned_machine_cases)
  case (refused e)
  then show ?thesis by (rule that(1))
next
  case (owned vmid a config h1 l2)
  show ?thesis
  proof (cases "px_resize_target t")
    case None
    with owned(4,7) show ?thesis by (intro that(1)) (auto simp: h_throw_def config_call_def)
  next
    case (Some target)
    then obtain cpu memory disk where t: "px_resize_target t = Some (cpu, memory, disk)" by (cases target) auto
    show ?thesis
    proof (cases "disk < disk_number config")
      case True
      with owned(4,7) t show ?thesis by (intro that(1)) (auto simp: h_throw_def config_call_def)
    next
      case False
      with owned(4,6,7) t show ?thesis by (intro that(2)) auto
    qed
  qed
qed

text \<open>
  C38. Which disk a resize grows, and to what: the one kind of request that changes a size names, of the machine whose
  configuration was read first, the first disk that is set and no CD-ROM, and states the requested size, at most 128 GiB. When
  the disk whose size was compared is itself no CD-ROM, it is the disk that is named, and the size it states is
  smaller than the requested one, so that disk is never shrunk. A size that cannot be read counts as none.
\<close>

theorem resize_grows_the_measured_disk:
  assumes "resizeVm X req t h = (r, l1 @ e # l2, h')" and "htMethod (fst e) = PUT"
  shows "\<exists>vmid a config disk name v. (config_call X vmid, a) \<in> set l1 \<and> delivers a config \<and>
    js_integer (js_number (rqDiskGib t)) = Some disk \<and> disk \<le> MAXIMUM_DISK_GIB \<and>
    htPath (fst e) = vm_path X vmid @ ''/resize'' \<and> htBody (fst e) = Some [(''disk'', name), (''size'', show_int disk @ ''G'')] \<and>
    List.find (\<lambda>(name, v). resizable v) (machine_disks config) = Some (name, v) \<and> stated_size (measured_disk config) < disk \<and>
    (resizable (measured_disk config) \<longrightarrow> v = measured_disk config \<and> stated_size v < disk)"
  using assms(1)
proof (cases rule: resize_machine_cases)
  case (refused err)
  with assms(2) show ?thesis by simp
next
  case (reads vmid a config h1 l cpu memory disk)
  from reads(1) assms(2) obtain l1' where l1: "l1 = (config_call X vmid, a) # l1'" "l = l1' @ e # l2"
    by (cases l1) (auto simp: config_call_def)
  have "sends (grow_call X vmid config disk) (h_bind (currentStatus X vmid) (\<lambda>state. h_bind (read_member state ''lock'') (\<lambda>lock.
      if json_truthy lock then h_return locked_result
      else h_bind (px_send X POST (vm_path X vmid @ ''/config'') (Some (resize_form cpu memory))) (grow_disk X vmid config disk))))"
    by (auto intro!: sends_intros grow_sends)
  from sends_on_run [OF this reads(5), of e] l1(2) assms(2) obtain name v
    where grown: "disk_number config < disk" "htPath (fst e) = vm_path X vmid @ ''/resize''"
      "List.find (\<lambda>(name, v). resizable v) (machine_disks config) = Some (name, v)"
      "htBody (fst e) = Some [(''disk'', name), (''size'', show_int disk @ ''G'')]" by (auto simp: grow_call_def)
  have bounds: "js_integer (js_number (rqDiskGib t)) = Some disk" "disk \<le> MAXIMUM_DISK_GIB"
    using reads(3) by (auto simp: px_resize_target_def MAXIMUM_DISK_GIB_def split: option.split_asm if_split_asm)
  have "stated_size (measured_disk config) < disk" using grown(1) by (simp add: disk_number_measured)
  then show ?thesis
    using grown(2-4) bounds reads(2) l1(1) measured_is_found [OF _ grown(3)] by (intro exI conjI) auto
qed

text \<open>The sizes that the sample machines state.\<close>

lemma sized_disk:
  assumes "first_some size_segment (split_on (CHR '','') d) = Some (show_int n)" and "0 \<le> n"
  shows "stated_size (JStr d) = n"
  using assms js_number_show_nat [of "nat n"]
  by (simp add: stated_size_def disk_number_def diskGiB_def optional_member_def get_field_def nullish_def js_integer_def show_int_def)

lemma sized_segment:
  assumes "js_number digits = Some n" and "decimal_pattern digits" and "unit_factor c = Some factor"
  shows "size_segment (''size='' @ digits @ [c]) = Some (show_int \<lceil>n * factor\<rceil>)"
proof -
  have "map lower_letter ''size='' = ''size=''" by code_simp
  moreover have "digits \<noteq> []" using assms(2) by (auto simp: decimal_pattern_def Let_def)
  ultimately show ?thesis using assms by (cases digits) (simp_all add: size_segment_def butlast_append)
qed

definition plain_disk :: string where "plain_disk = ''local:vm,size=20G''"
definition large_disk :: string where "large_disk = ''local:vm,size=64G''"
definition cdrom_disk :: string where "cdrom_disk = ''local:seed,media=cdrom,size=4M''"

lemma stated_sizes: "stated_size (JStr plain_disk) = 20" "stated_size (JStr large_disk) = 64" "stated_size (JStr cdrom_disk) = 1"
proof -
  have units: "unit_factor (CHR ''G'') = Some 1" "unit_factor (CHR ''M'') = Some (1 / 1024)" by code_simp+
  have chars: "char_of (50 :: nat) = CHR ''2''" "char_of (48 :: nat) = CHR ''0''" "char_of (54 :: nat) = CHR ''6''"
    "char_of (52 :: nat) = CHR ''4''" by code_simp+
  have digits: "show_nat 20 = ''20''" "show_nat 64 = ''64''" "show_nat 4 = ''4''"
    using chars by (simp_all add: show_nat.simps digit_char_def)
  have numbers: "js_number ''20'' = Some 20" "js_number ''64'' = Some 64" "js_number ''4'' = Some 4"
    using js_number_show_nat [of 20] js_number_show_nat [of 64] js_number_show_nat [of 4] by (simp_all add: digits)
  have patterns: "decimal_pattern ''20''" "decimal_pattern ''64''" "decimal_pattern ''4''" by code_simp+
  have parts: "split_on (CHR '','') plain_disk = [''local:vm'', ''size='' @ ''20'' @ ''G'']"
    "split_on (CHR '','') large_disk = [''local:vm'', ''size='' @ ''64'' @ ''G'']"
    "split_on (CHR '','') cdrom_disk = [''local:seed'', ''media=cdrom'', ''size='' @ ''4'' @ ''M'']" by code_simp+
  have none: "size_segment ''local:vm'' = None" "size_segment ''local:seed'' = None" "size_segment ''media=cdrom'' = None" by code_simp+
  have "\<lceil>4 * (1 / 1024 :: rat)\<rceil> = 1" by (simp add: ceiling_eq_iff)
  note sized = sized_segment [OF numbers(1) patterns(1) units(1)] sized_segment [OF numbers(2) patterns(2) units(1)]
    sized_segment [OF numbers(3) patterns(3) units(2)] this
  show "stated_size (JStr plain_disk) = 20"
    by (rule sized_disk; (simp only: parts first_some.simps none option.case sized)?; simp?)
  show "stated_size (JStr large_disk) = 64"
    by (rule sized_disk; (simp only: parts first_some.simps none option.case sized)?; simp?)
  show "stated_size (JStr cdrom_disk) = 1"
    by (rule sized_disk; (simp only: parts first_some.simps none option.case sized)?; simp?)
qed

text \<open>A resize of a machine with the given disks on the sample hypervisor, to 2 cores, 1 GiB and the given size.\<close>

definition disks_answer :: "(string \<times> json) list \<Rightarrow> http_call \<Rightarrow> nat \<Rightarrow> http_answer" where
  "disks_answer disks c n =
     (if htMethod c \<noteq> GET then answer_data (JStr ''UPID:1'')
      else if htPath c = ''/nodes/pve/qemu/910005/config''
      then answer_data (JObj ((''description'', JStr (ownershipDescription sample_markers)) # disks))
      else if htPath c = ''/nodes/pve/qemu/910005/status/current'' then answer_data (JObj [(''status'', JStr ''stopped'')])
      else HttpStatus 404)"

definition sample_sizes :: "nat \<Rightarrow> requested_resources" where
  "sample_sizes n = \<lparr>rqCpuCount = 2, rqMemoryMib = show_nat 1024, rqDiskGib = show_nat n\<rparr>"

definition sample_grow :: "string \<Rightarrow> nat \<Rightarrow> http_call" where
  "sample_grow name n = \<lparr>htMethod = PUT, htPath = ''/nodes/pve/qemu/910005/resize'',
     htBody = Some [(''disk'', name), (''size'', show_int (int n) @ ''G'')]\<rparr>"

lemma sample_resize_run:
  fixes disks :: "(string \<times> json) list"
  defines "config \<equiv> JObj ((''description'', JStr (ownershipDescription sample_markers)) # disks)"
  assumes "disk_number config < int n" and "1 \<le> n" "n \<le> 128" and "primaryDiskKey config = (h_return name :: (nat, string) hio)"
  shows "\<exists>l1. resizeVm (sample_px (disks_answer disks)) (sample_request ''resize'') (sample_sizes n) 0 =
     (Inr (px_accepted (sample_px (disks_answer disks)) 910005 ''UPID:1''),
      (\<lparr>htMethod = GET, htPath = ''/nodes/pve/qemu/910005/config'', htBody = None\<rparr>, answer_data config) #
        l1 @ (sample_grow name n, answer_data (JStr ''UPID:1'')) # [], 4)"
proof -
  let ?answer = "disks_answer disks"
  let ?X = "sample_px ?answer" and ?state = "JObj [(''status'', JStr ''stopped'')]"
    and ?get = "\<lparr>htMethod = GET, htPath = ''/nodes/pve/qemu/910005/status/current'', htBody = None\<rparr>"
    and ?post = "\<lparr>htMethod = POST, htPath = ''/nodes/pve/qemu/910005/config'', htBody = Some (resize_form 2 1024)\<rparr>"
  have status: "proxmox_request (pxHypervisor ?X) ?get (Suc 0) = (Inr ?state, [status_exchange], 2)"
    using request_data [of ?answer ?get 1 ?state] by (simp add: disks_answer_def is_defined_def status_exchange_def)
  have post: "proxmox_request (pxHypervisor ?X) ?post 2 = (Inr (JStr ''UPID:1''), [(?post, answer_data (JStr ''UPID:1''))], 3)"
    using request_data [of ?answer ?post 2 "JStr ''UPID:1''"] by (simp add: disks_answer_def is_defined_def)
  have put: "proxmox_request (pxHypervisor ?X) (sample_grow name n) 3 =
      (Inr (JStr ''UPID:1''), [(sample_grow name n, answer_data (JStr ''UPID:1''))], 4)"
    using request_data [of ?answer "sample_grow name n" 3 "JStr ''UPID:1''"]
    by (simp add: disks_answer_def is_defined_def sample_grow_def)
  have target: "px_resize_target (sample_sizes n) = Some (2, 1024, int n)"
    using assms(2-4) by (simp add: px_resize_target_def js_integer_def sample_sizes_def)
  have "resizeVm ?X (sample_request ''resize'') (sample_sizes n) 0 =
      (Inr (px_accepted ?X 910005 ''UPID:1''),
        (\<lparr>htMethod = GET, htPath = ''/nodes/pve/qemu/910005/config'', htBody = None\<rparr>, answer_data config) #
        [status_exchange, (?post, answer_data (JStr ''UPID:1'')), (sample_grow name n, answer_data (JStr ''UPID:1''))], 4)"
    unfolding resizeVm_def
  proof (rule described_machine_run)
  qed (use assms(2) in \<open>simp_all add: config_def disks_answer_def is_defined_def optional_member_def get_field_def target h_bind_def
      currentStatus_def px_get_def status px_send_def post read_member_def grow_disk_def assms(5) [unfolded config_def]
      put [unfolded sample_grow_def] sample_grow_def accepted_task_def task_text_def h_return_def\<close>)
  then show ?thesis by (intro exI [of _ "[status_exchange, (?post, answer_data (JStr ''UPID:1''))]"]) simp
qed

text \<open>A machine with one disk of 20 GiB, grown to 40.\<close>

theorem resize_grows_the_measured_disk_witness:
  "\<exists>config v. htBody (sample_grow ''scsi0'' 40) = Some [(''disk'', ''scsi0''), (''size'', show_int 40 @ ''G'')] \<and>
     List.find (\<lambda>(name, v). resizable v) (machine_disks config) = Some (''scsi0'', v) \<and>
     (resizable (measured_disk config) \<longrightarrow> v = measured_disk config \<and> stated_size v < 40)"
proof -
  let ?config = "JObj [(''description'', JStr (ownershipDescription sample_markers)), (''scsi0'', JStr plain_disk)]"
  have plain: "\<not> sublist ''media=cdrom'' plain_disk" "plain_disk \<noteq> []" by code_simp+
  have name: "primaryDiskKey ?config = (h_return ''scsi0'' :: (nat, string) hio)"
    using plain by (simp add: primaryDiskKey_def optional_member_def get_field_def value_includes_def)
  have "disk_number ?config < int 40"
    by (simp add: disk_number_measured measured_disk_def optional_member_def get_field_def nullish_def stated_sizes)
  from sample_resize_run [OF this _ _ name] obtain l1 where
    "resizeVm (sample_px (disks_answer [(''scsi0'', JStr plain_disk)])) (sample_request ''resize'') (sample_sizes 40) 0 =
     (Inr (px_accepted (sample_px (disks_answer [(''scsi0'', JStr plain_disk)])) 910005 ''UPID:1''),
      ((\<lparr>htMethod = GET, htPath = ''/nodes/pve/qemu/910005/config'', htBody = None\<rparr>, answer_data ?config) # l1) @
        (sample_grow ''scsi0'' 40, answer_data (JStr ''UPID:1'')) # [], 4)" by auto
  from resize_grows_the_measured_disk [OF this] obtain disk name v config where
    "htBody (sample_grow ''scsi0'' 40) = Some [(''disk'', name), (''size'', show_int disk @ ''G'')]"
    "js_integer (js_number (rqDiskGib (sample_sizes 40))) = Some disk"
    "resizable (measured_disk config) \<longrightarrow> v = measured_disk config \<and> stated_size v < disk"
    "List.find (\<lambda>(name, v). resizable v) (machine_disks config) = Some (name, v)"
    by (auto simp: sample_grow_def)
  then show ?thesis by (intro exI [of _ config] exI [of _ v]) (auto simp: sample_grow_def sample_sizes_def js_integer_def)
qed

lemma send_logged: "px_send X m path body h = (r, l, h') \<Longrightarrow> \<exists>a. l = [(\<lparr>htMethod = m, htPath = path, htBody = body\<rparr>, a)]"
  by (auto simp: px_send_def proxmox_request_def split: prod.split_asm)

lemma grow_disk_asks:
  assumes "grow_disk X vmid config disk task h = (Inr result, l, h')" and "disk_number config < disk"
    and "primaryDiskKey config h = (Inr name, [], h)"
  shows "\<exists>a l'. l = (\<lparr>htMethod = PUT, htPath = vm_path X vmid @ ''/resize'',
    htBody = Some [(''disk'', name), (''size'', show_int disk @ ''G'')]\<rparr>, a) # l'"
proof -
  from assms(1,2) have "h_bind (primaryDiskKey config) (\<lambda>name.
        h_bind (px_send X PUT (vm_path X vmid @ ''/resize'') (Some [(''disk'', name), (''size'', show_int disk @ ''G'')]))
          (\<lambda>growTask. if json_truthy growTask then accepted_task X vmid growTask else accepted_or_done X vmid task)) h =
      (Inr result, l, h')" by (simp add: grow_disk_def)
  then show ?thesis
    by (cases rule: h_bind_cases) (use assms(3) in \<open>auto elim!: h_bind_cases dest!: send_logged\<close>)
qed

text \<open>
  C39. A CD-ROM in front of the disk defeats the comparison: when \<^verbatim>\<open>scsi0\<close> is a CD-ROM and
  \<^verbatim>\<open>virtio0\<close> is the disk of the machine, a requested size above that of the CD-ROM, however small against the
  disk itself, is sent to the hypervisor as the new size of \<^verbatim>\<open>virtio0\<close>, in every run in which the operation is
  accepted. A size below the one of the disk, which the adapter means to refuse, is asked for all the same.
\<close>

theorem cdrom_defeats_the_disk_guard:
  assumes "resizeVm X req t h = (Inr result, (config_call X vmid, a) # l, h')" and "mrState result \<noteq> Some ResultRejected"
    and "delivers a config" and "optional_member config ''scsi0'' = JStr cdrom" and "sublist ''media=cdrom'' cdrom"
    and "optional_member config ''virtio0'' = JStr drive" and "drive \<noteq> []" and "\<not> sublist ''media=cdrom'' drive"
    and "js_integer (js_number (rqDiskGib t)) = Some disk" and "stated_size (JStr cdrom) < disk"
  shows "\<exists>e \<in> set l. htMethod (fst e) = PUT \<and> htPath (fst e) = vm_path X vmid @ ''/resize'' \<and>
    htBody (fst e) = Some [(''disk'', ''virtio0''), (''size'', show_int disk @ ''G'')]"
  using assms(1)
proof (cases rule: resize_machine_cases)
  case (refused e)
  then show ?thesis by simp
next
  case (reads vmid' a' config' h1 l2 cpu memory disk')
  have path: "vm_path X vmid' = vm_path X vmid" and l2: "l2 = l" and a: "a' = a"
    using reads(1) by (auto simp: config_call_def)
  have config: "config' = config" using reads(2) assms(3) a by (auto simp: delivers_def)
  have disk: "disk' = disk"
    using reads(3) assms(9) by (auto simp: px_resize_target_def split: option.split_asm if_split_asm)
  have below: "disk_number config < disk"
    using assms(4,10) by (simp add: disk_number_measured measured_disk_def nullish_def)
  have "cdrom \<noteq> []" using assms(5) by auto
  then have name: "primaryDiskKey config = h_return ''virtio0''"
    using assms(4-8) by (simp add: primaryDiskKey_def value_includes_def)
  from reads(5) obtain state h2 l3 where l3: "set l3 \<subseteq> set l2"
    and run: "h_bind (read_member state ''lock'') (\<lambda>lock. if json_truthy lock then h_return locked_result
      else h_bind (px_send X POST (vm_path X vmid' @ ''/config'') (Some (resize_form cpu memory)))
        (grow_disk X vmid' config' disk')) h2 = (Inr result, l3, h')"
    by (cases rule: h_bind_cases) auto
  from run obtain lock h3 l4 where l4: "set l4 \<subseteq> set l3" and run: "(if json_truthy lock then h_return locked_result
      else h_bind (px_send X POST (vm_path X vmid' @ ''/config'') (Some (resize_form cpu memory)))
        (grow_disk X vmid' config' disk')) h3 = (Inr result, l4, h')"
    by (cases rule: h_bind_cases) auto
  from run assms(2) have "h_bind (px_send X POST (vm_path X vmid' @ ''/config'') (Some (resize_form cpu memory)))
        (grow_disk X vmid' config' disk') h3 = (Inr result, l4, h')"
    by (auto simp: locked_result_def failure_result_def h_return_def split: if_split_asm)
  then obtain task h4 l5 where l5: "set l5 \<subseteq> set l4" and grow: "grow_disk X vmid' config' disk' task h4 = (Inr result, l5, h')"
    by (cases rule: h_bind_cases) auto
  have key: "primaryDiskKey config' h4 = (Inr ''virtio0'', [], h4)" by (simp add: name config h_return_def)
  from below have "disk_number config' < disk'" by (simp add: config disk)
  from grow_disk_asks [OF grow this key] obtain a5 l' where "l5 = (\<lparr>htMethod = PUT, htPath = vm_path X vmid @ ''/resize'',
      htBody = Some [(''disk'', ''virtio0''), (''size'', show_int disk @ ''G'')]\<rparr>, a5) # l'" by (auto simp: path disk)
  then have "(\<lparr>htMethod = PUT, htPath = vm_path X vmid @ ''/resize'',
      htBody = Some [(''disk'', ''virtio0''), (''size'', show_int disk @ ''G'')]\<rparr>, a5) \<in> set l"
    using l3 l4 l5 l2 by auto
  then show ?thesis by (rule rev_bexI) simp
qed

text \<open>The disk of the machine has 64 GiB, and the hypervisor is asked to give it 20.\<close>

theorem cdrom_defeats_the_disk_guard_witness:
  "stated_size (JStr large_disk) = 64 \<and> (\<exists>result l. resizeVm
       (sample_px (disks_answer [(''scsi0'', JStr cdrom_disk), (''virtio0'', JStr large_disk)])) (sample_request ''resize'') (sample_sizes 20) 0 =
       (Inr result, l, 4) \<and>
     (\<exists>e \<in> set l. htMethod (fst e) = PUT \<and> htBody (fst e) = Some [(''disk'', ''virtio0''), (''size'', show_int 20 @ ''G'')]))"
proof -
  let ?disks = "[(''scsi0'', JStr cdrom_disk), (''virtio0'', JStr large_disk)]"
  let ?config = "JObj ((''description'', JStr (ownershipDescription sample_markers)) # ?disks)" and ?X = "sample_px (disks_answer ?disks)"
    and ?read = "\<lparr>htMethod = GET, htPath = ''/nodes/pve/qemu/910005/config'', htBody = None\<rparr>"
  have disks: "sublist ''media=cdrom'' cdrom_disk" "cdrom_disk \<noteq> []" "large_disk \<noteq> []" "\<not> sublist ''media=cdrom'' large_disk" by code_simp+
  have members: "optional_member ?config ''scsi0'' = JStr cdrom_disk" "optional_member ?config ''virtio0'' = JStr large_disk"
    by (simp_all add: optional_member_def get_field_def)
  have name: "primaryDiskKey ?config = (h_return ''virtio0'' :: (nat, string) hio)"
    using disks by (simp add: primaryDiskKey_def members value_includes_def)
  have "disk_number ?config < int 20" by (simp add: disk_number_measured measured_disk_def members nullish_def stated_sizes)
  from sample_resize_run [OF this _ _ name] obtain l1 where run:
    "resizeVm ?X (sample_request ''resize'') (sample_sizes 20) 0 = (Inr (px_accepted ?X 910005 ''UPID:1''),
      (?read, answer_data ?config) # l1 @ (sample_grow ''virtio0'' 20, answer_data (JStr ''UPID:1'')) # [], 4)" by auto
  have read: "?read = config_call ?X 910005" by (simp add: config_call_def)
  have "\<exists>e \<in> set (l1 @ (sample_grow ''virtio0'' 20, answer_data (JStr ''UPID:1'')) # []). htMethod (fst e) = PUT \<and>
      htPath (fst e) = vm_path ?X 910005 @ ''/resize'' \<and> htBody (fst e) = Some [(''disk'', ''virtio0''), (''size'', show_int 20 @ ''G'')]"
    by (rule cdrom_defeats_the_disk_guard [OF run [unfolded read] _ _ members(1) disks(1) members(2) disks(3,4)])
      (simp_all add: px_accepted_def delivers_def answer_data_def get_field_def is_defined_def sample_sizes_def js_integer_def stated_sizes)
  with run show ?thesis using stated_sizes(2) by (intro conjI exI) auto
qed

end
