(* ===== verification/Proxmox_Boundary.thy ===== *)
theory Proxmox_Boundary
  imports Proxmox_Properties
begin

section \<open>Failures on their way to the workflows\<close>

text \<open>
  Every failure the Proxmox adapter throws has the retryability its code implies, which is what the client of the
  remote boundary gives it: so it arrives as it was thrown. The lemmas follow the operations of the adapter, as the lemmas on
  the requests they send do.
\<close>

named_theorems regular_intros "failures of composed computations"

definition regular_failure :: "adapter_error \<Rightarrow> bool" where
  "regular_failure e \<longleftrightarrow>
     (\<forall>t. as_transport_error e = Some t \<longrightarrow> (transportRetryable t \<longleftrightarrow> transportCode t \<noteq> ProtocolError))"

definition regular :: "('h, 'a) hio \<Rightarrow> bool" where
  "regular m \<longleftrightarrow> (\<forall>h e l h'. m h = (Inl e, l, h') \<longrightarrow> regular_failure e)"

lemma regularD: "regular m \<Longrightarrow> m h = (Inl e, l, h') \<Longrightarrow> regular_failure e"
  unfolding regular_def by blast

lemma regular_failures [simp]:
  "regular_failure protocol_refusal" "regular_failure LanguageError" "regular_failure (HttpFailure s)"
  "regular_failure (TransportFailure (transport_error_of c None))"
  "regular_failure (TransportFailure (transport_error_of Unavailable (Some True)))"
  by (simp_all add: regular_failure_def protocol_refusal_def transport_error_of_def)

lemma regular_return [regular_intros]: "regular (h_return a)"
  by (simp add: regular_def h_return_def)

lemma regular_throw [regular_intros]: "regular_failure e \<Longrightarrow> regular (h_throw e)"
  by (simp add: regular_def h_throw_def)

lemma regular_bind [regular_intros]:
  assumes "regular m" and "\<And>a. regular (f a)"
  shows "regular (h_bind m f)"
  unfolding regular_def
proof (intro allI impI)
  fix h e l h'
  assume "h_bind m f h = (Inl e, l, h')"
  then show "regular_failure e"
    by (cases rule: h_bind_cases) (use assms in \<open>auto dest: regularD\<close>)
qed

lemma regular_catch [regular_intros]:
  assumes "regular m" and "\<And>e. regular_failure e \<Longrightarrow> regular (f e)"
  shows "regular (h_catch m f)"
  using assms unfolding regular_def by (auto simp: h_catch_def split: prod.split_asm sum.split_asm) blast

lemma regular_lift [regular_intros]: "regular (h_require x)" "regular (h_assert c)" "regular (h_required v)"
  by (auto simp: h_require_def h_assert_def h_required_def intro: regular_intros split: option.split)

lemma regular_if [regular_intros]: "(c \<Longrightarrow> regular m) \<Longrightarrow> (\<not> c \<Longrightarrow> regular n) \<Longrightarrow> regular (if c then m else n)"
  by simp

lemma regular_request: "regular (proxmox_request H c)"
  by (auto simp: regular_def proxmox_request_def split: prod.split_asm http_answer.split_asm json.split_asm if_split_asm)

lemma regular_calls [regular_intros]: "regular (px_get X path)" "regular (px_send X m path body)"
  by (simp_all add: px_get_def px_send_def regular_request)

lemma regular_reads [regular_intros]:
  "regular (listVms X)" "regular (currentStatus X vmid)" "regular (vmConfig X vmid b)" "regular (read_member v k)"
  by (auto simp: listVms_def currentStatus_def vmConfig_def read_member_def intro!: regular_intros)

lemma regular_checks [regular_intros]:
  "regular (assertContext X c)" "regular (assertOwnership X m c)" "regular (assertVmid X v)"
  unfolding run_assertContext run_assertOwnership run_assertVmid
  by (auto intro!: regular_intros split: option.split)

lemma regular_requireOwnedConfig [regular_intros]: "regular (requireOwnedConfig X vmid m)"
  unfolding requireOwnedConfig_def by (intro regular_intros) simp_all

lemma regular_contents [regular_intros]: "regular (assertResources r config)" "regular (described_owned config m)"
  unfolding assertResources_def described_owned_def by (rule regular_lift | intro regular_intros)+

lemma regular_assertNetwork [regular_intros]: "regular (assertNetwork X n)"
  unfolding assertNetwork_def Let_def
  by (rule regular_bind) (rule regular_lift, auto intro: regular_throw regular_lift split: option.split)

lemma regular_names [regular_intros]: "regular (assertSnapshotName v)" "regular (decodeTask v)"
  unfolding assertSnapshotName_def decodeTask_def Let_def by (intro regular_intros regular_failures)+

lemma regular_results [regular_intros]: "regular (accepted_task X vmid u)" "regular (accepted_or_done X vmid u)"
proof -
  show task: "regular (accepted_task X vmid u)" for u
    unfolding accepted_task_def by (intro regular_intros regular_failures)
  show "regular (accepted_or_done X vmid u)"
    unfolding accepted_or_done_def by (intro regular_intros task)
qed

lemma regular_check_address [regular_intros]: "regular (check_address X address vmid summaries)"
  by (induction summaries) (auto intro!: regular_intros split: json.split)

lemma regular_probe [regular_intros]: "regular (probe X m occupied ids)"
  by (induction ids) (auto intro!: regular_intros)

lemma regular_search_owned [regular_intros]: "regular (search_owned X m summaries)"
  by (induction summaries) (auto intro!: regular_intros split: json.split)

lemma regular_searches [regular_intros]:
  "regular (assertIpv4Available X address vmid)" "regular (findOwnedOrFreeVmid X m)" "regular (findOwnedVmid X m)"
  by (auto simp: assertIpv4Available_def findOwnedOrFreeVmid_def findOwnedVmid_def intro!: regular_intros)

lemma regular_first_disk [regular_intros]: "regular (first_disk disks)"
  by (induction disks rule: first_disk.induct) (auto intro!: regular_intros)

lemma regular_owned_machine [regular_intros]:
  "(\<And>vmid m config. regular (k vmid m config)) \<Longrightarrow> regular (owned_machine X req k)"
  by (auto simp: owned_machine_def intro!: regular_intros)

lemma regular_steps [regular_intros]:
  "regular (grow_disk X vmid config disk task)" "regular (stop_if_running X vmid state)" "regular (prepareSnapshotMutation X req)"
  by (auto simp: grow_disk_def stop_if_running_def primaryDiskKey_def prepareSnapshotMutation_def intro!: regular_intros)

lemma regular_mutations: "regular (px_mutate X call)"
  by (cases call)
    (auto simp: submitCreateInstance_def applyInstanceConfiguration_def Let_def startInstance_def shutdownInstance_def
      stopInstance_def rebootInstance_def powerTransition_def resizeVm_def createVmSnapshot_def rollbackVmSnapshot_def
      deleteVmSnapshot_def markVmRetained_def purgeVm_def intro!: regular_intros split: option.split prod.split)

lemma regular_queries:
  "regular (getTask X c ref)" "regular (observeVm X req)" "regular (listVmSnapshots X req)"
  by (auto simp: getTask_def observeVm_def observed_vmid_def listVmSnapshots_def intro!: regular_intros split: option.split prod.split)

text \<open>What the workflow reads when the adapter throws.\<close>

definition arriving :: "adapter_error \<Rightarrow> transport_error" where
  "arriving e = (case as_transport_error e of Some t \<Rightarrow> t | None \<Rightarrow> transport_error_of ProtocolError (Some False))"

lemma regular_crosses: "regular_failure e \<Longrightarrow> transportError (rpcError e) = arriving e"
  unfolding arriving_def regular_failure_def
  by (cases "as_transport_error e")
    (simp_all add: transport_error_crosses, simp add: rpcError_def transportError_def transport_error_of_def)

lemma bound_failure: "m h = (Inl e, l, h') \<Longrightarrow> h_bind m f h = (Inl e, l, h')"
  by (simp add: h_bind_def)

lemma delivered_failure:
  assumes "regular m" and "N n = (Delivered, n')" and "m h = (Inl e, l, h')"
  shows "grpc_call N m (n, h) = (Inl (arriving e), (n', h'))" "grpc_call N (h_bind m f) (n, h) = (Inl (arriving e), (n', h'))"
proof -
  have "transportError (rpcError e) = arriving e" by (rule regular_crosses [OF regularD [OF assms(1,3)]])
  moreover have "h_bind m f h = (Inl e, l, h')" using assms(3) by (rule bound_failure)
  ultimately show "grpc_call N m (n, h) = (Inl (arriving e), (n', h'))"
    "grpc_call N (h_bind m f) (n, h) = (Inl (arriving e), (n', h'))"
    using assms(2,3) by (simp_all add: grpc_call_def)
qed

text \<open>The deadline of a retention and of a purge arrives as the text that was sent, when it is a canonical one after 1970.\<close>

lemma deadline_crosses:
  assumes "dateParse (toISOString deadline) = Some deadline" and "0 \<le> deadline"
  shows "wire_mutation dateParse (MarkInstanceRetained req (toISOString deadline)) = MarkInstanceRetained req (toISOString deadline)"
    and "wire_mutation dateParse (PurgeInstanceCall req auth (toISOString deadline)) = PurgeInstanceCall req auth (toISOString deadline)"
proof -
  have "toISOString deadline \<noteq> []" by (simp add: toISOString_def Let_def split: prod.split)
  then have "isoTimestamp (client_wireTimestamp dateParse (toISOString deadline)) = toISOString deadline"
    using assms by (simp add: client_wireTimestamp_def isoTimestamp_def millis_cross)
  then show "wire_mutation dateParse (MarkInstanceRetained req (toISOString deadline)) = MarkInstanceRetained req (toISOString deadline)"
    "wire_mutation dateParse (PurgeInstanceCall req auth (toISOString deadline)) = PurgeInstanceCall req auth (toISOString deadline)"
    by simp_all
qed

text \<open>
  C40. A failure reaches the workflows as the adapter threw it: when the remote library delivers a call and the
  operation throws a transport error, be it a mutation, a task query, an observation or a listing, the client raises a transport
  error with the same code and the same retryability, and with everything the operation did before kept; any other error
  arrives as a protocol error that is not retried.
\<close>

theorem adapter_failures_arrive_unchanged:
  assumes "N n = (Delivered, n')"
  shows "(\<forall>call h e l h'. px_mutate X (wire_mutation dateParse call) h = (Inl e, l, h') \<longrightarrow>
      pvMutate (proxmox_provider dateParse N X) call (n, h) = (Inl (arriving e), (n', h'))) \<and>
    (\<forall>c ref h e l h'. getTask X c ref h = (Inl e, l, h') \<longrightarrow>
      pvGetTask (proxmox_provider dateParse N X) c ref (n, h) = (Inl (arriving e), (n', h'))) \<and>
    (\<forall>req h e l h'. observeVm X req h = (Inl e, l, h') \<longrightarrow>
      pvObserve (proxmox_provider dateParse N X) req (n, h) = (Inl (arriving e), (n', h'))) \<and>
    (\<forall>req h e l h'. listVmSnapshots X req h = (Inl e, l, h') \<longrightarrow>
      pvListSnapshots (proxmox_provider dateParse N X) req (n, h) = (Inl (arriving e), (n', h')))"
proof (intro conjI allI impI)
  fix call h e l h'
  assume "px_mutate X (wire_mutation dateParse call) h = (Inl e, l, h')"
  from delivered_failure(2) [of _ N n n', OF regular_mutations [of X "wire_mutation dateParse call"] assms this]
  show "pvMutate (proxmox_provider dateParse N X) call (n, h) = (Inl (arriving e), (n', h'))" by (simp add: proxmox_provider_def)
next
  fix c ref h e l h'
  assume "getTask X c ref h = (Inl e, l, h')"
  from delivered_failure(1) [of _ N n n', OF regular_queries(1) [of X c ref] assms this]
  show "pvGetTask (proxmox_provider dateParse N X) c ref (n, h) = (Inl (arriving e), (n', h'))" by (simp add: proxmox_provider_def)
next
  fix req h e l h'
  assume "observeVm X req h = (Inl e, l, h')"
  from delivered_failure(2) [of _ N n n', OF regular_queries(2) [of X req] assms this]
  show "pvObserve (proxmox_provider dateParse N X) req (n, h) = (Inl (arriving e), (n', h'))"
    by (simp add: proxmox_provider_def controller_observe_def)
next
  fix req h e l h'
  assume "listVmSnapshots X req h = (Inl e, l, h')"
  from delivered_failure(2) [of _ N n n', OF regular_queries(3) [of X req] assms this]
  show "pvListSnapshots (proxmox_provider dateParse N X) req (n, h) = (Inl (arriving e), (n', h'))"
    by (simp add: proxmox_provider_def)
qed

text \<open>A hypervisor that does not answer in time: the start of a machine arrives as an exceeded deadline, to be retried.\<close>

theorem adapter_failures_arrive_unchanged_witness:
  "pvMutate (proxmox_provider (\<lambda>_. None) (\<lambda>n :: nat. (Delivered, Suc n)) (sample_px (\<lambda>_ _. FetchFailed DeadlineExceeded)))
     (StartInstance (sample_request ''start'')) (0, 0) =
   (Inl (ProviderTransportError DeadlineExceeded True), (1, 1))"
proof -
  let ?X = "sample_px (\<lambda>_ _. FetchFailed DeadlineExceeded)" and ?e = "TransportFailure (ProviderTransportError DeadlineExceeded True)"
  have config: "vmConfig ?X 910005 True 0 = (Inl ?e, [(\<lparr>htMethod = GET, htPath = ''/nodes/pve/qemu/910005/config'', htBody = None\<rparr>, FetchFailed DeadlineExceeded)], 1)"
    by (simp add: vmConfig_def h_catch_def px_get_def proxmox_request_def transport_error_of_def h_throw_def sample_px_def vm_path_def
        node_path_def sample_number sample_node)
  have rid: "irProviderResourceId (sample_request ''start'') = ''910005''" "irOwnershipMarkers (sample_request ''start'') = sample_markers"
    by (simp_all add: sample_request_def)
  have "\<exists>l. px_mutate ?X (wire_mutation (\<lambda>_. None) (StartInstance (sample_request ''start''))) 0 = (Inl ?e, l, 1)"
    by (simp add: startInstance_def owned_machine_def run_assertContext run_assertOwnership run_assertVmid sample_checks rid
        MAXIMUM_SAFE_INTEGER_def requireOwnedConfig_def h_bind_def [of "vmConfig ?X 910005 True"] h_bind_def [of "h_bind _ _"] config
        h_bind_assoc)
  then obtain l where "px_mutate ?X (wire_mutation (\<lambda>_. None) (StartInstance (sample_request ''start''))) 0 = (Inl ?e, l, 1)" by blast
  moreover have "arriving ?e = ProviderTransportError DeadlineExceeded True" by (simp add: arriving_def)
  ultimately show ?thesis
    using adapter_failures_arrive_unchanged [of "\<lambda>n :: nat. (Delivered, Suc n)" 0 1 ?X "\<lambda>_. None"] by simp
qed

end
