(* ===== verification/Spec2Isabelle.thy ===== *)
theory Spec2Isabelle
  imports Canonical_Json Workflow_Properties Control_Concurrency System_Properties Plan_Gate Consumer_Properties List_Properties Proxmox_Boundary
begin

text \<open>
  Verification of the private cloud control plane, a TypeScript system that lets tenants create and
  operate virtual machines through an audited, event-driven pipeline.

  The parts and how they interact. A request reaches the control plane service
  (\<^verbatim>\<open>packages/application/src/control-plane.ts\<close>), which authorizes it and runs one transaction of the
  control-plane store (\<^verbatim>\<open>packages/postgres-adapter/src/control-plane-store.ts\<close>). An accepted mutation
  leaves an operation, an audit entry, an idempotency record and a command row in an outbox table. A
  change-data connector publishes outbox rows to Kafka. The command consumer of the orchestrator
  (\<^verbatim>\<open>apps/provisioning-orchestrator\<close>) decodes a record and admits it into the workflow store
  (\<^verbatim>\<open>workflow-store.ts\<close>), where a worker claims it under a fencing token and runs its lifecycle workflow
  (\<^verbatim>\<open>packages/application/src/*-workflow.ts\<close>) step by step against a provider. The workflow store
  publishes progress and terminal events, which the projection consumer (\<^verbatim>\<open>apps/control-api\<close>) applies
  to the control tables and the read model (\<^verbatim>\<open>projection-store.ts\<close>). The reconciler compares instances
  with the provider and reports drift.

  Theories and code. Every table is a list of records, every transaction a function from the tables to
  \<open>error + result \<times> tables\<close>, so that an error leaves the tables as they were; clocks, fresh identifiers,
  hashes, the date parser and the trace propagator are the members of an \<open>env\<close>.

  \<^item> Prelude, Js, Js_Encoding, Json, Json_Parse, Canonical_Json: generic lemmas on tables and sums, the
    JavaScript strings, numbers, base64 and JSON the code uses, and the canonical hash of
    \<^verbatim>\<open>packages/domain\<close>. \<^verbatim>\<open>JSON.parse\<close> runs on fuel \<open>2 * length s + 1\<close>; \<open>parse_value_fuel\<close> shows that more
    fuel changes nothing, and \<open>parse_stringify\<close> that it reads back what \<^verbatim>\<open>JSON.stringify\<close> writes.
  \<^item> Domain: \<^verbatim>\<open>packages/domain/src/index.ts\<close>, with addresses as 32-bit words.
  \<^item> Workflow_Stage, Contracts, Event_Validation: the stages, the event types and every payload validator.
  \<^item> Workflow_Store: every method of \<^verbatim>\<open>workflow-store.ts\<close>. Workflow_Fencing: histories of its methods
    (\<open>store_step\<close>), the locales \<open>fenced_store\<close> and \<open>inbox\<close>, and what fencing, receipts and replay authority
    guarantee over any history. Samples and Provider_Samples: concrete inputs.
  \<^item> Provider_Port, Lifecycle_Workflow, Capabilities: the port to a provider (a parameter of the model) and
    the eight workflow executors. Workflow_Safety, Workflow_Steps: the locales \<open>lifecycle_capability\<close> and
    \<open>staged_capability\<close>, interpreted on each executor. Workflow_Properties: their results, the registry of
    \<^verbatim>\<open>workflow-registry.ts\<close> and the turn of the worker.
  \<^item> Control_Db, Control_Store, Control_Plane: the tables, the transactions and the service.
    Control_Acceptance: the abstract specification \<open>accepts\<close> of an acceptance, and that each method refines
    it. Control_Requests, Control_Invariant, Control_Idempotency, Control_Quota: requests as values, the
    invariants of the tables over all histories of requests, and the locales \<open>idempotent_store\<close> and
    \<open>idempotent_service\<close>. Control_Samples and Control_Properties: witnesses and results.
    Control_Concurrency: a create during which another transaction commits.
  \<^item> Page_Cursor, Keyset_Pages, Control_Lists: \<^verbatim>\<open>page-cursor.ts\<close>, the list queries of the store and the list
    methods of the service. The locale \<open>keyset\<close>, interpreted on both orders of the lists, states what a
    client sees that follows the cursors (\<open>follow\<close>, bounded by a number of requests that
    \<open>instance_listing_ends\<close> shows to be enough). List_Properties: the results.
  \<^item> Projection_Store, Reconciliation: every method of \<^verbatim>\<open>projection-store.ts\<close> and
    \<^verbatim>\<open>reconciliation-store.ts\<close>, and the sweep of \<^verbatim>\<open>reconciliation-worker.ts\<close>. Control_History and
    System_Properties: interleavings of requests, deliveries and reconciliations (\<open>run_steps\<close>), the
    agreement of read model and tables, and what the parts guarantee together.
  \<^item> Message_Codec, Kafka_Consumer: \<^verbatim>\<open>packages/messaging\<close>. Command_Consumer and Projection_Consumer: the two
    consumers. Command_Wire and Command_Publication: what an acceptance publishes is accepted by the
    validators and the routing of the orchestrator. Message_Transport: decoding does not depend on the
    order of members, so a row is decoded to the event it holds. Consumer_Safety and Projection_Safety:
    the locale \<open>durable_handler\<close>, interpreted on both consumers. Consumer_Properties: the results.
  \<^item> Ownership_Marker, Proxmox_Http, Proxmox_Provider: \<^verbatim>\<open>proxmox-provider.ts\<close> of
    \<^verbatim>\<open>packages/provider-adapters\<close>, over a hypervisor that is a parameter with a state of its own; a computation
    records its requests and their answers. Provider_Grpc: the remote call between the workflows and an adapter
    (\<^verbatim>\<open>provider-grpc.controller.ts\<close>, \<^verbatim>\<open>grpc-provider.client.ts\<close>), with the remote library as a parameter.
    Proxmox_Safety: what a computation may send (\<open>sends\<close>), and what proves a machine. Proxmox_Properties: the
    results, also for the workflows that run over this adapter. Proxmox_Boundary: what becomes of the
    failures of the adapter on their way to the workflows.
  \<^item> Plan_Gate: \<^verbatim>\<open>packages/provider-adapters/src/terraform/plan-gate.ts\<close>.

  What the groups of lemmas show. The workflow group: an unknown outcome of a mutation is parked as long as
  the lease holds, no success without an accepted answer about the resource, gated purges, bounded retries,
  one fenced write per step, refinement of the stage machine, and that an action with work is served by a
  worker whose turns do not throw. The fencing group: superseded tokens never write, settled workflows stay
  settled, an admitted command is a duplicate for ever, replays need authority. The control group:
  idempotent replies, refused key reuse, isolation of tenants, addresses, completeness of an acceptance, and a
  quota that two concurrent creates overrun. The system group: lifecycle commands wait for terminal events, the
  read model follows the tables, redelivery is harmless, ambiguity stops lifecycle commands (the replay of a dead
  letter remains possible). The messaging group: an accepted command within the bounds of its schema becomes a
  workflow and an oversized resize does not, no record is passed over, undecodable records are quarantined,
  bounded retries. The adapter group: only proven machines of the reserved range are changed, which disk a resize
  grows and when the guard against shrinking is defeated, markers survive every rewrite, failures arrive as they
  were thrown, and where the adapter and the workflows do not fit together.

  Assumptions that stay explicit. The connector delivers the columns of a row as configured in
  \<^verbatim>\<open>deploy/local/debezium/outbox-connector.json\<close>, with the members of the stored object in any order
  (\<open>carries\<close>); identifiers from the environment are UUIDs, the date parser reads what \<^verbatim>\<open>toISOString\<close>
  writes and the propagator keeps a trace valid (\<open>wire_env\<close>); catalog rows and inputs
  are within the bounds of the command schemas (\<open>wire_tables\<close>, \<open>wire_request\<close>): an assumption, since neither the
  database nor the remote calls enforce the upper ones. Transactions run one after another: locks are
  modelled as atomic steps, not as interleaved statements; the database runs them under
  \<^verbatim>\<open>READ COMMITTED\<close>, and Control_Concurrency has the interleaving of two creates that this hides. The database casts the
  text of a listed instant and identifier back to them (\<open>readable_key\<close>).

  Not modelled, and why. Timers, metrics, logs and traces have no effect on the tables. The broker, the
  database engine, the identity provider and the hypervisor are not code of the repository: they are
  parameters. The HTTP and gRPC glue, the console and its backend, the generated contracts beyond the
  types used, and the tools and deployment scripts are outside the core logic. Of the
  provider adapters, the fake provider and the Terraform adapter beyond its plan gate are left.
\<close>

end
